(* ===== verification/Prelude.thy ===== *)
theory Prelude
  imports Main "HOL-Library.Word" "HOL-Library.Char_ord" "HOL-Library.List_Lexorder"
begin

text \<open>
  Shared vocabulary of the development: Rust strings and their library operations, results
  with errors, the \<open>?\<close> operator, and the generic lemmas the components reuse.

  A Rust \<open>String\<close> is its sequence of bytes, a \<open>char list\<close>. The case and white-space
  functions (\<open>to_lowercase\<close>, \<open>to_uppercase\<close>, \<open>trim\<close>) are modelled on ASCII: on a string
  with non-ASCII letters or Unicode white space the library does more than the model.
  A \<open>Result<T, E>\<close> is the sum \<open>'e + 'a\<close> with \<open>Inl\<close> for \<open>Err\<close> and \<open>Inr\<close> for \<open>Ok\<close>.
\<close>

named_theorems str_simps \<open>rewriting of the modelled string operations\<close>
named_theorems res_simps \<open>rewriting of result combinators\<close>

section \<open>Results\<close>

text \<open>The \<open>?\<close> operator: return early on \<open>Err\<close>, continue with the value of \<open>Ok\<close>.\<close>

definition try_res :: "'e + 'a \<Rightarrow> ('a \<Rightarrow> 'e + 'b) \<Rightarrow> 'e + 'b" where
  "try_res r k = (case r of Inl e \<Rightarrow> Inl e | Inr x \<Rightarrow> k x)"

definition ok_or :: "'a option \<Rightarrow> 'e \<Rightarrow> 'e + 'a" where
  "ok_or v e = (case v of None \<Rightarrow> Inl e | Some x \<Rightarrow> Inr x)"

definition map_err :: "('e \<Rightarrow> 'f) \<Rightarrow> 'e + 'a \<Rightarrow> 'f + 'a" where
  "map_err f r = (case r of Inl e \<Rightarrow> Inl (f e) | Inr x \<Rightarrow> Inr x)"

definition is_ok :: "'e + 'a \<Rightarrow> bool" where
  "is_ok r = (case r of Inl _ \<Rightarrow> False | Inr _ \<Rightarrow> True)"

lemma try_res_simps [simp]:
  "try_res (Inl e) k = Inl e" "try_res (Inr x) k = k x"
  by (simp_all add: try_res_def)

lemma ok_or_simps [simp]:
  "ok_or None e = Inl e" "ok_or (Some x) e = Inr x"
  by (simp_all add: ok_or_def)

lemma map_err_simps [simp]:
  "map_err f (Inl e) = Inl (f e)" "map_err f (Inr x) = Inr x"
  by (simp_all add: map_err_def)

lemma is_ok_simps [simp]: "is_ok (Inr x)" "\<not> is_ok (Inl e)"
  by (simp_all add: is_ok_def)

lemma is_ok_iff: "is_ok r \<longleftrightarrow> (\<exists>x. r = Inr x)"
  by (cases r) simp_all

lemma try_res_Inr_iff [res_simps]: "try_res r k = Inr y \<longleftrightarrow> (\<exists>x. r = Inr x \<and> k x = Inr y)"
  by (cases r) simp_all

lemma try_res_Inl_iff [res_simps]:
  "try_res r k = Inl e \<longleftrightarrow> r = Inl e \<or> (\<exists>x. r = Inr x \<and> k x = Inl e)"
  by (cases r) simp_all

lemma ok_or_Inr_iff [res_simps]: "ok_or v e = Inr x \<longleftrightarrow> v = Some x"
  by (cases v) simp_all

lemma map_err_Inr_iff [res_simps]: "map_err f r = Inr x \<longleftrightarrow> r = Inr x"
  by (cases r) simp_all

lemma map_err_Inl_iff [res_simps]: "map_err f r = Inl e \<longleftrightarrow> (\<exists>e'. r = Inl e' \<and> e = f e')"
  by (cases r) auto

text \<open>A loop \<open>for x in xs { f(state, x)?; }\<close> over a mutable state.\<close>

fun fold_res :: "('s \<Rightarrow> 'a \<Rightarrow> 'e + 's) \<Rightarrow> 's \<Rightarrow> 'a list \<Rightarrow> 'e + 's" where
  "fold_res f s [] = Inr s"
| "fold_res f s (x # xs) = try_res (f s x) (\<lambda>s'. fold_res f s' xs)"

lemma fold_res_append:
  "fold_res f s (xs @ ys) = try_res (fold_res f s xs) (\<lambda>s'. fold_res f s' ys)"
  by (induction xs arbitrary: s) (auto simp: try_res_def split: sum.splits)

text \<open>An invariant kept by every successful step holds after a successful loop.\<close>

lemma fold_res_invariant:
  assumes "fold_res f s xs = Inr t" and "I s"
    and "\<And>s x s'. I s \<Longrightarrow> x \<in> set xs \<Longrightarrow> f s x = Inr s' \<Longrightarrow> I s'"
  shows "I t"
  using assms
proof (induction xs arbitrary: s)
  case Nil
  then show ?case by simp
next
  case (Cons x xs)
  from Cons.prems(1) obtain s' where s': "f s x = Inr s'" "fold_res f s' xs = Inr t"
    by (auto simp: res_simps)
  have "I s'" by (rule Cons.prems(3) [OF Cons.prems(2) _ s'(1)]) simp
  then show ?case
    by (rule Cons.IH [OF s'(2)]) (rule Cons.prems(3), simp_all)
qed

text \<open>\<open>iter.collect::<Result<Vec<_>, _>>()\<close>: the first error, or all values in order.\<close>

fun collect_res :: "('e + 'a) list \<Rightarrow> 'e + 'a list" where
  "collect_res [] = Inr []"
| "collect_res (r # rs) = try_res r (\<lambda>x. try_res (collect_res rs) (\<lambda>xs. Inr (x # xs)))"

lemma collect_res_Inr_iff: "collect_res rs = Inr xs \<longleftrightarrow> rs = map Inr xs"
  by (induction rs arbitrary: xs) (auto simp: res_simps Cons_eq_map_conv)

lemma collect_map_err: "collect_res (map (\<lambda>x. map_err (f x) (g x)) xs) = Inr ys \<longleftrightarrow> map g xs = map Inr ys"
proof (induction xs arbitrary: ys)
  case (Cons x xs)
  then show ?case by (cases ys) (auto simp: res_simps)
qed auto

lemma map_eq_Inr_iff: "(\<exists>ys. map g xs = map Inr ys) \<longleftrightarrow> (\<forall>x \<in> set xs. is_ok (g x))"
proof (induction xs)
  case (Cons x xs)
  show ?case using Cons by (cases "g x") (auto simp: Cons_eq_map_conv)
qed simp

lemma map_Inr_projr: "(\<And>r. r \<in> set rs \<Longrightarrow> is_ok r) \<Longrightarrow> map Inr (map projr rs) = rs"
  by (induction rs) (auto simp: is_ok_iff, metis sum.sel(2))

text \<open>"The first element with \<open>Q\<close>, all before it with \<open>P\<close>", unfolded by one element.\<close>

lemma first_split_Nil: "(\<exists>pre st post. [] = pre @ st # post \<and> (\<forall>x \<in> set pre. P x) \<and> Q st) \<longleftrightarrow> False"
  by simp

lemma first_split_Cons:
  "(\<exists>pre st post. s # sts = pre @ st # post \<and> (\<forall>x \<in> set pre. P x) \<and> Q st) \<longleftrightarrow>
   Q s \<or> (P s \<and> (\<exists>pre st post. sts = pre @ st # post \<and> (\<forall>x \<in> set pre. P x) \<and> Q st))"
  (is "?l \<longleftrightarrow> ?r")
proof
  assume ?l
  then obtain pre st post
    where "s # sts = pre @ st # post" "\<forall>x \<in> set pre. P x" "Q st" by blast
  then show ?r by (cases pre) auto
next
  assume ?r
  then show ?l
  proof
    assume "Q s"
    then show ?l by (intro exI [of _ "[]"] exI [of _ s] exI [of _ sts]) simp
  next
    assume "P s \<and> (\<exists>pre st post. sts = pre @ st # post \<and> (\<forall>x \<in> set pre. P x) \<and> Q st)"
    then obtain pre st post
      where "P s" "sts = pre @ st # post" "\<forall>x \<in> set pre. P x" "Q st" by blast
    then show ?l by (intro exI [of _ "s # pre"] exI [of _ st] exI [of _ post]) simp
  qed
qed

end
