(* ===== verification/Rust_Strings.thy ===== *)
theory Rust_Strings
  imports Prelude
begin

text \<open>
  The string operations of the Rust standard library that the code uses: \<open>strip_prefix\<close>,
  \<open>starts_with\<close>, \<open>contains\<close>, \<open>find\<close>, \<open>replace\<close>, \<open>split\<close> on a character, \<open>join\<close>, \<open>trim\<close>,
  \<open>to_lowercase\<close> and \<open>to_uppercase\<close>, with the facts about them that the components share.
  All of them are executable.
\<close>

section \<open>Prefixes and suffixes\<close>

fun strip_prefix :: "string \<Rightarrow> string \<Rightarrow> string option" where
  "strip_prefix [] s = Some s"
| "strip_prefix (p # ps) [] = None"
| "strip_prefix (p # ps) (c # cs) = (if p = c then strip_prefix ps cs else None)"

definition starts_with :: "string \<Rightarrow> string \<Rightarrow> bool" where
  "starts_with p s \<longleftrightarrow> strip_prefix p s \<noteq> None"

definition strip_suffix :: "string \<Rightarrow> string \<Rightarrow> string option" where
  "strip_suffix p s = map_option rev (strip_prefix (rev p) (rev s))"

definition ends_with :: "string \<Rightarrow> string \<Rightarrow> bool" where
  "ends_with p s \<longleftrightarrow> strip_suffix p s \<noteq> None"

lemma strip_prefix_Some_iff [str_simps]: "strip_prefix p s = Some r \<longleftrightarrow> s = p @ r"
  by (induction p s rule: strip_prefix.induct) auto

lemma strip_prefix_append [simp]: "strip_prefix p (p @ r) = Some r"
  by (simp add: strip_prefix_Some_iff)

lemma strip_suffix_Some_iff [str_simps]: "strip_suffix p s = Some r \<longleftrightarrow> s = r @ p"
proof -
  have "strip_suffix p s = Some r \<longleftrightarrow> strip_prefix (rev p) (rev s) = Some (rev r)"
    by (auto simp: strip_suffix_def)
  also have "\<dots> \<longleftrightarrow> s = r @ p"
    by (simp add: strip_prefix_Some_iff) (metis rev_append rev_rev_ident)
  finally show ?thesis .
qed

lemma starts_with_iff [str_simps]: "starts_with p s \<longleftrightarrow> (\<exists>r. s = p @ r)"
  by (cases "strip_prefix p s") (auto simp: starts_with_def strip_prefix_Some_iff)

lemma ends_with_iff [str_simps]: "ends_with p s \<longleftrightarrow> (\<exists>r. s = r @ p)"
proof -
  have "ends_with p s \<longleftrightarrow> (\<exists>r. strip_suffix p s = Some r)" by (simp add: ends_with_def)
  then show ?thesis by (simp add: strip_suffix_Some_iff)
qed

lemma strip_prefix_shorter: "strip_prefix p s = Some r \<Longrightarrow> p \<noteq> [] \<Longrightarrow> length r < length s"
  by (auto simp: strip_prefix_Some_iff)

lemma strip_prefix_hd_notin: "p \<noteq> [] \<Longrightarrow> hd p \<noteq> c \<Longrightarrow> strip_prefix p (c # s) = None"
  by (cases p) auto

section \<open>Searching\<close>

text \<open>\<open>s.find(c)\<close>: the index of the first occurrence; \<open>s.contains(p)\<close> for a string pattern.\<close>

fun find_char :: "char \<Rightarrow> string \<Rightarrow> nat option" where
  "find_char d [] = None"
| "find_char d (c # cs) = (if c = d then Some 0 else map_option Suc (find_char d cs))"

fun str_contains :: "string \<Rightarrow> string \<Rightarrow> bool" where
  "str_contains p [] \<longleftrightarrow> p = []"
| "str_contains p (c # cs) \<longleftrightarrow> starts_with p (c # cs) \<or> str_contains p cs"

lemma find_char_Some:
  "find_char d s = Some i \<Longrightarrow> i < length s \<and> s ! i = d \<and> d \<notin> set (take i s)"
  by (induction d s arbitrary: i rule: find_char.induct) (auto split: if_splits)

lemma find_char_None_iff: "find_char d s = None \<longleftrightarrow> d \<notin> set s"
  by (induction d s rule: find_char.induct) auto

lemma find_char_append: "d \<notin> set xs \<Longrightarrow> find_char d (xs @ d # ys) = Some (length xs)"
  by (induction xs) auto

lemma str_contains_iff: "str_contains p s \<longleftrightarrow> (\<exists>a b. s = a @ p @ b)"
proof (induction p s rule: str_contains.induct)
  case (1 p)
  then show ?case by auto
next
  case (2 p c cs)
  show ?case
  proof
    assume "str_contains p (c # cs)"
    then consider r where "c # cs = p @ r" | a b where "cs = a @ p @ b"
      using 2 by (auto simp: starts_with_iff)
    then show "\<exists>a b. c # cs = a @ p @ b"
      by cases (metis append_Nil, metis append_Cons)
  next
    assume "\<exists>a b. c # cs = a @ p @ b"
    then obtain a b where ab: "c # cs = a @ p @ b" by blast
    show "str_contains p (c # cs)"
    proof (cases a)
      case Nil
      with ab have "starts_with p (c # cs)" by (simp add: starts_with_iff)
      then show ?thesis by simp
    next
      case (Cons x a')
      then show ?thesis using ab 2 by auto
    qed
  qed
qed

section \<open>Replacing\<close>

text \<open>
  \<open>s.replace(pat, rep)\<close>: every non-overlapping occurrence from the left; an empty pattern
  matches before every character and at the end.
\<close>

function str_replace :: "string \<Rightarrow> string \<Rightarrow> string \<Rightarrow> string" where
  "str_replace pat rep [] = (if pat = [] then rep else [])"
| "str_replace pat rep (c # cs) =
     (if pat = [] then rep @ c # str_replace pat rep cs
      else case strip_prefix pat (c # cs) of
             Some rest \<Rightarrow> rep @ str_replace pat rep rest
           | None \<Rightarrow> c # str_replace pat rep cs)"
  by pat_completeness auto
termination
  by (relation "measure (\<lambda>(_, _, s). length s)") (auto dest: strip_prefix_shorter)

lemma str_replace_absent_hd:
  assumes "p \<noteq> []" and "hd p \<notin> set s"
  shows "str_replace p rep (s @ t) = s @ str_replace p rep t"
  using assms(2)
proof (induction s)
  case Nil
  then show ?case by simp
next
  case (Cons c s)
  then have "strip_prefix p (c # s @ t) = None"
    using assms(1) by (intro strip_prefix_hd_notin) auto
  with Cons assms(1) show ?case by simp
qed

lemma str_replace_absent: "p \<noteq> [] \<Longrightarrow> hd p \<notin> set s \<Longrightarrow> str_replace p rep s = s"
  using str_replace_absent_hd [of p s rep "[]"] by simp

lemma str_replace_here: "p \<noteq> [] \<Longrightarrow> str_replace p rep (p @ t) = rep @ str_replace p rep t"
proof -
  assume "p \<noteq> []"
  then obtain c cs where c: "p @ t = c # cs" by (cases p) auto
  then have "strip_prefix p (c # cs) = Some t" by (metis strip_prefix_append)
  with c \<open>p \<noteq> []\<close> show ?thesis by simp
qed

text \<open>Replacing a one-character pattern is a character-wise map.\<close>

lemma str_replace_char: "str_replace [d] rep s = concat (map (\<lambda>c. if c = d then rep else [c]) s)"
  by (induction s) auto

section \<open>Splitting and joining\<close>

fun str_split :: "char \<Rightarrow> string \<Rightarrow> string list" where
  "str_split d [] = [[]]"
| "str_split d (c # cs) =
     (if c = d then [] # str_split d cs
      else case str_split d cs of [] \<Rightarrow> [[c]] | w # ws \<Rightarrow> (c # w) # ws)"

fun str_join :: "string \<Rightarrow> string list \<Rightarrow> string" where
  "str_join sep [] = []"
| "str_join sep [x] = x"
| "str_join sep (x # y # ys) = x @ sep @ str_join sep (y # ys)"

lemma str_split_nonempty [simp]: "str_split d s \<noteq> []"
  by (induction d s rule: str_split.induct) (auto split: list.split)

lemma str_split_no_sep: "w \<in> set (str_split d s) \<Longrightarrow> d \<notin> set w"
  by (induction d s arbitrary: w rule: str_split.induct)
    (auto split: if_splits list.splits)

lemma str_join_Cons: "ys \<noteq> [] \<Longrightarrow> str_join sep (x # ys) = x @ sep @ str_join sep ys"
  by (cases ys) auto

lemma str_join_split [simp]: "str_join [d] (str_split d s) = s"
proof (induction d s rule: str_split.induct)
  case (1 d)
  then show ?case by simp
next
  case (2 d c cs)
  obtain w ws where w: "str_split d cs = w # ws" by (cases "str_split d cs") auto
  from 2 w show ?case by (cases ws) (auto simp: str_join_Cons)
qed

lemma str_split_absent: "d \<notin> set w \<Longrightarrow> str_split d w = [w]"
  by (induction w) auto

lemma str_split_append: "d \<notin> set w \<Longrightarrow> str_split d (w @ d # s) = w # str_split d s"
  by (induction w) auto

lemma str_split_join:
  "ws \<noteq> [] \<Longrightarrow> (\<And>w. w \<in> set ws \<Longrightarrow> d \<notin> set w) \<Longrightarrow> str_split d (str_join [d] ws) = ws"
proof (induction "[d]" ws rule: str_join.induct)
  case (3 x y ys)
  have "str_split d (x @ d # str_join [d] (y # ys)) = x # str_split d (str_join [d] (y # ys))"
    by (rule str_split_append) (simp add: 3)
  with 3 show ?case by simp
qed (auto simp: str_split_absent)

section \<open>ASCII case and white space\<close>

definition to_lower_char :: "char \<Rightarrow> char" where
  "to_lower_char c =
     (let n = (of_char c :: nat) in if 65 \<le> n \<and> n \<le> 90 then char_of (n + 32) else c)"

definition to_upper_char :: "char \<Rightarrow> char" where
  "to_upper_char c =
     (let n = (of_char c :: nat) in if 97 \<le> n \<and> n \<le> 122 then char_of (n - 32) else c)"

definition to_lowercase :: "string \<Rightarrow> string" where
  "to_lowercase = map to_lower_char"

definition to_uppercase :: "string \<Rightarrow> string" where
  "to_uppercase = map to_upper_char"

definition is_ws :: "char \<Rightarrow> bool" where
  "is_ws c \<longleftrightarrow> (of_char c :: nat) \<in> {9, 10, 11, 12, 13, 32}"

definition is_digit :: "char \<Rightarrow> bool" where
  "is_digit c \<longleftrightarrow> 48 \<le> (of_char c :: nat) \<and> (of_char c :: nat) \<le> 57"

definition is_alpha :: "char \<Rightarrow> bool" where
  "is_alpha c \<longleftrightarrow> (let n = (of_char c :: nat) in 65 \<le> n \<and> n \<le> 90 \<or> 97 \<le> n \<and> n \<le> 122)"

definition str_trim :: "string \<Rightarrow> string" where
  "str_trim s = rev (dropWhile is_ws (rev (dropWhile is_ws s)))"

lemma to_lower_char_idem [simp]: "to_lower_char (to_lower_char c) = to_lower_char c"
  by (auto simp: to_lower_char_def Let_def)

lemma to_lowercase_idem [simp]: "to_lowercase (to_lowercase s) = to_lowercase s"
  by (simp add: to_lowercase_def)

lemma to_lowercase_Nil [simp]: "to_lowercase [] = []"
  by (simp add: to_lowercase_def)

lemma str_trim_Nil [simp]: "str_trim [] = []"
  by (simp add: str_trim_def)

lemma str_trim_ends:
  "str_trim s \<noteq> [] \<Longrightarrow> \<not> is_ws (hd (str_trim s)) \<and> \<not> is_ws (last (str_trim s))"
proof -
  assume ne: "str_trim s \<noteq> []"
  define u where "u = dropWhile is_ws s"
  have t: "str_trim s = rev (dropWhile is_ws (rev u))" by (simp add: str_trim_def u_def)
  have "\<not> is_ws (hd (dropWhile is_ws (rev u)))"
    using ne t by (intro hd_dropWhile) auto
  moreover have "hd (str_trim s) = hd u" "u \<noteq> []"
  proof -
    obtain v where v: "u = str_trim s @ v"
      unfolding t by (metis rev_append rev_rev_ident takeWhile_dropWhile_id)
    then show "hd (str_trim s) = hd u" "u \<noteq> []" using ne by auto
  qed
  moreover have "u \<noteq> [] \<Longrightarrow> \<not> is_ws (hd u)" unfolding u_def by (rule hd_dropWhile)
  ultimately show ?thesis using ne t by (auto simp: last_rev)
qed

text \<open>\<open>split_once(c)\<close>\<close>

definition split_once :: "char \<Rightarrow> string \<Rightarrow> (string \<times> string) option" where
  "split_once d s = (case find_char d s of Some i \<Rightarrow> Some (take i s, drop (Suc i) s) | None \<Rightarrow> None)"

section \<open>Decimal rendering\<close>

fun show_nat :: "nat \<Rightarrow> string" where
  "show_nat n = (if n < 10 then [char_of (48 + n)] else show_nat (n div 10) @ [char_of (48 + n mod 10)])"

declare show_nat.simps [simp del]

lemma show_nat_nonempty [simp]: "show_nat n \<noteq> []"
  by (subst show_nat.simps) simp

section \<open>Decimal parsing\<close>

text \<open>The value of a string of digits, after the value of those already read.\<close>

fun digits_value :: "nat \<Rightarrow> string \<Rightarrow> nat option" where
  "digits_value acc [] = Some acc"
| "digits_value acc (c # cs) =
     (if is_digit c then digits_value (10 * acc + (of_char c - 48)) cs else None)"

text \<open>\<open>parse\<close> for an unsigned type: an optional plus sign, at least one digit, no overflow.\<close>

definition parse_unsigned :: "nat \<Rightarrow> string \<Rightarrow> nat option" where
  "parse_unsigned bound s =
     (let ds = (case s of c # cs \<Rightarrow> if c = CHR ''+'' then cs else s | [] \<Rightarrow> []) in
      if ds = [] then None
      else Option.bind (digits_value 0 ds) (\<lambda>n. if n < bound then Some n else None))"

text \<open>\<open>parse::<usize>\<close> and \<open>parse::<u64>\<close>.\<close>

definition parse_usize :: "string \<Rightarrow> nat option" where
  "parse_usize = parse_unsigned (2 ^ 64)"

text \<open>\<open>parse::<bool>\<close>\<close>

definition parse_bool :: "string \<Rightarrow> bool option" where
  "parse_bool s = (if s = ''true'' then Some True else if s = ''false'' then Some False else None)"

section \<open>Percent encoding\<close>

definition is_alphanumeric :: "char \<Rightarrow> bool" where
  "is_alphanumeric c \<longleftrightarrow> is_digit c \<or> is_alpha c"

definition upper_hex :: "nat \<Rightarrow> char" where
  "upper_hex n = (if n < 10 then char_of (48 + n) else char_of (55 + n))"

text \<open>\<open>utf8_percent_encode(s, NON_ALPHANUMERIC)\<close>\<close>

definition percent_encode :: "string \<Rightarrow> string" where
  "percent_encode s =
     concat (map (\<lambda>c. if is_alphanumeric c then [c]
                      else let n = (of_char c :: nat) in [CHR 0x25, upper_hex (n div 16), upper_hex (n mod 16)]) s)"

definition hex_value :: "char \<Rightarrow> nat" where
  "hex_value c = (let n = (of_char c :: nat) in if n < 58 then n - 48 else n - 55)"

fun percent_decode :: "string \<Rightarrow> string" where
  "percent_decode (c # a # b # s) =
     (if c = CHR 0x25 then char_of (16 * hex_value a + hex_value b) # percent_decode s
      else c # percent_decode (a # b # s))"
| "percent_decode s = s"

lemma hex_value_upper: "n < 16 \<Longrightarrow> hex_value (upper_hex n) = n"
  by (simp add: hex_value_def upper_hex_def of_char_of)

lemma upper_hex_alphanumeric: "n < 16 \<Longrightarrow> is_alphanumeric (upper_hex n)"
  by (simp add: upper_hex_def is_alphanumeric_def is_digit_def is_alpha_def Let_def of_char_of)

lemma percent_decode_other: "c \<noteq> CHR 0x25 \<Longrightarrow> percent_decode (c # s) = c # percent_decode s"
  by (cases s; cases "tl s") auto

lemma percent_not_alphanumeric: "\<not> is_alphanumeric (CHR 0x25)"
  by (simp add: is_alphanumeric_def is_digit_def is_alpha_def)

lemma byte_high_digit: "(of_char c :: nat) div 16 < 16"
proof -
  have "(of_char c :: nat) < 256" by (rule nat_of_char_less_256)
  then show ?thesis by (simp add: less_mult_imp_div_less)
qed

lemma percent_encode_chars: "list_all (\<lambda>c. c = CHR 0x25 \<or> is_alphanumeric c) (percent_encode s)"
  by (induction s) (auto simp: percent_encode_def Let_def byte_high_digit intro!: upper_hex_alphanumeric)

lemma percent_decode_encode: "percent_decode (percent_encode s) = s"
proof (induction s)
  case Nil
  then show ?case by (simp add: percent_encode_def)
next
  case (Cons c s)
  have e: "percent_encode (c # s) =
      (if is_alphanumeric c then [c]
       else [CHR 0x25, upper_hex (of_char c div 16), upper_hex (of_char c mod 16)]) @ percent_encode s"
    by (simp add: percent_encode_def Let_def)
  note lt = byte_high_digit [of c]
  show ?case
  proof (cases "is_alphanumeric c")
    case True
    then have "c \<noteq> CHR 0x25" using percent_not_alphanumeric by auto
    with True Cons show ?thesis by (simp add: e percent_decode_other)
  next
    case False
    have "16 * (of_char c div 16) + of_char c mod 16 = (of_char c :: nat)" by simp
    with False Cons lt show ?thesis by (simp add: e hex_value_upper)
  qed
qed

end
