(* ===== verification/Sql_Template.thy ===== *)
theory Sql_Template
  imports Rust_Strings
begin

text \<open>
  JSON parameter values, SQL literals and \<open>{name}\<close> templates: what the job executor
  (\<^verbatim>\<open>jobs/executor.rs\<close>) and the HTTP pipeline handler (\<^verbatim>\<open>server/src/pipeline_handlers.rs\<close>)
  share when they render parameters into SQL text. The loop of both is: for each expected
  name, replace every \<open>{name}\<close> in the text so far by the value's literal. The locale
  \<open>literal_renderer\<close> states what that loop needs of the literals and proves that it then
  computes the simultaneous substitution, in any order of the names.

  A JSON number is represented by the text its \<open>to_string\<close> gives (the number printer belongs
  to serde\_json).
\<close>

datatype json =
  JNull | JBool bool | JNumber string | JString string | JArray "json list"
| JObject "(string \<times> json) list"

text \<open>\<open>Value::get\<close> with a key: the field of an object.\<close>

definition json_get :: "string \<Rightarrow> json \<Rightarrow> json option" where
  "json_get k v = (case v of JObject kvs \<Rightarrow> map_of kvs k | _ \<Rightarrow> None)"

definition is_array :: "json \<Rightarrow> bool" where
  "is_array v = (case v of JArray _ \<Rightarrow> True | _ \<Rightarrow> False)"

definition bool_to_string :: "bool \<Rightarrow> string" where
  "bool_to_string b = (if b then ''true'' else ''false'')"

definition squote :: char where
  "squote = CHR 0x27"

text \<open>\<open>format!("'{}'", s.replace('\'', "''"))\<close>\<close>

definition sql_string_literal :: "string \<Rightarrow> string" where
  "sql_string_literal s = [squote] @ str_replace [squote] [squote, squote] s @ [squote]"

definition placeholder :: "string \<Rightarrow> string" where
  "placeholder name = ''{'' @ name @ ''}''"

section \<open>Reading a SQL string literal\<close>

text \<open>
  How a SQL lexer reads a literal or an identifier between quotes \<open>q\<close>: a doubled quote is one
  quote of the value, a single one ends it. The result is the value and the text after it.
\<close>

fun read_body :: "char \<Rightarrow> string \<Rightarrow> (string \<times> string) option" where
  "read_body q [] = None"
| "read_body q (c # cs) =
     (if c = q then
        (case cs of
           [] \<Rightarrow> Some ([], [])
         | d # ds \<Rightarrow>
             if d = q then map_option (\<lambda>(v, r). (q # v, r)) (read_body q ds)
             else Some ([], cs))
      else map_option (\<lambda>(v, r). (c # v, r)) (read_body q cs))"

fun read_quoted :: "char \<Rightarrow> string \<Rightarrow> (string \<times> string) option" where
  "read_quoted q [] = None"
| "read_quoted q (c # cs) = (if c = q then read_body q cs else None)"

definition read_sql_string :: "string \<Rightarrow> (string \<times> string) option" where
  "read_sql_string = read_quoted squote"

lemma read_body_quoted:
  assumes "rest = [] \<or> hd rest \<noteq> q"
  shows "read_body q (str_replace [q] [q, q] s @ q # rest) = Some (s, rest)"
proof (induction s)
  case Nil
  from assms show ?case by (cases rest) auto
next
  case (Cons c s)
  then show ?case by (cases "c = q") (auto simp: str_replace_char)
qed

lemma read_sql_string_literal:
  "rest = [] \<or> hd rest \<noteq> squote \<Longrightarrow> read_sql_string (sql_string_literal s @ rest) = Some (s, rest)"
  using read_body_quoted by (simp add: sql_string_literal_def read_sql_string_def)

text \<open>Double-quoted identifiers, and references of several segments joined by dots.\<close>

definition dquote :: char where
  "dquote = CHR 0x22"

definition quote_ident :: "string \<Rightarrow> string" where
  "quote_ident seg = [dquote] @ str_replace [dquote] [dquote, dquote] seg @ [dquote]"

lemma read_quote_ident:
  "rest = [] \<or> hd rest \<noteq> dquote \<Longrightarrow> read_quoted dquote (quote_ident seg @ rest) = Some (seg, rest)"
  using read_body_quoted by (simp add: quote_ident_def)

lemma read_body_shorter: "read_body q s = Some (v, r) \<Longrightarrow> length r < length s"
proof (induction q s arbitrary: v r rule: read_body.induct)
  case (2 q c cs)
  show ?case
  proof (cases "c = q")
    case True
    then show ?thesis using 2 by (cases cs) (fastforce split: if_splits)+
  next
    case False
    then show ?thesis using 2 by (auto intro: less_SucI)
  qed
qed simp

lemma read_quoted_shorter: "read_quoted q s = Some (v, r) \<Longrightarrow> length r < length s"
  by (cases s) (auto dest: read_body_shorter split: if_splits)

text \<open>How a SQL parser reads a compound reference: quoted segments with a dot between.\<close>

function read_table_ref :: "string \<Rightarrow> string list option" where
  "read_table_ref s =
     (case read_quoted dquote s of
        None \<Rightarrow> None
      | Some (seg, rest) \<Rightarrow>
          (case rest of
             [] \<Rightarrow> Some [seg]
           | c # rest' \<Rightarrow> if c = CHR ''.'' then map_option (\<lambda>segs. seg # segs) (read_table_ref rest')
                         else None))"
  by pat_completeness auto
termination
  by (relation "measure length") (auto dest: read_quoted_shorter)

declare read_table_ref.simps [simp del]

lemma read_quoted_segments:
  "segs \<noteq> [] \<Longrightarrow> read_table_ref (str_join ''.'' (map quote_ident segs)) = Some segs"
proof (induction segs)
  case (Cons seg segs)
  show ?case
  proof (cases segs)
    case Nil
    then show ?thesis using read_quote_ident [of "[]" seg]
      by (subst read_table_ref.simps) simp
  next
    case (Cons t ts)
    have "read_quoted dquote (quote_ident seg @ ''.'' @ str_join ''.'' (map quote_ident segs)) =
        Some (seg, ''.'' @ str_join ''.'' (map quote_ident segs))"
      by (rule read_quote_ident) (simp add: dquote_def)
    then show ?thesis using Cons.IH Cons
      by (subst read_table_ref.simps) (simp add: str_join_Cons)
  qed
qed simp

text \<open>The same with another quote and with the text after the reference.\<close>

function read_dotted :: "char \<Rightarrow> string \<Rightarrow> (string list \<times> string) option" where
  "read_dotted q s =
     (case read_quoted q s of
        None \<Rightarrow> None
      | Some (seg, rest) \<Rightarrow>
          (case rest of
             [] \<Rightarrow> Some ([seg], [])
           | c # rest' \<Rightarrow>
               if c = CHR ''.'' then map_option (\<lambda>(segs, r). (seg # segs, r)) (read_dotted q rest')
               else Some ([seg], rest)))"
  by pat_completeness auto
termination
  by (relation "measure (length \<circ> snd)") (auto dest: read_quoted_shorter)

declare read_dotted.simps [simp del]

lemma read_dotted_segments:
  assumes "segs \<noteq> []" and "rest = [] \<or> hd rest \<noteq> q \<and> hd rest \<noteq> CHR ''.''" and "q \<noteq> CHR ''.''"
    and ident: "\<And>seg r. r = [] \<or> hd r \<noteq> q \<Longrightarrow> read_quoted q (ident seg @ r) = Some (seg, r)"
  shows "read_dotted q (str_join ''.'' (map ident segs) @ rest) = Some (segs, rest)"
  using assms(1)
proof (induction segs)
  case (Cons seg segs)
  show ?case
  proof (cases segs)
    case Nil
    then show ?thesis using assms(2) ident [of rest seg]
      by (subst read_dotted.simps) (auto split: list.split)
  next
    case (Cons t ts)
    have "read_quoted q (ident seg @ ''.'' @ str_join ''.'' (map ident segs) @ rest) =
        Some (seg, ''.'' @ str_join ''.'' (map ident segs) @ rest)"
      by (rule ident) (use assms(3) in simp)
    then show ?thesis using Cons.IH Cons
      by (subst read_dotted.simps) (simp add: str_join_Cons)
  qed
qed simp


section \<open>Templates\<close>

datatype piece = Text string | Hole string

fun piece_text :: "piece \<Rightarrow> string" where
  "piece_text (Text t) = t"
| "piece_text (Hole p) = placeholder p"

definition template_text :: "piece list \<Rightarrow> string" where
  "template_text ps = concat (map piece_text ps)"

definition brace_free :: "string \<Rightarrow> bool" where
  "brace_free s \<longleftrightarrow> CHR ''{'' \<notin> set s \<and> CHR ''}'' \<notin> set s"

fun piece_wf :: "piece \<Rightarrow> bool" where
  "piece_wf (Text t) \<longleftrightarrow> CHR ''{'' \<notin> set t"
| "piece_wf (Hole p) \<longleftrightarrow> brace_free p"

text \<open>Filling one hole, and filling every hole of a set at once.\<close>

definition fill :: "string \<Rightarrow> string \<Rightarrow> piece \<Rightarrow> piece" where
  "fill p txt pc = (case pc of Hole q \<Rightarrow> (if q = p then Text txt else pc) | Text _ \<Rightarrow> pc)"

lemma fill_simps [simp]:
  "fill p l (Text t) = Text t" "fill p l (Hole q) = (if q = p then Text l else Hole q)"
  by (simp_all add: fill_def)

lemma placeholder_not_prefix:
  assumes "brace_free p" "brace_free q" "p \<noteq> q"
  shows "strip_prefix (placeholder p) (placeholder q @ rest) = None"
proof (rule ccontr)
  assume "strip_prefix (placeholder p) (placeholder q @ rest) \<noteq> None"
  then obtain r where eq: "q @ ''}'' @ rest = p @ ''}'' @ r"
    by (auto simp: strip_prefix_Some_iff placeholder_def)
  have "takeWhile (\<lambda>c. c \<noteq> CHR ''}'') (w @ ''}'' @ x) = w" if "brace_free w" for w x
    using that by (auto simp: brace_free_def takeWhile_append2 takeWhile_tail)
  with eq assms show False by metis
qed

lemma str_replace_template:
  assumes "brace_free p"
  shows "list_all piece_wf ps \<Longrightarrow>
    str_replace (placeholder p) lit (template_text ps) = template_text (map (fill p lit) ps)"
proof (induction ps)
  case Nil
  then show ?case by (simp add: template_text_def placeholder_def)
next
  case (Cons pc ps)
  have ne: "placeholder p \<noteq> []" "hd (placeholder p) = CHR ''{''" by (simp_all add: placeholder_def)
  have IH: "str_replace (placeholder p) lit (template_text ps) = template_text (map (fill p lit) ps)"
    using Cons by simp
  show ?case
  proof (cases pc)
    case (Text t)
    with Cons.prems have "CHR ''{'' \<notin> set t" by simp
    with ne IH Text show ?thesis
      by (simp add: template_text_def str_replace_absent_hd)
  next
    case (Hole q)
    show ?thesis
    proof (cases "q = p")
      case True
      with IH ne Hole show ?thesis by (simp add: template_text_def str_replace_here)
    next
      case False
      have q: "brace_free q" using Cons.prems Hole by simp
      have "str_replace (placeholder p) lit (placeholder q @ template_text ps) =
            CHR ''{'' # str_replace (placeholder p) lit ((q @ ''}'') @ template_text ps)"
        using placeholder_not_prefix [OF assms q] False ne
        by (simp add: placeholder_def [of q])
      also have "\<dots> = placeholder q @ str_replace (placeholder p) lit (template_text ps)"
        using q ne by (subst str_replace_absent_hd) (auto simp: brace_free_def placeholder_def)
      finally show ?thesis using IH Hole False by (simp add: template_text_def)
    qed
  qed
qed

text \<open>The values of the parameters after a renderer, and the simultaneous substitution.\<close>

definition fill_all :: "(string \<rightharpoonup> string) \<Rightarrow> string list \<Rightarrow> piece \<Rightarrow> piece" where
  "fill_all lits names pc =
     (case pc of
        Text t \<Rightarrow> Text t
      | Hole q \<Rightarrow> (if q \<in> set names then (case lits q of Some l \<Rightarrow> Text l | None \<Rightarrow> Hole q) else Hole q))"

lemma fill_all_simps [simp]:
  "fill_all lits names (Text t) = Text t"
  "fill_all lits names (Hole q) =
     (if q \<in> set names then (case lits q of Some l \<Rightarrow> Text l | None \<Rightarrow> Hole q) else Hole q)"
  by (simp_all add: fill_all_def)

definition render_template :: "(string \<rightharpoonup> string) \<Rightarrow> piece list \<Rightarrow> string" where
  "render_template lits ps =
     concat (map (\<lambda>pc. case pc of Text t \<Rightarrow> t
        | Hole q \<Rightarrow> (case lits q of Some l \<Rightarrow> l | None \<Rightarrow> placeholder q)) ps)"

definition template_holes :: "piece list \<Rightarrow> string set" where
  "template_holes ps = {q. Hole q \<in> set ps}"

text \<open>Values whose text has no opening brace.\<close>

fun brace_free_value :: "json \<Rightarrow> bool" where
  "brace_free_value (JString s) \<longleftrightarrow> CHR ''{'' \<notin> set s"
| "brace_free_value (JNumber n) \<longleftrightarrow> CHR ''{'' \<notin> set n"
| "brace_free_value (JArray vs) \<longleftrightarrow> list_all brace_free_value vs"
| "brace_free_value _ \<longleftrightarrow> True"

lemma sql_string_literal_chars: "c \<in> set (sql_string_literal s) \<longleftrightarrow> c = squote \<or> c \<in> set s"
  by (auto simp: sql_string_literal_def str_replace_char split: if_splits)

text \<open>
  The interface of the two renderers: the literal of a value (\<open>None\<close> when its type is not
  supported) and the values whose literal has no opening brace.
\<close>

locale literal_renderer =
  fixes lit :: "json \<Rightarrow> string option"
    and safe :: "json \<Rightarrow> bool"
  assumes lit_string: "lit (JString s) = Some (sql_string_literal s)"
    and lit_safe: "safe v \<Longrightarrow> lit v = Some t \<Longrightarrow> CHR ''{'' \<notin> set t"
begin

text \<open>The substitution loop, one supported value per name.\<close>

definition substitute_one :: "(string \<rightharpoonup> json) \<Rightarrow> string \<Rightarrow> string \<Rightarrow> string" where
  "substitute_one params sql name =
     (case Option.bind (params name) lit of
        Some l \<Rightarrow> str_replace (placeholder name) l sql | None \<Rightarrow> sql)"

definition literals :: "(string \<rightharpoonup> json) \<Rightarrow> string \<rightharpoonup> string" where
  "literals params name = Option.bind (params name) lit"

lemma substitute_names:
  assumes "list_all brace_free names" and "\<And>p v. params p = Some v \<Longrightarrow> safe v"
  shows "list_all piece_wf ps \<Longrightarrow>
    foldl (substitute_one params) (template_text ps) names =
    template_text (map (fill_all (literals params) names) ps)"
  using assms(1)
proof (induction names arbitrary: ps)
  case Nil
  have "fill_all (literals params) [] pc = pc" for pc
    by (cases pc) simp_all
  then show ?case by simp
next
  case (Cons n names)
  define ps' where
    "ps' = (case literals params n of Some l \<Rightarrow> map (fill n l) ps | None \<Rightarrow> ps)"
  have step: "substitute_one params (template_text ps) n = template_text ps'"
    using Cons.prems by (auto simp: substitute_one_def literals_def [symmetric] ps'_def
        str_replace_template split: option.split)
  have safe_l: "CHR ''{'' \<notin> set l" if "literals params n = Some l" for l
    using that assms(2) lit_safe by (auto simp: literals_def bind_eq_Some_conv)
  have wf': "list_all piece_wf ps'"
    using Cons.prems(1) safe_l
    by (auto simp: ps'_def fill_def list_all_iff split: option.splits piece.splits)
  have "fill_all (literals params) names (case literals params n of Some l \<Rightarrow> fill n l pc | None \<Rightarrow> pc)
      = fill_all (literals params) (n # names) pc" for pc
    by (cases pc) (auto split: option.split)
  then have "map (fill_all (literals params) names) ps' =
      map (fill_all (literals params) (n # names)) ps"
    by (cases "literals params n") (auto simp: ps'_def)
  with Cons.IH [OF wf'] Cons.prems(2) step show ?case by simp
qed

text \<open>When every hole is an expected name with a supported value, the loop renders the template.\<close>

lemma substitute_renders:
  assumes "list_all brace_free names" and "\<And>p v. params p = Some v \<Longrightarrow> safe v"
    and "list_all piece_wf ps" and "template_holes ps \<subseteq> set names"
  shows "foldl (substitute_one params) (template_text ps) names =
         render_template (literals params) ps"
proof -
  have "piece_text (fill_all (literals params) names pc) =
      (case pc of Text t \<Rightarrow> t
       | Hole q \<Rightarrow> (case literals params q of Some l \<Rightarrow> l | None \<Rightarrow> placeholder q))"
    if "pc \<in> set ps" for pc
  proof (cases pc)
    case (Hole q)
    then have "q \<in> set names" using that assms(4) by (auto simp: template_holes_def)
    with Hole show ?thesis by (simp split: option.split)
  qed simp
  then show ?thesis
    using substitute_names [OF assms(1,2,3)]
    by (simp add: template_text_def render_template_def o_def cong: map_cong)
qed

end

end
