(* ===== verification/Data_Sources.thy ===== *)
theory Data_Sources
  imports Rust_Strings "HOL-Library.Multiset" "HOL-Library.Product_Lexorder"
begin

text \<open>
  The provider layer's shared types and helpers: \<open>AccessMode\<close>
  (\<^verbatim>\<open>sources/access_mode.rs\<close>), \<open>DataSourceType\<close> (\<^verbatim>\<open>sources/data_source_type.rs\<close>), and
  \<open>HierarchyLevel\<close>, \<open>SourceLabel\<close>, \<open>parse_allowed_schemas\<close>, \<open>retry_with_timeout\<close> and
  \<open>build_catalog\<close> (\<^verbatim>\<open>sources/hierarchy/mod.rs\<close>). The operation that \<open>retry_with_timeout\<close>
  drives is a function of the attempt number; the catalog provider of DataFusion that
  \<open>build_catalog\<close> fills is a parameter.
\<close>

section \<open>Access modes\<close>

datatype access_mode = ReadOnly | ReadWrite

definition access_mode_default :: access_mode where
  "access_mode_default = ReadOnly"

definition is_read_write :: "access_mode \<Rightarrow> bool" where
  "is_read_write m = (case m of ReadWrite \<Rightarrow> True | _ \<Rightarrow> False)"

definition is_read_only :: "access_mode \<Rightarrow> bool" where
  "is_read_only m = (case m of ReadOnly \<Rightarrow> True | _ \<Rightarrow> False)"

text \<open>Modes are ordered by what they permit, so that "more permissive" can be stated.\<close>

instantiation access_mode :: linorder
begin

definition less_eq_access_mode :: "access_mode \<Rightarrow> access_mode \<Rightarrow> bool" where
  "less_eq_access_mode a b \<longleftrightarrow> a = ReadOnly \<or> b = ReadWrite"

definition less_access_mode :: "access_mode \<Rightarrow> access_mode \<Rightarrow> bool" where
  "less_access_mode a b \<longleftrightarrow> a = ReadOnly \<and> b = ReadWrite"

instance
proof
  fix x y z :: access_mode
  show "x < y \<longleftrightarrow> x \<le> y \<and> \<not> y \<le> x" "x \<le> x"
    "x \<le> y \<Longrightarrow> y \<le> z \<Longrightarrow> x \<le> z" "x \<le> y \<Longrightarrow> y \<le> x \<Longrightarrow> x = y" "x \<le> y \<or> y \<le> x"
    by (cases x; cases y; cases z; simp add: less_eq_access_mode_def less_access_mode_def)+
qed

end

lemma is_read_write_iff [simp]: "is_read_write m \<longleftrightarrow> m = ReadWrite"
  by (cases m) (simp_all add: is_read_write_def)

lemma is_read_only_iff [simp]: "is_read_only m \<longleftrightarrow> m = ReadOnly"
  by (cases m) (simp_all add: is_read_only_def)

section \<open>Source types and labels\<close>

datatype data_source_type =
  Csv | Parquet | Postgres | Mysql | Sqlite | Iceberg | Mongo | Redis | Lance | Seekdb
| Influxdb | Documents

fun data_source_type_as_str :: "data_source_type \<Rightarrow> string" where
  "data_source_type_as_str Csv = ''csv''"
| "data_source_type_as_str Parquet = ''parquet''"
| "data_source_type_as_str Postgres = ''postgres''"
| "data_source_type_as_str Mysql = ''mysql''"
| "data_source_type_as_str Sqlite = ''sqlite''"
| "data_source_type_as_str Iceberg = ''iceberg''"
| "data_source_type_as_str Mongo = ''mongo''"
| "data_source_type_as_str Redis = ''redis''"
| "data_source_type_as_str Lance = ''lance''"
| "data_source_type_as_str Seekdb = ''seekdb''"
| "data_source_type_as_str Influxdb = ''influxdb''"
| "data_source_type_as_str Documents = ''documents''"

lemma data_source_type_as_str_inj:
  "data_source_type_as_str s = data_source_type_as_str t \<Longrightarrow> s = t"
  by (cases s; cases t; simp)

datatype hierarchy_level = TableLevel | CatalogLevel

fun hierarchy_level_as_str :: "hierarchy_level \<Rightarrow> string" where
  "hierarchy_level_as_str TableLevel = ''table''"
| "hierarchy_level_as_str CatalogLevel = ''catalog''"

record source_label =
  sl_kind :: data_source_type
  sl_hierarchy :: hierarchy_level
  sl_name :: string

definition quote :: string where
  "quote = [CHR 0x27]"

definition source_label_display :: "source_label \<Rightarrow> string" where
  "source_label_display l =
     data_source_type_as_str (sl_kind l) @ '' '' @ hierarchy_level_as_str (sl_hierarchy l)
     @ '' '' @ quote @ sl_name l @ quote"

section \<open>The \<open>allowed_schemas\<close> option\<close>

definition parse_allowed_schemas :: "(string \<rightharpoonup> string) option \<Rightarrow> string list option" where
  "parse_allowed_schemas options =
     (case Option.bind options (\<lambda>opts. opts ''allowed_schemas'') of
        None \<Rightarrow> None
      | Some value \<Rightarrow>
          (let values = filter (\<lambda>s. s \<noteq> []) (map str_trim (str_split (CHR '','') value))
           in if values = [] then None else Some values))"

section \<open>Retrying with a timeout\<close>

text \<open>
  One attempt of the operation under \<open>tokio::time::timeout\<close>: it finished with a value or an
  error, or the timeout fired. The loop keeps the last error; the second component of the
  result counts the calls made.
\<close>

datatype 'a attempt = Done 'a | Failed string | TimedOut

datatype retry_error = OpError string | TimeoutError string string | NoAttempts

definition MAX_RETRIES :: nat where
  "MAX_RETRIES = 3"

definition CONNECT_TIMEOUT_SECS :: nat where
  "CONNECT_TIMEOUT_SECS = 5"

definition timeout_message :: "string \<Rightarrow> string \<Rightarrow> retry_error" where
  "timeout_message op_name label = TimeoutError op_name label"

fun retry_loop ::
  "string \<Rightarrow> string \<Rightarrow> (nat \<Rightarrow> 'a attempt) \<Rightarrow> nat list \<Rightarrow> retry_error option \<Rightarrow> nat
   \<Rightarrow> (retry_error + 'a) \<times> nat" where
  "retry_loop label op_name op [] last_err calls =
     (Inl (case last_err of Some e \<Rightarrow> e | None \<Rightarrow> NoAttempts), calls)"
| "retry_loop label op_name op (attempt # rest) last_err calls =
     (case op attempt of
        Done v \<Rightarrow> (Inr v, Suc calls)
      | Failed e \<Rightarrow> retry_loop label op_name op rest (Some (OpError e)) (Suc calls)
      | TimedOut \<Rightarrow>
          retry_loop label op_name op rest (Some (timeout_message op_name label)) (Suc calls))"

definition retry_with_timeout ::
  "source_label \<Rightarrow> string \<Rightarrow> (nat \<Rightarrow> 'a attempt) \<Rightarrow> (retry_error + 'a) \<times> nat" where
  "retry_with_timeout label op_name op =
     retry_loop (source_label_display label) op_name op [1..<MAX_RETRIES + 1] None 0"

definition attempt_ok :: "'a attempt \<Rightarrow> bool" where
  "attempt_ok a = (case a of Done _ \<Rightarrow> True | _ \<Rightarrow> False)"

lemma retry_attempts: "[1..<MAX_RETRIES + 1] = [1, 2, 3]"
  by (simp add: MAX_RETRIES_def upt_rec numeral_eq_Suc)


fun attempt_result :: "source_label \<Rightarrow> string \<Rightarrow> 'a attempt \<Rightarrow> retry_error + 'a" where
  "attempt_result l n (Done v) = Inr v"
| "attempt_result l n (Failed e) = Inl (OpError e)"
| "attempt_result l n TimedOut = Inl (timeout_message n (source_label_display l))"

text \<open>
  The retry loop makes at most three calls: it returns the outcome of the first
  successful attempt and stops there, and when no attempt succeeds it reports the error of
  the third one (a timeout error naming the operation when that attempt timed out), never
  the "no attempts were made" fallback.
\<close>

theorem retry_with_timeout_spec:
  "retry_with_timeout l n op =
     (let k = (if attempt_ok (op 1) then 1 else if attempt_ok (op 2) then 2 else 3)
      in (attempt_result l n (op k), k))"
  unfolding retry_with_timeout_def retry_attempts Let_def
  by (cases "op 1"; cases "op 2"; cases "op 3"; simp add: attempt_ok_def)

section \<open>Building a catalog\<close>

text \<open>
  DataFusion's \<open>MemoryCatalogProvider\<close> is a parameter: a type \<open>'c\<close> with the test and the
  two registrations the code calls. The table factories are driven concurrently, so the
  order in which they complete (\<open>completion\<close>, a list of indices) is a parameter too. The
  session's catalogs are a map from names to providers.
\<close>

record 'c catalog_ops =
  has_schema :: "'c \<Rightarrow> string \<Rightarrow> bool"
  register_schema :: "'c \<Rightarrow> string \<Rightarrow> string + 'c"

record ('c, 'p) table_ops = "'c catalog_ops" +
  register_table :: "'c \<Rightarrow> string \<Rightarrow> string \<Rightarrow> 'p \<Rightarrow> string + 'c"

datatype build_error =
  TableBuildFailed string string string string
| SchemaRegisterFailed string string string
| SchemaNotFound string string
| TableRegisterFailed string string string string

definition build_provider ::
  "string \<Rightarrow> (string \<Rightarrow> string \<Rightarrow> string + 'p) \<Rightarrow> string \<times> string
   \<Rightarrow> build_error + (string \<times> string) \<times> 'p" where
  "build_provider catalog_name build_table st =
     (case st of (schema, table_name) \<Rightarrow>
        (case build_table schema table_name of
           Inl e \<Rightarrow> Inl (TableBuildFailed schema table_name catalog_name e)
         | Inr provider \<Rightarrow> Inr ((schema, table_name), provider)))"

definition register_prepared ::
  "('c, 'p) table_ops \<Rightarrow> string \<Rightarrow> 'c \<Rightarrow> (string \<times> string) \<times> 'p \<Rightarrow> build_error + 'c" where
  "register_prepared ops catalog_name cat entry =
     (case entry of ((schema, table_name), provider) \<Rightarrow>
        try_res
          (if has_schema ops cat schema then Inr cat
           else map_err (SchemaRegisterFailed schema catalog_name) (register_schema ops cat schema))
          (\<lambda>cat1.
             if has_schema ops cat1 schema
             then map_err (TableRegisterFailed schema table_name catalog_name)
                    (register_table ops cat1 schema table_name provider)
             else Inl (SchemaNotFound schema catalog_name)))"

definition build_catalog ::
  "('c, 'p) table_ops \<Rightarrow> 'c \<Rightarrow> (string \<rightharpoonup> 'c) \<Rightarrow> string \<Rightarrow> (string \<times> string) list
   \<Rightarrow> (string \<Rightarrow> string \<Rightarrow> string + 'p) \<Rightarrow> nat list \<Rightarrow> build_error + (string \<rightharpoonup> 'c)" where
  "build_catalog ops new session catalog_name schema_tables build_table completion =
     (let futures = map (build_provider catalog_name build_table) schema_tables
      in try_res (collect_res (map (\<lambda>i. futures ! i) completion))
           (\<lambda>prepared.
              try_res (fold_res (register_prepared ops catalog_name) new (sort_key fst prepared))
                (\<lambda>cat. Inr (session(catalog_name \<mapsto> cat)))))"

lemma sort_eq_of_mset:
  fixes xs ys :: "'a::linorder list"
  assumes "mset xs = mset ys"
  shows "sort xs = sort ys"
  by (rule properties_for_sort) (simp_all add: assms)

lemma mset_reorder:
  assumes "mset p = mset [0..<length xs]"
  shows "mset (map (\<lambda>i. xs ! i) p) = mset xs"
proof -
  have "mset (map (\<lambda>i. xs ! i) p) = image_mset (\<lambda>i. xs ! i) (mset [0..<length xs])"
    by (simp only: mset_map assms)
  also have "\<dots> = mset (map (\<lambda>i. xs ! i) [0..<length xs])" by (simp only: mset_map)
  finally show ?thesis by (simp only: map_nth)
qed

lemma build_provider_fst:
  "build_provider c b st = Inr entry \<Longrightarrow> fst entry = st"
  by (cases st) (auto simp: build_provider_def split: sum.splits)

text \<open>The sorted list of prepared tables does not depend on the order of completion.\<close>

lemma prepared_independent:
  assumes dist: "distinct sts"
    and p: "mset p = mset [0..<length sts]" and q: "mset q = mset [0..<length sts]"
    and xs: "collect_res (map (\<lambda>i. map (build_provider c b) sts ! i) p) = Inr xs"
  shows "\<exists>ys. collect_res (map (\<lambda>i. map (build_provider c b) sts ! i) q) = Inr ys
              \<and> sort_key fst ys = sort_key fst xs"
proof -
  let ?f = "map (build_provider c b) sts"
  have mp: "mset (map (\<lambda>i. ?f ! i) p) = mset ?f" "mset (map (\<lambda>i. ?f ! i) q) = mset ?f"
    by (rule mset_reorder, simp add: p) (rule mset_reorder, simp add: q)
  have xs': "map (\<lambda>i. ?f ! i) p = map Inr xs" using xs by (simp only: collect_res_Inr_iff)
  have "set (map (\<lambda>i. ?f ! i) q) = set (map Inr xs)"
    using mp xs' by (metis set_mset_mset)
  then have ok: "is_ok r" if "r \<in> set (map (\<lambda>i. ?f ! i) q)" for r
    using that by (auto simp: is_ok_iff)
  define ys where "ys = map projr (map (\<lambda>i. ?f ! i) q)"
  have ysx: "map (\<lambda>i. ?f ! i) q = map Inr ys" unfolding ys_def by (rule map_Inr_projr [symmetric]) (rule ok)
  have "image_mset Inr (mset ys) = image_mset (Inr :: _ \<Rightarrow> build_error + _) (mset xs)"
    by (metis mp xs' ysx mset_map)
  then have m: "mset ys = mset xs"
    by (rule injD [OF multiset.inj_map [OF inj_Inr]])
  have "mset (map fst xs) = mset sts"
  proof -
    have "mset (map Inr xs) = mset ?f" using mp(1) xs' by simp
    then have "mset (map (fst \<circ> projr) (map (Inr :: _ \<Rightarrow> build_error + _) xs))
               = mset (map (fst \<circ> projr) ?f)"
      by (metis mset_map)
    moreover have "map (fst \<circ> projr) ?f = sts"
    proof -
      have "(fst \<circ> projr) (build_provider c b st) = st" if "st \<in> set sts" for st
      proof -
        have "build_provider c b st \<in> set ?f" using that by simp
        then have "build_provider c b st \<in> set (map Inr xs)"
          by (metis \<open>mset (map Inr xs) = mset ?f\<close> set_mset_mset)
        then obtain e where "build_provider c b st = Inr e" by auto
        then show ?thesis using build_provider_fst by fastforce
      qed
      then show ?thesis by (simp add: map_idI)
    qed
    ultimately have "mset (map (fst \<circ> projr) (map (Inr :: _ \<Rightarrow> build_error + _) xs)) = mset sts"
      by (simp only:)
    then show ?thesis by (simp add: o_def)
  qed
  then have "distinct (map fst xs)" by (metis dist mset_eq_imp_distinct_iff)
  then have "inj_on fst (set ys)"
    using m by (metis distinct_map mset_eq_setD)
  then have "sort_key fst ys = sort_key fst xs"
    by (rule sort_key_inj_key_eq [rotated]) (simp_all add: m)
  then show ?thesis using ysx collect_res_Inr_iff by blast
qed


text \<open>
  C10. \<open>build_catalog\<close> is deterministic: although up to eight table factories run at once and
  finish in any order, a successful call registers the same catalog whichever order the
  futures complete in (the tables are sorted by schema and name before registration).
\<close>

theorem build_catalog_deterministic:
  assumes "distinct schema_tables"
    and "mset p = mset [0..<length schema_tables]" and "mset q = mset [0..<length schema_tables]"
  shows "build_catalog ops new session name schema_tables build p = Inr session' \<longleftrightarrow>
         build_catalog ops new session name schema_tables build q = Inr session'"
proof -
  have dir: "build_catalog ops new session name schema_tables build q = Inr session'"
    if "mset p = mset [0..<length schema_tables]" "mset q = mset [0..<length schema_tables]"
      "build_catalog ops new session name schema_tables build p = Inr session'" for p q
  proof -
    from that(3) obtain xs where xs:
      "collect_res (map (\<lambda>i. map (build_provider name build) schema_tables ! i) p) = Inr xs"
      by (auto simp: build_catalog_def res_simps)
    from prepared_independent [OF assms(1) that(1,2) this] that(3) xs show ?thesis
      by (auto simp: build_catalog_def)
  qed
  show ?thesis using dir [OF assms(2,3)] dir [OF assms(3,2)] by blast
qed

text \<open>A provider kept as an association list, for the witness.\<close>

definition list_catalog_ops :: "((string \<times> (string \<times> nat) list) list, nat) table_ops" where
  "list_catalog_ops =
     \<lparr>has_schema = (\<lambda>c s. map_of c s \<noteq> None),
      register_schema = (\<lambda>c s. Inr (c @ [(s, [])])),
      register_table = (\<lambda>c s t p.
        if map_of (the (map_of c s)) t \<noteq> None then Inl ''table exists''
        else Inr (map (\<lambda>(s', ts). if s' = s then (s', ts @ [(t, p)]) else (s', ts)) c))\<rparr>"

theorem build_catalog_deterministic_witness:
  "build_catalog list_catalog_ops [] Map.empty ''db'' [(''s'', ''b''), (''s'', ''a'')]
     (\<lambda>s t. Inr (length t)) [1, 0]
   = Inr [''db'' \<mapsto> [(''s'', [(''a'', 1), (''b'', 1)])]]
   \<and> build_catalog list_catalog_ops [] Map.empty ''db'' [(''s'', ''b''), (''s'', ''a'')]
     (\<lambda>s t. Inr (length t)) [0, 1]
   = Inr [''db'' \<mapsto> [(''s'', [(''a'', 1), (''b'', 1)])]]"
proof -
  have "build_catalog list_catalog_ops [] Map.empty ''db'' [(''s'', ''b''), (''s'', ''a'')]
     (\<lambda>s t. Inr (length t)) [1, 0] = Inr [''db'' \<mapsto> [(''s'', [(''a'', 1), (''b'', 1)])]]"
    by (simp add: build_catalog_def build_provider_def register_prepared_def list_catalog_ops_def
        sort_key_def)
  moreover have "build_catalog list_catalog_ops [] Map.empty ''db'' [(''s'', ''b''), (''s'', ''a'')]
     (\<lambda>s t. Inr (length t)) [1, 0] = Inr x \<longleftrightarrow>
     build_catalog list_catalog_ops [] Map.empty ''db'' [(''s'', ''b''), (''s'', ''a'')]
     (\<lambda>s t. Inr (length t)) [0, 1] = Inr x" for x
    by (rule build_catalog_deterministic) (simp_all add: upt_rec)
  ultimately show ?thesis by blast
qed

end
