(* ===== verification/Sql_Validator.thy ===== *)
theory Sql_Validator
  imports Data_Sources
begin

text \<open>
  The access-mode validator of \<^verbatim>\<open>sources/sql_validator.rs\<close>. The SQL parser (crate
  \<open>sqlparser\<close>) is a parameter \<open>parse\<close>, and its AST is the datatype \<open>statement\<close> below, with
  the constructors and fields the code matches on and \<open>OtherStatement\<close> for every statement
  that reaches the catch-all arm.
\<close>

section \<open>AST, configuration and errors\<close>

type_synonym object_name = "string list" \<comment> \<open>the identifiers of a dotted name\<close>

datatype table_factor = TableRef object_name | OtherFactor

record table_with_joins =
  relation :: table_factor

datatype from_table =
  WithFromKeyword "table_with_joins list" | WithoutKeyword "table_with_joins list"

datatype statement =
  CreateTable | CreateIndex | CreateView | CreateSchema | CreateDatabase | CreateFunction
| CreateProcedure | CreateSequence | CreateType | DropStmt | AlterTable | AlterIndex
| AlterView | Truncate
| Insert object_name
| Update table_with_joins
| Delete from_table
| OtherStatement

type_synonym validator_config = "string \<rightharpoonup> access_mode"

definition validator_config_new :: validator_config where
  "validator_config_new = Map.empty"

definition with_table :: "validator_config \<Rightarrow> string \<Rightarrow> access_mode \<Rightarrow> validator_config" where
  "with_table cfg table_name mode = cfg(to_lowercase table_name \<mapsto> mode)"

datatype validation_error =
  ParseError string
| DdlNotAllowed string
| WriteNotAllowed string string

section \<open>Placeholders are replaced before parsing\<close>

definition REPLACEMENT :: string where
  "REPLACEMENT = ''(NULL)''"

text \<open>
  The loop of \<open>preprocess_parameters\<close>: \<open>start\<close> is the index from which the next \<open>{\<close> is
  searched; each round replaces one \<open>{...}\<close> of \<open>result\<close> and moves past the replacement.
\<close>

function preprocess_loop :: "string \<Rightarrow> nat \<Rightarrow> string" where
  "preprocess_loop result start =
     (case find_char (CHR ''{'') (drop start result) of
        None \<Rightarrow> result
      | Some o1 \<Rightarrow>
          (let open_at = start + o1 in
           case find_char (CHR ''}'') (drop open_at result) of
             None \<Rightarrow> result
           | Some c1 \<Rightarrow>
               (let close_at = open_at + c1 in
                preprocess_loop
                  (take open_at result @ REPLACEMENT @ drop (close_at + 1) result)
                  (open_at + length REPLACEMENT))))"
  by pat_completeness auto
termination
proof (relation "measure (\<lambda>(r, s). length r - s)", goal_cases)
  case 1
  show ?case by simp
next
  case (2 result start o1 open_at c1 close_at)
  then have "open_at < length result" "close_at < length result"
    by (auto dest!: find_char_Some)
  then show ?case using 2(2,4) by (simp add: min_def)
qed

declare preprocess_loop.simps [simp del]

definition preprocess_parameters :: "string \<Rightarrow> string" where
  "preprocess_parameters sql = preprocess_loop sql 0"

section \<open>Checking one statement\<close>

definition extract_table_name :: "object_name \<Rightarrow> string" where
  "extract_table_name table = (if table = [] then [] else to_lowercase (last table))"

definition extract_table_name_from_table_with_joins :: "table_with_joins \<Rightarrow> string" where
  "extract_table_name_from_table_with_joins table =
     (case relation table of TableRef name \<Rightarrow> extract_table_name name | OtherFactor \<Rightarrow> [])"

fun extract_table_name_from_from_table :: "from_table \<Rightarrow> string" where
  "extract_table_name_from_from_table (WithFromKeyword tables) =
     (case tables of first # _ \<Rightarrow> extract_table_name_from_table_with_joins first | [] \<Rightarrow> [])"
| "extract_table_name_from_from_table (WithoutKeyword tables) =
     (case tables of first # _ \<Rightarrow> extract_table_name_from_table_with_joins first | [] \<Rightarrow> [])"

definition check_write_access ::
  "string \<Rightarrow> string \<Rightarrow> validator_config \<Rightarrow> validation_error + unit" where
  "check_write_access operation table_name cfg =
     (case cfg table_name of
        Some mode \<Rightarrow>
          (if mode = ReadOnly then Inl (WriteNotAllowed operation table_name) else Inr ())
      | None \<Rightarrow> Inr ())"

fun validate_statement :: "validator_config \<Rightarrow> statement \<Rightarrow> validation_error + unit" where
  "validate_statement cfg CreateTable = Inl (DdlNotAllowed ''CREATE TABLE'')"
| "validate_statement cfg CreateIndex = Inl (DdlNotAllowed ''CREATE INDEX'')"
| "validate_statement cfg CreateView = Inl (DdlNotAllowed ''CREATE VIEW'')"
| "validate_statement cfg CreateSchema = Inl (DdlNotAllowed ''CREATE SCHEMA'')"
| "validate_statement cfg CreateDatabase = Inl (DdlNotAllowed ''CREATE DATABASE'')"
| "validate_statement cfg CreateFunction = Inl (DdlNotAllowed ''CREATE FUNCTION'')"
| "validate_statement cfg CreateProcedure = Inl (DdlNotAllowed ''CREATE PROCEDURE'')"
| "validate_statement cfg CreateSequence = Inl (DdlNotAllowed ''CREATE SEQUENCE'')"
| "validate_statement cfg CreateType = Inl (DdlNotAllowed ''CREATE TYPE'')"
| "validate_statement cfg DropStmt = Inl (DdlNotAllowed ''DROP'')"
| "validate_statement cfg AlterTable = Inl (DdlNotAllowed ''ALTER TABLE'')"
| "validate_statement cfg AlterIndex = Inl (DdlNotAllowed ''ALTER INDEX'')"
| "validate_statement cfg AlterView = Inl (DdlNotAllowed ''ALTER VIEW'')"
| "validate_statement cfg Truncate = Inl (DdlNotAllowed ''TRUNCATE'')"
| "validate_statement cfg (Insert table) =
     check_write_access ''INSERT'' (extract_table_name table) cfg"
| "validate_statement cfg (Update table) =
     check_write_access ''UPDATE'' (extract_table_name_from_table_with_joins table) cfg"
| "validate_statement cfg (Delete from) =
     check_write_access ''DELETE'' (extract_table_name_from_from_table from) cfg"
| "validate_statement cfg OtherStatement = Inr ()"

fun validate_statements :: "validator_config \<Rightarrow> statement list \<Rightarrow> validation_error + unit" where
  "validate_statements cfg [] = Inr ()"
| "validate_statements cfg (st # sts) =
     try_res (validate_statement cfg st) (\<lambda>_. validate_statements cfg sts)"

definition validate_sql ::
  "(string \<Rightarrow> string + statement list) \<Rightarrow> string \<Rightarrow> validator_config \<Rightarrow> validation_error + unit" where
  "validate_sql parse sql cfg =
     try_res (map_err ParseError (parse (preprocess_parameters sql)))
       (\<lambda>statements. validate_statements cfg statements)"


section \<open>What the placeholder pass computes\<close>

text \<open>The same pass as a structural recursion on the remaining text.\<close>

function subst_braces :: "string \<Rightarrow> string" where
  "subst_braces s =
     (case find_char (CHR ''{'') s of
        None \<Rightarrow> s
      | Some o1 \<Rightarrow>
          (case find_char (CHR ''}'') (drop o1 s) of
             None \<Rightarrow> s
           | Some c1 \<Rightarrow> take o1 s @ REPLACEMENT @ subst_braces (drop (o1 + c1 + 1) s)))"
  by pat_completeness auto
termination
  by (relation "measure length") (auto dest!: find_char_Some)

declare subst_braces.simps [simp del]

lemma preprocess_loop_eq:
  "start \<le> length r \<Longrightarrow> preprocess_loop r start = take start r @ subst_braces (drop start r)"
proof (induction r start rule: preprocess_loop.induct)
  case (1 r start)
  show ?case
  proof (cases "find_char (CHR ''{'') (drop start r)")
    case None
    then show ?thesis
      by (simp add: preprocess_loop.simps [of r] subst_braces.simps [of "drop start r"])
  next
    case o1: (Some o1)
    show ?thesis
    proof (cases "find_char (CHR ''}'') (drop (start + o1) r)")
      case None
      with o1 show ?thesis
        by (simp add: preprocess_loop.simps [of r] subst_braces.simps [of "drop start r"]
            add.commute)
    next
      case c1: (Some c1)
      let ?r' = "take (start + o1) r @ REPLACEMENT @ drop (start + o1 + c1 + 1) r"
      let ?s' = "start + o1 + length REPLACEMENT"
      have lt: "start + o1 < length r" "start + o1 + c1 < length r"
        using o1 c1 by (auto dest!: find_char_Some)
      then have "?s' \<le> length ?r'" by simp
      with "1.IH" [OF o1 refl c1 refl]
      have "preprocess_loop ?r' ?s' = take ?s' ?r' @ subst_braces (drop ?s' ?r')" by simp
      moreover have "take ?s' ?r' = take start r @ take o1 (drop start r) @ REPLACEMENT"
        using lt by (simp add: take_add)
      moreover have "drop ?s' ?r' = drop (o1 + c1 + 1) (drop start r)"
        using lt by (simp add: add.commute add.left_commute)
      ultimately show ?thesis
        using o1 c1
        by (simp add: preprocess_loop.simps [of r] subst_braces.simps [of "drop start r"]
            add.commute Let_def)
    qed
  qed
qed

lemma preprocess_parameters_eq: "preprocess_parameters sql = subst_braces sql"
  by (simp add: preprocess_parameters_def preprocess_loop_eq)

definition has_placeholder :: "string \<Rightarrow> bool" where
  "has_placeholder s \<longleftrightarrow> (\<exists>a b c. s = a @ CHR ''{'' # b @ CHR ''}'' # c)"

lemma has_placeholder_Cons:
  assumes "c \<noteq> CHR ''{''"
  shows "has_placeholder (c # s) \<longleftrightarrow> has_placeholder s"
proof
  assume "has_placeholder (c # s)"
  then obtain x y z where eq: "c # s = x @ CHR ''{'' # y @ CHR ''}'' # z"
    by (auto simp: has_placeholder_def)
  with assms obtain x' where "x = c # x'" by (cases x) auto
  with eq show "has_placeholder s" by (auto simp: has_placeholder_def)
next
  assume "has_placeholder s"
  then show "has_placeholder (c # s)" by (metis append_Cons has_placeholder_def)
qed

lemma has_placeholder_append:
  "CHR ''{'' \<notin> set a \<Longrightarrow> has_placeholder (a @ s) \<longleftrightarrow> has_placeholder s"
  by (induction a) (auto simp: has_placeholder_Cons)

lemma no_close_no_placeholder:
  "find_char (CHR ''{'') s = Some i \<Longrightarrow> CHR ''}'' \<notin> set (drop i s) \<Longrightarrow> \<not> has_placeholder s"
proof -
  assume i: "find_char (CHR ''{'') s = Some i" and c: "CHR ''}'' \<notin> set (drop i s)"
  have "CHR ''{'' \<notin> set (take i s)" using find_char_Some [OF i] by simp
  then have "has_placeholder (take i s @ drop i s) \<longleftrightarrow> has_placeholder (drop i s)"
    by (rule has_placeholder_append)
  moreover have "\<not> has_placeholder (drop i s)" using c by (auto simp: has_placeholder_def)
  ultimately show ?thesis by simp
qed

lemma REPLACEMENT_no_brace [simp]: "CHR ''{'' \<notin> set REPLACEMENT"
  by (simp add: REPLACEMENT_def)

lemma subst_braces_no_placeholder: "\<not> has_placeholder (subst_braces s)"
proof (induction s rule: subst_braces.induct)
  case (1 s)
  show ?case
  proof (cases "find_char (CHR ''{'') s")
    case None
    then have "subst_braces s = s" by (simp add: subst_braces.simps [of s])
    moreover have "\<not> has_placeholder s"
      using None by (auto simp: find_char_None_iff has_placeholder_def)
    ultimately show ?thesis by simp
  next
    case o1: (Some o1)
    show ?thesis
    proof (cases "find_char (CHR ''}'') (drop o1 s)")
      case None
      with o1 have "subst_braces s = s" by (simp add: subst_braces.simps [of s])
      moreover have "\<not> has_placeholder s"
        using no_close_no_placeholder [OF o1] None by (simp add: find_char_None_iff)
      ultimately show ?thesis by simp
    next
      case c1: (Some c1)
      have "CHR ''{'' \<notin> set (take o1 s @ REPLACEMENT)" using find_char_Some [OF o1] by simp
      from has_placeholder_append [OF this] "1.IH" [OF o1 c1] show ?thesis
        using o1 c1 by (simp add: subst_braces.simps [of s])
    qed
  qed
qed

lemma preprocess_parameters_hole:
  assumes "CHR ''{'' \<notin> set a" and "CHR ''}'' \<notin> set b"
  shows "preprocess_parameters (a @ ''{'' @ b @ ''}'' @ c) = a @ ''(NULL)'' @ preprocess_parameters c"
proof -
  have o1: "find_char (CHR ''{'') (a @ ''{'' @ b @ ''}'' @ c) = Some (length a)"
    using assms(1) by (simp add: find_char_append)
  have c1: "find_char (CHR ''}'') (''{'' @ b @ ''}'' @ c) = Some (Suc (length b))"
    using assms(2) by (simp add: find_char_append)
  show ?thesis
    by (simp add: preprocess_parameters_eq o1 [simplified] c1 [simplified] REPLACEMENT_def
        subst_braces.simps [of "a @ CHR ''{'' # b @ CHR ''}'' # c"])
qed

text \<open>
  The placeholder pass: on a text without an opening brace followed by \<open>{b}\<close> (where \<open>b\<close>
  has no closing brace) it keeps the text, puts \<open>(NULL)\<close> for the placeholder and goes on after
  it; and whatever the input, its output holds no \<open>{...}\<close> any more, so the parser never sees a
  template placeholder.
\<close>

theorem preprocess_parameters_spec:
  assumes "CHR ''{'' \<notin> set a" and "CHR ''}'' \<notin> set b"
  shows "preprocess_parameters (a @ ''{'' @ b @ ''}'' @ c) = a @ ''(NULL)'' @ preprocess_parameters c
         \<and> \<not> has_placeholder (preprocess_parameters c)"
  using preprocess_parameters_hole [OF assms] subst_braces_no_placeholder
  by (simp add: preprocess_parameters_eq)

theorem preprocess_parameters_spec_witness:
  "preprocess_parameters (''LIMIT '' @ ''{'' @ ''n'' @ ''}'' @ '';'') = ''LIMIT (NULL);''"
  using preprocess_parameters_spec [of "''LIMIT ''" "''n''" "'';''"]
  by (simp add: preprocess_parameters_eq subst_braces.simps [of "'';''"])


text \<open>
  The documented effect of the pass, as a relation between two texts: from left to right, every
  opening brace with the next closing brace and what is between them is replaced by \<open>(NULL)\<close>.
\<close>

inductive filled :: "string \<Rightarrow> string \<Rightarrow> bool" where
  filled_text: "\<not> has_placeholder s \<Longrightarrow> filled s s"
| filled_hole: "CHR ''{'' \<notin> set a \<Longrightarrow> CHR ''}'' \<notin> set b \<Longrightarrow> filled c d \<Longrightarrow>
    filled (a @ ''{'' @ b @ ''}'' @ c) (a @ ''(NULL)'' @ d)"

lemma subst_braces_hole:
  assumes "CHR ''{'' \<notin> set a" and "CHR ''}'' \<notin> set b"
  shows "subst_braces (a @ ''{'' @ b @ ''}'' @ c) = a @ ''(NULL)'' @ subst_braces c"
  using preprocess_parameters_hole [OF assms] by (simp only: preprocess_parameters_eq)

lemma subst_braces_text: "\<not> has_placeholder s \<Longrightarrow> subst_braces s = s"
proof (cases "find_char (CHR ''{'') s")
  case None
  then show ?thesis by (simp add: subst_braces.simps [of s])
next
  case o1: (Some i)
  assume n: "\<not> has_placeholder s"
  have "find_char (CHR ''}'') (drop i s) = None"
  proof (cases "find_char (CHR ''}'') (drop i s)")
    case (Some j)
    have "drop i s = take j (drop i s) @ CHR ''}'' # drop (Suc j) (drop i s)"
      using find_char_Some [OF Some] by (metis id_take_nth_drop)
    moreover have "drop i s = CHR ''{'' # drop (Suc i) s"
      using find_char_Some [OF o1] by (metis Cons_nth_drop_Suc)
    ultimately obtain b c where "drop i s = CHR ''{'' # b @ CHR ''}'' # c"
      by (cases "take j (drop i s)") auto
    then have "s = take i s @ CHR ''{'' # b @ CHR ''}'' # c" by (metis append_take_drop_id)
    with n show ?thesis unfolding has_placeholder_def by blast
  qed
  then show ?thesis using o1 by (simp add: subst_braces.simps [of s])
qed

lemma filled_subst_braces: "filled s (subst_braces s)"
proof (induction s rule: subst_braces.induct)
  case (1 s)
  show ?case
  proof (cases "has_placeholder s")
    case False
    then show ?thesis by (simp add: subst_braces_text filled_text)
  next
    case True
    obtain i where i: "find_char (CHR ''{'') s = Some i"
      using True by (cases "find_char (CHR ''{'') s") (auto simp: find_char_None_iff has_placeholder_def)
    obtain j where j: "find_char (CHR ''}'') (drop i s) = Some j"
      using True no_close_no_placeholder [OF i]
      by (cases "find_char (CHR ''}'') (drop i s)") (auto simp: find_char_None_iff)
    let ?c = "drop (i + j + 1) s"
    have a: "CHR ''{'' \<notin> set (take i s)" using find_char_Some [OF i] by simp
    have hd: "drop i s = CHR ''{'' # drop (Suc i) s"
      using find_char_Some [OF i] by (metis Cons_nth_drop_Suc)
    have split: "drop i s = take j (drop i s) @ CHR ''}'' # drop (Suc j) (drop i s)"
      using find_char_Some [OF j] by (metis id_take_nth_drop)
    have j0: "0 < j" using split hd by (cases j) auto
    define b where "b = take (j - 1) (drop (Suc i) s)"
    have b: "CHR ''}'' \<notin> set b"
    proof -
      have "take j (drop i s) = CHR ''{'' # b" using j0 by (simp add: hd b_def take_Cons')
      moreover have "CHR ''}'' \<notin> set (take j (drop i s))" using find_char_Some [OF j] by simp
      ultimately show ?thesis by simp
    qed
    have "drop i s = ''{'' @ b @ ''}'' @ ?c"
    proof -
      have "take j (drop i s) = CHR ''{'' # b" using j0 by (simp add: hd b_def take_Cons')
      moreover have "drop (Suc j) (drop i s) = ?c" by (simp add: add.commute)
      ultimately show ?thesis using split by simp
    qed
    then have s: "s = take i s @ ''{'' @ b @ ''}'' @ ?c" by (metis append_take_drop_id)
    have "filled (take i s @ ''{'' @ b @ ''}'' @ ?c) (take i s @ ''(NULL)'' @ subst_braces ?c)"
      using "1.IH" [OF i j] by (rule filled_hole [OF a b])
    with subst_braces_hole [OF a b, of ?c] s show ?thesis by metis
  qed
qed

lemma filled_iff: "filled s t \<longleftrightarrow> t = preprocess_parameters s"
proof
  show "filled s t \<Longrightarrow> t = preprocess_parameters s"
    unfolding preprocess_parameters_eq
    by (induction rule: filled.induct) (metis subst_braces_text, metis subst_braces_hole)
qed (simp add: preprocess_parameters_eq filled_subst_braces)

section \<open>The policy the validator enforces\<close>

text \<open>
  Which statements are data definition, and which table a write statement targets, stated
  without the error messages; \<open>permitted\<close> is the policy.
\<close>

definition is_ddl :: "statement \<Rightarrow> bool" where
  "is_ddl st \<longleftrightarrow> st \<in> {CreateTable, CreateIndex, CreateView, CreateSchema, CreateDatabase,
     CreateFunction, CreateProcedure, CreateSequence, CreateType, DropStmt, AlterTable,
     AlterIndex, AlterView, Truncate}"

fun write_target :: "statement \<Rightarrow> string option" where
  "write_target (Insert t) = Some (extract_table_name t)"
| "write_target (Update t) = Some (extract_table_name_from_table_with_joins t)"
| "write_target (Delete f) = Some (extract_table_name_from_from_table f)"
| "write_target _ = None"

definition permitted :: "validator_config \<Rightarrow> statement \<Rightarrow> bool" where
  "permitted cfg st \<longleftrightarrow> \<not> is_ddl st \<and> Option.bind (write_target st) cfg \<noteq> Some ReadOnly"

lemma validate_statement_iff: "validate_statement cfg st = Inr () \<longleftrightarrow> permitted cfg st"
  by (cases st) (auto simp: permitted_def is_ddl_def check_write_access_def split: option.splits)

lemma validate_statements_iff:
  "validate_statements cfg sts = Inr () \<longleftrightarrow> (\<forall>st \<in> set sts. permitted cfg st)"
  by (induction sts) (auto simp: res_simps simp flip: validate_statement_iff)

lemma validate_statements_first_error:
  "validate_statements cfg sts = Inl e \<longleftrightarrow>
     (\<exists>pre st post. sts = pre @ st # post \<and> (\<forall>s \<in> set pre. permitted cfg s)
        \<and> validate_statement cfg st = Inl e)"
proof (induction sts)
  case Nil
  then show ?case by simp
next
  case (Cons s sts)
  show ?case
    unfolding first_split_Cons Cons.IH [symmetric]
    by (cases "validate_statement cfg s") (simp_all flip: validate_statement_iff)
qed

lemma validate_sql_ok:
  "validate_sql parse sql cfg = Inr () \<longleftrightarrow>
     (\<exists>sts. parse (preprocess_parameters sql) = Inr sts \<and> list_all (permitted cfg) sts)"
  by (cases "parse (preprocess_parameters sql)")
    (simp_all add: validate_sql_def validate_statements_iff list_all_iff)

text \<open>
  The configuration a list of sources gives, and the mode it holds for a table: that of the last
  source of the table's name, up to case. A statement writes the table of its last identifier.
\<close>

definition config_of :: "(string \<times> access_mode) list \<Rightarrow> validator_config" where
  "config_of sources = foldl (\<lambda>cfg (name, mode). with_table cfg name mode) validator_config_new sources"

definition last_mode :: "(string \<times> access_mode) list \<Rightarrow> string \<Rightarrow> access_mode option" where
  "last_mode sources t =
     (case rev (filter (\<lambda>(name, mode). to_lowercase name = to_lowercase t) sources) of
        [] \<Rightarrow> None | (name, mode) # _ \<Rightarrow> Some mode)"

fun named_last :: "object_name \<Rightarrow> string" where
  "named_last [] = []"
| "named_last [i] = i"
| "named_last (i # j # is) = named_last (j # is)"

fun factor_name :: "table_factor \<Rightarrow> string" where
  "factor_name (TableRef n) = named_last n"
| "factor_name OtherFactor = []"

fun written_table :: "statement \<Rightarrow> string option" where
  "written_table (Insert n) = Some (named_last n)"
| "written_table (Update t) = Some (factor_name (relation t))"
| "written_table (Delete (WithFromKeyword (t # ts))) = Some (factor_name (relation t))"
| "written_table (Delete (WithoutKeyword (t # ts))) = Some (factor_name (relation t))"
| "written_table (Delete _) = Some []"
| "written_table _ = None"

lemma extract_table_name_eq: "extract_table_name n = to_lowercase (named_last n)"
  by (induction n rule: named_last.induct) (auto simp: extract_table_name_def)

lemma extract_factor_eq:
  "extract_table_name_from_table_with_joins t = to_lowercase (factor_name (relation t))"
  by (cases "relation t") (simp_all add: extract_table_name_from_table_with_joins_def extract_table_name_eq)

lemma write_target_eq: "write_target st = map_option to_lowercase (written_table st)"
  by (cases st rule: written_table.cases) (simp_all add: extract_table_name_eq extract_factor_eq)

lemma config_of_lookup: "config_of sources (to_lowercase t) = last_mode sources t"
  by (induction sources rule: rev_induct)
    (auto simp: config_of_def last_mode_def validator_config_new_def with_table_def)

text \<open>
  C1. The verdict of the validator, over the placeholders' documented effect and the sources'
  access modes: a pipeline's SQL is accepted if and only if, every \<open>{...}\<close> of it replaced by
  \<open>(NULL)\<close>, it parses and none of its statements is one of the listed DDL statements or an
  INSERT, UPDATE or DELETE whose target's last identifier names, up to case, a source whose last
  entry is read-only. Every other statement (a query, and also MERGE, COPY and the like) is let
  through, and so is a write to a table that is no source.
\<close>

theorem validate_sql_accepts_iff:
  "validate_sql parse sql (config_of sources) = Inr () \<longleftrightarrow>
     (\<exists>txt sts. filled sql txt \<and> parse txt = Inr sts
        \<and> list_all (\<lambda>st. \<not> is_ddl st \<and> Option.bind (written_table st) (last_mode sources) \<noteq> Some ReadOnly) sts)"
proof -
  have "permitted (config_of sources) =
      (\<lambda>st. \<not> is_ddl st \<and> Option.bind (written_table st) (last_mode sources) \<noteq> Some ReadOnly)"
  proof
    show "permitted (config_of sources) st \<longleftrightarrow>
        \<not> is_ddl st \<and> Option.bind (written_table st) (last_mode sources) \<noteq> Some ReadOnly" for st
      by (cases "written_table st") (simp_all add: permitted_def write_target_eq config_of_lookup)
  qed
  then show ?thesis by (simp add: validate_sql_ok filled_iff)
qed

text \<open>
  What the validator lets through: every statement outside the list, whatever the access mode of
  the tables it touches, so a statement such as MERGE is accepted on a read-only source.
\<close>

theorem other_statements_are_accepted:
  "validate_sql (\<lambda>_. Inr [OtherStatement]) sql (config_of sources) = Inr ()"
  by (simp add: validate_sql_def)

text \<open>
  What a rejection reports: a parse error is the parser's message, and otherwise the error
  is that of the first statement that is not permitted.
\<close>

theorem validate_sql_error_iff:
  "validate_sql parse sql cfg = Inl e \<longleftrightarrow>
     (\<exists>msg. parse (preprocess_parameters sql) = Inl msg \<and> e = ParseError msg) \<or>
     (\<exists>pre st post. parse (preprocess_parameters sql) = Inr (pre @ st # post)
        \<and> list_all (permitted cfg) pre \<and> validate_statement cfg st = Inl e)"
  by (cases "parse (preprocess_parameters sql)")
    (auto simp: validate_sql_def validate_statements_first_error list_all_iff)

text \<open>
  A table registered read-only cannot be written under any spelling of its name: with
  \<open>with_table name ReadOnly\<close>, an INSERT whose last identifier equals the name up to case is
  refused whatever qualifies it, and so are an UPDATE and a DELETE of it.
\<close>

theorem read_only_table_protected:
  assumes "to_lowercase t = to_lowercase name"
  shows "\<not> is_ok (validate_statement (with_table cfg name ReadOnly) (Insert (q @ [t])))
    \<and> \<not> is_ok (validate_statement (with_table cfg name ReadOnly)
                 (Update \<lparr>relation = TableRef (q @ [t])\<rparr>))
    \<and> \<not> is_ok (validate_statement (with_table cfg name ReadOnly)
                 (Delete (WithFromKeyword (\<lparr>relation = TableRef (q @ [t])\<rparr> # others))))"
  using assms
  by (simp add: check_write_access_def with_table_def extract_table_name_def
      extract_table_name_from_table_with_joins_def)

theorem read_only_table_protected_witness:
  "\<not> is_ok (validate_statement (with_table validator_config_new ''users'' ReadOnly)
      (Insert ([''db''] @ [''USERS''])))"
proof -
  have "to_lowercase ''USERS'' = to_lowercase ''users''" by code_simp
  from read_only_table_protected [OF this, of validator_config_new "[''db'']" "[]"] show ?thesis
    by blast
qed

text \<open>
  The verdict on a write depends on the last identifier of the table name only: when that
  identifier is not itself a configured name, the write passes even if the name's first segment
  is a source configured read-only. So the access mode of a catalog-mode source (whose tables
  are addressed as \<open>source.schema.table\<close>) is not enforced by this validator.
\<close>

theorem qualified_write_ignores_source_mode:
  assumes "cfg (to_lowercase t) = None"
  shows "is_ok (validate_statement cfg (Insert (src # schema @ [t])))
    \<and> is_ok (validate_statement cfg (Update \<lparr>relation = TableRef (src # schema @ [t])\<rparr>))"
  using assms
  by (simp add: check_write_access_def extract_table_name_def
      extract_table_name_from_table_with_joins_def)

theorem qualified_write_ignores_source_mode_witness:
  "is_ok (validate_statement (with_table validator_config_new ''mydb'' ReadOnly)
     (Update \<lparr>relation = TableRef (''mydb'' # [''public''] @ [''users''])\<rparr>))"
proof -
  have "with_table validator_config_new ''mydb'' ReadOnly (to_lowercase ''users'') = None"
    by code_simp
  with qualified_write_ignores_source_mode
      [of "with_table validator_config_new ''mydb'' ReadOnly" "''users''" "''mydb''" "[''public'']"]
  show ?thesis by blast
qed

text \<open>Making a source more permissive never turns an accepted pipeline into a rejected one.\<close>

lemma validate_statement_mono:
  assumes "\<And>t m'. cfg' t = Some m' \<Longrightarrow> (\<exists>m. cfg t = Some m \<and> m \<le> m') \<or> m' = ReadWrite"
    and "validate_statement cfg st = Inr ()"
  shows "validate_statement cfg' st = Inr ()"
proof -
  have "Option.bind (write_target st) cfg' \<noteq> Some ReadOnly"
  proof
    assume "Option.bind (write_target st) cfg' = Some ReadOnly"
    then obtain t where t: "write_target st = Some t" "cfg' t = Some ReadOnly"
      by (auto simp: bind_eq_Some_conv)
    then obtain m where "cfg t = Some m" "m \<le> ReadOnly" using assms(1) by blast
    then have "cfg t = Some ReadOnly" by (cases m) (simp_all add: less_eq_access_mode_def)
    then show False using t assms(2) by (simp add: validate_statement_iff permitted_def)
  qed
  then show ?thesis using assms(2) by (simp add: validate_statement_iff permitted_def)
qed

end
