(* ===== verification/Semantics.thy ===== *)
theory Semantics
  imports Data_Sources
begin

text \<open>
  The semantics overlay of \<^verbatim>\<open>crates/skardi/src/semantics.rs\<close>: keys, the registry and its
  lookups, the merge of semantics files, and the resolution of paths. The file system is a
  parameter: a function from paths to nodes, whose reads may fail. The YAML deserializer
  (serde) is a parameter as well, one function for the peek at \<open>kind:\<close> and one for the file.
\<close>

section \<open>Files\<close>

datatype fs_node = FFile "string + string" | FDir "string + string list" | FSpecial

type_synonym fs = "string \<Rightarrow> fs_node option"

definition path_exists :: "fs \<Rightarrow> string \<Rightarrow> bool" where
  "path_exists fs p \<longleftrightarrow> fs p \<noteq> None"

definition path_is_file :: "fs \<Rightarrow> string \<Rightarrow> bool" where
  "path_is_file fs p = (case fs p of Some (FFile _) \<Rightarrow> True | _ \<Rightarrow> False)"

definition path_is_dir :: "fs \<Rightarrow> string \<Rightarrow> bool" where
  "path_is_dir fs p = (case fs p of Some (FDir _) \<Rightarrow> True | _ \<Rightarrow> False)"

definition path_join :: "string \<Rightarrow> string \<Rightarrow> string" where
  "path_join dir name = dir @ ''/'' @ name"

text \<open>\<open>Path::extension\<close>: what follows the last dot of the file name, unless nothing precedes it.\<close>

definition path_extension :: "string \<Rightarrow> string option" where
  "path_extension p =
     (let name = last (str_split (CHR ''/'') p) in
      if name = ''..'' then None
      else case find_char (CHR ''.'') (rev name) of
             None \<Rightarrow> None
           | Some i \<Rightarrow>
               if Suc i = length name then None else Some (rev (take i (rev name))))"

definition is_yaml_file :: "fs \<Rightarrow> string \<Rightarrow> bool" where
  "is_yaml_file fs p \<longleftrightarrow> path_is_file fs p \<and>
     (case path_extension p of
        None \<Rightarrow> False
      | Some ext \<Rightarrow> to_lowercase ext = ''yaml'' \<or> to_lowercase ext = ''yml'')"

section \<open>Overlay files, keys, entries\<close>

record column_semantics =
  cs_name :: string
  cs_description :: "string option"

record source_semantics =
  ss_name :: string
  ss_description :: "string option"
  ss_columns :: "column_semantics list"

text \<open>A file's \<open>metadata\<close> is opaque (nothing reads inside it) and is left out.\<close>

record semantics_file =
  sf_kind :: "string option"
  sf_sources :: "source_semantics list"

definition SEMANTICS_KIND :: string where
  "SEMANTICS_KIND = ''semantics''"

datatype semantics_key = SourceKey string | QualifiedKey string string string

datatype semantics_error =
  PathNotFound string
| IoError string string
| SemParseError string string
| BadSourceName string
| DuplicateSource string string string
| DuplicateColumn string string string string
| AmbiguousAutoDiscovery string string

definition semantics_key_parse :: "string \<Rightarrow> semantics_error + semantics_key" where
  "semantics_key_parse name =
     (case str_split (CHR ''.'') name of
        [single] \<Rightarrow> (if single \<noteq> [] then Inr (SourceKey single) else Inl (BadSourceName name))
      | [catalog, schema, table] \<Rightarrow>
          (if catalog \<noteq> [] \<and> schema \<noteq> [] \<and> table \<noteq> []
           then Inr (QualifiedKey catalog schema table) else Inl (BadSourceName name))
      | _ \<Rightarrow> Inl (BadSourceName name))"

fun referenced_source :: "semantics_key \<Rightarrow> string" where
  "referenced_source (SourceKey name) = name"
| "referenced_source (QualifiedKey catalog _ _) = catalog"

fun key_display :: "semantics_key \<Rightarrow> string" where
  "key_display (SourceKey name) = name"
| "key_display (QualifiedKey catalog schema table) = catalog @ ''.'' @ schema @ ''.'' @ table"

record source_entry =
  se_description :: "string option"
  se_columns :: "string \<rightharpoonup> string"
  se_description_origin :: "string option"
  se_column_origins :: "string \<rightharpoonup> string"

definition source_entry_default :: source_entry where
  "source_entry_default =
     \<lparr>se_description = None, se_columns = Map.empty,
      se_description_origin = None, se_column_origins = Map.empty\<rparr>"

type_synonym registry = "semantics_key \<rightharpoonup> source_entry"

text \<open>\<open>entries.entry(key).or_default()\<close>\<close>

definition entry_or_default :: "registry \<Rightarrow> semantics_key \<Rightarrow> source_entry" where
  "entry_or_default entries key =
     (case entries key of Some e \<Rightarrow> e | None \<Rightarrow> source_entry_default)"

section \<open>Lookups\<close>

definition table_description :: "registry \<Rightarrow> string \<Rightarrow> string option" where
  "table_description reg source = Option.bind (reg (SourceKey source)) se_description"

definition column_description :: "registry \<Rightarrow> string \<Rightarrow> string \<Rightarrow> string option" where
  "column_description reg source column =
     Option.bind (reg (SourceKey source)) (\<lambda>e. se_columns e column)"

definition qualified_table_description ::
  "registry \<Rightarrow> string \<Rightarrow> string \<Rightarrow> string \<Rightarrow> string option" where
  "qualified_table_description reg catalog schema table =
     Option.bind (reg (QualifiedKey catalog schema table)) se_description"

definition qualified_column_description ::
  "registry \<Rightarrow> string \<Rightarrow> string \<Rightarrow> string \<Rightarrow> string \<Rightarrow> string option" where
  "qualified_column_description reg catalog schema table column =
     Option.bind (reg (QualifiedKey catalog schema table)) (\<lambda>e. se_columns e column)"

definition or_else :: "'a option \<Rightarrow> 'a option \<Rightarrow> 'a option" where
  "or_else a b = (case a of Some x \<Rightarrow> Some x | None \<Rightarrow> b)"

definition resolve_table_description ::
  "registry \<Rightarrow> string \<Rightarrow> string \<Rightarrow> string \<Rightarrow> string option \<Rightarrow> string option" where
  "resolve_table_description reg catalog schema table source =
     or_else (qualified_table_description reg catalog schema table)
             (Option.bind source (table_description reg))"

definition resolve_column_description ::
  "registry \<Rightarrow> string \<Rightarrow> string \<Rightarrow> string \<Rightarrow> string option \<Rightarrow> string \<Rightarrow> string option" where
  "resolve_column_description reg catalog schema table source column =
     or_else (qualified_column_description reg catalog schema table column)
             (Option.bind source (\<lambda>s. column_description reg s column))"

section \<open>Merging\<close>

definition non_empty :: "string option \<Rightarrow> string option" where
  "non_empty d = (case d of Some x \<Rightarrow> (if x = [] then None else Some x) | None \<Rightarrow> None)"

definition merge_column ::
  "string \<Rightarrow> string \<Rightarrow> source_entry \<Rightarrow> column_semantics \<Rightarrow> semantics_error + source_entry" where
  "merge_column key_disp origin entry col =
     (case non_empty (cs_description col) of
        None \<Rightarrow> Inr entry
      | Some desc \<Rightarrow>
          (case se_column_origins entry (cs_name col) of
             Some prior \<Rightarrow> Inl (DuplicateColumn key_disp (cs_name col) prior origin)
           | None \<Rightarrow>
               Inr (entry\<lparr>se_columns := (se_columns entry)(cs_name col \<mapsto> desc),
                          se_column_origins := (se_column_origins entry)(cs_name col \<mapsto> origin)\<rparr>)))"

definition merge_description ::
  "string \<Rightarrow> string \<Rightarrow> source_entry \<Rightarrow> string option \<Rightarrow> semantics_error + source_entry" where
  "merge_description key_disp origin entry description =
     (case non_empty description of
        None \<Rightarrow> Inr entry
      | Some desc \<Rightarrow>
          (case se_description_origin entry of
             Some prior \<Rightarrow> Inl (DuplicateSource key_disp prior origin)
           | None \<Rightarrow>
               Inr (entry\<lparr>se_description := Some desc, se_description_origin := Some origin\<rparr>)))"

definition merge_source :: "string \<Rightarrow> registry \<Rightarrow> source_semantics \<Rightarrow> semantics_error + registry" where
  "merge_source origin entries source =
     try_res (semantics_key_parse (ss_name source)) (\<lambda>key.
       let key_disp = key_display key; entry = entry_or_default entries key in
       try_res (merge_description key_disp origin entry (ss_description source)) (\<lambda>entry1.
         try_res (fold_res (merge_column key_disp origin) entry1 (ss_columns source)) (\<lambda>entry2.
           Inr (entries(key \<mapsto> entry2)))))"

definition merge_into ::
  "registry \<Rightarrow> source_semantics list \<Rightarrow> string \<Rightarrow> semantics_error + registry" where
  "merge_into entries sources origin = fold_res (merge_source origin) entries sources"

definition dangling_ref :: "registry \<Rightarrow> (string \<times> string option) list \<Rightarrow> semantics_key \<Rightarrow> bool" where
  "dangling_ref entries ctx key \<longleftrightarrow>
     entries key \<noteq> None \<and> referenced_source key \<notin> set (map fst ctx)"

section \<open>Resolving and loading files\<close>

definition resolve_semantics_source ::
  "fs \<Rightarrow> string option \<Rightarrow> string option \<Rightarrow> semantics_error + string option" where
  "resolve_semantics_source fs ctx_dir override_path =
     (case override_path of
        Some p \<Rightarrow> Inr (Some p)
      | None \<Rightarrow>
          (case ctx_dir of
             None \<Rightarrow> Inr None
           | Some dir \<Rightarrow>
               (let dir_path = path_join dir ''semantics'';
                    yaml_path = path_join dir ''semantics.yaml'';
                    yml_path = path_join dir ''semantics.yml'';
                    dir_exists = path_is_dir fs dir_path;
                    single_file = (if path_is_file fs yaml_path then Some yaml_path
                                   else if path_is_file fs yml_path then Some yml_path
                                   else None)
                in case (dir_exists, single_file) of
                     (True, Some f) \<Rightarrow> Inl (AmbiguousAutoDiscovery dir_path f)
                   | (True, None) \<Rightarrow> Inr (Some dir_path)
                   | (False, Some f) \<Rightarrow> Inr (Some f)
                   | (False, None) \<Rightarrow> Inr None)))"

definition resolve_semantics_files :: "fs \<Rightarrow> string \<Rightarrow> semantics_error + string list" where
  "resolve_semantics_files fs path =
     (if \<not> path_exists fs path then Inl (PathNotFound path)
      else case fs path of
             Some (FFile _) \<Rightarrow> Inr [path]
           | Some (FDir (Inl e)) \<Rightarrow> Inl (IoError path e)
           | Some (FDir (Inr names)) \<Rightarrow>
               Inr (sort (filter (is_yaml_file fs) (map (path_join path) names)))
           | _ \<Rightarrow> Inl (PathNotFound path))"

record yaml_semantics =
  yaml_peek_kind :: "string \<Rightarrow> string + string option"
  yaml_parse_file :: "string \<Rightarrow> string + semantics_file"

definition load_semantics_file ::
  "yaml_semantics \<Rightarrow> fs \<Rightarrow> string \<Rightarrow> semantics_error + semantics_file option" where
  "load_semantics_file yaml fs path =
     try_res (case fs path of
                Some (FFile (Inr raw)) \<Rightarrow> Inr raw
              | Some (FFile (Inl e)) \<Rightarrow> Inl (IoError path e)
              | _ \<Rightarrow> Inl (IoError path ''not a file'')) (\<lambda>raw.
       try_res (map_err (SemParseError path) (yaml_peek_kind yaml raw)) (\<lambda>kind.
         if kind = Some SEMANTICS_KIND
         then try_res (map_err (SemParseError path) (yaml_parse_file yaml raw))
                (\<lambda>parsed. Inr (Some parsed))
         else Inr None))"

definition merge_file ::
  "yaml_semantics \<Rightarrow> fs \<Rightarrow> registry \<Rightarrow> string \<Rightarrow> semantics_error + registry" where
  "merge_file yaml fs entries path =
     try_res (load_semantics_file yaml fs path) (\<lambda>loaded.
       case loaded of
         None \<Rightarrow> Inr entries
       | Some file \<Rightarrow> merge_into entries (sf_sources file) path)"

fun seed_ctx :: "registry \<Rightarrow> (string \<times> string option) list \<Rightarrow> registry" where
  "seed_ctx entries [] = entries"
| "seed_ctx entries ((name, desc) # rest) =
     (case non_empty desc of
        None \<Rightarrow> seed_ctx entries rest
      | Some d \<Rightarrow>
          seed_ctx (entries(SourceKey name \<mapsto>
            (entry_or_default entries (SourceKey name))\<lparr>se_description := Some d\<rparr>)) rest)"

definition semantics_build ::
  "yaml_semantics \<Rightarrow> fs \<Rightarrow> string option \<Rightarrow> (string \<times> string option) list
   \<Rightarrow> semantics_error + registry" where
  "semantics_build yaml fs semantics_path ctx_descriptions =
     (let entries = seed_ctx Map.empty ctx_descriptions
      in case semantics_path of
           None \<Rightarrow> Inr entries
         | Some path \<Rightarrow>
             try_res (resolve_semantics_files fs path)
               (\<lambda>files. fold_res (merge_file yaml fs) entries files))"


section \<open>Keys: parsing and display\<close>

fun key_wf :: "semantics_key \<Rightarrow> bool" where
  "key_wf (SourceKey n) \<longleftrightarrow> n \<noteq> [] \<and> CHR ''.'' \<notin> set n"
| "key_wf (QualifiedKey c s t) \<longleftrightarrow>
     (\<forall>w \<in> {c, s, t}. w \<noteq> [] \<and> CHR ''.'' \<notin> set w)"

text \<open>
  Keys round-trip: a name parses to a key exactly when the key is well formed (one or three
  non-empty segments without dots) and displays as that name, so error messages quote the
  user's input and no two names share a key.
\<close>

theorem semantics_key_roundtrip:
  "semantics_key_parse name = Inr k \<longleftrightarrow> key_wf k \<and> key_display k = name"
proof
  assume p: "semantics_key_parse name = Inr k"
  have nosep: "w \<in> set (str_split (CHR ''.'') name) \<Longrightarrow> CHR ''.'' \<notin> set w" for w
    by (rule str_split_no_sep)
  have j: "str_join ''.'' ws = name" if "str_split (CHR ''.'') name = ws" for ws
    using that by auto
  consider (one) w where "str_split (CHR ''.'') name = [w]" "w \<noteq> []" "k = SourceKey w"
    | (three) c s t where "str_split (CHR ''.'') name = [c, s, t]" "c \<noteq> []" "s \<noteq> []" "t \<noteq> []"
        "k = QualifiedKey c s t"
    using p by (simp add: semantics_key_parse_def split: list.split_asm if_split_asm)
  then show "key_wf k \<and> key_display k = name"
  proof cases
    case one
    then show ?thesis using nosep [of w] j [of "[w]"] by simp
  next
    case three
    then show ?thesis using nosep [of c] nosep [of s] nosep [of t] j [of "[c, s, t]"] by simp
  qed
next
  assume k: "key_wf k \<and> key_display k = name"
  show "semantics_key_parse name = Inr k"
  proof (cases k)
    case (SourceKey n)
    with k show ?thesis by (auto simp: semantics_key_parse_def str_split_absent)
  next
    case (QualifiedKey c s t)
    with k have "str_split (CHR ''.'') name = [c, s, t]"
      by (auto simp: str_split_append str_split_absent)
    with k QualifiedKey show ?thesis by (simp add: semantics_key_parse_def)
  qed
qed

section \<open>The abstract overlay: one description per slot\<close>

text \<open>
  A slot is a table (key) or one of its columns. The abstract state is a pair of maps, the
  text of each slot and the file it came from; a declaration claims a slot that no file has
  claimed before.
\<close>

type_synonym slot = "semantics_key \<times> string option"
type_synonym decl = "slot \<times> string \<times> string"
type_synonym overlay = "(slot \<rightharpoonup> string) \<times> (slot \<rightharpoonup> string)"

fun text_at :: "registry \<Rightarrow> slot \<Rightarrow> string option" where
  "text_at r (k, None) = Option.bind (r k) se_description"
| "text_at r (k, Some c) = Option.bind (r k) (\<lambda>e. se_columns e c)"

fun origin_at :: "registry \<Rightarrow> slot \<Rightarrow> string option" where
  "origin_at r (k, None) = Option.bind (r k) se_description_origin"
| "origin_at r (k, Some c) = Option.bind (r k) (\<lambda>e. se_column_origins e c)"

definition overlay_abs :: "registry \<Rightarrow> overlay" where
  "overlay_abs r = (text_at r, origin_at r)"

fun add_decls :: "overlay \<Rightarrow> decl list \<Rightarrow> overlay option" where
  "add_decls ov [] = Some ov"
| "add_decls (T, Og) ((sl, txt, origin) # ds) =
     (if Og sl \<noteq> None then None else add_decls (T(sl \<mapsto> txt), Og(sl \<mapsto> origin)) ds)"

definition desc_decls :: "semantics_key \<Rightarrow> string \<Rightarrow> string option \<Rightarrow> decl list" where
  "desc_decls k origin d =
     (case non_empty d of None \<Rightarrow> [] | Some t \<Rightarrow> [((k, None), t, origin)])"

definition column_decls :: "semantics_key \<Rightarrow> string \<Rightarrow> column_semantics \<Rightarrow> decl list" where
  "column_decls k origin c =
     (case non_empty (cs_description c) of None \<Rightarrow> [] | Some t \<Rightarrow> [((k, Some (cs_name c)), t, origin)])"

definition source_decls :: "semantics_key \<Rightarrow> string \<Rightarrow> source_semantics \<Rightarrow> decl list" where
  "source_decls k origin s =
     desc_decls k origin (ss_description s) @ concat (map (column_decls k origin) (ss_columns s))"

fun spec_decls :: "string \<Rightarrow> source_semantics list \<Rightarrow> decl list option" where
  "spec_decls origin [] = Some []"
| "spec_decls origin (s # ss) =
     (case (semantics_key_parse (ss_name s), spec_decls origin ss) of
        (Inr k, Some ds) \<Rightarrow> Some (source_decls k origin s @ ds)
      | _ \<Rightarrow> None)"

definition file_decls :: "yaml_semantics \<Rightarrow> fs \<Rightarrow> string \<Rightarrow> decl list option" where
  "file_decls yaml fs path =
     (case load_semantics_file yaml fs path of
        Inl _ \<Rightarrow> None | Inr None \<Rightarrow> Some []
      | Inr (Some f) \<Rightarrow> spec_decls path (sf_sources f))"

fun overlay_decls :: "yaml_semantics \<Rightarrow> fs \<Rightarrow> string list \<Rightarrow> decl list option" where
  "overlay_decls yaml fs [] = Some []"
| "overlay_decls yaml fs (p # ps) =
     (case (file_decls yaml fs p, overlay_decls yaml fs ps) of
        (Some ds, Some es) \<Rightarrow> Some (ds @ es) | _ \<Rightarrow> None)"

section \<open>The merge refines the abstract overlay\<close>

definition outcome :: "semantics_error + registry \<Rightarrow> overlay option" where
  "outcome r = (case r of Inl _ \<Rightarrow> None | Inr x \<Rightarrow> Some (overlay_abs x))"

lemma outcome_simps [simp]: "outcome (Inl e) = None" "outcome (Inr r) = Some (overlay_abs r)"
  by (simp_all add: outcome_def)

lemma add_decls_append:
  "add_decls ov (xs @ ys) = Option.bind (add_decls ov xs) (\<lambda>ov'. add_decls ov' ys)"
  by (induction ov xs rule: add_decls.induct) auto

text \<open>Where it succeeds, and what it then holds, in closed form.\<close>

lemma add_decls_closed:
  "add_decls (T, Og) ds =
     (if distinct (map fst ds) \<and> (\<forall>sl \<in> set (map fst ds). Og sl = None)
      then Some (T ++ map_of (map (\<lambda>(sl, t, g). (sl, t)) ds),
                 Og ++ map_of (map (\<lambda>(sl, t, g). (sl, g)) ds))
      else None)"
proof (induction ds arbitrary: T Og)
  case Nil
  then show ?case by simp
next
  case (Cons d ds)
  obtain sl t g where d: "d = (sl, t, g)" by (cases d)
  have upd: "sl \<notin> set (map fst ds) \<Longrightarrow> (M(sl \<mapsto> x)) ++ map_of (map (\<lambda>(sl, t, g). (sl, f t g)) ds)
      = M ++ map_of (map (\<lambda>(sl, t, g). (sl, f t g)) ((sl, t, g) # ds))"
    if "x = f t g" for M :: "slot \<rightharpoonup> string" and x f
  proof -
    assume "sl \<notin> set (map fst ds)"
    then have "map_of (map (\<lambda>(sl, t, g). (sl, f t g)) ds) sl = None"
      by (auto simp: map_of_eq_None_iff image_iff)
    with that show ?thesis by (auto simp: fun_eq_iff map_add_def split: option.splits)
  qed
  show ?case
    using upd [of t "\<lambda>t g. t" T] upd [of g "\<lambda>t g. g" Og]
    by (auto simp: d Cons.IH) (auto simp: fun_eq_iff map_add_def)
qed

lemma overlay_abs_default:
  "overlay_abs (r(k \<mapsto> entry_or_default r k)) = overlay_abs r"
proof -
  have "text_at (r(k \<mapsto> entry_or_default r k)) sl = text_at r sl"
    and "origin_at (r(k \<mapsto> entry_or_default r k)) sl = origin_at r sl" for sl
    by (cases sl; cases "snd sl"; cases "r k";
        auto simp: entry_or_default_def source_entry_default_def)+
  then show ?thesis by (simp add: overlay_abs_def fun_eq_iff)
qed

lemma overlay_abs_set_description:
  "overlay_abs (r(k \<mapsto> e\<lparr>se_description := Some d, se_description_origin := Some g\<rparr>)) =
     ((text_at (r(k \<mapsto> e)))((k, None) \<mapsto> d), (origin_at (r(k \<mapsto> e)))((k, None) \<mapsto> g))"
  unfolding overlay_abs_def prod.inject fun_eq_iff
  by (safe; case_tac b; auto)

lemma overlay_abs_set_column:
  "overlay_abs (r(k \<mapsto> e\<lparr>se_columns := (se_columns e)(c \<mapsto> d),
                        se_column_origins := (se_column_origins e)(c \<mapsto> g)\<rparr>)) =
     ((text_at (r(k \<mapsto> e)))((k, Some c) \<mapsto> d), (origin_at (r(k \<mapsto> e)))((k, Some c) \<mapsto> g))"
  unfolding overlay_abs_def prod.inject fun_eq_iff
  by (safe; case_tac b; auto)

lemma merge_description_refines:
  "outcome (try_res (merge_description kd g e d) (\<lambda>e'. Inr (r(k \<mapsto> e')))) =
     add_decls (overlay_abs (r(k \<mapsto> e))) (desc_decls k g d)"
  by (auto simp: merge_description_def desc_decls_def overlay_abs_set_description
      overlay_abs_def [of "r(k \<mapsto> e)"] split: option.splits)

lemma merge_column_refines:
  "outcome (try_res (merge_column kd g e c) (\<lambda>e'. Inr (r(k \<mapsto> e')))) =
     add_decls (overlay_abs (r(k \<mapsto> e))) (column_decls k g c)"
  by (auto simp: merge_column_def column_decls_def overlay_abs_set_column
      overlay_abs_def [of "r(k \<mapsto> e)"] split: option.splits)


lemma outcome_bind:
  "outcome (try_res a f) = Option.bind (case a of Inl _ \<Rightarrow> None | Inr x \<Rightarrow> Some x) (\<lambda>x. outcome (f x))"
  by (cases a) auto

lemma merge_columns_refines:
  "outcome (try_res (fold_res (merge_column kd g) e cs) (\<lambda>e'. Inr (r(k \<mapsto> e')))) =
     add_decls (overlay_abs (r(k \<mapsto> e))) (concat (map (column_decls k g) cs))"
proof (induction cs arbitrary: e)
  case Nil
  then show ?case by simp
next
  case (Cons c cs)
  have "add_decls (overlay_abs (r(k \<mapsto> e))) (column_decls k g c) =
      outcome (try_res (merge_column kd g e c) (\<lambda>e'. Inr (r(k \<mapsto> e'))))"
    by (simp only: merge_column_refines)
  with Cons show ?case
    by (cases "merge_column kd g e c") (simp_all add: add_decls_append fun_upd_def)
qed

lemma merge_source_refines:
  "outcome (merge_source g r s) =
     (case semantics_key_parse (ss_name s) of
        Inl _ \<Rightarrow> None | Inr k \<Rightarrow> add_decls (overlay_abs r) (source_decls k g s))"
proof (cases "semantics_key_parse (ss_name s)")
  case (Inl e)
  then show ?thesis by (simp add: merge_source_def)
next
  case (Inr k)
  let ?e = "entry_or_default r k"
  have "add_decls (overlay_abs r) (desc_decls k g (ss_description s)) =
      outcome (try_res (merge_description (key_display k) g ?e (ss_description s))
                 (\<lambda>e'. Inr (r(k \<mapsto> e'))))"
    by (simp only: merge_description_refines overlay_abs_default)
  with Inr show ?thesis
    by (cases "merge_description (key_display k) g ?e (ss_description s)")
      (simp_all add: merge_source_def Let_def source_decls_def add_decls_append
        merge_columns_refines)
qed

lemma merge_into_refines:
  "outcome (merge_into r ss g) =
     Option.bind (spec_decls g ss) (add_decls (overlay_abs r))"
proof (induction ss arbitrary: r)
  case Nil
  then show ?case by (simp add: merge_into_def)
next
  case (Cons s ss)
  show ?case
  proof (cases "semantics_key_parse (ss_name s)")
    case (Inl e)
    then show ?thesis by (simp add: merge_into_def merge_source_def)
  next
    case (Inr k)
    have src: "outcome (merge_source g r s) = add_decls (overlay_abs r) (source_decls k g s)"
      by (simp add: merge_source_refines Inr)
    show ?thesis
    proof (cases "merge_source g r s")
      case (Inl e)
      with src have "add_decls (overlay_abs r) (source_decls k g s) = None" by simp
      with Inl Inr show ?thesis
        by (simp add: merge_into_def add_decls_append split: option.split)
    next
      case r': (Inr r')
      with src have "add_decls (overlay_abs r) (source_decls k g s) = Some (overlay_abs r')"
        by simp
      with r' Inr Cons [of r'] show ?thesis
        by (simp add: merge_into_def add_decls_append split: option.split)
    qed
  qed
qed

lemma merge_file_refines:
  "outcome (merge_file yaml fs r p) =
     Option.bind (file_decls yaml fs p) (add_decls (overlay_abs r))"
  by (cases "load_semantics_file yaml fs p")
    (auto simp: merge_file_def file_decls_def merge_into_refines split: option.split)

lemma merge_files_refines:
  "outcome (fold_res (merge_file yaml fs) r ps) =
     Option.bind (overlay_decls yaml fs ps) (add_decls (overlay_abs r))"
proof (induction ps arbitrary: r)
  case Nil
  then show ?case by simp
next
  case (Cons p ps)
  have src: "outcome (merge_file yaml fs r p) =
      Option.bind (file_decls yaml fs p) (add_decls (overlay_abs r))"
    by (rule merge_file_refines)
  show ?case
  proof (cases "merge_file yaml fs r p")
    case (Inl e)
    with src show ?thesis
      by (cases "file_decls yaml fs p") (auto simp: add_decls_append split: option.split)
  next
    case (Inr r')
    with src obtain ds where "file_decls yaml fs p = Some ds"
      "add_decls (overlay_abs r) ds = Some (overlay_abs r')"
      by (cases "file_decls yaml fs p") auto
    with Inr Cons [of r'] show ?thesis by (simp add: add_decls_append split: option.split)
  qed
qed

section \<open>Descriptions seeded from the context\<close>

text \<open>The last non-empty inline description of the source, at table level only.\<close>

fun ctx_text :: "(string \<times> string option) list \<Rightarrow> slot \<Rightarrow> string option" where
  "ctx_text ctx (SourceKey n, None) =
     map_of (rev (concat (map (\<lambda>(m, d). case non_empty d of None \<Rightarrow> [] | Some t \<Rightarrow> [(m, t)]) ctx))) n"
| "ctx_text ctx _ = None"

lemma seed_ctx_text:
  "text_at (seed_ctx r ctx) sl =
     (case ctx_text ctx sl of Some t \<Rightarrow> Some t | None \<Rightarrow> text_at r sl)"
proof (induction r ctx rule: seed_ctx.induct)
  case (1 r)
  then show ?case by (cases "([] :: (string \<times> string option) list, sl)" rule: ctx_text.cases) auto
next
  case (2 r m d rest)
  show ?case
  proof (cases "non_empty d")
    case None
    then have "ctx_text ((m, d) # rest) sl = ctx_text rest sl"
      by (cases "(rest, sl)" rule: ctx_text.cases) simp_all
    with 2(1) [OF None] None show ?thesis by simp
  next
    case (Some t)
    have upd: "text_at (r(SourceKey m \<mapsto>
          (entry_or_default r (SourceKey m))\<lparr>se_description := Some t\<rparr>)) sl =
        (if sl = (SourceKey m, None) then Some t else text_at r sl)"
      by (cases sl; cases "snd sl"; cases "r (SourceKey m)")
        (auto simp: entry_or_default_def source_entry_default_def)
    from 2(2) [OF Some] Some upd show ?thesis
      by (cases "(rest, sl)" rule: ctx_text.cases)
        (auto simp: map_add_def fun_upd_def split: option.splits)
  qed
qed

lemma seed_ctx_origin: "origin_at (seed_ctx r ctx) sl = origin_at r sl"
proof (induction r ctx rule: seed_ctx.induct)
  case (2 r m d rest)
  have "origin_at (r(SourceKey m \<mapsto>
          (entry_or_default r (SourceKey m))\<lparr>se_description := Some t\<rparr>)) sl = origin_at r sl" for t
    by (cases sl; cases "snd sl"; cases "r (SourceKey m)")
      (auto simp: entry_or_default_def source_entry_default_def)
  with 2 show ?case by (auto simp: fun_upd_def split: option.split)
qed simp

lemma origin_at_empty: "origin_at Map.empty sl = None" "text_at Map.empty sl = None"
  by (cases sl; cases "snd sl"; auto)+

lemma semantics_build_outcome:
  "outcome (semantics_build yaml fs (Some path) ctx) =
     (case resolve_semantics_files fs path of
        Inl _ \<Rightarrow> None
      | Inr files \<Rightarrow>
          Option.bind (overlay_decls yaml fs files)
            (add_decls (overlay_abs (seed_ctx Map.empty ctx))))"
  by (cases "resolve_semantics_files fs path")
    (simp_all add: semantics_build_def merge_files_refines)


section \<open>What a build gives\<close>

lemma add_decls_seed:
  "add_decls (overlay_abs (seed_ctx Map.empty ctx)) ds =
     (if distinct (map fst ds)
      then Some (text_at (seed_ctx Map.empty ctx) ++ map_of (map (\<lambda>(sl, t, g). (sl, t)) ds),
                 map_of (map (\<lambda>(sl, t, g). (sl, g)) ds))
      else None)"
proof -
  have "origin_at (seed_ctx Map.empty ctx) = Map.empty"
    by (simp add: fun_eq_iff seed_ctx_origin origin_at_empty)
  then show ?thesis by (simp add: overlay_abs_def add_decls_closed)
qed

text \<open>
  C2. When a build succeeds, the description of every table and column is the one some semantics
  file declares for it, each slot being declared by at most one file entry; a slot no file
  declares falls back to the last non-empty inline description of the context (tables of bare
  source names only). In particular files override the context whatever the load order.
\<close>

theorem semantics_build_descriptions:
  assumes "semantics_build yaml fs (Some path) ctx = Inr reg"
  shows "\<exists>files ds. resolve_semantics_files fs path = Inr files
     \<and> overlay_decls yaml fs files = Some ds \<and> distinct (map fst ds)
     \<and> (\<forall>slot. text_at reg slot =
           (case map_of ds slot of Some (t, _) \<Rightarrow> Some t | None \<Rightarrow> ctx_text ctx slot))"
proof -
  from assms have "outcome (semantics_build yaml fs (Some path) ctx) = Some (overlay_abs reg)"
    by simp
  then obtain files ds where *: "resolve_semantics_files fs path = Inr files"
    "overlay_decls yaml fs files = Some ds"
    "add_decls (overlay_abs (seed_ctx Map.empty ctx)) ds = Some (overlay_abs reg)"
    unfolding semantics_build_outcome by (auto simp: bind_eq_Some_conv split: sum.splits)
  then have d: "distinct (map fst ds)" and
    t: "text_at reg = text_at (seed_ctx Map.empty ctx) ++ map_of (map (\<lambda>(sl, t, g). (sl, t)) ds)"
    using *(3) unfolding add_decls_seed by (auto simp: overlay_abs_def [of reg] split: if_splits)
  have m: "map_of (map (\<lambda>(sl, t, g). (sl, t)) ds) slot = map_option fst (map_of ds slot)" for slot
    by (induction ds) auto
  have "text_at reg slot =
      (case map_of ds slot of Some (t, _) \<Rightarrow> Some t | None \<Rightarrow> ctx_text ctx slot)" for slot
    by (auto simp: t map_add_def m seed_ctx_text origin_at_empty split: option.split)
  with * d show ?thesis by blast
qed

text \<open>
  A build fails exactly when the path or a file cannot be read, a source name is malformed,
  or two declarations (in one file or in two) claim the same table or the same column; empty
  descriptions never count as declarations.
\<close>

theorem semantics_build_ok_iff:
  "is_ok (semantics_build yaml fs (Some path) ctx) \<longleftrightarrow>
     (\<exists>files ds. resolve_semantics_files fs path = Inr files
        \<and> overlay_decls yaml fs files = Some ds \<and> distinct (map fst ds))"
proof -
  have "is_ok r \<longleftrightarrow> outcome r \<noteq> None" for r :: "semantics_error + registry"
    by (cases r) simp_all
  then show ?thesis
    by (auto simp: semantics_build_outcome add_decls_seed bind_eq_Some_conv split: sum.splits if_splits)
qed

text \<open>
  The resolution used by the catalog endpoint is most-specific-first over the slots: the
  qualified entry's text if there is one, else the bare source's, for a table and for a column.
\<close>

theorem resolve_description_precedence:
  "resolve_table_description reg c s t (Some src) =
     (case text_at reg (QualifiedKey c s t, None) of
        Some d \<Rightarrow> Some d | None \<Rightarrow> text_at reg (SourceKey src, None))
   \<and> resolve_column_description reg c s t (Some src) col =
     (case text_at reg (QualifiedKey c s t, Some col) of
        Some d \<Rightarrow> Some d | None \<Rightarrow> text_at reg (SourceKey src, Some col))
   \<and> resolve_table_description reg c s t None = text_at reg (QualifiedKey c s t, None)"
  by (auto simp: resolve_table_description_def resolve_column_description_def or_else_def
      qualified_table_description_def qualified_column_description_def table_description_def
      column_description_def split: option.splits)

text \<open>
  Auto-discovery never shadows silently: without an explicit path it reports an ambiguity
  exactly when both the directory and a single file exist beside the context, and otherwise
  returns the one that exists, preferring \<open>semantics.yaml\<close> over \<open>semantics.yml\<close>.
\<close>

theorem resolve_semantics_source_spec:
  "resolve_semantics_source fs (Some dir) None =
     (let d = path_join dir ''semantics''; y = path_join dir ''semantics.yaml'';
          m = path_join dir ''semantics.yml'';
          file = (if path_is_file fs y then Some y else if path_is_file fs m then Some m else None)
      in if path_is_dir fs d \<and> file \<noteq> None then Inl (AmbiguousAutoDiscovery d (the file))
         else if path_is_dir fs d then Inr (Some d) else Inr file)
   \<and> resolve_semantics_source fs cd (Some p) = Inr (Some p)
   \<and> resolve_semantics_source fs None None = Inr None"
  by (auto simp: resolve_semantics_source_def Let_def)

text \<open>
  The files of an overlay directory are processed in alphabetical order, so the outcome of
  the build (the registry, or which conflict is reported) does not depend on the order in which
  the operating system lists the directory.
\<close>

theorem semantics_build_listing_order:
  assumes "mset names' = mset names" and "fs path = Some (FDir (Inr names))"
  shows "semantics_build yaml (fs(path := Some (FDir (Inr names')))) (Some path) ctx =
         semantics_build yaml fs (Some path) ctx"
proof -
  let ?fs = "fs(path := Some (FDir (Inr names')))"
  have yf: "is_yaml_file ?fs = is_yaml_file fs"
    using assms(2) by (auto simp: is_yaml_file_def path_is_file_def fun_eq_iff)
  have "sort (filter (is_yaml_file fs) (map (path_join path) names')) =
        sort (filter (is_yaml_file fs) (map (path_join path) names))"
    by (rule sort_eq_of_mset) (simp add: assms(1))
  then have "resolve_semantics_files ?fs path = resolve_semantics_files fs path"
    using assms(2) by (simp add: resolve_semantics_files_def path_exists_def yf)
  moreover have "load_semantics_file yaml ?fs p = load_semantics_file yaml fs p" for p
    using assms(2) by (simp add: load_semantics_file_def)
  then have "merge_file yaml ?fs = merge_file yaml fs" by (simp add: merge_file_def fun_eq_iff)
  ultimately show ?thesis by (simp add: semantics_build_def)
qed

section \<open>Witnesses\<close>

text \<open>A directory with two files; the deserializer knows the two texts.\<close>

definition demo_fs :: fs where
  "demo_fs p =
     (if p = ''d'' then Some (FDir (Inr [''b.yml'', ''a.yaml'', ''notes.md'']))
      else if p = ''d/a.yaml'' then Some (FFile (Inr ''A''))
      else if p = ''d/b.yml'' then Some (FFile (Inr ''B''))
      else if p = ''d/notes.md'' then Some (FFile (Inr ''N'')) else None)"

definition demo_yaml :: yaml_semantics where
  "demo_yaml =
     \<lparr>yaml_peek_kind = (\<lambda>raw. Inr (Some SEMANTICS_KIND)),
      yaml_parse_file = (\<lambda>raw. Inr
        \<lparr>sf_kind = Some SEMANTICS_KIND,
         sf_sources =
           (if raw = ''A''
            then [\<lparr>ss_name = ''mydb'', ss_description = Some ''all'', ss_columns = []\<rparr>]
            else [\<lparr>ss_name = ''mydb.public.users'', ss_description = Some ''users'',
                   ss_columns = [\<lparr>cs_name = ''id'', cs_description = Some ''uuid''\<rparr>]\<rparr>])\<rparr>)\<rparr>"

lemmas demo_simps =
  demo_fs_def demo_yaml_def semantics_build_def resolve_semantics_files_def path_exists_def
  is_yaml_file_def path_is_file_def path_join_def path_extension_def merge_file_def
  load_semantics_file_def merge_into_def merge_source_def semantics_key_parse_def Let_def
  entry_or_default_def source_entry_default_def merge_description_def merge_column_def
  non_empty_def SEMANTICS_KIND_def

lemma demo_files: "resolve_semantics_files demo_fs ''d'' = Inr [''d/a.yaml'', ''d/b.yml'']"
  by code_simp

lemma demo_build:
  "\<exists>reg. semantics_build demo_yaml demo_fs (Some ''d'') [(''mydb'', Some ''inline'')] = Inr reg
     \<and> text_at reg (QualifiedKey ''mydb'' ''public'' ''users'', Some ''id'') = Some ''uuid''"
  unfolding semantics_build_def by (simp add: demo_files) (simp add: demo_simps)

theorem semantics_build_descriptions_witness:
  "\<exists>reg (ds :: decl list). semantics_build demo_yaml demo_fs (Some ''d'') [(''mydb'', Some ''inline'')] = Inr reg
     \<and> distinct (map fst ds)
     \<and> (\<forall>slot. text_at reg slot = (case map_of ds slot of Some (t, _) \<Rightarrow> Some t
                                  | None \<Rightarrow> ctx_text [(''mydb'', Some ''inline'')] slot))"
proof -
  obtain reg where
    b: "semantics_build demo_yaml demo_fs (Some ''d'') [(''mydb'', Some ''inline'')] = Inr reg"
    using demo_build by blast
  from semantics_build_descriptions [OF b] show ?thesis
  proof (elim exE conjE)
    fix files and ds :: "decl list"
    assume "distinct (map fst ds)"
      and "\<forall>slot. text_at reg slot = (case map_of ds slot of Some (t, _) \<Rightarrow> Some t
                | None \<Rightarrow> ctx_text [(''mydb'', Some ''inline'')] slot)"
    with b show ?thesis by (intro exI conjI)
  qed
qed

theorem semantics_build_listing_order_witness:
  "semantics_build demo_yaml
     (demo_fs(''d'' := Some (FDir (Inr [''notes.md'', ''a.yaml'', ''b.yml''])))) (Some ''d'') [] =
   semantics_build demo_yaml demo_fs (Some ''d'') []"
  by (rule semantics_build_listing_order [of _ "[''b.yml'', ''a.yaml'', ''notes.md'']"])
    (simp_all add: demo_fs_def)

end
