(* ===== verification/Auth.thy ===== *)
theory Auth
  imports Rust_Strings
begin

text \<open>
  Authentication of the HTTP server (\<^verbatim>\<open>crates/server/src/auth\<close>): the mode read from the
  environment (\<^verbatim>\<open>mode.rs\<close>), the layer built from it (\<^verbatim>\<open>layer.rs\<close>), the session check and the
  request bridge (\<^verbatim>\<open>routes.rs\<close>), the rows exposed as tables (\<^verbatim>\<open>types.rs\<close>) and their
  registration (\<^verbatim>\<open>bridge.rs\<close>). better-auth, its SQLite adapter, the cookie parser and
  DataFusion's catalog are parameters. Times are integers, the environment is a map.
\<close>

section \<open>Mode and layer\<close>

datatype auth_mode = NoAuth | BetterAuthDieselSqlite

type_synonym environment = "string \<rightharpoonup> string"

definition env_or :: "environment \<Rightarrow> string \<Rightarrow> string \<Rightarrow> string" where
  "env_or env k d = (case env k of Some v \<Rightarrow> v | None \<Rightarrow> d)"

definition auth_mode_from_env :: "environment \<Rightarrow> auth_mode" where
  "auth_mode_from_env env =
     (if env_or env ''AUTH_MODE'' [] = ''BETTER_AUTH_DIESEL_SQLITE'' then BetterAuthDieselSqlite
      else NoAuth)"

definition auth_mode_is_enabled :: "auth_mode \<Rightarrow> bool" where
  "auth_mode_is_enabled m \<longleftrightarrow> m \<noteq> NoAuth"

datatype 'auth auth_layer = NoLayer | BetterAuthLayer 'auth

text \<open>The better-auth library: opening the adapter, its migrations, and building the instance
  from the secret and the base URL.\<close>

record ('db, 'auth) auth_lib =
  al_adapter_new :: "string \<Rightarrow> string + 'db"
  al_run_migrations :: "'db \<Rightarrow> string + 'db"
  al_build :: "string \<Rightarrow> string \<Rightarrow> 'db \<Rightarrow> string + 'auth"

definition auth_db_url :: "environment \<Rightarrow> string" where
  "auth_db_url env =
     (let db_path = env_or env ''AUTH_DB_PATH'' ''skardi_auth.db'' in
      if starts_with ''sqlite://'' db_path then db_path else ''sqlite://'' @ db_path)"

definition auth_base_url :: "environment \<Rightarrow> string" where
  "auth_base_url env =
     (case env ''AUTH_BASE_URL'' of
        Some u \<Rightarrow> u
      | None \<Rightarrow> ''http://localhost:'' @ env_or env ''PORT'' ''8080'')"

definition auth_layer_build ::
  "('db, 'auth) auth_lib \<Rightarrow> environment \<Rightarrow> auth_mode \<Rightarrow> string + 'auth auth_layer" where
  "auth_layer_build lib env mode =
     (case mode of
        NoAuth \<Rightarrow> Inr NoLayer
      | BetterAuthDieselSqlite \<Rightarrow>
          try_res (ok_or (env ''AUTH_SECRET'')
            ''AUTH_SECRET environment variable must be set when AUTH_MODE=BETTER_AUTH_DIESEL_SQLITE'')
            (\<lambda>secret.
          try_res (map_err (\<lambda>e. ''Failed to initialize SQLite auth adapter: '' @ e)
            (al_adapter_new lib (auth_db_url env))) (\<lambda>adapter.
          try_res (map_err (\<lambda>e. ''Failed to run auth database migrations: '' @ e)
            (al_run_migrations lib adapter)) (\<lambda>db.
          try_res (map_err (\<lambda>e. ''Failed to initialise BetterAuth: '' @ e)
            (al_build lib secret (auth_base_url env) db)) (\<lambda>auth.
          Inr (BetterAuthLayer auth))))))"

definition auth_layer_is_enabled :: "'auth auth_layer \<Rightarrow> bool" where
  "auth_layer_is_enabled l = (case l of NoLayer \<Rightarrow> False | _ \<Rightarrow> True)"

section \<open>The session check\<close>

text \<open>A header value is \<open>None\<close> when it is not visible ASCII (\<open>to_str\<close> fails); \<open>get\<close> is the first.\<close>

type_synonym headers = "(string \<times> string option) list"

definition header_str :: "headers \<Rightarrow> string \<Rightarrow> string option" where
  "header_str hs name = Option.bind (map_of hs name) id"

text \<open>
  What the check uses of the library: the cookies a header parses to (bad ones dropped), the
  configured cookie name, and the session of a token.
\<close>

record auth_session =
  as_id :: string
  as_token :: string
  as_user_id :: string
  as_expires_at :: int
  as_created_at :: int
  as_ip_address :: "string option"
  as_user_agent :: "string option"
  as_active :: bool

record 'auth session_lib =
  sl_parse_cookies :: "string \<Rightarrow> (string \<times> string) list"
  sl_cookie_name :: "'auth \<Rightarrow> string"
  sl_get_session :: "'auth \<Rightarrow> string \<Rightarrow> string + auth_session option"

fun find_cookie :: "string \<Rightarrow> (string \<times> string) list \<Rightarrow> string option" where
  "find_cookie name [] = None"
| "find_cookie name ((n, v) # cs) = (if n = name \<and> v \<noteq> [] then Some v else find_cookie name cs)"

definition session_token :: "'auth session_lib \<Rightarrow> 'auth \<Rightarrow> headers \<Rightarrow> string option" where
  "session_token lib auth hs =
     (case Option.bind (header_str hs ''authorization'') (strip_prefix ''Bearer '') of
        Some t \<Rightarrow> Some t
      | None \<Rightarrow>
          Option.bind (header_str hs ''cookie'') (\<lambda>cookie_header.
            find_cookie (sl_cookie_name lib auth) (sl_parse_cookies lib cookie_header)))"

definition session_valid :: "int \<Rightarrow> auth_session option \<Rightarrow> bool" where
  "session_valid now s = (case s of Some x \<Rightarrow> now < as_expires_at x \<and> as_active x | None \<Rightarrow> False)"

text \<open>A rejection is the status 401 and the message of its JSON body.\<close>

definition verify_session ::
  "'auth session_lib \<Rightarrow> int \<Rightarrow> 'auth auth_layer \<Rightarrow> headers \<Rightarrow> (nat \<times> string) + unit" where
  "verify_session lib now layer hs =
     (case layer of
        NoLayer \<Rightarrow> Inr ()
      | BetterAuthLayer auth \<Rightarrow>
          (case session_token lib auth hs of
             None \<Rightarrow> Inl (401, ''Authentication required'')
           | Some token \<Rightarrow>
               (let session = (case sl_get_session lib auth token of Inr s \<Rightarrow> s | Inl _ \<Rightarrow> None) in
                if session_valid now session then Inr ()
                else Inl (401, ''Invalid or expired session''))))"

section \<open>The request bridge\<close>

datatype http_method = HGet | HPost | HPut | HDelete | HPatch | HOptions | HHead

definition to_http_method :: "string \<Rightarrow> string + http_method" where
  "to_http_method m =
     (if m = ''GET'' then Inr HGet
      else if m = ''POST'' then Inr HPost
      else if m = ''PUT'' then Inr HPut
      else if m = ''DELETE'' then Inr HDelete
      else if m = ''PATCH'' then Inr HPatch
      else if m = ''OPTIONS'' then Inr HOptions
      else if m = ''HEAD'' then Inr HHead
      else Inl (''Unsupported HTTP method: '' @ m))"

record http_request =
  hr_method :: string
  hr_path :: string
  hr_headers :: headers
  hr_query :: "string option"
  hr_body :: "string + string"

record auth_request =
  ar_method :: http_method
  ar_path :: string
  ar_headers :: "string \<rightharpoonup> string"
  ar_query :: "string \<rightharpoonup> string"
  ar_body :: "string option"

text \<open>Collecting pairs into a hash map: a later pair with the same key wins.\<close>

definition collect_map :: "('k \<times> 'v) list \<Rightarrow> 'k \<rightharpoonup> 'v" where
  "collect_map kvs = map_of (rev kvs)"

definition to_auth_request ::
  "(string \<Rightarrow> (string \<times> string) list) \<Rightarrow> http_request \<Rightarrow> string + auth_request" where
  "to_auth_request form_parse req =
     try_res (to_http_method (hr_method req)) (\<lambda>method.
     let headers = collect_map (List.map_filter (\<lambda>(k, v).
                     map_option (\<lambda>v_str. (to_lowercase k, v_str)) v) (hr_headers req));
         query = (case hr_query req of Some q \<Rightarrow> collect_map (form_parse q) | None \<Rightarrow> Map.empty)
     in try_res (map_err (\<lambda>e. ''Failed to read request body: '' @ e) (hr_body req)) (\<lambda>body_bytes.
        Inr \<lparr>ar_method = method, ar_path = hr_path req, ar_headers = headers, ar_query = query,
             ar_body = (if body_bytes = [] then None else Some body_bytes)\<rparr>))"

text \<open>The response: statuses outside 100..999 become 500, invalid headers are dropped.\<close>

record auth_response =
  rs_status :: nat
  rs_headers :: "(string \<times> string) list"
  rs_body :: string

definition from_auth_response ::
  "(string \<times> string \<Rightarrow> bool) \<Rightarrow> auth_response \<Rightarrow> auth_response" where
  "from_auth_response header_ok res =
     \<lparr>rs_status = (if 100 \<le> rs_status res \<and> rs_status res \<le> 999 then rs_status res else 500),
      rs_headers = filter header_ok (rs_headers res), rs_body = rs_body res\<rparr>"

definition plain_response :: "nat \<Rightarrow> string \<Rightarrow> auth_response" where
  "plain_response status body = \<lparr>rs_status = status, rs_headers = [], rs_body = body\<rparr>"

definition auth_handler ::
  "(string \<Rightarrow> (string \<times> string) list) \<Rightarrow> (string \<times> string \<Rightarrow> bool) \<Rightarrow> (string \<Rightarrow> string)
   \<Rightarrow> ('auth \<Rightarrow> auth_request \<Rightarrow> string + auth_response) \<Rightarrow> 'auth auth_layer \<Rightarrow> http_request
   \<Rightarrow> auth_response" where
  "auth_handler form_parse header_ok error_json handle_request layer req =
     (case layer of
        NoLayer \<Rightarrow> plain_response 404 (error_json ''auth not enabled'')
      | BetterAuthLayer auth \<Rightarrow>
          (case to_auth_request form_parse req of
             Inl e \<Rightarrow> plain_response 400 (error_json e)
           | Inr auth_req \<Rightarrow>
               (case handle_request auth auth_req of
                  Inr res \<Rightarrow> from_auth_response header_ok res
                | Inl e \<Rightarrow> plain_response 500 (error_json e))))"

section \<open>The auth tables\<close>

record auth_user_row =
  ur_id :: string
  ur_name :: "string option"
  ur_email :: "string option"
  ur_email_verified :: bool
  ur_username :: "string option"
  ur_role :: "string option"
  ur_banned :: bool
  ur_created_at :: string
  ur_updated_at :: string

record auth_session_row =
  sr_id :: string
  sr_token :: string
  sr_user_id :: string
  sr_expires_at :: string
  sr_created_at :: string
  sr_ip_address :: "string option"
  sr_user_agent :: "string option"

datatype column = Utf8Column "string option list" | BooleanColumn "bool option list"

datatype column_type = Utf8 | Boolean

text \<open>Fields as \<open>(name, type, nullable)\<close>.\<close>

definition user_arrow_schema :: "(string \<times> column_type \<times> bool) list" where
  "user_arrow_schema =
     [(''id'', Utf8, False), (''name'', Utf8, True), (''email'', Utf8, True),
      (''email_verified'', Boolean, False), (''username'', Utf8, True), (''role'', Utf8, True),
      (''banned'', Boolean, False), (''created_at'', Utf8, False), (''updated_at'', Utf8, False)]"

definition user_columns :: "auth_user_row list \<Rightarrow> column list" where
  "user_columns rows =
     [Utf8Column (map (\<lambda>r. Some (ur_id r)) rows), Utf8Column (map ur_name rows),
      Utf8Column (map ur_email rows), BooleanColumn (map (\<lambda>r. Some (ur_email_verified r)) rows),
      Utf8Column (map ur_username rows), Utf8Column (map ur_role rows),
      BooleanColumn (map (\<lambda>r. Some (ur_banned r)) rows),
      Utf8Column (map (\<lambda>r. Some (ur_created_at r)) rows),
      Utf8Column (map (\<lambda>r. Some (ur_updated_at r)) rows)]"

definition session_arrow_schema :: "(string \<times> column_type \<times> bool) list" where
  "session_arrow_schema =
     [(''id'', Utf8, False), (''token'', Utf8, False), (''user_id'', Utf8, False),
      (''expires_at'', Utf8, False), (''created_at'', Utf8, False), (''ip_address'', Utf8, True),
      (''user_agent'', Utf8, True)]"

definition session_columns :: "auth_session_row list \<Rightarrow> column list" where
  "session_columns rows =
     [Utf8Column (map (\<lambda>r. Some (sr_id r)) rows), Utf8Column (map (\<lambda>r. Some (sr_token r)) rows),
      Utf8Column (map (\<lambda>r. Some (sr_user_id r)) rows),
      Utf8Column (map (\<lambda>r. Some (sr_expires_at r)) rows),
      Utf8Column (map (\<lambda>r. Some (sr_created_at r)) rows), Utf8Column (map sr_ip_address rows),
      Utf8Column (map sr_user_agent rows)]"

record auth_user =
  au_id :: string
  au_name :: "string option"
  au_email :: "string option"
  au_email_verified :: bool
  au_username :: "string option"
  au_role :: "string option"
  au_banned :: bool
  au_created_at :: int
  au_updated_at :: int

definition user_row_of :: "(int \<Rightarrow> string) \<Rightarrow> auth_user \<Rightarrow> auth_user_row" where
  "user_row_of rfc3339 u =
     \<lparr>ur_id = au_id u, ur_name = au_name u, ur_email = au_email u,
      ur_email_verified = au_email_verified u, ur_username = au_username u, ur_role = au_role u,
      ur_banned = au_banned u, ur_created_at = rfc3339 (au_created_at u),
      ur_updated_at = rfc3339 (au_updated_at u)\<rparr>"

definition session_row_of :: "(int \<Rightarrow> string) \<Rightarrow> auth_session \<Rightarrow> auth_session_row" where
  "session_row_of rfc3339 s =
     \<lparr>sr_id = as_id s, sr_token = as_token s, sr_user_id = as_user_id s,
      sr_expires_at = rfc3339 (as_expires_at s), sr_created_at = rfc3339 (as_created_at s),
      sr_ip_address = as_ip_address s, sr_user_agent = as_user_agent s\<rparr>"

text \<open>\<open>RecordBatch::try_new\<close>: every column must have its field's type and no null unless allowed.\<close>

definition column_ok :: "string \<times> column_type \<times> bool \<Rightarrow> column \<Rightarrow> bool" where
  "column_ok f c =
     (case f of (name, ty, nullable) \<Rightarrow>
        (case c of
           Utf8Column vs \<Rightarrow> ty = Utf8 \<and> (nullable \<or> None \<notin> set vs)
         | BooleanColumn vs \<Rightarrow> ty = Boolean \<and> (nullable \<or> None \<notin> set vs)))"

fun column_length :: "column \<Rightarrow> nat" where
  "column_length (Utf8Column vs) = length vs"
| "column_length (BooleanColumn vs) = length vs"

definition users_build_batch ::
  "string + auth_user list \<Rightarrow> (int \<Rightarrow> string) \<Rightarrow> string + column list" where
  "users_build_batch list_users rfc3339 =
     try_res list_users (\<lambda>users. Inr (user_columns (map (user_row_of rfc3339) users)))"

text \<open>The sessions of every user, in the order of the users; the first error stops the scan.\<close>

definition sessions_build_batch ::
  "string + auth_user list \<Rightarrow> (string \<Rightarrow> string + auth_session list) \<Rightarrow> (int \<Rightarrow> string)
   \<Rightarrow> string + column list" where
  "sessions_build_batch list_users get_user_sessions rfc3339 =
     try_res list_users (\<lambda>users.
     try_res (fold_res (\<lambda>all_sessions u.
         try_res (get_user_sessions (au_id u)) (\<lambda>sessions. Inr (all_sessions @ sessions))) [] users)
       (\<lambda>all_sessions. Inr (session_columns (map (session_row_of rfc3339) all_sessions))))"

record ('c, 'cat, 'sch, 'tab) auth_catalog =
  ac_schema_new :: 'sch
  ac_register_table :: "'sch \<Rightarrow> string \<Rightarrow> 'tab \<Rightarrow> string + 'sch"
  ac_catalog :: "'c \<Rightarrow> string \<Rightarrow> 'cat option"
  ac_schema :: "'cat \<Rightarrow> string \<Rightarrow> 'sch option"
  ac_register_schema :: "'c \<Rightarrow> 'cat \<Rightarrow> string \<Rightarrow> 'sch \<Rightarrow> string + 'c"

definition register_auth_tables ::
  "('c, 'cat, 'sch, 'tab) auth_catalog \<Rightarrow> 'tab \<Rightarrow> 'tab \<Rightarrow> 'c \<Rightarrow> string + 'c" where
  "register_auth_tables ac users_table sessions_table ctx =
     try_res (map_err (\<lambda>e. ''Failed to register auth.users table: '' @ e)
       (ac_register_table ac (ac_schema_new ac) ''users'' users_table)) (\<lambda>schema1.
     try_res (map_err (\<lambda>e. ''Failed to register auth.sessions table: '' @ e)
       (ac_register_table ac schema1 ''sessions'' sessions_table)) (\<lambda>schema.
     try_res (ok_or (ac_catalog ac ctx ''datafusion'') ''Default catalog 'datafusion' not found'')
       (\<lambda>catalog.
     if ac_schema ac catalog ''auth'' \<noteq> None
     then Inl ''Auth schema 'auth' is already registered''
     else map_err (\<lambda>e. ''Failed to register auth schema: '' @ e)
            (ac_register_schema ac ctx catalog ''auth'' schema))))"

section \<open>Properties\<close>

text \<open>
  The token a request carries, over its headers: the rest of the first authorization header when
  that starts with \<open>Bearer\<close> and a space, whatever cookies there are; otherwise the value of the
  first cookie of the configured name that is not empty, in the first cookie header.
\<close>

definition first_header :: "headers \<Rightarrow> string \<Rightarrow> string \<Rightarrow> bool" where
  "first_header hs name v \<longleftrightarrow> (\<exists>pre post. hs = pre @ (name, Some v) # post \<and> name \<notin> fst ` set pre)"

inductive carries_token :: "'auth session_lib \<Rightarrow> 'auth \<Rightarrow> headers \<Rightarrow> string \<Rightarrow> bool"
  for lib :: "'auth session_lib" and auth :: 'auth and hs :: headers where
  by_bearer: "first_header hs ''authorization'' (''Bearer '' @ token) \<Longrightarrow> carries_token lib auth hs token"
| by_cookie: "\<not> (\<exists>t. first_header hs ''authorization'' (''Bearer '' @ t)) \<Longrightarrow>
    first_header hs ''cookie'' h \<Longrightarrow>
    sl_parse_cookies lib h = pre @ (sl_cookie_name lib auth, token) # post \<Longrightarrow> token \<noteq> [] \<Longrightarrow>
    (\<forall>v. (sl_cookie_name lib auth, v) \<in> set pre \<longrightarrow> v = []) \<Longrightarrow> carries_token lib auth hs token"

lemma header_str_first: "header_str hs name = Some v \<longleftrightarrow> first_header hs name v"
proof (induction hs)
  case Nil
  then show ?case by (simp add: header_str_def first_header_def)
next
  case (Cons h hs)
  obtain n x where h: "h = (n, x)" by fastforce
  have split: "first_header (h # hs) name v \<longleftrightarrow>
      (if n = name then x = Some v else first_header hs name v)"
  proof (cases "n = name")
    case True
    have "first_header (h # hs) name v \<longleftrightarrow> (\<exists>post. h # hs = (name, Some v) # post)"
      unfolding first_header_def
    proof (intro iffI; elim exE conjE)
      fix pre post assume "h # hs = pre @ (name, Some v) # post" "name \<notin> fst ` set pre"
      with True h have "pre = []" by (cases pre) auto
      with \<open>h # hs = _\<close> show "\<exists>post. h # hs = (name, Some v) # post" by simp
    next
      fix post assume "h # hs = (name, Some v) # post"
      then have "h # hs = [] @ (name, Some v) # post \<and> name \<notin> fst ` set []" by simp
      then show "\<exists>pre post. h # hs = pre @ (name, Some v) # post \<and> name \<notin> fst ` set pre" by blast
    qed
    with True h show ?thesis by simp
  next
    case False
    have "first_header (h # hs) name v \<longleftrightarrow> first_header hs name v"
      unfolding first_header_def
    proof (intro iffI; elim exE conjE)
      fix pre post assume *: "h # hs = pre @ (name, Some v) # post" "name \<notin> fst ` set pre"
      with False h obtain pre' where "pre = h # pre'" by (cases pre) auto
      with * show "\<exists>pre post. hs = pre @ (name, Some v) # post \<and> name \<notin> fst ` set pre" by auto
    next
      fix pre post assume "hs = pre @ (name, Some v) # post" "name \<notin> fst ` set pre"
      then have "h # hs = (h # pre) @ (name, Some v) # post \<and> name \<notin> fst ` set (h # pre)"
        using False h by simp
      then show "\<exists>pre post. h # hs = pre @ (name, Some v) # post \<and> name \<notin> fst ` set pre" by blast
    qed
    with False show ?thesis by simp
  qed
  show ?case using Cons.IH unfolding split by (simp add: header_str_def h)
qed

lemma find_cookie_Some:
  "find_cookie name cs = Some v \<longleftrightarrow>
     (\<exists>pre post. cs = pre @ (name, v) # post \<and> v \<noteq> [] \<and> (\<forall>x. (name, x) \<in> set pre \<longrightarrow> x = []))"
proof (induction name cs rule: find_cookie.induct)
  case (2 name n x cs)
  show ?case (is "?l \<longleftrightarrow> ?r")
  proof (cases "n = name \<and> x \<noteq> []")
    case True
    have "?r \<longleftrightarrow> v = x"
    proof
      assume ?r
      then obtain pre post where *: "(n, x) # cs = pre @ (name, v) # post"
        "\<forall>x. (name, x) \<in> set pre \<longrightarrow> x = []" by blast
      with True have "pre = []" by (cases pre) auto
      with * show "v = x" by simp
    next
      assume "v = x"
      with True have "(n, x) # cs = [] @ (name, v) # cs \<and> v \<noteq> [] \<and> (\<forall>x. (name, x) \<in> set [] \<longrightarrow> x = [])" by simp
      then show ?r by blast
    qed
    with True show ?thesis by auto
  next
    case False
    have "?r \<longleftrightarrow> (\<exists>pre post. cs = pre @ (name, v) # post \<and> v \<noteq> [] \<and> (\<forall>x. (name, x) \<in> set pre \<longrightarrow> x = []))"
    proof
      assume ?r
      then obtain pre post where *: "(n, x) # cs = pre @ (name, v) # post" "v \<noteq> []"
        "\<forall>x. (name, x) \<in> set pre \<longrightarrow> x = []" by blast
      with False obtain pre' where "pre = (n, x) # pre'" by (cases pre) auto
      with * show "\<exists>pre post. cs = pre @ (name, v) # post \<and> v \<noteq> [] \<and> (\<forall>x. (name, x) \<in> set pre \<longrightarrow> x = [])"
        by auto
    next
      assume "\<exists>pre post. cs = pre @ (name, v) # post \<and> v \<noteq> [] \<and> (\<forall>x. (name, x) \<in> set pre \<longrightarrow> x = [])"
      then obtain pre post where *: "cs = pre @ (name, v) # post" "v \<noteq> []"
        "\<forall>x. (name, x) \<in> set pre \<longrightarrow> x = []" by blast
      have "(n, x) # cs = ((n, x) # pre) @ (name, v) # post" using * by simp
      moreover have "\<forall>y. (name, y) \<in> set ((n, x) # pre) \<longrightarrow> y = []" using * False by auto
      ultimately show ?r using *(2) by blast
    qed
    with False "2.IH" show ?thesis by auto
  qed
qed simp

lemma session_token_carries: "session_token lib auth hs = Some token \<longleftrightarrow> carries_token lib auth hs token"
proof -
  have bearer: "Option.bind (header_str hs ''authorization'') (strip_prefix ''Bearer '') = Some t
      \<longleftrightarrow> first_header hs ''authorization'' (''Bearer '' @ t)" for t
    by (auto simp: bind_eq_Some_conv strip_prefix_Some_iff header_str_first simp del: append.simps)
  have cookie: "Option.bind (header_str hs ''cookie'') (\<lambda>h.
        find_cookie (sl_cookie_name lib auth) (sl_parse_cookies lib h)) = Some token \<longleftrightarrow>
      (\<exists>h pre post. first_header hs ''cookie'' h
        \<and> sl_parse_cookies lib h = pre @ (sl_cookie_name lib auth, token) # post \<and> token \<noteq> []
        \<and> (\<forall>x. (sl_cookie_name lib auth, x) \<in> set pre \<longrightarrow> x = []))"
    by (simp add: bind_eq_Some_conv find_cookie_Some header_str_first)
  show ?thesis
  proof (cases "Option.bind (header_str hs ''authorization'') (strip_prefix ''Bearer '')")
    case None
    then have no: "\<not> (\<exists>t. first_header hs ''authorization'' (''Bearer '' @ t))"
      using bearer by (metis option.distinct(1))
    have "session_token lib auth hs = Some token \<longleftrightarrow> Option.bind (header_str hs ''cookie'') (\<lambda>h.
        find_cookie (sl_cookie_name lib auth) (sl_parse_cookies lib h)) = Some token"
      using None by (simp add: session_token_def)
    then show ?thesis unfolding cookie carries_token.simps using no by blast
  next
    case (Some t)
    then have yes: "first_header hs ''authorization'' (''Bearer '' @ t)" using bearer by metis
    have "session_token lib auth hs = Some t" using Some by (simp add: session_token_def)
    then show ?thesis unfolding carries_token.simps using yes bearer Some by (metis option.inject)
  qed
qed

text \<open>
  C12. The session check admits a request exactly when authentication is off, or the request
  carries a token for which the database returns a session that is active and not expired. The
  bearer token takes precedence: with one, the cookies are not looked at, so an invalid bearer
  token is refused beside a valid cookie. Without a token the answer is 401 "Authentication
  required"; with a token and no such session, a database error included, it is 401 "Invalid or
  expired session".
\<close>

theorem verify_session_ok_iff:
  "(verify_session lib now layer hs = Inr () \<longleftrightarrow>
      layer = NoLayer \<or> (\<exists>auth token s. layer = BetterAuthLayer auth \<and> carries_token lib auth hs token
        \<and> sl_get_session lib auth token = Inr (Some s) \<and> as_active s \<and> now < as_expires_at s))
   \<and> (verify_session lib now layer hs = Inl (401, ''Authentication required'') \<longleftrightarrow>
      (\<exists>auth. layer = BetterAuthLayer auth \<and> (\<nexists>token. carries_token lib auth hs token)))
   \<and> (verify_session lib now layer hs = Inl (401, ''Invalid or expired session'') \<longleftrightarrow>
      (\<exists>auth token. layer = BetterAuthLayer auth \<and> carries_token lib auth hs token
        \<and> (\<nexists>s. sl_get_session lib auth token = Inr (Some s) \<and> as_active s \<and> now < as_expires_at s)))"
proof (cases layer)
  case NoLayer
  then show ?thesis by (simp add: verify_session_def)
next
  case (BetterAuthLayer auth)
  show ?thesis
  proof (cases "session_token lib auth hs")
    case None
    then have "\<nexists>token. carries_token lib auth hs token"
      by (metis option.distinct(1) session_token_carries)
    with None BetterAuthLayer show ?thesis by (simp add: verify_session_def)
  next
    case (Some token)
    then have carried: "carries_token lib auth hs t \<longleftrightarrow> t = token" for t
      by (metis option.inject session_token_carries)
    show ?thesis
    proof (cases "sl_get_session lib auth token")
      case (Inl e)
      with Some BetterAuthLayer show ?thesis
        by (simp add: verify_session_def session_valid_def carried)
    next
      case (Inr s)
      with Some BetterAuthLayer show ?thesis
        by (cases s) (auto simp: verify_session_def session_valid_def carried)
    qed
  qed
qed

text \<open>
  The server never runs open when authentication was asked for: if a layer is built from
  the environment's mode, it is enabled exactly when \<open>AUTH_MODE\<close> names the better-auth backend,
  and then \<open>AUTH_SECRET\<close> was set; every failure of the backend's start is an error, not an open
  server.
\<close>

theorem auth_layer_matches_environment:
  assumes "auth_layer_build lib env (auth_mode_from_env env) = Inr layer"
  shows "(auth_layer_is_enabled layer \<longleftrightarrow> env ''AUTH_MODE'' = Some ''BETTER_AUTH_DIESEL_SQLITE'')
     \<and> (auth_layer_is_enabled layer \<longrightarrow> env ''AUTH_SECRET'' \<noteq> None)"
proof (cases "env ''AUTH_MODE'' = Some ''BETTER_AUTH_DIESEL_SQLITE''")
  case True
  then have "auth_mode_from_env env = BetterAuthDieselSqlite"
    by (simp add: auth_mode_from_env_def env_or_def)
  with assms True show ?thesis
    by (auto simp: auth_layer_build_def auth_layer_is_enabled_def res_simps)
next
  case False
  then have "auth_mode_from_env env = NoAuth"
    by (auto simp: auth_mode_from_env_def env_or_def split: option.splits)
  with assms False show ?thesis
    by (auto simp: auth_layer_build_def auth_layer_is_enabled_def)
qed

definition demo_auth_lib :: "(string, string) auth_lib" where
  "demo_auth_lib = \<lparr>al_adapter_new = Inr, al_run_migrations = Inr, al_build = (\<lambda>s u db. Inr db)\<rparr>"

theorem auth_layer_matches_environment_witness:
  "auth_layer_is_enabled (BetterAuthLayer ''sqlite://skardi_auth.db'')"
proof -
  let ?env = "[''AUTH_MODE'' \<mapsto> ''BETTER_AUTH_DIESEL_SQLITE'', ''AUTH_SECRET'' \<mapsto> ''s'']"
  have "auth_layer_build demo_auth_lib ?env (auth_mode_from_env ?env) =
      Inr (BetterAuthLayer ''sqlite://skardi_auth.db'')"
    by (simp add: auth_layer_build_def auth_mode_from_env_def env_or_def auth_db_url_def
        demo_auth_lib_def starts_with_def)
  from auth_layer_matches_environment [OF this] show ?thesis by simp
qed

lemma sessions_fold:
  "fold_res (\<lambda>acc u. Inr (acc @ f u)) acc us = Inr (acc @ concat (map f us))"
  by (induction us arbitrary: acc) simp_all

text \<open>
  A scan of \<open>auth.sessions\<close> yields the sessions of all users, users in the order they are
  listed and each user's sessions in theirs, as one batch that meets the declared schema: one
  column per field, each of its type, null-free where required and as long as the number of
  sessions.
\<close>

theorem sessions_scan_complete:
  "sessions_build_batch (Inr users) (\<lambda>u. Inr (sessions_of u)) rfc3339 =
     Inr (session_columns (map (session_row_of rfc3339) (concat (map (\<lambda>u. sessions_of (au_id u)) users))))
   \<and> list_all2 column_ok session_arrow_schema (session_columns rows)
   \<and> map column_length (session_columns rows) = replicate 7 (length rows)"
proof (intro conjI)
  show "sessions_build_batch (Inr users) (\<lambda>u. Inr (sessions_of u)) rfc3339 =
     Inr (session_columns (map (session_row_of rfc3339) (concat (map (\<lambda>u. sessions_of (au_id u)) users))))"
    by (simp add: sessions_build_batch_def sessions_fold)
  show "list_all2 column_ok session_arrow_schema (session_columns rows)"
    by (auto simp: session_arrow_schema_def session_columns_def column_ok_def)
  show "map column_length (session_columns rows) = replicate 7 (length rows)"
    by (simp add: session_columns_def eval_nat_numeral)
qed

end
