(* ===== verification/Server_Config.thy ===== *)
theory Server_Config
  imports Sql_Validator Semantics Auth
begin

text \<open>
  Configuration of the server: data sources, their validation, the context file, the discovery
  of pipeline files (\<^verbatim>\<open>server/src/config.rs\<close>) and S3 storage (\<^verbatim>\<open>server/src/remote_storage.rs\<close>).
  The file system is the one of the semantics theory; serde, the URL parser and the object store
  are parameters. A path is the text of its bytes; \<open>utf8\<close> says which are valid UTF-8.
\<close>

type_synonym options = "(string \<rightharpoonup> string) option"

record data_source =
  ds_name :: string
  ds_type :: data_source_type
  ds_path :: string
  ds_connection_string :: "string option"
  ds_options :: options
  ds_hierarchy_level :: hierarchy_level
  ds_access_mode :: access_mode
  ds_enable_cache :: bool
  ds_description :: "string option"

datatype config_error =
  PipelineFileNotFound string
| PipelineDirectoryNotFound string
| NoPipelineFilesInDirectory string
| ContextFileNotFound string
| InvalidContextYaml string
| DataSourceFileNotFound string string
| DuplicateDataSourceName string
| DataSourceRegistrationFailed string string
| MissingConnectionString string
| PostgresConnectionFailed string string
| MySQLConnectionFailed string string
| SQLiteConnectionFailed string string
| SeekDbConnectionFailed string string
| InvalidS3Path string
| MissingAwsConfig string string
| S3ObjectStoreRegistrationFailed string string
| UnsupportedWriteMode string data_source_type
| CatalogModeConflictingOptions string string
| EmptyAllowedSchemas string
| NonUtf8Path string string
| OtherError string

definition option_value :: "options \<Rightarrow> string \<Rightarrow> string option" where
  "option_value options k = Option.bind options (\<lambda>o'. o' k)"

section \<open>Discovering YAML files\<close>

definition resolve_pipeline_files :: "fs \<Rightarrow> string option \<Rightarrow> config_error + string list" where
  "resolve_pipeline_files fs path =
     (case path of
        None \<Rightarrow> Inr []
      | Some path \<Rightarrow>
          (if \<not> path_exists fs path then
             (if path_extension path \<noteq> None then Inl (PipelineFileNotFound path)
              else Inl (PipelineDirectoryNotFound path))
           else case fs path of
             Some (FFile _) \<Rightarrow> Inr [path]
           | Some (FDir (Inl e)) \<Rightarrow>
               Inl (OtherError (''Failed to read pipeline directory: '' @ path @ '': '' @ e))
           | Some (FDir (Inr names)) \<Rightarrow>
               (let pipeline_files = sort (filter (is_yaml_file fs) (map (path_join path) names))
                in if pipeline_files = [] then Inl (NoPipelineFilesInDirectory path)
                   else Inr pipeline_files)
           | _ \<Rightarrow> Inl (PipelineFileNotFound path)))"

section \<open>S3 storage\<close>

definition is_remote_path :: "(string \<Rightarrow> bool) \<Rightarrow> string \<Rightarrow> bool" where
  "is_remote_path utf8 path \<longleftrightarrow> utf8 path \<and> starts_with ''s3://'' path"

definition path_or_empty :: "(string \<Rightarrow> bool) \<Rightarrow> string \<Rightarrow> string" where
  "path_or_empty utf8 path = (if utf8 path then path else [])"

definition forbidden_keys :: "string list" where
  "forbidden_keys =
     [''aws_access_key_id'', ''aws_secret_access_key'', ''aws_session_token'', ''aws_region'']"

definition s3_validate_configuration ::
  "(string \<Rightarrow> bool) \<Rightarrow> data_source \<Rightarrow> config_error + unit" where
  "s3_validate_configuration utf8 source =
     (let path_str = path_or_empty utf8 (ds_path source) in
      if \<not> starts_with ''s3://'' path_str then Inl (InvalidS3Path path_str)
      else case ds_options source of
             None \<Rightarrow> Inr ()
           | Some options \<Rightarrow>
               (case filter (\<lambda>k. options k \<noteq> None) forbidden_keys of
                  k # _ \<Rightarrow> Inl (S3ObjectStoreRegistrationFailed (ds_name source) (''AWS configuration (''
                     @ quote @ k @ quote @ '') must not be stored in configuration files.''))
                | [] \<Rightarrow> Inr ()))"

text \<open>What the builder is given, the object store library, and the outcome of a \<open>head\<close>.\<close>

record s3_builder =
  s3_bucket :: string
  s3_region :: string
  s3_keys :: "(string \<times> string) option"
  s3_token :: "string option"

datatype head_result = HeadOk | HeadNotFound | HeadFailed string

record ('c, 'store) s3_lib =
  s3_host :: "string \<Rightarrow> string + string option"
  s3_url_path :: "string \<Rightarrow> string"
  s3_build :: "s3_builder \<Rightarrow> string + 'store"
  s3_head :: "'store \<Rightarrow> string \<Rightarrow> head_result"
  s3_register :: "'c \<Rightarrow> string \<Rightarrow> 'store \<Rightarrow> 'c"

fun trim_start_matches :: "char \<Rightarrow> string \<Rightarrow> string" where
  "trim_start_matches d [] = []"
| "trim_start_matches d (c # cs) = (if c = d then trim_start_matches d cs else c # cs)"

definition s3_bucket_of :: "('c, 'store) s3_lib \<Rightarrow> string \<Rightarrow> config_error + string" where
  "s3_bucket_of lib s3_path =
     try_res (map_err (\<lambda>e. InvalidS3Path (''Invalid S3 URL '' @ quote @ s3_path @ quote @ '': '' @ e))
       (s3_host lib s3_path)) (\<lambda>host.
     ok_or host (InvalidS3Path (''No bucket name found in S3 URL: '' @ s3_path)))"

definition s3_test_connectivity ::
  "('c, 'store) s3_lib \<Rightarrow> 'store \<Rightarrow> string \<Rightarrow> string \<Rightarrow> string \<Rightarrow> config_error + unit" where
  "s3_test_connectivity lib store source_name s3_path aws_region =
     try_res (s3_bucket_of lib s3_path) (\<lambda>bucket.
     case s3_head lib store (trim_start_matches (CHR ''/'') (s3_url_path lib s3_path)) of
       HeadOk \<Rightarrow> Inr ()
     | HeadNotFound \<Rightarrow> Inl (S3ObjectStoreRegistrationFailed source_name
         (''S3 object not found: '' @ quote @ s3_path @ quote))
     | HeadFailed e \<Rightarrow> Inl (S3ObjectStoreRegistrationFailed source_name
         (''S3 connectivity test failed: '' @ e)))"

definition s3_credentials ::
  "environment \<Rightarrow> string \<Rightarrow> config_error + ((string \<times> string) option \<times> string option)" where
  "s3_credentials env source_name =
     (let access = env ''AWS_ACCESS_KEY_ID''; secret = env ''AWS_SECRET_ACCESS_KEY'';
          profile = env ''AWS_PROFILE''
      in if access = None \<and> profile = None
         then Inl (MissingAwsConfig source_name ''AWS_ACCESS_KEY_ID environment variable or AWS_PROFILE'')
         else if access \<noteq> None \<and> secret = None
         then Inl (MissingAwsConfig source_name ''AWS_SECRET_ACCESS_KEY environment variable'')
         else case (access, secret) of
                (Some a, Some s) \<Rightarrow> Inr (Some (a, s), env ''AWS_SESSION_TOKEN'')
              | _ \<Rightarrow> Inr (None, None))"

definition s3_setup_object_store ::
  "('c, 'store) s3_lib \<Rightarrow> environment \<Rightarrow> 'c \<Rightarrow> string \<Rightarrow> string \<Rightarrow> config_error + 'c" where
  "s3_setup_object_store lib env ctx source_name s3_path =
     try_res (s3_bucket_of lib s3_path) (\<lambda>bucket.
     try_res (ok_or (case env ''AWS_REGION'' of Some r \<Rightarrow> Some r | None \<Rightarrow> env ''AWS_DEFAULT_REGION'')
       (MissingAwsConfig source_name ''AWS_REGION or AWS_DEFAULT_REGION environment variable''))
       (\<lambda>region.
     try_res (s3_credentials env source_name) (\<lambda>(keys, token).
     try_res (map_err (\<lambda>e. S3ObjectStoreRegistrationFailed source_name
         (''Failed to build S3 object store for bucket '' @ quote @ bucket @ quote @ '': '' @ e))
       (s3_build lib \<lparr>s3_bucket = bucket, s3_region = region, s3_keys = keys, s3_token = token\<rparr>))
       (\<lambda>store.
     try_res (s3_test_connectivity lib store source_name s3_path region) (\<lambda>_.
     Inr (s3_register lib ctx (''s3://'' @ bucket @ ''/'') store))))))"

section \<open>Validating the data sources\<close>

definition CATALOG_SUPPORTED_SOURCES :: "data_source_type list" where
  "CATALOG_SUPPORTED_SOURCES = [Postgres, Mysql, Sqlite, Seekdb]"

definition WRITABLE_SOURCE_TYPES :: "data_source_type list" where
  "WRITABLE_SOURCE_TYPES = [Postgres, Mysql, Sqlite, Mongo, Redis, Seekdb]"

fun find_duplicate :: "string set \<Rightarrow> data_source list \<Rightarrow> string option" where
  "find_duplicate names [] = None"
| "find_duplicate names (s # ss) =
     (if ds_name s \<in> names then Some (ds_name s) else find_duplicate (insert (ds_name s) names) ss)"

definition validate_access_mode :: "data_source \<Rightarrow> config_error + unit" where
  "validate_access_mode source =
     (if is_read_write (ds_access_mode source) \<and> ds_type source \<notin> set WRITABLE_SOURCE_TYPES
      then Inl (UnsupportedWriteMode (ds_name source) (ds_type source)) else Inr ())"

definition validate_catalog_options :: "data_source \<Rightarrow> config_error + unit" where
  "validate_catalog_options source =
     (if ds_type source \<in> set CATALOG_SUPPORTED_SOURCES \<and> ds_hierarchy_level source = CatalogLevel then
        (case filter (\<lambda>k. option_value (ds_options source) k \<noteq> None) [''table'', ''schema''] of
           k # _ \<Rightarrow> Inl (CatalogModeConflictingOptions (ds_name source) k)
         | [] \<Rightarrow>
             (case option_value (ds_options source) ''allowed_schemas'' of
                None \<Rightarrow> Inr ()
              | Some value \<Rightarrow>
                  (if list_ex (\<lambda>s. str_trim s \<noteq> []) (str_split (CHR '','') value) then Inr ()
                   else Inl (EmptyAllowedSchemas (ds_name source)))))
      else Inr ())"

definition validate_location :: "(string \<Rightarrow> bool) \<Rightarrow> data_source \<Rightarrow> config_error + unit" where
  "validate_location utf8 source =
     (let remote = is_remote_path utf8 (ds_path source) in
      if ds_type source \<in> {Csv, Parquet, Lance} \<and> remote then s3_validate_configuration utf8 source
      else if ds_type source \<in> {Postgres, Mysql, Mongo, Redis, Seekdb, Influxdb} \<and> \<not> remote then
        (if ds_connection_string source = None then Inl (MissingConnectionString (ds_name source))
         else Inr ())
      else Inr ())"

definition validate_source :: "(string \<Rightarrow> bool) \<Rightarrow> data_source \<Rightarrow> config_error + unit" where
  "validate_source utf8 source =
     try_res (validate_access_mode source) (\<lambda>_.
     try_res (validate_catalog_options source) (\<lambda>_.
     validate_location utf8 source))"

definition validate_data_sources ::
  "(string \<Rightarrow> bool) \<Rightarrow> data_source list \<Rightarrow> config_error + unit" where
  "validate_data_sources utf8 data_sources =
     (case find_duplicate {} data_sources of
        Some n \<Rightarrow> Inl (DuplicateDataSourceName n)
      | None \<Rightarrow> fold_res (\<lambda>_ source. validate_source utf8 source) () data_sources)"

section \<open>The context file\<close>

record context_file =
  cf_kind :: "string option"
  cf_data_sources :: "data_source list"

definition load_context_config ::
  "(string \<Rightarrow> string + context_file) \<Rightarrow> (string \<Rightarrow> bool) \<Rightarrow> fs \<Rightarrow> string
   \<Rightarrow> config_error + data_source list" where
  "load_context_config parse utf8 fs path =
     (if \<not> path_exists fs path then Inl (ContextFileNotFound path)
      else
        try_res (case fs path of
            Some (FFile (Inr raw)) \<Rightarrow> Inr raw
          | _ \<Rightarrow> Inl (OtherError (''Failed to read context file: '' @ path))) (\<lambda>content.
        try_res (map_err InvalidContextYaml (parse content)) (\<lambda>file.
        try_res (case cf_kind file of
            None \<Rightarrow> Inl (InvalidContextYaml
              ''Missing `kind: context` at the root of the context file'')
          | Some k \<Rightarrow>
              (if k = ''context'' then Inr ()
               else Inl (InvalidContextYaml (''Expected `kind: context`, got `kind: '' @ k @ ''`''))))
          (\<lambda>_.
        try_res (validate_data_sources utf8 (cf_data_sources file)) (\<lambda>_.
        Inr (cf_data_sources file))))))"

section \<open>Pipelines against access modes\<close>

definition pipeline_validator :: "data_source list \<Rightarrow> validator_config" where
  "pipeline_validator data_sources =
     foldl (\<lambda>cfg ds. with_table cfg (ds_name ds)
              (if is_read_write (ds_access_mode ds) then ReadWrite else ReadOnly))
       validator_config_new data_sources"

definition validate_pipeline_sql ::
  "(string \<Rightarrow> string + statement list) \<Rightarrow> string \<Rightarrow> string \<Rightarrow> data_source list
   \<Rightarrow> (string \<times> validation_error) + unit" where
  "validate_pipeline_sql parse pipeline_name sql data_sources =
     map_err (\<lambda>e. (pipeline_name, e)) (validate_sql parse sql (pipeline_validator data_sources))"

section \<open>Properties\<close>

lemma find_duplicate_None:
  "find_duplicate names ss = None \<longleftrightarrow> distinct (map ds_name ss) \<and> names \<inter> ds_name ` set ss = {}"
  by (induction names ss rule: find_duplicate.induct) auto

lemma fold_res_unit: "fold_res (\<lambda>_ x. f x) () xs = Inr () \<longleftrightarrow> list_all (\<lambda>x. f x = Inr ()) xs"
  by (induction xs) (auto simp: res_simps)

text \<open>The rules a data source must meet, stated without the order of the checks.\<close>

definition source_ok :: "(string \<Rightarrow> bool) \<Rightarrow> data_source \<Rightarrow> bool" where
  "source_ok utf8 s \<longleftrightarrow>
     (ds_access_mode s = ReadWrite \<longrightarrow> ds_type s \<in> {Postgres, Mysql, Sqlite, Mongo, Redis, Seekdb}) \<and>
     (ds_type s \<in> {Postgres, Mysql, Sqlite, Seekdb} \<and> ds_hierarchy_level s = CatalogLevel \<longrightarrow>
        option_value (ds_options s) ''table'' = None \<and> option_value (ds_options s) ''schema'' = None \<and>
        (option_value (ds_options s) ''allowed_schemas'' \<noteq> None \<longrightarrow>
           parse_allowed_schemas (ds_options s) \<noteq> None)) \<and>
     (ds_type s \<in> {Csv, Parquet, Lance} \<and> is_remote_path utf8 (ds_path s) \<longrightarrow>
        list_all (\<lambda>k. option_value (ds_options s) k = None) forbidden_keys) \<and>
     (ds_type s \<in> {Postgres, Mysql, Mongo, Redis, Seekdb, Influxdb} \<and> \<not> is_remote_path utf8 (ds_path s) \<longrightarrow>
        ds_connection_string s \<noteq> None)"

lemma filter_Nil_iff: "(case filter P xs of x # _ \<Rightarrow> Inl (f x) | [] \<Rightarrow> r) = Inr u \<longleftrightarrow>
    list_all (\<lambda>x. \<not> P x) xs \<and> r = Inr u"
proof (cases "filter P xs")
  case Nil
  then show ?thesis by (simp add: filter_empty_conv list_all_iff)
next
  case (Cons y ys)
  have "y \<in> set (filter P xs)" unfolding Cons by simp
  then show ?thesis using Cons by (auto simp: list_all_iff)
qed

lemma validate_access_mode_ok:
  "validate_access_mode s = Inr () \<longleftrightarrow>
     (ds_access_mode s = ReadWrite \<longrightarrow> ds_type s \<in> {Postgres, Mysql, Sqlite, Mongo, Redis, Seekdb})"
  by (auto simp: validate_access_mode_def WRITABLE_SOURCE_TYPES_def)

lemma parse_allowed_schemas_None:
  "parse_allowed_schemas o' = None \<longleftrightarrow> \<not> (\<exists>v. option_value o' ''allowed_schemas'' = Some v
     \<and> list_ex (\<lambda>s. str_trim s \<noteq> []) (str_split (CHR '','') v))"
  by (auto simp: parse_allowed_schemas_def option_value_def Let_def list_ex_iff filter_empty_conv
      split: option.splits if_splits)

lemma validate_catalog_options_ok:
  "validate_catalog_options s = Inr () \<longleftrightarrow>
     (ds_type s \<in> {Postgres, Mysql, Sqlite, Seekdb} \<and> ds_hierarchy_level s = CatalogLevel \<longrightarrow>
        option_value (ds_options s) ''table'' = None \<and> option_value (ds_options s) ''schema'' = None \<and>
        (option_value (ds_options s) ''allowed_schemas'' \<noteq> None \<longrightarrow>
           parse_allowed_schemas (ds_options s) \<noteq> None))"
  by (auto simp: validate_catalog_options_def CATALOG_SUPPORTED_SOURCES_def filter_Nil_iff
      parse_allowed_schemas_None split: option.splits)

lemma s3_validate_ok:
  "is_remote_path utf8 (ds_path s) \<Longrightarrow> s3_validate_configuration utf8 s = Inr () \<longleftrightarrow>
     list_all (\<lambda>k. option_value (ds_options s) k = None) forbidden_keys"
  by (cases "ds_options s")
    (auto simp: s3_validate_configuration_def is_remote_path_def path_or_empty_def option_value_def
      filter_Nil_iff list_all_iff)

lemma validate_location_ok:
  "validate_location utf8 s = Inr () \<longleftrightarrow>
     (ds_type s \<in> {Csv, Parquet, Lance} \<and> is_remote_path utf8 (ds_path s) \<longrightarrow>
        list_all (\<lambda>k. option_value (ds_options s) k = None) forbidden_keys) \<and>
     (ds_type s \<in> {Postgres, Mysql, Mongo, Redis, Seekdb, Influxdb} \<and> \<not> is_remote_path utf8 (ds_path s) \<longrightarrow>
        ds_connection_string s \<noteq> None)"
  by (cases "is_remote_path utf8 (ds_path s)")
    (auto simp: validate_location_def s3_validate_ok Let_def)

text \<open>
  C22. The server accepts a set of data sources exactly when their names are distinct and each
  meets the rules of the code: write access only for the types it lists (Postgres, MySQL, SQLite,
  MongoDB, Redis and SeekDB), no per-table options and a
  non-empty schema list in catalog mode (so that the option is never silently read as "all
  schemas"), no AWS credentials in the options of an S3 source, a connection string for every
  database.
\<close>

theorem validate_data_sources_ok_iff:
  "validate_data_sources utf8 dss = Inr () \<longleftrightarrow> distinct (map ds_name dss) \<and> list_all (source_ok utf8) dss"
proof -
  have "validate_source utf8 s = Inr () \<longleftrightarrow> source_ok utf8 s" for s
    by (simp add: validate_source_def res_simps validate_access_mode_ok validate_catalog_options_ok
        validate_location_ok source_ok_def)
  then show ?thesis using find_duplicate_None [of "{}" dss]
    by (cases "find_duplicate {} dss") (auto simp: validate_data_sources_def fold_res_unit)
qed

text \<open>
  S3 credentials and region come from the environment only, and a store is registered only
  after it was reached: if the set-up succeeds, the builder got the URL's bucket, the environment's
  region and either the environment's key pair (with its optional token) or none, the \<open>head\<close>
  request on the object succeeded, and the registered store is that one under the bucket's URL.
\<close>

theorem s3_setup_from_environment:
  assumes "s3_setup_object_store lib env ctx source_name s3_path = Inr ctx'"
  shows "\<exists>bucket region store keys token. s3_host lib s3_path = Inr (Some bucket)
     \<and> Some region = or_else (env ''AWS_REGION'') (env ''AWS_DEFAULT_REGION'')
     \<and> s3_build lib \<lparr>s3_bucket = bucket, s3_region = region, s3_keys = keys, s3_token = token\<rparr> = Inr store
     \<and> (case keys of
          Some (a, k) \<Rightarrow> env ''AWS_ACCESS_KEY_ID'' = Some a \<and> env ''AWS_SECRET_ACCESS_KEY'' = Some k
             \<and> token = env ''AWS_SESSION_TOKEN''
        | None \<Rightarrow> env ''AWS_ACCESS_KEY_ID'' = None \<and> env ''AWS_PROFILE'' \<noteq> None \<and> token = None)
     \<and> s3_head lib store (trim_start_matches (CHR ''/'') (s3_url_path lib s3_path)) = HeadOk
     \<and> ctx' = s3_register lib ctx (''s3://'' @ bucket @ ''/'') store"
proof -
  obtain bucket region keys token store where *:
    "s3_bucket_of lib s3_path = Inr bucket"
    "(case env ''AWS_REGION'' of Some r \<Rightarrow> Some r | None \<Rightarrow> env ''AWS_DEFAULT_REGION'') = Some region"
    "s3_credentials env source_name = Inr (keys, token)"
    "s3_build lib \<lparr>s3_bucket = bucket, s3_region = region, s3_keys = keys, s3_token = token\<rparr> = Inr store"
    "s3_test_connectivity lib store source_name s3_path region = Inr ()"
    "ctx' = s3_register lib ctx (''s3://'' @ bucket @ ''/'') store"
    using assms unfolding s3_setup_object_store_def by (auto simp: res_simps)
  have "s3_host lib s3_path = Inr (Some bucket)"
    using *(1) by (auto simp: s3_bucket_of_def res_simps)
  moreover have "Some region = or_else (env ''AWS_REGION'') (env ''AWS_DEFAULT_REGION'')"
    using *(2) by (auto simp: or_else_def split: option.splits)
  moreover have "s3_head lib store (trim_start_matches (CHR ''/'') (s3_url_path lib s3_path)) = HeadOk"
    using *(5) by (auto simp: s3_test_connectivity_def res_simps split: head_result.splits)
  moreover have "case keys of
        Some (a, k) \<Rightarrow> env ''AWS_ACCESS_KEY_ID'' = Some a \<and> env ''AWS_SECRET_ACCESS_KEY'' = Some k
           \<and> token = env ''AWS_SESSION_TOKEN''
      | None \<Rightarrow> env ''AWS_ACCESS_KEY_ID'' = None \<and> env ''AWS_PROFILE'' \<noteq> None \<and> token = None"
    using *(3) by (auto simp: s3_credentials_def Let_def split: option.splits if_splits)
  ultimately show ?thesis using *(4,6) by blast
qed

definition demo_s3 :: "(string list, string) s3_lib" where
  "demo_s3 = \<lparr>s3_host = (\<lambda>_. Inr (Some ''b'')), s3_url_path = (\<lambda>_. ''/k''),
     s3_build = (\<lambda>b. Inr (s3_bucket b)), s3_head = (\<lambda>_ _. HeadOk),
     s3_register = (\<lambda>c u s. c @ [u])\<rparr>"

definition demo_aws :: environment where
  "demo_aws = [''AWS_REGION'' \<mapsto> ''r'', ''AWS_PROFILE'' \<mapsto> ''p'']"

theorem s3_setup_from_environment_witness:
  "\<exists>bucket. s3_host demo_s3 ''s3://b/k'' = Inr (Some bucket) \<and> [''s3://b/''] = [''s3://'' @ bucket @ ''/'']"
proof -
  have "s3_setup_object_store demo_s3 demo_aws [] ''src'' ''s3://b/k'' = Inr [''s3://b/'']"
    by (simp add: s3_setup_object_store_def s3_bucket_of_def s3_credentials_def
        s3_test_connectivity_def demo_s3_def demo_aws_def)
  from s3_setup_from_environment [OF this] show ?thesis by (simp add: demo_s3_def)
qed

section \<open>Which modes the validator knows\<close>

lemma pipeline_validator_append:
  "pipeline_validator (dss @ [ds]) = with_table (pipeline_validator dss) (ds_name ds) (ds_access_mode ds)"
  by (cases "ds_access_mode ds") (simp_all add: pipeline_validator_def is_read_write_def)

lemma pipeline_validator_lookup:
  assumes "distinct (map (to_lowercase \<circ> ds_name) dss)" "ds \<in> set dss"
  shows "pipeline_validator dss (to_lowercase (ds_name ds)) = Some (ds_access_mode ds)"
  using assms
proof (induction dss rule: rev_induct)
  case (snoc x dss)
  show ?case
  proof (cases "ds = x")
    case False
    with snoc.prems have "ds \<in> set dss" by simp
    moreover from this have "to_lowercase (ds_name ds) \<noteq> to_lowercase (ds_name x)"
      using snoc.prems(1) by (auto simp: image_iff dest!: bspec)
    ultimately show ?thesis using snoc by (simp add: pipeline_validator_append with_table_def)
  qed (simp add: pipeline_validator_append with_table_def)
qed simp

text \<open>
  No validated pipeline writes to a read-only table source: if the names of the sources
  differ also up to case, a pipeline that passes validation contains no INSERT, UPDATE or DELETE
  whose table's last identifier is, up to case, the name of a source configured read-only.
\<close>

theorem validated_pipeline_respects_read_only:
  assumes "distinct (map (to_lowercase \<circ> ds_name) dss)" and "ds \<in> set dss"
    and "ds_access_mode ds = ReadOnly"
    and "validate_pipeline_sql parse name sql dss = Inr ()"
    and "parse (preprocess_parameters sql) = Inr sts" and "st \<in> set sts"
  shows "write_target st \<noteq> Some (to_lowercase (ds_name ds))"
proof
  assume t: "write_target st = Some (to_lowercase (ds_name ds))"
  have "list_all (permitted (pipeline_validator dss)) sts"
    using assms(4,5) validate_sql_ok by (auto simp: validate_pipeline_sql_def res_simps)
  then have "permitted (pipeline_validator dss) st" using assms(6) by (simp add: list_all_iff)
  with t pipeline_validator_lookup [OF assms(1,2)] assms(3) show False
    by (simp add: permitted_def)
qed

definition demo_source :: "string \<Rightarrow> access_mode \<Rightarrow> data_source" where
  "demo_source n m = \<lparr>ds_name = n, ds_type = Postgres, ds_path = [], ds_connection_string = Some ''c'',
     ds_options = None, ds_hierarchy_level = TableLevel, ds_access_mode = m, ds_enable_cache = False,
     ds_description = None\<rparr>"

theorem validated_pipeline_respects_read_only_witness:
  "write_target (Insert [''b'']) \<noteq> Some (to_lowercase ''a'')"
proof -
  let ?dss = "[demo_source ''a'' ReadOnly, demo_source ''b'' ReadWrite]"
  have d: "distinct (map (to_lowercase \<circ> ds_name) ?dss)"
    by (simp add: demo_source_def) code_simp
  have v: "validate_pipeline_sql (\<lambda>_. Inr [Insert [''b'']]) ''p'' ''q'' ?dss = Inr ()"
  proof -
    have "pipeline_validator ?dss ''b'' = Some ReadWrite" by code_simp
    moreover have "to_lowercase ''b'' = ''b''" by code_simp
    ultimately show ?thesis
      by (simp add: validate_pipeline_sql_def validate_sql_def extract_table_name_def
          check_write_access_def)
  qed
  from validated_pipeline_respects_read_only [OF d _ _ v, of "demo_source ''a'' ReadOnly"
      "[Insert [''b'']]" "Insert [''b'']"] show ?thesis
    by (simp add: demo_source_def)
qed

text \<open>
  Names that differ only in case do share one entry of the validator, although the data
  source validation accepts them as distinct: with a read-only \<open>Orders\<close> followed by a read-write
  \<open>orders\<close>, an INSERT into \<open>Orders\<close> passes the pipeline validation.
\<close>

theorem case_collision_drops_read_only:
  "validate_data_sources (\<lambda>_. True) [demo_source ''Orders'' ReadOnly, demo_source ''orders'' ReadWrite] = Inr ()
   \<and> validate_pipeline_sql (\<lambda>_. Inr [Insert [''Orders'']]) ''p'' ''INSERT''
       [demo_source ''Orders'' ReadOnly, demo_source ''orders'' ReadWrite] = Inr ()"
  by code_simp

end
