(* ===== verification/Streams.thy ===== *)
theory Streams
  imports Data_Sources
begin

text \<open>
  Record-batch streams as the jobs code polls them: \<open>CancellableStream\<close>
  (\<^verbatim>\<open>jobs/destination/mod.rs\<close>), \<open>CountingStream\<close> (\<^verbatim>\<open>jobs/destination/sql_dml.rs\<close>), and the
  loop that pulls a stream to its end (\<^verbatim>\<open>sources/providers/lance/registration.rs\<close>,
  \<open>spawn_stream_pump\<close> and \<open>ChannelRecordBatchReader\<close>). A stream is the list of the results its
  polls will give (\<open>PollPending\<close>, a batch, an error, or the end); after the last one it is at
  its end. The cancel flag, which another task may set at any time, is its value at each poll.
\<close>

datatype ('b, 'e) poll = PollPending | PollReady "('e + 'b) option"

type_synonym ('b, 'e) stream = "('b, 'e) poll list"

fun stream_poll :: "('b, 'e) stream \<Rightarrow> ('b, 'e) poll \<times> ('b, 'e) stream" where
  "stream_poll [] = (PollReady None, [])"
| "stream_poll (p # ps) = (p, ps)"

text \<open>\<open>CancellableStream::poll_next\<close>: the flag is read before the inner stream is polled.\<close>

definition cancellable_poll ::
  "bool \<Rightarrow> ('b, string) stream \<Rightarrow> ('b, string) poll \<times> ('b, string) stream" where
  "cancellable_poll cancelled inner =
     (if cancelled then (PollReady (Some (Inl ''job cancelled before commit'')), inner)
      else stream_poll inner)"

section \<open>The counting adapters\<close>

definition SQL_DML_SOFT_ROW_LIMIT :: "64 word" where
  "SQL_DML_SOFT_ROW_LIMIT = 10000000"

text \<open>
  \<open>CountingStream\<close>: the shared row counter, whether the warning has been given, and the totals
  that were warned about.
\<close>

record counting =
  ct_rows_written :: "64 word"
  ct_warned :: bool
  ct_warnings :: "64 word list"

definition counting_new :: counting where
  "counting_new = \<lparr>ct_rows_written = 0, ct_warned = False, ct_warnings = []\<rparr>"

definition counting_poll ::
  "('b \<Rightarrow> 64 word) \<Rightarrow> counting \<Rightarrow> ('b, string) poll \<Rightarrow> counting" where
  "counting_poll num_rows st polled =
     (case polled of
        PollReady (Some (Inr batch)) \<Rightarrow>
          (let prior = ct_rows_written st;
               st1 = st\<lparr>ct_rows_written := prior + num_rows batch\<rparr>;
               total = prior + num_rows batch
           in if \<not> ct_warned st1 \<and> SQL_DML_SOFT_ROW_LIMIT \<le> total
              then st1\<lparr>ct_warned := True, ct_warnings := ct_warnings st1 @ [total]\<rparr>
              else st1)
      | _ \<Rightarrow> st)"

text \<open>The reader handed to Lance counts the rows of the batches it passes on.\<close>

definition reader_next :: "('b \<Rightarrow> 64 word) \<Rightarrow> 64 word \<Rightarrow> ('b, string) poll \<Rightarrow> 64 word" where
  "reader_next num_rows rows_seen polled =
     (case polled of
        PollReady (Some (Inr batch)) \<Rightarrow> rows_seen + num_rows batch
      | _ \<Rightarrow> rows_seen)"

section \<open>Pulling a stream to its end\<close>

text \<open>
  The consumer polls the cancellable stream until it ends or fails; \<open>step\<close> is the adapter
  that watches each poll, \<open>flag k\<close> the cancel flag at poll \<open>k\<close>. The result is the first error
  or all the batches, and the adapter's final state.
\<close>

function drain ::
  "('st \<Rightarrow> ('b, string) poll \<Rightarrow> 'st) \<Rightarrow> (nat \<Rightarrow> bool) \<Rightarrow> nat \<Rightarrow> 'st \<Rightarrow> ('b, string) stream
   \<Rightarrow> (string + 'b list) \<times> 'st" where
  "drain step flag n st inner =
     (case cancellable_poll (flag n) inner of
        (polled, inner') \<Rightarrow>
          (let st' = step st polled in
           case polled of
             PollReady None \<Rightarrow> (Inr [], st')
           | PollReady (Some (Inl e)) \<Rightarrow> (Inl e, st')
           | PollReady (Some (Inr b)) \<Rightarrow>
               (case drain step flag (Suc n) st' inner' of
                  (r, st'') \<Rightarrow> (map_sum id (\<lambda>bs. b # bs) r, st''))
           | PollPending \<Rightarrow> drain step flag (Suc n) st' inner'))"
  by pat_completeness auto
termination
  by (relation "measure (\<lambda>(step, flag, n, st, inner). length inner)")
    (auto simp: cancellable_poll_def split: if_splits; case_tac inner; simp)+

declare drain.simps [simp del]

text \<open>What an uncancelled stream yields, and at which poll it stops.\<close>

fun stream_result :: "('b, 'e) stream \<Rightarrow> 'e + 'b list" where
  "stream_result [] = Inr []"
| "stream_result (PollPending # ps) = stream_result ps"
| "stream_result (PollReady None # ps) = Inr []"
| "stream_result (PollReady (Some (Inl e)) # ps) = Inl e"
| "stream_result (PollReady (Some (Inr b)) # ps) = map_sum id (\<lambda>bs. b # bs) (stream_result ps)"

fun stream_polls :: "('b, 'e) stream \<Rightarrow> nat" where
  "stream_polls (PollPending # ps) = Suc (stream_polls ps)"
| "stream_polls (PollReady (Some (Inr b)) # ps) = Suc (stream_polls ps)"
| "stream_polls _ = 0"

lemma map_sum_id_Inr_iff: "map_sum id f r = Inr y \<longleftrightarrow> (\<exists>x. r = Inr x \<and> y = f x)"
  by (cases r) auto

lemma map_sum_id_Inl_iff: "map_sum id f r = Inl e \<longleftrightarrow> r = Inl e"
  by (cases r) auto

text \<open>One poll of the loop, by the flag and the shape of the stream.\<close>

lemma drain_cancelled:
  "flag n \<Longrightarrow> drain step flag n st s =
     (Inl ''job cancelled before commit'',
      step st (PollReady (Some (Inl ''job cancelled before commit''))))"
  by (subst drain.simps) (simp add: cancellable_poll_def)

lemma drain_steps:
  assumes "\<not> flag n"
  shows "drain step flag n st [] = (Inr [], step st (PollReady None))"
    and "drain step flag n st (PollReady None # s) = (Inr [], step st (PollReady None))"
    and "drain step flag n st (PollReady (Some (Inl e)) # s) =
           (Inl e, step st (PollReady (Some (Inl e))))"
    and "drain step flag n st (PollPending # s) = drain step flag (Suc n) (step st PollPending) s"
    and "drain step flag n st (PollReady (Some (Inr b)) # s) =
           map_prod (map_sum id (\<lambda>bs. b # bs)) id
             (drain step flag (Suc n) (step st (PollReady (Some (Inr b)))) s)"
  using assms by (subst drain.simps; simp add: cancellable_poll_def split: prod.split)+

definition clear_until :: "(nat \<Rightarrow> bool) \<Rightarrow> nat \<Rightarrow> nat \<Rightarrow> bool" where
  "clear_until flag n m \<longleftrightarrow> (\<forall>k. n \<le> k \<and> k \<le> n + m \<longrightarrow> \<not> flag k)"

lemma clear_until_0 [simp]: "clear_until flag n 0 \<longleftrightarrow> \<not> flag n"
  by (auto simp: clear_until_def)

lemma clear_until_Suc [simp]:
  "clear_until flag n (Suc m) \<longleftrightarrow> \<not> flag n \<and> clear_until flag (Suc n) m"
  unfolding clear_until_def by (metis Suc_leD Suc_leI add_Suc_right add_Suc_shift le_add1 le_eq_less_or_eq)

text \<open>A drained stream was cancelled at none of its polls, and gave every batch it had.\<close>

lemma drain_Inr:
  assumes "drain step flag n st s = (Inr bs, st')"
    and "\<And>st. step st PollPending = st" "\<And>st. step st (PollReady None) = st"
  shows "stream_result s = Inr bs \<and> clear_until flag n (stream_polls s)
    \<and> st' = foldl (\<lambda>st b. step st (PollReady (Some (Inr b)))) st bs"
  using assms(1)
proof (induction s arbitrary: n st bs rule: stream_result.induct)
  case 1
  then show ?case by (cases "flag n") (auto simp: drain_cancelled drain_steps assms(3))
next
  case (2 ps)
  then have "\<not> flag n" by (auto simp: drain_cancelled)
  with 2 show ?case by (simp add: drain_steps assms(2))
next
  case (3 ps)
  then show ?case by (cases "flag n") (auto simp: drain_cancelled drain_steps assms(3))
next
  case (4 e ps)
  then show ?case by (cases "flag n") (auto simp: drain_cancelled drain_steps)
next
  case (5 b ps)
  have nf: "\<not> flag n" using 5 by (auto simp: drain_cancelled)
  from 5(2) obtain bs' where bs: "bs = b # bs'"
    "drain step flag (Suc n) (step st (PollReady (Some (Inr b)))) ps = (Inr bs', st')"
    by (auto simp: drain_steps nf map_prod_def map_sum_id_Inr_iff split: prod.splits)
  from 5(1) [OF bs(2)] nf bs(1) show ?case by simp
qed

lemma drain_uncancelled: "(\<And>k. \<not> flag k) \<Longrightarrow> fst (drain step flag n st s) = stream_result s"
  by (induction s arbitrary: n st rule: stream_result.induct) (simp_all add: drain_steps)

section \<open>The counters\<close>

definition total_rows :: "('b \<Rightarrow> 64 word) \<Rightarrow> 'b list \<Rightarrow> 64 word" where
  "total_rows num_rows bs = sum_list (map num_rows bs)"

lemma counting_poll_simps [simp]:
  "counting_poll num_rows st PollPending = st"
  "counting_poll num_rows st (PollReady None) = st"
  "ct_rows_written (counting_poll num_rows st (PollReady (Some (Inr b)))) =
     ct_rows_written st + num_rows b"
  by (simp_all add: counting_poll_def Let_def)

lemma reader_next_simps [simp]:
  "reader_next num_rows n PollPending = n"
  "reader_next num_rows n (PollReady None) = n"
  "reader_next num_rows n (PollReady (Some (Inr b))) = n + num_rows b"
  by (simp_all add: reader_next_def)

lemma counting_rows:
  "ct_rows_written (foldl (\<lambda>st b. counting_poll num_rows st (PollReady (Some (Inr b)))) st bs) =
   ct_rows_written st + total_rows num_rows bs"
  by (induction bs arbitrary: st) (simp_all add: total_rows_def)

lemma reader_rows:
  "foldl (\<lambda>st b. st + num_rows b) n bs = n + total_rows num_rows bs"
  by (induction bs arbitrary: n) (simp_all add: total_rows_def)

text \<open>
  The warning: it has been given exactly when a total reached the limit, and at most once. As
  long as the counter does not wrap, totals only grow, so it was given iff the final total is
  at the limit.
\<close>

definition warned_once :: "counting \<Rightarrow> bool" where
  "warned_once st \<longleftrightarrow>
     (ct_warned st \<longleftrightarrow> SQL_DML_SOFT_ROW_LIMIT \<le> ct_rows_written st) \<and>
     length (ct_warnings st) = (if ct_warned st then 1 else 0)"

lemma warned_once_step:
  assumes "warned_once st" "unat (ct_rows_written st) + unat (num_rows b) < 2 ^ 64"
  shows "warned_once (counting_poll num_rows st (PollReady (Some (Inr b))))"
proof -
  have "ct_rows_written st \<le> ct_rows_written st + num_rows b"
    using assms(2) by (simp add: word_le_nat_alt unat_word_ariths)
  then show ?thesis using assms(1)
    by (auto simp: warned_once_def counting_poll_def Let_def)
qed

lemma warned_once_all:
  "warned_once st \<Longrightarrow> unat (ct_rows_written st) + sum_list (map (unat \<circ> num_rows) bs) < 2 ^ 64 \<Longrightarrow>
   warned_once (foldl (\<lambda>st b. counting_poll num_rows st (PollReady (Some (Inr b)))) st bs)"
proof (induction bs arbitrary: st)
  case (Cons b bs)
  have small: "unat (ct_rows_written st) + unat (num_rows b) < 2 ^ 64" using Cons.prems(2) by simp
  then have "unat (ct_rows_written st + num_rows b) =
      unat (ct_rows_written st) + unat (num_rows b)" by (simp add: unat_word_ariths)
  moreover have "warned_once (counting_poll num_rows st (PollReady (Some (Inr b))))"
    using Cons.prems(1) small by (rule warned_once_step)
  ultimately show ?case using Cons.IH Cons.prems(2) by (simp add: add.assoc)
qed simp

lemma warned_once_new: "warned_once counting_new"
  by (simp add: warned_once_def counting_new_def SQL_DML_SOFT_ROW_LIMIT_def)

end
