(* ===== verification/Lance_Store.thy ===== *)
theory Lance_Store
  imports Streams
begin

text \<open>
  Writing and registering Lance datasets (\<^verbatim>\<open>sources/providers/lance/registration.rs\<close>). The file
  system and the Lance library are parameters over a world state: \<open>Dataset::open\<close>,
  \<open>Dataset::write\<close> (which gets everything the reader yields, or the error it stops at) and the
  session's \<open>register_table\<close>. The law the code relies on is Lance's documented commit at the
  end: a failed write leaves the dataset as it was (\<open>commits_at_end\<close>).
\<close>

datatype lance_write_mode = LanceAppend | LanceCreate

record ('w, 'b, 'ds) lance_lib =
  ll_is_dir :: "'w \<Rightarrow> string \<Rightarrow> bool"
  ll_path_exists :: "'w \<Rightarrow> string \<Rightarrow> bool"
  ll_open :: "'w \<Rightarrow> string \<Rightarrow> string + 'ds"
  ll_write :: "'w \<Rightarrow> string \<Rightarrow> string + 'b list \<Rightarrow> lance_write_mode \<Rightarrow> (string + 64 word) \<times> 'w"
  ll_register_table :: "'w \<Rightarrow> string \<Rightarrow> 'ds \<Rightarrow> string + 'w"

definition lance_dataset_exists :: "('w, 'b, 'ds) lance_lib \<Rightarrow> 'w \<Rightarrow> string \<Rightarrow> bool" where
  "lance_dataset_exists ll w path \<longleftrightarrow>
     ll_is_dir ll w path \<and> ll_path_exists ll w (path @ ''/_versions'')"

record lance_write_outcome =
  lwo_version :: "64 word"
  lwo_rows_written :: "64 word"

definition write_failed :: "string \<Rightarrow> string \<Rightarrow> string" where
  "write_failed path e = ''Failed to write Lance dataset at path: '' @ path @ '': '' @ e"

definition refusing :: "string \<Rightarrow> string \<Rightarrow> string" where
  "refusing what path = ''refusing to write an empty '' @ what @ '' to Lance dataset at '' @ path
     @ '': the job produced zero rows, so there is nothing to commit''"

definition write_lance_dataset ::
  "('w, 'b, 'ds) lance_lib \<Rightarrow> ('b \<Rightarrow> 64 word) \<Rightarrow> 'w \<Rightarrow> string \<Rightarrow> 'b list \<Rightarrow> lance_write_mode
   \<Rightarrow> (string + lance_write_outcome) \<times> 'w" where
  "write_lance_dataset ll num_rows w path batches mode =
     (if batches = [] then (Inl (refusing ''batch set'' path), w)
      else
        (let rows_written = sum_list (map num_rows batches) in
         case ll_write ll w path (Inr batches) mode of
           (Inl e, w') \<Rightarrow> (Inl (write_failed path e), w')
         | (Inr version, w') \<Rightarrow>
             (Inr \<lparr>lwo_version = version, lwo_rows_written = rows_written\<rparr>, w')))"

definition write_lance_stream ::
  "('w, 'b, 'ds) lance_lib \<Rightarrow> ('b \<Rightarrow> 64 word) \<Rightarrow> 'w \<Rightarrow> string \<Rightarrow> (nat \<Rightarrow> bool)
   \<Rightarrow> ('b, string) stream \<Rightarrow> lance_write_mode \<Rightarrow> (string + lance_write_outcome) \<times> 'w" where
  "write_lance_stream ll num_rows w path flag stream mode =
     (let (read, rows_seen) = drain (reader_next num_rows) flag 0 0 stream in
      case ll_write ll w path read mode of
        (Inl e, w') \<Rightarrow> (Inl (write_failed path e), w')
      | (Inr version, w') \<Rightarrow>
          (if rows_seen = 0 then (Inl (refusing ''stream'' path), w')
           else (Inr \<lparr>lwo_version = version, lwo_rows_written = rows_seen\<rparr>, w')))"

text \<open>
  Registration: the dataset goes into the optimizer's registry, when there is one, before the
  session registers the table.
\<close>

definition register_lance_table ::
  "('w, 'b, 'ds) lance_lib \<Rightarrow> 'w \<Rightarrow> string \<Rightarrow> string \<Rightarrow> (string \<rightharpoonup> 'ds) option
   \<Rightarrow> (string + unit) \<times> (string \<rightharpoonup> 'ds) option \<times> 'w" where
  "register_lance_table ll w name path registry =
     (if \<not> ll_path_exists ll w path
      then (Inl (''Lance dataset directory does not exist: '' @ path), registry, w)
      else
        case ll_open ll w path of
          Inl e \<Rightarrow> (Inl (''Failed to open Lance dataset at path: '' @ path @ '': '' @ e), registry, w)
        | Inr dataset \<Rightarrow>
            (let registry' = map_option (\<lambda>datasets. datasets(name \<mapsto> dataset)) registry in
             case ll_register_table ll w name dataset of
               Inl e \<Rightarrow> (Inl (''Failed to register Lance table '' @ quote @ name @ quote
                              @ '' with DataFusion: '' @ e), registry', w)
             | Inr w' \<Rightarrow> (Inr (), registry', w')))"

section \<open>What a Lance write does\<close>

text \<open>
  \<open>content w path\<close>: the batches a reader of the dataset sees. A write fails when its reader
  does; a failed write commits nothing; a successful one appends to or creates the dataset.
\<close>

definition commits_at_end ::
  "('w, 'b, 'ds) lance_lib \<Rightarrow> ('w \<Rightarrow> string \<Rightarrow> 'b list) \<Rightarrow> bool" where
  "commits_at_end ll content \<longleftrightarrow>
     (\<forall>w path e mode. \<not> is_ok (fst (ll_write ll w path (Inl e) mode))) \<and>
     (\<forall>w path input mode e w'. ll_write ll w path input mode = (Inl e, w') \<longrightarrow> content w' = content w) \<and>
     (\<forall>w path bs mode v w'. ll_write ll w path (Inr bs) mode = (Inr v, w') \<longrightarrow>
        content w' = (content w)(path := (if mode = LanceAppend then content w path @ bs else bs)))"

lemma commits_at_endD:
  assumes "commits_at_end ll content" "ll_write ll w path input mode = (r, w')"
  shows "r = Inl e \<Longrightarrow> content w' = content w"
    and "r = Inr v \<Longrightarrow> \<exists>bs. input = Inr bs \<and>
      content w' = (content w)(path := (if mode = LanceAppend then content w path @ bs else bs))"
proof -
  show "r = Inl e \<Longrightarrow> content w' = content w"
    using assms unfolding commits_at_end_def by blast
  assume r: "r = Inr v"
  then have "is_ok (fst (ll_write ll w path input mode))" using assms(2) by simp
  then obtain bs where bs: "input = Inr bs"
    using assms(1) unfolding commits_at_end_def by (cases input) blast+
  with assms r have "content w' = (content w)(path := (if mode = LanceAppend then content w path @ bs else bs))"
    unfolding commits_at_end_def by blast
  with bs show "\<exists>bs. input = Inr bs \<and>
      content w' = (content w)(path := (if mode = LanceAppend then content w path @ bs else bs))" by blast
qed

lemma drain_reader:
  assumes "drain (reader_next num_rows) flag 0 0 stream = (Inr bs, n)"
  shows "stream_result stream = Inr bs" "clear_until flag 0 (stream_polls stream)"
    "n = total_rows num_rows bs"
  using drain_Inr [OF assms] by (simp_all add: reader_rows)

text \<open>The outcomes of a streamed write: the data is there iff the library committed it.\<close>

lemma write_lance_stream_outcomes:
  assumes "commits_at_end ll content"
    and "write_lance_stream ll num_rows w path flag stream mode = (r, w')"
  shows "(\<exists>e. r = Inl e \<and> content w' = content w) \<or>
    (\<exists>bs v. stream_result stream = Inr bs \<and> clear_until flag 0 (stream_polls stream)
       \<and> content w' = (content w)(path := (if mode = LanceAppend then content w path @ bs else bs))
       \<and> r = (if total_rows num_rows bs = 0 then Inl (refusing ''stream'' path)
              else Inr \<lparr>lwo_version = v, lwo_rows_written = total_rows num_rows bs\<rparr>))"
proof -
  obtain rd n where d: "drain (reader_next num_rows) flag 0 0 stream = (rd, n)" by fastforce
  obtain r0 w0 where wr: "ll_write ll w path rd mode = (r0, w0)" by fastforce
  show ?thesis
  proof (cases r0)
    case (Inl e)
    with assms(2) d wr have "r = Inl (write_failed path e)" "w' = w0"
      by (simp_all add: write_lance_stream_def)
    with commits_at_endD(1) [OF assms(1) wr Inl] show ?thesis by blast
  next
    case (Inr v)
    then obtain bs where bs: "rd = Inr bs"
      "content w0 = (content w)(path := (if mode = LanceAppend then content w path @ bs else bs))"
      using commits_at_endD(2) [OF assms(1) wr Inr] by blast
    from assms(2) d wr Inr have "w' = w0"
      "r = (if n = 0 then Inl (refusing ''stream'' path)
            else Inr \<lparr>lwo_version = v, lwo_rows_written = n\<rparr>)"
      by (auto simp: write_lance_stream_def split: if_splits)
    with bs drain_reader [of num_rows flag stream bs n] d show ?thesis by blast
  qed
qed

text \<open>
  A streamed Lance write that reports success committed every batch of the query, and
  exactly those: the dataset grew by (or was created with) the batches of the stream, the cancel
  flag was clear at every poll, and the reported number of rows is theirs, and not zero.
\<close>

theorem write_lance_stream_committed:
  assumes "commits_at_end ll content"
    and "write_lance_stream ll num_rows w path flag stream mode = (Inr out, w')"
  shows "\<exists>bs. stream_result stream = Inr bs
     \<and> clear_until flag 0 (stream_polls stream)
     \<and> content w' = (content w)(path := (if mode = LanceAppend then content w path @ bs else bs))
     \<and> lwo_rows_written out = total_rows num_rows bs \<and> lwo_rows_written out \<noteq> 0"
  using write_lance_stream_outcomes [OF assms] by (auto split: if_splits)

text \<open>An in-memory Lance library whose dataset versions count the commits.\<close>

type_synonym mem_world = "(string \<rightharpoonup> nat list list) \<times> string set"

fun mem_write ::
  "mem_world \<Rightarrow> string \<Rightarrow> string + nat list list \<Rightarrow> lance_write_mode \<Rightarrow> (string + 64 word) \<times> mem_world" where
  "mem_write (ds, ts) path (Inl e) mode = (Inl e, (ds, ts))"
| "mem_write (ds, ts) path (Inr bs) LanceAppend =
     (case ds path of None \<Rightarrow> (Inl ''no dataset'', (ds, ts))
      | Some old \<Rightarrow> (Inr 2, (ds(path \<mapsto> old @ bs), ts)))"
| "mem_write (ds, ts) path (Inr bs) LanceCreate =
     (case ds path of None \<Rightarrow> (Inr 1, (ds(path \<mapsto> bs), ts))
      | Some old \<Rightarrow> (Inl ''dataset exists'', (ds, ts)))"

definition mem_lance :: "(mem_world, nat list, nat list list) lance_lib" where
  "mem_lance = \<lparr>ll_is_dir = (\<lambda>(ds, ts) p. ds p \<noteq> None), ll_path_exists = (\<lambda>(ds, ts) p. True),
     ll_open = (\<lambda>(ds, ts) p. ok_or (ds p) ''no dataset''), ll_write = mem_write,
     ll_register_table = (\<lambda>(ds, ts) n d. Inr (ds, insert n ts))\<rparr>"

definition mem_content :: "mem_world \<Rightarrow> string \<Rightarrow> nat list list" where
  "mem_content w path = (case fst w path of None \<Rightarrow> [] | Some bs \<Rightarrow> bs)"

definition mem_rows :: "nat list \<Rightarrow> 64 word" where
  "mem_rows b = of_nat (length b)"

lemma mem_lance_commits: "commits_at_end mem_lance mem_content"
proof -
  have "\<not> is_ok (fst (mem_write w path (Inl e) mode))" for w path e mode
    by (cases w) simp
  moreover have "mem_content w' = mem_content w" if "mem_write w path input mode = (Inl e, w')"
    for w path input mode e w'
    using that by (cases "(w, path, input, mode)" rule: mem_write.cases) (auto split: option.splits)
  moreover have "mem_content w' = (mem_content w)(path := (if mode = LanceAppend
      then mem_content w path @ bs else bs))" if "mem_write w path (Inr bs) mode = (Inr v, w')"
    for w path bs mode v w'
    using that
    by (cases mode; cases w) (auto simp: mem_content_def fun_eq_iff split: option.splits)
  ultimately show ?thesis by (simp add: commits_at_end_def mem_lance_def)
qed

theorem write_lance_stream_committed_witness:
  "\<exists>out w'. write_lance_stream mem_lance mem_rows (Map.empty, {}) ''d'' (\<lambda>_. False)
       [PollReady (Some (Inr [1, 2])), PollPending, PollReady (Some (Inr [3]))] LanceCreate = (Inr out, w')
     \<and> lwo_rows_written out \<noteq> 0 \<and> mem_content w' ''d'' = [[1, 2], [3]]"
proof -
  let ?s = "[PollReady (Some (Inr [1, 2])), PollPending, PollReady (Some (Inr [3 :: nat]))]"
  obtain out w' where w: "write_lance_stream mem_lance mem_rows (Map.empty, {}) ''d'' (\<lambda>_. False)
      ?s LanceCreate = (Inr out, w')"
    by (simp add: write_lance_stream_def drain_steps mem_lance_def mem_rows_def)
  from write_lance_stream_committed [OF mem_lance_commits w] w show ?thesis by auto
qed

text \<open>
  What the stream variant does with an empty result: when the library accepts a write
  without rows, the commit happens before the row check, so the call reports the refusal
  although the dataset has been created (or has a new version). The batch variant checks first
  and leaves the world as it was.
\<close>

theorem empty_stream_is_committed_then_refused:
  assumes "commits_at_end ll content"
    and "stream_result stream = Inr bs" and "\<And>k. \<not> flag k" and "total_rows num_rows bs = 0"
    and "ll_write ll w path (Inr bs) mode = (Inr v, w')"
  shows "write_lance_stream ll num_rows w path flag stream mode =
           (Inl (refusing ''stream'' path), w')
     \<and> content w' = (content w)(path := (if mode = LanceAppend then content w path @ bs else bs))
     \<and> write_lance_dataset ll num_rows w path [] mode = (Inl (refusing ''batch set'' path), w)"
proof -
  obtain rd n where d: "drain (reader_next num_rows) flag 0 0 stream = (rd, n)" by fastforce
  then have "rd = Inr bs" using drain_uncancelled [of flag "reader_next num_rows" 0 0 stream] assms(2,3)
    by simp
  moreover from this d have "n = 0" using drain_reader(3) assms(4) by metis
  ultimately show ?thesis
    using d assms(5) commits_at_endD(2) [OF assms(1,5) refl]
    by (simp add: write_lance_stream_def write_lance_dataset_def)
qed

theorem empty_stream_is_committed_then_refused_witness:
  "write_lance_stream mem_lance mem_rows (Map.empty, {}) ''d'' (\<lambda>_. False) [] LanceCreate =
     (Inl (refusing ''stream'' ''d''), ([''d'' \<mapsto> []], {}))"
  using empty_stream_is_committed_then_refused [OF mem_lance_commits, of "[]" "[]" "\<lambda>_. False"
      mem_rows "(Map.empty, {})" "''d''" LanceCreate 1 "([''d'' \<mapsto> []], {})"]
  by (simp add: total_rows_def mem_lance_def)

end
