(* ===== verification/Job_Destination.thy ===== *)
theory Job_Destination
  imports Sql_Template Lance_Store
begin

text \<open>
  Job definitions and destinations: \<^verbatim>\<open>jobs/definition.rs\<close> (the YAML blocks and the loader),
  \<^verbatim>\<open>jobs/destination/mod.rs\<close> (the cancellable stream, identifier quoting, the table lookup),
  \<^verbatim>\<open>jobs/destination/lance.rs\<close> and \<^verbatim>\<open>jobs/destination/sql_dml.rs\<close>. DataFusion, Lance and
  serde are parameters.
\<close>

section \<open>Job definitions\<close>

datatype job_kind = KindPipeline | KindJob

datatype destination_mode = AppendMode

definition default_create_if_missing :: bool where
  "default_create_if_missing = True"

record destination =
  dest_table :: string
  dest_mode :: destination_mode
  dest_create_if_missing :: bool

record execution =
  exec_timeout_ms :: "64 word option"

definition execution_default :: execution where
  "execution_default = \<lparr>exec_timeout_ms = None\<rparr>"

record 'pipeline job_definition =
  jd_pipeline :: 'pipeline
  jd_destination :: destination
  jd_execution :: execution

text \<open>
  A parsed YAML value with the accesses the loader makes: \<open>get\<close> of a key; the typed
  deserializations are parameters.
\<close>

datatype yaml = YScalar string | YMap "(string \<times> yaml) list" | YOther

fun yaml_get :: "yaml \<Rightarrow> string \<Rightarrow> yaml option" where
  "yaml_get (YMap kvs) k = map_of kvs k"
| "yaml_get _ k = None"

datatype load_error =
  ReadFailed string string | YamlFailed string string | MissingKind string
| InvalidKind string string | MissingSpec string | MissingDestination string
| BadDestination string string | BadExecution string string | BadPipeline string string

record 'pipeline job_loader =
  ld_read :: "string \<Rightarrow> string + string"
  ld_yaml :: "string \<Rightarrow> string + yaml"
  ld_kind :: "yaml \<Rightarrow> string + job_kind"
  ld_destination :: "yaml \<Rightarrow> string + destination"
  ld_execution :: "yaml \<Rightarrow> string + execution"
  ld_pipeline :: "yaml \<Rightarrow> string + 'pipeline"

definition job_load_from_file ::
  "'pipeline job_loader \<Rightarrow> string \<Rightarrow> load_error + 'pipeline job_definition option" where
  "job_load_from_file ld path =
     try_res (map_err (ReadFailed path) (ld_read ld path)) (\<lambda>content.
     try_res (map_err (YamlFailed path) (ld_yaml ld content)) (\<lambda>root.
     try_res (ok_or (yaml_get root ''kind'') (MissingKind path)) (\<lambda>kind_value.
     try_res (map_err (InvalidKind path) (ld_kind ld kind_value)) (\<lambda>kind.
     if kind \<noteq> KindJob then Inr None
     else
       try_res (ok_or (yaml_get root ''spec'') (MissingSpec path)) (\<lambda>spec.
       try_res (ok_or (yaml_get spec ''destination'') (MissingDestination path)) (\<lambda>destination_value.
       try_res (map_err (BadDestination path) (ld_destination ld destination_value)) (\<lambda>destination.
       try_res (case yaml_get spec ''execution'' of
                  Some v \<Rightarrow> map_err (BadExecution path) (ld_execution ld v)
                | None \<Rightarrow> Inr execution_default) (\<lambda>execution.
       try_res (map_err (BadPipeline path) (ld_pipeline ld root)) (\<lambda>pipeline.
       Inr (Some \<lparr>jd_pipeline = pipeline, jd_destination = destination,
                  jd_execution = execution\<rparr>))))))))))"

section \<open>Table references\<close>

definition quote_table_ref :: "string \<Rightarrow> string" where
  "quote_table_ref name = str_join ''.'' (map quote_ident (str_split (CHR ''.'') name))"

lemma read_quote_table_ref: "read_table_ref (quote_table_ref name) = Some (str_split (CHR ''.'') name)"
  by (simp add: quote_table_ref_def read_quoted_segments)

text \<open>\<open>ctx.sql(..)\<close> yields a planned query or an error message; \<open>schema_of\<close> is its schema.\<close>

definition lookup_table_schema ::
  "(string \<Rightarrow> string + 'p) \<Rightarrow> ('p \<Rightarrow> 'schema) \<Rightarrow> string \<Rightarrow> string + 'schema option" where
  "lookup_table_schema ctx_sql schema_of table =
     (case ctx_sql (''SELECT * FROM '' @ quote_table_ref table @ '' LIMIT 0'') of
        Inr df \<Rightarrow> Inr (Some (schema_of df))
      | Inl msg \<Rightarrow>
          (let missing = str_contains ''not found'' msg \<or> str_contains ''does not exist'' msg
                         \<or> str_contains ''Unsupported compound identifier'' msg
           in if missing then Inr None
              else Inl (''Failed to resolve destination table '' @ quote @ table @ quote @ '': '' @ msg)))"

section \<open>Destinations\<close>

record write_outcome =
  wo_rows_written :: "64 word"
  wo_snapshot_id :: "string option"

datatype destination_kind = Lake | Db

text \<open>
  The session the SQL destination drives: the tables it registers, planning, and the collection
  of a planned INSERT, which pulls the staging stream (or meets the error it stops at) and runs
  in the backend's transaction; \<open>w_abandon\<close> is the world left when the collection is dropped
  before it returned, and \<open>w_lance_abandon\<close> the one when Lance's write is. \<open>Dataset::open\<close> yields a dataset whose schema is \<open>w_ds_schema\<close>.
\<close>

record ('w, 'p, 'b, 'ds, 'schema) world_ops =
  w_lance :: "('w, 'b, 'ds) lance_lib"
  w_ds_schema :: "'ds \<Rightarrow> 'schema"
  w_register :: "'w \<Rightarrow> string \<Rightarrow> string + 'w"
  w_deregister :: "'w \<Rightarrow> string \<Rightarrow> string + 'w"
  w_sql :: "'w \<Rightarrow> string \<Rightarrow> string + 'p"
  w_plan_schema :: "'p \<Rightarrow> 'schema"
  w_collect :: "'w \<Rightarrow> 'p \<Rightarrow> string + 'b list \<Rightarrow> (string + unit) \<times> 'w"
  w_abandon :: "'w \<Rightarrow> 'p \<Rightarrow> string + 'b list \<Rightarrow> 'w"
  w_lance_abandon :: "'w \<Rightarrow> string \<Rightarrow> string + 'b list \<Rightarrow> 'w"

definition staging_name :: "string \<Rightarrow> string" where
  "staging_name uuid = ''__skardi_jobs_staging_'' @ uuid"

definition dml_insert_sql :: "string \<Rightarrow> string \<Rightarrow> string" where
  "dml_insert_sql table uuid =
     ''INSERT INTO '' @ quote_table_ref table @ '' SELECT * FROM ''
     @ [dquote] @ staging_name uuid @ [dquote]"

definition sql_dml_insert ::
  "('w, 'p, 'b, 'ds, 'schema) world_ops \<Rightarrow> ('b \<Rightarrow> 64 word) \<Rightarrow> string \<Rightarrow> string \<Rightarrow> (nat \<Rightarrow> bool)
   \<Rightarrow> ('b, string) stream \<Rightarrow> 'w \<Rightarrow> (string + counting) \<times> 'w" where
  "sql_dml_insert ops num_rows table uuid flag stream w =
     (case w_sql ops w (dml_insert_sql table uuid) of
        Inl e \<Rightarrow> (Inl (''Failed to plan INSERT into '' @ quote @ table @ quote @ '': '' @ e), w)
      | Inr plan \<Rightarrow>
          (let (pulled, counter) = drain (counting_poll num_rows) flag 0 counting_new stream in
           case w_collect ops w plan pulled of
             (Inl e, w') \<Rightarrow>
               (Inl (''Failed to execute INSERT into '' @ quote @ table @ quote @ '': '' @ e), w')
           | (Inr _, w') \<Rightarrow> (Inr counter, w')))"

definition sql_dml_write ::
  "('w, 'p, 'b, 'ds, 'schema) world_ops \<Rightarrow> ('b \<Rightarrow> 64 word) \<Rightarrow> string \<Rightarrow> string \<Rightarrow> (nat \<Rightarrow> bool)
   \<Rightarrow> ('b, string) stream \<Rightarrow> 'w \<Rightarrow> (string + write_outcome) \<times> 'w" where
  "sql_dml_write ops num_rows table uuid flag stream w =
     (case w_register ops w (staging_name uuid) of
        Inl e \<Rightarrow> (Inl (''Failed to register streaming staging table: '' @ e), w)
      | Inr w1 \<Rightarrow>
          (let (result, w2) = sql_dml_insert ops num_rows table uuid flag stream w1;
               w3 = (case w_deregister ops w2 (staging_name uuid) of Inl _ \<Rightarrow> w2 | Inr w' \<Rightarrow> w')
           in (case result of
                 Inl e \<Rightarrow> (Inl e, w3)
               | Inr counter \<Rightarrow>
                   (Inr \<lparr>wo_rows_written = ct_rows_written counter, wo_snapshot_id = None\<rparr>, w3))))"

text \<open>
  The world left when the future of a write is dropped at one of the points where it awaits:
  while the INSERT is planned, or while it is collected. The staging table is registered by then,
  and the code after the await, which drops it, does not run.
\<close>

datatype drop_point = DropPlanning | DropCollecting

definition sql_dml_dropped ::
  "('w, 'p, 'b, 'ds, 'schema) world_ops \<Rightarrow> ('b \<Rightarrow> 64 word) \<Rightarrow> string \<Rightarrow> string \<Rightarrow> (nat \<Rightarrow> bool)
   \<Rightarrow> ('b, string) stream \<Rightarrow> drop_point \<Rightarrow> 'w \<Rightarrow> 'w" where
  "sql_dml_dropped ops num_rows table uuid flag stream pt w =
     (case w_register ops w (staging_name uuid) of
        Inl _ \<Rightarrow> w
      | Inr w1 \<Rightarrow>
          (case pt of
             DropPlanning \<Rightarrow> w1
           | DropCollecting \<Rightarrow>
               (case w_sql ops w1 (dml_insert_sql table uuid) of
                  Inl _ \<Rightarrow> w1
                | Inr plan \<Rightarrow>
                    w_abandon ops w1 plan (fst (drain (counting_poll num_rows) flag 0 counting_new stream)))))"

definition lance_schema ::
  "('w, 'p, 'b, 'ds, 'schema) world_ops \<Rightarrow> 'w \<Rightarrow> string \<Rightarrow> string + 'schema option" where
  "lance_schema ops w path =
     (if \<not> lance_dataset_exists (w_lance ops) w path then Inr None
      else try_res (map_err (\<lambda>e. ''Failed to open Lance dataset at '' @ path @ '': '' @ e)
                      (ll_open (w_lance ops) w path)) (\<lambda>ds. Inr (Some (w_ds_schema ops ds))))"

definition lance_write ::
  "('w, 'p, 'b, 'ds, 'schema) world_ops \<Rightarrow> ('b \<Rightarrow> 64 word) \<Rightarrow> string \<Rightarrow> (nat \<Rightarrow> bool)
   \<Rightarrow> ('b, string) stream \<Rightarrow> 'w \<Rightarrow> (string + write_outcome) \<times> 'w" where
  "lance_write ops num_rows path flag stream w =
     (let write_mode = (if lance_dataset_exists (w_lance ops) w path then LanceAppend else LanceCreate) in
      case write_lance_stream (w_lance ops) num_rows w path flag stream write_mode of
        (Inl e, w') \<Rightarrow> (Inl e, w')
      | (Inr outcome, w') \<Rightarrow>
          (Inr \<lparr>wo_rows_written = lwo_rows_written outcome,
                wo_snapshot_id = Some (show_nat (unat (lwo_version outcome)))\<rparr>, w'))"

text \<open>The trait object: one of the two destinations, and the operations dispatched on it.\<close>

datatype job_destination = LanceDestination string | SqlDmlDestination string

definition jd_kind :: "job_destination \<Rightarrow> destination_kind" where
  "jd_kind d = (case d of LanceDestination _ \<Rightarrow> Lake | SqlDmlDestination _ \<Rightarrow> Db)"

definition jd_schema ::
  "('w, 'p, 'b, 'ds, 'schema) world_ops \<Rightarrow> 'w \<Rightarrow> job_destination \<Rightarrow> string + 'schema option" where
  "jd_schema ops w d =
     (case d of
        LanceDestination path \<Rightarrow> lance_schema ops w path
      | SqlDmlDestination table \<Rightarrow> lookup_table_schema (w_sql ops w) (w_plan_schema ops) table)"

definition jd_exists ::
  "('w, 'p, 'b, 'ds, 'schema) world_ops \<Rightarrow> 'w \<Rightarrow> job_destination \<Rightarrow> string + bool" where
  "jd_exists ops w d =
     (case d of
        LanceDestination path \<Rightarrow> Inr (lance_dataset_exists (w_lance ops) w path)
      | SqlDmlDestination table \<Rightarrow>
          try_res (lookup_table_schema (w_sql ops w) (w_plan_schema ops) table) (\<lambda>s. Inr (s \<noteq> None)))"

definition jd_write ::
  "('w, 'p, 'b, 'ds, 'schema) world_ops \<Rightarrow> ('b \<Rightarrow> 64 word) \<Rightarrow> string \<Rightarrow> job_destination
   \<Rightarrow> (nat \<Rightarrow> bool) \<Rightarrow> ('b, string) stream \<Rightarrow> 'w \<Rightarrow> (string + write_outcome) \<times> 'w" where
  "jd_write ops num_rows uuid d flag stream w =
     (case d of
        LanceDestination path \<Rightarrow> lance_write ops num_rows path flag stream w
      | SqlDmlDestination table \<Rightarrow> sql_dml_write ops num_rows table uuid flag stream w)"

definition jd_dropped ::
  "('w, 'p, 'b, 'ds, 'schema) world_ops \<Rightarrow> ('b \<Rightarrow> 64 word) \<Rightarrow> string \<Rightarrow> job_destination
   \<Rightarrow> (nat \<Rightarrow> bool) \<Rightarrow> ('b, string) stream \<Rightarrow> drop_point \<Rightarrow> 'w \<Rightarrow> 'w" where
  "jd_dropped ops num_rows uuid d flag stream pt w =
     (case d of
        LanceDestination path \<Rightarrow>
          w_lance_abandon ops w path (fst (drain (reader_next num_rows) flag 0 0 stream))
      | SqlDmlDestination table \<Rightarrow> sql_dml_dropped ops num_rows table uuid flag stream pt w)"

section \<open>What a SQL write does\<close>

text \<open>
  How a SQL parser reads an INSERT of a whole table: the reference of the target and the name of
  the source.
\<close>

definition read_insert :: "string \<Rightarrow> (string list \<times> string) option" where
  "read_insert sql =
     Option.bind (strip_prefix ''INSERT INTO '' sql) (\<lambda>r.
     Option.bind (read_dotted dquote r) (\<lambda>(path, r').
     Option.bind (strip_prefix '' SELECT * FROM '' r') (\<lambda>src.
     Option.bind (read_quoted dquote src) (\<lambda>(n, rest).
     if rest = [] then Some (path, n) else None))))"

text \<open>
  \<open>content w\<close>: the committed batches of each table, which a reference names through \<open>resolve\<close> (a
  bare and a full reference may name the same table); \<open>registered w\<close>: the session's own tables.
  Registration touches only the session. For a statement that reads as an INSERT of a registered
  table into another one: when its collection fails, nothing changes; when it succeeds, its input
  ended without an error and the target alone has grown by the whole input (SQL's meaning of the
  statement, in one transaction); when it is dropped, the transaction has been rolled back, or its
  commit, already sent, took effect.
\<close>

definition inserted :: "('k \<Rightarrow> 'b list) \<Rightarrow> 'k \<Rightarrow> 'b list \<Rightarrow> 'k \<Rightarrow> 'b list" where
  "inserted c t bs = c(t := c t @ bs)"

definition transactional ::
  "('w, 'p, 'b, 'ds, 'schema) world_ops \<Rightarrow> (string list \<Rightarrow> 'k) \<Rightarrow> ('w \<Rightarrow> 'k \<Rightarrow> 'b list)
   \<Rightarrow> ('w \<Rightarrow> string set) \<Rightarrow> bool" where
  "transactional ops resolve content registered \<longleftrightarrow>
     (\<forall>w n w'. w_register ops w n = Inr w' \<longrightarrow>
        content w' = content w \<and> registered w' = insert n (registered w)) \<and>
     (\<forall>w n. n \<in> registered w \<longrightarrow> (\<exists>w'. w_deregister ops w n = Inr w' \<and>
        content w' = content w \<and> registered w' = registered w - {n})) \<and>
     (\<forall>w sql path n p input r w'. read_insert sql = Some (path, n) \<longrightarrow> n \<in> registered w \<longrightarrow> resolve path \<noteq> resolve [n] \<longrightarrow>
        w_sql ops w sql = Inr p \<longrightarrow> w_collect ops w p input = (r, w') \<longrightarrow> registered w' = registered w \<and>
        (case r of Inl e \<Rightarrow> content w' = content w
         | Inr _ \<Rightarrow> (\<exists>bs. input = Inr bs \<and> content w' = inserted (content w) (resolve path) bs))) \<and>
     (\<forall>w sql path n p input. read_insert sql = Some (path, n) \<longrightarrow> n \<in> registered w \<longrightarrow> resolve path \<noteq> resolve [n] \<longrightarrow>
        w_sql ops w sql = Inr p \<longrightarrow> registered (w_abandon ops w p input) = registered w \<and>
        (content (w_abandon ops w p input) = content w
         \<or> (\<exists>bs. input = Inr bs \<and> content (w_abandon ops w p input) = inserted (content w) (resolve path) bs)))"

lemma transactional_register:
  "transactional ops resolve content registered \<Longrightarrow> w_register ops w n = Inr w' \<Longrightarrow>
   content w' = content w \<and> registered w' = insert n (registered w)"
  by (simp add: transactional_def)

lemma transactional_deregister:
  "transactional ops resolve content registered \<Longrightarrow> n \<in> registered w \<Longrightarrow>
   \<exists>w'. w_deregister ops w n = Inr w' \<and> content w' = content w \<and> registered w' = registered w - {n}"
  by (simp add: transactional_def)

lemma transactional_collect:
  assumes "transactional ops resolve content registered" and "read_insert sql = Some (path, n)"
    and "n \<in> registered w" and "resolve path \<noteq> resolve [n]" and "w_sql ops w sql = Inr p" and "w_collect ops w p input = (r, w')"
  shows "registered w' = registered w \<and>
   (case r of Inl e \<Rightarrow> content w' = content w
    | Inr _ \<Rightarrow> (\<exists>bs. input = Inr bs \<and> content w' = inserted (content w) (resolve path) bs))"
  using assms unfolding transactional_def by blast

lemma transactional_abandon:
  assumes "transactional ops resolve content registered" and "read_insert sql = Some (path, n)"
    and "n \<in> registered w" and "resolve path \<noteq> resolve [n]" and "w_sql ops w sql = Inr p"
  shows "registered (w_abandon ops w p input) = registered w \<and>
    (content (w_abandon ops w p input) = content w
     \<or> (\<exists>bs. input = Inr bs \<and> content (w_abandon ops w p input) = inserted (content w) (resolve path) bs))"
  using assms unfolding transactional_def by blast

text \<open>The generated statement reads as the INSERT of its staging table into the configured table.\<close>

lemma quote_plain_ident: "dquote \<notin> set s \<Longrightarrow> quote_ident s = [dquote] @ s @ [dquote]"
proof -
  assume "dquote \<notin> set s"
  then have "str_replace [dquote] [dquote, dquote] s = s"
    unfolding str_replace_char by (induction s) auto
  then show ?thesis by (simp add: quote_ident_def)
qed

lemma read_dml_insert:
  assumes "dquote \<notin> set uuid"
  shows "read_insert (dml_insert_sql table uuid) = Some (str_split (CHR ''.'') table, staging_name uuid)"
proof -
  let ?st = "quote_ident (staging_name uuid)"
  have "dquote \<notin> set (staging_name uuid)" using assms by (simp add: staging_name_def dquote_def)
  then have sql: "dml_insert_sql table uuid =
      ''INSERT INTO '' @ quote_table_ref table @ '' SELECT * FROM '' @ ?st"
    by (simp add: dml_insert_sql_def quote_plain_ident)
  have "read_dotted dquote (quote_table_ref table @ '' SELECT * FROM '' @ ?st) =
      Some (str_split (CHR ''.'') table, '' SELECT * FROM '' @ ?st)"
    unfolding quote_table_ref_def
    by (rule read_dotted_segments) (use read_quote_ident in \<open>auto simp: dquote_def\<close>)
  moreover have "read_quoted dquote ?st = Some (staging_name uuid, [])"
    using read_quote_ident [of "[]"] by simp
  ultimately show ?thesis by (simp only: sql read_insert_def strip_prefix_append bind.simps prod.case) simp
qed

lemma drain_counting:
  assumes "drain (counting_poll num_rows) flag 0 counting_new stream = (Inr bs, ct)"
  shows "stream_result stream = Inr bs" "clear_until flag 0 (stream_polls stream)"
    "ct_rows_written ct = total_rows num_rows bs"
    "sum_list (map (unat \<circ> num_rows) bs) < 2 ^ 64 \<Longrightarrow> warned_once ct"
  using drain_Inr [OF assms] warned_once_all [OF warned_once_new, of num_rows bs]
  by (simp_all add: counting_rows counting_new_def)

lemma sql_dml_insert_outcomes:
  assumes t: "transactional ops resolve content registered" and u: "dquote \<notin> set uuid"
    and n: "staging_name uuid \<in> registered w" "resolve (str_split (CHR ''.'') table) \<noteq> resolve [staging_name uuid]"
    and "sql_dml_insert ops num_rows table uuid flag stream w = (r, w')"
  shows "registered w' = registered w \<and>
    (case r of Inl e \<Rightarrow> content w' = content w
     | Inr ct \<Rightarrow> (\<exists>bs. stream_result stream = Inr bs \<and> clear_until flag 0 (stream_polls stream)
         \<and> content w' = inserted (content w) (resolve (str_split (CHR ''.'') table)) bs
         \<and> ct_rows_written ct = total_rows num_rows bs))"
proof (cases "w_sql ops w (dml_insert_sql table uuid)")
  case (Inl e)
  with assms(5) show ?thesis by (auto simp: sql_dml_insert_def)
next
  case (Inr p)
  obtain rd ct where d: "drain (counting_poll num_rows) flag 0 counting_new stream = (rd, ct)"
    by fastforce
  obtain r0 w0 where c: "w_collect ops w p rd = (r0, w0)" by fastforce
  note law = transactional_collect [OF t read_dml_insert [OF u] n Inr c]
  have w': "w' = w0" using assms(5) Inr d c
    by (auto simp: sql_dml_insert_def split: sum.splits)
  show ?thesis
  proof (cases r0)
    case Inl0: (Inl e)
    with assms(5) Inr d c law w' show ?thesis by (auto simp: sql_dml_insert_def)
  next
    case Inr0: (Inr x)
    with law obtain bs where bs: "rd = Inr bs"
      "content w0 = inserted (content w) (resolve (str_split (CHR ''.'') table)) bs" by auto
    have "r = Inr ct" using assms(5) Inr d c Inr0 by (auto simp: sql_dml_insert_def)
    with law w' bs d drain_counting(1-3) show ?thesis by fastforce
  qed
qed

lemma sql_dml_write_outcomes:
  assumes "transactional ops resolve content registered" and "dquote \<notin> set uuid"
    and "staging_name uuid \<notin> registered w" and "resolve (str_split (CHR ''.'') table) \<noteq> resolve [staging_name uuid]"
    and "sql_dml_write ops num_rows table uuid flag stream w = (r, w')"
  shows "registered w' = registered w \<and>
    (case r of Inl e \<Rightarrow> content w' = content w
     | Inr out \<Rightarrow> (\<exists>bs. stream_result stream = Inr bs \<and> clear_until flag 0 (stream_polls stream)
         \<and> content w' = inserted (content w) (resolve (str_split (CHR ''.'') table)) bs
         \<and> out = \<lparr>wo_rows_written = total_rows num_rows bs, wo_snapshot_id = None\<rparr>))"
proof (cases "w_register ops w (staging_name uuid)")
  case (Inl e)
  with assms(5) show ?thesis by (auto simp: sql_dml_write_def)
next
  case (Inr w1)
  have w1: "content w1 = content w" "registered w1 = insert (staging_name uuid) (registered w)"
    using transactional_register [OF assms(1) Inr] by simp_all
  obtain r2 w2 where i: "sql_dml_insert ops num_rows table uuid flag stream w1 = (r2, w2)"
    by fastforce
  have n: "staging_name uuid \<in> registered w1" by (simp add: w1)
  note out = sql_dml_insert_outcomes [OF assms(1,2) n assms(4) i]
  then have "staging_name uuid \<in> registered w2" using w1 by simp
  then obtain w3 where w3: "w_deregister ops w2 (staging_name uuid) = Inr w3"
      "content w3 = content w2" "registered w3 = registered w2 - {staging_name uuid}"
    using transactional_deregister [OF assms(1)] by blast
  have r: "w' = w3" "r = map_sum id (\<lambda>ct. \<lparr>wo_rows_written = ct_rows_written ct, wo_snapshot_id = None\<rparr>) r2"
    using assms(5) Inr i w3(1) by (auto simp: sql_dml_write_def split: sum.splits)
  have "registered w' = registered w" using r(1) w3(3) out w1(2) assms(3) by auto
  with out r w3(2) w1(1) show ?thesis by (cases r2) auto
qed

text \<open>
  A write that is dropped half-way keeps or completes the destination, but leaves its staging
  table registered.
\<close>

lemma sql_dml_dropped_outcomes:
  assumes "transactional ops resolve content registered" and "dquote \<notin> set uuid"
    and "resolve (str_split (CHR ''.'') table) \<noteq> resolve [staging_name uuid]"
    and "w' = sql_dml_dropped ops num_rows table uuid flag stream pt w"
  shows "registered w' \<in> {registered w, insert (staging_name uuid) (registered w)} \<and>
    (content w' = content w \<or> (\<exists>bs. stream_result stream = Inr bs
       \<and> content w' = inserted (content w) (resolve (str_split (CHR ''.'') table)) bs))"
proof (cases "w_register ops w (staging_name uuid)")
  case (Inl e)
  then show ?thesis by (simp add: assms(4) sql_dml_dropped_def)
next
  case (Inr w1)
  have w1: "content w1 = content w" "registered w1 = insert (staging_name uuid) (registered w)"
    using transactional_register [OF assms(1) Inr] by simp_all
  have n: "staging_name uuid \<in> registered w1" by (simp add: w1)
  show ?thesis
  proof (cases "pt = DropPlanning \<or> \<not> is_ok (w_sql ops w1 (dml_insert_sql table uuid))")
    case True
    then have "w' = w1" using Inr
      by (cases pt; cases "w_sql ops w1 (dml_insert_sql table uuid)") (simp_all add: assms(4) sql_dml_dropped_def)
    then show ?thesis by (simp add: w1)
  next
    case False
    then obtain p where p: "w_sql ops w1 (dml_insert_sql table uuid) = Inr p"
      and pt: "pt = DropCollecting"
      by (cases pt; cases "w_sql ops w1 (dml_insert_sql table uuid)") simp_all
    obtain rd ct where d: "drain (counting_poll num_rows) flag 0 counting_new stream = (rd, ct)"
      by fastforce
    have w': "w' = w_abandon ops w1 p rd" using Inr p pt d by (simp add: assms(4) sql_dml_dropped_def)
    have "stream_result stream = Inr bs" if "rd = Inr bs" for bs
      using drain_counting(1) d that by blast
    with transactional_abandon [OF assms(1) read_dml_insert [OF assms(2)] n assms(3) p, of rd] w' w1
    show ?thesis by auto
  qed
qed

text \<open>
  C19. A SQL write is all or nothing and leaves nothing behind. The SQL it generates reads as the
  INSERT of its own staging table into the configured table, for every table name and every
  destination of a backend that runs such a statement in one transaction: on an error every
  table of the backend has the rows it had; on success the configured table, and no other, has
  grown by exactly the batches of the stream, whose number of rows is reported and during whose
  polls the job was not cancelled; in both cases the session has the tables it had before, the
  staging table included.
\<close>

theorem sql_dml_write_atomic:
  assumes "transactional ops resolve content registered" and "dquote \<notin> set uuid"
    and "staging_name uuid \<notin> registered w" and "resolve (str_split (CHR ''.'') table) \<noteq> resolve [staging_name uuid]"
    and "sql_dml_write ops num_rows table uuid flag stream w = (r, w')"
  shows "registered w' = registered w \<and>
    (case r of Inl e \<Rightarrow> content w' = content w
     | Inr out \<Rightarrow> (\<exists>bs. stream_result stream = Inr bs \<and> clear_until flag 0 (stream_polls stream)
         \<and> content w' = (content w)(resolve (str_split (CHR ''.'') table) :=
              content w (resolve (str_split (CHR ''.'') table)) @ bs)
         \<and> out = \<lparr>wo_rows_written = total_rows num_rows bs, wo_snapshot_id = None\<rparr>))"
  using sql_dml_write_outcomes [OF assms] unfolding inserted_def .

text \<open>
  An in-memory session: its registered tables and the rows of tables named by one segment. A
  plan is the table it inserts into; queries plan to no table.
\<close>

definition mem_paths :: "mem_world \<Rightarrow> string list \<Rightarrow> nat list list" where
  "mem_paths w path = (case path of [t] \<Rightarrow> mem_content w t | _ \<Rightarrow> [])"

definition mem_sql :: "mem_world \<Rightarrow> string \<Rightarrow> string + string option" where
  "mem_sql w sql =
     (case read_insert sql of
        None \<Rightarrow> Inr None
      | Some ([t], n) \<Rightarrow> Inr (Some t)
      | Some _ \<Rightarrow> Inl ''no such table'')"

definition mem_collect ::
  "mem_world \<Rightarrow> string option \<Rightarrow> string + nat list list \<Rightarrow> (string + unit) \<times> mem_world" where
  "mem_collect w plan input =
     (case (plan, input) of
        (Some t, Inl e) \<Rightarrow> (Inl e, w)
      | (Some t, Inr bs) \<Rightarrow> (Inr (), ((fst w)(t \<mapsto> mem_content w t @ bs), snd w))
      | (None, _) \<Rightarrow> (Inr (), w))"

definition mem_ops :: "(mem_world, string option, nat list, nat list list, 'f list) world_ops" where
  "mem_ops = \<lparr>w_lance = mem_lance, w_ds_schema = (\<lambda>_. []),
     w_register = (\<lambda>(ds, ts) n. Inr (ds, insert n ts)),
     w_deregister = (\<lambda>(ds, ts) n. Inr (ds, ts - {n})),
     w_sql = mem_sql, w_plan_schema = (\<lambda>_. []), w_collect = mem_collect,
     w_abandon = (\<lambda>w _ _. w), w_lance_abandon = (\<lambda>w _ _. w)\<rparr>"

lemma mem_sql_insert:
  "mem_sql w sql = Inr p \<Longrightarrow> read_insert sql = Some (path, n) \<Longrightarrow> \<exists>t. path = [t] \<and> p = Some t"
  by (auto simp: mem_sql_def split: option.splits list.splits)

lemma mem_collect_insert:
  assumes "mem_collect w (Some t) input = (r, w')"
  shows "snd w' = snd w \<and>
    (case r of Inl e \<Rightarrow> mem_paths w' = mem_paths w
     | Inr _ \<Rightarrow> (\<exists>bs. input = Inr bs \<and> mem_paths w' = inserted (mem_paths w) [t] bs))"
  using assms
  by (cases input) (auto simp: mem_collect_def mem_paths_def inserted_def mem_content_def fun_eq_iff
      split: list.split)

lemma mem_ops_transactional: "transactional mem_ops id mem_paths snd"
proof -
  have "snd w' = snd w \<and> (case r of Inl e \<Rightarrow> mem_paths w' = mem_paths w
      | Inr _ \<Rightarrow> (\<exists>bs. input = Inr bs \<and> mem_paths w' = inserted (mem_paths w) path bs))"
    if "read_insert sql = Some (path, n)" "mem_sql w sql = Inr p" "mem_collect w p input = (r, w')"
    for w sql path n p input r w'
    using mem_sql_insert [OF that(2,1)] mem_collect_insert that(3) by blast
  moreover have "mem_paths (ds, ts) = mem_paths (ds, ts')" for ds ts ts'
    by (simp add: fun_eq_iff mem_paths_def mem_content_def split: list.split)
  ultimately show ?thesis
    unfolding transactional_def mem_ops_def by auto
qed

theorem sql_dml_write_atomic_witness:
  "\<exists>out w'. sql_dml_write (mem_ops :: (_, _, _, _, nat list) world_ops) mem_rows ''t'' ''u'' (\<lambda>_. False)
      [PollReady (Some (Inr [7, 8]))] (Map.empty, {''x''}) = (Inr out, w')
    \<and> snd w' = {''x''} \<and> mem_content w' ''t'' = [[7, 8]] \<and> wo_rows_written out = 2"
proof -
  let ?s = "[PollReady (Some (Inr [7, 8 :: nat]))]"
  have u: "dquote \<notin> set ''u''" by (simp add: dquote_def)
  have fresh: "staging_name ''u'' \<notin> snd (Map.empty, {''x''})" by (simp add: staging_name_def)
  have other: "id (str_split (CHR ''.'') ''t'') \<noteq> id [staging_name ''u'']" by (simp add: staging_name_def)
  obtain out w' where w: "sql_dml_write (mem_ops :: (_, _, _, _, nat list) world_ops) mem_rows ''t'' ''u''
      (\<lambda>_. False) ?s (Map.empty, {''x''})
      = (Inr out, w')"
    by (simp add: sql_dml_write_def sql_dml_insert_def mem_ops_def mem_sql_def mem_collect_def
        read_dml_insert [OF u] drain_steps)
  from sql_dml_write_atomic [OF mem_ops_transactional u fresh other w]
  have "mem_paths w' [''t''] = [[7, 8]]" "snd w' = {''x''}" "wo_rows_written out = 2"
    by (simp_all add: mem_paths_def mem_content_def total_rows_def mem_rows_def)
  with w show ?thesis by (simp add: mem_paths_def)
qed

text \<open>
  The table reference in the generated SQL denotes exactly the configured table: a parser
  that reads the quoted reference gets back the dot-separated segments of the name, whatever
  characters (quotes included) they contain, and no name can smuggle SQL text out of its quotes.
\<close>

theorem quote_table_ref_reads_back:
  "read_table_ref (quote_table_ref name) = Some (str_split (CHR ''.'') name)
   \<and> str_join ''.'' (the (read_table_ref (quote_table_ref name))) = name"
  by (simp add: read_quote_table_ref)

text \<open>
  Loading a job file yields a job exactly when the file reads and parses, its kind is
  \<open>job\<close>, and the destination, the execution block (if present) and the pipeline section are
  well formed; a file of another kind is not an error but no job.
\<close>

theorem job_load_from_file_iff:
  "job_load_from_file ld path = Inr (Some jd) \<longleftrightarrow>
     (\<exists>content root kv spec dv. ld_read ld path = Inr content \<and> ld_yaml ld content = Inr root
        \<and> yaml_get root ''kind'' = Some kv \<and> ld_kind ld kv = Inr KindJob
        \<and> yaml_get root ''spec'' = Some spec \<and> yaml_get spec ''destination'' = Some dv
        \<and> ld_destination ld dv = Inr (jd_destination jd)
        \<and> (case yaml_get spec ''execution'' of Some v \<Rightarrow> ld_execution ld v = Inr (jd_execution jd)
           | None \<Rightarrow> jd_execution jd = execution_default)
        \<and> ld_pipeline ld root = Inr (jd_pipeline jd))"
  (is "?l \<longleftrightarrow> ?r")
proof
  assume ?l
  then obtain content root kv spec dv where *: "ld_read ld path = Inr content"
    "ld_yaml ld content = Inr root" "yaml_get root ''kind'' = Some kv" "ld_kind ld kv = Inr KindJob"
    "yaml_get root ''spec'' = Some spec" "yaml_get spec ''destination'' = Some dv"
    "ld_destination ld dv = Inr (jd_destination jd)" "ld_pipeline ld root = Inr (jd_pipeline jd)"
    "case yaml_get spec ''execution'' of Some v \<Rightarrow> ld_execution ld v = Inr (jd_execution jd)
       | None \<Rightarrow> jd_execution jd = execution_default"
    unfolding job_load_from_file_def
    by (auto simp: res_simps split: if_split_asm option.splits)
  then show ?r by blast
next
  assume ?r
  then show ?l
    by (cases jd) (auto simp: job_load_from_file_def split: option.splits)
qed

end
