(* ===== verification/Server_Startup.thy ===== *)
theory Server_Startup
  imports Server_Config Job_Destination
begin

text \<open>
  Starting the server: registration of the data sources (\<^verbatim>\<open>server/src/config.rs\<close>,
  \<open>register_data_source\<close>), of the table functions (\<^verbatim>\<open>server/src/optimizer_registry.rs\<close>), and the
  loading of pipelines, jobs and semantics (\<open>load_server_config\<close>). The session context and the
  registration functions of the providers are parameters; the contexts that \<open>anyhow\<close> adds to an
  error are left out.
\<close>

section \<open>Parsing option values\<close>

record csv_options =
  csv_has_header :: bool
  csv_delimiter :: "char option"
  csv_schema_infer_max :: "nat option"

definition csv_read_options :: "options \<Rightarrow> csv_options" where
  "csv_read_options options =
     \<lparr>csv_has_header = (case option_value options ''has_header'' of
        Some v \<Rightarrow> (case parse_bool v of Some b \<Rightarrow> b | None \<Rightarrow> True) | None \<Rightarrow> True),
      csv_delimiter = Option.bind (option_value options ''delimiter'')
        (\<lambda>d. case d of c # _ \<Rightarrow> Some c | [] \<Rightarrow> None),
      csv_schema_infer_max = Option.bind (option_value options ''schema_infer_max_records'') parse_usize\<rparr>"

section \<open>Registering one data source\<close>

text \<open>\<open>rg_provider\<close>: the registration function of a provider, given the name, the connection
  string or path, the options, write access and hierarchy level. \<open>rg_function\<close> registers a function
  of the given name, \<open>rg_model_functions\<close> are those of the model features compiled in.\<close>

record ('c, 'df, 'b, 'sch, 'tab, 'store) registrars =
  rg_csv :: "'c \<Rightarrow> string \<Rightarrow> string \<Rightarrow> csv_options \<Rightarrow> string + 'c"
  rg_parquet :: "'c \<Rightarrow> string \<Rightarrow> string \<Rightarrow> string + 'c"
  rg_provider :: "data_source_type \<Rightarrow> 'c \<Rightarrow> string \<Rightarrow> string \<Rightarrow> options \<Rightarrow> bool \<Rightarrow> hierarchy_level \<Rightarrow> string + 'c"
  rg_lance_exists :: "string \<Rightarrow> bool"
  rg_documents_feature :: bool
  rg_sql :: "'c \<Rightarrow> string \<Rightarrow> string + 'df"
  rg_collect :: "'df \<Rightarrow> string + 'b list"
  rg_df_schema :: "'df \<Rightarrow> 'sch"
  rg_batch_schema :: "'b \<Rightarrow> 'sch"
  rg_deregister :: "'c \<Rightarrow> string \<Rightarrow> string + 'c"
  rg_mem_table :: "'sch \<Rightarrow> 'b list \<Rightarrow> string + 'tab"
  rg_register_table :: "'c \<Rightarrow> string \<Rightarrow> 'tab \<Rightarrow> string + 'c"
  rg_s3 :: "('c, 'store) s3_lib"
  rg_function :: "'c \<Rightarrow> string \<Rightarrow> 'c"
  rg_model_functions :: "string list"

record server_env =
  sv_fs :: fs
  sv_utf8 :: "string \<Rightarrow> bool"
  sv_env :: environment

definition prepare_location ::
  "('c, 'df, 'b, 'sch, 'tab, 'store) registrars \<Rightarrow> server_env \<Rightarrow> 'c \<Rightarrow> data_source
   \<Rightarrow> config_error + 'c" where
  "prepare_location rg sv ctx source =
     (let remote = is_remote_path (sv_utf8 sv) (ds_path source) in
      if ds_type source \<in> {Csv, Parquet, Sqlite} \<and> \<not> remote then
        (if \<not> path_exists (sv_fs sv) (ds_path source)
         then Inl (DataSourceFileNotFound (ds_name source) (ds_path source)) else Inr ctx)
      else if ds_type source = Lance \<and> \<not> remote then Inr ctx
      else if ds_type source \<in> {Csv, Parquet, Lance} \<and> remote then
        try_res (s3_validate_configuration (sv_utf8 sv) source) (\<lambda>_.
        s3_setup_object_store (rg_s3 rg) (sv_env sv) ctx (ds_name source)
          (path_or_empty (sv_utf8 sv) (ds_path source)))
      else Inr ctx)"

definition utf8_path :: "server_env \<Rightarrow> data_source \<Rightarrow> config_error \<Rightarrow> config_error + string" where
  "utf8_path sv source e = (if sv_utf8 sv (ds_path source) then Inr (ds_path source) else Inl e)"

definition registration_error :: "data_source_type \<Rightarrow> string \<Rightarrow> string \<Rightarrow> config_error" where
  "registration_error ty name e =
     (case ty of
        Postgres \<Rightarrow> PostgresConnectionFailed name e
      | Mysql \<Rightarrow> MySQLConnectionFailed name e
      | Seekdb \<Rightarrow> SeekDbConnectionFailed name e
      | Sqlite \<Rightarrow> SQLiteConnectionFailed name e
      | _ \<Rightarrow> DataSourceRegistrationFailed name e)"

text \<open>The provider call of the database and file providers, with its location and its flags.\<close>

definition call_provider ::
  "('c, 'df, 'b, 'sch, 'tab, 'store) registrars \<Rightarrow> 'c \<Rightarrow> data_source \<Rightarrow> string \<Rightarrow> bool
   \<Rightarrow> config_error + 'c" where
  "call_provider rg ctx source location read_write =
     map_err (registration_error (ds_type source) (ds_name source))
       (rg_provider rg (ds_type source) ctx (ds_name source) location (ds_options source)
          read_write (ds_hierarchy_level source))"

definition register_table_of ::
  "('c, 'df, 'b, 'sch, 'tab, 'store) registrars \<Rightarrow> server_env \<Rightarrow> 'c \<Rightarrow> data_source
   \<Rightarrow> config_error + 'c" where
  "register_table_of rg sv ctx source =
     (let name = ds_name source;
          connection = ok_or (ds_connection_string source) (MissingConnectionString name);
          rw = is_read_write (ds_access_mode source)
      in case ds_type source of
        Csv \<Rightarrow>
          try_res (utf8_path sv source (NonUtf8Path name (ds_path source))) (\<lambda>p.
          map_err (DataSourceRegistrationFailed name)
            (rg_csv rg ctx name p (csv_read_options (ds_options source))))
      | Parquet \<Rightarrow>
          try_res (utf8_path sv source (NonUtf8Path name (ds_path source))) (\<lambda>p.
          map_err (DataSourceRegistrationFailed name) (rg_parquet rg ctx name p))
      | Postgres \<Rightarrow> try_res connection (\<lambda>c. call_provider rg ctx source c rw)
      | Mysql \<Rightarrow> try_res connection (\<lambda>c. call_provider rg ctx source c rw)
      | Seekdb \<Rightarrow> try_res connection (\<lambda>c. call_provider rg ctx source c rw)
      | Sqlite \<Rightarrow>
          try_res (utf8_path sv source (DataSourceRegistrationFailed name ''Invalid SQLite database path''))
            (\<lambda>p. call_provider rg ctx source p rw)
      | Iceberg \<Rightarrow>
          try_res (utf8_path sv source (DataSourceRegistrationFailed name ''Invalid warehouse path''))
            (\<lambda>p. call_provider rg ctx source p False)
      | Mongo \<Rightarrow> try_res connection (\<lambda>c. call_provider rg ctx source c False)
      | Redis \<Rightarrow> try_res connection (\<lambda>c. call_provider rg ctx source c False)
      | Influxdb \<Rightarrow> try_res connection (\<lambda>c. call_provider rg ctx source c False)
      | Lance \<Rightarrow>
          try_res (utf8_path sv source (NonUtf8Path name (ds_path source))) (\<lambda>p.
          if \<not> rg_lance_exists rg p then Inr ctx else call_provider rg ctx source p False)
      | Documents \<Rightarrow>
          (if rg_documents_feature rg then
             try_res (utf8_path sv source (NonUtf8Path name (ds_path source))) (\<lambda>p.
             call_provider rg ctx source p False)
           else Inl (DataSourceRegistrationFailed name
             ''documents data source type requires the `documents` feature to be enabled at build time'')))"

text \<open>Replacing the registered table by an in-memory copy.\<close>

definition cache_table ::
  "('c, 'df, 'b, 'sch, 'tab, 'store) registrars \<Rightarrow> 'c \<Rightarrow> string \<Rightarrow> config_error + 'c" where
  "cache_table rg ctx name =
     (let failed = (\<lambda>what e. DataSourceRegistrationFailed name (what @ '': '' @ e)) in
      try_res (map_err (failed ''Failed to read table for caching'')
        (rg_sql rg ctx (''SELECT * FROM '' @ name))) (\<lambda>df.
      try_res (map_err (failed ''Failed to collect batches for caching'') (rg_collect rg df)) (\<lambda>batches.
      try_res (case batches of
          b # _ \<Rightarrow> Inr (rg_batch_schema rg b)
        | [] \<Rightarrow> try_res (map_err (failed ''Failed to infer schema for caching'')
                  (rg_sql rg ctx (''SELECT * FROM '' @ name @ '' LIMIT 0''))) (\<lambda>df0. Inr (rg_df_schema rg df0)))
        (\<lambda>schema.
      try_res (map_err (failed ''Failed to deregister table for caching'')
        (rg_deregister rg ctx name)) (\<lambda>ctx1.
      try_res (map_err (failed ''Failed to create MemTable for caching'')
        (rg_mem_table rg schema batches)) (\<lambda>tab.
      map_err (failed ''Failed to register cached MemTable'') (rg_register_table rg ctx1 name tab)))))))"

definition register_data_source ::
  "('c, 'df, 'b, 'sch, 'tab, 'store) registrars \<Rightarrow> server_env \<Rightarrow> 'c \<Rightarrow> data_source
   \<Rightarrow> config_error + 'c" where
  "register_data_source rg sv ctx source =
     try_res (prepare_location rg sv ctx source) (\<lambda>ctx1.
     try_res (register_table_of rg sv ctx1 source) (\<lambda>ctx2.
     if ds_enable_cache source \<and> ds_type source \<in> {Csv, Parquet, Iceberg}
     then cache_table rg ctx2 (ds_name source)
     else Inr ctx2))"

definition register_data_sources ::
  "('c, 'df, 'b, 'sch, 'tab, 'store) registrars \<Rightarrow> server_env \<Rightarrow> 'c \<Rightarrow> data_source list
   \<Rightarrow> config_error + 'c" where
  "register_data_sources rg sv ctx data_sources = fold_res (register_data_source rg sv) ctx data_sources"

section \<open>The optimizer registry\<close>

text \<open>The datasets by table name, and the functions each source type brings to the session.\<close>

datatype ('ds, 'pg) dataset_entry = LanceEntry 'ds | OtherEntry 'pg

type_synonym ('ds, 'pg) dataset_registry = "string \<rightharpoonup> ('ds, 'pg) dataset_entry"

definition register_lance_dataset ::
  "('ds, 'pg) dataset_registry \<Rightarrow> string \<Rightarrow> 'ds \<Rightarrow> ('ds, 'pg) dataset_registry" where
  "register_lance_dataset reg table_name dataset = reg(table_name \<mapsto> LanceEntry dataset)"

definition get_lance_dataset :: "('ds, 'pg) dataset_registry \<Rightarrow> string \<Rightarrow> 'ds option" where
  "get_lance_dataset reg table_name =
     Option.bind (reg table_name) (\<lambda>e. case e of LanceEntry ds \<Rightarrow> Some ds | _ \<Rightarrow> None)"

definition functions_of_type :: "data_source_type \<Rightarrow> string list" where
  "functions_of_type ty =
     (case ty of
        Lance \<Rightarrow> [''lance_knn'', ''lance_fts'']
      | Postgres \<Rightarrow> [''pg_knn'', ''pg_fts'']
      | Mongo \<Rightarrow> [''mongo_fts'']
      | Sqlite \<Rightarrow> [''sqlite_knn'', ''sqlite_fts'', ''vec_to_binary'']
      | Seekdb \<Rightarrow> [''seekdb_knn'', ''seekdb_fts'']
      | _ \<Rightarrow> [])"

definition register_udfs :: "string list \<Rightarrow> data_source list \<Rightarrow> string list" where
  "register_udfs registered data_sources =
     (let source_types = set (map ds_type data_sources) in
      registered @ concat (map functions_of_type
        (filter (\<lambda>ty. ty \<in> source_types) [Lance, Postgres, Mongo, Sqlite, Seekdb])))"

section \<open>Loading pipelines and jobs\<close>

definition read_file :: "fs \<Rightarrow> string \<Rightarrow> config_error + string" where
  "read_file fs path =
     (case fs path of
        Some (FFile (Inr raw)) \<Rightarrow> Inr raw
      | _ \<Rightarrow> Inl (OtherError (''Failed to read pipeline file: '' @ path)))"

definition extract_pipeline_sql ::
  "(string \<Rightarrow> string + string \<times> string) \<Rightarrow> fs \<Rightarrow> string \<Rightarrow> config_error + string \<times> string" where
  "extract_pipeline_sql parse_minimal fs path =
     try_res (read_file fs path) (\<lambda>content.
     map_err (\<lambda>e. OtherError (''Failed to parse pipeline YAML: '' @ path @ '': '' @ e))
       (parse_minimal content))"

text \<open>Errors of this phase: configuration, validation, or a clash of names.\<close>

datatype startup_error =
  ConfigFailed config_error
| SqlRejected string validation_error
| PipelineFailed string string
| DuplicatePipeline string
| JobCollides string
| DuplicateJob string
| JobFailed string load_error
| SemanticsFailed semantics_error
| AuthFailed string

record 'p pipeline_loader =
  pl_minimal :: "string \<Rightarrow> string + string \<times> string"
  pl_parse_sql :: "string \<Rightarrow> string + statement list"
  pl_load :: "string \<Rightarrow> string + 'p"
  pl_name :: "'p \<Rightarrow> string"
  pl_jobs :: "'p job_loader"

definition check_pipeline_file ::
  "'p pipeline_loader \<Rightarrow> fs \<Rightarrow> data_source list \<Rightarrow> string \<Rightarrow> startup_error + unit" where
  "check_pipeline_file pl fs data_sources path =
     try_res (map_err ConfigFailed (extract_pipeline_sql (pl_minimal pl) fs path)) (\<lambda>(name, sql).
     map_err (\<lambda>(n, e). SqlRejected n e)
       (validate_pipeline_sql (pl_parse_sql pl) name sql data_sources))"

definition load_pipeline_config ::
  "'p pipeline_loader \<Rightarrow> fs \<Rightarrow> string \<Rightarrow> startup_error + 'p" where
  "load_pipeline_config pl fs path =
     (if \<not> path_exists fs path then Inl (ConfigFailed (PipelineFileNotFound path))
      else map_err (\<lambda>e. PipelineFailed path (''Pipeline loading failed: '' @ e)) (pl_load pl path))"

definition add_pipeline ::
  "'p pipeline_loader \<Rightarrow> fs \<Rightarrow> (string \<rightharpoonup> 'p) \<Rightarrow> string \<Rightarrow> startup_error + (string \<rightharpoonup> 'p)" where
  "add_pipeline pl fs pipelines path =
     try_res (load_pipeline_config pl fs path) (\<lambda>p.
     if pipelines (pl_name pl p) \<noteq> None then Inl (DuplicatePipeline (pl_name pl p))
     else Inr (pipelines(pl_name pl p \<mapsto> p)))"

definition add_job ::
  "'p pipeline_loader \<Rightarrow> (string \<rightharpoonup> 'p) \<Rightarrow> (string \<rightharpoonup> 'p job_definition) \<Rightarrow> string
   \<Rightarrow> startup_error + (string \<rightharpoonup> 'p job_definition)" where
  "add_job pl pipelines jobs path =
     (case job_load_from_file (pl_jobs pl) path of
        Inl e \<Rightarrow> Inl (JobFailed path e)
      | Inr None \<Rightarrow> Inr jobs
      | Inr (Some job) \<Rightarrow>
          (let name = pl_name pl (jd_pipeline job) in
           if pipelines name \<noteq> None then Inl (JobCollides name)
           else if jobs name \<noteq> None then Inl (DuplicateJob name)
           else Inr (jobs(name \<mapsto> job))))"

record cli_args =
  arg_pipeline_path :: "string option"
  arg_jobs_path :: "string option"
  arg_jobs_db_path :: "string option"
  arg_ctx_file :: "string option"
  arg_semantics_path :: "string option"

record 'p server_config =
  sc_pipelines :: "string \<rightharpoonup> 'p"
  sc_jobs :: "string \<rightharpoonup> 'p job_definition"
  sc_data_sources :: "data_source list"
  sc_semantics :: registry

text \<open>\<open>Path::parent\<close> of a path: everything before the last separator.\<close>

definition path_parent :: "string \<Rightarrow> string option" where
  "path_parent p =
     (if p = [] \<or> p = ''/'' then None
      else
        (let dir = str_join ''/'' (butlast (str_split (CHR ''/'') p)) in
         Some (if dir = [] \<and> starts_with ''/'' p then ''/'' else dir)))"

text \<open>
  \<open>load_server_config\<close>: \<open>loader ctx\<close> is the pipeline loader over the populated session context,
  \<open>plan_auth\<close> the construction of the planning auth layer and the registration of its tables.
\<close>

definition load_server_config ::
  "('c, 'df, 'b, 'sch, 'tab, 'store) registrars \<Rightarrow> server_env \<Rightarrow> (string \<Rightarrow> string + context_file)
   \<Rightarrow> ('c \<Rightarrow> string + 'c) \<Rightarrow> ('c \<Rightarrow> 'p pipeline_loader) \<Rightarrow> yaml_semantics \<Rightarrow> 'c \<Rightarrow> cli_args
   \<Rightarrow> startup_error + 'p server_config" where
  "load_server_config rg sv parse_ctx plan_auth loader yaml ctx0 args =
     try_res (case arg_ctx_file args of
         Some f \<Rightarrow> map_err ConfigFailed (load_context_config parse_ctx (sv_utf8 sv) (sv_fs sv) f)
       | None \<Rightarrow> Inr []) (\<lambda>data_sources.
     try_res (map_err ConfigFailed (register_data_sources rg sv ctx0 data_sources)) (\<lambda>ctx1.
     try_res (map_err AuthFailed 
         (plan_auth (foldl (rg_function rg) ctx1 (register_udfs [] data_sources @ rg_model_functions rg)))) (\<lambda>ctx.
     try_res (map_err ConfigFailed (resolve_pipeline_files (sv_fs sv) (arg_pipeline_path args)))
       (\<lambda>pipeline_files.
     try_res (fold_res (\<lambda>_ f. check_pipeline_file (loader ctx) (sv_fs sv) data_sources f) () pipeline_files)
       (\<lambda>_.
     try_res (fold_res (add_pipeline (loader ctx) (sv_fs sv)) Map.empty pipeline_files) (\<lambda>pipelines.
     try_res (map_err ConfigFailed (resolve_pipeline_files (sv_fs sv) (arg_jobs_path args))) (\<lambda>job_files.
     try_res (fold_res (add_job (loader ctx) pipelines) Map.empty job_files) (\<lambda>jobs.
     try_res (map_err SemanticsFailed (resolve_semantics_source (sv_fs sv)
         (Option.bind (arg_ctx_file args) path_parent) (arg_semantics_path args))) (\<lambda>semantics_path.
     try_res (map_err SemanticsFailed (semantics_build yaml (sv_fs sv) semantics_path
         (map (\<lambda>ds. (ds_name ds, ds_description ds)) data_sources))) (\<lambda>semantics.
     Inr \<lparr>sc_pipelines = pipelines, sc_jobs = jobs, sc_data_sources = data_sources,
          sc_semantics = semantics\<rparr>))))))))))"

section \<open>The jobs part of the application state\<close>

definition resolve_jobs_db_path :: "string option \<Rightarrow> string option \<Rightarrow> string + string" where
  "resolve_jobs_db_path home_dir explicit =
     (case explicit of
        Some p \<Rightarrow> Inr p
      | None \<Rightarrow>
          try_res (ok_or home_dir
            ''Could not locate a home directory; pass --jobs-db explicitly'') (\<lambda>home.
          Inr (path_join (path_join home ''.skardi'') ''jobs.db'')))"

definition source_type_map :: "data_source list \<Rightarrow> string \<rightharpoonup> data_source_type" where
  "source_type_map data_sources = map_of (rev (map (\<lambda>ds. (ds_name ds, ds_type ds)) data_sources))"

definition source_path_map :: "(string \<Rightarrow> bool) \<Rightarrow> data_source list \<Rightarrow> string \<rightharpoonup> string" where
  "source_path_map utf8 data_sources =
     map_of (rev (map (\<lambda>ds. (ds_name ds, ds_path ds))
       (filter (\<lambda>ds. ds_type ds = Lance \<and> utf8 (ds_path ds)) data_sources)))"

section \<open>Properties\<close>

lemma add_pipeline_step:
  "add_pipeline pl fs ps path = Inr ps' \<Longrightarrow>
     \<exists>p. pl_load pl path = Inr p \<and> ps (pl_name pl p) = None \<and> ps' = ps(pl_name pl p \<mapsto> p)"
  by (auto simp: add_pipeline_def load_pipeline_config_def res_simps split: if_split_asm)

lemma add_job_step:
  "add_job pl ps js path = Inr js' \<Longrightarrow> js' = js \<or>
     (\<exists>job. job_load_from_file (pl_jobs pl) path = Inr (Some job) \<and> ps (pl_name pl (jd_pipeline job)) = None
        \<and> js (pl_name pl (jd_pipeline job)) = None \<and> js' = js(pl_name pl (jd_pipeline job) \<mapsto> job))"
  by (auto simp: add_job_def Let_def split: sum.splits option.splits if_split_asm)

lemma add_pipelines_named:
  assumes "fold_res (add_pipeline pl fs) Map.empty files = Inr ps"
  shows "\<forall>n p. ps n = Some p \<longrightarrow> pl_name pl p = n \<and> (\<exists>f \<in> set files. pl_load pl f = Inr p)"
  using assms
  by (rule fold_res_invariant) (auto dest!: add_pipeline_step split: if_split_asm)

lemma add_jobs_disjoint:
  assumes "fold_res (add_job pl ps) Map.empty files = Inr js"
  shows "\<forall>n j. js n = Some j \<longrightarrow> ps n = None \<and> pl_name pl (jd_pipeline j) = n"
  using assms
  by (rule fold_res_invariant) (auto dest!: add_job_step split: if_split_asm)

text \<open>
  A server that starts has a consistent configuration: its data sources passed validation,
  the SQL of every pipeline file parsed and was permitted by their access modes, every pipeline
  and job is stored under its own name, each pipeline was loaded from one of the checked files,
  and no name is both a pipeline and a job.
\<close>

theorem loaded_config_consistent:
  assumes "load_server_config rg sv parse_ctx plan_auth loader yaml ctx0 args = Inr cfg"
  shows "\<exists>ctx files. resolve_pipeline_files (sv_fs sv) (arg_pipeline_path args) = Inr files
     \<and> validate_data_sources (sv_utf8 sv) (sc_data_sources cfg) = Inr ()
     \<and> list_all (\<lambda>f. \<exists>name sql. extract_pipeline_sql (pl_minimal (loader ctx)) (sv_fs sv) f = Inr (name, sql)
          \<and> validate_pipeline_sql (pl_parse_sql (loader ctx)) name sql (sc_data_sources cfg) = Inr ()) files
     \<and> (\<forall>n p. sc_pipelines cfg n = Some p \<longrightarrow>
          pl_name (loader ctx) p = n \<and> (\<exists>f \<in> set files. pl_load (loader ctx) f = Inr p))
     \<and> (\<forall>n j. sc_jobs cfg n = Some j \<longrightarrow>
          sc_pipelines cfg n = None \<and> pl_name (loader ctx) (jd_pipeline j) = n)"
proof -
  obtain dss ctx1 ctx files u ps job_files js spath sem where *:
    "(case arg_ctx_file args of
       Some f \<Rightarrow> map_err ConfigFailed (load_context_config parse_ctx (sv_utf8 sv) (sv_fs sv) f)
     | None \<Rightarrow> Inr []) = Inr dss"
    "resolve_pipeline_files (sv_fs sv) (arg_pipeline_path args) = Inr files"
    "fold_res (\<lambda>_ f. check_pipeline_file (loader ctx) (sv_fs sv) dss f) () files = Inr u"
    "fold_res (add_pipeline (loader ctx) (sv_fs sv)) Map.empty files = Inr ps"
    "fold_res (add_job (loader ctx) ps) Map.empty job_files = Inr js"
    "\<lparr>sc_pipelines = ps, sc_jobs = js, sc_data_sources = dss, sc_semantics = sem\<rparr> = cfg"
    using assms unfolding load_server_config_def try_res_Inr_iff map_err_Inr_iff sum.inject
    by (elim exE conjE) (rule that, assumption+)
  have cfg: "sc_pipelines cfg = ps" "sc_jobs cfg = js" "sc_data_sources cfg = dss"
    using *(6) by auto
  have valid: "validate_data_sources (sv_utf8 sv) dss = Inr ()"
  proof (cases "arg_ctx_file args")
    case None
    with *(1) show ?thesis by (simp add: validate_data_sources_def)
  next
    case (Some f)
    with *(1) show ?thesis by (auto simp: load_context_config_def res_simps split: if_split_asm)
  qed
  have checked: "list_all (\<lambda>f. \<exists>name sql.
      extract_pipeline_sql (pl_minimal (loader ctx)) (sv_fs sv) f = Inr (name, sql)
      \<and> validate_pipeline_sql (pl_parse_sql (loader ctx)) name sql dss = Inr ()) files"
    using *(3) unfolding fold_res_unit
    by (simp add: fold_res_unit) (erule list.pred_mono_strong, auto simp: check_pipeline_file_def res_simps)
  show ?thesis
    unfolding cfg
    using *(2) valid checked add_pipelines_named [OF *(4)] add_jobs_disjoint [OF *(5)] by blast
qed

text \<open>A deployment with one pipeline file and no context.\<close>

definition demo_registrars :: "(unit, unit, unit, unit, unit, unit) registrars" where
  "demo_registrars = \<lparr>rg_csv = (\<lambda>c _ _ _. Inr c), rg_parquet = (\<lambda>c _ _. Inr c),
     rg_provider = (\<lambda>_ c _ _ _ _ _. Inr c), rg_lance_exists = (\<lambda>_. True),
     rg_documents_feature = False, rg_sql = (\<lambda>_ _. Inr ()), rg_collect = (\<lambda>_. Inr []),
     rg_df_schema = (\<lambda>_. ()), rg_batch_schema = (\<lambda>_. ()), rg_deregister = (\<lambda>c _. Inr c),
     rg_mem_table = (\<lambda>_ _. Inr ()), rg_register_table = (\<lambda>c _ _. Inr c),
     rg_s3 = \<lparr>s3_host = (\<lambda>_. Inr None), s3_url_path = id, s3_build = (\<lambda>_. Inr ()),
       s3_head = (\<lambda>_ _. HeadOk), s3_register = (\<lambda>c _ _. c)\<rparr>,
     rg_function = (\<lambda>c _. c), rg_model_functions = [''chunk'']\<rparr>"

definition demo_sv :: server_env where
  "demo_sv = \<lparr>sv_fs = [''p.yaml'' \<mapsto> FFile (Inr ''SELECT 1'')], sv_utf8 = (\<lambda>_. True), sv_env = Map.empty\<rparr>"

definition demo_loader :: "string pipeline_loader" where
  "demo_loader = \<lparr>pl_minimal = (\<lambda>c. Inr (''p'', c)), pl_parse_sql = (\<lambda>_. Inr [OtherStatement]),
     pl_load = (\<lambda>path. Inr path), pl_name = (\<lambda>_. ''p''),
     pl_jobs = \<lparr>ld_read = (\<lambda>_. Inl []), ld_yaml = (\<lambda>_. Inl []), ld_kind = (\<lambda>_. Inl []),
       ld_destination = (\<lambda>_. Inl []), ld_execution = (\<lambda>_. Inl []), ld_pipeline = (\<lambda>_. Inl [])\<rparr>\<rparr>"

definition demo_yaml_semantics :: yaml_semantics where
  "demo_yaml_semantics = \<lparr>yaml_peek_kind = (\<lambda>_. Inl []), yaml_parse_file = (\<lambda>_. Inl [])\<rparr>"

definition demo_args :: cli_args where
  "demo_args = \<lparr>arg_pipeline_path = Some ''p.yaml'', arg_jobs_path = None, arg_jobs_db_path = None,
     arg_ctx_file = None, arg_semantics_path = None\<rparr>"

theorem loaded_config_consistent_witness:
  "\<exists>cfg. load_server_config demo_registrars demo_sv (\<lambda>_. Inl []) Inr (\<lambda>_. demo_loader)
     demo_yaml_semantics () demo_args = Inr cfg
     \<and> sc_pipelines cfg ''p'' = Some ''p.yaml'' \<and> sc_jobs cfg ''p'' = None"
proof -
  obtain cfg where c: "load_server_config demo_registrars demo_sv (\<lambda>_. Inl []) Inr (\<lambda>_. demo_loader)
      demo_yaml_semantics () demo_args = Inr cfg"
    "sc_pipelines cfg ''p'' = Some ''p.yaml''"
    by (simp add: load_server_config_def demo_args_def demo_sv_def demo_loader_def
        register_data_sources_def resolve_pipeline_files_def path_exists_def check_pipeline_file_def
        extract_pipeline_sql_def read_file_def validate_pipeline_sql_def validate_sql_def
        add_pipeline_def load_pipeline_config_def resolve_semantics_source_def semantics_build_def)
  from loaded_config_consistent [OF c(1)] c(2) have "sc_jobs cfg ''p'' = None"
    by (metis not_None_eq)
  with c show ?thesis by blast
qed

text \<open>The functions a session gets are those of the types of its data sources.\<close>

lemma functions_of_type_none:
  "ty \<notin> {Lance, Postgres, Mongo, Sqlite, Seekdb} \<Longrightarrow> functions_of_type ty = []"
  by (cases ty) (simp_all add: functions_of_type_def)

lemma UN_restrict:
  "(\<And>x. x \<notin> T \<Longrightarrow> F x = {}) \<Longrightarrow> (\<Union>x \<in> {x \<in> T. x \<in> A}. F x) = (\<Union>x \<in> A. F x)"
  by blast

lemma register_udfs_set:
  "set (register_udfs [] dss) = (\<Union>ty \<in> ds_type ` set dss. set (functions_of_type ty))"
proof -
  define T where "T = {Lance, Postgres, Mongo, Sqlite, Seekdb}"
  have "set (register_udfs [] dss) = (\<Union>ty \<in> {ty \<in> T. ty \<in> ds_type ` set dss}. set (functions_of_type ty))"
    unfolding T_def
    by (simp only: register_udfs_def Let_def append_Nil set_concat set_map set_filter image_image list.set)
  also have "\<dots> = (\<Union>ty \<in> ds_type ` set dss. set (functions_of_type ty))"
    by (rule UN_restrict) (simp add: T_def functions_of_type_none)
  finally show ?thesis .
qed

end
