(* ===== verification/Job_Store.thy ===== *)
theory Job_Store
  imports Data_Sources
begin

text \<open>
  The run ledger of \<^verbatim>\<open>crates/skardi/src/jobs/store.rs\<close>: run statuses, the \<open>JobRun\<close> row, and
  the five operations of the \<open>JobStore\<close> trait as the SQLite backend implements them. The
  database is the table \<open>job_runs\<close>, a list of rows in insertion order; each SQL statement of
  the source is the list function it denotes. Every operation takes the I/O fault of this call,
  if any: a failing SQLite statement changes nothing. The locale \<open>run_ledger\<close> is the trait's
  contract, and the end of the theory shows that the SQLite backend satisfies it.
\<close>

section \<open>Statuses\<close>

datatype job_run_status = Pending | Running | Succeeded | RunFailed | Cancelled

fun status_as_str :: "job_run_status \<Rightarrow> string" where
  "status_as_str Pending = ''pending''"
| "status_as_str Running = ''running''"
| "status_as_str Succeeded = ''succeeded''"
| "status_as_str RunFailed = ''failed''"
| "status_as_str Cancelled = ''cancelled''"

definition status_from_str :: "string \<Rightarrow> string + job_run_status" where
  "status_from_str s =
     (if s = ''pending'' then Inr Pending
      else if s = ''running'' then Inr Running
      else if s = ''succeeded'' then Inr Succeeded
      else if s = ''failed'' then Inr RunFailed
      else if s = ''cancelled'' then Inr Cancelled
      else Inl (''unknown job status: '' @ s))"

definition is_terminal :: "job_run_status \<Rightarrow> bool" where
  "is_terminal s = (case s of Succeeded \<Rightarrow> True | RunFailed \<Rightarrow> True | Cancelled \<Rightarrow> True | _ \<Rightarrow> False)"

lemma is_terminal_simps [simp]:
  "\<not> is_terminal Pending" "\<not> is_terminal Running"
  "is_terminal Succeeded" "is_terminal RunFailed" "is_terminal Cancelled"
  by (simp_all add: is_terminal_def)

lemma status_roundtrip [simp]: "status_from_str (status_as_str s) = Inr s"
  by (cases s) (simp_all add: status_from_str_def)

lemma status_from_str_Inr: "status_from_str t = Inr s \<longleftrightarrow> t = status_as_str s"
  by (cases s) (auto simp: status_from_str_def split: if_splits)

section \<open>Rows\<close>

record job_run =
  jr_id :: string
  jr_job_name :: string
  jr_parameters :: string
  jr_status :: job_run_status
  jr_created_at :: string
  jr_started_at :: "string option"
  jr_finished_at :: "string option"
  jr_rows_written :: "64 word option"
  jr_snapshot_id :: "string option"
  jr_error :: "string option"

text \<open>A stored row: the status is text and \<open>rows_written\<close> a signed 64-bit SQLite integer.\<close>

record db_row =
  db_id :: string
  db_job_name :: string
  db_parameters :: string
  db_status :: string
  db_created_at :: string
  db_started_at :: "string option"
  db_finished_at :: "string option"
  db_rows_written :: "int option"
  db_snapshot_id :: "string option"
  db_error :: "string option"

type_synonym ledger_db = "db_row list"

definition as_i64 :: "64 word \<Rightarrow> int" where
  "as_i64 v = sint v"

definition as_u64 :: "int \<Rightarrow> 64 word" where
  "as_u64 v = word_of_int v"

lemma as_u64_as_i64 [simp]: "as_u64 (as_i64 v) = v"
  by (simp add: as_u64_def as_i64_def)

lemma option_u64_i64 [simp]: "map_option as_u64 (map_option as_i64 v) = v"
  by (cases v) simp_all

definition row_to_job_run :: "db_row \<Rightarrow> string + job_run" where
  "row_to_job_run row =
     try_res (status_from_str (db_status row)) (\<lambda>status.
       Inr \<lparr>jr_id = db_id row, jr_job_name = db_job_name row, jr_parameters = db_parameters row,
            jr_status = status, jr_created_at = db_created_at row,
            jr_started_at = db_started_at row, jr_finished_at = db_finished_at row,
            jr_rows_written = map_option as_u64 (db_rows_written row),
            jr_snapshot_id = db_snapshot_id row, jr_error = db_error row\<rparr>)"

text \<open>The bound parameters of the INSERT of \<open>create_run\<close>.\<close>

definition row_of_run :: "job_run \<Rightarrow> db_row" where
  "row_of_run run =
     \<lparr>db_id = jr_id run, db_job_name = jr_job_name run, db_parameters = jr_parameters run,
      db_status = status_as_str (jr_status run), db_created_at = jr_created_at run,
      db_started_at = jr_started_at run, db_finished_at = jr_finished_at run,
      db_rows_written = map_option as_i64 (jr_rows_written run),
      db_snapshot_id = jr_snapshot_id run, db_error = jr_error run\<rparr>"

lemma row_roundtrip [simp]: "row_to_job_run (row_of_run run) = Inr run"
  by (simp add: row_to_job_run_def row_of_run_def)

section \<open>The operations\<close>

definition faulty :: "string option \<Rightarrow> string \<Rightarrow> string + 'a \<Rightarrow> string + 'a" where
  "faulty fault op r = (case fault of Some e \<Rightarrow> Inl (op @ '' failed: '' @ e)
                        | None \<Rightarrow> map_err (\<lambda>e. op @ '' failed: '' @ e) r)"

definition create_run :: "string option \<Rightarrow> ledger_db \<Rightarrow> job_run \<Rightarrow> string + ledger_db" where
  "create_run fault db run =
     faulty fault ''create_run''
       (if jr_id run \<in> set (map db_id db) then Inl ''UNIQUE constraint failed: job_runs.id''
        else Inr (db @ [row_of_run run]))"

definition get_run :: "string option \<Rightarrow> ledger_db \<Rightarrow> string \<Rightarrow> string + job_run option" where
  "get_run fault db run_id =
     faulty fault ''get_run''
       (case filter (\<lambda>row. db_id row = run_id) db of
          row # _ \<Rightarrow> try_res (row_to_job_run row) (\<lambda>run. Inr (Some run))
        | [] \<Rightarrow> Inr None)"

text \<open>
  \<open>ORDER BY created_at DESC LIMIT n\<close>: rows with equal timestamps come in the order in which the
  engine scans them, which SQL leaves open (\<open>scan\<close>); a negative limit means no limit.
\<close>

definition sql_limit :: "int \<Rightarrow> 'a list \<Rightarrow> 'a list" where
  "sql_limit n xs = (if n < 0 then xs else take (nat n) xs)"

definition order_desc :: "db_row list \<Rightarrow> db_row list" where
  "order_desc rows = rev (sort_key db_created_at (rev rows))"

definition list_runs ::
  "string option \<Rightarrow> (db_row list \<Rightarrow> db_row list) \<Rightarrow> ledger_db \<Rightarrow> string option \<Rightarrow> 64 word
   \<Rightarrow> string + job_run list" where
  "list_runs fault scan db job_name limit =
     faulty fault ''list_runs''
       (let limit_i64 = as_i64 limit;
            rows = (case job_name of
                      Some name \<Rightarrow> filter (\<lambda>row. db_job_name row = name) (scan db)
                    | None \<Rightarrow> scan db)
        in collect_res (map row_to_job_run (sql_limit limit_i64 (order_desc rows))))"

definition coalesce :: "'a option \<Rightarrow> 'a option \<Rightarrow> 'a option" where
  "coalesce new old = (case new of Some x \<Rightarrow> Some x | None \<Rightarrow> old)"

record status_update =
  su_status :: job_run_status
  su_started_at :: "string option"
  su_finished_at :: "string option"
  su_rows_written :: "64 word option"
  su_snapshot_id :: "string option"
  su_error :: "string option"

definition update_row :: "status_update \<Rightarrow> db_row \<Rightarrow> db_row" where
  "update_row u row =
     row\<lparr>db_status := status_as_str (su_status u),
         db_started_at := coalesce (su_started_at u) (db_started_at row),
         db_finished_at := coalesce (su_finished_at u) (db_finished_at row),
         db_rows_written := coalesce (map_option as_i64 (su_rows_written u)) (db_rows_written row),
         db_snapshot_id := coalesce (su_snapshot_id u) (db_snapshot_id row),
         db_error := coalesce (su_error u) (db_error row)\<rparr>"

definition update_status ::
  "string option \<Rightarrow> ledger_db \<Rightarrow> string \<Rightarrow> status_update \<Rightarrow> string + ledger_db" where
  "update_status fault db run_id u =
     faulty fault ''update_status''
       (Inr (map (\<lambda>row. if db_id row = run_id then update_row u row else row) db))"

definition row_orphaned :: "db_row \<Rightarrow> bool" where
  "row_orphaned row \<longleftrightarrow> db_status row \<in> {''pending'', ''running''}"

definition reconcile_orphaned ::
  "string option \<Rightarrow> string \<Rightarrow> ledger_db \<Rightarrow> string \<Rightarrow> string + ledger_db \<times> nat" where
  "reconcile_orphaned fault now db reason =
     faulty fault ''reconcile_orphaned''
       (Inr (map (\<lambda>row. if row_orphaned row
                        then row\<lparr>db_status := ''failed'', db_finished_at := Some now,
                                 db_error := Some reason\<rparr>
                        else row) db,
             length (filter row_orphaned db)))"

lemma faulty_simps [simp]:
  "faulty None op (Inr x) = Inr x" "faulty (Some e) op r = Inl (op @ '' failed: '' @ e)"
  "faulty None op (Inl e) = Inl (op @ '' failed: '' @ e)"
  by (simp_all add: faulty_def)


section \<open>The contract of the ledger\<close>

text \<open>The effect of an update on a run: \<open>COALESCE\<close> keeps what the update does not give.\<close>

definition apply_update :: "status_update \<Rightarrow> job_run \<Rightarrow> job_run" where
  "apply_update u r =
     r\<lparr>jr_status := su_status u,
       jr_started_at := coalesce (su_started_at u) (jr_started_at r),
       jr_finished_at := coalesce (su_finished_at u) (jr_finished_at r),
       jr_rows_written := coalesce (su_rows_written u) (jr_rows_written r),
       jr_snapshot_id := coalesce (su_snapshot_id u) (jr_snapshot_id r),
       jr_error := coalesce (su_error u) (jr_error r)\<rparr>"

definition orphan_failed :: "string \<Rightarrow> string \<Rightarrow> job_run \<Rightarrow> job_run" where
  "orphan_failed now reason r =
     (if is_terminal (jr_status r) then r
      else r\<lparr>jr_status := RunFailed, jr_finished_at := Some now, jr_error := Some reason\<rparr>)"

lemma orphan_failed_terminal: "is_terminal (jr_status (orphan_failed now reason r))"
  by (simp add: orphan_failed_def)

text \<open>
  What a \<open>JobStore\<close> promises when no fault occurs, over the map from run ids to runs that the
  database represents.
\<close>

locale run_ledger =
  fixes runs :: "'db \<Rightarrow> string \<rightharpoonup> job_run"
    and invar :: "'db \<Rightarrow> bool"
    and create :: "'db \<Rightarrow> job_run \<Rightarrow> string + 'db"
    and lookup :: "'db \<Rightarrow> string \<Rightarrow> string + job_run option"
    and update :: "'db \<Rightarrow> string \<Rightarrow> status_update \<Rightarrow> string + 'db"
    and reconcile :: "string \<Rightarrow> 'db \<Rightarrow> string \<Rightarrow> string + 'db \<times> nat"
  assumes create_fresh: "invar db \<Longrightarrow> runs db (jr_id r) = None \<Longrightarrow>
      \<exists>db'. create db r = Inr db' \<and> invar db' \<and> runs db' = (runs db)(jr_id r \<mapsto> r)"
    and create_taken: "invar db \<Longrightarrow> runs db (jr_id r) \<noteq> None \<Longrightarrow> \<not> is_ok (create db r)"
    and lookup_spec: "invar db \<Longrightarrow> lookup db i = Inr (runs db i)"
    and update_spec: "invar db \<Longrightarrow> \<exists>db'. update db i u = Inr db' \<and> invar db' \<and>
      runs db' = (case runs db i of None \<Rightarrow> runs db | Some r \<Rightarrow> (runs db)(i \<mapsto> apply_update u r))"
    and reconcile_spec: "invar db \<Longrightarrow> \<exists>db' n. reconcile now db reason = Inr (db', n) \<and> invar db' \<and>
      runs db' = (\<lambda>i. map_option (orphan_failed now reason) (runs db i))"
begin

lemma update_at:
  assumes "invar db" "update db i u = Inr db'" "runs db i = Some r"
  shows "invar db'" "runs db' = (runs db)(i \<mapsto> apply_update u r)"
  using update_spec [OF assms(1), of i u] assms(2,3) by auto

lemma update_frame:
  assumes "invar db" "update db i u = Inr db'" "j \<noteq> i"
  shows "runs db' j = runs db j"
  using update_spec [OF assms(1), of i u] assms(2,3) by (auto split: option.splits)

lemma create_at:
  assumes "invar db" "create db r = Inr db'"
  shows "invar db'" "runs db' = (runs db)(jr_id r \<mapsto> r)" "runs db (jr_id r) = None"
proof -
  show fresh: "runs db (jr_id r) = None"
  proof (rule ccontr)
    assume "runs db (jr_id r) \<noteq> None"
    from create_taken [OF assms(1) this] assms(2) show False by simp
  qed
  from create_fresh [OF assms(1) fresh] assms(2)
  show "invar db'" "runs db' = (runs db)(jr_id r \<mapsto> r)" by auto
qed

text \<open>A run's life: created, marked running, then brought to its final state, and read after each.\<close>

lemma lifecycle:
  assumes "invar db" "runs db (jr_id r) = None"
  shows "\<exists>db1 db2 db3. create db r = Inr db1 \<and> update db1 (jr_id r) u1 = Inr db2
     \<and> update db2 (jr_id r) u2 = Inr db3
     \<and> lookup db1 (jr_id r) = Inr (Some r)
     \<and> lookup db2 (jr_id r) = Inr (Some (apply_update u1 r))
     \<and> lookup db3 (jr_id r) = Inr (Some (apply_update u2 (apply_update u1 r)))
     \<and> (\<forall>j. j \<noteq> jr_id r \<longrightarrow> lookup db1 j = lookup db j \<and> lookup db2 j = lookup db j \<and> lookup db3 j = lookup db j)"
proof -
  obtain db1 where 1: "create db r = Inr db1" "invar db1" "runs db1 = (runs db)(jr_id r \<mapsto> r)"
    using create_fresh [OF assms] by blast
  obtain db2 where 2: "update db1 (jr_id r) u1 = Inr db2" "invar db2"
      "runs db2 = (runs db1)(jr_id r \<mapsto> apply_update u1 r)"
    using update_spec [OF 1(2), of "jr_id r" u1] 1(3) by auto
  obtain db3 where 3: "update db2 (jr_id r) u2 = Inr db3" "invar db3"
      "runs db3 = (runs db2)(jr_id r \<mapsto> apply_update u2 (apply_update u1 r))"
    using update_spec [OF 2(2), of "jr_id r" u2] 2(3) by auto
  have "lookup db j = Inr (runs db j)" "lookup db1 j = Inr (runs db1 j)" "lookup db2 j = Inr (runs db2 j)"
    "lookup db3 j = Inr (runs db3 j)" for j
    by (rule lookup_spec [OF assms(1)] lookup_spec [OF 1(2)] lookup_spec [OF 2(2)] lookup_spec [OF 3(2)])+
  then show ?thesis using 1(1,3) 2(1,3) 3(1,3) by (intro exI conjI) auto
qed

lemma reconcile_at:
  assumes "invar db" "reconcile now db reason = Inr (db', n)"
  shows "invar db'" "runs db' i = map_option (orphan_failed now reason) (runs db i)"
  using reconcile_spec [OF assms(1), of now reason] assms(2) by auto

lemma reconcile_terminal:
  assumes "invar db" "reconcile now db reason = Inr (db', n)" "runs db' i = Some r"
  shows "is_terminal (jr_status r)"
proof -
  have "map_option (orphan_failed now reason) (runs db i) = Some r"
    using reconcile_at(2) [OF assms(1,2), of i] assms(3) by simp
  then show ?thesis by (auto simp: orphan_failed_terminal)
qed

end

section \<open>The SQLite backend satisfies it\<close>

definition ledger_runs :: "ledger_db \<Rightarrow> string \<rightharpoonup> job_run" where
  "ledger_runs db = map_of (map (\<lambda>row. (db_id row, projr (row_to_job_run row))) db)"

text \<open>Ids are unique and every row is the image of a run (valid status, 64-bit integers).\<close>

definition ledger_invar :: "ledger_db \<Rightarrow> bool" where
  "ledger_invar db \<longleftrightarrow> distinct (map db_id db) \<and> (\<forall>row \<in> set db. row \<in> range row_of_run)"

lemma ledger_invarD:
  "ledger_invar db \<Longrightarrow> row \<in> set db \<Longrightarrow> row = row_of_run (projr (row_to_job_run row))"
  unfolding ledger_invar_def by fastforce

lemma row_of_run_id [simp]: "db_id (row_of_run r) = jr_id r"
  by (simp add: row_of_run_def)

lemma update_row_of_run: "update_row u (row_of_run r) = row_of_run (apply_update u r)"
  by (simp add: update_row_def row_of_run_def apply_update_def coalesce_def split: option.split)

lemma orphan_row_of_run:
  "(if row_orphaned (row_of_run r)
    then (row_of_run r)\<lparr>db_status := ''failed'', db_finished_at := Some now, db_error := Some reason\<rparr>
    else row_of_run r) = row_of_run (orphan_failed now reason r)"
  by (cases "jr_status r") (simp_all add: row_orphaned_def row_of_run_def orphan_failed_def)

lemma ledger_invar_ex: "ledger_invar db \<longleftrightarrow> (\<exists>rs. db = map row_of_run rs \<and> distinct (map jr_id rs))"
proof
  assume i: "ledger_invar db"
  have "map row_of_run (map (\<lambda>row. projr (row_to_job_run row)) db) = db"
    by (simp add: map_idI ledger_invarD [OF i, symmetric])
  moreover from this have "distinct (map jr_id (map (\<lambda>row. projr (row_to_job_run row)) db))"
    using i by (simp add: ledger_invar_def)
      (metis (no_types, lifting) comp_apply ledger_invarD [OF i] map_eq_conv row_of_run_id)
  ultimately show "\<exists>rs. db = map row_of_run rs \<and> distinct (map jr_id rs)" by metis
next
  assume "\<exists>rs. db = map row_of_run rs \<and> distinct (map jr_id rs)"
  then show "ledger_invar db" by (auto simp: ledger_invar_def o_def)
qed

lemma ledger_runs_map [simp]: "ledger_runs (map row_of_run rs) = map_of (map (\<lambda>r. (jr_id r, r)) rs)"
  by (simp add: ledger_runs_def o_def)

lemma map_of_runs_map:
  assumes "\<And>r. jr_id (f r) = jr_id r"
  shows "map_of (map (\<lambda>r. (jr_id r, f r)) rs) i = map_option f (map_of (map (\<lambda>r. (jr_id r, r)) rs) i)"
  by (induction rs) auto

lemma ledger_runs_map_map:
  assumes "\<And>r. jr_id (f r) = jr_id r"
  shows "ledger_runs (map row_of_run (map f rs)) i = map_option f (ledger_runs (map row_of_run rs) i)"
proof -
  have "ledger_runs (map row_of_run (map f rs)) = map_of (map (\<lambda>r. (jr_id r, f r)) rs)"
    unfolding ledger_runs_map by (simp add: o_def assms)
  then show ?thesis by (simp add: map_of_runs_map [OF assms])
qed

interpretation sqlite_ledger: run_ledger ledger_runs ledger_invar
  "create_run None" "get_run None" "update_status None" "reconcile_orphaned None"
proof (unfold_locales, goal_cases)
  case (1 db r)
  then obtain rs where rs: "db = map row_of_run rs" "distinct (map jr_id rs)"
    by (auto simp: ledger_invar_ex)
  with 1(2) have fresh: "jr_id r \<notin> set (map jr_id rs)" by (auto simp: map_of_eq_None_iff image_iff)
  have "ledger_invar (db @ [row_of_run r])"
    unfolding ledger_invar_ex using rs fresh by (intro exI [of _ "rs @ [r]"]) simp
  moreover have "ledger_runs (db @ [row_of_run r]) = (ledger_runs db)(jr_id r \<mapsto> r)"
  proof -
    have "map_of (map (\<lambda>r. (jr_id r, r)) rs) (jr_id r) = None"
      using 1(2) rs(1) by simp
    then have "map_of (map (\<lambda>r. (jr_id r, r)) (rs @ [r])) i =
        ((map_of (map (\<lambda>r. (jr_id r, r)) rs))(jr_id r \<mapsto> r)) i" for i
      by (cases "map_of (map (\<lambda>r. (jr_id r, r)) rs) i") (auto simp: map_add_def)
    then have "ledger_runs (map row_of_run (rs @ [r])) = (ledger_runs db)(jr_id r \<mapsto> r)"
      unfolding rs(1) ledger_runs_map by (intro ext)
    then show ?thesis using rs(1) by simp
  qed
  ultimately show ?case using fresh rs by (auto simp: create_run_def)
next
  case (2 db r)
  then obtain rs where "db = map row_of_run rs" by (auto simp: ledger_invar_ex)
  with 2(2) show ?case
    by (auto simp: create_run_def dest!: map_of_SomeD)
next
  case (3 db i)
  then obtain rs where rs: "db = map row_of_run rs" by (auto simp: ledger_invar_ex)
  have "get_run None (map row_of_run rs) i = Inr (map_of (map (\<lambda>r. (jr_id r, r)) rs) i)"
    by (induction rs) (auto simp: get_run_def)
  with rs show ?case by simp
next
  case (4 db i u)
  then obtain rs where rs: "db = map row_of_run rs" "distinct (map jr_id rs)"
    by (auto simp: ledger_invar_ex)
  let ?f = "\<lambda>r. if jr_id r = i then apply_update u r else r"
  have id: "jr_id (?f r) = jr_id r" for r by (simp add: apply_update_def)
  have upd: "update_status None db i u = Inr (map row_of_run (map ?f rs))"
    using rs by (simp add: update_status_def update_row_of_run)
  moreover have "ledger_invar (map row_of_run (map ?f rs))"
    unfolding ledger_invar_ex using rs(2) id by (intro exI [of _ "map ?f rs"]) (simp add: o_def)
  moreover have "ledger_runs (map row_of_run (map ?f rs)) j =
      (case ledger_runs db i of None \<Rightarrow> ledger_runs db
       | Some r \<Rightarrow> (ledger_runs db)(i \<mapsto> apply_update u r)) j" for j
  proof -
    have "ledger_runs (map row_of_run (map ?f rs)) j = map_option ?f (ledger_runs db j)"
      unfolding rs(1) by (rule ledger_runs_map_map) (rule id)
    moreover have "jr_id r = j" if "ledger_runs db j = Some r" for r
      using that rs by (auto dest!: map_of_SomeD)
    ultimately show ?thesis
      by (cases "ledger_runs db j"; cases "j = i") (auto split: option.split)
  qed
  ultimately show ?case
    by (intro exI [of _ "map row_of_run (map ?f rs)"] conjI ext)
next
  case (5 db now reason)
  then obtain rs where rs: "db = map row_of_run rs" "distinct (map jr_id rs)"
    by (auto simp: ledger_invar_ex)
  let ?f = "orphan_failed now reason"
  have id: "jr_id (?f r) = jr_id r" for r by (simp add: orphan_failed_def)
  have "reconcile_orphaned None now db reason =
      Inr (map row_of_run (map ?f rs), length (filter row_orphaned db))"
    using rs by (simp add: reconcile_orphaned_def orphan_row_of_run o_def)
  moreover have "ledger_invar (map row_of_run (map ?f rs))"
    unfolding ledger_invar_ex using rs(2) id by (intro exI [of _ "map ?f rs"]) (simp add: o_def)
  moreover have "ledger_runs (map row_of_run (map ?f rs)) = (\<lambda>i. map_option ?f (ledger_runs db i))"
    unfolding rs(1) by (rule ext) (rule ledger_runs_map_map, rule id)
  ultimately show ?case by blast
qed


section \<open>Properties of the ledger\<close>

text \<open>
  C3. A run's record survives the database: a run created with a fresh id is read back as it
  was created, whatever its fields; after each of two updates it is read back with exactly the
  fields the update gives replaced; and every other run reads as before throughout.
\<close>

theorem ledger_lifecycle:
  assumes "ledger_invar db" and "ledger_runs db (jr_id r) = None"
  shows "\<exists>db1 db2 db3. create_run None db r = Inr db1
     \<and> update_status None db1 (jr_id r) u1 = Inr db2
     \<and> update_status None db2 (jr_id r) u2 = Inr db3
     \<and> get_run None db1 (jr_id r) = Inr (Some r)
     \<and> get_run None db2 (jr_id r) = Inr (Some (apply_update u1 r))
     \<and> get_run None db3 (jr_id r) = Inr (Some (apply_update u2 (apply_update u1 r)))
     \<and> (\<forall>j. j \<noteq> jr_id r \<longrightarrow> get_run None db1 j = get_run None db j
          \<and> get_run None db2 j = get_run None db j \<and> get_run None db3 j = get_run None db j)"
  by (rule sqlite_ledger.lifecycle [OF assms])

definition demo_run :: job_run where
  "demo_run = \<lparr>jr_id = ''r1'', jr_job_name = ''nightly'', jr_parameters = ''{}'',
     jr_status = Pending, jr_created_at = ''t0'', jr_started_at = None, jr_finished_at = None,
     jr_rows_written = None, jr_snapshot_id = None, jr_error = None\<rparr>"

definition demo_done :: status_update where
  "demo_done = \<lparr>su_status = Succeeded, su_started_at = None, su_finished_at = Some ''t2'',
     su_rows_written = Some (-1), su_snapshot_id = None, su_error = None\<rparr>"

theorem ledger_lifecycle_witness:
  "\<exists>db1 db2 db3. create_run None [] demo_run = Inr db1
     \<and> update_status None db1 ''r1'' demo_done = Inr db2
     \<and> update_status None db2 ''r1'' demo_done = Inr db3
     \<and> get_run None db1 ''r1'' = Inr (Some demo_run)
     \<and> get_run None db3 ''r1'' =
         Inr (Some (demo_run\<lparr>jr_status := Succeeded, jr_finished_at := Some ''t2'',
                            jr_rows_written := Some (-1)\<rparr>))"
proof -
  have "ledger_invar []" "ledger_runs [] (jr_id demo_run) = None"
    by (simp_all add: ledger_invar_def ledger_runs_def)
  from ledger_lifecycle [OF this, of demo_done demo_done] show ?thesis
    by (auto simp: demo_run_def demo_done_def apply_update_def coalesce_def)
qed

text \<open>
  Crash recovery: after \<open>reconcile_orphaned\<close> no run is left pending or running; the runs
  that were terminal are unchanged, the others are failed with the given reason, and the
  reported number is the number of the rows that were rewritten.
\<close>

theorem reconcile_orphaned_spec:
  assumes "ledger_invar db" and "reconcile_orphaned None now db reason = Inr (db', n)"
  shows "ledger_invar db'
    \<and> (\<forall>i r. ledger_runs db' i = Some r \<longrightarrow> is_terminal (jr_status r))
    \<and> (\<forall>i. ledger_runs db' i = map_option (orphan_failed now reason) (ledger_runs db i))
    \<and> n = length (filter (\<lambda>i. \<not> is_terminal (jr_status (the (ledger_runs db i)))) (map db_id db))"
proof -
  obtain rs where rs: "db = map row_of_run rs" "distinct (map jr_id rs)"
    using assms(1) by (auto simp: ledger_invar_ex)
  have orph: "row_orphaned (row_of_run r) \<longleftrightarrow> \<not> is_terminal (jr_status r)" for r
    by (cases "jr_status r") (simp_all add: row_orphaned_def row_of_run_def)
  have "map_of (map (\<lambda>r. (jr_id r, r)) rs) (jr_id r) = Some r" if "r \<in> set rs" for r
    using rs(2) that by (intro map_of_is_SomeI) (simp_all add: o_def)
  then have "filter (\<lambda>r. \<not> is_terminal (jr_status (the (ledger_runs db (jr_id r))))) rs
      = filter (\<lambda>r. \<not> is_terminal (jr_status r)) rs"
    unfolding rs(1) ledger_runs_map by (intro filter_cong) simp_all
  then have "n = length (filter (\<lambda>i. \<not> is_terminal (jr_status (the (ledger_runs db i)))) (map db_id db))"
    using assms(2) by (simp add: rs(1) reconcile_orphaned_def filter_map o_def orph
        del: ledger_runs_map)
  then show ?thesis
    using sqlite_ledger.reconcile_at [OF assms] sqlite_ledger.reconcile_terminal [OF assms] by blast
qed

theorem reconcile_orphaned_spec_witness:
  "\<exists>db'. reconcile_orphaned None ''now'' [row_of_run demo_run] ''restart'' = Inr (db', 1)
     \<and> (\<forall>i r. ledger_runs db' i = Some r \<longrightarrow> is_terminal (jr_status r))"
proof -
  have inv: "ledger_invar [row_of_run demo_run]" by (simp add: ledger_invar_def)
  obtain db' where r:
    "reconcile_orphaned None ''now'' [row_of_run demo_run] ''restart'' = Inr (db', 1)"
    by (simp add: reconcile_orphaned_def row_orphaned_def demo_run_def row_of_run_def)
  with reconcile_orphaned_spec [OF inv r] show ?thesis by blast
qed

text \<open>\<open>ORDER BY created_at DESC LIMIT n\<close> on the rows.\<close>

lemma set_order_desc [simp]: "set (order_desc rows) = set rows"
  by (simp add: order_desc_def)

lemma sorted_order_desc: "sorted_wrt (\<lambda>a b. db_created_at b \<le> db_created_at a) (order_desc rows)"
proof -
  have "sorted (map db_created_at (sort_key db_created_at (rev rows)))" by (rule sorted_sort_key)
  then show ?thesis by (simp add: order_desc_def sorted_wrt_rev sorted_wrt_map)
qed

lemma sorted_wrt_take_drop:
  "sorted_wrt R xs \<Longrightarrow> x \<in> set (take n xs) \<Longrightarrow> y \<in> set (drop n xs) \<Longrightarrow> R x y"
  by (metis append_take_drop_id sorted_wrt_append)

lemma collect_rows: "ledger_invar db \<Longrightarrow> set rows \<subseteq> set db \<Longrightarrow>
    collect_res (map row_to_job_run rows) = Inr (map (projr \<circ> row_to_job_run) rows)"
proof (induction rows)
  case (Cons row rows)
  then have "row_to_job_run row = Inr (projr (row_to_job_run row))"
    by (metis ledger_invarD list.set_intros(1) row_roundtrip subsetD sum.sel(2))
  with Cons show ?case by (metis (no_types, lifting) collect_res.simps(2) comp_apply insert_subset
        list.set(2) list.simps(9) try_res_simps(2))
qed simp


definition row_matches :: "string option \<Rightarrow> db_row \<Rightarrow> bool" where
  "row_matches job_name row = (case job_name of Some n \<Rightarrow> db_job_name row = n | None \<Rightarrow> True)"

text \<open>
  Listing returns the newest runs: the rows of the requested job (or of all jobs) split into
  a returned part, ordered by creation time from newest to oldest, and an omitted part none of
  which is newer than a returned row; the returned part is as long as the limit allows. A limit
  of \<open>2 ^ 63\<close> or more wraps to a negative SQL limit and returns every row.
\<close>

theorem list_runs_spec:
  assumes "ledger_invar db" and "mset (scan db) = mset db"
  shows "\<exists>returned omitted.
     list_runs None scan db job_name limit = Inr (map (projr \<circ> row_to_job_run) returned)
     \<and> mset (returned @ omitted) = mset (filter (row_matches job_name) db)
     \<and> sorted_wrt (\<lambda>a b. db_created_at b \<le> db_created_at a) returned
     \<and> (\<forall>a \<in> set returned. \<forall>b \<in> set omitted. db_created_at b \<le> db_created_at a)
     \<and> length returned =
         (if sint limit < 0 then length (filter (row_matches job_name) db)
          else min (nat (sint limit)) (length (filter (row_matches job_name) db)))"
proof -
  define rows where "rows = order_desc (filter (row_matches job_name) (scan db))"
  define n where "n = (if sint limit < 0 then length rows else nat (sint limit))"
  have m: "mset rows = mset (filter (row_matches job_name) db)"
    by (simp add: rows_def order_desc_def assms(2))
  then have len: "length rows = length (filter (row_matches job_name) db)"
    by (metis size_mset)
  have lim: "sql_limit (as_i64 limit) rows = take n rows"
    by (simp add: sql_limit_def as_i64_def n_def)
  have "set rows \<subseteq> set db" by (metis filter_is_subset m mset_eq_setD)
  then have sub: "set (take n rows) \<subseteq> set db" by (meson order_trans set_take_subset)
  have "list_runs None scan db job_name limit =
      faulty None ''list_runs'' (collect_res (map row_to_job_run (sql_limit (as_i64 limit) rows)))"
    by (cases job_name) (simp_all add: list_runs_def rows_def row_matches_def [abs_def] Let_def)
  then have 1: "list_runs None scan db job_name limit =
      Inr (map (projr \<circ> row_to_job_run) (take n rows))"
    unfolding lim collect_rows [OF assms(1) sub] by simp
  have s: "sorted_wrt (\<lambda>a b. db_created_at b \<le> db_created_at a) rows"
    unfolding rows_def by (rule sorted_order_desc)
  show ?thesis
  proof (rule exI [of _ "take n rows"], rule exI [of _ "drop n rows"], intro conjI)
    show "length (take n rows) =
      (if sint limit < 0 then length (filter (row_matches job_name) db)
       else min (nat (sint limit)) (length (filter (row_matches job_name) db)))"
      by (simp add: n_def len min.commute)
  qed (use 1 m s in \<open>auto simp: sorted_wrt_take intro: sorted_wrt_take_drop simp flip: mset_append\<close>)
qed

theorem list_runs_spec_witness:
  "\<exists>returned. list_runs None rev [row_of_run demo_run] (Some ''nightly'') 50 =
     Inr (map (projr \<circ> row_to_job_run) returned) \<and> length returned = 1"
proof -
  have inv: "ledger_invar [row_of_run demo_run]" by (simp add: ledger_invar_def)
  have sc: "mset (rev [row_of_run demo_run]) = mset [row_of_run demo_run]" by simp
  from list_runs_spec [OF inv, of rev "Some ''nightly''" 50] show ?thesis
    by (auto simp: row_matches_def demo_run_def row_of_run_def)
qed

end
