(* ===== verification/Job_Executor.thy ===== *)
theory Job_Executor
  imports Job_Store Job_Destination
begin

text \<open>
  The job executor (\<^verbatim>\<open>jobs/executor.rs\<close>): submission with its validations, cancellation, and the
  background task. The executor's shared mutable state is the ledger, the cancel flags and the
  spawned tasks; a run's flag is the \<open>AtomicBool\<close> its map entry and its task share. DataFusion
  and the backends are the operations of \<open>world_ops\<close>; UUIDs and timestamps are inputs.
\<close>

section \<open>Submit errors\<close>

datatype job_submit_error =
  UnknownJob string
| MissingParameters string
| UnsupportedParameter string
| DbDestinationMissing string
| LakeDestinationMissing string
| SchemaMismatch string string
| SqlPlanFailure string string
| DestinationResolutionFailed string
| NonTransactionalDestination string data_source_type
| InternalError string

fun category :: "job_submit_error \<Rightarrow> string" where
  "category (UnknownJob _) = ''unknown_job''"
| "category (MissingParameters _) = ''missing_parameters''"
| "category (UnsupportedParameter _) = ''unsupported_parameter''"
| "category (DbDestinationMissing _) = ''destination_missing''"
| "category (LakeDestinationMissing _) = ''destination_missing''"
| "category (SchemaMismatch _ _) = ''schema_mismatch''"
| "category (SqlPlanFailure _ _) = ''sql_plan_failure''"
| "category (DestinationResolutionFailed _) = ''destination_resolution_failed''"
| "category (NonTransactionalDestination _ _) = ''non_transactional_destination''"
| "category (InternalError _) = ''internal_error''"

section \<open>Parameter substitution\<close>

fun job_literal :: "json \<Rightarrow> string option" where
  "job_literal (JString s) = Some (sql_string_literal s)"
| "job_literal (JNumber n) = Some n"
| "job_literal (JBool b) = Some (bool_to_string b)"
| "job_literal JNull = Some ''NULL''"
| "job_literal _ = None"

text \<open>The loop with its early return: the text so far and the first unsupported name.\<close>

fun substitute_job_params ::
  "string \<Rightarrow> string list \<Rightarrow> (string \<rightharpoonup> json) \<Rightarrow> string \<times> string option" where
  "substitute_job_params out [] parameters = (out, None)"
| "substitute_job_params out (name # names) parameters =
     (case parameters name of
        None \<Rightarrow> substitute_job_params out names parameters
      | Some v \<Rightarrow>
          (case job_literal v of
             None \<Rightarrow> (out, Some name)
           | Some lit \<Rightarrow> substitute_job_params (str_replace (placeholder name) lit out) names parameters))"

text \<open>\<open>sort_by_key(|s| Reverse(s.len()))\<close>, a stable sort.\<close>

definition longest_first :: "string list \<Rightarrow> string list" where
  "longest_first names = sort_key (\<lambda>s. - int (length s)) names"

definition sorted_json ::
  "((string \<times> json) list \<Rightarrow> string + string) \<Rightarrow> (string \<times> json) list \<Rightarrow> string" where
  "sorted_json to_string params =
     (case to_string (sort_key fst params) of Inr s \<Rightarrow> s | Inl _ \<Rightarrow> ''{}'')"

section \<open>The schema diff\<close>

record 'ty field =
  fd_name :: string
  fd_type :: 'ty
  fd_nullable :: bool

definition diff_produced ::
  "('ty \<Rightarrow> string) \<Rightarrow> string \<Rightarrow> 'ty field list \<Rightarrow> 'ty field \<Rightarrow> string list" where
  "diff_produced show_ty table expected f =
     (case map_of (rev (map (\<lambda>e. (fd_name e, e)) expected)) (fd_name f) of
        None \<Rightarrow> [''column '' @ quote @ fd_name f @ quote
                 @ '' is in the query output but not in destination '' @ quote @ table @ quote]
      | Some e \<Rightarrow>
          (if fd_type f \<noteq> fd_type e
           then [''column '' @ quote @ fd_name f @ quote @ '' type mismatch: query produces ''
                 @ show_ty (fd_type f) @ '', destination expects '' @ show_ty (fd_type e)]
           else []))"

definition diff_required :: "'ty field list \<Rightarrow> 'ty field \<Rightarrow> string list" where
  "diff_required produced e =
     (if \<not> list_ex (\<lambda>f. fd_name f = fd_name e) produced \<and> \<not> fd_nullable e
      then [''required column '' @ quote @ fd_name e @ quote @ '' is missing from query output'']
      else [])"

definition diff_schemas ::
  "('ty \<Rightarrow> string) \<Rightarrow> string \<Rightarrow> 'ty field list \<Rightarrow> 'ty field list \<Rightarrow> string + unit" where
  "diff_schemas show_ty table produced expected =
     (let errs = concat (map (diff_produced show_ty table expected) produced)
                 @ concat (map (diff_required produced) expected)
      in if errs = [] then Inr () else Inl (str_join ''; '' errs))"

section \<open>The executor\<close>

text \<open>What the executor uses of a pipeline: the names of its request schema, in the iteration
  order of their hash map, and its SQL template.\<close>

record job_pipeline =
  jp_params :: "string list"
  jp_sql :: string

record ('w, 'p, 'b, 'ds, 'ty) executor =
  ex_jobs :: "string \<rightharpoonup> job_pipeline job_definition"
  ex_types :: "string \<rightharpoonup> data_source_type"
  ex_paths :: "string \<rightharpoonup> string"
  ex_ops :: "('w, 'p, 'b, 'ds, 'ty field list) world_ops"
  ex_stream :: "'w \<Rightarrow> 'p \<Rightarrow> string + ('b, string) stream"
  ex_rows :: "'b \<Rightarrow> 64 word"
  ex_show_type :: "'ty \<Rightarrow> string"
  ex_json_text :: "(string \<times> json) list \<Rightarrow> string + string"

record job_task =
  tk_destination :: job_destination
  tk_sql :: string
  tk_timeout_ms :: "64 word option"

text \<open>
  Where a spawned task is: its outcome is known from \<open>Finished\<close> on, and the update it will write
  from \<open>Decided\<close> on.
\<close>

datatype task_phase =
  Spawned | Marked | Finished "string + write_outcome" | Decided status_update | Recorded

record exec_state =
  es_db :: ledger_db
  es_cells :: "string \<Rightarrow> bool"
  es_flags :: "string set"
  es_tasks :: "string \<rightharpoonup> job_task \<times> task_phase"

definition list_jobs :: "(string \<times> 'j) list \<Rightarrow> string list" where
  "list_jobs jobs = sort (map fst jobs)"

text \<open>The messages with a dash outside ASCII are cut before it.\<close>

definition resolve_destination ::
  "('w, 'p, 'b, 'ds, 'ty) executor \<Rightarrow> destination \<Rightarrow> job_submit_error + job_destination" where
  "resolve_destination ex dest =
     (let root = hd (str_split (CHR ''.'') (dest_table dest)) in
      case ex_types ex root of
        Some Lance \<Rightarrow>
          try_res (ok_or (ex_paths ex root) (DestinationResolutionFailed (dest_table dest)))
            (\<lambda>path. Inr (LanceDestination path))
      | Some Postgres \<Rightarrow> Inr (SqlDmlDestination (dest_table dest))
      | Some Mysql \<Rightarrow> Inr (SqlDmlDestination (dest_table dest))
      | Some Sqlite \<Rightarrow> Inr (SqlDmlDestination (dest_table dest))
      | Some Mongo \<Rightarrow> Inl (NonTransactionalDestination (dest_table dest) Mongo)
      | Some Redis \<Rightarrow> Inl (NonTransactionalDestination (dest_table dest) Redis)
      | Some Seekdb \<Rightarrow> Inl (NonTransactionalDestination (dest_table dest) Seekdb)
      | Some Influxdb \<Rightarrow> Inl (NonTransactionalDestination (dest_table dest) Influxdb)
      | Some Iceberg \<Rightarrow> Inl (InternalError ''Iceberg destinations are not supported in MVP'')
      | Some Csv \<Rightarrow> Inl (InternalError ''CSV/Parquet destinations are not supported'')
      | Some Parquet \<Rightarrow> Inl (InternalError ''CSV/Parquet destinations are not supported'')
      | Some Documents \<Rightarrow> Inl (InternalError
          ''documents sources are read-only and cannot be used as a job destination'')
      | None \<Rightarrow>
          (if CHR ''.'' \<in> set (dest_table dest)
           then Inl (DestinationResolutionFailed (dest_table dest))
           else Inr (SqlDmlDestination (dest_table dest))))"

definition preflight ::
  "('w, 'p, 'b, 'ds, 'ty) executor \<Rightarrow> 'w \<Rightarrow> job_destination \<Rightarrow> destination \<Rightarrow> 'ty field list
   \<Rightarrow> job_submit_error + unit" where
  "preflight ex w destination config query_schema =
     try_res (map_err InternalError (jd_schema (ex_ops ex) w destination)) (\<lambda>existing.
     case existing of
       Some schema \<Rightarrow>
         map_err (\<lambda>details. SchemaMismatch (dest_table config) details)
           (diff_schemas (ex_show_type ex) (dest_table config) query_schema schema)
     | None \<Rightarrow>
         (case jd_kind destination of
            Db \<Rightarrow> Inl (DbDestinationMissing (dest_table config))
          | Lake \<Rightarrow> (if \<not> dest_create_if_missing config
                    then Inl (LakeDestinationMissing (dest_table config)) else Inr ())))"

text \<open>Everything \<open>submit\<close> does before it touches the ledger: the task it will spawn.\<close>

definition submit_check ::
  "('w, 'p, 'b, 'ds, 'ty) executor \<Rightarrow> 'w \<Rightarrow> string \<Rightarrow> (string \<times> json) list
   \<Rightarrow> job_submit_error + job_task" where
  "submit_check ex w job_name params =
     try_res (ok_or (ex_jobs ex job_name) (UnknownJob job_name)) (\<lambda>job.
     let expected = jp_params (jd_pipeline job);
         missing = filter (\<lambda>n. map_of params n = None) expected
     in if missing \<noteq> [] then Inl (MissingParameters (str_join '', '' missing))
     else
       case substitute_job_params (jp_sql (jd_pipeline job)) (longest_first expected) (map_of params) of
         (_, Some name) \<Rightarrow> Inl (UnsupportedParameter name)
       | (rendered_sql, None) \<Rightarrow>
           try_res (resolve_destination ex (jd_destination job)) (\<lambda>dest.
           try_res (map_err (SqlPlanFailure job_name) (w_sql (ex_ops ex) w rendered_sql)) (\<lambda>plan.
           try_res (preflight ex w dest (jd_destination job) (w_plan_schema (ex_ops ex) plan)) (\<lambda>_.
           Inr \<lparr>tk_destination = dest, tk_sql = rendered_sql,
                tk_timeout_ms = exec_timeout_ms (jd_execution job)\<rparr>))))"

definition pending_run :: "string \<Rightarrow> string \<Rightarrow> string \<Rightarrow> string \<Rightarrow> job_run" where
  "pending_run run_id job_name params_json now =
     \<lparr>jr_id = run_id, jr_job_name = job_name, jr_parameters = params_json, jr_status = Pending,
      jr_created_at = now, jr_started_at = None, jr_finished_at = None, jr_rows_written = None,
      jr_snapshot_id = None, jr_error = None\<rparr>"

definition submit ::
  "('w, 'p, 'b, 'ds, 'ty) executor \<Rightarrow> 'w \<Rightarrow> string option \<Rightarrow> string \<Rightarrow> string \<Rightarrow> string
   \<Rightarrow> (string \<times> json) list \<Rightarrow> exec_state \<Rightarrow> (job_submit_error + string) \<times> exec_state" where
  "submit ex w fault run_id now job_name params s =
     (case submit_check ex w job_name params of
        Inl e \<Rightarrow> (Inl e, s)
      | Inr task \<Rightarrow>
          (let run = pending_run run_id job_name (sorted_json (ex_json_text ex) params) now in
           case create_run fault (es_db s) run of
             Inl e \<Rightarrow> (Inl (InternalError e), s)
           | Inr db' \<Rightarrow>
               (Inr run_id, s\<lparr>es_db := db',
                              es_cells := (es_cells s)(run_id := False),
                              es_flags := insert run_id (es_flags s),
                              es_tasks := (es_tasks s)(run_id \<mapsto> (task, Spawned))\<rparr>)))"

definition cancel :: "string \<Rightarrow> exec_state \<Rightarrow> bool \<times> exec_state" where
  "cancel run_id s =
     (if run_id \<in> es_flags s then (True, s\<lparr>es_cells := (es_cells s)(run_id := True)\<rparr>)
      else (False, s))"

section \<open>The background task\<close>

text \<open>
  The body of the task: \<open>cancelled\<close> is the flag before execution, \<open>flag\<close> its value at each poll
  of the query stream.
\<close>

definition execute_task ::
  "('w, 'p, 'b, 'ds, 'ty) executor \<Rightarrow> string \<Rightarrow> bool \<Rightarrow> (nat \<Rightarrow> bool) \<Rightarrow> job_task \<Rightarrow> 'w
   \<Rightarrow> (string + write_outcome) \<times> 'w" where
  "execute_task ex uuid cancelled flag task w =
     (if cancelled then (Inl ''cancelled before execution'', w)
      else
        case w_sql (ex_ops ex) w (tk_sql task) of
          Inl e \<Rightarrow> (Inl (''Failed to plan rendered SQL: '' @ e), w)
        | Inr plan \<Rightarrow>
            (case ex_stream ex w plan of
               Inl e \<Rightarrow> (Inl (''Failed to start streaming job output: '' @ e), w)
             | Inr stream \<Rightarrow>
                 (case jd_write (ex_ops ex) (ex_rows ex) uuid (tk_destination task) flag stream w of
                    (r, w') \<Rightarrow> (map_err (\<lambda>e. ''Destination write failed: '' @ e) r, w'))))"

text \<open>
  The world the body leaves when it is dropped at one of the points where it awaits: the planning
  of the query or the start of its stream, or inside the write.
\<close>

datatype task_drop = DropQuery | DropWrite drop_point

definition execute_dropped ::
  "('w, 'p, 'b, 'ds, 'ty) executor \<Rightarrow> string \<Rightarrow> (nat \<Rightarrow> bool) \<Rightarrow> job_task \<Rightarrow> task_drop \<Rightarrow> 'w \<Rightarrow> 'w" where
  "execute_dropped ex uuid flag task pt w =
     (case pt of
        DropQuery \<Rightarrow> w
      | DropWrite dp \<Rightarrow>
          (case w_sql (ex_ops ex) w (tk_sql task) of
             Inl _ \<Rightarrow> w
           | Inr plan \<Rightarrow>
               (case ex_stream ex w plan of
                  Inl _ \<Rightarrow> w
                | Inr stream \<Rightarrow>
                    jd_dropped (ex_ops ex) (ex_rows ex) uuid (tk_destination task) flag stream dp w)))"

text \<open>
  The optional timeout around it. When the timer fires first, the body is dropped wherever it
  was; \<open>dropped\<close> is the world it leaves behind.
\<close>

definition with_timeout ::
  "64 word option \<Rightarrow> 'w option \<Rightarrow> (string + write_outcome) \<times> 'w \<Rightarrow> (string + write_outcome) \<times> 'w" where
  "with_timeout timeout_ms dropped result =
     (case timeout_ms of
        Some ms \<Rightarrow>
          (if 0 < ms then
             (case dropped of
                Some w' \<Rightarrow> (Inl (''job timed out after '' @ show_nat (unat ms) @ ''ms before commit''), w')
              | None \<Rightarrow> result)
           else result)
      | None \<Rightarrow> result)"

text \<open>
  The body under its timeout: \<open>pt\<close> is where the timer drops it, if it does. A run cancelled
  before its execution ends at the first poll of the body, before the timer is looked at.
\<close>

definition run_body ::
  "('w, 'p, 'b, 'ds, 'ty) executor \<Rightarrow> string \<Rightarrow> bool \<Rightarrow> (nat \<Rightarrow> bool) \<Rightarrow> job_task \<Rightarrow> task_drop option
   \<Rightarrow> 'w \<Rightarrow> (string + write_outcome) \<times> 'w" where
  "run_body ex uuid cancelled flag task pt w =
     with_timeout (tk_timeout_ms task)
       (if cancelled then None else map_option (\<lambda>pt. execute_dropped ex uuid flag task pt w) pt)
       (execute_task ex uuid cancelled flag task w)"

definition mark_running :: "string \<Rightarrow> status_update" where
  "mark_running started =
     \<lparr>su_status = Running, su_started_at = Some started, su_finished_at = None,
      su_rows_written = None, su_snapshot_id = None, su_error = None\<rparr>"

definition final_update :: "string + write_outcome \<Rightarrow> bool \<Rightarrow> string \<Rightarrow> status_update" where
  "final_update outcome cancelled finished =
     (case outcome of
        Inr w \<Rightarrow>
          (if cancelled
           then \<lparr>su_status = Cancelled, su_started_at = None, su_finished_at = Some finished,
                 su_rows_written = Some (wo_rows_written w), su_snapshot_id = wo_snapshot_id w,
                 su_error = Some ''cancelled after commit''\<rparr>
           else \<lparr>su_status = Succeeded, su_started_at = None, su_finished_at = Some finished,
                 su_rows_written = Some (wo_rows_written w), su_snapshot_id = wo_snapshot_id w,
                 su_error = None\<rparr>)
      | Inl err \<Rightarrow>
          \<lparr>su_status = (if cancelled then Cancelled else RunFailed), su_started_at = None,
           su_finished_at = Some finished, su_rows_written = None, su_snapshot_id = None,
           su_error = Some err\<rparr>)"

text \<open>A failing ledger write is logged and otherwise ignored.\<close>

definition log_errors :: "ledger_db \<Rightarrow> string + ledger_db \<Rightarrow> ledger_db" where
  "log_errors db r = (case r of Inl _ \<Rightarrow> db | Inr db' \<Rightarrow> db')"

text \<open>
  The steps of the task as seen by the shared state: mark the row running, execute, read the
  cancel flag and decide what to record, write it to the ledger, drop the cancel flag. Each is one
  access to the ledger, the world or the flags; other requests may come between any two of them.
\<close>

definition task_mark :: "string option \<Rightarrow> string \<Rightarrow> string \<Rightarrow> exec_state \<Rightarrow> exec_state option" where
  "task_mark fault run_id started s =
     (case es_tasks s run_id of
        Some (task, Spawned) \<Rightarrow>
          Some (s\<lparr>es_db := log_errors (es_db s) (update_status fault (es_db s) run_id (mark_running started)),
                  es_tasks := (es_tasks s)(run_id \<mapsto> (task, Marked))\<rparr>)
      | _ \<Rightarrow> None)"

definition task_finish ::
  "string \<Rightarrow> string + write_outcome \<Rightarrow> exec_state \<Rightarrow> exec_state option" where
  "task_finish run_id outcome s =
     (case es_tasks s run_id of
        Some (task, Marked) \<Rightarrow>
          Some (s\<lparr>es_tasks := (es_tasks s)(run_id \<mapsto> (task, Finished outcome))\<rparr>)
      | _ \<Rightarrow> None)"

definition task_decide :: "string \<Rightarrow> string \<Rightarrow> exec_state \<Rightarrow> exec_state option" where
  "task_decide run_id finished s =
     (case es_tasks s run_id of
        Some (task, Finished outcome) \<Rightarrow>
          Some (s\<lparr>es_tasks := (es_tasks s)(run_id \<mapsto>
                    (task, Decided (final_update outcome (es_cells s run_id) finished)))\<rparr>)
      | _ \<Rightarrow> None)"

definition task_record :: "string option \<Rightarrow> string \<Rightarrow> exec_state \<Rightarrow> exec_state option" where
  "task_record fault run_id s =
     (case es_tasks s run_id of
        Some (task, Decided u) \<Rightarrow>
          Some (s\<lparr>es_db := log_errors (es_db s) (update_status fault (es_db s) run_id u),
                  es_tasks := (es_tasks s)(run_id \<mapsto> (task, Recorded))\<rparr>)
      | _ \<Rightarrow> None)"

definition task_cleanup :: "string \<Rightarrow> exec_state \<Rightarrow> exec_state option" where
  "task_cleanup run_id s =
     (case es_tasks s run_id of
        Some (task, Recorded) \<Rightarrow>
          Some (s\<lparr>es_flags := es_flags s - {run_id}, es_tasks := (es_tasks s)(run_id := None)\<rparr>)
      | _ \<Rightarrow> None)"

text \<open>A restarted server has no tasks and no flags, and reconciles the ledger.\<close>

definition restart :: "string option \<Rightarrow> string \<Rightarrow> exec_state \<Rightarrow> exec_state" where
  "restart fault now s =
     (case reconcile_orphaned fault now (es_db s) ''server restarted before run completed'' of
        Inl _ \<Rightarrow> s\<lparr>es_flags := {}, es_tasks := Map.empty\<rparr>
      | Inr (db', n) \<Rightarrow> s\<lparr>es_db := db', es_flags := {}, es_tasks := Map.empty\<rparr>)"

section \<open>Interleavings\<close>

text \<open>
  Requests, tasks and restarts interleave freely over the shared state and the world. While a
  task executes, \<open>cancel\<close> may set its flag: \<open>flag\<close> is its value at each poll, at least what it
  was before, and the cell afterwards is set if any poll saw it set.
\<close>

inductive exec_step ::
  "('w, 'p, 'b, 'ds, 'ty) executor \<Rightarrow> exec_state \<times> 'w \<Rightarrow> exec_state \<times> 'w \<Rightarrow> bool"
  for ex :: "('w, 'p, 'b, 'ds, 'ty) executor" where
  Submit: "submit ex w fault run_id now job_name params s = (r, s') \<Longrightarrow> exec_step ex (s, w) (s', w)"
| Cancel: "cancel run_id s = (r, s') \<Longrightarrow> exec_step ex (s, w) (s', w)"
| Mark: "task_mark fault run_id started s = Some s' \<Longrightarrow> exec_step ex (s, w) (s', w)"
| Execute: "es_tasks s run_id = Some (task, Marked) \<Longrightarrow>
    (\<forall>k. es_cells s run_id \<longrightarrow> flag k) \<Longrightarrow> (\<forall>k. flag k \<longrightarrow> late) \<Longrightarrow>
    run_body ex uuid (es_cells s run_id) flag task pt w = (outcome, w') \<Longrightarrow>
    task_finish run_id outcome (s\<lparr>es_cells := (es_cells s)(run_id := late)\<rparr>) = Some s' \<Longrightarrow>
    exec_step ex (s, w) (s', w')"
| Decide: "task_decide run_id finished s = Some s' \<Longrightarrow> exec_step ex (s, w) (s', w)"
| Record: "task_record fault run_id s = Some s' \<Longrightarrow> exec_step ex (s, w) (s', w)"
| Cleanup: "task_cleanup run_id s = Some s' \<Longrightarrow> exec_step ex (s, w) (s', w)"
| Restart: "exec_step ex (s, w) (restart fault now s, w)"

inductive exec_steps ::
  "('w, 'p, 'b, 'ds, 'ty) executor \<Rightarrow> exec_state \<times> 'w \<Rightarrow> exec_state \<times> 'w \<Rightarrow> bool"
  for ex :: "('w, 'p, 'b, 'ds, 'ty) executor" where
  exec_refl: "exec_steps ex c c"
| exec_trans: "exec_steps ex c c' \<Longrightarrow> exec_step ex c' c'' \<Longrightarrow> exec_steps ex c c''"

text \<open>The state in which the server starts on an empty ledger.\<close>

definition exec_init :: exec_state where
  "exec_init = \<lparr>es_db = [], es_cells = (\<lambda>_. False), es_flags = {}, es_tasks = Map.empty\<rparr>"

section \<open>Lemmas on the steps\<close>

text \<open>An update with its errors logged: applied to an existing run, or nothing happened.\<close>

lemma log_update:
  assumes "ledger_invar db" "ledger_runs db i = Some r"
    and "db' = log_errors db (update_status fault db i u)"
  shows "ledger_invar db' \<and>
    (ledger_runs db' = ledger_runs db \<or> ledger_runs db' = (ledger_runs db)(i \<mapsto> apply_update u r))"
proof (cases "update_status fault db i u")
  case (Inl e)
  with assms show ?thesis by (simp add: log_errors_def)
next
  case (Inr d)
  then have n: "update_status None db i u = Inr d"
    by (cases fault) (simp_all add: update_status_def)
  with assms Inr sqlite_ledger.update_at [OF assms(1) n assms(2)] show ?thesis
    by (simp add: log_errors_def)
qed

lemma create_run_Inr:
  assumes "ledger_invar db" "create_run fault db r = Inr db'"
  shows "ledger_invar db'" "ledger_runs db' = (ledger_runs db)(jr_id r \<mapsto> r)"
    "ledger_runs db (jr_id r) = None"
proof -
  have n: "create_run None db r = Inr db'"
    using assms(2) by (cases fault) (simp_all add: create_run_def)
  from sqlite_ledger.create_at [OF assms(1) n]
  show "ledger_invar db'" "ledger_runs db' = (ledger_runs db)(jr_id r \<mapsto> r)"
    "ledger_runs db (jr_id r) = None" .
qed

definition final :: "status_update \<Rightarrow> bool" where
  "final u \<longleftrightarrow> (\<exists>outcome cancelled finished. u = final_update outcome cancelled finished)"

text \<open>
  The executor's invariant: the ledger is well formed, the flags belong to the live tasks, a
  task that has not recorded its outcome has a row that is not terminal, and what a task has
  decided to write is a final update.
\<close>

definition exec_invar :: "exec_state \<Rightarrow> bool" where
  "exec_invar s \<longleftrightarrow> ledger_invar (es_db s) \<and> es_flags s = dom (es_tasks s) \<and>
     (\<forall>i task ph. es_tasks s i = Some (task, ph) \<longrightarrow>
        (\<exists>r. ledger_runs (es_db s) i = Some r \<and> (ph \<noteq> Recorded \<longrightarrow> \<not> is_terminal (jr_status r)))
        \<and> (\<forall>u. ph = Decided u \<longrightarrow> final u))"

text \<open>What a step can do to the runs and the flags.\<close>

datatype ledger_change = Same | Fresh job_run | Marks string string
| Records string status_update | Orphans string

definition changes :: "ledger_change \<Rightarrow> (string \<rightharpoonup> job_run) \<Rightarrow> (string \<rightharpoonup> job_run) \<Rightarrow> bool" where
  "changes c L L' \<longleftrightarrow>
     (case c of
        Same \<Rightarrow> L' = L
      | Fresh r \<Rightarrow> jr_status r = Pending \<and> jr_rows_written r = None \<and> jr_snapshot_id r = None
           \<and> jr_error r = None \<and> L (jr_id r) = None \<and> L' = L(jr_id r \<mapsto> r)
      | Marks i started \<Rightarrow> (\<exists>r. L i = Some r \<and> \<not> is_terminal (jr_status r)
           \<and> L' = L(i \<mapsto> apply_update (mark_running started) r))
      | Records i u \<Rightarrow> final u \<and> (\<exists>r. L i = Some r \<and> \<not> is_terminal (jr_status r)
           \<and> L' = L(i \<mapsto> apply_update u r))
      | Orphans now \<Rightarrow>
           L' = (\<lambda>i. map_option (orphan_failed now ''server restarted before run completed'') (L i)))"

lemma changes_terminal:
  "changes c L L' \<Longrightarrow> L i = Some r \<Longrightarrow> is_terminal (jr_status r) \<Longrightarrow> L' i = Some r"
  by (cases c) (auto simp: changes_def orphan_failed_def)

text \<open>The change a step makes; what a task records is what it had decided.\<close>

definition step_effect :: "exec_state \<Rightarrow> exec_state \<Rightarrow> bool" where
  "step_effect s s' \<longleftrightarrow> exec_invar s' \<and>
     (\<exists>c. changes c (ledger_runs (es_db s)) (ledger_runs (es_db s')) \<and>
        (\<forall>i u. c = Records i u \<longrightarrow> (\<exists>task. es_tasks s i = Some (task, Decided u))))"

lemma step_effectI:
  "exec_invar s' \<Longrightarrow> changes c (ledger_runs (es_db s)) (ledger_runs (es_db s')) \<Longrightarrow>
   (\<And>i u. c = Records i u \<Longrightarrow> \<exists>task. es_tasks s i = Some (task, Decided u)) \<Longrightarrow>
   step_effect s s'"
  unfolding step_effect_def by blast

lemma exec_invarD:
  assumes "exec_invar s"
  shows "ledger_invar (es_db s)" "es_flags s = dom (es_tasks s)"
    "es_tasks s i = Some (task, ph) \<Longrightarrow> ph \<noteq> Recorded \<Longrightarrow>
       \<exists>r. ledger_runs (es_db s) i = Some r \<and> \<not> is_terminal (jr_status r)"
    "es_tasks s i = Some (task, ph) \<Longrightarrow> \<exists>r. ledger_runs (es_db s) i = Some r"
    "es_tasks s i = Some (task, Decided u) \<Longrightarrow> final u"
  using assms unfolding exec_invar_def by blast+

lemma step_effect_same:
  "exec_invar s' \<Longrightarrow> es_db s' = es_db s \<Longrightarrow> step_effect s s'"
  by (rule step_effectI [of _ Same]) (simp_all add: changes_def)

lemma submit_effect:
  assumes "exec_invar s" "submit ex w fault i now name params s = (r, s')"
  shows "step_effect s s'"
proof (cases "s' = s")
  case True
  with assms show ?thesis by (simp add: step_effect_same)
next
  case False
  let ?run = "pending_run i name (sorted_json (ex_json_text ex) params) now"
  from False assms(2) obtain task db' where c: "create_run fault (es_db s) ?run = Inr db'"
    "s' = s\<lparr>es_db := db', es_cells := (es_cells s)(i := False), es_flags := insert i (es_flags s),
           es_tasks := (es_tasks s)(i \<mapsto> (task, Spawned))\<rparr>"
    by (auto simp: submit_def Let_def split: sum.splits)
  note cr = create_run_Inr [OF exec_invarD(1) [OF assms(1)] c(1)]
  show ?thesis
  proof (rule step_effectI [of _ "Fresh ?run"])
    show "changes (Fresh ?run) (ledger_runs (es_db s)) (ledger_runs (es_db s'))"
      using cr c(2) by (simp add: changes_def pending_run_def)
    show "exec_invar s'"
      using assms(1) cr c(2) by (auto simp: exec_invar_def pending_run_def)
  qed simp
qed

text \<open>An update of the row of an unrecorded task, which moves on to \<open>ph\<close>.\<close>

lemma update_effect:
  assumes "exec_invar s" "es_tasks s i = Some (task, ph)" "ph \<noteq> Recorded"
    and "s' = s\<lparr>es_db := log_errors (es_db s) (update_status fault (es_db s) i u),
               es_tasks := (es_tasks s)(i \<mapsto> (task, ph'))\<rparr>"
    and "ph' = Recorded \<or> ph' = Marked \<and> \<not> is_terminal (su_status u)"
  shows "exec_invar s' \<and> (ledger_runs (es_db s') = ledger_runs (es_db s) \<or>
    (\<exists>r. ledger_runs (es_db s) i = Some r \<and> \<not> is_terminal (jr_status r) \<and>
       ledger_runs (es_db s') = (ledger_runs (es_db s))(i \<mapsto> apply_update u r)))"
proof -
  obtain r where r: "ledger_runs (es_db s) i = Some r" "\<not> is_terminal (jr_status r)"
    using exec_invarD(3) [OF assms(1,2,3)] by blast
  define db' where "db' = log_errors (es_db s) (update_status fault (es_db s) i u)"
  note lu = log_update [OF exec_invarD(1) [OF assms(1)] r(1) db'_def]
  have "jr_status (apply_update u r) = su_status u" by (simp add: apply_update_def)
  then have "exec_invar s'"
    using assms(1,2,4,5) lu r db'_def by (auto simp: exec_invar_def)
  with lu r assms(4) db'_def show ?thesis by auto
qed

lemma mark_effect:
  assumes "exec_invar s" "task_mark fault i started s = Some s'"
  shows "step_effect s s'"
proof -
  obtain task where t: "es_tasks s i = Some (task, Spawned)"
    "s' = s\<lparr>es_db := log_errors (es_db s) (update_status fault (es_db s) i (mark_running started)),
           es_tasks := (es_tasks s)(i \<mapsto> (task, Marked))\<rparr>"
    using assms(2) by (auto simp: task_mark_def split: option.splits prod.splits task_phase.splits)
  have "Marked = Recorded \<or> Marked = Marked \<and> \<not> is_terminal (su_status (mark_running started))"
    by (simp add: mark_running_def)
  from update_effect [OF assms(1) t(1) _ t(2) this] show ?thesis
    by (auto intro: step_effectI [of _ Same] step_effectI [of _ "Marks i started"] simp: changes_def)
qed

lemma record_effect:
  assumes "exec_invar s" "task_record fault i s = Some s'"
  shows "step_effect s s'"
proof -
  obtain task u where t: "es_tasks s i = Some (task, Decided u)"
    "s' = s\<lparr>es_db := log_errors (es_db s) (update_status fault (es_db s) i u),
           es_tasks := (es_tasks s)(i \<mapsto> (task, Recorded))\<rparr>"
    using assms(2) by (auto simp: task_record_def split: option.splits prod.splits task_phase.splits)
  from update_effect [OF assms(1) t(1) _ t(2)] exec_invarD(5) [OF assms(1) t(1)] t(1) show ?thesis
    by (auto intro: step_effectI [of _ Same] step_effectI [of _ "Records i u"] simp: changes_def)
qed

lemma restart_effect:
  assumes "exec_invar s"
  shows "step_effect s (restart fault now s)"
proof (cases fault)
  case (Some e)
  have "restart fault now s = s\<lparr>es_flags := {}, es_tasks := Map.empty\<rparr>"
    using Some by (simp add: restart_def reconcile_orphaned_def)
  with assms show ?thesis by (auto intro!: step_effect_same simp: exec_invar_def)
next
  case None
  obtain db' n where d: "reconcile_orphaned None now (es_db s)
      ''server restarted before run completed'' = Inr (db', n)"
    by (simp add: reconcile_orphaned_def)
  note rc = sqlite_ledger.reconcile_at [OF exec_invarD(1) [OF assms] d]
  have s': "restart fault now s = s\<lparr>es_db := db', es_flags := {}, es_tasks := Map.empty\<rparr>"
    using None d by (simp add: restart_def)
  show ?thesis
  proof (rule step_effectI [of _ "Orphans now"])
    show "exec_invar (restart fault now s)" using rc(1) by (simp add: s' exec_invar_def)
    show "changes (Orphans now) (ledger_runs (es_db s)) (ledger_runs (es_db (restart fault now s)))"
      using rc(2) by (simp add: s' changes_def fun_eq_iff)
  qed simp
qed

lemma phase_effect:
  assumes "exec_invar s" "es_tasks s i = Some (task, ph)" "ph \<noteq> Recorded"
    and "s' = s\<lparr>es_cells := cells, es_tasks := (es_tasks s)(i \<mapsto> (task, ph'))\<rparr>"
    and "\<And>u. ph' = Decided u \<Longrightarrow> final u"
  shows "step_effect s s'"
proof (rule step_effect_same)
  show "exec_invar s'"
    using assms(1,2,4,5) exec_invarD(3) [OF assms(1,2,3)] by (auto simp: exec_invar_def)
qed (simp add: assms(4))

lemma decide_effect:
  assumes "exec_invar s" "task_decide i finished s = Some s'"
  shows "step_effect s s'"
proof -
  obtain task out where t: "es_tasks s i = Some (task, Finished out)"
    "s' = s\<lparr>es_tasks := (es_tasks s)(i \<mapsto> (task, Decided (final_update out (es_cells s i) finished)))\<rparr>"
    using assms(2) by (auto simp: task_decide_def split: option.splits prod.splits task_phase.splits)
  show ?thesis
    by (rule phase_effect [OF assms(1) t(1), where cells = "es_cells s"]) (auto simp: t(2) final_def)
qed

lemma exec_invar_cells: "exec_invar (s\<lparr>es_cells := cells\<rparr>) = exec_invar s"
  by (simp add: exec_invar_def)

lemma exec_step_effect:
  assumes "exec_step ex (s, w) (s', w')" "exec_invar s"
  shows "step_effect s s'"
  using assms(1)
proof (cases rule: exec_step.cases)
  case (Submit fault i now name params r)
  then show ?thesis using submit_effect assms(2) by metis
next
  case (Cancel i r)
  then show ?thesis using assms(2)
    by (intro step_effect_same) (auto simp: cancel_def exec_invar_cells split: if_splits)
next
  case (Mark fault i started)
  then show ?thesis using mark_effect assms(2) by metis
next
  case (Execute i task flag late uuid pt outcome)
  then show ?thesis by (intro phase_effect [OF assms(2)]) (auto simp: task_finish_def)
next
  case (Decide i finished)
  then show ?thesis using decide_effect assms(2) by metis
next
  case (Record fault i)
  then show ?thesis using record_effect assms(2) by metis
next
  case (Cleanup i)
  then show ?thesis using assms(2)
    by (intro step_effect_same)
      (auto simp: task_cleanup_def exec_invar_def split: option.splits prod.splits task_phase.splits if_splits)
next
  case (Restart fault now)
  then show ?thesis using restart_effect assms(2) by metis
qed

lemma exec_init_invar: "exec_invar exec_init"
  by (simp add: exec_invar_def exec_init_def ledger_invar_def)

lemma exec_steps_invar: "exec_steps ex (s, w) (s', w') \<Longrightarrow> exec_invar s \<Longrightarrow> exec_invar s'"
proof (induction "(s, w)" "(s', w')" arbitrary: s' w' rule: exec_steps.induct)
  case (exec_trans c')
  then show ?case by (cases c') (metis exec_step_effect step_effect_def)
qed simp

section \<open>Properties of the lifecycle\<close>

text \<open>A small deployment: one job that writes to a SQL table of an in-memory world.\<close>

definition demo_ex :: "(mem_world, string option, nat list, nat list list, nat) executor" where
  "demo_ex = \<lparr>ex_jobs = [''j'' \<mapsto> \<lparr>jd_pipeline = \<lparr>jp_params = [''id''], jp_sql = ''SELECT {id}''\<rparr>,
        jd_destination = \<lparr>dest_table = ''t'', dest_mode = AppendMode, dest_create_if_missing = True\<rparr>,
        jd_execution = execution_default\<rparr>],
     ex_types = [''t'' \<mapsto> Postgres], ex_paths = Map.empty, ex_ops = mem_ops,
     ex_stream = (\<lambda>_ _. Inr [PollReady (Some (Inr [1, 2]))]), ex_rows = mem_rows,
     ex_show_type = show_nat, ex_json_text = (\<lambda>_. Inr ''p'')\<rparr>"

definition demo_world :: mem_world where
  "demo_world = (Map.empty, {''t''})"

definition demo_task :: job_task where
  "demo_task = \<lparr>tk_destination = SqlDmlDestination ''t'', tk_sql = ''SELECT 7'', tk_timeout_ms = None\<rparr>"

definition demo_submitted :: exec_state where
  "demo_submitted = \<lparr>es_db = [row_of_run (pending_run ''r1'' ''j'' ''p'' ''t0'')],
     es_cells = (\<lambda>_. False)(''r1'' := False), es_flags = {''r1''},
     es_tasks = [''r1'' \<mapsto> (demo_task, Spawned)]\<rparr>"

lemma demo_query: "mem_sql w ''SELECT 7'' = Inr None"
  by (simp add: mem_sql_def read_insert_def)

lemma demo_check: "submit_check demo_ex demo_world ''j'' [(''id'', JNumber ''7'')] = Inr demo_task"
proof -
  have "substitute_job_params ''SELECT {id}'' [''id''] [''id'' \<mapsto> JNumber ''7''] = (''SELECT 7'', None)"
    by code_simp
  then show ?thesis
    by (simp add: submit_check_def demo_ex_def longest_first_def resolve_destination_def
        preflight_def jd_schema_def lookup_table_schema_def mem_ops_def mem_sql_def read_insert_def
        diff_schemas_def
        execution_default_def demo_task_def)
qed

lemma demo_submit:
  "submit demo_ex demo_world None ''r1'' ''t0'' ''j'' [(''id'', JNumber ''7'')] exec_init =
     (Inr ''r1'', demo_submitted)"
  by (simp add: submit_def demo_check create_run_def exec_init_def demo_submitted_def sorted_json_def)
    (simp add: demo_ex_def pending_run_def)

lemma demo_reach: "exec_steps demo_ex (exec_init, demo_world) (demo_submitted, demo_world)"
  by (rule exec_trans [OF exec_refl exec_step.Submit [OF demo_submit]])

lemma demo_row: "ledger_runs (es_db demo_submitted) ''r1'' = Some (pending_run ''r1'' ''j'' ''p'' ''t0'')"
  by (simp add: demo_submitted_def ledger_runs_def pending_run_def)

lemma demo_restart:
  "es_db (restart None ''now'' demo_submitted) =
     [row_of_run (orphan_failed ''now'' ''server restarted before run completed''
        (pending_run ''r1'' ''j'' ''p'' ''t0''))]"
  by (simp add: restart_def reconcile_orphaned_def demo_submitted_def row_orphaned_def row_of_run_def
      pending_run_def orphan_failed_def)

lemma step_effectD:
  assumes "exec_step ex c c'" "exec_invar (fst c)"
  obtains ch where "changes ch (ledger_runs (es_db (fst c))) (ledger_runs (es_db (fst c')))"
    "\<And>i u. ch = Records i u \<Longrightarrow> \<exists>task. es_tasks (fst c) i = Some (task, Decided u)"
    "exec_invar (fst c')"
  using exec_step_effect [of ex "fst c" "snd c" "fst c'" "snd c'"] assms
  unfolding step_effect_def by auto

text \<open>A property of the shared state that every step keeps holds after any steps.\<close>

lemma exec_steps_induct_invar:
  assumes "exec_steps ex c c'" "exec_invar (fst c)" "P (fst c)"
    and "\<And>d d'. exec_step ex d d' \<Longrightarrow> exec_invar (fst d) \<Longrightarrow> P (fst d) \<Longrightarrow> P (fst d')"
  shows "P (fst c') \<and> exec_invar (fst c')"
  using assms(1-3)
proof (induction rule: exec_steps.induct)
  case (exec_trans c c' c'')
  then have "P (fst c')" "exec_invar (fst c')" by simp_all
  then show ?case using assms(4) [OF exec_trans.hyps(2)] step_effectD [OF exec_trans.hyps(2)] by metis
qed simp

text \<open>
  C11. A terminal run is final: whatever requests, tasks, cancellations, restarts and ledger
  faults follow, the record of a run that is succeeded, failed or cancelled never changes again.
\<close>

theorem terminal_runs_are_final:
  assumes "exec_steps ex (exec_init, w0) (s, w)" and "exec_steps ex (s, w) (s', w')"
    and "ledger_runs (es_db s) i = Some r" and "is_terminal (jr_status r)"
  shows "ledger_runs (es_db s') i = Some r"
proof -
  have inv: "exec_invar (fst (s, w))" using exec_steps_invar [OF assms(1) exec_init_invar] by simp
  have step: "ledger_runs (es_db (fst d')) i = Some r"
    if d: "exec_step ex d d'" "exec_invar (fst d)" and L: "ledger_runs (es_db (fst d)) i = Some r" for d d'
  proof -
    obtain ch where "changes ch (ledger_runs (es_db (fst d))) (ledger_runs (es_db (fst d')))"
      using step_effectD [OF d] by metis
    then show ?thesis using L assms(4) by (rule changes_terminal)
  qed
  from exec_steps_induct_invar [OF assms(2) inv, of "\<lambda>s. ledger_runs (es_db s) i = Some r"]
    assms(3) step show ?thesis by simp
qed

theorem terminal_runs_are_final_witness:
  "\<exists>r. ledger_runs (es_db (restart None ''now'' demo_submitted)) ''r1'' = Some r
     \<and> ledger_runs (es_db (restart None ''later'' (restart None ''now'' demo_submitted))) ''r1'' = Some r"
proof -
  let ?s = "restart None ''now'' demo_submitted"
  let ?r = "orphan_failed ''now'' ''server restarted before run completed''
    (pending_run ''r1'' ''j'' ''p'' ''t0'')"
  have 1: "exec_steps demo_ex (exec_init, demo_world) (?s, demo_world)"
    by (rule exec_trans [OF demo_reach exec_step.Restart])
  have 2: "exec_steps demo_ex (?s, demo_world) (restart None ''later'' ?s, demo_world)"
    by (rule exec_trans [OF exec_refl exec_step.Restart])
  have 3: "ledger_runs (es_db ?s) ''r1'' = Some ?r"
    by (simp add: demo_restart ledger_runs_def) (simp add: orphan_failed_def pending_run_def)
  from terminal_runs_are_final [OF 1 2 3 orphan_failed_terminal] 3 show ?thesis by blast
qed

text \<open>A set flag stays set as long as its run is in the ledger.\<close>

lemma cell_stays_set:
  assumes "exec_step ex c c'" "exec_invar (fst c)" "es_cells (fst c) i"
    "ledger_runs (es_db (fst c)) i = Some r"
  shows "es_cells (fst c') i"
  using assms(1)
proof (cases rule: exec_step.cases)
  case (Submit w fault j now name params s res s')
  have "i \<noteq> j" if c: "create_run fault (es_db s) (pending_run j name jn now) = Inr db'" for jn db'
    using create_run_Inr(3) [OF _ c] assms(2,4) Submit(1) by (auto simp: pending_run_def exec_invar_def)
  then show ?thesis using Submit assms(3)
    by (auto simp: submit_def Let_def split: sum.splits)
next
  case (Restart s w fault now)
  then show ?thesis using assms(3) by (simp add: restart_def split: sum.splits prod.splits)
qed (use assms(3) in \<open>auto simp: cancel_def task_mark_def task_finish_def task_decide_def task_record_def
      task_cleanup_def split: if_splits option.splits prod.splits task_phase.splits\<close>)

lemma changes_not_succeeded:
  assumes "changes ch L L'" "L i = Some r" "jr_status r \<noteq> Succeeded"
    and "\<And>u. ch = Records i u \<Longrightarrow> su_status u \<noteq> Succeeded"
  shows "\<exists>r'. L' i = Some r' \<and> jr_status r' \<noteq> Succeeded"
  using assms
  by (cases ch) (auto simp: changes_def apply_update_def mark_running_def orphan_failed_def)

lemma cancelled_update: "su_status (final_update outcome True finished) \<noteq> Succeeded"
  by (simp add: final_update_def split: sum.split)

text \<open>A task decides what to record when it reads its flag, and at no other step.\<close>

lemma decided_step:
  assumes "exec_step ex c c'" "es_tasks (fst c') i = Some (task, Decided u)"
  shows "es_tasks (fst c) i = Some (task, Decided u)
    \<or> (\<exists>out finished. u = final_update out (es_cells (fst c) i) finished)"
  using assms(1)
proof (cases rule: exec_step.cases)
  case (Submit w fault j now name params s res s')
  then show ?thesis using assms(2) by (auto simp: submit_def Let_def split: sum.splits if_splits)
next
  case (Restart s w fault now)
  then show ?thesis using assms(2) by (auto simp: restart_def split: sum.splits prod.splits)
next
  case (Decide j finished s s' w)
  then obtain task' out where t: "s' = s\<lparr>es_tasks := (es_tasks s)(j \<mapsto>
      (task', Decided (final_update out (es_cells s j) finished)))\<rparr>"
    by (auto simp: task_decide_def split: option.splits prod.splits task_phase.splits)
  show ?thesis
  proof (cases "j = i")
    case True
    then have "u = final_update out (es_cells (fst c) i) finished" using assms(2) Decide(1,2) t by simp
    then show ?thesis by blast
  next
    case False
    then show ?thesis using assms(2) Decide(1,2) t by simp
  qed
qed (use assms(2) in \<open>auto simp: cancel_def task_mark_def task_finish_def task_record_def
      task_cleanup_def split: if_splits option.splits prod.splits task_phase.splits\<close>)

text \<open>The tasks that have not yet read their cancel flag for the last time.\<close>

definition undecided :: "task_phase \<Rightarrow> bool" where
  "undecided ph \<longleftrightarrow> (case ph of Decided _ \<Rightarrow> False | Recorded \<Rightarrow> False | _ \<Rightarrow> True)"

text \<open>
  C4. A cancellation that comes in time is honoured: when \<open>cancel\<close> returns true for a run whose
  task has not yet read its cancel flag for the last time (it is spawned, marked running, or has
  its outcome but has not decided what to record), or the flag was set by a request answered while
  the task executed, no later state of the ledger, in any interleaving, shows the run as
  succeeded; it ends cancelled, or failed by a restart, and does not disappear.
\<close>

theorem cancelled_never_succeeds:
  assumes "exec_steps ex (exec_init, w0) (s, w)"
    and "es_tasks s i = Some (task, ph)" and "undecided ph"
    and "cancel i s = (True, s1) \<or> es_cells s i \<and> s1 = s"
    and "exec_steps ex (s1, w) (s', w')"
  shows "\<exists>r'. ledger_runs (es_db s') i = Some r' \<and> jr_status r' \<noteq> Succeeded"
proof -
  have inv0: "exec_invar s" using exec_steps_invar [OF assms(1) exec_init_invar] .
  have inv: "exec_invar (fst (s1, w))"
    using assms(4) inv0 by (auto simp: cancel_def exec_invar_def split: if_splits)
  define P where "P t \<longleftrightarrow> es_cells (t :: exec_state) i
      \<and> (\<exists>r'. ledger_runs (es_db t) i = Some r' \<and> jr_status r' \<noteq> Succeeded)
      \<and> (\<forall>task u. es_tasks t i = Some (task, Decided u) \<longrightarrow> su_status u \<noteq> Succeeded)" for t
  have "ph \<noteq> Recorded" "\<forall>u. ph \<noteq> Decided u" using assms(3) by (auto simp: undecided_def)
  with exec_invarD(3) [OF inv0 assms(2)] assms(2,4) have P1: "P (fst (s1, w))"
    by (auto simp: P_def cancel_def split: if_splits)
  have step: "P (fst d')" if d: "exec_step ex d d'" "exec_invar (fst d)" and p: "P (fst d)" for d d'
  proof -
    from p obtain q where q: "es_cells (fst d) i" "ledger_runs (es_db (fst d)) i = Some q"
      "jr_status q \<noteq> Succeeded" by (auto simp: P_def)
    obtain ch where ch: "changes ch (ledger_runs (es_db (fst d))) (ledger_runs (es_db (fst d')))"
      "\<And>j u. ch = Records j u \<Longrightarrow> \<exists>task. es_tasks (fst d) j = Some (task, Decided u)"
      using step_effectD [OF d] by metis
    have "su_status u \<noteq> Succeeded" if "ch = Records i u" for u
      using ch(2) [OF that] p by (auto simp: P_def)
    with changes_not_succeeded [OF ch(1) q(2,3)]
    have "\<exists>r'. ledger_runs (es_db (fst d')) i = Some r' \<and> jr_status r' \<noteq> Succeeded" by blast
    moreover have "su_status u \<noteq> Succeeded" if "es_tasks (fst d') i = Some (task, Decided u)" for task u
      using decided_step [OF d(1) that] p q(1) cancelled_update by (auto simp: P_def)
    ultimately show ?thesis using cell_stays_set [OF d q(1,2)] by (simp add: P_def)
  qed
  have "P (fst (s', w'))" using exec_steps_induct_invar [OF assms(5) inv, of P] P1 step by blast
  then show ?thesis by (simp add: P_def)
qed

theorem cancelled_never_succeeds_witness:
  "\<exists>s1 r'. cancel ''r1'' demo_submitted = (True, s1)
     \<and> ledger_runs (es_db (restart None ''now'' s1)) ''r1'' = Some r' \<and> jr_status r' \<noteq> Succeeded"
proof -
  obtain s1 where c: "cancel ''r1'' demo_submitted = (True, s1)"
    by (simp add: cancel_def demo_submitted_def)
  have 1: "exec_steps demo_ex (s1, demo_world) (restart None ''now'' s1, demo_world)"
    by (rule exec_trans [OF exec_refl exec_step.Restart])
  have 2: "es_tasks demo_submitted ''r1'' = Some (demo_task, Spawned)" by (simp add: demo_submitted_def)
  have 3: "undecided Spawned" by (simp add: undecided_def)
  from cancelled_never_succeeds [OF demo_reach 2 3 disjI1 [OF c] 1] c show ?thesis by blast
qed

text \<open>What the record of a run may say in each status.\<close>

definition run_consistent :: "job_run \<Rightarrow> bool" where
  "run_consistent r \<longleftrightarrow>
     (case jr_status r of
        Succeeded \<Rightarrow> jr_rows_written r \<noteq> None \<and> jr_error r = None \<and> jr_finished_at r \<noteq> None
      | Cancelled \<Rightarrow> jr_finished_at r \<noteq> None \<and> jr_error r \<noteq> None \<and>
          (jr_rows_written r = None \<or> jr_error r = Some ''cancelled after commit'')
      | RunFailed \<Rightarrow> jr_rows_written r = None \<and> jr_snapshot_id r = None \<and> jr_error r \<noteq> None
          \<and> jr_finished_at r \<noteq> None
      | _ \<Rightarrow> jr_rows_written r = None \<and> jr_snapshot_id r = None \<and> jr_error r = None)"

lemma changes_consistent:
  assumes "changes ch L L'" "\<And>i r. L i = Some r \<Longrightarrow> run_consistent r" "L' i = Some r'"
  shows "run_consistent r'"
proof (cases ch)
  case Same
  then show ?thesis using assms by (simp add: changes_def)
next
  case (Fresh r)
  then show ?thesis using assms by (auto simp: changes_def run_consistent_def split: if_splits)
next
  case (Marks j started)
  then obtain r where r: "L j = Some r" "\<not> is_terminal (jr_status r)"
    "L' = L(j \<mapsto> apply_update (mark_running started) r)" using assms(1) by (auto simp: changes_def)
  have "run_consistent (apply_update (mark_running started) r)"
    using assms(2) [OF r(1)] r(2)
    by (cases "jr_status r") (simp_all add: run_consistent_def apply_update_def mark_running_def coalesce_def)
  then show ?thesis using assms(2,3) r by (auto split: if_splits)
next
  case (Records j u)
  then obtain r out cancelled finished where r: "L j = Some r" "\<not> is_terminal (jr_status r)"
    "L' = L(j \<mapsto> apply_update (final_update out cancelled finished) r)"
    using assms(1) by (auto simp: changes_def final_def)
  have "run_consistent (apply_update (final_update out cancelled finished) r)"
    using assms(2) [OF r(1)] r(2)
    by (cases "jr_status r"; cases out; cases cancelled)
      (simp_all add: run_consistent_def apply_update_def final_update_def coalesce_def)
  then show ?thesis using assms(2,3) r by (auto split: if_splits)
next
  case (Orphans now)
  then obtain r where r: "L i = Some r" "r' = orphan_failed now ''server restarted before run completed'' r"
    using assms(1,3) by (auto simp: changes_def)
  from assms(2) [OF r(1)] show ?thesis
    unfolding r(2)
    by (cases "jr_status r") (simp_all add: run_consistent_def orphan_failed_def)
qed

text \<open>
  C17. The ledger never contradicts itself: in every reachable state a succeeded run has a row
  count and no error; a failed run has an error and neither row count nor snapshot; a cancelled
  run has a row count only if it was cancelled after its commit; an unfinished run has none of
  them. The ledger stays well formed and the cancel flags are exactly those of the live tasks.
\<close>

theorem reachable_runs_consistent:
  assumes "exec_steps ex (exec_init, w0) (s, w)" and "ledger_runs (es_db s) i = Some r"
  shows "run_consistent r \<and> ledger_invar (es_db s) \<and> es_flags s = dom (es_tasks s)"
proof -
  have inv: "exec_invar (fst (exec_init, w0))" by (simp add: exec_init_invar)
  define P where "P t \<longleftrightarrow> (\<forall>i r. ledger_runs (es_db (t :: exec_state)) i = Some r \<longrightarrow> run_consistent r)" for t
  have P0: "P (fst (exec_init, w0))" by (simp add: P_def exec_init_def ledger_runs_def)
  have step: "P (fst d')" if "exec_step ex d d'" "exec_invar (fst d)" "P (fst d)" for d d'
    using step_effectD [OF that(1,2)] changes_consistent that(3) unfolding P_def by metis
  have "P (fst (s, w)) \<and> exec_invar (fst (s, w))"
    by (rule exec_steps_induct_invar [of ex "(exec_init, w0)" "(s, w)" P, OF assms(1) inv P0 step])
  then show ?thesis using assms(2) by (auto simp: P_def exec_invar_def)
qed

theorem reachable_runs_consistent_witness:
  "run_consistent (pending_run ''r1'' ''j'' ''p'' ''t0'') \<and> es_flags demo_submitted = {''r1''}"
  using reachable_runs_consistent [OF demo_reach demo_row] by (simp add: demo_submitted_def)

section \<open>Properties of submission and execution\<close>

text \<open>
  C18. Submission is atomic: a rejected request leaves the ledger, the flags and the tasks exactly
  as they were; an accepted one has passed every check of an existing job (no expected parameter
  missing, all values supported, destination resolved, SQL planned, pre-flight passed), and adds
  exactly one run to the ledger, under an identifier that was free, pending and with the submitted
  parameters; every other run is as it was, the flags gain that run's flag, which is clear, and one
  task is spawned.
\<close>

theorem submit_all_or_nothing:
  assumes "ledger_invar (es_db s)"
    and "submit ex w fault run_id now job_name params s = (r, s')"
  shows "case r of
      Inl e \<Rightarrow> s' = s
    | Inr i \<Rightarrow> i = run_id
        \<and> (\<exists>job task. ex_jobs ex job_name = Some job
            \<and> filter (\<lambda>n. map_of params n = None) (jp_params (jd_pipeline job)) = []
            \<and> substitute_job_params (jp_sql (jd_pipeline job))
                 (longest_first (jp_params (jd_pipeline job))) (map_of params) = (tk_sql task, None)
            \<and> resolve_destination ex (jd_destination job) = Inr (tk_destination task)
            \<and> (\<exists>plan. w_sql (ex_ops ex) w (tk_sql task) = Inr plan
                 \<and> preflight ex w (tk_destination task) (jd_destination job)
                     (w_plan_schema (ex_ops ex) plan) = Inr ())
            \<and> es_tasks s' = (es_tasks s)(run_id \<mapsto> (task, Spawned)))
        \<and> get_run None (es_db s') run_id = Inr (Some (pending_run run_id job_name
              (sorted_json (ex_json_text ex) params) now))
        \<and> ledger_runs (es_db s) run_id = None
        \<and> ledger_runs (es_db s') = (ledger_runs (es_db s))(run_id \<mapsto>
              pending_run run_id job_name (sorted_json (ex_json_text ex) params) now)
        \<and> es_flags s' = insert run_id (es_flags s)
        \<and> es_cells s' = (es_cells s)(run_id := False)"
proof (cases "submit_check ex w job_name params")
  case (Inl e)
  with assms(2) show ?thesis by (auto simp: submit_def)
next
  case (Inr task)
  let ?run = "pending_run run_id job_name (sorted_json (ex_json_text ex) params) now"
  show ?thesis
  proof (cases "create_run fault (es_db s) ?run")
    case (Inl e)
    with assms(2) \<open>submit_check _ _ _ _ = _\<close> show ?thesis by (auto simp: submit_def)
  next
    case c: (Inr db')
    note cr = create_run_Inr [OF assms(1) c]
    have "get_run None db' run_id = Inr (Some ?run)"
      using sqlite_ledger.lookup_spec [OF cr(1), of run_id] cr(2) by (simp add: pending_run_def)
    moreover obtain job where "ex_jobs ex job_name = Some job"
      "filter (\<lambda>n. map_of params n = None) (jp_params (jd_pipeline job)) = []"
      "substitute_job_params (jp_sql (jd_pipeline job))
         (longest_first (jp_params (jd_pipeline job))) (map_of params) = (tk_sql task, None)"
      "resolve_destination ex (jd_destination job) = Inr (tk_destination task)"
      "\<exists>plan. w_sql (ex_ops ex) w (tk_sql task) = Inr plan
         \<and> preflight ex w (tk_destination task) (jd_destination job)
             (w_plan_schema (ex_ops ex) plan) = Inr ()"
      using Inr unfolding submit_check_def
      by (auto simp: res_simps Let_def split: if_split_asm prod.splits option.splits)
    moreover have "ledger_runs db' = (ledger_runs (es_db s))(run_id \<mapsto> ?run)"
      "ledger_runs (es_db s) run_id = None"
      using cr(2,3) by (simp_all add: pending_run_def)
    ultimately show ?thesis
      using assms(2) Inr c by (auto simp: submit_def intro!: exI [of _ task])
  qed
qed

theorem submit_all_or_nothing_witness:
  "get_run None (es_db demo_submitted) ''r1'' = Inr (Some (pending_run ''r1'' ''j'' ''p'' ''t0''))"
proof -
  have inv: "ledger_invar (es_db exec_init)" by (simp add: exec_init_def ledger_invar_def)
  from submit_all_or_nothing [OF inv demo_submit] show ?thesis
    by (simp add: sorted_json_def demo_ex_def)
qed

text \<open>
  Where jobs may write: a destination resolves to a Lance path only for a configured Lance
  source with a known path, to a SQL table only for a Postgres, MySQL or SQLite source or for an
  undotted name that is no source; every other destination is rejected.
\<close>

theorem resolve_destination_iff:
  "resolve_destination ex dest = Inr d \<longleftrightarrow>
     (case ex_types ex (hd (str_split (CHR ''.'') (dest_table dest))) of
        None \<Rightarrow> CHR ''.'' \<notin> set (dest_table dest) \<and> d = SqlDmlDestination (dest_table dest)
      | Some t \<Rightarrow>
          (if t = Lance
           then map_option LanceDestination
                  (ex_paths ex (hd (str_split (CHR ''.'') (dest_table dest)))) = Some d
           else t \<in> {Postgres, Mysql, Sqlite} \<and> d = SqlDmlDestination (dest_table dest)))"
  by (auto simp: resolve_destination_def Let_def res_simps split: option.split data_source_type.splits)

lemma diff_produced_Nil:
  "diff_produced show_ty table expected f = [] \<longleftrightarrow>
     map_option fd_type (map_of (rev (map (\<lambda>e. (fd_name e, e)) expected)) (fd_name f)) = Some (fd_type f)"
  by (auto simp: diff_produced_def split: option.split)

lemma map_of_fields:
  assumes "distinct (map fd_name expected)"
  shows "map_of (rev (map (\<lambda>e. (fd_name e, e)) expected)) n = Some e \<longleftrightarrow> e \<in> set expected \<and> fd_name e = n"
proof -
  have "distinct (map fst (rev (map (\<lambda>e. (fd_name e, e)) expected)))"
    using assms by (simp add: o_def distinct_map inj_on_def)
  then have "map_of (rev (map (\<lambda>e. (fd_name e, e)) expected)) n = Some e \<longleftrightarrow>
      (n, e) \<in> set (rev (map (\<lambda>e. (fd_name e, e)) expected))" by (rule map_of_eq_Some_iff)
  then show ?thesis by auto
qed

text \<open>
  The pre-flight schema diff accepts exactly when every produced column has a destination
  column of the same name and type and every non-nullable destination column is produced; the
  order of the columns does not matter.
\<close>

theorem diff_schemas_ok_iff:
  assumes "distinct (map fd_name expected)"
  shows "diff_schemas show_ty table produced expected = Inr () \<longleftrightarrow>
     (\<forall>f \<in> set produced. \<exists>e \<in> set expected. fd_name e = fd_name f \<and> fd_type e = fd_type f) \<and>
     (\<forall>e \<in> set expected. fd_nullable e \<or> (\<exists>f \<in> set produced. fd_name f = fd_name e))"
proof -
  have 1: "diff_produced show_ty table expected f = [] \<longleftrightarrow>
      (\<exists>e \<in> set expected. fd_name e = fd_name f \<and> fd_type e = fd_type f)" for f
    unfolding diff_produced_Nil by (auto simp: map_option_eq_Some map_of_fields [OF assms])
  have 2: "diff_required produced e = [] \<longleftrightarrow>
      fd_nullable e \<or> (\<exists>f \<in> set produced. fd_name f = fd_name e)" for e
    by (auto simp: diff_required_def list_ex_iff)
  have "diff_schemas show_ty table produced expected = Inr () \<longleftrightarrow>
      list_all (\<lambda>f. diff_produced show_ty table expected f = []) produced
      \<and> list_all (\<lambda>e. diff_required produced e = []) expected"
    by (auto simp: diff_schemas_def Let_def list_all_iff)
  then show ?thesis by (simp add: list_all_iff 1 2)
qed

theorem diff_schemas_ok_iff_witness:
  "diff_schemas show_nat ''t'' [\<lparr>fd_name = ''b'', fd_type = 2, fd_nullable = True\<rparr>]
     [\<lparr>fd_name = ''a'', fd_type = 1, fd_nullable = True\<rparr>,
      \<lparr>fd_name = ''b'', fd_type = (2::nat), fd_nullable = False\<rparr>] = Inr ()"
  using diff_schemas_ok_iff [of "[\<lparr>fd_name = ''a'', fd_type = 1, fd_nullable = True\<rparr>,
      \<lparr>fd_name = ''b'', fd_type = (2::nat), fd_nullable = False\<rparr>]" show_nat "''t''"
      "[\<lparr>fd_name = ''b'', fd_type = 2, fd_nullable = True\<rparr>]"] by simp

lemma execute_task_outcomes:
  assumes "transactional (ex_ops ex) resolve content registered" and "dquote \<notin> set uuid"
    and "staging_name uuid \<notin> registered w" and "resolve (str_split (CHR ''.'') table) \<noteq> resolve [staging_name uuid]"
    and "tk_destination task = SqlDmlDestination table"
    and "execute_task ex uuid cancelled flag task w = (r, w')"
  shows "registered w' = registered w \<and>
    (case r of Inl e \<Rightarrow> content w' = content w
     | Inr out \<Rightarrow> \<not> cancelled \<and> (\<exists>plan stream bs. w_sql (ex_ops ex) w (tk_sql task) = Inr plan
         \<and> ex_stream ex w plan = Inr stream \<and> stream_result stream = Inr bs
         \<and> clear_until flag 0 (stream_polls stream)
         \<and> content w' = inserted (content w) (resolve (str_split (CHR ''.'') table)) bs
         \<and> wo_rows_written out = total_rows (ex_rows ex) bs))"
proof -
  { fix plan stream
    assume p: "\<not> cancelled" "w_sql (ex_ops ex) w (tk_sql task) = Inr plan" "ex_stream ex w plan = Inr stream"
    obtain r0 w0 where wr: "sql_dml_write (ex_ops ex) (ex_rows ex) table uuid flag stream w = (r0, w0)"
      by fastforce
    have "is_ok r = is_ok r0" "is_ok r \<longrightarrow> projr r = projr r0" "w' = w0"
      using assms(5,6) p wr by (cases r0; auto simp: execute_task_def jd_write_def)+
    with sql_dml_write_outcomes [OF assms(1-4) wr] p have ?thesis
      by (cases r0; cases r) auto }
  then show ?thesis using assms(6)
    by (auto simp: execute_task_def split: if_splits sum.splits)
qed

lemma execute_dropped_outcomes:
  assumes "transactional (ex_ops ex) resolve content registered" and "dquote \<notin> set uuid"
    and "resolve (str_split (CHR ''.'') table) \<noteq> resolve [staging_name uuid]"
    and "tk_destination task = SqlDmlDestination table"
    and "w' = execute_dropped ex uuid flag task pt w"
  shows "registered w' \<in> {registered w, insert (staging_name uuid) (registered w)} \<and>
    (content w' = content w \<or> (\<exists>plan stream bs. w_sql (ex_ops ex) w (tk_sql task) = Inr plan
       \<and> ex_stream ex w plan = Inr stream \<and> stream_result stream = Inr bs
       \<and> content w' = inserted (content w) (resolve (str_split (CHR ''.'') table)) bs))"
proof -
  { fix plan stream dp
    assume p: "w_sql (ex_ops ex) w (tk_sql task) = Inr plan" "ex_stream ex w plan = Inr stream"
      and "pt = DropWrite dp"
    then have "w' = sql_dml_dropped (ex_ops ex) (ex_rows ex) table uuid flag stream dp w"
      by (simp add: assms(4,5) execute_dropped_def jd_dropped_def)
    from sql_dml_dropped_outcomes [OF assms(1-3) this] p have ?thesis by blast }
  then show ?thesis using assms(5)
    by (auto simp: execute_dropped_def split: task_drop.splits sum.splits)
qed

text \<open>
  C5. A job's write is all or nothing, under its timeout too: with a transactional backend, if
  the body reports success, the rendered query was planned, no poll saw the cancel flag, and the
  configured table, and no other, has grown by exactly the batches of the query, whose number of
  rows is the reported one; if it fails or was cancelled, every table has the rows it had; in
  both cases the session keeps the tables it had. If the timer fires instead, every table has the
  rows it had or the configured one has grown by the whole result (its commit had been sent), and
  the session may keep the staging table.
\<close>

theorem execute_task_all_or_nothing:
  assumes "transactional (ex_ops ex) resolve content registered" and "dquote \<notin> set uuid"
    and "staging_name uuid \<notin> registered w" and "resolve (str_split (CHR ''.'') table) \<noteq> resolve [staging_name uuid]"
    and "tk_destination task = SqlDmlDestination table"
    and "run_body ex uuid cancelled flag task pt w = (r, w')"
  defines "target \<equiv> resolve (str_split (CHR ''.'') table)"
  shows "case r of
      Inr out \<Rightarrow> \<not> cancelled \<and> registered w' = registered w
        \<and> (\<exists>plan stream bs. w_sql (ex_ops ex) w (tk_sql task) = Inr plan
            \<and> ex_stream ex w plan = Inr stream \<and> stream_result stream = Inr bs
            \<and> clear_until flag 0 (stream_polls stream)
            \<and> content w' = (content w)(target := content w target @ bs)
            \<and> wo_rows_written out = total_rows (ex_rows ex) bs)
    | Inl e \<Rightarrow> content w' = content w \<and> registered w' = registered w
        \<or> (\<exists>ms. tk_timeout_ms task = Some ms \<and> 0 < ms \<and> pt \<noteq> None \<and> \<not> cancelled
            \<and> e = ''job timed out after '' @ show_nat (unat ms) @ ''ms before commit''
            \<and> registered w' \<in> {registered w, insert (staging_name uuid) (registered w)}
            \<and> (content w' = content w
               \<or> (\<exists>plan stream bs. w_sql (ex_ops ex) w (tk_sql task) = Inr plan
                    \<and> ex_stream ex w plan = Inr stream \<and> stream_result stream = Inr bs
                    \<and> content w' = (content w)(target := content w target @ bs))))"
proof (cases "run_body ex uuid cancelled flag task pt w = execute_task ex uuid cancelled flag task w")
  case True
  then have "execute_task ex uuid cancelled flag task w = (r, w')" using assms(6) by simp
  note out = execute_task_outcomes [OF assms(1-5) this]
  show ?thesis
  proof (cases r)
    case (Inl e)
    with out show ?thesis by simp
  next
    case (Inr res)
    with out show ?thesis unfolding target_def inserted_def by simp
  qed
next
  case False
  then obtain ms d where ms: "tk_timeout_ms task = Some ms" "0 < ms" "\<not> cancelled" "pt = Some d"
    and r: "r = Inl (''job timed out after '' @ show_nat (unat ms) @ ''ms before commit'')"
    and w': "w' = execute_dropped ex uuid flag task d w"
    using assms(6) by (auto simp: run_body_def with_timeout_def split: option.splits if_splits)
  from execute_dropped_outcomes [OF assms(1,2,4,5) w'] ms show ?thesis
    unfolding r target_def inserted_def by simp
qed

theorem execute_task_all_or_nothing_witness:
  "\<exists>out w'. run_body demo_ex ''u'' False (\<lambda>_. False) demo_task None demo_world = (Inr out, w')
     \<and> mem_content w' ''t'' = [[1, 2]] \<and> snd w' = {''t''}"
proof -
  have t: "transactional (ex_ops demo_ex) id mem_paths snd"
    by (simp add: demo_ex_def mem_ops_transactional)
  have u: "dquote \<notin> set ''u''" by (simp add: dquote_def)
  have f: "staging_name ''u'' \<notin> snd demo_world" by (simp add: staging_name_def demo_world_def)
  have o: "id (str_split (CHR ''.'') ''t'') \<noteq> id [staging_name ''u'']" by (simp add: staging_name_def)
  have d: "tk_destination demo_task = SqlDmlDestination ''t''" by (simp add: demo_task_def)
  obtain out w' where e: "run_body demo_ex ''u'' False (\<lambda>_. False) demo_task None demo_world = (Inr out, w')"
    by (simp add: run_body_def with_timeout_def execute_task_def jd_write_def demo_task_def demo_ex_def
        demo_world_def sql_dml_write_def sql_dml_insert_def mem_ops_def mem_sql_def mem_collect_def
        demo_query [unfolded mem_sql_def] read_dml_insert [OF u] drain_steps)
  from execute_task_all_or_nothing [OF t u f o d e]
  have "mem_paths w' [''t''] = mem_paths demo_world [''t''] @ [[1, 2]]" "snd w' = snd demo_world"
    by (auto simp: demo_ex_def)
  with e show ?thesis by (auto simp: demo_world_def mem_paths_def mem_content_def)
qed

text \<open>
  The staging table of a write that is timed out stays in the session: the code after the await
  that would drop it does not run.
\<close>

theorem timeout_leaks_the_staging_table:
  "\<exists>e w'. run_body demo_ex ''u'' False (\<lambda>_. False) (demo_task\<lparr>tk_timeout_ms := Some 5\<rparr>)
      (Some (DropWrite DropCollecting)) demo_world = (Inl e, w') \<and> staging_name ''u'' \<in> snd w'"
proof -
  have demo_insert: "mem_sql w (dml_insert_sql ''t'' ''u'') = Inr (Some ''t'')" for w
    using read_dml_insert [of "''u''" "''t''"] by (simp add: mem_sql_def dquote_def)
  show ?thesis
    by (simp add: run_body_def with_timeout_def execute_dropped_def jd_dropped_def sql_dml_dropped_def
        demo_task_def demo_ex_def demo_world_def mem_ops_def demo_query
        demo_insert)
qed

section \<open>Parameter substitution renders the template\<close>

lemma job_literal_safe: "brace_free_value v \<Longrightarrow> job_literal v = Some t \<Longrightarrow> CHR ''{'' \<notin> set t"
  by (cases v) (auto simp: sql_string_literal_chars squote_def bool_to_string_def split: if_splits)

interpretation job_lits: literal_renderer job_literal brace_free_value
  by unfold_locales (simp_all add: job_literal_safe)

lemma substitute_job_params_foldl:
  "list_all (\<lambda>n. case params n of Some v \<Rightarrow> job_literal v \<noteq> None | None \<Rightarrow> True) names \<Longrightarrow>
   substitute_job_params out names params = (foldl (job_lits.substitute_one params) out names, None)"
proof (induction names arbitrary: out)
  case (Cons n names)
  then show ?case
    by (cases "params n") (auto simp: job_lits.substitute_one_def split: option.splits)
qed simp

lemma set_longest_first [simp]: "set (longest_first names) = set names"
  by (simp add: longest_first_def)

text \<open>
  C6. Rendering a job's SQL is the simultaneous substitution of its parameters, for values that
  contain no opening brace, names without braces, and a template with no opening brace outside its
  placeholders: every hole of the template becomes the literal of its own parameter and the text
  around the holes is unchanged; the order of the names (longest first, over a hash map's iteration
  order) has no influence.
\<close>

theorem job_sql_rendering:
  assumes "list_all brace_free names" and "\<And>p v. params p = Some v \<Longrightarrow> brace_free_value v"
    and "list_all piece_wf ps" and "template_holes ps \<subseteq> set names"
    and "list_all (\<lambda>n. \<exists>v. params n = Some v \<and> job_literal v \<noteq> None) names"
  shows "substitute_job_params (template_text ps) (longest_first names) params =
     (render_template (\<lambda>p. Option.bind (params p) job_literal) ps, None)"
proof -
  have 1: "list_all brace_free (longest_first names)"
    using assms(1) by (simp add: list_all_iff)
  have 2: "list_all (\<lambda>n. case params n of Some v \<Rightarrow> job_literal v \<noteq> None | None \<Rightarrow> True) (longest_first names)"
    using assms(5) by (auto simp: list_all_iff)
  have 3: "template_holes ps \<subseteq> set (longest_first names)" using assms(4) by simp
  show ?thesis
    using job_lits.substitute_renders [OF 1 assms(2,3) 3] substitute_job_params_foldl [OF 2]
    by (simp add: job_lits.literals_def [abs_def])
qed

theorem job_sql_rendering_witness:
  "substitute_job_params ''SELECT {a}'' (longest_first [''a'']) [''a'' \<mapsto> JNumber ''7''] = (''SELECT 7'', None)"
proof -
  have "\<And>p v. [''a'' \<mapsto> JNumber ''7''] p = Some v \<Longrightarrow> brace_free_value v"
    by (auto split: if_splits)
  from job_sql_rendering [of "[''a'']" "[''a'' \<mapsto> JNumber ''7'']" "[Text ''SELECT '', Hole ''a'']", OF _ this] show ?thesis
    by (simp add: template_text_def placeholder_def brace_free_def template_holes_def render_template_def)
qed

text \<open>
  Without that condition a value can leave its quotes: a string parameter that contains the
  placeholder of a later parameter is substituted again, inside its own quotes, so the text of
  the later value is read as SQL outside every literal. Reading the rendered text at the place of
  the first value gives the empty string, followed by the attacker's text.
\<close>

theorem job_sql_second_substitution:
  "read_sql_string (drop 7 (fst (substitute_job_params ''SELECT {ab}, {c}''
       (longest_first [''c'', ''ab''])
       [''ab'' \<mapsto> JString ''{c}'', ''c'' \<mapsto> JString '' FROM secrets --'']))) =
     Some ([], '' FROM secrets --'' @ [squote, squote] @ '', '' @ sql_string_literal '' FROM secrets --'')"
  by code_simp

end
