(* ===== verification/Http_Handlers.thy ===== *)
theory Http_Handlers
  imports Sql_Template Server_Startup Job_Executor
begin

text \<open>
  The HTTP surface: rendering of request parameters into SQL and the pipeline endpoints
  (\<^verbatim>\<open>server/src/pipeline_handlers.rs\<close>), the job endpoints (\<^verbatim>\<open>server/src/jobs_handlers.rs\<close>), the
  metrics they record (\<^verbatim>\<open>server/src/metrics.rs\<close>), the engine's \<open>execute\<close>
  (\<^verbatim>\<open>skardi/src/engine/datafusion.rs\<close>), and the routes (\<^verbatim>\<open>server/src/server.rs\<close>). A response is a
  status with an error body, or a JSON value (status 200). serde's printers are parameters.
\<close>

section \<open>Rendering parameters\<close>

text \<open>\<open>to_text\<close> is \<open>Value::to_string\<close>, the compact JSON text.\<close>

fun scalar_to_sql :: "(json \<Rightarrow> string) \<Rightarrow> json \<Rightarrow> string" where
  "scalar_to_sql to_text (JNumber n) = n"
| "scalar_to_sql to_text (JString s) = sql_string_literal s"
| "scalar_to_sql to_text (JBool b) = bool_to_string b"
| "scalar_to_sql to_text JNull = ''NULL''"
| "scalar_to_sql to_text other = to_text other"

definition row_cell_to_sql :: "(json \<Rightarrow> string) \<Rightarrow> json \<Rightarrow> string" where
  "row_cell_to_sql to_text v =
     (case v of
        JArray inner \<Rightarrow> ''['' @ str_join '', '' (map (scalar_to_sql to_text) inner) @ '']''
      | _ \<Rightarrow> scalar_to_sql to_text v)"

definition array_elements :: "json \<Rightarrow> json list" where
  "array_elements v = (case v of JArray vs \<Rightarrow> vs | _ \<Rightarrow> [])"

definition tuple_to_sql :: "(json \<Rightarrow> string) \<Rightarrow> json list \<Rightarrow> string" where
  "tuple_to_sql to_text cells = ''('' @ str_join '', '' (map (row_cell_to_sql to_text) cells) @ '')''"

text \<open>The literal of a value, or why there is none.\<close>

datatype render_failure = EmptyArray | UnsupportedShape

definition array_to_sql :: "(json \<Rightarrow> string) \<Rightarrow> json list \<Rightarrow> render_failure + string" where
  "array_to_sql to_text arr =
     (if arr = [] then Inl EmptyArray
      else if list_all is_array arr then
        (let row_arrays = map array_elements arr; width = length (hd row_arrays) in
         if width = 0 \<or> list_ex (\<lambda>r. length r \<noteq> width) row_arrays then Inl UnsupportedShape
         else Inr (str_join '', '' (map (tuple_to_sql to_text) row_arrays)))
      else if list_ex is_array arr then Inl UnsupportedShape
      else Inr (''['' @ str_join '', '' (map (scalar_to_sql to_text) arr) @ '']''))"

fun http_literal :: "(json \<Rightarrow> string) \<Rightarrow> json \<Rightarrow> render_failure + string" where
  "http_literal to_text (JString s) = Inr (sql_string_literal s)"
| "http_literal to_text (JNumber n) = Inr n"
| "http_literal to_text (JBool b) = Inr (bool_to_string b)"
| "http_literal to_text JNull = Inr ''NULL''"
| "http_literal to_text (JArray arr) = array_to_sql to_text arr"
| "http_literal to_text (JObject _) = Inl UnsupportedShape"

text \<open>The entry of the unsupported list; the source's dash outside ASCII is cut.\<close>

definition unsupported_entry :: "(json \<Rightarrow> string) \<Rightarrow> string \<Rightarrow> json \<Rightarrow> render_failure \<Rightarrow> string" where
  "unsupported_entry debug name v f =
     (case f of EmptyArray \<Rightarrow> name @ '': empty array''
      | UnsupportedShape \<Rightarrow> name @ '': '' @ debug v)"

text \<open>The loop: the text so far, the missing and the unsupported parameters.\<close>

fun substitute_http_params ::
  "(json \<Rightarrow> string) \<Rightarrow> (json \<Rightarrow> string) \<Rightarrow> string \<times> string list \<times> string list \<Rightarrow> string list
   \<Rightarrow> (string \<rightharpoonup> json) \<Rightarrow> string \<times> string list \<times> string list" where
  "substitute_http_params to_text debug (sql, missing, unsupported) [] parameters =
     (sql, missing, unsupported)"
| "substitute_http_params to_text debug (sql, missing, unsupported) (name # names) parameters =
     substitute_http_params to_text debug
       (case parameters name of
          None \<Rightarrow> (sql, missing @ [name], unsupported)
        | Some v \<Rightarrow>
            (case http_literal to_text v of
               Inl f \<Rightarrow> (sql, missing, unsupported @ [unsupported_entry debug name v f])
             | Inr lit \<Rightarrow> (str_replace (placeholder name) lit sql, missing, unsupported)))
       names parameters"

section \<open>Responses and metrics\<close>

record error_response =
  er_error :: string
  er_error_type :: string
  er_details :: "json option"
  er_timestamp :: string

type_synonym http_result = "(nat \<times> error_response) + json"

definition create_error_response :: "string \<Rightarrow> string \<Rightarrow> string \<Rightarrow> json option \<Rightarrow> error_response" where
  "create_error_response now error_msg error_type details =
     \<lparr>er_error = error_msg, er_error_type = error_type, er_details = details, er_timestamp = now\<rparr>"

definition jnat :: "nat \<Rightarrow> json" where
  "jnat n = JNumber (show_nat n)"

definition jopt :: "string option \<Rightarrow> json" where
  "jopt v = (case v of Some s \<Rightarrow> JString s | None \<Rightarrow> JNull)"

definition create_success_response :: "string \<Rightarrow> json list \<Rightarrow> nat \<Rightarrow> nat \<Rightarrow> json" where
  "create_success_response now data rows execution_time_ms =
     JObject [(''success'', JBool True), (''data'', JArray data), (''rows'', jnat rows),
              (''execution_time_ms'', jnat execution_time_ms), (''timestamp'', JString now)]"

text \<open>What the metrics instruments record: the labels of the request counter; both kinds also
  record the latency under the pipeline's label.\<close>

datatype metric = RequestSuccess string nat | RequestError string nat string

definition record_success :: "metric list \<Rightarrow> string \<Rightarrow> nat \<Rightarrow> metric list" where
  "record_success ms pipeline latency = ms @ [RequestSuccess pipeline latency]"

definition record_error :: "metric list \<Rightarrow> string \<Rightarrow> nat \<Rightarrow> string \<Rightarrow> metric list" where
  "record_error ms pipeline latency error_type = ms @ [RequestError pipeline latency error_type]"

section \<open>The engine\<close>

record ('df, 'b, 'sch) engine_lib =
  en_sql :: "string \<Rightarrow> string + 'df"
  en_schema :: "'df \<Rightarrow> 'sch"
  en_collect :: "'df \<Rightarrow> string + 'b list"
  en_new_empty :: "'sch \<Rightarrow> 'b"
  en_batch_schema :: "'b \<Rightarrow> 'sch"
  en_concat :: "'sch \<Rightarrow> 'b list \<Rightarrow> string + 'b"
  en_rows_json :: "'b \<Rightarrow> string + json list"
  en_num_rows :: "'b \<Rightarrow> nat"

definition engine_execute :: "('df, 'b, 'sch) engine_lib \<Rightarrow> string \<Rightarrow> string + 'b" where
  "engine_execute en sql =
     try_res (map_err (\<lambda>e. ''Failed to execute SQL query: '' @ e) (en_sql en sql)) (\<lambda>df.
     try_res (map_err (\<lambda>e. ''Failed to collect query results: '' @ e) (en_collect en df)) (\<lambda>batches.
     case batches of
       [] \<Rightarrow> Inr (en_new_empty en (en_schema en df))
     | [b] \<Rightarrow> Inr b
     | b # _ \<Rightarrow> map_err (\<lambda>e. ''Failed to concatenate result batches: '' @ e)
                (en_concat en (en_batch_schema en b) batches)))"

section \<open>Executing a pipeline\<close>

text \<open>What the handlers read of a loaded pipeline; \<open>pi_params\<close> are the fields of its request schema
  with their printed types, in the iteration order of their map.\<close>

record pipeline_info =
  pi_name :: string
  pi_version :: string
  pi_params :: "(string \<times> string) list"
  pi_sql :: string
  pi_created_at :: string
  pi_updated_at :: string

text \<open>
  The configuration behind its lock: \<open>None\<close> when the lock is poisoned. The pipelines are listed
  in the iteration order of their map.
\<close>

record http_config =
  hc_pipelines :: "(string \<times> pipeline_info) list"
  hc_data_sources :: "data_source list"
  hc_semantics :: registry

definition lock_error :: "string \<Rightarrow> nat \<times> error_response" where
  "lock_error now =
     (500, create_error_response now ''Failed to acquire read lock on configuration'' ''internal_error'' None)"

definition jstrings :: "string list \<Rightarrow> json" where
  "jstrings xs = JArray (map JString xs)"

definition pipeline_not_found :: "string \<Rightarrow> string \<Rightarrow> (string \<times> json) list \<Rightarrow> nat \<times> error_response" where
  "pipeline_not_found now name details =
     (404, create_error_response now (''Pipeline '' @ quote @ name @ quote @ '' not found'')
        ''pipeline_not_found'' (Some (JObject details)))"

definition validation_details ::
  "string list \<Rightarrow> string list \<Rightarrow> string list \<Rightarrow> string list \<Rightarrow> json" where
  "validation_details expected received missing unsupported =
     JObject ([(''expected_parameters'', jstrings expected), (''received_parameters'', jstrings received)]
       @ (if missing \<noteq> [] then [(''missing_parameters'', jstrings missing)] else [])
       @ (if unsupported \<noteq> [] then [(''unsupported_parameters'', jstrings unsupported)] else []))"

definition run_query ::
  "('df, 'b, 'sch) engine_lib \<Rightarrow> string \<Rightarrow> nat \<Rightarrow> string \<Rightarrow> string \<Rightarrow> metric list
   \<Rightarrow> http_result \<times> metric list" where
  "run_query en now elapsed name sql ms =
     (case engine_execute en sql of
        Inl e \<Rightarrow>
          (Inl (500, create_error_response now (''SQL query execution failed: '' @ e)
             ''query_execution_error'' (Some (JObject [(''engine_error'', JString e)]))),
           record_error ms name elapsed ''query_execution_error'')
      | Inr batch \<Rightarrow>
          (case en_rows_json en batch of
             Inl e \<Rightarrow>
               (Inl (500, create_error_response now (''Failed to convert query results to JSON: '' @ e)
                  ''result_conversion_error'' (Some (JObject [(''conversion_error'', JString e)]))),
                record_error ms name elapsed ''result_conversion_error'')
           | Inr data \<Rightarrow>
               (Inr (create_success_response now data (en_num_rows en batch) elapsed),
                record_success ms name elapsed)))"

text \<open>\<open>verified\<close> is the outcome of the session check; \<open>params\<close> is the request body's map in its
  iteration order.\<close>

definition execute_pipeline_by_name ::
  "(json \<Rightarrow> string) \<Rightarrow> (json \<Rightarrow> string) \<Rightarrow> ('df, 'b, 'sch) engine_lib \<Rightarrow> string \<Rightarrow> nat
   \<Rightarrow> (nat \<times> string) + unit \<Rightarrow> http_config option \<Rightarrow> string \<Rightarrow> (string \<times> json) list \<Rightarrow> metric list
   \<Rightarrow> http_result \<times> metric list" where
  "execute_pipeline_by_name to_text debug en now elapsed verified config name params ms =
     (case verified of
        Inl (status, msg) \<Rightarrow> (Inl (status, create_error_response now msg ''unauthorized'' None), ms)
      | Inr _ \<Rightarrow>
     (case config of
        None \<Rightarrow> (Inl (lock_error now), ms)
      | Some cfg \<Rightarrow>
     (case map_of (hc_pipelines cfg) name of
        None \<Rightarrow> (Inl (pipeline_not_found now name
                  [(''requested_pipeline'', JString name),
                   (''available_pipelines'', jstrings (map fst (hc_pipelines cfg)))]), ms)
      | Some pipeline \<Rightarrow>
          (let expected = longest_first (map fst (pi_params pipeline));
               (sql, missing, unsupported) =
                 substitute_http_params to_text debug (pi_sql pipeline, [], []) expected (map_of params)
           in if missing \<noteq> [] \<or> unsupported \<noteq> [] then
                (Inl (400, create_error_response now
                   (if missing \<noteq> [] then ''Missing required parameters: '' @ str_join '', '' missing
                    else ''Unsupported parameter types: '' @ str_join '', '' unsupported)
                   ''parameter_validation_error''
                   (Some (validation_details expected (map fst params) missing unsupported))),
                 record_error ms name elapsed ''parameter_validation_error'')
              else run_query en now elapsed name sql ms))))"

section \<open>Reading the configuration\<close>

record table_catalog =
  tc_catalog :: bool
  tc_schema :: bool
  tc_table :: "string \<Rightarrow> string + (string \<times> string \<times> bool) list option"
  tc_accessible :: "string \<Rightarrow> string + unit"

record field_info =
  fi_name :: string
  fi_type :: string
  fi_nullable :: bool
  fi_description :: "string option"

text \<open>The fields of a registered table as \<open>(name, printed type, nullable)\<close>.\<close>

definition get_table_schema :: "table_catalog \<Rightarrow> string \<Rightarrow> registry \<Rightarrow> string + field_info list" where
  "get_table_schema tc table_name semantics =
     (if \<not> tc_catalog tc then Inl ''Default catalog 'datafusion' not found''
      else if \<not> tc_schema tc then Inl ''Schema 'public' not found''
      else
        try_res (map_err (\<lambda>e. ''Failed to get table '' @ quote @ table_name @ quote @ '': '' @ e)
          (tc_table tc table_name)) (\<lambda>table.
        try_res (ok_or table (''Table '' @ quote @ table_name @ quote @ '' not found in catalog''))
          (\<lambda>fields.
        Inr (map (\<lambda>(name, ty, nullable).
               \<lparr>fi_name = name, fi_type = ty, fi_nullable = nullable,
                fi_description = column_description semantics table_name name\<rparr>) fields))))"

definition source_check :: "table_catalog \<Rightarrow> string \<Rightarrow> json" where
  "source_check tc name =
     (case tc_accessible tc name of
        Inr _ \<Rightarrow> JObject [(''name'', JString name), (''status'', JString ''healthy''),
                          (''accessible'', JBool True)]
      | Inl e \<Rightarrow> JObject [(''name'', JString name), (''status'', JString ''unhealthy''),
                         (''accessible'', JBool False), (''error'', JString e)])"

definition json_accessible :: "json \<Rightarrow> bool" where
  "json_accessible ds =
     (case ds of
        JObject kvs \<Rightarrow> (case map_of kvs ''accessible'' of Some (JBool b) \<Rightarrow> b | _ \<Rightarrow> False)
      | _ \<Rightarrow> False)"

definition pipeline_health_check ::
  "table_catalog \<Rightarrow> string \<Rightarrow> nat \<Rightarrow> http_config option \<Rightarrow> string \<Rightarrow> http_result" where
  "pipeline_health_check tc now elapsed config name =
     try_res (ok_or config (lock_error now)) (\<lambda>cfg.
     try_res (ok_or (map_of (hc_pipelines cfg) name)
       (pipeline_not_found now name [(''available_pipelines'', jstrings (map fst (hc_pipelines cfg)))]))
       (\<lambda>pipeline.
     let checks = map (source_check tc) (map ds_name (hc_data_sources cfg));
         all_healthy = list_all json_accessible checks
     in Inr (JObject
          [(''status'', JString (if all_healthy then ''healthy'' else ''degraded'')),
           (''pipeline'', JObject [(''name'', JString (pi_name pipeline)),
              (''version'', JString (pi_version pipeline)),
              (''parameters'', jstrings (map fst (pi_params pipeline)))]),
           (''data_sources'', JObject [(''total'', jnat (length checks)),
              (''healthy'', jnat (length (filter json_accessible checks))), (''checks'', JArray checks)]),
           (''health_check_time_ms'', jnat elapsed), (''timestamp'', JString now)])))"

definition endpoint_of :: "string \<Rightarrow> string" where
  "endpoint_of name = ''/'' @ name @ ''/execute''"

definition list_pipelines :: "string \<Rightarrow> http_config option \<Rightarrow> nat + json" where
  "list_pipelines now config =
     try_res (ok_or config 500) (\<lambda>cfg.
     let pipelines = map (\<lambda>(name, p). JObject [(''name'', JString name),
           (''version'', JString (pi_version p)), (''endpoint'', JString (endpoint_of name))])
           (hc_pipelines cfg)
     in Inr (JObject [(''success'', JBool True), (''pipelines'', JArray pipelines),
          (''count'', jnat (length pipelines)), (''data_sources'', jnat (length (hc_data_sources cfg))),
          (''timestamp'', JString now)]))"

definition get_pipelines_info :: "string \<Rightarrow> http_config option \<Rightarrow> string \<Rightarrow> http_result" where
  "get_pipelines_info now config name =
     try_res (ok_or config (lock_error now)) (\<lambda>cfg.
     case map_of (hc_pipelines cfg) name of
       Some p \<Rightarrow>
         Inr (JObject [(''success'', JBool True),
           (''pipeline'', JObject [(''name'', JString (pi_name p)), (''version'', JString (pi_version p)),
              (''endpoint'', JString (endpoint_of name)),
              (''parameters'', JArray (map (\<lambda>(n, t). JObject [(''name'', JString n), (''type'', JString t)])
                 (pi_params p))),
              (''created_at'', JString (pi_created_at p)), (''updated_at'', JString (pi_updated_at p))]),
           (''timestamp'', JString now)])
     | None \<Rightarrow>
         Inl (pipeline_not_found now name
           [(''available_pipelines'', jstrings (map fst (hc_pipelines cfg)))]))"

section \<open>The data source listing\<close>

record data_source_response =
  dr_name :: string
  dr_type :: string
  dr_path :: "string option"
  dr_url :: "string option"
  dr_description :: "string option"
  dr_schema :: "field_info list"

definition file_based :: "data_source_type \<Rightarrow> bool" where
  "file_based ty \<longleftrightarrow> ty \<in> {Csv, Parquet, Lance, Sqlite, Iceberg, Documents}"

definition data_source_response_of :: "table_catalog \<Rightarrow> registry \<Rightarrow> data_source \<Rightarrow> data_source_response" where
  "data_source_response_of tc semantics ds =
     \<lparr>dr_name = ds_name ds, dr_type = data_source_type_as_str (ds_type ds),
      dr_path = (if file_based (ds_type ds) then Some (ds_path ds) else None),
      dr_url = (if \<not> file_based (ds_type ds) then ds_connection_string ds else None),
      dr_description = table_description semantics (ds_name ds),
      dr_schema = (case get_table_schema tc (ds_name ds) semantics of Inr fs \<Rightarrow> fs | Inl _ \<Rightarrow> [])\<rparr>"

definition get_data_sources ::
  "table_catalog \<Rightarrow> string \<Rightarrow> http_config option \<Rightarrow> (nat \<times> error_response) + data_source_response list" where
  "get_data_sources tc now config =
     try_res (ok_or config (lock_error now)) (\<lambda>cfg.
     Inr (map (data_source_response_of tc (hc_semantics cfg)) (hc_data_sources cfg)))"

section \<open>The job endpoints\<close>

fun submit_error_status :: "job_submit_error \<Rightarrow> nat" where
  "submit_error_status (UnknownJob _) = 404"
| "submit_error_status (MissingParameters _) = 400"
| "submit_error_status (UnsupportedParameter _) = 400"
| "submit_error_status (DbDestinationMissing _) = 400"
| "submit_error_status (LakeDestinationMissing _) = 400"
| "submit_error_status (SchemaMismatch _ _) = 400"
| "submit_error_status (SqlPlanFailure _ _) = 400"
| "submit_error_status (DestinationResolutionFailed _) = 400"
| "submit_error_status (NonTransactionalDestination _ _) = 400"
| "submit_error_status (InternalError _) = 500"

definition job_run_to_json :: "(string \<Rightarrow> json option) \<Rightarrow> job_run \<Rightarrow> json" where
  "job_run_to_json from_str run =
     JObject [(''run_id'', JString (jr_id run)), (''job'', JString (jr_job_name run)),
       (''status'', JString (status_as_str (jr_status run))),
       (''parameters'', (case from_str (jr_parameters run) of Some v \<Rightarrow> v | None \<Rightarrow> JNull)),
       (''created_at'', JString (jr_created_at run)), (''started_at'', jopt (jr_started_at run)),
       (''finished_at'', jopt (jr_finished_at run)),
       (''rows_written'', (case jr_rows_written run of Some n \<Rightarrow> jnat (unat n) | None \<Rightarrow> JNull)),
       (''snapshot_id'', jopt (jr_snapshot_id run)), (''error'', jopt (jr_error run))]"

definition jobs_disabled :: "string \<Rightarrow> string \<Rightarrow> nat \<times> error_response" where
  "jobs_disabled now msg = (503, create_error_response now msg ''jobs_disabled'' None)"

text \<open>The text of a submit error; the source type prints by its constructor, and a message with a
  dash outside ASCII is cut before it.\<close>

fun submit_error_text :: "(data_source_type \<Rightarrow> string) \<Rightarrow> job_submit_error \<Rightarrow> string" where
  "submit_error_text show_ty (UnknownJob n) = ''Job '' @ quote @ n @ quote @ '' not found''"
| "submit_error_text show_ty (MissingParameters ns) = ''Missing required parameter(s): '' @ ns"
| "submit_error_text show_ty (UnsupportedParameter n) = ''Unsupported parameter type for '' @ quote @ n @ quote
     @ '': only strings, numbers, booleans, and null are allowed''"
| "submit_error_text show_ty (DbDestinationMissing t) = ''Destination table '' @ quote @ t @ quote
     @ '' does not exist; create it with your DB's DDL before running the job''"
| "submit_error_text show_ty (LakeDestinationMissing t) = ''Destination dataset '' @ quote @ t @ quote
     @ '' does not exist and `create_if_missing` is false''"
| "submit_error_text show_ty (SchemaMismatch t d) =
     ''Destination schema mismatch for '' @ quote @ t @ quote @ '': '' @ d"
| "submit_error_text show_ty (SqlPlanFailure j e) =
     ''Failed to plan SQL for job '' @ quote @ j @ quote @ '': '' @ e"
| "submit_error_text show_ty (DestinationResolutionFailed t) =
     ''Unknown destination table '' @ quote @ t @ quote"
| "submit_error_text show_ty (NonTransactionalDestination t ty) = ''Destination source type ''
     @ quote @ show_ty ty @ quote @ '' for table '' @ quote @ t @ quote
     @ '' does not support transactional writes; job destinations must be Lance or a transactional SQL backend ''
     @ ''(Postgres, MySQL, SQLite)''"
| "submit_error_text show_ty (InternalError e) = e"

fun submit_error_details :: "job_submit_error \<Rightarrow> json option" where
  "submit_error_details (SchemaMismatch table details) =
     Some (JObject [(''table'', JString table), (''diff'', JString details)])"
| "submit_error_details (UnknownJob job) = Some (JObject [(''job'', JString job)])"
| "submit_error_details _ = None"

text \<open>The job part of the application state: the executor's parameters and its state, if enabled.\<close>

definition submit_job_run ::
  "(data_source_type \<Rightarrow> string) \<Rightarrow> string \<Rightarrow> ('w, 'p, 'b, 'ds, 'ty) executor option \<Rightarrow> 'w
   \<Rightarrow> string option \<Rightarrow> string \<Rightarrow> string \<Rightarrow> (string \<times> json) list \<Rightarrow> exec_state
   \<Rightarrow> ((nat \<times> error_response) + string \<times> string) \<times> exec_state" where
  "submit_job_run show_ty now jobs w fault run_id name params s =
     (case jobs of
        None \<Rightarrow> (Inl (jobs_disabled now ''Jobs subsystem is not enabled on this server''), s)
      | Some ex \<Rightarrow>
          (case submit ex w fault run_id now name params s of
             (Inr i, s') \<Rightarrow> (Inr (i, ''pending''), s')
           | (Inl err, s') \<Rightarrow>
               (Inl (submit_error_status err, create_error_response now (submit_error_text show_ty err)
                       (category err) (submit_error_details err)), s')))"

definition get_job_run ::
  "(string \<Rightarrow> json option) \<Rightarrow> string \<Rightarrow> bool \<Rightarrow> string option \<Rightarrow> ledger_db \<Rightarrow> string \<Rightarrow> http_result" where
  "get_job_run from_str now enabled fault db run_id =
     (if \<not> enabled then Inl (jobs_disabled now ''Jobs subsystem is not enabled'')
      else case get_run fault db run_id of
             Inr (Some run) \<Rightarrow> Inr (job_run_to_json from_str run)
           | Inr None \<Rightarrow> Inl (404, create_error_response now
               (''Run '' @ quote @ run_id @ quote @ '' not found'') ''unknown_run'' None)
           | Inl e \<Rightarrow> Inl (500, create_error_response now e ''internal_error'' None))"

text \<open>\<open>limit.unwrap_or(50).clamp(1, 500)\<close>\<close>

definition effective_limit :: "64 word option \<Rightarrow> 64 word" where
  "effective_limit limit =
     (let l = (case limit of Some l \<Rightarrow> l | None \<Rightarrow> 50) in if l < 1 then 1 else if 500 < l then 500 else l)"

definition list_job_runs ::
  "(string \<Rightarrow> json option) \<Rightarrow> string \<Rightarrow> bool \<Rightarrow> string option \<Rightarrow> (db_row list \<Rightarrow> db_row list)
   \<Rightarrow> ledger_db \<Rightarrow> string option \<Rightarrow> 64 word option \<Rightarrow> http_result" where
  "list_job_runs from_str now enabled fault scan db job limit =
     (if \<not> enabled then Inl (jobs_disabled now ''Jobs subsystem is not enabled'')
      else case list_runs fault scan db job (effective_limit limit) of
             Inr runs \<Rightarrow> Inr (JObject [(''success'', JBool True),
               (''runs'', JArray (map (job_run_to_json from_str) runs)), (''count'', jnat (length runs))])
           | Inl e \<Rightarrow> Inl (500, create_error_response now e ''internal_error'' None))"

definition cancel_job_run :: "string \<Rightarrow> bool \<Rightarrow> string \<Rightarrow> exec_state \<Rightarrow> http_result \<times> exec_state" where
  "cancel_job_run now enabled run_id s =
     (if \<not> enabled then (Inl (jobs_disabled now ''Jobs subsystem is not enabled''), s)
      else case cancel run_id s of
             (cancelled, s') \<Rightarrow> (Inr (JObject [(''success'', JBool True), (''run_id'', JString run_id),
                                  (''cancelled'', JBool cancelled)]), s'))"

definition job_item :: "(string \<times> string) \<Rightarrow> job_pipeline job_definition \<Rightarrow> json" where
  "job_item name_version def =
     JObject [(''name'', JString (fst name_version)), (''version'', JString (snd name_version)),
       (''destination'', JObject [(''table'', JString (dest_table (jd_destination def))),
          (''mode'', JString (case dest_mode (jd_destination def) of AppendMode \<Rightarrow> ''append'')),
          (''create_if_missing'', JBool (dest_create_if_missing (jd_destination def)))]),
       (''parameters'', jstrings (jp_params (jd_pipeline def)))]"

definition list_jobs_handler ::
  "(job_pipeline job_definition \<Rightarrow> string \<times> string) \<Rightarrow> string
   \<Rightarrow> (string \<times> job_pipeline job_definition) list option \<Rightarrow> http_result" where
  "list_jobs_handler name_version now jobs =
     (case jobs of
        None \<Rightarrow> Inl (jobs_disabled now ''Jobs subsystem is not enabled'')
      | Some js \<Rightarrow>
          (let items = List.map_filter (\<lambda>n. map_option (\<lambda>def. job_item (name_version def) def) (map_of js n))
                         (list_jobs js)
           in Inr (JObject [(''success'', JBool True), (''jobs'', JArray items),
                            (''count'', jnat (length items))])))"

section \<open>The routes\<close>

text \<open>
  The endpoints that run something, with the handler each route is mounted on
  (\<open>configure_routes\<close>); every request carries its headers. The state the handlers share: the
  auth layer, the configuration, the executor with its state, the world and the metrics.
\<close>

datatype http_call =
  CallExecute string "(string \<times> json) list"
| CallSubmit string "(string \<times> json) list"
| CallCancel string
| CallGetRun string
| CallListRuns "string option" "64 word option"

datatype http_response =
  RespError nat error_response
| RespJson json
| RespRun string string

record ('df, 'b, 'sch, 'auth) http_lib =
  hl_to_text :: "json \<Rightarrow> string"
  hl_debug :: "json \<Rightarrow> string"
  hl_from_str :: "string \<Rightarrow> json option"
  hl_show_type :: "data_source_type \<Rightarrow> string"
  hl_engine :: "('df, 'b, 'sch) engine_lib"
  hl_session :: "'auth session_lib"

text \<open>What the environment gives a request: the time (as text and number), the elapsed
  milliseconds, a fresh UUID, the ledger fault if any, and the scan order of the ledger.\<close>

record request_env =
  rq_now :: string
  rq_time :: int
  rq_elapsed :: nat
  rq_uuid :: string
  rq_fault :: "string option"
  rq_scan :: "db_row list \<Rightarrow> db_row list"

record ('w, 'p, 'bb, 'ds, 'ty, 'auth) app_state =
  ap_layer :: "'auth auth_layer"
  ap_config :: "http_config option"
  ap_jobs :: "('w, 'p, 'bb, 'ds, 'ty) executor option"
  ap_exec :: exec_state
  ap_world :: 'w
  ap_metrics :: "metric list"

definition respond :: "http_result \<Rightarrow> http_response" where
  "respond r = (case r of Inl (status, e) \<Rightarrow> RespError status e | Inr v \<Rightarrow> RespJson v)"

definition dispatch ::
  "('df, 'b, 'sch, 'auth) http_lib \<Rightarrow> request_env \<Rightarrow> ('w, 'p, 'bb, 'ds, 'ty, 'auth) app_state
   \<Rightarrow> headers \<Rightarrow> http_call \<Rightarrow> http_response \<times> ('w, 'p, 'bb, 'ds, 'ty, 'auth) app_state" where
  "dispatch hl rq st hs call =
     (case call of
        CallExecute name params \<Rightarrow>
          (case execute_pipeline_by_name (hl_to_text hl) (hl_debug hl) (hl_engine hl) (rq_now rq)
                  (rq_elapsed rq) (verify_session (hl_session hl) (rq_time rq) (ap_layer st) hs)
                  (ap_config st) name params (ap_metrics st) of
             (r, ms) \<Rightarrow> (respond r, st\<lparr>ap_metrics := ms\<rparr>))
      | CallSubmit name params \<Rightarrow>
          (case submit_job_run (hl_show_type hl) (rq_now rq) (ap_jobs st) (ap_world st) (rq_fault rq)
                  (rq_uuid rq) name params (ap_exec st) of
             (Inr (i, status), s') \<Rightarrow> (RespRun i status, st\<lparr>ap_exec := s'\<rparr>)
           | (Inl (status, e), s') \<Rightarrow> (RespError status e, st\<lparr>ap_exec := s'\<rparr>))
      | CallCancel run_id \<Rightarrow>
          (case cancel_job_run (rq_now rq) (ap_jobs st \<noteq> None) run_id (ap_exec st) of
             (r, s') \<Rightarrow> (respond r, st\<lparr>ap_exec := s'\<rparr>))
      | CallGetRun run_id \<Rightarrow>
          (respond (get_job_run (hl_from_str hl) (rq_now rq) (ap_jobs st \<noteq> None) (rq_fault rq)
             (es_db (ap_exec st)) run_id), st)
      | CallListRuns job limit \<Rightarrow>
          (respond (list_job_runs (hl_from_str hl) (rq_now rq) (ap_jobs st \<noteq> None) (rq_fault rq)
             (rq_scan rq) (es_db (ap_exec st)) job limit), st))"

section \<open>Properties of the rendering\<close>

text \<open>The literal as a partial function, and the values it renders without serde's printer and
  without an opening brace.\<close>

definition http_lit :: "(json \<Rightarrow> string) \<Rightarrow> json \<Rightarrow> string option" where
  "http_lit to_text v = (case http_literal to_text v of Inr t \<Rightarrow> Some t | Inl _ \<Rightarrow> None)"

fun scalar_ok :: "json \<Rightarrow> bool" where
  "scalar_ok (JString s) \<longleftrightarrow> CHR ''{'' \<notin> set s"
| "scalar_ok (JNumber n) \<longleftrightarrow> CHR ''{'' \<notin> set n"
| "scalar_ok (JBool b) \<longleftrightarrow> True"
| "scalar_ok JNull \<longleftrightarrow> True"
| "scalar_ok _ \<longleftrightarrow> False"

fun cell_ok :: "json \<Rightarrow> bool" where
  "cell_ok (JArray inner) \<longleftrightarrow> list_all scalar_ok inner"
| "cell_ok v \<longleftrightarrow> scalar_ok v"

fun row_ok :: "json \<Rightarrow> bool" where
  "row_ok (JArray cells) \<longleftrightarrow> list_all cell_ok cells"
| "row_ok v \<longleftrightarrow> scalar_ok v"

fun http_value_ok :: "json \<Rightarrow> bool" where
  "http_value_ok (JArray rows) \<longleftrightarrow> list_all row_ok rows"
| "http_value_ok v \<longleftrightarrow> scalar_ok v"

lemma str_join_chars: "c \<in> set (str_join sep xs) \<Longrightarrow> c \<in> set sep \<or> (\<exists>x \<in> set xs. c \<in> set x)"
  by (induction sep xs rule: str_join.induct) auto

lemma scalar_to_sql_ok: "scalar_ok v \<Longrightarrow> CHR ''{'' \<notin> set (scalar_to_sql to_text v)"
  by (cases v) (auto simp: sql_string_literal_chars squote_def bool_to_string_def split: if_splits)

lemma join_scalars_ok:
  "list_all scalar_ok vs \<Longrightarrow> CHR ''{'' \<notin> set (str_join '', '' (map (scalar_to_sql to_text) vs))"
  using scalar_to_sql_ok by (auto simp: list_all_iff dest!: str_join_chars)

lemma row_cell_to_sql_ok: "cell_ok v \<Longrightarrow> CHR ''{'' \<notin> set (row_cell_to_sql to_text v)"
  using scalar_to_sql_ok [of v] join_scalars_ok by (cases v) (auto simp: row_cell_to_sql_def)

lemma tuple_to_sql_ok: "list_all cell_ok cells \<Longrightarrow> CHR ''{'' \<notin> set (tuple_to_sql to_text cells)"
  using row_cell_to_sql_ok by (auto simp: tuple_to_sql_def list_all_iff dest!: str_join_chars)

lemma row_ok_elements: "row_ok v \<Longrightarrow> is_array v \<Longrightarrow> list_all cell_ok (array_elements v)"
  by (cases v) (auto simp: is_array_def array_elements_def)

lemma row_ok_scalar: "row_ok v \<Longrightarrow> \<not> is_array v \<Longrightarrow> scalar_ok v"
  by (cases v) (auto simp: is_array_def)

lemma array_to_sql_ok:
  assumes "list_all row_ok arr" "array_to_sql to_text arr = Inr t"
  shows "CHR ''{'' \<notin> set t"
proof (cases "list_all is_array arr")
  case True
  then have "t = str_join '', '' (map (tuple_to_sql to_text) (map array_elements arr))"
    using assms(2) by (auto simp: array_to_sql_def Let_def split: if_splits)
  moreover have "CHR ''{'' \<notin> set (tuple_to_sql to_text (array_elements v))" if "v \<in> set arr" for v
    using assms(1) True that by (intro tuple_to_sql_ok row_ok_elements) (auto simp: list_all_iff)
  ultimately show ?thesis by (auto dest!: str_join_chars)
next
  case False
  then have "t = ''['' @ str_join '', '' (map (scalar_to_sql to_text) arr) @ '']''" "\<not> list_ex is_array arr"
    using assms(2) by (auto simp: array_to_sql_def split: if_splits)
  moreover from this assms(1) have "list_all scalar_ok arr"
    by (auto simp: list_all_iff list_ex_iff row_ok_scalar)
  ultimately show ?thesis using join_scalars_ok by auto
qed

interpretation http_lits: literal_renderer "http_lit to_text" http_value_ok for to_text
proof unfold_locales
  show "http_lit to_text (JString s) = Some (sql_string_literal s)" for s
    by (simp add: http_lit_def)
  show "CHR ''{'' \<notin> set t" if "http_value_ok v" "http_lit to_text v = Some t" for v t
    using that array_to_sql_ok
    by (cases v) (auto simp: http_lit_def sql_string_literal_chars squote_def bool_to_string_def
        split: sum.splits if_splits)
qed

lemma substitute_http_params_foldl:
  "list_all (\<lambda>n. \<exists>v. params n = Some v \<and> http_lit to_text v \<noteq> None) names \<Longrightarrow>
   substitute_http_params to_text debug (sql, missing, unsupported) names params =
     (foldl (http_lits.substitute_one to_text params) sql names, missing, unsupported)"
proof (induction names arbitrary: sql)
  case (Cons n names)
  then obtain v t where v: "params n = Some v" "http_lit to_text v = Some t" by auto
  then have t: "http_literal to_text v = Inr t" by (simp add: http_lit_def split: sum.splits)
  have "http_lits.substitute_one to_text params sql n = str_replace (placeholder n) t sql"
    using v by (simp add: http_lits.substitute_one_def)
  with v t Cons show ?case by simp
qed simp

lemma substitute_http_template:
  assumes "list_all brace_free names" and "\<And>p v. params p = Some v \<Longrightarrow> http_value_ok v"
    and "list_all piece_wf ps" and "template_holes ps \<subseteq> set names"
    and "list_all (\<lambda>n. \<exists>v. params n = Some v \<and> http_lit to_text v \<noteq> None) names"
  shows "substitute_http_params to_text debug (template_text ps, [], []) (longest_first names) params =
     (render_template (\<lambda>p. Option.bind (params p) (http_lit to_text)) ps, [], [])"
proof -
  have 1: "list_all brace_free (longest_first names)"
    and 2: "list_all (\<lambda>n. \<exists>v. params n = Some v \<and> http_lit to_text v \<noteq> None) (longest_first names)"
    and 3: "template_holes ps \<subseteq> set (longest_first names)"
    using assms(1,4,5) by (simp_all add: list_all_iff)
  show ?thesis
    using http_lits.substitute_renders [OF 1 assms(2,3) 3] substitute_http_params_foldl [OF 2]
    by (simp add: http_lits.literals_def [abs_def])
qed

text \<open>
  Rendering a pipeline's SQL is the simultaneous substitution of the request's parameters:
  when every expected parameter is present with a renderable value without opening braces (an
  array may hold scalars, or rows of scalars and scalar arrays), every hole becomes its own
  parameter's literal, nothing else changes, and no parameter is reported.
\<close>

theorem http_sql_rendering:
  assumes "list_all brace_free names" and "\<And>p v. params p = Some v \<Longrightarrow> http_value_ok v"
    and "list_all piece_wf ps" and "template_holes ps \<subseteq> set names"
    and "list_all (\<lambda>n. \<exists>v. params n = Some v \<and> http_lit to_text v \<noteq> None) names"
  shows "substitute_http_params to_text debug (template_text ps, [], []) (longest_first names) params =
     (render_template (\<lambda>p. Option.bind (params p) (http_lit to_text)) ps, [], [])"
  by (rule substitute_http_template [OF assms])

theorem http_sql_rendering_witness:
  "substitute_http_params (\<lambda>_. []) (\<lambda>_. []) (''VALUES {rows}'', [], []) (longest_first [''rows''])
     [''rows'' \<mapsto> JArray [JArray [JNumber ''1'', JString ''a'']]] = (''VALUES (1, 'a')'', [], [])"
proof -
  let ?p = "[''rows'' \<mapsto> JArray [JArray [JNumber ''1'', JString ''a'']]]"
  have lit: "http_lit (\<lambda>_. []) (JArray [JArray [JNumber ''1'', JString ''a'']]) = Some ''(1, 'a')''"
    by (simp add: http_lit_def array_to_sql_def is_array_def array_elements_def tuple_to_sql_def
        row_cell_to_sql_def sql_string_literal_def squote_def)
  have "\<And>p v. ?p p = Some v \<Longrightarrow> http_value_ok v" by (auto split: if_splits)
  from http_sql_rendering [of "[''rows'']" ?p "[Text ''VALUES '', Hole ''rows'']" "\<lambda>_. []" "\<lambda>_. []", OF _ this]
  show ?thesis
    by (simp add: lit template_text_def placeholder_def brace_free_def template_holes_def
        render_template_def)
qed

text \<open>
  C9. A string parameter stays one literal: whatever characters it contains, a SQL lexer that
  reads the literal rendered for it (by the pipeline handler or by the job executor) gets back
  exactly the string and stops right behind the literal.
\<close>

theorem string_parameter_is_one_literal:
  assumes "rest = [] \<or> hd rest \<noteq> squote"
  shows "read_sql_string (projr (http_literal to_text (JString s)) @ rest) = Some (s, rest)
     \<and> read_sql_string (the (job_literal (JString s)) @ rest) = Some (s, rest)"
  using read_sql_string_literal [OF assms] by simp

theorem string_parameter_is_one_literal_witness:
  "read_sql_string (projr (http_literal (\<lambda>_. []) (JString [squote, CHR ''x''])) @ '' AND'') =
     Some ([squote, CHR ''x''], '' AND'')"
  using string_parameter_is_one_literal [of "'' AND''" "\<lambda>_. []" "[squote, CHR ''x'']"]
  by (simp add: squote_def)

text \<open>
  The pipeline handler shares the executor's flaw: the second of two parameters is
  substituted inside the quotes of the first, so its text is read outside every literal.
\<close>

theorem http_sql_second_substitution:
  "read_sql_string (drop 7 (fst (substitute_http_params (\<lambda>_. []) (\<lambda>_. []) (''SELECT {ab}, {c}'', [], [])
       (longest_first [''c'', ''ab''])
       [''ab'' \<mapsto> JString ''{c}'', ''c'' \<mapsto> JString '' FROM secrets --'']))) =
     Some ([], '' FROM secrets --'' @ [squote, squote] @ '', '' @ sql_string_literal '' FROM secrets --'')"
  by code_simp

text \<open>
  A JSON object is refused as a parameter but accepted inside an array, where its raw JSON
  text (quotes, braces and all) becomes part of the SQL.
\<close>

theorem nested_object_is_rendered_raw:
  "http_lit to_text (JObject kvs) = None
   \<and> http_lit to_text (JArray [JObject kvs]) = Some (''['' @ to_text (JObject kvs) @ '']'')"
  by (simp add: http_lit_def array_to_sql_def is_array_def)

section \<open>Properties of the endpoints\<close>

text \<open>
  What the session check protects: without a valid session a pipeline execution is answered
  401 and neither runs a query nor records a metric; no other endpoint looks at the headers at
  all, so its answer and its effect are the same for every caller.
\<close>

theorem session_check_covers_execute_only:
  assumes "verify_session (hl_session hl) (rq_time rq) (ap_layer st) hs = Inl (status, msg)"
  shows "dispatch hl rq st hs (CallExecute name params) =
       (RespError status (create_error_response (rq_now rq) msg ''unauthorized'' None), st)
     \<and> (\<forall>call hs'. (\<forall>n ps. call \<noteq> CallExecute n ps) \<longrightarrow> dispatch hl rq st hs' call = dispatch hl rq st hs call)"
proof (intro conjI allI impI)
  show "dispatch hl rq st hs (CallExecute name params) =
      (RespError status (create_error_response (rq_now rq) msg ''unauthorized'' None), st)"
    using assms by (simp add: dispatch_def execute_pipeline_by_name_def respond_def)
next
  fix call hs' assume "\<forall>n ps. call \<noteq> CallExecute n ps"
  then show "dispatch hl rq st hs' call = dispatch hl rq st hs call"
    by (cases call) (simp_all add: dispatch_def)
qed

text \<open>A server with authentication enabled, and a request without a session.\<close>

definition demo_session_lib :: "unit session_lib" where
  "demo_session_lib = \<lparr>sl_parse_cookies = (\<lambda>_. []), sl_cookie_name = (\<lambda>_. ''session''),
     sl_get_session = (\<lambda>_ _. Inr None)\<rparr>"

definition demo_engine :: "(unit, nat list, unit) engine_lib" where
  "demo_engine = \<lparr>en_sql = (\<lambda>_. Inr ()), en_schema = (\<lambda>_. ()), en_collect = (\<lambda>_. Inr [[1]]),
     en_new_empty = (\<lambda>_. []), en_batch_schema = (\<lambda>_. ()), en_concat = (\<lambda>_ bs. Inr (concat bs)),
     en_rows_json = (\<lambda>b. Inr (map (\<lambda>_. JNull) b)), en_num_rows = length\<rparr>"

definition demo_http :: "(unit, nat list, unit, unit) http_lib" where
  "demo_http = \<lparr>hl_to_text = (\<lambda>_. []), hl_debug = (\<lambda>_. []), hl_from_str = (\<lambda>_. None),
     hl_show_type = data_source_type_as_str, hl_engine = demo_engine, hl_session = demo_session_lib\<rparr>"

definition demo_rq :: request_env where
  "demo_rq = \<lparr>rq_now = ''t0'', rq_time = 0, rq_elapsed = 1, rq_uuid = ''r1'', rq_fault = None, rq_scan = id\<rparr>"

definition demo_app :: "(mem_world, string option, nat list, nat list list, nat, unit) app_state" where
  "demo_app = \<lparr>ap_layer = BetterAuthLayer (), ap_config = None, ap_jobs = Some demo_ex,
     ap_exec = exec_init, ap_world = demo_world, ap_metrics = []\<rparr>"

text \<open>The same request is refused on \<open>execute\<close>, but submits a job run.\<close>

theorem session_check_covers_execute_only_witness:
  "fst (dispatch demo_http demo_rq demo_app [] (CallExecute ''p'' [])) =
     RespError 401 (create_error_response ''t0'' ''Authentication required'' ''unauthorized'' None)
   \<and> dispatch demo_http demo_rq demo_app [] (CallSubmit ''j'' [(''id'', JNumber ''7'')]) =
     (RespRun ''r1'' ''pending'', demo_app\<lparr>ap_exec := demo_submitted\<rparr>)"
proof -
  have v: "verify_session (hl_session demo_http) (rq_time demo_rq) (ap_layer demo_app) [] =
      Inl (401, ''Authentication required'')"
    by (simp add: verify_session_def demo_app_def demo_http_def demo_session_lib_def
        session_token_def header_str_def)
  have app: "ap_jobs demo_app = Some demo_ex" "ap_world demo_app = demo_world" "ap_exec demo_app = exec_init"
    "rq_uuid demo_rq = ''r1''" "rq_now demo_rq = ''t0''" "rq_fault demo_rq = None"
    by (simp_all add: demo_app_def demo_rq_def)
  have "dispatch demo_http demo_rq demo_app [] (CallSubmit ''j'' [(''id'', JNumber ''7'')]) =
      (RespRun ''r1'' ''pending'', demo_app\<lparr>ap_exec := demo_submitted\<rparr>)"
    unfolding dispatch_def http_call.case submit_job_run_def app option.case demo_submit by simp
  with session_check_covers_execute_only [OF v, THEN conjunct1] show ?thesis
    by (simp add: demo_rq_def)
qed

text \<open>
  C20. Every execution request that reaches a pipeline is accounted once: it appends exactly one
  metric for that pipeline, a success metric if and only if the answer is 200 and otherwise an
  error metric that carries the error type of the answer.
\<close>

theorem execution_is_accounted_once:
  assumes "map_of (hc_pipelines cfg) name = Some pipeline"
    and "execute_pipeline_by_name to_text debug en now elapsed (Inr ()) (Some cfg) name params ms = (r, ms')"
  shows "ms' = ms @ [case r of Inr _ \<Rightarrow> RequestSuccess name elapsed
                     | Inl (status, e) \<Rightarrow> RequestError name elapsed (er_error_type e)]"
proof -
  obtain sql missing unsupported where sub:
    "substitute_http_params to_text debug (pi_sql pipeline, [], [])
       (longest_first (map fst (pi_params pipeline))) (map_of params) = (sql, missing, unsupported)"
    by (metis prod_cases3)
  show ?thesis
  proof (cases "missing = [] \<and> unsupported = []")
    case True
    with assms sub have "run_query en now elapsed name sql ms = (r, ms')"
      by (simp add: execute_pipeline_by_name_def)
    then show ?thesis
      by (auto simp: run_query_def record_error_def record_success_def create_error_response_def
          split: sum.splits)
  next
    case False
    with assms sub show ?thesis
      by (auto simp: execute_pipeline_by_name_def record_error_def create_error_response_def)
  qed
qed

theorem execution_is_accounted_once_witness:
  "snd (execute_pipeline_by_name (\<lambda>_. []) (\<lambda>_. []) demo_engine ''t0'' 5 (Inr ())
     (Some \<lparr>hc_pipelines = [(''p'', \<lparr>pi_name = ''p'', pi_version = ''1'', pi_params = [(''a'', ''t'')],
        pi_sql = ''SELECT {a}'', pi_created_at = [], pi_updated_at = []\<rparr>)],
        hc_data_sources = [], hc_semantics = Map.empty\<rparr>) ''p'' [] []) =
   [RequestError ''p'' 5 ''parameter_validation_error'']"
proof -
  let ?p = "\<lparr>pi_name = ''p'', pi_version = ''1'', pi_params = [(''a'', ''t'')],
        pi_sql = ''SELECT {a}'', pi_created_at = [], pi_updated_at = []\<rparr>"
  let ?cfg = "\<lparr>hc_pipelines = [(''p'', ?p)], hc_data_sources = [], hc_semantics = Map.empty\<rparr>"
  obtain r ms' where r: "execute_pipeline_by_name (\<lambda>_. []) (\<lambda>_. []) demo_engine ''t0'' 5 (Inr ())
      (Some ?cfg) ''p'' [] [] = (r, ms')" by fastforce
  have m: "map_of (hc_pipelines ?cfg) ''p'' = Some ?p" by simp
  have "\<exists>status e. r = Inl (status, e) \<and> er_error_type e = ''parameter_validation_error''"
    using r by (auto simp: execute_pipeline_by_name_def longest_first_def create_error_response_def Let_def)
  with execution_is_accounted_once [OF m r] r show ?thesis by auto
qed

lemma effective_limit_le: "effective_limit l \<le> 500"
  by (auto simp: effective_limit_def Let_def not_less)

text \<open>
  A listing never returns more than 500 runs: the limit is clamped to 1..500 before it is
  converted to SQLite's signed integer, so no query parameter can make the conversion wrap to
  "no limit".
\<close>

theorem listing_is_bounded:
  assumes "list_runs fault scan db job (effective_limit limit) = Inr runs"
  shows "length runs \<le> 500"
proof -
  define e where "e = effective_limit limit"
  have u: "unat e \<le> 500" using effective_limit_le [of limit]
    by (simp add: e_def word_le_nat_alt)
  then have "int (unat e) \<le> int 500" by (simp only: of_nat_le_iff)
  then have "uint e \<le> 500" by simp
  moreover have "sint e = signed_take_bit (LENGTH(64) - 1) (uint e)"
    by (simp only: sint_uint One_nat_def)
  moreover have "signed_take_bit (LENGTH(64) - 1) (uint e) = uint e"
  proof (rule signed_take_bit_int_eq_self)
    show "- (2 ^ (LENGTH(64) - 1)) \<le> uint e" by (rule order_trans [OF _ uint_ge_0]) simp
    show "uint e < 2 ^ (LENGTH(64) - 1)" using \<open>uint e \<le> 500\<close> by simp
  qed
  ultimately have s: "sint e = int (unat e)" by simp
  define rows where "rows = order_desc (case job of Some name \<Rightarrow> filter (\<lambda>row. db_job_name row = name) (scan db)
    | None \<Rightarrow> scan db)"
  have "collect_res (map row_to_job_run (sql_limit (as_i64 e) rows)) = Inr runs"
    using assms unfolding list_runs_def rows_def e_def [symmetric]
    by (cases fault) (auto simp: faulty_def Let_def res_simps)
  then have "length runs = length (sql_limit (as_i64 e) rows)"
    unfolding collect_res_Inr_iff by (metis length_map)
  also have "\<dots> \<le> unat e" by (simp add: sql_limit_def as_i64_def s)
  finally show ?thesis using u by simp
qed

theorem listing_is_bounded_witness:
  "\<exists>runs. list_runs None id [row_of_run demo_run] None (effective_limit (Some (-1))) = Inr runs
     \<and> length runs \<le> 500"
proof -
  obtain runs where "list_runs None id [row_of_run demo_run] None (effective_limit (Some (-1))) = Inr runs"
    by (simp add: list_runs_def Let_def order_desc_def sql_limit_def as_i64_def effective_limit_def
        numeral_eq_Suc)
  with listing_is_bounded [OF this] show ?thesis by blast
qed

text \<open>A run of the demonstration job, up to the recording of its outcome.\<close>

definition demo_outcome :: write_outcome where
  "demo_outcome = \<lparr>wo_rows_written = 2, wo_snapshot_id = None\<rparr>"

definition demo_final_run :: job_run where
  "demo_final_run = apply_update (final_update (Inr demo_outcome) False ''t2'')
     (apply_update (mark_running ''t1'') (pending_run ''r1'' ''j'' ''p'' ''t0''))"

definition demo_decided :: exec_state where
  "demo_decided = demo_submitted\<lparr>es_db := [row_of_run (apply_update (mark_running ''t1'')
        (pending_run ''r1'' ''j'' ''p'' ''t0''))],
     es_tasks := [''r1'' \<mapsto> (demo_task, Decided (final_update (Inr demo_outcome) False ''t2''))]\<rparr>"

definition demo_recorded :: exec_state where
  "demo_recorded = demo_submitted\<lparr>es_db := [row_of_run demo_final_run],
     es_tasks := [''r1'' \<mapsto> (demo_task, Recorded)]\<rparr>"

lemma demo_insert: "mem_sql w (dml_insert_sql ''t'' ''u'') = Inr (Some ''t'')"
  using read_dml_insert [of "''u''" "''t''"] by (simp add: mem_sql_def dquote_def)

lemma demo_executes: "execute_task demo_ex ''u'' False (\<lambda>_. False) demo_task demo_world =
    (Inr demo_outcome, ([''t'' \<mapsto> [[1, 2]]], {''t''}))"
  by (simp add: execute_task_def jd_write_def demo_task_def demo_ex_def demo_world_def demo_outcome_def
      sql_dml_write_def sql_dml_insert_def mem_ops_def demo_query demo_insert mem_collect_def drain_steps
      staging_name_def mem_content_def counting_new_def mem_rows_def)

lemma demo_reachable:
  shows demo_decided_reachable: "\<exists>w. exec_steps demo_ex (exec_init, demo_world) (demo_decided, w)"
    and demo_recorded_reachable: "\<exists>w. exec_steps demo_ex (exec_init, demo_world) (demo_recorded, w)"
proof -
  define s1 where "s1 = demo_submitted\<lparr>es_db := [row_of_run (apply_update (mark_running ''t1'')
      (pending_run ''r1'' ''j'' ''p'' ''t0''))], es_tasks := [''r1'' \<mapsto> (demo_task, Marked)]\<rparr>"
  define s2 where "s2 = s1\<lparr>es_tasks := [''r1'' \<mapsto> (demo_task, Finished (Inr demo_outcome))]\<rparr>"
  have upd: "update_status None [row_of_run r] (jr_id r) u = Inr [row_of_run (apply_update u r)]" for r u
    by (simp add: update_status_def update_row_of_run)
  have id: "jr_id (pending_run ''r1'' ''j'' ''p'' ''t0'') = ''r1''"
    "jr_id (apply_update (mark_running ''t1'') (pending_run ''r1'' ''j'' ''p'' ''t0'')) = ''r1''"
    by (simp_all add: pending_run_def apply_update_def)
  have 1: "task_mark None ''r1'' ''t1'' demo_submitted = Some s1"
    using upd [of "pending_run ''r1'' ''j'' ''p'' ''t0''" "mark_running ''t1''"]
    by (simp add: task_mark_def demo_submitted_def s1_def id log_errors_def)
  have 2: "task_finish ''r1'' (Inr demo_outcome) (s1\<lparr>es_cells := (es_cells s1)(''r1'' := False)\<rparr>) = Some s2"
    by (simp add: task_finish_def s1_def s2_def demo_submitted_def)
  have decide: "task_decide ''r1'' ''t2'' s2 = Some demo_decided"
    by (simp add: task_decide_def s2_def s1_def demo_submitted_def demo_decided_def)
  have 3: "task_record None ''r1'' demo_decided = Some demo_recorded"
    using upd [of "apply_update (mark_running ''t1'') (pending_run ''r1'' ''j'' ''p'' ''t0'')"
        "final_update (Inr demo_outcome) False ''t2''"]
    by (simp add: task_record_def demo_decided_def demo_submitted_def demo_recorded_def demo_final_run_def
        id log_errors_def)
  have cell: "es_tasks s1 ''r1'' = Some (demo_task, Marked)" "\<not> es_cells s1 ''r1''"
    by (simp_all add: s1_def demo_submitted_def)
  have "exec_step demo_ex (s1, demo_world) (s2, ([''t'' \<mapsto> [[1, 2]]], {''t''}))"
  proof (rule exec_step.Execute [OF cell(1) _ _ _ 2])
    show "run_body demo_ex ''u'' (es_cells s1 ''r1'') (\<lambda>_. False) demo_task None demo_world = (Inr demo_outcome, ([''t'' \<mapsto> [[1, 2]]], {''t''}))"
      using cell(2) demo_executes by (simp add: run_body_def with_timeout_def demo_task_def)
  qed (use cell in simp_all)
  with exec_step.Mark [OF 1, of demo_ex demo_world] exec_step.Decide [OF decide, of demo_ex] demo_reach
  have "\<exists>w. exec_steps demo_ex (exec_init, demo_world) (demo_decided, w)"
    by (meson exec_trans)
  then show "\<exists>w. exec_steps demo_ex (exec_init, demo_world) (demo_decided, w)" .
  with exec_step.Record [OF 3, of demo_ex]
  show "\<exists>w. exec_steps demo_ex (exec_init, demo_world) (demo_recorded, w)" by (meson exec_trans)
qed

text \<open>
  \<open>cancelled: true\<close> does not mean that the run was still active: between the recording of a
  run's outcome and the removal of its flag there is a reachable state in which the run has
  succeeded and a cancel request for it is nevertheless answered true.
\<close>

theorem cancel_acknowledged_after_success:
  "\<exists>s w r. exec_steps demo_ex (exec_init, demo_world) (s, w)
     \<and> ledger_runs (es_db s) ''r1'' = Some r \<and> jr_status r = Succeeded
     \<and> fst (cancel_job_run ''t3'' True ''r1'' s) =
         Inr (JObject [(''success'', JBool True), (''run_id'', JString ''r1''), (''cancelled'', JBool True)])"
proof -
  obtain w where "exec_steps demo_ex (exec_init, demo_world) (demo_recorded, w)"
    using demo_recorded_reachable by blast
  moreover have "ledger_runs (es_db demo_recorded) ''r1'' = Some demo_final_run"
    by (simp add: demo_recorded_def ledger_runs_def)
      (simp add: demo_final_run_def apply_update_def pending_run_def)
  moreover have "jr_status demo_final_run = Succeeded"
    by (simp add: demo_final_run_def apply_update_def final_update_def)
  moreover have "fst (cancel_job_run ''t3'' True ''r1'' demo_recorded) =
      Inr (JObject [(''success'', JBool True), (''run_id'', JString ''r1''), (''cancelled'', JBool True)])"
    by (simp add: cancel_job_run_def cancel_def demo_recorded_def demo_submitted_def)
  ultimately show ?thesis by blast
qed

text \<open>
  A cancel request may also come too late for the task and too early for the ledger: after the
  task has read its flag for the last time and before the row is written, the run is still listed
  as running, the request is answered true, and the run is then recorded as succeeded.
\<close>

theorem acknowledged_cancel_may_be_lost:
  "\<exists>s w r s1 s2 r'. exec_steps demo_ex (exec_init, demo_world) (s, w)
     \<and> ledger_runs (es_db s) ''r1'' = Some r \<and> jr_status r = Running
     \<and> cancel ''r1'' s = (True, s1) \<and> task_record None ''r1'' s1 = Some s2
     \<and> ledger_runs (es_db s2) ''r1'' = Some r' \<and> jr_status r' = Succeeded"
proof -
  let ?r = "apply_update (mark_running ''t1'') (pending_run ''r1'' ''j'' ''p'' ''t0'')"
  define s1 where "s1 = demo_decided\<lparr>es_cells := (es_cells demo_decided)(''r1'' := True)\<rparr>"
  define s2 where "s2 = s1\<lparr>es_db := [row_of_run demo_final_run], es_tasks := [''r1'' \<mapsto> (demo_task, Recorded)]\<rparr>"
  have id: "jr_id ?r = ''r1''" "jr_id demo_final_run = ''r1''"
    by (simp_all add: demo_final_run_def pending_run_def apply_update_def)
  have upd: "update_status None [row_of_run ?r] ''r1'' u = Inr [row_of_run (apply_update u ?r)]" for u
    using id(1) by (simp add: update_status_def update_row_of_run)
  obtain w where "exec_steps demo_ex (exec_init, demo_world) (demo_decided, w)"
    using demo_decided_reachable by blast
  moreover have "ledger_runs (es_db demo_decided) ''r1'' = Some ?r"
    using id(1) by (simp add: demo_decided_def ledger_runs_def)
  moreover have "jr_status ?r = Running" by (simp add: apply_update_def mark_running_def)
  moreover have "cancel ''r1'' demo_decided = (True, s1)"
    by (simp add: cancel_def s1_def demo_decided_def demo_submitted_def)
  moreover have "task_record None ''r1'' s1 = Some s2"
    by (simp add: task_record_def s1_def s2_def demo_decided_def upd log_errors_def demo_final_run_def)
  moreover have "ledger_runs (es_db s2) ''r1'' = Some demo_final_run"
    using id(2) by (simp add: s2_def ledger_runs_def)
  moreover have "jr_status demo_final_run = Succeeded"
    by (simp add: demo_final_run_def apply_update_def final_update_def)
  ultimately show ?thesis by blast
qed

end
