(* ===== verification/Pipeline_Inference.thy ===== *)
theory Pipeline_Inference
  imports Job_Destination
begin

text \<open>
  Inference of a pipeline's request and response schemas from its SQL text
  (\<^verbatim>\<open>pipeline/inferencer.rs\<close>) and the loading of pipeline files (\<^verbatim>\<open>pipeline/pipeline.rs\<close>). The
  SQL parser, the query planner, the catalog and the regex engine for patterns that
  contain a column name are parameters (record \<open>infer_lib\<close>); the fixed patterns for
  \<open>{name}\<close> and \<open>VALUES {name}\<close> are written out as scanners, on ASCII text.
\<close>

section \<open>Scanning for placeholders\<close>

definition is_ident_start :: "char \<Rightarrow> bool" where
  "is_ident_start c \<longleftrightarrow> is_alpha c \<or> c = CHR ''_''"

definition is_ident_char :: "char \<Rightarrow> bool" where
  "is_ident_char c \<longleftrightarrow> is_alpha c \<or> is_digit c \<or> c = CHR ''_''"

definition is_param_name :: "string \<Rightarrow> bool" where
  "is_param_name n \<longleftrightarrow> n \<noteq> [] \<and> is_ident_start (hd n) \<and> list_all is_ident_char n"

text \<open>\<^verbatim>\<open>\{([a-zA-Z_][a-zA-Z0-9_]*)\}\<close> at the head of the text: the name and the rest.\<close>

definition match_param :: "string \<Rightarrow> (string \<times> string) option" where
  "match_param s =
     (case s of
        [] \<Rightarrow> None
      | c # cs \<Rightarrow>
          (let name = takeWhile is_ident_char cs in
           if c = CHR ''{'' \<and> is_param_name name then
             (case strip_prefix ''}'' (dropWhile is_ident_char cs) of
                Some rest \<Rightarrow> Some (name, rest) | None \<Rightarrow> None)
           else None))"

lemma match_param_Some_iff:
  "match_param s = Some (n, r) \<longleftrightarrow> is_param_name n \<and> s = placeholder n @ r"
proof
  assume m: "match_param s = Some (n, r)"
  show "is_param_name n \<and> s = placeholder n @ r"
  proof (cases s)
    case Nil
    with m show ?thesis by (simp add: match_param_def)
  next
    case (Cons c cs)
    define name where "name = takeWhile is_ident_char cs"
    from m Cons have brace: "c = CHR ''{''" and name: "is_param_name name"
      unfolding match_param_def name_def by (auto simp: Let_def split: if_split_asm)
    with m Cons obtain rest where "strip_prefix ''}'' (dropWhile is_ident_char cs) = Some rest"
      "n = name" "r = rest"
      unfolding match_param_def name_def [symmetric]
      by (auto simp: Let_def name_def simp del: strip_prefix.simps split: option.split_asm if_split_asm)
    then have "cs = n @ ''}'' @ r"
      using takeWhile_dropWhile_id [of is_ident_char cs] by (simp only: strip_prefix_Some_iff name_def)
    with Cons brace name \<open>n = name\<close> show ?thesis by (simp add: placeholder_def)
  qed
next
  assume a: "is_param_name n \<and> s = placeholder n @ r"
  then have all: "\<forall>c \<in> set n. is_ident_char c" by (simp add: is_param_name_def list_all_iff)
  have end_brace: "\<not> is_ident_char (CHR ''}'')"
    by (simp add: is_ident_char_def is_alpha_def is_digit_def)
  have "takeWhile is_ident_char (n @ CHR ''}'' # r) = n" "dropWhile is_ident_char (n @ CHR ''}'' # r) = CHR ''}'' # r"
    using all end_brace by (simp_all add: takeWhile_append2 dropWhile_append2)
  with a show "match_param s = Some (n, r)" by (simp add: match_param_def placeholder_def)
qed

lemma match_param_shorter: "match_param s = Some (n, r) \<Longrightarrow> length r < length s"
  by (auto simp: match_param_Some_iff placeholder_def)

text \<open>The names of all matches from the left, and the text with every match replaced.\<close>

function param_names :: "string \<Rightarrow> string list" where
  "param_names [] = []"
| "param_names (c # cs) =
     (case match_param (c # cs) of
        Some (name, rest) \<Rightarrow> name # param_names rest
      | None \<Rightarrow> param_names cs)"
  by pat_completeness auto
termination by (relation "measure length") (auto dest: match_param_shorter)

function replace_params :: "string \<Rightarrow> string \<Rightarrow> string" where
  "replace_params rep [] = []"
| "replace_params rep (c # cs) =
     (case match_param (c # cs) of
        Some (name, rest) \<Rightarrow> rep @ replace_params rep rest
      | None \<Rightarrow> c # replace_params rep cs)"
  by pat_completeness auto
termination by (relation "measure (\<lambda>(_, s). length s)") (auto dest: match_param_shorter)

text \<open>\<^verbatim>\<open>(?i)\bVALUES\s*\{name\}\<close>: a word boundary before, any white space between.\<close>

definition match_values :: "string \<Rightarrow> string option" where
  "match_values s =
     (if to_uppercase (take 6 s) = ''VALUES'' then map_option snd (match_param (dropWhile is_ws (drop 6 s)))
      else None)"

lemma match_values_shorter: "match_values s = Some r \<Longrightarrow> length r < length s"
proof -
  assume m: "match_values s = Some r"
  then obtain n where "match_param (dropWhile is_ws (drop 6 s)) = Some (n, r)"
    by (auto simp: match_values_def split: if_splits)
  then have "length r < length (dropWhile is_ws (drop 6 s))" by (rule match_param_shorter)
  also have "\<dots> \<le> length (drop 6 s)" by (rule length_dropWhile_le)
  also have "\<dots> \<le> length s" by simp
  finally show ?thesis .
qed

function replace_values :: "string \<Rightarrow> bool \<Rightarrow> string \<Rightarrow> string" where
  "replace_values rep after_word [] = []"
| "replace_values rep after_word (c # cs) =
     (case (if after_word then None else match_values (c # cs)) of
        Some rest \<Rightarrow> rep @ replace_values rep False rest
      | None \<Rightarrow> c # replace_values rep (is_ident_char c) cs)"
  by pat_completeness auto
termination
  by (relation "measure (\<lambda>(_, _, s). length s)") (auto dest: match_values_shorter split: if_splits)

text \<open>\<open>find_iter(..).count()\<close> of one escaped name.\<close>

function str_count :: "string \<Rightarrow> string \<Rightarrow> nat" where
  "str_count pat [] = 0"
| "str_count pat (c # cs) =
     (case (if pat = [] then None else strip_prefix pat (c # cs)) of
        Some rest \<Rightarrow> Suc (str_count pat rest)
      | None \<Rightarrow> str_count pat cs)"
  by pat_completeness auto
termination
  by (relation "measure (\<lambda>(_, s). length s)") (auto dest: strip_prefix_shorter split: if_splits)

text \<open>The names in the order of their first occurrence.\<close>

fun first_occurrences :: "string list \<Rightarrow> string list \<Rightarrow> string list" where
  "first_occurrences seen [] = []"
| "first_occurrences seen (n # ns) =
     (if n \<in> set seen then first_occurrences seen ns else n # first_occurrences (n # seen) ns)"

definition convert_named_to_placeholders :: "string \<Rightarrow> string \<times> string list" where
  "convert_named_to_placeholders sql =
     (let parameter_order = first_occurrences [] (param_names sql);
          stubbed = replace_values ''VALUES (?)'' False sql
      in (foldl (\<lambda>out name. str_replace (placeholder name) ''?'' out) stubbed parameter_order,
          parameter_order))"

definition replace_parameters_for_parsing :: "string \<Rightarrow> string" where
  "replace_parameters_for_parsing sql = replace_params ''NULL'' (replace_values ''VALUES (NULL)'' False sql)"

section \<open>Columns of placeholders in the syntax tree\<close>

text \<open>The AST of the SQL parser, with the constructors the analysis looks at.\<close>

datatype sql_expr =
  Identifier string
| CompoundIdentifier "string list"
| BinaryOp sql_expr sql_expr
| Nested sql_expr
| InList sql_expr "sql_expr list"
| PlaceholderValue
| OtherExpr

datatype limit_clause =
  LimitOffset "sql_expr option" "sql_expr option"
| OffsetCommaLimit sql_expr sql_expr

datatype query_body = SelectBody "sql_expr option" | OtherBody

record query =
  qy_body :: query_body
  qy_limit :: "limit_clause option"

datatype sql_statement =
  QueryStmt query
| InsertStmt "query option"
| UpdateStmt "sql_expr option"
| DeleteStmt "sql_expr option"
| OtherStmt

definition is_placeholder_ast :: "sql_expr \<Rightarrow> bool" where
  "is_placeholder_ast e = (case e of PlaceholderValue \<Rightarrow> True | _ \<Rightarrow> False)"

definition extract_column_name_ast :: "sql_expr \<Rightarrow> string option" where
  "extract_column_name_ast e =
     (case e of
        Identifier i \<Rightarrow> Some i
      | CompoundIdentifier parts \<Rightarrow>
          (case parts of [a] \<Rightarrow> Some a | [a, b] \<Rightarrow> Some b | _ \<Rightarrow> None)
      | _ \<Rightarrow> None)"

text \<open>The map from placeholder index to column, with the index of the next placeholder.\<close>

type_synonym column_map = "(nat \<rightharpoonup> string) \<times> nat"

definition bind_next :: "column_map \<Rightarrow> string \<Rightarrow> column_map" where
  "bind_next st column = (case st of (m, k) \<Rightarrow> (m(k \<mapsto> column), Suc k))"

definition bind_if :: "sql_expr \<Rightarrow> sql_expr \<Rightarrow> column_map \<Rightarrow> column_map" where
  "bind_if column_side value_side st =
     (case extract_column_name_ast column_side of
        Some c \<Rightarrow> if is_placeholder_ast value_side then bind_next st c else st
      | None \<Rightarrow> st)"

fun collect_parameter_columns_ast :: "sql_expr \<Rightarrow> column_map \<Rightarrow> column_map" where
  "collect_parameter_columns_ast (BinaryOp l r) st =
     (let st1 = bind_if l r st; st2 = bind_if r l st1
      in collect_parameter_columns_ast r (collect_parameter_columns_ast l st2))"
| "collect_parameter_columns_ast (Nested e) st = collect_parameter_columns_ast e st"
| "collect_parameter_columns_ast (InList e items) st =
     (case extract_column_name_ast e of
        Some c \<Rightarrow> foldl (\<lambda>st' item. if is_placeholder_ast item then bind_next st' c else st') st items
      | None \<Rightarrow> st)"
| "collect_parameter_columns_ast _ st = st"

definition bind_limit :: "string \<Rightarrow> sql_expr \<Rightarrow> column_map \<Rightarrow> column_map" where
  "bind_limit keyword e st = (if is_placeholder_ast e then bind_next st keyword else st)"

definition collect_limit :: "limit_clause option \<Rightarrow> column_map \<Rightarrow> column_map" where
  "collect_limit clause st =
     (case clause of
        None \<Rightarrow> st
      | Some (LimitOffset limit offset) \<Rightarrow>
          (let st1 = (case limit of Some e \<Rightarrow> bind_limit ''limit'' e st | None \<Rightarrow> st)
           in case offset of Some e \<Rightarrow> bind_limit ''offset'' e st1 | None \<Rightarrow> st1)
      | Some (OffsetCommaLimit offset limit) \<Rightarrow>
          bind_limit ''limit'' limit (bind_limit ''offset'' offset st))"

definition collect_query :: "query \<Rightarrow> column_map \<Rightarrow> column_map" where
  "collect_query q st =
     (case qy_body q of
        SelectBody selection \<Rightarrow>
          collect_limit (qy_limit q)
            (case selection of Some e \<Rightarrow> collect_parameter_columns_ast e st | None \<Rightarrow> st)
      | OtherBody \<Rightarrow> st)"

definition collect_statement :: "column_map \<Rightarrow> sql_statement \<Rightarrow> column_map" where
  "collect_statement st stmt =
     (case stmt of
        QueryStmt q \<Rightarrow> collect_query q st
      | InsertStmt (Some q) \<Rightarrow> collect_query q st
      | UpdateStmt (Some e) \<Rightarrow> collect_parameter_columns_ast e st
      | DeleteStmt (Some e) \<Rightarrow> collect_parameter_columns_ast e st
      | _ \<Rightarrow> st)"

definition extract_placeholder_columns :: "sql_statement list \<Rightarrow> nat \<rightharpoonup> string" where
  "extract_placeholder_columns statements =
     fst (foldl collect_statement (Map.empty, 0) statements)"

section \<open>Types of the parameters\<close>

text \<open>Arrow types: those the inference itself names, and all others by their text.\<close>

datatype data_type = DtInt64 | DtUInt64 | DtFloat64 | DtUtf8 | DtOther string

definition infer_column_from_parameter_name :: "string \<Rightarrow> string" where
  "infer_column_from_parameter_name name =
     (case strip_prefix ''min_'' name of Some r \<Rightarrow> r | None \<Rightarrow>
      case strip_prefix ''max_'' name of Some r \<Rightarrow> r | None \<Rightarrow>
      case strip_suffix ''_min'' name of Some r \<Rightarrow> r | None \<Rightarrow>
      case strip_suffix ''_max'' name of Some r \<Rightarrow> r | None \<Rightarrow> name)"

text \<open>
  What the inference uses of the libraries: the SQL parser, the schema of an optimised plan,
  the tables of a schema of a catalog (\<open>None\<close> for a table that cannot be opened), the escaping
  of a regex literal and the test whether a pattern compiles and matches.
\<close>

record infer_lib =
  il_parse :: "string \<Rightarrow> string + sql_statement list"
  il_plan :: "string \<Rightarrow> string + (string \<times> data_type \<times> bool) list"
  il_catalog :: "string \<Rightarrow> (string \<Rightarrow> (string \<times> (string \<times> data_type) list option) list option) option"
  il_escape :: "string \<Rightarrow> string"
  il_is_match :: "string \<Rightarrow> string \<Rightarrow> bool"

definition is_numeric_context :: "infer_lib \<Rightarrow> string \<Rightarrow> string \<Rightarrow> bool" where
  "is_numeric_context lib sql column_name =
     (let column_pattern = [CHR 0x5C] @ ''b'' @ il_escape lib column_name @ [CHR 0x5C] @ ''b'';
          bs = [CHR 0x5C];
          ops = bs @ ''s*[<>=!]+'' @ bs @ ''s*'';
          digits = bs @ ''d+'';
          decimal = digits @ bs @ ''.?'' @ bs @ ''d*''
      in list_ex (\<lambda>p. il_is_match lib p sql)
           [column_pattern @ ops @ decimal, decimal @ ops @ column_pattern,
            column_pattern @ ops @ digits, digits @ ops @ column_pattern])"

definition is_integer_context :: "infer_lib \<Rightarrow> string \<Rightarrow> string \<Rightarrow> bool" where
  "is_integer_context lib sql column_name =
     list_ex (\<lambda>keyword. il_is_match lib
         (str_replace column_name (to_uppercase column_name)
            (keyword @ [CHR 0x5C] @ ''s+'' @ il_escape lib column_name))
         (to_uppercase sql))
       [''LIMIT'', ''OFFSET'', ''TOP'']"

definition infer_type_from_sql_context :: "infer_lib \<Rightarrow> string \<Rightarrow> string \<Rightarrow> data_type" where
  "infer_type_from_sql_context lib sql column_name =
     (if is_integer_context lib sql column_name then DtInt64
      else if is_numeric_context lib sql column_name then DtFloat64 else DtUtf8)"

fun find_field :: "string \<Rightarrow> (string \<times> data_type) list \<Rightarrow> data_type option" where
  "find_field column_name [] = None"
| "find_field column_name ((n, ty) # fs) =
     (if n = column_name \<or> n = [dquote] @ column_name @ [dquote] then Some ty
      else find_field column_name fs)"

fun find_in_tables ::
  "string \<Rightarrow> (string \<times> (string \<times> data_type) list option) list \<Rightarrow> data_type option" where
  "find_in_tables column_name [] = None"
| "find_in_tables column_name ((_, flds) # tables) =
     (case Option.bind flds (find_field column_name) of
        Some ty \<Rightarrow> Some ty | None \<Rightarrow> find_in_tables column_name tables)"

definition get_column_type_from_registered_tables ::
  "infer_lib \<Rightarrow> string \<Rightarrow> string + data_type option" where
  "get_column_type_from_registered_tables lib column_name =
     try_res (ok_or (il_catalog lib ''datafusion'') ''Default catalog not found'') (\<lambda>catalog.
     try_res (ok_or (catalog ''public'') ''Public schema not found'') (\<lambda>tables.
     Inr (find_in_tables column_name tables)))"

definition get_column_type_from_context ::
  "infer_lib \<Rightarrow> string \<Rightarrow> string \<Rightarrow> string + data_type" where
  "get_column_type_from_context lib column_name sql =
     try_res (get_column_type_from_registered_tables lib column_name) (\<lambda>found.
     Inr (case found of Some ty \<Rightarrow> ty | None \<Rightarrow> infer_type_from_sql_context lib sql column_name))"

definition get_column_type_with_special_cases ::
  "infer_lib \<Rightarrow> string \<Rightarrow> string \<Rightarrow> string + data_type" where
  "get_column_type_with_special_cases lib column_name sql =
     (if to_lowercase column_name \<in> {''limit'', ''offset''} then Inr DtInt64
      else get_column_type_from_context lib column_name sql)"

section \<open>Request and response schemas\<close>

record named_parameter =
  np_name :: string
  np_column_name :: string
  np_field_type :: data_type
  np_nullable :: bool
  np_source_location :: string
  np_occurrences :: nat

record inferred_field_type =
  if_field_type :: data_type
  if_nullable :: bool
  if_source_location :: string

definition parameter_location :: "string \<Rightarrow> string \<Rightarrow> nat \<Rightarrow> string" where
  "parameter_location param_name column_name i =
     ''AST analysis: parameter '' @ [squote] @ param_name @ [squote, CHR 0x20, CHR 0xE2, CHR 0x86, CHR 0x92]
     @ '' column '' @ [squote] @ column_name @ [squote] @ '' (placeholder index '' @ show_nat i @ '')''"

definition named_parameter_of ::
  "infer_lib \<Rightarrow> string \<Rightarrow> (nat \<rightharpoonup> string) \<Rightarrow> nat \<Rightarrow> string \<Rightarrow> string + named_parameter" where
  "named_parameter_of lib sql columns i param_name =
     (let column_name = (case columns i of Some c \<Rightarrow> c
                         | None \<Rightarrow> infer_column_from_parameter_name param_name)
      in try_res (get_column_type_with_special_cases lib column_name sql) (\<lambda>ty.
         Inr \<lparr>np_name = param_name, np_column_name = column_name, np_field_type = ty,
              np_nullable = True, np_source_location = parameter_location param_name column_name i,
              np_occurrences = str_count (placeholder param_name) sql\<rparr>))"

definition add_named_parameter ::
  "infer_lib \<Rightarrow> string \<Rightarrow> (nat \<rightharpoonup> string) \<Rightarrow> (string \<rightharpoonup> named_parameter) \<Rightarrow> nat \<times> string
   \<Rightarrow> string + (string \<rightharpoonup> named_parameter)" where
  "add_named_parameter lib sql columns named entry =
     try_res (named_parameter_of lib sql columns (fst entry) (snd entry)) (\<lambda>p.
     Inr (named(snd entry \<mapsto> p)))"

definition extract_named_parameters ::
  "infer_lib \<Rightarrow> string \<Rightarrow> string + (string \<rightharpoonup> named_parameter)" where
  "extract_named_parameters lib sql =
     (let (sql_with_placeholders, parameter_order) = convert_named_to_placeholders sql in
      try_res (map_err (\<lambda>e. ''Failed to parse SQL syntax: '' @ e) (il_parse lib sql_with_placeholders))
        (\<lambda>statements.
      let columns = extract_placeholder_columns statements in
      fold_res (add_named_parameter lib sql columns) Map.empty (enumerate 0 parameter_order)))"

text \<open>\<open>extract_parameters\<close> and \<open>extract_request_schema\<close>: the fields by parameter name.\<close>

definition extract_request_schema ::
  "infer_lib \<Rightarrow> string \<Rightarrow> string + (string \<rightharpoonup> inferred_field_type)" where
  "extract_request_schema lib sql =
     try_res (extract_named_parameters lib sql) (\<lambda>named.
     Inr (\<lambda>n. map_option (\<lambda>p. \<lparr>if_field_type = np_field_type p, if_nullable = np_nullable p,
                                 if_source_location = np_source_location p\<rparr>) (named n)))"

definition is_dml_statement :: "string \<Rightarrow> bool" where
  "is_dml_statement sql =
     (let trimmed = to_uppercase (str_trim sql) in
      starts_with ''INSERT'' trimmed \<or> starts_with ''UPDATE'' trimmed \<or> starts_with ''DELETE'' trimmed)"

definition parse_sql_to_logical_plan ::
  "infer_lib \<Rightarrow> string \<Rightarrow> string + (string \<times> data_type \<times> bool) list" where
  "parse_sql_to_logical_plan lib sql = il_plan lib (replace_parameters_for_parsing sql)"

definition response_field :: "string \<times> data_type \<times> bool \<Rightarrow> inferred_field_type" where
  "response_field f = (case f of (n, ty, nullable) \<Rightarrow>
     \<lparr>if_field_type = ty, if_nullable = nullable,
      if_source_location = ''SELECT field '' @ [squote] @ n @ [squote]\<rparr>)"

definition extract_response_fields ::
  "infer_lib \<Rightarrow> string \<Rightarrow> string + (string \<rightharpoonup> inferred_field_type)" where
  "extract_response_fields lib sql =
     (if is_dml_statement sql then
        Inr [''count'' \<mapsto> \<lparr>if_field_type = DtUInt64, if_nullable = False,
                           if_source_location = ''DML statement result (rows affected)''\<rparr>]
      else
        try_res (parse_sql_to_logical_plan lib sql) (\<lambda>flds.
        Inr (foldl (\<lambda>m f. m(fst f \<mapsto> response_field f)) Map.empty flds)))"

section \<open>The validation report\<close>

definition is_valid_rust_identifier :: "string \<Rightarrow> bool" where
  "is_valid_rust_identifier name =
     (case name of
        [] \<Rightarrow> False
      | c # cs \<Rightarrow> (is_alpha c \<or> c = CHR ''_'')
          \<and> list_all (\<lambda>c. is_alpha c \<or> is_digit c \<or> c = CHR ''_'') cs)"

record validation_report =
  vr_is_valid :: bool
  vr_errors :: "string list"
  vr_warnings :: "string list"
  vr_parameter_count :: nat
  vr_response_field_count :: nat

definition or_default_map :: "'e + ('k \<rightharpoonup> 'v) \<Rightarrow> 'k \<rightharpoonup> 'v" where
  "or_default_map r = (case r of Inr m \<Rightarrow> m | Inl _ \<Rightarrow> Map.empty)"

text \<open>\<open>validate_sql\<close>: \<open>names\<close> lists the keys of the named parameters in the order the map yields them.\<close>

definition infer_validate_sql ::
  "infer_lib \<Rightarrow> (string set \<Rightarrow> string list) \<Rightarrow> string \<Rightarrow> validation_report" where
  "infer_validate_sql lib names sql =
     (case il_parse lib (replace_parameters_for_parsing sql) of
        Inl e \<Rightarrow>
          \<lparr>vr_is_valid = False,
           vr_errors = [''SQL syntax error: Failed to parse SQL syntax: '' @ e],
           vr_warnings = [], vr_parameter_count = 0, vr_response_field_count = 0\<rparr>
      | Inr _ \<Rightarrow>
          (let named = or_default_map (extract_named_parameters lib sql);
               params = card (dom (or_default_map (extract_request_schema lib sql)));
               (plan_warnings, flds) =
                 (case parse_sql_to_logical_plan lib sql of
                    Inr _ \<Rightarrow> ([], card (dom (or_default_map (extract_response_fields lib sql))))
                  | Inl e \<Rightarrow> ([''Logical plan creation warning: '' @ e], 0))
           in \<lparr>vr_is_valid = True, vr_errors = [],
               vr_warnings = plan_warnings
                 @ (if params = 0 then [''No parameters found in SQL query''] else [])
                 @ (if flds = 0 then [''No response fields found in SQL query''] else [])
                 @ map (\<lambda>n. ''Parameter '' @ [squote] @ n @ [squote]
                          @ '' does not follow Rust identifier naming rules'')
                     (filter (\<lambda>n. \<not> is_valid_rust_identifier n) (names (dom named))),
               vr_parameter_count = params, vr_response_field_count = flds\<rparr>))"

section \<open>Loading a pipeline\<close>

record component_metadata =
  cm_name :: string
  cm_version :: string
  cm_description :: "string option"
  cm_created_at :: "string option"
  cm_updated_at :: "string option"

record query_definition =
  qd_sql :: string
  qd_parameters :: "string list"

record standard_pipeline =
  sp_metadata :: component_metadata
  sp_request_schema :: "string \<rightharpoonup> inferred_field_type"
  sp_query_definition :: query_definition
  sp_response_schema :: "string \<rightharpoonup> inferred_field_type"

record yaml_lib =
  yl_parse :: "string \<Rightarrow> string + yaml"
  yl_metadata :: "yaml \<Rightarrow> string + component_metadata"
  yl_string :: "yaml \<Rightarrow> string + string"

definition yaml_as_str :: "yaml \<Rightarrow> string option" where
  "yaml_as_str v = (case v of YScalar s \<Rightarrow> Some s | _ \<Rightarrow> None)"

definition build_from_parsed ::
  "infer_lib \<Rightarrow> yaml_lib \<Rightarrow> yaml \<Rightarrow> string + standard_pipeline" where
  "build_from_parsed lib yl root =
     try_res (ok_or (yaml_get root ''metadata'') ''Missing 'metadata' section in pipeline YAML'') (\<lambda>metadata_section.
     try_res (ok_or (yaml_get root ''spec'') ''Missing 'spec' section in pipeline YAML'') (\<lambda>spec_section.
     try_res (ok_or (yaml_get spec_section ''query'') ''Missing 'spec.query' in pipeline YAML'') (\<lambda>query_section.
     try_res (map_err (\<lambda>e. ''Failed to parse metadata section: '' @ e) (yl_metadata yl metadata_section)) (\<lambda>metadata.
     try_res (map_err (\<lambda>e. ''Failed to parse query section: '' @ e) (yl_string yl query_section)) (\<lambda>sql.
     try_res (extract_request_schema lib sql) (\<lambda>request_schema.
     try_res (extract_response_fields lib sql) (\<lambda>response_schema.
     Inr \<lparr>sp_metadata = metadata, sp_request_schema = request_schema,
          sp_query_definition = \<lparr>qd_sql = sql, qd_parameters = []\<rparr>,
          sp_response_schema = response_schema\<rparr>)))))))"

definition pipeline_load_from_file ::
  "infer_lib \<Rightarrow> yaml_lib \<Rightarrow> (string \<Rightarrow> string + string) \<Rightarrow> string \<Rightarrow> string + standard_pipeline" where
  "pipeline_load_from_file lib yl read path =
     try_res (map_err (\<lambda>_. ''Failed to read pipeline file: '' @ path) (read path)) (\<lambda>content.
     try_res (map_err (\<lambda>_. ''Failed to parse pipeline YAML: '' @ path) (yl_parse yl content)) (\<lambda>root.
     try_res (ok_or (Option.bind (yaml_get root ''kind'') yaml_as_str)
         (''Missing `kind:` at root of '' @ path @ '' (expected `kind: pipeline`)'')) (\<lambda>kind.
     if kind \<noteq> ''pipeline''
     then Inl (''Expected `kind: pipeline` in '' @ path @ '', got `kind: '' @ kind @ ''`'')
     else build_from_parsed lib yl root)))"

section \<open>Facts about the scanners\<close>

lemma first_occurrences_set: "set (first_occurrences seen ns) = set ns - set seen"
  by (induction seen ns rule: first_occurrences.induct) auto

lemma first_occurrences_distinct: "distinct (first_occurrences seen ns)"
  by (induction seen ns rule: first_occurrences.induct) (auto simp: first_occurrences_set)

lemma match_param_no_brace: "s = [] \<or> hd s \<noteq> CHR ''{'' \<Longrightarrow> match_param s = None"
  by (cases s) (auto simp: match_param_def)

lemma param_names_skip: "CHR ''{'' \<notin> set t \<Longrightarrow> param_names (t @ s) = param_names s"
  by (induction t) (auto simp: match_param_no_brace)

lemma replace_params_skip: "CHR ''{'' \<notin> set t \<Longrightarrow> replace_params rep (t @ s) = t @ replace_params rep s"
  by (induction t) (auto simp: match_param_no_brace)

lemma param_name_brace_free: "is_param_name n \<Longrightarrow> brace_free n"
proof -
  assume "is_param_name n"
  then have all: "\<forall>c \<in> set n. is_ident_char c" by (simp add: is_param_name_def list_all_iff)
  have "\<not> is_ident_char (CHR ''{'')" "\<not> is_ident_char (CHR ''}'')"
    by (simp_all add: is_ident_char_def is_alpha_def is_digit_def)
  with all show ?thesis unfolding brace_free_def by blast
qed

lemma match_param_placeholder:
  "brace_free q \<Longrightarrow> match_param (placeholder q @ s) = (if is_param_name q then Some (q, s) else None)"
proof (cases "is_param_name q")
  case True
  then show ?thesis using match_param_Some_iff [of "placeholder q @ s" q s] by simp
next
  case False
  assume bf: "brace_free q"
  have "match_param (placeholder q @ s) \<noteq> Some (n, r)" for n r
  proof
    assume "match_param (placeholder q @ s) = Some (n, r)"
    then have n: "is_param_name n" "placeholder q @ s = placeholder n @ r"
      by (simp_all add: match_param_Some_iff)
    have "brace_free n"
      using n(1) by (rule param_name_brace_free)
    then have "n \<noteq> q \<Longrightarrow> strip_prefix (placeholder n) (placeholder q @ s) = None"
      using bf by (intro placeholder_not_prefix) auto
    with n(2) have "n = q" by (metis option.distinct(1) strip_prefix_append)
    with n(1) False show False by simp
  qed
  with False show ?thesis by (cases "match_param (placeholder q @ s)") auto
qed

fun holes_of :: "piece list \<Rightarrow> string list" where
  "holes_of [] = []"
| "holes_of (Text _ # ps) = holes_of ps"
| "holes_of (Hole p # ps) = p # holes_of ps"

lemma set_holes_of: "set (holes_of ps) = template_holes ps"
  by (induction ps rule: holes_of.induct) (auto simp: template_holes_def)

lemma param_names_template:
  "list_all piece_wf ps \<Longrightarrow> param_names (template_text ps) = filter is_param_name (holes_of ps)"
proof (induction ps rule: holes_of.induct)
  case 1
  then show ?case by (simp add: template_text_def)
next
  case (2 t ps)
  then show ?case by (simp add: template_text_def param_names_skip)
next
  case (3 p ps)
  then have bf: "brace_free p" and IH: "param_names (template_text ps) = filter is_param_name (holes_of ps)"
    by simp_all
  have whole: "template_text (Hole p # ps) = CHR ''{'' # (p @ ''}'' @ template_text ps)"
    by (simp add: template_text_def placeholder_def)
  have m: "match_param (CHR ''{'' # (p @ ''}'' @ template_text ps)) =
      (if is_param_name p then Some (p, template_text ps) else None)"
    using match_param_placeholder [OF bf, of "template_text ps"] by (simp add: placeholder_def)
  have "param_names (p @ ''}'' @ template_text ps) = param_names (template_text ps)"
    using bf param_names_skip [of "p @ ''}''"] by (simp add: brace_free_def)
  with m IH show ?case unfolding whole by simp
qed

section \<open>The column map as a list\<close>

text \<open>The columns in the order in which the traversal numbers the placeholders it sees.\<close>

definition pair_column :: "sql_expr \<Rightarrow> sql_expr \<Rightarrow> string list" where
  "pair_column column_side value_side =
     (case extract_column_name_ast column_side of
        Some c \<Rightarrow> if is_placeholder_ast value_side then [c] else [] | None \<Rightarrow> [])"

fun expr_columns :: "sql_expr \<Rightarrow> string list" where
  "expr_columns (BinaryOp l r) = pair_column l r @ pair_column r l @ expr_columns l @ expr_columns r"
| "expr_columns (Nested e) = expr_columns e"
| "expr_columns (InList e items) =
     (case extract_column_name_ast e of
        Some c \<Rightarrow> replicate (length (filter is_placeholder_ast items)) c | None \<Rightarrow> [])"
| "expr_columns _ = []"

definition limit_column :: "string \<Rightarrow> sql_expr \<Rightarrow> string list" where
  "limit_column keyword e = (if is_placeholder_ast e then [keyword] else [])"

definition limit_columns :: "limit_clause option \<Rightarrow> string list" where
  "limit_columns clause =
     (case clause of
        None \<Rightarrow> []
      | Some (LimitOffset l ofs) \<Rightarrow>
          (case l of Some e \<Rightarrow> limit_column ''limit'' e | None \<Rightarrow> [])
          @ (case ofs of Some e \<Rightarrow> limit_column ''offset'' e | None \<Rightarrow> [])
      | Some (OffsetCommaLimit ofs l) \<Rightarrow> limit_column ''offset'' ofs @ limit_column ''limit'' l)"

definition query_columns :: "query \<Rightarrow> string list" where
  "query_columns q =
     (case qy_body q of
        SelectBody selection \<Rightarrow>
          (case selection of Some e \<Rightarrow> expr_columns e | None \<Rightarrow> []) @ limit_columns (qy_limit q)
      | OtherBody \<Rightarrow> [])"

fun statement_columns :: "sql_statement \<Rightarrow> string list" where
  "statement_columns (QueryStmt q) = query_columns q"
| "statement_columns (InsertStmt (Some q)) = query_columns q"
| "statement_columns (UpdateStmt (Some e)) = expr_columns e"
| "statement_columns (DeleteStmt (Some e)) = expr_columns e"
| "statement_columns _ = []"

lemma bind_if_fold: "bind_if c v st = foldl bind_next st (pair_column c v)"
  by (simp add: bind_if_def pair_column_def split: option.split)

lemma bind_items_fold:
  "foldl (\<lambda>st' item. if is_placeholder_ast item then bind_next st' c else st') st items =
   foldl bind_next st (replicate (length (filter is_placeholder_ast items)) c)"
  by (induction items arbitrary: st) auto

lemma collect_ast_fold: "collect_parameter_columns_ast e st = foldl bind_next st (expr_columns e)"
  by (induction e st rule: collect_parameter_columns_ast.induct)
    (auto simp: Let_def bind_if_fold bind_items_fold split: option.split)

lemma bind_limit_fold: "bind_limit k e st = foldl bind_next st (limit_column k e)"
  by (simp add: bind_limit_def limit_column_def)

lemma collect_limit_fold: "collect_limit l st = foldl bind_next st (limit_columns l)"
  by (auto simp: collect_limit_def limit_columns_def bind_limit_fold Let_def
      split: option.split limit_clause.split)

lemma collect_query_fold: "collect_query q st = foldl bind_next st (query_columns q)"
  by (auto simp: collect_query_def query_columns_def collect_limit_fold collect_ast_fold
      split: option.split query_body.split)

lemma collect_statement_fold: "collect_statement st s = foldl bind_next st (statement_columns s)"
  by (cases s rule: statement_columns.cases)
    (simp_all add: collect_statement_def collect_query_fold collect_ast_fold)

lemma bind_next_fold:
  "foldl bind_next (m, k) cs =
     (\<lambda>i. if k \<le> i \<and> i < k + length cs then Some (cs ! (i - k)) else m i, k + length cs)"
proof (induction cs arbitrary: m k)
  case Nil
  then show ?case by (auto simp: fun_eq_iff)
next
  case (Cons c cs)
  have "foldl bind_next (m, k) (c # cs) = foldl bind_next (m(k \<mapsto> c), Suc k) cs"
    by (simp add: bind_next_def)
  then show ?case
    by (auto simp only: Cons) (auto simp: fun_eq_iff nth_Cons' Suc_le_eq)
qed

lemma extract_placeholder_columns_nth:
  "extract_placeholder_columns statements i =
     (let cs = concat (map statement_columns statements) in if i < length cs then Some (cs ! i) else None)"
proof -
  have "foldl collect_statement st statements =
      foldl bind_next st (concat (map statement_columns statements))" for st
    by (induction statements arbitrary: st) (simp_all add: collect_statement_fold)
  then show ?thesis
    by (simp add: extract_placeholder_columns_def bind_next_fold Let_def)
qed

section \<open>Properties of the inference\<close>

lemma add_named_parameter_Inr [res_simps]:
  "add_named_parameter lib sql columns m (k, n) = Inr m' \<longleftrightarrow>
     (\<exists>p. named_parameter_of lib sql columns k n = Inr p \<and> m' = m(n \<mapsto> p))"
  by (auto simp: add_named_parameter_def res_simps)

lemma named_fold:
  assumes "fold_res (add_named_parameter lib sql columns) m (enumerate k ns) = Inr ps" and "distinct ns"
  shows "(\<forall>i < length ns. \<exists>p. named_parameter_of lib sql columns (k + i) (ns ! i) = Inr p \<and> ps (ns ! i) = Some p)
    \<and> (\<forall>n. n \<notin> set ns \<longrightarrow> ps n = m n)"
  using assms
proof (induction ns arbitrary: m k)
  case Nil
  then show ?case by simp
next
  case (Cons n ns)
  from Cons.prems(1) obtain p where p: "named_parameter_of lib sql columns k n = Inr p"
    "fold_res (add_named_parameter lib sql columns) (m(n \<mapsto> p)) (enumerate (Suc k) ns) = Inr ps"
    by (auto simp: res_simps)
  from Cons.prems(2) have d: "n \<notin> set ns" "distinct ns" by simp_all
  have IH: "\<forall>i < length ns. \<exists>p. named_parameter_of lib sql columns (Suc k + i) (ns ! i) = Inr p \<and> ps (ns ! i) = Some p"
    "\<forall>x. x \<notin> set ns \<longrightarrow> ps x = (m(n \<mapsto> p)) x"
    using Cons.IH [OF p(2) d(2)] by blast+
  have "\<exists>q. named_parameter_of lib sql columns (k + i) ((n # ns) ! i) = Inr q \<and> ps ((n # ns) ! i) = Some q"
    if "i < length (n # ns)" for i
    using that p(1) IH d(1) by (cases i) auto
  with IH show ?case by auto
qed

text \<open>The names in order, each with the parameter made for its position.\<close>

definition parameter_order :: "string \<Rightarrow> string list" where
  "parameter_order sql = first_occurrences [] (param_names sql)"

lemma parameter_order_facts [simp]:
  "distinct (parameter_order sql)" "set (parameter_order sql) = set (param_names sql)"
  "snd (convert_named_to_placeholders sql) = parameter_order sql"
  by (simp_all add: parameter_order_def first_occurrences_distinct first_occurrences_set
      convert_named_to_placeholders_def Let_def)

lemma extract_named_parameters_spec:
  assumes "extract_named_parameters lib sql = Inr named"
  shows "\<exists>statements. il_parse lib (fst (convert_named_to_placeholders sql)) = Inr statements
     \<and> dom named = set (param_names sql)
     \<and> (\<forall>i < length (parameter_order sql). \<exists>p.
          named_parameter_of lib sql (extract_placeholder_columns statements) i (parameter_order sql ! i) = Inr p
          \<and> named (parameter_order sql ! i) = Some p)"
proof -
  have c: "convert_named_to_placeholders sql = (fst (convert_named_to_placeholders sql), parameter_order sql)"
    by (metis parameter_order_facts(3) prod.collapse)
  from assms obtain statements where s:
    "il_parse lib (fst (convert_named_to_placeholders sql)) = Inr statements"
    "fold_res (add_named_parameter lib sql (extract_placeholder_columns statements)) Map.empty
       (enumerate 0 (parameter_order sql)) = Inr named"
    unfolding extract_named_parameters_def by (subst (asm) c) (auto simp: res_simps Let_def)
  note f = named_fold [OF s(2) parameter_order_facts(1)]
  have "named n \<noteq> None \<longleftrightarrow> n \<in> set (parameter_order sql)" for n
  proof
    assume "n \<in> set (parameter_order sql)"
    then obtain i where "i < length (parameter_order sql)" "n = parameter_order sql ! i"
      unfolding in_set_conv_nth by blast
    with f show "named n \<noteq> None" by fastforce
  qed (use f in fastforce)
  then have "dom named = set (param_names sql)" by auto
  with f s(1) show ?thesis by auto
qed

lemma loaded_request_schema:
  assumes "pipeline_load_from_file lib yl read path = Inr p"
  shows "extract_request_schema lib (qd_sql (sp_query_definition p)) = Inr (sp_request_schema p)
     \<and> extract_response_fields lib (qd_sql (sp_query_definition p)) = Inr (sp_response_schema p)"
  using assms by (auto simp: pipeline_load_from_file_def build_from_parsed_def res_simps split: if_split_asm)

lemma request_schema_dom:
  "extract_request_schema lib sql = Inr schema \<Longrightarrow> dom schema = set (param_names sql)"
  using extract_named_parameters_spec by (fastforce simp: extract_request_schema_def res_simps dom_def)

text \<open>
  The request schema of a loaded pipeline has exactly the placeholders of its SQL text as
  fields, all of them nullable, and a statement that changes data answers with the single field
  \<open>count\<close>. So a request that fills every field fills every placeholder.
\<close>

theorem request_schema_is_placeholders:
  assumes "pipeline_load_from_file lib yl read path = Inr p"
  shows "dom (sp_request_schema p) = set (param_names (qd_sql (sp_query_definition p)))
     \<and> (\<forall>n f. sp_request_schema p n = Some f \<longrightarrow> if_nullable f)
     \<and> (is_dml_statement (qd_sql (sp_query_definition p)) \<longrightarrow> dom (sp_response_schema p) = {''count''})"
proof -
  let ?sql = "qd_sql (sp_query_definition p)"
  have r: "extract_request_schema lib ?sql = Inr (sp_request_schema p)"
    "extract_response_fields lib ?sql = Inr (sp_response_schema p)"
    using loaded_request_schema [OF assms] by blast+
  from r(1) obtain named where named: "extract_named_parameters lib ?sql = Inr named"
    "sp_request_schema p = (\<lambda>n. map_option (\<lambda>q. \<lparr>if_field_type = np_field_type q, if_nullable = np_nullable q,
        if_source_location = np_source_location q\<rparr>) (named n))"
    by (auto simp: extract_request_schema_def res_simps)
  have nullable: "np_nullable q" if "named n = Some q" for n q
  proof -
    from extract_named_parameters_spec [OF named(1)] obtain sts where n: "dom named = set (param_names ?sql)"
      "\<forall>i < length (parameter_order ?sql). \<exists>p. named_parameter_of lib ?sql (extract_placeholder_columns sts) i
          (parameter_order ?sql ! i) = Inr p \<and> named (parameter_order ?sql ! i) = Some p"
      by blast
    from that n(1) have "n \<in> set (parameter_order ?sql)" by auto
    then obtain i where "i < length (parameter_order ?sql)" "n = parameter_order ?sql ! i"
      unfolding in_set_conv_nth by blast
    with n(2) that obtain cols where "named_parameter_of lib ?sql cols i n = Inr q" by auto
    then show ?thesis by (auto simp: named_parameter_of_def res_simps Let_def)
  qed
  have "is_dml_statement ?sql \<Longrightarrow> dom (sp_response_schema p) = {''count''}"
  proof -
    assume "is_dml_statement ?sql"
    with r(2) have "sp_response_schema p = [''count'' \<mapsto> \<lparr>if_field_type = DtUInt64, if_nullable = False,
        if_source_location = ''DML statement result (rows affected)''\<rparr>]"
      by (simp add: extract_response_fields_def)
    then show ?thesis by simp
  qed
  with request_schema_dom [OF r(1)] named(2) nullable show ?thesis by auto
qed

text \<open>A library that parses and plans one text, over a catalog with one table.\<close>

definition demo_infer :: "string \<Rightarrow> sql_statement list \<Rightarrow> infer_lib" where
  "demo_infer text sts =
     \<lparr>il_parse = (\<lambda>s. if s = text then Inr sts else Inl ''syntax''),
      il_plan = (\<lambda>_. Inr [(''id'', DtInt64, False)]),
      il_catalog = [''datafusion'' \<mapsto> [''public'' \<mapsto>
        [(''t'', Some [(''x'', DtInt64), (''y'', DtUtf8), (''z'', DtFloat64)])]]],
      il_escape = id, il_is_match = (\<lambda>_ _. False)\<rparr>"

definition column_test :: "string \<Rightarrow> sql_expr" where
  "column_test c = BinaryOp (Identifier c) PlaceholderValue"

definition demo_yaml_pipeline :: "string \<Rightarrow> yaml_lib" where
  "demo_yaml_pipeline sql =
     \<lparr>yl_parse = (\<lambda>_. Inr (YMap [(''kind'', YScalar ''pipeline''), (''metadata'', YOther),
        (''spec'', YMap [(''query'', YScalar sql)])])),
      yl_metadata = (\<lambda>_. Inr \<lparr>cm_name = ''p'', cm_version = ''1'', cm_description = None,
        cm_created_at = None, cm_updated_at = None\<rparr>),
      yl_string = (\<lambda>v. case v of YScalar s \<Rightarrow> Inr s | _ \<Rightarrow> Inl ''not a string'')\<rparr>"

theorem request_schema_is_placeholders_witness:
  "\<exists>p. pipeline_load_from_file
       (demo_infer ''DELETE FROM t WHERE x = ?'' [DeleteStmt (Some (column_test ''x''))])
       (demo_yaml_pipeline ''DELETE FROM t WHERE x = {x}'') Inr ''p.yaml'' = Inr p
     \<and> dom (sp_request_schema p) = {''x''} \<and> dom (sp_response_schema p) = {''count''}"
proof -
  let ?lib = "demo_infer ''DELETE FROM t WHERE x = ?'' [DeleteStmt (Some (column_test ''x''))]"
  let ?yl = "demo_yaml_pipeline ''DELETE FROM t WHERE x = {x}''"
  let ?r = "pipeline_load_from_file ?lib ?yl Inr ''p.yaml''"
  have ok: "(case ?r of Inr p \<Rightarrow> qd_sql (sp_query_definition p) = ''DELETE FROM t WHERE x = {x}'' | Inl _ \<Rightarrow> False)"
    by code_simp
  then obtain p where p: "?r = Inr p" "qd_sql (sp_query_definition p) = ''DELETE FROM t WHERE x = {x}''"
    by (cases ?r) auto
  have "set (param_names ''DELETE FROM t WHERE x = {x}'') = {''x''}"
    "is_dml_statement ''DELETE FROM t WHERE x = {x}''" by code_simp+
  with request_schema_is_placeholders [OF p(1)] p show ?thesis by auto
qed

text \<open>
  Which column a parameter gets: the \<open>i\<close>-th name (in the order of first occurrence) gets the
  \<open>i\<close>-th column that the traversal of the parsed statements yields, and beyond the end of
  that list the column guessed from its name; its type is the one found for that column.
\<close>

theorem parameter_column_assignment:
  assumes "extract_named_parameters lib sql = Inr named"
    and "il_parse lib (fst (convert_named_to_placeholders sql)) = Inr statements"
    and "i < length (parameter_order sql)"
  shows "\<exists>p. named (parameter_order sql ! i) = Some p
     \<and> np_column_name p =
         (let columns = concat (map statement_columns statements) in
          if i < length columns then columns ! i
          else infer_column_from_parameter_name (parameter_order sql ! i))
     \<and> get_column_type_with_special_cases lib (np_column_name p) sql = Inr (np_field_type p)"
proof -
  from extract_named_parameters_spec [OF assms(1)] assms(2,3) obtain p where p:
    "named_parameter_of lib sql (extract_placeholder_columns statements) i (parameter_order sql ! i) = Inr p"
    "named (parameter_order sql ! i) = Some p"
    by auto
  show ?thesis
    using p by (auto simp: named_parameter_of_def extract_placeholder_columns_nth res_simps Let_def)
qed

theorem parameter_column_assignment_witness:
  "\<exists>named p. extract_named_parameters
       (demo_infer ''SELECT * FROM t WHERE z = ?''
         [QueryStmt \<lparr>qy_body = SelectBody (Some (column_test ''z'')), qy_limit = None\<rparr>])
       ''SELECT * FROM t WHERE z = {low}'' = Inr named
     \<and> named ''low'' = Some p \<and> np_column_name p = ''z'' \<and> np_field_type p = DtFloat64"
proof -
  let ?sts = "[QueryStmt \<lparr>qy_body = SelectBody (Some (column_test ''z'')), qy_limit = None\<rparr>]"
  let ?lib = "demo_infer ''SELECT * FROM t WHERE z = ?'' ?sts"
  let ?sql = "''SELECT * FROM t WHERE z = {low}''"
  have ok: "is_ok (extract_named_parameters ?lib ?sql)" by code_simp
  then obtain named where n: "extract_named_parameters ?lib ?sql = Inr named" by (auto simp: is_ok_iff)
  have c: "fst (convert_named_to_placeholders ?sql) = ''SELECT * FROM t WHERE z = ?''" by code_simp
  have s: "il_parse ?lib (fst (convert_named_to_placeholders ?sql)) = Inr ?sts"
    by (simp add: c demo_infer_def)
  have o: "parameter_order ?sql = [''low'']" by code_simp
  have cols: "query_columns \<lparr>qy_body = SelectBody (Some (column_test ''z'')), qy_limit = None\<rparr> = [''z'']"
    by code_simp
  have ty: "get_column_type_with_special_cases ?lib ''z'' ?sql = Inr DtFloat64" by code_simp
  from parameter_column_assignment [OF n s, of 0] n show ?thesis by (auto simp: o cols ty Let_def)
qed

text \<open>
  Names are numbered by their first occurrence, but columns by the placeholders of the parsed
  statement, so a name that occurs twice shifts all later ones: in
  \<open>x = {a} AND y = {a} AND z = {b}\<close> the parameter \<open>b\<close> is given the column and type of \<open>y\<close>.
\<close>

theorem repeated_parameter_shifts_columns:
  "(case extract_named_parameters
       (demo_infer ''SELECT * FROM t WHERE x = ? AND y = ? AND z = ?''
         [QueryStmt \<lparr>qy_body = SelectBody (Some (BinaryOp (BinaryOp (column_test ''x'') (column_test ''y''))
            (column_test ''z''))), qy_limit = None\<rparr>])
       ''SELECT * FROM t WHERE x = {a} AND y = {a} AND z = {b}'' of
     Inr named \<Rightarrow> map_option np_column_name (named ''b'') = Some ''y''
       \<and> map_option np_field_type (named ''b'') = Some DtUtf8
   | Inl _ \<Rightarrow> False)"
  by code_simp

definition values_free :: "string \<Rightarrow> bool" where
  "values_free s \<longleftrightarrow> (\<forall>a b. s = a @ b \<longrightarrow> match_values b = None)"

lemma values_free_Nil: "values_free []"
  by (simp add: values_free_def match_values_def to_uppercase_def)

lemma values_free_Cons: "values_free (c # cs) \<longleftrightarrow> match_values (c # cs) = None \<and> values_free cs"
proof
  assume "values_free (c # cs)"
  then show "match_values (c # cs) = None \<and> values_free cs"
    unfolding values_free_def by (metis append_Nil append_Cons)
next
  assume a: "match_values (c # cs) = None \<and> values_free cs"
  show "values_free (c # cs)"
    unfolding values_free_def
  proof (intro allI impI)
    fix x y assume "c # cs = x @ y"
    with a show "match_values y = None" by (cases x) (auto simp: values_free_def)
  qed
qed

lemma replace_values_free: "values_free s \<Longrightarrow> replace_values rep w s = s"
proof (induction s arbitrary: w)
  case (Cons c cs)
  then have "match_values (c # cs) = None" "values_free cs"
    by (simp_all add: values_free_Cons)
  with Cons.IH show ?case by simp
qed simp

interpretation marks: literal_renderer
  "\<lambda>v. case v of JString s \<Rightarrow> Some (sql_string_literal s) | JNumber n \<Rightarrow> Some n | _ \<Rightarrow> None" brace_free_value
  by unfold_locales (auto simp: sql_string_literal_chars squote_def split: json.splits)

lemma replace_marks:
  assumes "list_all brace_free names" and "list_all piece_wf ps" and "template_holes ps \<subseteq> set names"
  shows "foldl (\<lambda>out name. str_replace (placeholder name) ''?'' out) (template_text ps) names =
    render_template (\<lambda>_. Some ''?'') ps"
proof -
  let ?params = "\<lambda>n. if n \<in> set names then Some (JNumber ''?'') else None"
  have step: "foldl (\<lambda>out name. str_replace (placeholder name) ''?'' out) t ns =
      foldl (marks.substitute_one ?params) t ns" if "set ns \<subseteq> set names" for t ns
    using that by (induction ns arbitrary: t) (auto simp: marks.substitute_one_def)
  have "foldl (marks.substitute_one ?params) (template_text ps) names =
      render_template (marks.literals ?params) ps"
    using assms by (intro marks.substitute_renders) (auto split: if_splits)
  also have "\<dots> = render_template (\<lambda>_. Some ''?'') ps"
    using assms(3) unfolding render_template_def marks.literals_def
    by (intro arg_cong [where f = concat] map_cong) (auto simp: template_holes_def split: piece.splits)
  finally show ?thesis by (simp add: step)
qed

text \<open>
  The text handed to the parser: in a template without a \<open>VALUES\<close> stub every parameter has
  become a question mark, and the order lists each name once, at its first occurrence.
\<close>

theorem conversion_marks_every_parameter:
  assumes "list_all piece_wf ps" and "\<And>p. p \<in> template_holes ps \<Longrightarrow> is_param_name p"
    and "values_free (template_text ps)"
  shows "convert_named_to_placeholders (template_text ps) =
     (render_template (\<lambda>_. Some ''?'') ps, first_occurrences [] (holes_of ps))
     \<and> param_names (template_text ps) = holes_of ps"
proof -
  have "filter is_param_name (holes_of ps) = holes_of ps"
    using assms(2) by (simp add: filter_id_conv set_holes_of)
  with param_names_template [OF assms(1)] have names: "param_names (template_text ps) = holes_of ps" by simp
  have "list_all brace_free (first_occurrences [] (holes_of ps))"
    using assms(2) by (auto simp: list_all_iff first_occurrences_set set_holes_of param_name_brace_free)
  then have "foldl (\<lambda>out name. str_replace (placeholder name) ''?'' out) (template_text ps)
      (first_occurrences [] (holes_of ps)) = render_template (\<lambda>_. Some ''?'') ps"
    using assms(1) by (intro replace_marks) (auto simp: first_occurrences_set set_holes_of)
  with names show ?thesis
    by (simp add: convert_named_to_placeholders_def replace_values_free [OF assms(3)])
qed

theorem conversion_marks_every_parameter_witness:
  "convert_named_to_placeholders ''x={a} OR y={b_1} OR z={a}'' = (''x=? OR y=? OR z=?'', [''a'', ''b_1''])"
proof -
  let ?ps = "[Text ''x='', Hole ''a'', Text '' OR y='', Hole ''b_1'', Text '' OR z='', Hole ''a'']"
  have t: "template_text ?ps = ''x={a} OR y={b_1} OR z={a}''" by code_simp
  have wf: "list_all piece_wf ?ps" by code_simp
  have names: "is_param_name ''a'' \<and> is_param_name ''b_1''" by code_simp
  have vf: "values_free (template_text ?ps)"
    unfolding t by (simp add: values_free_Cons values_free_Nil match_values_def to_uppercase_def to_upper_char_def)
  have r: "render_template (\<lambda>_. Some ''?'') ?ps = ''x=? OR y=? OR z=?''"
    "first_occurrences [] (holes_of ?ps) = [''a'', ''b_1'']" by code_simp+
  from conversion_marks_every_parameter [OF wf _ vf] names
  show ?thesis unfolding t r by (auto simp: template_holes_def)
qed

end
