(* ===== verification/Filter_Expr.thy ===== *)
theory Filter_Expr
  imports Rust_Strings "HOL-Library.Word"
begin

text \<open>
  The part of the engine's expression language that the providers inspect when a filter, an
  assignment or an argument of a table function reaches them: literals with their integer
  widths, operators, and expression trees. A floating-point literal is represented by the text
  of its \<open>to_string\<close>, every other literal or expression by the text the engine displays.

  \<open>filter_holds\<close> is the reference reading of a filter, used to state what a translation of it
  means; it is not code of the program.
\<close>

section \<open>Literals\<close>

datatype scalar =
  SvNull
| SvUtf8 "string option"
| SvLargeUtf8 "string option"
| SvBoolean "bool option"
| SvInt8 "8 word option"
| SvInt16 "16 word option"
| SvInt32 "32 word option"
| SvInt64 "64 word option"
| SvUInt8 "8 word option"
| SvUInt16 "16 word option"
| SvUInt32 "32 word option"
| SvUInt64 "64 word option"
| SvFloat16 "string option"
| SvFloat32 "string option"
| SvFloat64 "string option"
| SvBinary "8 word list option"
| SvLargeBinary "8 word list option"
| SvOther string

text \<open>\<open>to_string\<close> of a signed integer.\<close>

definition show_int :: "int \<Rightarrow> string" where
  "show_int i = (if i < 0 then ''-'' @ show_nat (nat (- i)) else show_nat (nat i))"

definition show_unsigned :: "'a::len word \<Rightarrow> string" where
  "show_unsigned w = show_nat (unat w)"

definition show_signed :: "'a::len word \<Rightarrow> string" where
  "show_signed w = show_int (sint w)"

definition show_bool :: "bool \<Rightarrow> string" where
  "show_bool b = (if b then ''true'' else ''false'')"

section \<open>Expressions\<close>

datatype operator =
  OpEq | OpNotEq | OpLt | OpLtEq | OpGt | OpGtEq | OpAnd | OpOr | OpOther string

definition op_symbol :: "operator \<Rightarrow> string" where
  "op_symbol opr =
     (case opr of
        OpEq \<Rightarrow> ''='' | OpNotEq \<Rightarrow> ''!='' | OpLt \<Rightarrow> ''<'' | OpLtEq \<Rightarrow> ''<='' | OpGt \<Rightarrow> ''>'' | OpGtEq \<Rightarrow> ''>=''
      | OpAnd \<Rightarrow> ''AND'' | OpOr \<Rightarrow> ''OR'' | OpOther s \<Rightarrow> s)"

datatype expr =
  EColumn string
| ELiteral scalar
| EBinary expr operator expr
| ENot expr
| EIsNull expr
| EIsNotNull expr
| EBetween expr bool expr expr   \<comment> \<open>expression, negated, low, high\<close>
| EInList expr "expr list" bool  \<comment> \<open>expression, list, negated\<close>
| EOther string

definition is_comparison :: "operator \<Rightarrow> bool" where
  "is_comparison opr \<longleftrightarrow> opr \<in> {OpEq, OpNotEq, OpLt, OpLtEq, OpGt, OpGtEq}"

lemma is_comparison_simps [simp]:
  "is_comparison OpEq" "is_comparison OpNotEq" "is_comparison OpLt" "is_comparison OpLtEq"
  "is_comparison OpGt" "is_comparison OpGtEq"
  "\<not> is_comparison OpAnd" "\<not> is_comparison OpOr" "\<not> is_comparison (OpOther s)"
  by (simp_all add: is_comparison_def)

text \<open>The comparison a flipped operator makes: \<open>a op b\<close> is \<open>b (flip op) a\<close>.\<close>

definition flip_op :: "operator \<Rightarrow> operator" where
  "flip_op opr = (case opr of OpLt \<Rightarrow> OpGt | OpLtEq \<Rightarrow> OpGtEq | OpGt \<Rightarrow> OpLt | OpGtEq \<Rightarrow> OpLtEq | _ \<Rightarrow> opr)"

lemma flip_op_flip [simp]: "flip_op (flip_op opr) = opr"
  by (cases opr) (simp_all add: flip_op_def)

text \<open>The outcome of a comparison for the three cases of a total order.\<close>

definition compare_op :: "operator \<Rightarrow> 'a::linorder \<Rightarrow> 'a \<Rightarrow> bool" where
  "compare_op opr a b =
     (case opr of
        OpEq \<Rightarrow> a = b | OpNotEq \<Rightarrow> a \<noteq> b | OpLt \<Rightarrow> a < b | OpLtEq \<Rightarrow> a \<le> b | OpGt \<Rightarrow> a > b | OpGtEq \<Rightarrow> a \<ge> b
      | _ \<Rightarrow> False)"

lemma compare_op_flip: "compare_op (flip_op opr) b a = compare_op opr a b"
  by (cases opr) (auto simp: compare_op_def flip_op_def)

text \<open>What an INSERT does with the rows already there.\<close>

datatype insert_op = InsertAppend | InsertOverwrite | InsertReplace

section \<open>Column types and arrays\<close>

text \<open>An Arrow array is its list of cells; a null cell is the typed \<open>None\<close> or \<open>SvNull\<close>.\<close>

datatype arrow_type =
  AtBoolean | AtInt8 | AtInt16 | AtInt32 | AtInt64 | AtUInt8 | AtUInt16 | AtUInt32 | AtUInt64
| AtFloat32 | AtFloat64 | AtUtf8 | AtLargeUtf8 | AtBinary | AtDate32 | AtTimestamp | AtNull
| AtDecimal128 "8 word" "8 word"   \<comment> \<open>precision and scale\<close>
| AtOther string

record arrow_field =
  af_name :: string
  af_type :: arrow_type
  af_nullable :: bool

fun is_null :: "scalar \<Rightarrow> bool" where
  "is_null SvNull = True"
| "is_null (SvUtf8 v) = (v = None)"
| "is_null (SvLargeUtf8 v) = (v = None)"
| "is_null (SvBoolean v) = (v = None)"
| "is_null (SvInt8 v) = (v = None)"
| "is_null (SvInt16 v) = (v = None)"
| "is_null (SvInt32 v) = (v = None)"
| "is_null (SvInt64 v) = (v = None)"
| "is_null (SvUInt8 v) = (v = None)"
| "is_null (SvUInt16 v) = (v = None)"
| "is_null (SvUInt32 v) = (v = None)"
| "is_null (SvUInt64 v) = (v = None)"
| "is_null (SvFloat16 v) = (v = None)"
| "is_null (SvFloat32 v) = (v = None)"
| "is_null (SvFloat64 v) = (v = None)"
| "is_null (SvBinary v) = (v = None)"
| "is_null (SvLargeBinary v) = (v = None)"
| "is_null (SvOther v) = False"

section \<open>Three-valued filters\<close>

text \<open>
  SQL's connectives: \<open>None\<close> is unknown. A filter keeps a row when it is \<open>Some True\<close>. An atom
  (every comparison, test or other expression) is given by a valuation.
\<close>

fun and3 :: "bool option \<Rightarrow> bool option \<Rightarrow> bool option" where
  "and3 (Some False) _ = Some False"
| "and3 _ (Some False) = Some False"
| "and3 (Some True) (Some True) = Some True"
| "and3 _ _ = None"

fun or3 :: "bool option \<Rightarrow> bool option \<Rightarrow> bool option" where
  "or3 (Some True) _ = Some True"
| "or3 _ (Some True) = Some True"
| "or3 (Some False) (Some False) = Some False"
| "or3 _ _ = None"

fun eval3 :: "(expr \<Rightarrow> bool option) \<Rightarrow> expr \<Rightarrow> bool option" where
  "eval3 atom (EBinary l opr r) =
     (if opr = OpAnd then and3 (eval3 atom l) (eval3 atom r)
      else if opr = OpOr then or3 (eval3 atom l) (eval3 atom r)
      else atom (EBinary l opr r))"
| "eval3 atom (ENot e) = map_option Not (eval3 atom e)"
| "eval3 atom e = atom e"

definition filter_holds :: "(expr \<Rightarrow> bool option) \<Rightarrow> expr \<Rightarrow> bool" where
  "filter_holds atom e \<longleftrightarrow> eval3 atom e = Some True"

lemma and3_true [simp]: "and3 a b = Some True \<longleftrightarrow> a = Some True \<and> b = Some True"
  by (cases "(a, b)" rule: and3.cases) auto

lemma or3_true [simp]: "or3 a b = Some True \<longleftrightarrow> a = Some True \<or> b = Some True"
  by (cases "(a, b)" rule: or3.cases) auto

section \<open>Integer literals\<close>

text \<open>The integer a literal stands for, and how the widths convert into 64 bits.\<close>

fun scalar_int :: "scalar \<Rightarrow> int option" where
  "scalar_int (SvInt8 (Some v)) = Some (sint v)"
| "scalar_int (SvInt16 (Some v)) = Some (sint v)"
| "scalar_int (SvInt32 (Some v)) = Some (sint v)"
| "scalar_int (SvInt64 (Some v)) = Some (sint v)"
| "scalar_int (SvUInt8 (Some v)) = Some (uint v)"
| "scalar_int (SvUInt16 (Some v)) = Some (uint v)"
| "scalar_int (SvUInt32 (Some v)) = Some (uint v)"
| "scalar_int (SvUInt64 (Some v)) = Some (uint v)"
| "scalar_int _ = None"

lemma sint_scast_up: "LENGTH('a::len) \<le> LENGTH('b::len) \<Longrightarrow> sint (scast (w :: 'a word) :: 'b word) = sint w"
  by (rule sint_up_scast) (simp add: is_up)

lemma sint_ucast_up:
  assumes "LENGTH('a::len) < LENGTH('b::len)"
  shows "sint (ucast (w :: 'a word) :: 'b word) = uint w"
proof -
  have "uint w < 2 ^ LENGTH('a)" by (rule uint_lt2p)
  also have "(2 :: int) ^ LENGTH('a) \<le> 2 ^ (LENGTH('b) - 1)" using assms by (intro power_increasing) auto
  finally have lt: "uint w < 2 ^ (LENGTH('b) - 1)" .
  have "uint (ucast w :: 'b word) = uint w" using assms by (intro uint_up_ucast) (simp add: is_up)
  moreover have "signed_take_bit (LENGTH('b) - 1) (uint w) = uint w"
    by (rule signed_take_bit_int_eq_self) (use lt in \<open>auto intro: order_trans [OF _ uint_ge_0]\<close>)
  ultimately show ?thesis by (simp add: sint_uint)
qed

lemma sint_of_uint64: "sint (v :: 64 word) = (if uint v < 2 ^ 63 then uint v else uint v - 2 ^ 64)"
proof -
  have "sint v = (uint v + 2 ^ 63) mod 2 ^ 64 - 2 ^ 63"
    by (simp add: sint_uint signed_take_bit_eq_take_bit_shift take_bit_eq_mod)
  moreover have "0 \<le> uint v" "uint v < 2 ^ 64" using uint_lt2p [of v] by simp_all
  ultimately show ?thesis by (cases "uint v < 2 ^ 63") (simp_all add: mod_pos_pos_trivial mod_pos_geq)
qed

lemma sint_below: "LENGTH('a::len) \<le> 64 \<Longrightarrow> sint (w :: 'a word) < 2 ^ 63"
  by (rule order_less_le_trans [OF sint_lt]) (rule power_increasing, auto)

lemma uint_below: "LENGTH('a::len) \<le> 32 \<Longrightarrow> uint (w :: 'a word) < 2 ^ 63"
  by (rule order_less_le_trans [OF uint_lt2p]) (rule power_increasing, auto)

end
