(* ===== verification/Redis_Provider.thy ===== *)
theory Redis_Provider
  imports Filter_Expr "HOL-Library.AList" "HOL-Library.Multiset"
begin

text \<open>
  The Redis provider (\<^verbatim>\<open>sources/providers/redis\<close>): a table is the set of hashes whose keys start
  with its prefix; a row is a hash, with the key's suffix as the key column. Modelled are the
  key names, the inferred and cached schema, scans, the filters of DELETE and UPDATE with their
  fast path, and the insert sink with its overwrite.

  The server is a parameter: the commands SCAN, HGETALL, DEL and HSET as functions of its state,
  and whether the connection's lock can be taken in that state. \<open>redis_serves\<close> states what the
  commands are documented to do; \<open>store_server\<close> is an instance.
\<close>

section \<open>Keys\<close>

definition redis_prefix :: "string \<Rightarrow> string \<Rightarrow> string" where
  "redis_prefix keyspace table_name =
     (if keyspace = [] then table_name else keyspace @ '':'' @ table_name)"

definition redis_schema_key :: "string \<Rightarrow> string \<Rightarrow> string" where
  "redis_schema_key keyspace table_name = redis_prefix keyspace table_name @ '':schema''"

text \<open>The generated identifier is an argument.\<close>

definition redis_data_key :: "string \<Rightarrow> string \<Rightarrow> string option \<Rightarrow> string \<Rightarrow> string" where
  "redis_data_key keyspace table_name row_id uuid =
     redis_prefix keyspace table_name @ '':'' @ (case row_id of Some s \<Rightarrow> s | None \<Rightarrow> uuid)"

definition table_data_key_pattern :: "string \<Rightarrow> string \<Rightarrow> string" where
  "table_data_key_pattern keyspace table_name = redis_prefix keyspace table_name @ '':*''"

text \<open>\<open>None\<close> is the panic of a slice that starts behind the end of the key.\<close>

definition redis_table_key :: "string \<Rightarrow> string \<Rightarrow> string option" where
  "redis_table_key key_prefix_pattern redis_key =
     (if ends_with ''*'' key_prefix_pattern
      then let prefix_len = length key_prefix_pattern - 1 in
           if prefix_len \<le> length redis_key then Some (drop prefix_len redis_key) else None
      else Some redis_key)"

section \<open>The server\<close>

record 'r redis_server =
  rs_lock :: "'r \<Rightarrow> bool"
  rs_scan :: "'r \<Rightarrow> string \<Rightarrow> string + (string + string) list"
  rs_hgetall :: "'r \<Rightarrow> string \<Rightarrow> string + (string \<times> string) list"
  rs_del :: "'r \<Rightarrow> string list \<Rightarrow> (string + unit) \<times> 'r"
  rs_hset :: "'r \<Rightarrow> string \<Rightarrow> (string \<times> string) list \<Rightarrow> (string + unit) \<times> 'r"

datatype redis_error =
  LockBusy
| ScanFailed string
| HgetallFailed string
| DelFailed string
| HsetFailed string
| UnsupportedOperator operator
| UnsupportedFilter expr
| UnsupportedLiteral scalar
| UnsupportedValue expr
| NoAssignments
| KeyColumnUpdate string
| UpdateLiteral scalar
| UpdateNotLiteral expr
| StreamFailed string
| SlicePanic

definition scan_keys :: "'r redis_server \<Rightarrow> 'r \<Rightarrow> string \<Rightarrow> redis_error + string list" where
  "scan_keys R r pattern =
     try_res (map_err ScanFailed (rs_scan R r pattern)) (\<lambda>items. map_err ScanFailed (collect_res items))"

text \<open>\<open>HashMap\<close> of the entries: a later entry wins.\<close>

definition hash_of :: "(string \<times> string) list \<Rightarrow> string \<rightharpoonup> string" where
  "hash_of entries = map_of (rev entries)"

definition hgetall_map :: "'r redis_server \<Rightarrow> 'r \<Rightarrow> string \<Rightarrow> redis_error + (string \<rightharpoonup> string)" where
  "hgetall_map R r key =
     try_res (map_err HgetallFailed (rs_hgetall R r key)) (\<lambda>entries. Inr (hash_of entries))"

section \<open>Schema\<close>

record redis_field =
  rf_name :: string
  rf_nullable :: bool

type_synonym redis_schema = "redis_field list"

text \<open>All columns are \<open>Utf8\<close>. The lock is an argument: DELETE and UPDATE already hold it.\<close>

definition key_field :: "string option \<Rightarrow> string list \<Rightarrow> redis_schema" where
  "key_field key_column inferred =
     (case key_column of
        Some k \<Rightarrow> if k \<in> set inferred then [] else [\<lparr>rf_name = k, rf_nullable = False\<rparr>]
      | None \<Rightarrow> [])"

definition data_fields :: "string option \<Rightarrow> string list \<Rightarrow> redis_schema" where
  "data_fields key_column inferred =
     map (\<lambda>f. \<lparr>rf_name = f, rf_nullable = True\<rparr>) (filter (\<lambda>f. key_column \<noteq> Some f) inferred)"

definition infer_schema ::
  "'r redis_server \<Rightarrow> bool \<Rightarrow> 'r \<Rightarrow> string \<Rightarrow> string \<Rightarrow> string option \<Rightarrow> redis_error + redis_schema" where
  "infer_schema R lock_free r key_space table_name key_column =
     (if \<not> lock_free then Inl LockBusy
      else
        try_res (map_err ScanFailed (rs_scan R r (table_data_key_pattern key_space table_name))) (\<lambda>items.
        try_res (case items of
                   [] \<Rightarrow> Inr []
                 | item # _ \<Rightarrow>
                     try_res (map_err ScanFailed item) (\<lambda>sample_key.
                     try_res (map_err HgetallFailed (rs_hgetall R r sample_key)) (\<lambda>entries.
                     Inr (map fst entries)))) (\<lambda>names.
        let inferred = sort names
        in Inr (key_field key_column inferred @ data_fields key_column inferred))))"

definition has_data_fields :: "string option \<Rightarrow> redis_schema \<Rightarrow> bool" where
  "has_data_fields key_column sch \<longleftrightarrow> (if key_column = None then sch \<noteq> [] else 1 < length sch)"

record redis_table =
  rt_key_space :: string
  rt_table_name :: string
  rt_schema :: redis_schema
  rt_key_column :: "string option"

definition redis_table_new ::
  "'r redis_server \<Rightarrow> 'r \<Rightarrow> string \<Rightarrow> string \<Rightarrow> string option \<Rightarrow> string list option \<Rightarrow> redis_error + redis_table" where
  "redis_table_new R r key_space table_name key_column columns =
     try_res (infer_schema R (rs_lock R r) r key_space table_name key_column) (\<lambda>sch.
     let sch' = (if \<not> has_data_fields key_column sch
                 then (case columns of
                         Some cols \<Rightarrow> map (\<lambda>c. \<lparr>rf_name = c, rf_nullable = (key_column \<noteq> Some c)\<rparr>) cols
                       | None \<Rightarrow> sch)
                 else sch)
     in Inr \<lparr>rt_key_space = key_space, rt_table_name = table_name, rt_schema = sch',
             rt_key_column = key_column\<rparr>)"

text \<open>The schema and the table with its updated cache.\<close>

definition current_schema ::
  "'r redis_server \<Rightarrow> bool \<Rightarrow> 'r \<Rightarrow> redis_table \<Rightarrow> redis_schema \<times> redis_table" where
  "current_schema R lock_free r t =
     (let cached = rt_schema t in
      if has_data_fields (rt_key_column t) cached then (cached, t)
      else case infer_schema R lock_free r (rt_key_space t) (rt_table_name t) (rt_key_column t) of
             Inr new_schema \<Rightarrow>
               if has_data_fields (rt_key_column t) new_schema
               then (new_schema, t\<lparr>rt_schema := new_schema\<rparr>) else (cached, t)
           | Inl _ \<Rightarrow> (cached, t))"

section \<open>Filters and assignments\<close>

fun scalar_to_string :: "scalar \<Rightarrow> string option" where
  "scalar_to_string (SvUtf8 (Some s)) = Some s"
| "scalar_to_string (SvLargeUtf8 (Some s)) = Some s"
| "scalar_to_string (SvInt8 (Some v)) = Some (show_signed v)"
| "scalar_to_string (SvInt16 (Some v)) = Some (show_signed v)"
| "scalar_to_string (SvInt32 (Some v)) = Some (show_signed v)"
| "scalar_to_string (SvInt64 (Some v)) = Some (show_signed v)"
| "scalar_to_string (SvUInt8 (Some v)) = Some (show_unsigned v)"
| "scalar_to_string (SvUInt16 (Some v)) = Some (show_unsigned v)"
| "scalar_to_string (SvUInt32 (Some v)) = Some (show_unsigned v)"
| "scalar_to_string (SvUInt64 (Some v)) = Some (show_unsigned v)"
| "scalar_to_string (SvFloat32 (Some v)) = Some v"
| "scalar_to_string (SvFloat64 (Some v)) = Some v"
| "scalar_to_string (SvBoolean (Some v)) = Some (show_bool v)"
| "scalar_to_string _ = None"

definition key_literal :: "expr \<Rightarrow> string \<Rightarrow> string option" where
  "key_literal e key_col =
     (case e of
        EBinary (EColumn c) OpEq (ELiteral v) \<Rightarrow> if c = key_col then scalar_to_string v else None
      | EBinary (ELiteral v) OpEq (EColumn c) \<Rightarrow> if c = key_col then scalar_to_string v else None
      | _ \<Rightarrow> None)"

definition extract_key_column_eq :: "expr list \<Rightarrow> string \<Rightarrow> string option" where
  "extract_key_column_eq filters key_col =
     (case filters of [e] \<Rightarrow> key_literal e key_col | _ \<Rightarrow> None)"

definition resolve_value :: "(string \<rightharpoonup> string) \<Rightarrow> expr \<Rightarrow> redis_error + string" where
  "resolve_value row e =
     (case e of
        EColumn c \<Rightarrow> Inr (case row c of Some v \<Rightarrow> v | None \<Rightarrow> [])
      | ELiteral v \<Rightarrow> ok_or (scalar_to_string v) (UnsupportedLiteral v)
      | _ \<Rightarrow> Inl (UnsupportedValue e))"

fun evaluate_expr :: "(string \<rightharpoonup> string) \<Rightarrow> expr \<Rightarrow> redis_error + bool" where
  "evaluate_expr row (EBinary l opr r) =
     (if opr = OpAnd then
        try_res (evaluate_expr row l) (\<lambda>a. if a then evaluate_expr row r else Inr False)
      else if opr = OpOr then
        try_res (evaluate_expr row l) (\<lambda>a. if a then Inr True else evaluate_expr row r)
      else if is_comparison opr then
        try_res (resolve_value row l) (\<lambda>left_val.
        try_res (resolve_value row r) (\<lambda>right_val.
        Inr (compare_op opr left_val right_val)))
      else Inl (UnsupportedOperator opr))"
| "evaluate_expr row e = Inl (UnsupportedFilter e)"

fun evaluate_filters :: "(string \<rightharpoonup> string) \<Rightarrow> expr list \<Rightarrow> redis_error + bool" where
  "evaluate_filters row [] = Inr True"
| "evaluate_filters row (f # fs) =
     try_res (evaluate_expr row f) (\<lambda>b. if b then evaluate_filters row fs else Inr False)"

text \<open>The row of a hash: its fields and, in the key column, the key behind the prefix.\<close>

definition full_row ::
  "string \<Rightarrow> string option \<Rightarrow> string \<Rightarrow> (string \<rightharpoonup> string) \<Rightarrow> string \<rightharpoonup> string" where
  "full_row prefix key_column key h =
     (case key_column of
        Some k \<Rightarrow> h(k \<mapsto> (case strip_prefix (prefix @ '':'') key of Some i \<Rightarrow> i | None \<Rightarrow> key))
      | None \<Rightarrow> h)"

fun matching_keys ::
  "'r redis_server \<Rightarrow> 'r \<Rightarrow> string \<Rightarrow> string option \<Rightarrow> expr list \<Rightarrow> string list \<Rightarrow> redis_error + string list" where
  "matching_keys R r prefix key_column filters [] = Inr []"
| "matching_keys R r prefix key_column filters (key # keys) =
     try_res (hgetall_map R r key) (\<lambda>redis_map.
     try_res (evaluate_filters (full_row prefix key_column key redis_map) filters) (\<lambda>b.
     try_res (matching_keys R r prefix key_column filters keys) (\<lambda>rest.
     Inr (if b then key # rest else rest))))"

definition resolve_by_scan ::
  "'r redis_server \<Rightarrow> 'r \<Rightarrow> string \<Rightarrow> string \<Rightarrow> string option \<Rightarrow> expr list \<Rightarrow> redis_error + string list" where
  "resolve_by_scan R r key_space table_name key_column filters =
     try_res (scan_keys R r (table_data_key_pattern key_space table_name)) (\<lambda>keys.
     if filters = [] then Inr keys
     else matching_keys R r (redis_prefix key_space table_name) key_column filters keys)"

definition resolve_matching_keys ::
  "'r redis_server \<Rightarrow> 'r \<Rightarrow> string \<Rightarrow> string \<Rightarrow> string option \<Rightarrow> expr list \<Rightarrow> redis_error + string list" where
  "resolve_matching_keys R r key_space table_name key_column filters =
     (case Option.bind key_column (extract_key_column_eq filters) of
        Some v \<Rightarrow> Inr [redis_prefix key_space table_name @ '':'' @ v]
      | None \<Rightarrow> resolve_by_scan R r key_space table_name key_column filters)"

fun assignments_to_redis_fields ::
  "string option \<Rightarrow> (string \<times> expr) list \<Rightarrow> redis_error + (string \<times> string) list" where
  "assignments_to_redis_fields key_column [] = Inr []"
| "assignments_to_redis_fields key_column ((col, e) # rest) =
     (if key_column = Some col then Inl (KeyColumnUpdate col)
      else
        try_res (case e of
                   ELiteral v \<Rightarrow> ok_or (scalar_to_string v) (UpdateLiteral v)
                 | _ \<Rightarrow> Inl (UpdateNotLiteral e)) (\<lambda>val.
        try_res (assignments_to_redis_fields key_column rest) (\<lambda>fs. Inr ((col, val) # fs))))"

section \<open>Statements\<close>

datatype redis_dml_op = RedisDelete "string list" | RedisUpdate "string list" "(string \<times> string) list"

text \<open>One HSET per key, stopping at the first that fails.\<close>

fun hset_keys ::
  "'r redis_server \<Rightarrow> (string \<times> string) list \<Rightarrow> string list \<Rightarrow> 'r \<Rightarrow> (redis_error + unit) \<times> 'r" where
  "hset_keys R fs [] r = (Inr (), r)"
| "hset_keys R fs (key # keys) r =
     (case rs_hset R r key fs of
        (Inl e, r') \<Rightarrow> (Inl (HsetFailed e), r')
      | (Inr _, r') \<Rightarrow> hset_keys R fs keys r')"

definition redis_dml_execute ::
  "'r redis_server \<Rightarrow> redis_dml_op \<Rightarrow> 'r \<Rightarrow> (redis_error + nat) \<times> 'r" where
  "redis_dml_execute R dml r =
     (if \<not> rs_lock R r then (Inl LockBusy, r)
      else case dml of
        RedisDelete keys \<Rightarrow>
          (if keys = [] then (Inr 0, r)
           else case rs_del R r keys of
                  (Inl e, r') \<Rightarrow> (Inl (DelFailed e), r')
                | (Inr _, r') \<Rightarrow> (Inr (length keys), r'))
      | RedisUpdate keys fs \<Rightarrow>
          (case hset_keys R fs keys r of
             (Inl e, r') \<Rightarrow> (Inl e, r')
           | (Inr _, r') \<Rightarrow> (Inr (length keys), r')))"

text \<open>Planning takes the connection's lock, so the schema cannot be inferred again meanwhile.\<close>

definition redis_delete_from ::
  "'r redis_server \<Rightarrow> 'r \<Rightarrow> redis_table \<Rightarrow> expr list \<Rightarrow> redis_error + redis_dml_op" where
  "redis_delete_from R r t filters =
     (if \<not> rs_lock R r then Inl LockBusy
      else
        try_res (resolve_matching_keys R r (rt_key_space t) (rt_table_name t) (rt_key_column t) filters)
          (\<lambda>keys. Inr (RedisDelete keys)))"

definition redis_update ::
  "'r redis_server \<Rightarrow> 'r \<Rightarrow> redis_table \<Rightarrow> (string \<times> expr) list \<Rightarrow> expr list \<Rightarrow> redis_error + redis_dml_op" where
  "redis_update R r t assignments filters =
     (if assignments = [] then Inl NoAssignments
      else
        try_res (assignments_to_redis_fields (rt_key_column t) assignments) (\<lambda>fs.
        if \<not> rs_lock R r then Inl LockBusy
        else
          try_res (resolve_matching_keys R r (rt_key_space t) (rt_table_name t) (rt_key_column t) filters)
            (\<lambda>keys. Inr (RedisUpdate keys fs))))"

section \<open>Scans\<close>

text \<open>The cell of a column: the field, else the key's suffix in the key column, else empty.\<close>

definition cell_value :: "string option \<Rightarrow> string \<Rightarrow> (string \<rightharpoonup> string) \<Rightarrow> string \<Rightarrow> string" where
  "cell_value key_column key_col_value redis_map field_name =
     (case redis_map field_name of
        Some val \<Rightarrow> val
      | None \<Rightarrow> if key_column = Some field_name then key_col_value else [])"

definition key_suffix :: "string option \<Rightarrow> string \<Rightarrow> string \<Rightarrow> redis_error + string" where
  "key_suffix key_column pattern key =
     (case key_column of Some _ \<Rightarrow> ok_or (redis_table_key pattern key) SlicePanic | None \<Rightarrow> Inr [])"

fun fetch_rows ::
  "'r redis_server \<Rightarrow> 'r \<Rightarrow> string \<Rightarrow> string option \<Rightarrow> redis_schema \<Rightarrow> nat option \<Rightarrow> nat \<Rightarrow> string list
   \<Rightarrow> redis_error + string list list" where
  "fetch_rows R r pattern key_column sch limit n [] = Inr []"
| "fetch_rows R r pattern key_column sch limit n (key # keys) =
     (if (case limit of Some m \<Rightarrow> m \<le> n | None \<Rightarrow> False) then Inr []
      else
        try_res (hgetall_map R r key) (\<lambda>redis_map.
        try_res (key_suffix key_column pattern key) (\<lambda>suffix.
        try_res (fetch_rows R r pattern key_column sch limit (Suc n) keys) (\<lambda>rows.
        Inr (map (\<lambda>f. cell_value key_column suffix redis_map (rf_name f)) sch # rows)))))"

text \<open>A batch is its rows, so a batch without columns still has its number of rows.\<close>

definition fetch_partition ::
  "'r redis_server \<Rightarrow> 'r \<Rightarrow> string \<Rightarrow> string \<Rightarrow> string option \<Rightarrow> redis_schema \<Rightarrow> nat option
   \<Rightarrow> redis_error + string list list" where
  "fetch_partition R r key_space table_name key_column projected_schema limit =
     (if \<not> rs_lock R r then Inl LockBusy
      else
        let pattern = table_data_key_pattern key_space table_name in
        try_res (scan_keys R r pattern) (\<lambda>keys.
        fetch_rows R r pattern key_column projected_schema limit 0 keys))"

text \<open>A scan with its projection: the rows, and the table with its cached schema.\<close>

definition redis_scan ::
  "'r redis_server \<Rightarrow> 'r \<Rightarrow> redis_table \<Rightarrow> nat list option \<Rightarrow> nat option
   \<Rightarrow> (redis_error + string list list) \<times> redis_table" where
  "redis_scan R r t projection limit =
     (let (sch, t') = current_schema R (rs_lock R r) r t;
          projected = (case projection of Some is \<Rightarrow> map ((!) sch) is | None \<Rightarrow> sch)
      in (fetch_partition R r (rt_key_space t) (rt_table_name t) (rt_key_column t) projected limit, t'))"

section \<open>Inserting\<close>

definition hex_digit :: "nat \<Rightarrow> char" where
  "hex_digit n = (if n < 10 then char_of (48 + n) else char_of (87 + n))"

definition hex_encode :: "8 word list \<Rightarrow> string" where
  "hex_encode bytes = concat (map (\<lambda>b. [hex_digit (unat b div 16), hex_digit (unat b mod 16)]) bytes)"

text \<open>A cell of an Arrow array as text; \<open>debug\<close> prints the types without a case of their own.\<close>

fun array_value_to_string :: "(scalar \<Rightarrow> string) \<Rightarrow> scalar \<Rightarrow> string" where
  "array_value_to_string debug (SvUtf8 (Some s)) = s"
| "array_value_to_string debug (SvLargeUtf8 (Some s)) = s"
| "array_value_to_string debug (SvInt64 (Some v)) = show_signed v"
| "array_value_to_string debug (SvInt32 (Some v)) = show_signed v"
| "array_value_to_string debug (SvInt16 (Some v)) = show_signed v"
| "array_value_to_string debug (SvInt8 (Some v)) = show_signed v"
| "array_value_to_string debug (SvUInt64 (Some v)) = show_unsigned v"
| "array_value_to_string debug (SvUInt32 (Some v)) = show_unsigned v"
| "array_value_to_string debug (SvUInt16 (Some v)) = show_unsigned v"
| "array_value_to_string debug (SvUInt8 (Some v)) = show_unsigned v"
| "array_value_to_string debug (SvFloat64 (Some v)) = v"
| "array_value_to_string debug (SvFloat32 (Some v)) = v"
| "array_value_to_string debug (SvFloat16 (Some v)) = v"
| "array_value_to_string debug (SvBoolean (Some v)) = show_bool v"
| "array_value_to_string debug (SvBinary (Some v)) = hex_encode v"
| "array_value_to_string debug (SvLargeBinary (Some v)) = hex_encode v"
| "array_value_to_string debug v = (if is_null v then [] else debug v)"

record redis_batch =
  rb_columns :: "string list"
  rb_rows :: "scalar list list"

text \<open>\<open>index_of\<close>: the first column of that name.\<close>

fun index_of :: "string \<Rightarrow> string list \<Rightarrow> nat option" where
  "index_of c [] = None"
| "index_of c (x # xs) = (if x = c then Some 0 else map_option Suc (index_of c xs))"

definition row_fields ::
  "(scalar \<Rightarrow> string) \<Rightarrow> string list \<Rightarrow> nat option \<Rightarrow> scalar list \<Rightarrow> (string \<times> string) list" where
  "row_fields debug columns key_idx row =
     map (\<lambda>i. (columns ! i, array_value_to_string debug (row ! i)))
       (filter (\<lambda>i. key_idx \<noteq> Some i) [0..<length columns])"

text \<open>One row: \<open>uuid\<close> gives the identifier of the \<open>n\<close>-th row when the batch has no key column.\<close>

definition write_row ::
  "'r redis_server \<Rightarrow> (scalar \<Rightarrow> string) \<Rightarrow> (nat \<Rightarrow> string) \<Rightarrow> string \<Rightarrow> string list \<Rightarrow> nat option
   \<Rightarrow> nat \<Rightarrow> scalar list \<Rightarrow> 'r \<Rightarrow> (redis_error + unit) \<times> 'r" where
  "write_row R debug uuid prefix columns key_idx n row r =
     (let id_value = (case key_idx of Some i \<Rightarrow> array_value_to_string debug (row ! i) | None \<Rightarrow> uuid n)
      in if \<not> rs_lock R r then (Inl LockBusy, r)
         else case rs_hset R r (prefix @ '':'' @ id_value) (row_fields debug columns key_idx row) of
                (Inl e, r') \<Rightarrow> (Inl (HsetFailed e), r')
              | (Inr _, r') \<Rightarrow> (Inr (), r'))"

fun write_rows ::
  "'r redis_server \<Rightarrow> (scalar \<Rightarrow> string) \<Rightarrow> (nat \<Rightarrow> string) \<Rightarrow> string \<Rightarrow> string list \<Rightarrow> nat option
   \<Rightarrow> nat \<Rightarrow> scalar list list \<Rightarrow> 'r \<Rightarrow> (redis_error + unit) \<times> 'r" where
  "write_rows R debug uuid prefix columns key_idx n [] r = (Inr (), r)"
| "write_rows R debug uuid prefix columns key_idx n (row # rows) r =
     (case write_row R debug uuid prefix columns key_idx n row r of
        (Inl e, r') \<Rightarrow> (Inl e, r')
      | (Inr _, r') \<Rightarrow> write_rows R debug uuid prefix columns key_idx (Suc n) rows r')"

fun write_batches ::
  "'r redis_server \<Rightarrow> (scalar \<Rightarrow> string) \<Rightarrow> (nat \<Rightarrow> string) \<Rightarrow> string \<Rightarrow> string option
   \<Rightarrow> nat \<Rightarrow> (string + redis_batch) list \<Rightarrow> 'r \<Rightarrow> (redis_error + nat) \<times> 'r" where
  "write_batches R debug uuid prefix key_column n [] r = (Inr n, r)"
| "write_batches R debug uuid prefix key_column n (Inl e # rest) r = (Inl (StreamFailed e), r)"
| "write_batches R debug uuid prefix key_column n (Inr b # rest) r =
     (case write_rows R debug uuid prefix (rb_columns b)
             (Option.bind key_column (\<lambda>c. index_of c (rb_columns b))) n (rb_rows b) r of
        (Inl e, r') \<Rightarrow> (Inl e, r')
      | (Inr _, r') \<Rightarrow> write_batches R debug uuid prefix key_column (n + length (rb_rows b)) rest r')"

definition delete_existing ::
  "'r redis_server \<Rightarrow> string \<Rightarrow> string \<Rightarrow> 'r \<Rightarrow> (redis_error + unit) \<times> 'r" where
  "delete_existing R key_space table_name r =
     (if \<not> rs_lock R r then (Inl LockBusy, r)
      else case scan_keys R r (table_data_key_pattern key_space table_name) of
             Inl e \<Rightarrow> (Inl e, r)
           | Inr del_keys \<Rightarrow>
               if del_keys = [] then (Inr (), r)
               else case rs_del R r del_keys of
                      (Inl e, r') \<Rightarrow> (Inl (DelFailed e), r')
                    | (Inr _, r') \<Rightarrow> (Inr (), r'))"

definition redis_write_all ::
  "'r redis_server \<Rightarrow> (scalar \<Rightarrow> string) \<Rightarrow> (nat \<Rightarrow> string) \<Rightarrow> redis_table \<Rightarrow> insert_op
   \<Rightarrow> (string + redis_batch) list \<Rightarrow> 'r \<Rightarrow> (redis_error + nat) \<times> 'r" where
  "redis_write_all R debug uuid t iop data r =
     (let prefix = redis_prefix (rt_key_space t) (rt_table_name t);
          (cleared, r1) = (if iop \<in> {InsertOverwrite, InsertReplace}
                           then delete_existing R (rt_key_space t) (rt_table_name t) r else (Inr (), r))
      in case cleared of
           Inl e \<Rightarrow> (Inl e, r1)
         | Inr _ \<Rightarrow> write_batches R debug uuid prefix (rt_key_column t) 0 data r1)"

section \<open>Registration\<close>

text \<open>The error texts name the missing option; connecting is a parameter.\<close>

definition columns_option :: "string \<Rightarrow> string list" where
  "columns_option s = filter (\<lambda>c. c \<noteq> []) (map str_trim (str_split (CHR '','') s))"

datatype register_error =
  MissingOptions | MissingKeySpace | MissingTable
| ConnectFailed string | TableFailed redis_error | RegisterFailed string

definition register_redis_tables ::
  "'r redis_server \<Rightarrow> (string \<Rightarrow> string + 'r) \<Rightarrow> (redis_table \<Rightarrow> string + unit) \<Rightarrow> string
   \<Rightarrow> (string \<rightharpoonup> string) option \<Rightarrow> register_error + redis_table" where
  "register_redis_tables R connect register connection_string options =
     try_res (ok_or options MissingOptions) (\<lambda>opts.
     try_res (ok_or (opts ''key_space'') MissingKeySpace) (\<lambda>key_space.
     try_res (ok_or (opts ''table'') MissingTable) (\<lambda>table.
     try_res (map_err ConnectFailed (connect connection_string)) (\<lambda>r.
     try_res (map_err TableFailed
                (redis_table_new R r key_space table (opts ''key_column'')
                   (map_option columns_option (opts ''columns'')))) (\<lambda>t.
     try_res (map_err RegisterFailed (register t)) (\<lambda>_. Inr t))))))"

section \<open>What the server promises\<close>

text \<open>
  \<open>view r k\<close> is the hash stored under \<open>k\<close>. SCAN with a pattern that is a literal prefix and a
  star returns exactly the keys with that prefix, possibly more than once; HSET adds or
  overwrites fields and refuses an empty field list; DEL removes keys.
\<close>

definition glob_plain :: "string \<Rightarrow> bool" where
  "glob_plain p \<longleftrightarrow> list_all (\<lambda>c. c \<notin> {CHR ''*'', CHR ''?'', CHR ''['', CHR '']'', CHR 0x5C}) p"

definition merge_hash :: "(string \<rightharpoonup> string) option \<Rightarrow> (string \<times> string) list \<Rightarrow> string \<rightharpoonup> string" where
  "merge_hash old fs = (case old of Some h \<Rightarrow> h | None \<Rightarrow> Map.empty) ++ hash_of fs"

definition redis_serves :: "'r redis_server \<Rightarrow> ('r \<Rightarrow> string \<rightharpoonup> (string \<rightharpoonup> string)) \<Rightarrow> bool" where
  "redis_serves R view \<longleftrightarrow>
     (\<forall>r p items k. glob_plain p \<longrightarrow> rs_scan R r (p @ ''*'') = Inr items \<longrightarrow> Inr k \<in> set items
        \<longrightarrow> k \<in> dom (view r) \<and> starts_with p k)
   \<and> (\<forall>r p items k. glob_plain p \<longrightarrow> rs_scan R r (p @ ''*'') = Inr items \<longrightarrow> list_all is_ok items
        \<longrightarrow> k \<in> dom (view r) \<longrightarrow> starts_with p k \<longrightarrow> Inr k \<in> set items)
   \<and> (\<forall>r k entries. rs_hgetall R r k = Inr entries
        \<longrightarrow> hash_of entries = (case view r k of Some h \<Rightarrow> h | None \<Rightarrow> Map.empty))
   \<and> (\<forall>r ks r'. rs_del R r ks = (Inr (), r') \<longrightarrow> view r' = view r |` (- set ks))
   \<and> (\<forall>r k fs r'. rs_hset R r k fs = (Inr (), r')
        \<longrightarrow> fs \<noteq> [] \<and> view r' = (view r)(k \<mapsto> merge_hash (view r k) fs))"

text \<open>An instance: the hashes as an association list.\<close>

type_synonym store = "(string \<times> (string \<times> string) list) list"

definition store_hash :: "store \<Rightarrow> string \<Rightarrow> (string \<times> string) list" where
  "store_hash s k = (case map_of s k of Some h \<Rightarrow> h | None \<Rightarrow> [])"

definition store_server :: "store redis_server" where
  "store_server =
     \<lparr>rs_lock = (\<lambda>_. True),
      rs_scan = (\<lambda>s pattern. Inr (map Inr (filter (starts_with (butlast pattern)) (map fst s)))),
      rs_hgetall = (\<lambda>s k. Inr (store_hash s k)),
      rs_del = (\<lambda>s ks. (Inr (), filter (\<lambda>(k, _). k \<notin> set ks) s)),
      rs_hset = (\<lambda>s k fs. if fs = [] then (Inl ''wrong number of arguments'', s)
                         else (Inr (), AList.update k (store_hash s k @ fs) s))\<rparr>"

definition store_view :: "store \<Rightarrow> string \<rightharpoonup> (string \<rightharpoonup> string)" where
  "store_view s k = map_option hash_of (map_of s k)"

lemma hash_of_append: "hash_of (a @ b) = hash_of a ++ hash_of b"
  by (simp add: hash_of_def)

lemma hash_of_Nil [simp]: "hash_of [] = Map.empty"
  by (simp add: hash_of_def)

lemma dom_store_view: "dom (store_view s) = fst ` set s"
proof -
  have "dom (store_view s) = dom (map_of s)" by (auto simp: store_view_def dom_def)
  then show ?thesis by (simp add: dom_map_of_conv_image_fst)
qed

lemma map_of_filter_keys: "map_of (filter (\<lambda>(k, _). k \<notin> A) s) k = (if k \<in> A then None else map_of s k)"
  by (induction s) auto

lemma store_serves: "redis_serves store_server store_view"
  unfolding redis_serves_def
proof (intro conjI allI impI)
  fix r p items k
  assume "rs_scan store_server r (p @ ''*'') = Inr items" "Inr k \<in> set items"
  then show "k \<in> dom (store_view r)" "starts_with p k"
    by (auto simp: store_server_def dom_store_view butlast_append)
next
  fix r p k and items :: "(string + string) list"
  assume "rs_scan store_server r (p @ ''*'') = Inr items" "k \<in> dom (store_view r)" "starts_with p k"
  then have "items = map Inr (filter (starts_with p) (map fst r))"
    "k \<in> set (filter (starts_with p) (map fst r))"
    by (auto simp: store_server_def dom_store_view butlast_append)
  then show "Inr k \<in> set items" by (simp only: set_map) blast
next
  fix r k entries
  assume "rs_hgetall store_server r k = Inr entries"
  then show "hash_of entries = (case store_view r k of Some h \<Rightarrow> h | None \<Rightarrow> Map.empty)"
    by (auto simp: store_server_def store_view_def store_hash_def split: option.splits)
next
  fix r ks r'
  assume "rs_del store_server r ks = (Inr (), r')"
  then show "store_view r' = store_view r |` (- set ks)"
    by (auto simp: store_server_def store_view_def restrict_map_def map_of_filter_keys fun_eq_iff)
next
  fix r k fs r'
  assume a: "rs_hset store_server r k fs = (Inr (), r')"
  then show "fs \<noteq> []" by (auto simp: store_server_def)
  with a show "store_view r' = (store_view r)(k \<mapsto> merge_hash (store_view r k) fs)"
    by (auto simp: store_server_def store_view_def store_hash_def merge_hash_def hash_of_append
        update_conv fun_eq_iff split: option.splits)
qed

lemma serves_scan_sound:
  "redis_serves R view \<Longrightarrow> glob_plain p \<Longrightarrow> rs_scan R r (p @ ''*'') = Inr items \<Longrightarrow> Inr k \<in> set items
   \<Longrightarrow> k \<in> dom (view r) \<and> starts_with p k"
  unfolding redis_serves_def by blast

lemma serves_scan_complete:
  "redis_serves R view \<Longrightarrow> glob_plain p \<Longrightarrow> rs_scan R r (p @ ''*'') = Inr items \<Longrightarrow> list_all is_ok items
   \<Longrightarrow> k \<in> dom (view r) \<Longrightarrow> starts_with p k \<Longrightarrow> Inr k \<in> set items"
  unfolding redis_serves_def by blast

lemma serves_hgetall:
  "redis_serves R view \<Longrightarrow> rs_hgetall R r k = Inr entries
   \<Longrightarrow> hash_of entries = (case view r k of Some h \<Rightarrow> h | None \<Rightarrow> Map.empty)"
  unfolding redis_serves_def by blast

lemma serves_del:
  "redis_serves R view \<Longrightarrow> rs_del R r ks = (Inr (), r') \<Longrightarrow> view r' = view r |` (- set ks)"
  unfolding redis_serves_def by blast

lemma serves_hset:
  "redis_serves R view \<Longrightarrow> rs_hset R r k fs = (Inr (), r')
   \<Longrightarrow> fs \<noteq> [] \<and> view r' = (view r)(k \<mapsto> merge_hash (view r k) fs)"
  unfolding redis_serves_def by blast

section \<open>Which keys a statement touches\<close>

text \<open>A key of the table, and whether the filters keep the row stored under it.\<close>

definition in_table :: "string \<Rightarrow> string \<Rightarrow> string \<Rightarrow> bool" where
  "in_table key_space table_name k \<longleftrightarrow> starts_with (redis_prefix key_space table_name @ '':'') k"

definition row_matches ::
  "string \<Rightarrow> string option \<Rightarrow> expr list \<Rightarrow> (string \<rightharpoonup> (string \<rightharpoonup> string)) \<Rightarrow> string \<Rightarrow> bool" where
  "row_matches prefix key_column filters hashes k \<longleftrightarrow>
     (\<exists>h. hashes k = Some h \<and> evaluate_filters (full_row prefix key_column k h) filters = Inr True)"

lemma glob_plain_pattern: "glob_plain (redis_prefix ks t) \<Longrightarrow> glob_plain (redis_prefix ks t @ '':'')"
  by (simp add: glob_plain_def)

lemma pattern_eq: "table_data_key_pattern ks t = (redis_prefix ks t @ '':'') @ ''*''"
  by (simp add: table_data_key_pattern_def)

lemma scan_keys_set:
  assumes s: "redis_serves R view" and g: "glob_plain (redis_prefix ks t)"
    and k: "scan_keys R r (table_data_key_pattern ks t) = Inr keys"
  shows "set keys = {k \<in> dom (view r). in_table ks t k}"
proof -
  from k obtain items where i: "rs_scan R r ((redis_prefix ks t @ '':'') @ ''*'') = Inr items"
    "items = map Inr keys"
    by (auto simp: scan_keys_def res_simps collect_res_Inr_iff pattern_eq)
  have ok: "list_all is_ok items" by (simp add: i(2) list_all_iff)
  have m: "\<And>k. Inr k \<in> set items \<longleftrightarrow> k \<in> set keys" by (auto simp: i(2))
  show ?thesis
    using serves_scan_sound [OF s glob_plain_pattern [OF g] i(1)]
      serves_scan_complete [OF s glob_plain_pattern [OF g] i(1) ok] m
    unfolding in_table_def by blast
qed

lemma scan_keys_distinct:
  assumes "scan_keys R r p = Inr keys" and "rs_scan R r p = Inr items" and "distinct items"
  shows "distinct keys"
proof -
  have "items = map Inr keys"
    using assms(1,2) by (auto simp: scan_keys_def res_simps collect_res_Inr_iff)
  with assms(3) show ?thesis by (simp add: distinct_map)
qed

lemma hgetall_view:
  "redis_serves R view \<Longrightarrow> hgetall_map R r k = Inr h \<Longrightarrow> k \<in> dom (view r) \<Longrightarrow> view r k = Some h"
  by (auto simp: hgetall_map_def res_simps dest!: serves_hgetall)

lemma matching_keys_set:
  assumes "redis_serves R view"
  shows "matching_keys R r prefix kc filters keys = Inr found \<Longrightarrow> set keys \<subseteq> dom (view r) \<Longrightarrow>
    set found = {k \<in> set keys. row_matches prefix kc filters (view r) k}"
proof (induction keys arbitrary: found)
  case Nil
  then show ?case by simp
next
  case (Cons k keys)
  from Cons.prems(1) obtain h b rest where
    h: "hgetall_map R r k = Inr h" "evaluate_filters (full_row prefix kc k h) filters = Inr b"
    "matching_keys R r prefix kc filters keys = Inr rest" "found = (if b then k # rest else rest)"
    by (auto simp: res_simps)
  from hgetall_view [OF assms h(1)] Cons.prems(2) have v: "view r k = Some h" by simp
  have "row_matches prefix kc filters (view r) k \<longleftrightarrow> b" using v h(2) by (simp add: row_matches_def)
  moreover have "set rest = {k \<in> set keys. row_matches prefix kc filters (view r) k}"
    using Cons.IH [OF h(3)] Cons.prems(2) by simp
  ultimately show ?case using h(4) by auto
qed

lemma resolve_by_scan_set:
  assumes "redis_serves R view" and "glob_plain (redis_prefix ks t)"
    and r: "resolve_by_scan R r ks t kc filters = Inr keys"
  shows "set keys = {k \<in> dom (view r). in_table ks t k \<and> row_matches (redis_prefix ks t) kc filters (view r) k}"
proof -
  from r obtain all where a: "scan_keys R r (table_data_key_pattern ks t) = Inr all"
    "(if filters = [] then Inr all else matching_keys R r (redis_prefix ks t) kc filters all) = Inr keys"
    by (auto simp: resolve_by_scan_def res_simps)
  note s = scan_keys_set [OF assms(1,2) a(1)]
  show ?thesis
  proof (cases "filters = []")
    case True
    with a(2) s show ?thesis by (auto simp: row_matches_def)
  next
    case False
    with a(2) have "matching_keys R r (redis_prefix ks t) kc filters all = Inr keys" by simp
    from matching_keys_set [OF assms(1) this] s show ?thesis by auto
  qed
qed

text \<open>The fast path names the key that the slow path would find.\<close>

lemma key_literal_evaluates:
  assumes "key_literal e c = Some v"
  shows "evaluate_expr (h(c \<mapsto> i)) e = Inr (i = v)"
proof -
  from assms consider w where "e = EBinary (EColumn c) OpEq (ELiteral w)" "scalar_to_string w = Some v"
    | w where "e = EBinary (ELiteral w) OpEq (EColumn c)" "scalar_to_string w = Some v"
    by (auto simp: key_literal_def split: expr.splits operator.splits if_splits)
  then show ?thesis
    by cases (auto simp: resolve_value_def compare_op_def)
qed

lemma fast_path_matches:
  assumes "Option.bind kc (extract_key_column_eq filters) = Some v"
  shows "in_table ks t k \<and> row_matches (redis_prefix ks t) kc filters hashes k \<longleftrightarrow>
    k = redis_prefix ks t @ '':'' @ v \<and> k \<in> dom hashes"
proof -
  from assms obtain c where kc: "kc = Some c" "extract_key_column_eq filters c = Some v"
    by (auto simp: bind_eq_Some_conv)
  from kc(2) obtain e where e: "filters = [e]" "key_literal e c = Some v"
    by (cases filters) (auto simp: extract_key_column_eq_def split: list.splits)
  note c = kc(1) e
  show ?thesis
  proof (cases "in_table ks t k")
    case False
    then show ?thesis by (auto simp: in_table_def starts_with_iff)
  next
    case True
    then obtain i where i: "k = (redis_prefix ks t @ '':'') @ i"
      by (auto simp: in_table_def starts_with_iff)
    have sp: "strip_prefix (redis_prefix ks t @ '':'') k = Some i" by (simp only: i strip_prefix_append)
    have "\<And>h. evaluate_filters (full_row (redis_prefix ks t) kc k h) filters = Inr (i = v)"
      by (simp add: c full_row_def sp key_literal_evaluates [OF c(3)])
    then have "row_matches (redis_prefix ks t) kc filters hashes k \<longleftrightarrow> k \<in> dom hashes \<and> i = v"
      by (auto simp: row_matches_def)
    then show ?thesis using True i by auto
  qed
qed

lemma resolve_matching_keys_set:
  assumes "redis_serves R view" and "glob_plain (redis_prefix ks t)"
    and "resolve_matching_keys R r ks t kc filters = Inr keys"
  shows "set keys \<inter> dom (view r) =
    {k \<in> dom (view r). in_table ks t k \<and> row_matches (redis_prefix ks t) kc filters (view r) k}"
proof (cases "Option.bind kc (extract_key_column_eq filters)")
  case None
  with assms(3) have "resolve_by_scan R r ks t kc filters = Inr keys"
    by (simp add: resolve_matching_keys_def)
  from resolve_by_scan_set [OF assms(1,2) this] show ?thesis by auto
next
  case (Some v)
  with assms(3) have "keys = [redis_prefix ks t @ '':'' @ v]" by (simp add: resolve_matching_keys_def)
  then show ?thesis using fast_path_matches [OF Some, of ks t _ "view r"] by auto
qed

section \<open>DELETE and UPDATE\<close>

lemma hset_keys_view:
  assumes "redis_serves R view"
  shows "hset_keys R fs keys r = (Inr (), r') \<Longrightarrow>
    view r' = (\<lambda>k. if k \<in> set keys then Some (merge_hash (view r k) fs) else view r k)"
proof (induction keys arbitrary: r)
  case Nil
  then show ?case by simp
next
  case (Cons k keys)
  from Cons.prems obtain r1 where r1: "rs_hset R r k fs = (Inr (), r1)" "hset_keys R fs keys r1 = (Inr (), r')"
    by (auto split: prod.splits sum.splits)
  have v: "view r1 = (view r)(k \<mapsto> merge_hash (view r k) fs)" using serves_hset [OF assms r1(1)] by simp
  have idem: "merge_hash (Some (merge_hash h fs)) fs = merge_hash h fs" for h
    by (auto simp: merge_hash_def fun_eq_iff map_add_def split: option.splits)
  show ?case unfolding Cons.IH [OF r1(2)] v by (auto simp: fun_eq_iff idem)
qed

text \<open>
  C7. A DELETE that succeeds removes exactly the rows of the table its filters keep, on both the
  direct and the scanning path, and leaves every other key of the server as it was.
\<close>

theorem redis_delete_removes_matching:
  assumes "redis_serves R view" and "glob_plain (redis_prefix (rt_key_space t) (rt_table_name t))"
    and "redis_delete_from R r t filters = Inr dml" and "redis_dml_execute R dml r = (Inr n, r')"
  shows "view r' = (\<lambda>k. if in_table (rt_key_space t) (rt_table_name t) k
      \<and> row_matches (redis_prefix (rt_key_space t) (rt_table_name t)) (rt_key_column t) filters (view r) k
    then None else view r k)"
proof -
  let ?ks = "rt_key_space t" and ?t = "rt_table_name t" and ?kc = "rt_key_column t"
  from assms(3) obtain keys where k: "dml = RedisDelete keys"
    "resolve_matching_keys R r ?ks ?t ?kc filters = Inr keys"
    by (auto simp: redis_delete_from_def res_simps split: if_splits)
  have v: "view r' = view r |` (- set keys)"
  proof (cases "keys = []")
    case True
    then show ?thesis using assms(4) by (auto simp: k(1) redis_dml_execute_def split: if_splits)
  next
    case False
    then have "rs_del R r keys = (Inr (), r')"
      using assms(4) by (auto simp: k(1) redis_dml_execute_def split: if_splits prod.splits sum.splits)
    then show ?thesis by (rule serves_del [OF assms(1)])
  qed
  show ?thesis
  proof (rule ext)
    fix k
    have "k \<in> dom (view r) \<Longrightarrow> k \<in> set keys \<longleftrightarrow>
        in_table ?ks ?t k \<and> row_matches (redis_prefix ?ks ?t) ?kc filters (view r) k"
      using resolve_matching_keys_set [OF assms(1,2) k(2)] by blast
    moreover have "k \<notin> dom (view r) \<Longrightarrow> view r k = None" by (simp add: domIff)
    ultimately show "view r' k = (if in_table ?ks ?t k
        \<and> row_matches (redis_prefix ?ks ?t) ?kc filters (view r) k then None else view r k)"
      unfolding v by (cases "k \<in> dom (view r)") (simp_all add: restrict_map_def)
  qed
qed

theorem redis_delete_removes_matching_witness:
  "store_view (snd (redis_dml_execute store_server (RedisDelete [''t:2''])
     [(''t:1'', [(''a'', ''x'')]), (''t:2'', [(''a'', ''y'')])])) ''t:2'' = None"
proof -
  let ?t = "\<lparr>rt_key_space = [], rt_table_name = ''t'', rt_schema = [], rt_key_column = Some ''id''\<rparr>"
  let ?s = "[(''t:1'', [(''a'', ''x'')]), (''t:2'', [(''a'', ''y'')])]"
  let ?f = "[EBinary (EColumn ''a'') OpGt (ELiteral (SvUtf8 (Some ''x'')))]"
  have g: "glob_plain (redis_prefix (rt_key_space ?t) (rt_table_name ?t))" by code_simp
  have d: "redis_delete_from store_server ?s ?t ?f = Inr (RedisDelete [''t:2''])" by code_simp
  have x: "redis_dml_execute store_server (RedisDelete [''t:2'']) ?s = (Inr 1, [(''t:1'', [(''a'', ''x'')])])"
    by code_simp
  have h: "store_view ?s ''t:2'' = Some (hash_of [(''a'', ''y'')])" by (simp add: store_view_def)
  have e: "evaluate_filters (full_row ''t'' (Some ''id'') ''t:2'' (hash_of [(''a'', ''y'')])) ?f = Inr True"
    by code_simp
  have "in_table [] ''t'' ''t:2''" by code_simp
  moreover have "row_matches ''t'' (Some ''id'') ?f (store_view ?s) ''t:2''"
    using h e unfolding row_matches_def by blast
  ultimately show ?thesis
    using fun_cong [OF redis_delete_removes_matching [OF store_serves g d x], of "''t:2''"]
    by (simp add: x redis_prefix_def)
qed

text \<open>
  An UPDATE that succeeds and whose filter does not name a missing key merges the assigned
  values into exactly the rows its filters keep and changes nothing else.
\<close>

theorem redis_update_merges_matching:
  assumes "redis_serves R view" and "glob_plain (redis_prefix (rt_key_space t) (rt_table_name t))"
    and "redis_update R r t assignments filters = Inr (RedisUpdate keys fs)" and "set keys \<subseteq> dom (view r)"
    and "redis_dml_execute R (RedisUpdate keys fs) r = (Inr n, r')"
  shows "view r' = (\<lambda>k. if in_table (rt_key_space t) (rt_table_name t) k
      \<and> row_matches (redis_prefix (rt_key_space t) (rt_table_name t)) (rt_key_column t) filters (view r) k
    then Some (merge_hash (view r k) fs) else view r k) \<and> map fst fs = map fst assignments"
proof -
  let ?ks = "rt_key_space t" and ?t = "rt_table_name t" and ?kc = "rt_key_column t"
  from assms(3) have k: "assignments_to_redis_fields ?kc assignments = Inr fs"
    "resolve_matching_keys R r ?ks ?t ?kc filters = Inr keys"
    by (auto simp: redis_update_def res_simps split: if_splits)
  from assms(5) have "hset_keys R fs keys r = (Inr (), r')"
    by (auto simp: redis_dml_execute_def split: if_splits prod.splits sum.splits)
  note v = hset_keys_view [OF assms(1) this]
  have m: "k \<in> set keys \<longleftrightarrow> in_table ?ks ?t k \<and> row_matches (redis_prefix ?ks ?t) ?kc filters (view r) k" for k
    using resolve_matching_keys_set [OF assms(1,2) k(2)] assms(4) by (auto simp: row_matches_def)
  have "assignments_to_redis_fields kc as = Inr gs \<Longrightarrow> map fst gs = map fst as" for kc as gs
    by (induction kc as arbitrary: gs rule: assignments_to_redis_fields.induct)
      (auto simp: res_simps split: if_splits)
  with k(1) v m show ?thesis by simp
qed

theorem redis_update_merges_matching_witness:
  "store_view (snd (redis_dml_execute store_server (RedisUpdate [''t:2''] [(''b'', ''7'')])
     [(''t:1'', [(''a'', ''x'')]), (''t:2'', [(''a'', ''y'')])])) ''t:2'' =
   Some (merge_hash (Some (hash_of [(''a'', ''y'')])) [(''b'', ''7'')])"
proof -
  let ?t = "\<lparr>rt_key_space = [], rt_table_name = ''t'', rt_schema = [], rt_key_column = Some ''id''\<rparr>"
  let ?s = "[(''t:1'', [(''a'', ''x'')]), (''t:2'', [(''a'', ''y'')])]"
  let ?s' = "[(''t:1'', [(''a'', ''x'')]), (''t:2'', [(''a'', ''y''), (''b'', ''7'')])]"
  let ?f = "[EBinary (EColumn ''id'') OpEq (ELiteral (SvInt64 (Some 2)))]"
  let ?as = "[(''b'', ELiteral (SvUInt8 (Some 7)))]"
  have g: "glob_plain (redis_prefix (rt_key_space ?t) (rt_table_name ?t))" by code_simp
  have d: "redis_update store_server ?s ?t ?as ?f = Inr (RedisUpdate [''t:2''] [(''b'', ''7'')])" by code_simp
  have x: "redis_dml_execute store_server (RedisUpdate [''t:2''] [(''b'', ''7'')]) ?s = (Inr 1, ?s')"
    by code_simp
  have h: "store_view ?s ''t:2'' = Some (hash_of [(''a'', ''y'')])" by (simp add: store_view_def)
  then have k: "set [''t:2''] \<subseteq> dom (store_view ?s)" by (simp add: domIff)
  have e: "evaluate_filters (full_row ''t'' (Some ''id'') ''t:2'' (hash_of [(''a'', ''y'')])) ?f = Inr True"
    by code_simp
  have "in_table [] ''t'' ''t:2''" by code_simp
  moreover have "row_matches ''t'' (Some ''id'') ?f (store_view ?s) ''t:2''"
    using h e unfolding row_matches_def by blast
  ultimately show ?thesis
    using fun_cong [OF conjunct1 [OF redis_update_merges_matching [OF store_serves g d k x]], of "''t:2''"]
    by (simp add: x h redis_prefix_def)
qed

text \<open>
  C23. The fast path is an optimisation: the key it computes, if it exists, is the only row the
  scan would have found.
\<close>

theorem fast_path_agrees_with_scan:
  assumes "redis_serves R view" and "glob_plain (redis_prefix ks t)"
    and "extract_key_column_eq filters c = Some v"
    and "resolve_by_scan R r ks t (Some c) filters = Inr scanned"
  shows "resolve_matching_keys R r ks t (Some c) filters = Inr [redis_prefix ks t @ '':'' @ v]
    \<and> set scanned = {redis_prefix ks t @ '':'' @ v} \<inter> dom (view r)"
proof
  show "resolve_matching_keys R r ks t (Some c) filters = Inr [redis_prefix ks t @ '':'' @ v]"
    using assms(3) by (simp add: resolve_matching_keys_def)
  have "Option.bind (Some c) (extract_key_column_eq filters) = Some v" using assms(3) by simp
  from fast_path_matches [OF this, of ks t _ "view r"] resolve_by_scan_set [OF assms(1,2,4)]
  show "set scanned = {redis_prefix ks t @ '':'' @ v} \<inter> dom (view r)" by auto
qed

theorem fast_path_agrees_with_scan_witness:
  "set [''s:t:2''] = {''s:t:2''} \<inter> dom (store_view [(''s:t:1'', []), (''s:t:2'', [])])"
proof -
  let ?f = "[EBinary (ELiteral (SvUtf8 (Some ''2''))) OpEq (EColumn ''id'')]"
  have g: "glob_plain (redis_prefix ''s'' ''t'')" by code_simp
  have x: "extract_key_column_eq ?f ''id'' = Some ''2''" by code_simp
  have r: "resolve_by_scan store_server [(''s:t:1'', []), (''s:t:2'', [])] ''s'' ''t'' (Some ''id'') ?f
      = Inr [''s:t:2'']"
    by code_simp
  have p: "redis_prefix ''s'' ''t'' @ '':'' @ ''2'' = ''s:t:2''" by code_simp
  show ?thesis
    using conjunct2 [OF fast_path_agrees_with_scan [OF store_serves g x r]] unfolding p .
qed

text \<open>
  An UPDATE addressed by key writes the row whether or not it exists: on an empty table it
  reports one row updated and leaves a row with only the assigned fields.
\<close>

theorem update_of_missing_key_creates_row:
  "(let t = \<lparr>rt_key_space = [], rt_table_name = ''t'', rt_schema = [], rt_key_column = Some ''id''\<rparr> in
    case redis_update store_server [] t [(''a'', ELiteral (SvUtf8 (Some ''x'')))]
           [EBinary (EColumn ''id'') OpEq (ELiteral (SvUtf8 (Some ''9'')))] of
      Inr dml \<Rightarrow> redis_dml_execute store_server dml [] = (Inr 1, [(''t:9'', [(''a'', ''x'')])])
    | Inl _ \<Rightarrow> False)"
  by code_simp

text \<open>
  Filters of DELETE and UPDATE compare texts: a row with age 10 does not satisfy an age
  greater than 9, and one with age 10 satisfies an age less than 9.
\<close>

theorem filters_compare_texts:
  "evaluate_filters [''age'' \<mapsto> ''10''] [EBinary (EColumn ''age'') OpGt (ELiteral (SvInt64 (Some 9)))] = Inr False
   \<and> evaluate_filters [''age'' \<mapsto> ''10''] [EBinary (EColumn ''age'') OpLt (ELiteral (SvInt64 (Some 9)))] = Inr True"
  by code_simp

section \<open>Inserting and reading back\<close>

lemma hash_of_distinct: "distinct (map fst fs) \<Longrightarrow> hash_of fs = map_of fs"
  unfolding hash_of_def by (subst map_of_inject_set) (auto simp: rev_map [symmetric])

text \<open>The key and the hash of one inserted row.\<close>

definition row_key :: "(scalar \<Rightarrow> string) \<Rightarrow> string \<Rightarrow> nat \<Rightarrow> scalar list \<Rightarrow> string" where
  "row_key debug prefix i row = prefix @ '':'' @ array_value_to_string debug (row ! i)"

lemma write_rows_view:
  assumes "redis_serves R view"
  shows "write_rows R debug uuid prefix cols (Some i) n rows r = (Inr (), r') \<Longrightarrow>
    view r' = foldl (\<lambda>v row. v(row_key debug prefix i row \<mapsto>
        merge_hash (v (row_key debug prefix i row)) (row_fields debug cols (Some i) row))) (view r) rows"
proof (induction rows arbitrary: n r)
  case Nil
  then show ?case by simp
next
  case (Cons row rows)
  from Cons.prems obtain r1 where
    r1: "rs_hset R r (row_key debug prefix i row) (row_fields debug cols (Some i) row) = (Inr (), r1)"
    "write_rows R debug uuid prefix cols (Some i) (Suc n) rows r1 = (Inr (), r')"
    by (auto simp: write_row_def row_key_def Let_def split: prod.splits sum.splits if_splits)
  from serves_hset [OF assms r1(1)]
  have "view r1 = (view r)(row_key debug prefix i row \<mapsto>
      merge_hash (view r (row_key debug prefix i row)) (row_fields debug cols (Some i) row))" by simp
  with Cons.IH [OF r1(2)] show ?case by simp
qed

lemma foldl_fresh_keys:
  assumes "distinct (map key rows)" and "set (map key rows) \<inter> dom v = {}"
  shows "foldl (\<lambda>v row. v(key row \<mapsto> merge_hash (v (key row)) (fs row))) v rows =
    v ++ map_of (map (\<lambda>row. (key row, hash_of (fs row))) rows)"
  using assms
proof (induction rows arbitrary: v)
  case Nil
  then show ?case by simp
next
  case (Cons row rows)
  have none: "v (key row) = None" using Cons.prems(2) by auto
  have m: "merge_hash None (fs row) = hash_of (fs row)" by (simp add: merge_hash_def)
  have ih: "foldl (\<lambda>v row. v(key row \<mapsto> merge_hash (v (key row)) (fs row))) (v(key row \<mapsto> hash_of (fs row))) rows
      = (v(key row \<mapsto> hash_of (fs row))) ++ map_of (map (\<lambda>row. (key row, hash_of (fs row))) rows)"
  proof (rule Cons.IH)
    show "distinct (map key rows)" using Cons.prems(1) by simp
    show "set (map key rows) \<inter> dom (v(key row \<mapsto> hash_of (fs row))) = {}"
      using Cons.prems by (simp only: dom_fun_upd) auto
  qed
  have "key row \<notin> dom (map_of (map (\<lambda>row. (key row, hash_of (fs row))) rows))"
    using Cons.prems(1) by (auto simp: dom_map_of_conv_image_fst)
  then show ?case
    by (simp only: foldl_Cons none m ih list.map map_of.simps fst_conv snd_conv map_add_upd map_add_upd_left
        not_False_eq_True)
qed

lemma delete_existing_view:
  assumes "redis_serves R view" and "glob_plain (redis_prefix ks t)"
    and "delete_existing R ks t r = (Inr (), r')"
  shows "view r' = view r |` {k. \<not> in_table ks t k}"
proof -
  from assms(3) obtain keys where k: "scan_keys R r (table_data_key_pattern ks t) = Inr keys"
    by (auto simp: delete_existing_def split: if_splits sum.splits)
  note s = scan_keys_set [OF assms(1,2) k]
  have "view r' = view r |` (- set keys)"
  proof (cases "keys = []")
    case True
    with assms(3) k show ?thesis by (auto simp: delete_existing_def split: if_splits)
  next
    case False
    with assms(3) k have "rs_del R r keys = (Inr (), r')"
      by (auto simp: delete_existing_def split: if_splits sum.splits prod.splits)
    then show ?thesis by (rule serves_del [OF assms(1)])
  qed
  then show ?thesis using s by (fastforce simp: restrict_map_def fun_eq_iff dom_def)
qed

lemma table_key_of_pattern:
  "in_table ks t k \<Longrightarrow> redis_table_key (table_data_key_pattern ks t) k =
     Some (drop (length (redis_prefix ks t) + 1) k)"
  by (auto simp: in_table_def redis_table_key_def pattern_eq ends_with_iff starts_with_iff)

lemma fetch_rows_all:
  assumes "redis_serves R view"
  shows "fetch_rows R r (table_data_key_pattern ks t) (Some c) sch None n keys = Inr out \<Longrightarrow>
    (\<And>k. k \<in> set keys \<Longrightarrow> k \<in> dom (view r) \<and> in_table ks t k) \<Longrightarrow>
    out = map (\<lambda>k. map (\<lambda>f. cell_value (Some c) (drop (length (redis_prefix ks t) + 1) k)
                              (the (view r k)) (rf_name f)) sch) keys"
proof (induction keys arbitrary: n out)
  case Nil
  then show ?case by simp
next
  case (Cons k keys)
  from Cons.prems(1) obtain h s rows where h: "hgetall_map R r k = Inr h"
    "key_suffix (Some c) (table_data_key_pattern ks t) k = Inr s"
    "fetch_rows R r (table_data_key_pattern ks t) (Some c) sch None (Suc n) keys = Inr rows"
    "out = map (\<lambda>f. cell_value (Some c) s h (rf_name f)) sch # rows"
    by (auto simp: res_simps)
  have k: "k \<in> dom (view r)" "in_table ks t k" using Cons.prems(2) [of k] by auto
  have "view r k = Some h" by (rule hgetall_view [OF assms h(1) k(1)])
  moreover have "s = drop (length (redis_prefix ks t) + 1) k"
    using h(2) table_key_of_pattern [OF k(2)] by (simp add: key_suffix_def)
  ultimately show ?case using Cons.IH [OF h(3)] Cons.prems(2) h(4) by simp
qed

lemma index_of_Some: "index_of c cols = Some i \<Longrightarrow> i < length cols \<and> cols ! i = c"
  by (induction cols arbitrary: i) (auto split: if_splits)

text \<open>The cells read back from an inserted row.\<close>

lemma inserted_row_cells:
  assumes "distinct cols" and i: "i < length cols" "cols ! i = c" and "length row = length cols"
  shows "map (\<lambda>n. cell_value (Some c) (array_value_to_string debug (row ! i))
                     (hash_of (row_fields debug cols (Some i) row)) n) cols =
    map (array_value_to_string debug) row"
proof (rule nth_equalityI)
  show "length (map (\<lambda>n. cell_value (Some c) (array_value_to_string debug (row ! i))
                     (hash_of (row_fields debug cols (Some i) row)) n) cols) =
    length (map (array_value_to_string debug) row)" by (simp add: assms(4))
next
  fix j
  assume "j < length (map (\<lambda>n. cell_value (Some c) (array_value_to_string debug (row ! i))
                     (hash_of (row_fields debug cols (Some i) row)) n) cols)"
  then have j: "j < length cols" by simp
  let ?fs = "row_fields debug cols (Some i) row"
  have "map fst ?fs = map ((!) cols) (filter (\<lambda>j. j \<noteq> i) [0..<length cols])"
    by (auto simp: row_fields_def comp_def intro!: arg_cong [where f = "map _"] filter_cong)
  moreover have "distinct (map ((!) cols) (filter (\<lambda>j. j \<noteq> i) [0..<length cols]))"
    using assms(1) by (auto simp: distinct_map inj_on_def nth_eq_iff_index_eq)
  ultimately have d: "distinct (map fst ?fs)" by simp
  have mem: "(cols ! j, v) \<in> set ?fs \<longleftrightarrow> j \<noteq> i \<and> v = array_value_to_string debug (row ! j)" for v
    using assms(1) j by (auto simp: row_fields_def nth_eq_iff_index_eq)
  have "hash_of ?fs (cols ! j) = (if j = i then None else Some (array_value_to_string debug (row ! j)))"
  proof (cases "j = i")
    case True
    then have "cols ! j \<notin> fst ` set ?fs" using mem by (auto simp: image_iff)
    then show ?thesis using True by (simp add: hash_of_distinct [OF d] map_of_eq_None_iff)
  next
    case False
    then show ?thesis using mem by (simp add: hash_of_distinct [OF d] map_of_eq_Some_iff [OF d])
  qed
  then show "map (\<lambda>n. cell_value (Some c) (array_value_to_string debug (row ! i))
                     (hash_of ?fs) n) cols ! j = map (array_value_to_string debug) row ! j"
    using j i assms(1,4) by (auto simp: cell_value_def nth_eq_iff_index_eq)
qed

lemma write_all_overwrite:
  assumes "redis_write_all R debug uuid t InsertOverwrite [Inr b] r = (Inr n, r')"
    and "rt_key_column t = Some c" and "index_of c (rb_columns b) = Some i"
  shows "n = length (rb_rows b) \<and> (\<exists>r1. delete_existing R (rt_key_space t) (rt_table_name t) r = (Inr (), r1)
    \<and> write_rows R debug uuid (redis_prefix (rt_key_space t) (rt_table_name t)) (rb_columns b) (Some i) 0
        (rb_rows b) r1 = (Inr (), r'))"
  using assms by (auto simp: redis_write_all_def Let_def split: prod.splits sum.splits)

text \<open>
  C14. An INSERT OVERWRITE of one batch with distinct keys makes the table exactly that batch:
  the statement reports its rows, other keys of the server keep their hashes, and a scan whose
  SCAN command returns no key twice reads back the rows of the batch, each exactly as often as the
  batch has it and in some order, with every cell as text.
\<close>

theorem overwrite_then_scan:
  assumes "redis_serves R view" and "glob_plain (redis_prefix (rt_key_space t) (rt_table_name t))"
    and "rt_key_column t = Some c" and "index_of c cols = Some i" and "distinct cols"
    and "list_all (\<lambda>row. length row = length cols) rows"
    and "distinct (map (\<lambda>row. array_value_to_string debug (row ! i)) rows)"
    and "redis_write_all R debug uuid t InsertOverwrite [Inr \<lparr>rb_columns = cols, rb_rows = rows\<rparr>] r = (Inr n, r')"
    and "fetch_partition R r' (rt_key_space t) (rt_table_name t) (Some c)
      (map (\<lambda>x. \<lparr>rf_name = x, rf_nullable = (x \<noteq> c)\<rparr>) cols) None = Inr out"
    and "rs_scan R r' (table_data_key_pattern (rt_key_space t) (rt_table_name t)) = Inr items" and "distinct items"
  shows "n = length rows \<and> mset out = mset (map (map (array_value_to_string debug)) rows)
    \<and> (\<forall>k. \<not> in_table (rt_key_space t) (rt_table_name t) k \<longrightarrow> view r' k = view r k)"
proof -
  let ?ks = "rt_key_space t" and ?t = "rt_table_name t"
  let ?p = "redis_prefix ?ks ?t"
  let ?key = "row_key debug ?p i"
  let ?h = "\<lambda>row. hash_of (row_fields debug cols (Some i) row)"
  from write_all_overwrite [OF assms(8,3)] assms(4) obtain r1 where
    n: "n = length rows" and r1: "delete_existing R ?ks ?t r = (Inr (), r1)"
    "write_rows R debug uuid ?p cols (Some i) 0 rows r1 = (Inr (), r')" by auto
  have v1: "view r1 = view r |` {k. \<not> in_table ?ks ?t k}" by (rule delete_existing_view [OF assms(1,2) r1(1)])
  have inT: "in_table ?ks ?t (?key row)" for row by (simp add: in_table_def row_key_def starts_with_iff)
  have v: "view r' = view r1 ++ map_of (map (\<lambda>row. (?key row, ?h row)) rows)"
    unfolding write_rows_view [OF assms(1) r1(2)]
  proof (rule foldl_fresh_keys)
    show "distinct (map ?key rows)" using assms(7) by (simp add: row_key_def distinct_map inj_on_def)
    show "set (map ?key rows) \<inter> dom (view r1) = {}" using inT by (auto simp: v1)
  qed
  have dk: "distinct (map fst (map (\<lambda>row. (?key row, ?h row)) rows))"
    using assms(7) by (simp add: row_key_def comp_def distinct_map inj_on_def)
  have at: "view r' (?key row) = Some (?h row)" if "row \<in> set rows" for row
    using that map_of_is_SomeI [OF dk, of "?key row" "?h row"] by (auto simp: v)
  have dom: "{k \<in> dom (view r'). in_table ?ks ?t k} = ?key ` set rows"
    using inT by (auto simp: v v1 dom_map_of_conv_image_fst image_image)
  from assms(9) obtain keys where keys: "scan_keys R r' (table_data_key_pattern ?ks ?t) = Inr keys"
    "fetch_rows R r' (table_data_key_pattern ?ks ?t) (Some c)
       (map (\<lambda>x. \<lparr>rf_name = x, rf_nullable = (x \<noteq> c)\<rparr>) cols) None 0 keys = Inr out"
    by (auto simp: fetch_partition_def Let_def res_simps split: if_splits)
  note ks = scan_keys_set [OF assms(1,2) keys(1), unfolded dom]
  have "\<And>k. k \<in> set keys \<Longrightarrow> k \<in> dom (view r') \<and> in_table ?ks ?t k" using dom ks by blast
  from fetch_rows_all [OF assms(1) keys(2) this]
  have "out = map (\<lambda>k. map (\<lambda>x. cell_value (Some c) (drop (length ?p + 1) k) (the (view r' k)) x) cols) keys"
    by (simp add: comp_def)
  then have "mset out = image_mset (\<lambda>k. map (\<lambda>x. cell_value (Some c) (drop (length ?p + 1) k) (the (view r' k)) x) cols)
      (mset keys)" by simp
  also have "mset keys = mset (map ?key rows)"
  proof -
    have "distinct keys" using keys(1) assms(10,11) by (rule scan_keys_distinct)
    moreover have "distinct (map ?key rows)" using assms(7) by (simp add: row_key_def distinct_map inj_on_def)
    moreover have "set keys = set (map ?key rows)" using ks by simp
    ultimately show ?thesis using set_eq_iff_mset_eq_distinct by blast
  qed
  also have "image_mset (\<lambda>k. map (\<lambda>x. cell_value (Some c) (drop (length ?p + 1) k) (the (view r' k)) x) cols)
      (mset (map ?key rows)) = mset (map (\<lambda>row. map (\<lambda>x. cell_value (Some c) (drop (length ?p + 1) (?key row))
      (the (view r' (?key row))) x) cols) rows)"
    by (simp add: multiset.map_comp comp_def)
  also have "map (\<lambda>row. map (\<lambda>x. cell_value (Some c) (drop (length ?p + 1) (?key row))
      (the (view r' (?key row))) x) cols) rows = map (map (array_value_to_string debug)) rows"
  proof (rule map_cong [OF refl])
    fix row
    assume row: "row \<in> set rows"
    have d: "drop (length ?p + 1) (?key row) = array_value_to_string debug (row ! i)" by (simp add: row_key_def)
    show "map (\<lambda>x. cell_value (Some c) (drop (length ?p + 1) (?key row)) (the (view r' (?key row))) x) cols =
        map (array_value_to_string debug) row"
      unfolding d at [OF row] option.sel
      using inserted_row_cells [OF assms(5), of i c row debug] index_of_Some [OF assms(4)] assms(6) row
      by (simp add: list_all_iff)
  qed
  finally have "mset out = mset (map (map (array_value_to_string debug)) rows)" .
  moreover have "view r' k = view r k" if "\<not> in_table ?ks ?t k" for k
  proof -
    have "k \<notin> dom (map_of (map (\<lambda>row. (?key row, ?h row)) rows))"
      using that inT by (auto simp: dom_map_of_conv_image_fst)
    then show ?thesis using that by (simp add: v v1 map_add_dom_app_simps)
  qed
  ultimately show ?thesis using n by blast
qed

theorem overwrite_then_scan_witness:
  "mset [[''1'', ''true''], [''2'', '''']] =
   mset (map (map (array_value_to_string (\<lambda>_. ''''))) [[SvInt32 (Some 1), SvBoolean (Some True)], [SvInt32 (Some 2), SvUtf8 None]])"
proof -
  let ?t = "\<lparr>rt_key_space = ''app'', rt_table_name = ''t'', rt_schema = [], rt_key_column = Some ''id''\<rparr>"
  let ?rows = "[[SvInt32 (Some 1), SvBoolean (Some True)], [SvInt32 (Some 2), SvUtf8 None]]"
  let ?s = "[(''x:1'', [(''a'', ''z'')]), (''app:t:9'', [(''a'', ''y'')])]"
  let ?s' = "[(''x:1'', [(''a'', ''z'')]), (''app:t:1'', [(''b'', ''true'')]), (''app:t:2'', [(''b'', '''')])]"
  let ?dbg = "\<lambda>_ :: scalar. '''' :: string"
  have g: "glob_plain (redis_prefix (rt_key_space ?t) (rt_table_name ?t))" by code_simp
  have k: "rt_key_column ?t = Some ''id''" by simp
  have i: "index_of ''id'' [''id'', ''b''] = Some 0" by code_simp
  have d: "distinct [''id'', ''b'']" by simp
  have l: "list_all (\<lambda>row. length row = length [''id'', ''b'']) ?rows" by simp
  have u: "distinct (map (\<lambda>row. array_value_to_string ?dbg (row ! 0)) ?rows)" by code_simp
  have w: "redis_write_all store_server ?dbg (\<lambda>_. []) ?t InsertOverwrite
      [Inr \<lparr>rb_columns = [''id'', ''b''], rb_rows = ?rows\<rparr>] ?s = (Inr 2, ?s')" by code_simp
  have f: "fetch_partition store_server ?s' (rt_key_space ?t) (rt_table_name ?t) (Some ''id'')
      (map (\<lambda>x. \<lparr>rf_name = x, rf_nullable = (x \<noteq> ''id'')\<rparr>) [''id'', ''b'']) None
    = Inr [[''1'', ''true''], [''2'', '''']]" by code_simp
  have sc: "rs_scan store_server ?s' (table_data_key_pattern (rt_key_space ?t) (rt_table_name ?t)) =
      Inr [Inr ''app:t:1'', Inr ''app:t:2'']" by code_simp
  have di: "distinct [Inr ''app:t:1'' :: string + string, Inr ''app:t:2'']" by simp
  show ?thesis
    using overwrite_then_scan [OF store_serves g k i d l u w f sc di] by (rule conjunct1 [OF conjunct2])
qed

text \<open>
  SCAN may return a key more than once while the keyspace is rehashed. The code keeps what it is
  given: with a server that returns every key twice and otherwise keeps the commands' contracts, a
  table of one row is read as two.
\<close>

definition repeating_server :: "store redis_server" where
  "repeating_server = store_server\<lparr>rs_scan := (\<lambda>s p. map_sum id (\<lambda>items. items @ items) (rs_scan store_server s p))\<rparr>"

lemma repeating_scan:
  assumes "rs_scan repeating_server s p = Inr items"
  obtains its where "rs_scan store_server s p = Inr its" "items = its @ its"
  using assms by (cases "rs_scan store_server s p") (auto simp: repeating_server_def)

lemma repeating_serves: "redis_serves repeating_server store_view"
  unfolding redis_serves_def
proof (intro conjI allI impI)
  fix r p items k
  assume g: "glob_plain p" and i: "rs_scan repeating_server r (p @ ''*'') = Inr items" and k: "Inr k \<in> set items"
  from i obtain its where its: "rs_scan store_server r (p @ ''*'') = Inr its" "items = its @ its"
    by (rule repeating_scan)
  with k have "Inr k \<in> set its" by simp
  with serves_scan_sound [OF store_serves g its(1)] show "k \<in> dom (store_view r)" "starts_with p k" by simp_all
next
  fix r p k and items :: "(string + string) list"
  assume g: "glob_plain p" and i: "rs_scan repeating_server r (p @ ''*'') = Inr items"
    and ok: "list_all is_ok items" and k: "k \<in> dom (store_view r)" "starts_with p k"
  from i obtain its where its: "rs_scan store_server r (p @ ''*'') = Inr its" "items = its @ its"
    by (rule repeating_scan)
  with ok have "list_all is_ok its" by simp
  from serves_scan_complete [OF store_serves g its(1) this k] its(2) show "Inr k \<in> set items" by simp
next
  fix r k entries
  assume "rs_hgetall repeating_server r k = Inr entries"
  then have "rs_hgetall store_server r k = Inr entries" by (simp add: repeating_server_def)
  then show "hash_of entries = (case store_view r k of Some h \<Rightarrow> h | None \<Rightarrow> Map.empty)"
    by (rule serves_hgetall [OF store_serves])
next
  fix r ks r'
  assume "rs_del repeating_server r ks = (Inr (), r')"
  then have "rs_del store_server r ks = (Inr (), r')" by (simp add: repeating_server_def)
  then show "store_view r' = store_view r |` (- set ks)" by (rule serves_del [OF store_serves])
next
  fix r k fs r'
  assume "rs_hset repeating_server r k fs = (Inr (), r')"
  then have "rs_hset store_server r k fs = (Inr (), r')" by (simp add: repeating_server_def)
  from serves_hset [OF store_serves this]
  show "fs \<noteq> []" "store_view r' = (store_view r)(k \<mapsto> merge_hash (store_view r k) fs)" by simp_all
qed

theorem repeated_keys_repeat_rows:
  "redis_serves repeating_server store_view
   \<and> fetch_partition repeating_server [(''app:t:1'', [(''b'', ''x'')])] ''app'' ''t'' (Some ''id'')
       [\<lparr>rf_name = ''id'', rf_nullable = False\<rparr>, \<lparr>rf_name = ''b'', rf_nullable = True\<rparr>] None
     = Inr [[''1'', ''x''], [''1'', ''x'']]"
proof
  show "fetch_partition repeating_server [(''app:t:1'', [(''b'', ''x'')])] ''app'' ''t'' (Some ''id'')
       [\<lparr>rf_name = ''id'', rf_nullable = False\<rparr>, \<lparr>rf_name = ''b'', rf_nullable = True\<rparr>] None
     = Inr [[''1'', ''x''], [''1'', ''x'']]" by code_simp
qed (rule repeating_serves)

text \<open>
  When the stored hashes carry the key column as a field, the inferred schema has no key
  column at all.
\<close>

theorem stored_key_column_is_lost:
  "infer_schema store_server True [(''t:1'', [(''id'', ''1''), (''name'', ''a'')])] [] ''t'' (Some ''id'') =
     Inr [\<lparr>rf_name = ''name'', rf_nullable = True\<rparr>]"
  by code_simp

text \<open>
  The keys of a table nested below another's name belong to both: an overwrite of the outer
  table deletes the rows of the inner one, whatever the server holds.
\<close>

theorem nested_table_keys_are_shared:
  assumes "redis_serves R view" and "glob_plain (redis_prefix ks t)" and "t \<noteq> []"
    and "delete_existing R ks t r = (Inr (), r')" and "in_table ks (t @ '':'' @ inner) k"
  shows "view r' k = None"
proof -
  have "in_table ks t k"
    using assms(3,5) by (auto simp: in_table_def starts_with_iff redis_prefix_def)
  then show ?thesis by (simp add: delete_existing_view [OF assms(1,2,4)])
qed

theorem nested_table_keys_are_shared_witness:
  "store_view [(''u:1'', [])] ''t:log:7'' = None"
proof -
  let ?s = "[(''t:1'', []), (''t:log:7'', [(''a'', ''b'')]), (''u:1'', [])]"
  have g: "glob_plain (redis_prefix [] ''t'')" by code_simp
  have d: "delete_existing store_server [] ''t'' ?s = (Inr (), [(''u:1'', [])])" by code_simp
  have k: "in_table [] (''t'' @ '':'' @ ''log'') ''t:log:7''" by code_simp
  show ?thesis by (rule nested_table_keys_are_shared [OF store_serves g _ d k]) simp
qed

text \<open>
  Registration needs the options, a key space and a table, in this order of complaint, then
  a connection, a schema and a free name.
\<close>

theorem register_redis_requires_options:
  "is_ok (register_redis_tables R connect register conn options) \<longleftrightarrow>
   (\<exists>opts ks t r tbl. options = Some opts \<and> opts ''key_space'' = Some ks \<and> opts ''table'' = Some t
     \<and> connect conn = Inr r
     \<and> redis_table_new R r ks t (opts ''key_column'') (map_option columns_option (opts ''columns'')) = Inr tbl
     \<and> register tbl = Inr ())"
  by (auto simp: register_redis_tables_def is_ok_iff res_simps)

end
