(* ===== verification/Mongo_Provider.thy ===== *)
theory Mongo_Provider
  imports Filter_Expr "HOL-Library.AList"
begin

text \<open>
  The MongoDB provider (\<^verbatim>\<open>sources/providers/mongo/mod.rs\<close>): types of documents, conversion of
  BSON values to Arrow cells and back, the filters handed to the server, inserts by upsert,
  DELETE and UPDATE, and the connection URI.

  The driver is a parameter: the collection's commands as functions of its state, the URL parser
  and the float conversions. A document is the list of its entries in order.
\<close>

section \<open>BSON\<close>

datatype bson =
  BString string
| BObjectId string
| BInt32 "32 word"
| BInt64 "64 word"
| BDouble string
| BBoolean bool
| BDateTime string
| BNull
| BDocument "(string \<times> bson) list"
| BArray "bson list"
| BOther string

type_synonym document = "(string \<times> bson) list"

definition doc_get :: "document \<Rightarrow> string \<Rightarrow> bson option" where
  "doc_get d k = map_of d k"

definition doc_insert :: "string \<Rightarrow> bson \<Rightarrow> document \<Rightarrow> document" where
  "doc_insert k v d = AList.update k v d"

definition get_document :: "document \<Rightarrow> string \<Rightarrow> document option" where
  "get_document d k = (case doc_get d k of Some (BDocument x) \<Rightarrow> Some x | _ \<Rightarrow> None)"

definition get_array :: "document \<Rightarrow> string \<Rightarrow> bson list option" where
  "get_array d k = (case doc_get d k of Some (BArray x) \<Rightarrow> Some x | _ \<Rightarrow> None)"

lemma doc_get_insert [simp]: "doc_get (doc_insert k v d) j = (if j = k then Some v else doc_get d j)"
  by (simp add: doc_get_def doc_insert_def update_conv)

lemma doc_get_Nil [simp]: "doc_get [] j = None"
  by (simp add: doc_get_def)

text \<open>Casts between numbers that belong to the language's floats.\<close>

record float_ops =
  fo_to_i32 :: "string \<Rightarrow> 32 word"
  fo_to_i64 :: "string \<Rightarrow> 64 word"
  fo_of_i32 :: "32 word \<Rightarrow> string"
  fo_of_i64 :: "64 word \<Rightarrow> string"
  fo_widen :: "string \<Rightarrow> string"
  fo_debug :: "bson \<Rightarrow> string"

section \<open>Types\<close>

definition bson_to_arrow_type :: "bson \<Rightarrow> arrow_type" where
  "bson_to_arrow_type v =
     (case v of
        BString _ \<Rightarrow> AtUtf8 | BObjectId _ \<Rightarrow> AtUtf8 | BInt32 _ \<Rightarrow> AtInt32 | BInt64 _ \<Rightarrow> AtInt64
      | BDouble _ \<Rightarrow> AtFloat64 | BBoolean _ \<Rightarrow> AtBoolean | _ \<Rightarrow> AtUtf8)"

definition schema_type_name :: "string \<Rightarrow> arrow_type" where
  "schema_type_name t =
     (if t \<in> {''string'', ''objectId''} then AtUtf8
      else if t = ''int'' then AtInt32
      else if t = ''long'' then AtInt64
      else if t \<in> {''double'', ''decimal'', ''number''} then AtFloat64
      else if t \<in> {''bool'', ''boolean''} then AtBoolean
      else AtUtf8)"

text \<open>The first name of a list of types that is not \<open>null\<close>.\<close>

fun first_type :: "bson list \<Rightarrow> arrow_type" where
  "first_type [] = AtUtf8"
| "first_type (BString s # ts) = (if s \<noteq> ''null'' then schema_type_name s else first_type ts)"
| "first_type (_ # ts) = first_type ts"

definition json_schema_type_to_arrow :: "document \<Rightarrow> arrow_type" where
  "json_schema_type_to_arrow prop =
     (case (case doc_get prop ''bsonType'' of Some t \<Rightarrow> Some t | None \<Rightarrow> doc_get prop ''type'') of
        Some (BString t) \<Rightarrow> schema_type_name t
      | Some (BArray types) \<Rightarrow> first_type types
      | _ \<Rightarrow> AtUtf8)"

section \<open>Schema inference\<close>

datatype mongo_error =
  MongoFailed string
| MissingPrimaryKey string
| UnexpectedArray arrow_type
| UnsupportedValue expr
| UnsupportedScalar scalar
| NotColumnAndValue expr operator expr
| UnsupportedOperator operator
| UnsupportedFilter expr
| NoAssignments
| PrimaryKeyUpdate string
| BatchRejected string

text \<open>\<open>replace\<close> is \<open>replace_one\<close> with upsert; a filter document selects documents.\<close>

record 'c mongo_collection =
  mc_list_collections :: "'c \<Rightarrow> string + document"
  mc_find_one :: "'c \<Rightarrow> string + document option"
  mc_find :: "'c \<Rightarrow> document \<Rightarrow> nat option \<Rightarrow> string + (string + document) list"
  mc_replace :: "'c \<Rightarrow> document \<Rightarrow> document \<Rightarrow> (string + unit) \<times> 'c"
  mc_delete_many :: "'c \<Rightarrow> document \<Rightarrow> (string + nat) \<times> 'c"
  mc_update_many :: "'c \<Rightarrow> document \<Rightarrow> document \<Rightarrow> (string + nat) \<times> 'c"

definition json_schema_of :: "document \<Rightarrow> document option" where
  "json_schema_of result =
     Option.bind (get_document result ''cursor'') (\<lambda>cursor.
     Option.bind (get_array cursor ''firstBatch'') (\<lambda>first_batch.
     Option.bind (case first_batch of BDocument d # _ \<Rightarrow> Some d | _ \<Rightarrow> None) (\<lambda>coll_info.
     Option.bind (get_document coll_info ''options'') (\<lambda>options.
     Option.bind (get_document options ''validator'') (\<lambda>validator.
     get_document validator ''$jsonSchema'')))))"

definition required_names :: "document \<Rightarrow> string list" where
  "required_names json_schema =
     (case get_array json_schema ''required'' of
        Some arr \<Rightarrow> List.map_filter (\<lambda>b. case b of BString s \<Rightarrow> Some s | _ \<Rightarrow> None) arr
      | None \<Rightarrow> [])"

definition property_field :: "string list \<Rightarrow> string \<times> bson \<Rightarrow> arrow_field" where
  "property_field required entry =
     (case entry of (key, val) \<Rightarrow>
        \<lparr>af_name = key,
         af_type = (case val of BDocument prop \<Rightarrow> json_schema_type_to_arrow prop | _ \<Rightarrow> AtUtf8),
         af_nullable = (key \<notin> set required)\<rparr>)"

definition infer_schema_from_validator ::
  "'c mongo_collection \<Rightarrow> 'c \<Rightarrow> string \<Rightarrow> mongo_error + arrow_field list option" where
  "infer_schema_from_validator M c primary_key =
     try_res (map_err MongoFailed (mc_list_collections M c)) (\<lambda>result.
     Inr (Option.bind (json_schema_of result) (\<lambda>json_schema.
          Option.bind (get_document json_schema ''properties'') (\<lambda>properties.
          let required = required_names json_schema;
              fs = \<lparr>af_name = primary_key, af_type = AtUtf8, af_nullable = (primary_key \<notin> set required)\<rparr>
                # map (property_field required) (filter (\<lambda>(k, _). k \<noteq> ''_id'' \<and> k \<noteq> primary_key) properties)
          in if length fs \<le> 1 then None else Some fs))))"

definition sample_fields :: "string \<Rightarrow> document option \<Rightarrow> arrow_field list" where
  "sample_fields primary_key sample =
     \<lparr>af_name = primary_key, af_type = AtUtf8, af_nullable = False\<rparr>
     # (case sample of
          Some doc \<Rightarrow>
            map (\<lambda>(k, v). \<lparr>af_name = k, af_type = bson_to_arrow_type v, af_nullable = True\<rparr>)
              (filter (\<lambda>(k, _). k \<noteq> ''_id'' \<and> k \<noteq> primary_key) doc)
        | None \<Rightarrow> [])"

definition mongo_infer_schema ::
  "'c mongo_collection \<Rightarrow> 'c \<Rightarrow> string \<Rightarrow> mongo_error + arrow_field list" where
  "mongo_infer_schema M c primary_key =
     try_res (infer_schema_from_validator M c primary_key) (\<lambda>v.
     case v of
       Some fs \<Rightarrow> Inr fs
     | None \<Rightarrow>
         try_res (map_err MongoFailed (mc_find_one M c)) (\<lambda>sample.
         Inr (sample_fields primary_key sample)))"

section \<open>Values\<close>

definition bson_to_string :: "float_ops \<Rightarrow> bson \<Rightarrow> string" where
  "bson_to_string F v =
     (case v of
        BString s \<Rightarrow> s | BObjectId oid \<Rightarrow> oid | BInt32 i \<Rightarrow> show_signed i | BInt64 i \<Rightarrow> show_signed i
      | BDouble f \<Rightarrow> f | BBoolean b \<Rightarrow> show_bool b | BDateTime dt \<Rightarrow> dt | BNull \<Rightarrow> [] | _ \<Rightarrow> fo_debug F v)"

definition bson_to_i32 :: "float_ops \<Rightarrow> bson \<Rightarrow> 32 word option" where
  "bson_to_i32 F v =
     (case v of BInt32 i \<Rightarrow> Some i | BInt64 i \<Rightarrow> Some (ucast i) | BDouble f \<Rightarrow> Some (fo_to_i32 F f) | _ \<Rightarrow> None)"

definition bson_to_i64 :: "float_ops \<Rightarrow> bson \<Rightarrow> 64 word option" where
  "bson_to_i64 F v =
     (case v of BInt64 i \<Rightarrow> Some i | BInt32 i \<Rightarrow> Some (scast i) | BDouble f \<Rightarrow> Some (fo_to_i64 F f) | _ \<Rightarrow> None)"

definition bson_to_f64 :: "float_ops \<Rightarrow> bson \<Rightarrow> string option" where
  "bson_to_f64 F v =
     (case v of BDouble f \<Rightarrow> Some f | BInt32 i \<Rightarrow> Some (fo_of_i32 F i) | BInt64 i \<Rightarrow> Some (fo_of_i64 F i) | _ \<Rightarrow> None)"

definition bson_to_bool :: "bson \<Rightarrow> bool option" where
  "bson_to_bool v = (case v of BBoolean b \<Rightarrow> Some b | _ \<Rightarrow> None)"

definition bson_values_to_arrow_array :: "float_ops \<Rightarrow> bson option list \<Rightarrow> arrow_type \<Rightarrow> scalar list" where
  "bson_values_to_arrow_array F values data_type =
     map (\<lambda>v. case data_type of
                AtInt32 \<Rightarrow> SvInt32 (Option.bind v (bson_to_i32 F))
              | AtInt64 \<Rightarrow> SvInt64 (Option.bind v (bson_to_i64 F))
              | AtFloat64 \<Rightarrow> SvFloat64 (Option.bind v (bson_to_f64 F))
              | AtBoolean \<Rightarrow> SvBoolean (Option.bind v bson_to_bool)
              | _ \<Rightarrow> SvUtf8 (map_option (bson_to_string F) v)) values"

text \<open>A cell whose array has another type than the field is an error, or absent for other types.\<close>

definition arrow_value_to_bson :: "scalar \<Rightarrow> arrow_type \<Rightarrow> mongo_error + bson option" where
  "arrow_value_to_bson cell data_type =
     (if is_null cell then Inr None
      else case (data_type, cell) of
        (AtUtf8, SvUtf8 (Some s)) \<Rightarrow> Inr (Some (BString s))
      | (AtInt32, SvInt32 (Some i)) \<Rightarrow> Inr (Some (BInt32 i))
      | (AtInt64, SvInt64 (Some i)) \<Rightarrow> Inr (Some (BInt64 i))
      | (AtFloat64, SvFloat64 (Some f)) \<Rightarrow> Inr (Some (BDouble f))
      | (AtBoolean, SvBoolean (Some b)) \<Rightarrow> Inr (Some (BBoolean b))
      | (ty, v) \<Rightarrow>
          if ty \<in> {AtUtf8, AtInt32, AtInt64, AtFloat64, AtBoolean} then Inl (UnexpectedArray ty)
          else case v of SvUtf8 (Some s) \<Rightarrow> Inr (Some (BString s)) | _ \<Rightarrow> Inr None)"

section \<open>Documents and batches\<close>

text \<open>The values of the column \<open>name\<close>: one per document and schema field of that name.\<close>

definition field_value :: "string \<Rightarrow> document \<Rightarrow> string \<Rightarrow> bson option" where
  "field_value primary_key doc name =
     (if name = primary_key
      then (case doc_get doc ''_id'' of Some v \<Rightarrow> Some v | None \<Rightarrow> doc_get doc name)
      else doc_get doc name)"

definition column_values :: "arrow_field list \<Rightarrow> string \<Rightarrow> document list \<Rightarrow> string \<Rightarrow> bson option list" where
  "column_values sch primary_key docs name =
     concat (map (\<lambda>doc. map (\<lambda>f. field_value primary_key doc (af_name f))
                          (filter (\<lambda>f. af_name f = name) sch)) docs)"

definition documents_to_columns ::
  "float_ops \<Rightarrow> arrow_field list \<Rightarrow> string \<Rightarrow> document list \<Rightarrow> scalar list list" where
  "documents_to_columns F sch primary_key docs =
     map (\<lambda>f. bson_values_to_arrow_array F (column_values sch primary_key docs (af_name f)) (af_type f)) sch"

text \<open>One row; the primary key is also stored as \<open>_id\<close>, and null cells are left out.\<close>

fun row_to_document ::
  "string \<Rightarrow> (arrow_field \<times> scalar) list \<Rightarrow> document \<Rightarrow> mongo_error + document" where
  "row_to_document primary_key [] doc = Inr doc"
| "row_to_document primary_key ((f, cell) # rest) doc =
     try_res (arrow_value_to_bson cell (af_type f)) (\<lambda>value.
     case value of
       None \<Rightarrow> row_to_document primary_key rest doc
     | Some v \<Rightarrow>
         let doc' = (if af_name f = primary_key then doc_insert ''_id'' v doc else doc)
         in row_to_document primary_key rest (doc_insert (af_name f) v doc'))"

text \<open>A batch is its list of rows, each a list of cells in the order of the schema.\<close>

definition record_batch_to_docs ::
  "scalar list list \<Rightarrow> string \<Rightarrow> arrow_field list \<Rightarrow> mongo_error + document list" where
  "record_batch_to_docs rows primary_key sch =
     collect_res (map (\<lambda>row. row_to_document primary_key (zip sch row) []) rows)"

fun upsert_docs ::
  "'c mongo_collection \<Rightarrow> string \<Rightarrow> document list \<Rightarrow> 'c \<Rightarrow> (mongo_error + unit) \<times> 'c" where
  "upsert_docs M primary_key [] c = (Inr (), c)"
| "upsert_docs M primary_key (doc # docs) c =
     (case doc_get doc primary_key of
        None \<Rightarrow> (Inl (MissingPrimaryKey primary_key), c)
      | Some pk_value \<Rightarrow>
          (case mc_replace M c [(primary_key, pk_value)] doc of
             (Inl e, c') \<Rightarrow> (Inl (MongoFailed e), c')
           | (Inr _, c') \<Rightarrow> upsert_docs M primary_key docs c'))"

text \<open>The provider's own \<open>insert\<close>, and one step of the stream of \<open>MongoInsertExec\<close>.\<close>

definition mongo_insert ::
  "'c mongo_collection \<Rightarrow> string \<Rightarrow> arrow_field list \<Rightarrow> scalar list list \<Rightarrow> 'c \<Rightarrow> (mongo_error + nat) \<times> 'c" where
  "mongo_insert M primary_key sch rows c =
     (case record_batch_to_docs rows primary_key sch of
        Inl e \<Rightarrow> (Inl e, c)
      | Inr docs \<Rightarrow>
          if docs = [] then (Inr 0, c)
          else case upsert_docs M primary_key docs c of
                 (Inl e, c') \<Rightarrow> (Inl e, c')
               | (Inr _, c') \<Rightarrow> (Inr (length docs), c'))"

definition mongo_insert_next ::
  "'c mongo_collection \<Rightarrow> string \<Rightarrow> arrow_field list \<Rightarrow> (mongo_error + scalar list list) \<Rightarrow> 'c
   \<Rightarrow> (mongo_error + nat) \<times> 'c" where
  "mongo_insert_next M primary_key sch item c =
     (case item of
        Inl e \<Rightarrow> (Inl e, c)
      | Inr rows \<Rightarrow>
          (case record_batch_to_docs rows primary_key sch of
             Inl e \<Rightarrow> (Inl e, c)
           | Inr docs \<Rightarrow>
               (case upsert_docs M primary_key docs c of
                  (Inl e, c') \<Rightarrow> (Inl e, c')
                | (Inr _, c') \<Rightarrow> (Inr (length docs), c'))))"

section \<open>Filters\<close>

definition is_pushable_binary_filter :: "expr \<Rightarrow> bool" where
  "is_pushable_binary_filter e =
     (case e of
        EBinary (EColumn _) opr (ELiteral _) \<Rightarrow> is_comparison opr
      | EBinary (ELiteral _) opr (EColumn _) \<Rightarrow> is_comparison opr
      | _ \<Rightarrow> False)"

fun scalar_to_bson :: "float_ops \<Rightarrow> scalar \<Rightarrow> mongo_error + bson" where
  "scalar_to_bson F (SvUtf8 (Some s)) = Inr (BString s)"
| "scalar_to_bson F (SvLargeUtf8 (Some s)) = Inr (BString s)"
| "scalar_to_bson F (SvInt8 (Some v)) = Inr (BInt32 (scast v))"
| "scalar_to_bson F (SvInt16 (Some v)) = Inr (BInt32 (scast v))"
| "scalar_to_bson F (SvInt32 (Some v)) = Inr (BInt32 v)"
| "scalar_to_bson F (SvInt64 (Some v)) = Inr (BInt64 v)"
| "scalar_to_bson F (SvUInt8 (Some v)) = Inr (BInt32 (ucast v))"
| "scalar_to_bson F (SvUInt16 (Some v)) = Inr (BInt32 (ucast v))"
| "scalar_to_bson F (SvUInt32 (Some v)) = Inr (BInt64 (ucast v))"
| "scalar_to_bson F (SvUInt64 (Some v)) = Inr (BInt64 v)"
| "scalar_to_bson F (SvFloat32 (Some v)) = Inr (BDouble (fo_widen F v))"
| "scalar_to_bson F (SvFloat64 (Some v)) = Inr (BDouble v)"
| "scalar_to_bson F (SvBoolean (Some v)) = Inr (BBoolean v)"
| "scalar_to_bson F SvNull = Inr BNull"
| "scalar_to_bson F v = Inl (UnsupportedScalar v)"

definition expr_to_bson_value :: "float_ops \<Rightarrow> expr \<Rightarrow> mongo_error + bson" where
  "expr_to_bson_value F e =
     (case e of
        ELiteral v \<Rightarrow> scalar_to_bson F v
      | EColumn c \<Rightarrow> Inr (BString c)
      | _ \<Rightarrow> Inl (UnsupportedValue e))"

definition mongo_field :: "string \<Rightarrow> string \<Rightarrow> string" where
  "mongo_field primary_key c = (if c = primary_key then ''_id'' else c)"

text \<open>The first pattern that matches: a column on the left, else one on the right.\<close>

definition column_and_value ::
  "float_ops \<Rightarrow> expr \<Rightarrow> operator \<Rightarrow> expr \<Rightarrow> string \<Rightarrow> mongo_error + string \<times> bson" where
  "column_and_value F l opr r primary_key =
     (case (l, r) of
        (EColumn c, e) \<Rightarrow>
          try_res (expr_to_bson_value F e) (\<lambda>v. Inr (mongo_field primary_key c, v))
      | (e, EColumn c) \<Rightarrow>
          try_res (expr_to_bson_value F e) (\<lambda>v. Inr (mongo_field primary_key c, v))
      | _ \<Rightarrow> Inl (NotColumnAndValue l opr r))"

definition binary_expr_to_mongo ::
  "float_ops \<Rightarrow> expr \<Rightarrow> operator \<Rightarrow> expr \<Rightarrow> string \<Rightarrow> mongo_error + document" where
  "binary_expr_to_mongo F l opr r primary_key =
     try_res (column_and_value F l opr r primary_key) (\<lambda>(col_name, v).
     case opr of
       OpEq \<Rightarrow> Inr [(col_name, v)]
     | OpNotEq \<Rightarrow> Inr [(col_name, BDocument [(''$ne'', v)])]
     | OpLt \<Rightarrow> Inr [(col_name, BDocument [(''$lt'', v)])]
     | OpLtEq \<Rightarrow> Inr [(col_name, BDocument [(''$lte'', v)])]
     | OpGt \<Rightarrow> Inr [(col_name, BDocument [(''$gt'', v)])]
     | OpGtEq \<Rightarrow> Inr [(col_name, BDocument [(''$gte'', v)])]
     | _ \<Rightarrow> Inl (UnsupportedOperator opr))"

definition filter_part :: "float_ops \<Rightarrow> string \<Rightarrow> expr \<Rightarrow> mongo_error + bson" where
  "filter_part F primary_key e =
     (case e of
        EBinary l opr r \<Rightarrow> try_res (binary_expr_to_mongo F l opr r primary_key) (\<lambda>d. Inr (BDocument d))
      | _ \<Rightarrow> Inl (UnsupportedFilter e))"

definition exprs_to_mongo_filter :: "float_ops \<Rightarrow> expr list \<Rightarrow> string \<Rightarrow> mongo_error + document" where
  "exprs_to_mongo_filter F filters primary_key =
     (if filters = [] then Inr []
      else try_res (collect_res (map (filter_part F primary_key) filters)) (\<lambda>parts.
           Inr [(''$and'', BArray parts)]))"

section \<open>Scans and statements\<close>

datatype push_down = Exact | Inexact | Unsupported

definition supports_filters_pushdown :: "expr list \<Rightarrow> push_down list" where
  "supports_filters_pushdown = map (\<lambda>e. if is_pushable_binary_filter e then Inexact else Unsupported)"

definition scan_filter :: "float_ops \<Rightarrow> string \<Rightarrow> expr list \<Rightarrow> document" where
  "scan_filter F primary_key filters =
     (let pushable = filter is_pushable_binary_filter filters in
      if pushable = [] then []
      else case exprs_to_mongo_filter F pushable primary_key of Inr d \<Rightarrow> d | Inl _ \<Rightarrow> [])"

definition filtered_scan ::
  "'c mongo_collection \<Rightarrow> 'c \<Rightarrow> document \<Rightarrow> nat option \<Rightarrow> mongo_error + document list" where
  "filtered_scan M c flt limit =
     try_res (map_err MongoFailed (mc_find M c flt limit)) (\<lambda>items. map_err MongoFailed (collect_res items))"

text \<open>The columns of the scan, after the projection. \<open>rb_new\<close> is the check of a new batch.\<close>

definition mongo_scan ::
  "float_ops \<Rightarrow> 'c mongo_collection \<Rightarrow> (arrow_field list \<Rightarrow> scalar list list \<Rightarrow> string + unit) \<Rightarrow> 'c
   \<Rightarrow> arrow_field list \<Rightarrow> string \<Rightarrow> nat list option \<Rightarrow> expr list \<Rightarrow> nat option
   \<Rightarrow> mongo_error + (nat \<times> scalar list list)" where
  "mongo_scan F M rb_new c sch primary_key projection filters limit =
     try_res (filtered_scan M c (scan_filter F primary_key filters) limit) (\<lambda>docs.
     let cols = documents_to_columns F sch primary_key docs in
     try_res (map_err BatchRejected (rb_new sch cols)) (\<lambda>_.
     case projection of
       Some proj \<Rightarrow> Inr (length docs, map ((!) cols) proj)
     | None \<Rightarrow> Inr (length docs, cols)))"

datatype mongo_dml_op = MongoDelete document | MongoUpdate document document

definition mongo_delete_from :: "float_ops \<Rightarrow> string \<Rightarrow> expr list \<Rightarrow> mongo_error + mongo_dml_op" where
  "mongo_delete_from F primary_key filters =
     try_res (exprs_to_mongo_filter F filters primary_key) (\<lambda>d. Inr (MongoDelete d))"

fun set_document ::
  "float_ops \<Rightarrow> string \<Rightarrow> (string \<times> expr) list \<Rightarrow> document \<Rightarrow> mongo_error + document" where
  "set_document F primary_key [] d = Inr d"
| "set_document F primary_key ((col, e) # rest) d =
     (if col = primary_key then Inl (PrimaryKeyUpdate primary_key)
      else try_res (expr_to_bson_value F e) (\<lambda>v. set_document F primary_key rest (doc_insert col v d)))"

definition mongo_update ::
  "float_ops \<Rightarrow> string \<Rightarrow> (string \<times> expr) list \<Rightarrow> expr list \<Rightarrow> mongo_error + mongo_dml_op" where
  "mongo_update F primary_key assignments filters =
     (if assignments = [] then Inl NoAssignments
      else
        try_res (exprs_to_mongo_filter F filters primary_key) (\<lambda>filter_doc.
        try_res (set_document F primary_key assignments []) (\<lambda>set_doc.
        Inr (MongoUpdate filter_doc [(''$set'', BDocument set_doc)]))))"

definition mongo_dml_execute ::
  "'c mongo_collection \<Rightarrow> mongo_dml_op \<Rightarrow> 'c \<Rightarrow> (mongo_error + nat) \<times> 'c" where
  "mongo_dml_execute M dml c =
     (let (r, c') = (case dml of
                       MongoDelete flt \<Rightarrow> mc_delete_many M c flt
                     | MongoUpdate flt u \<Rightarrow> mc_update_many M c flt u)
      in (map_err MongoFailed r, c'))"

section \<open>Connecting\<close>

record parsed_url =
  pu_scheme :: string
  pu_host :: "string option"
  pu_port :: "nat option"
  pu_rest :: string   \<comment> \<open>path and query\<close>

definition build_connection_uri ::
  "(string \<Rightarrow> string + parsed_url) \<Rightarrow> string \<Rightarrow> string option \<Rightarrow> string option \<Rightarrow> string + string" where
  "build_connection_uri parse base username password =
     try_res (map_err (\<lambda>_. ''Invalid MongoDB connection string: '' @ base) (parse base)) (\<lambda>url.
     try_res (ok_or (pu_host url) ''MongoDB connection string missing host'') (\<lambda>host.
     let scheme = pu_scheme url;
         host_port = (case pu_port url of
                        Some p \<Rightarrow> host @ '':'' @ show_nat p
                      | None \<Rightarrow> if scheme = ''mongodb'' then host @ '':27017'' else host)
     in Inr (case (username, password) of
               (Some user, Some pass) \<Rightarrow>
                 scheme @ ''://'' @ percent_encode user @ '':'' @ percent_encode pass @ ''@'' @ host_port
             | (Some user, None) \<Rightarrow> scheme @ ''://'' @ percent_encode user @ ''@'' @ host_port
             | _ \<Rightarrow> scheme @ ''://'' @ host_port)))"

datatype mongo_register_error =
  NoOptions
| MissingOption string
| EnvMissing string
| BadUri string
| ProviderFailed string
| RegisterFailed string

definition required_option :: "(string \<rightharpoonup> string) \<Rightarrow> string \<Rightarrow> mongo_register_error + string" where
  "required_option opts key = ok_or (opts key) (MissingOption key)"

definition env_option ::
  "(string \<Rightarrow> string option) \<Rightarrow> (string \<rightharpoonup> string) \<Rightarrow> string \<Rightarrow> mongo_register_error + string option" where
  "env_option env opts key =
     (case opts key of
        Some var \<Rightarrow> try_res (ok_or (env var) (EnvMissing var)) (\<lambda>v. Inr (Some v))
      | None \<Rightarrow> Inr None)"

record mongo_registration =
  mr_uri :: string
  mr_database :: string
  mr_collection :: string
  mr_primary_key :: string

text \<open>
  \<open>connect\<close> creates the provider for a URI, a database and a collection; it includes the
  inference of the schema. The registry of full-text entries is given when the server has one.
\<close>

definition mongo_settings ::
  "(string \<Rightarrow> string + parsed_url) \<Rightarrow> (string \<Rightarrow> string option) \<Rightarrow> string \<Rightarrow> (string \<rightharpoonup> string) option
   \<Rightarrow> mongo_register_error + mongo_registration" where
  "mongo_settings parse env connection_string options =
     try_res (ok_or options NoOptions) (\<lambda>opts.
     try_res (required_option opts ''database'') (\<lambda>database.
     try_res (required_option opts ''collection'') (\<lambda>collection.
     try_res (required_option opts ''primary_key'') (\<lambda>primary_key.
     try_res (env_option env opts ''user_env'') (\<lambda>username.
     try_res (env_option env opts ''pass_env'') (\<lambda>password.
     try_res (map_err BadUri (build_connection_uri parse connection_string username password)) (\<lambda>uri.
     Inr \<lparr>mr_uri = uri, mr_database = database, mr_collection = collection,
          mr_primary_key = primary_key\<rparr>)))))))"

definition register_mongo_tables ::
  "(string \<Rightarrow> string + parsed_url) \<Rightarrow> (string \<Rightarrow> string option) \<Rightarrow> (mongo_registration \<Rightarrow> string + unit)
   \<Rightarrow> (string \<Rightarrow> string + unit) \<Rightarrow> string \<Rightarrow> string \<Rightarrow> (string \<rightharpoonup> string) option
   \<Rightarrow> (string \<rightharpoonup> mongo_registration) option
   \<Rightarrow> (mongo_register_error + mongo_registration) \<times> (string \<rightharpoonup> mongo_registration) option" where
  "register_mongo_tables parse env connect register name connection_string options registry =
     (case try_res (mongo_settings parse env connection_string options) (\<lambda>m.
             try_res (map_err ProviderFailed (connect m)) (\<lambda>_. Inr m)) of
        Inl e \<Rightarrow> (Inl e, registry)
      | Inr m \<Rightarrow>
          (try_res (map_err RegisterFailed (register name)) (\<lambda>_. Inr m),
           map_option (\<lambda>reg. reg(name \<mapsto> m)) registry))"

section \<open>Reading filter documents\<close>

text \<open>
  What the query language documents for the shapes the code produces: a field with a value, a
  field with one comparison, and the conjunction of such documents. How values of a field
  compare is the server's (\<open>cmp\<close>, with \<open>None\<close> for an absent field).
\<close>

definition bson_int :: "bson \<Rightarrow> int option" where
  "bson_int b = (case b of BInt32 i \<Rightarrow> Some (sint i) | BInt64 i \<Rightarrow> Some (sint i) | _ \<Rightarrow> None)"

lemma integer_literal_bson:
  assumes "scalar_int v = Some i"
  shows "\<exists>b. scalar_to_bson F v = Inr b \<and> bson_int b = Some (if i < 2 ^ 63 then i else i - 2 ^ 64)"
proof -
  note below = sint_below [where 'a = 8] sint_below [where 'a = 16] sint_below [where 'a = 32]
    sint_below [where 'a = 64] uint_below [where 'a = 8] uint_below [where 'a = 16] uint_below [where 'a = 32]
  have up: "uint (ucast w :: 64 word) = uint w" for w :: "32 word"
    by (rule uint_up_ucast) (simp add: is_up)
  from assms show ?thesis
    by (induction v rule: scalar_int.induct)
      (use below in \<open>auto simp: bson_int_def sint_scast_up sint_ucast_up sint_of_uint64 up\<close>)
qed

type_synonym compare_bson = "operator \<Rightarrow> bson option \<Rightarrow> bson \<Rightarrow> bool"

definition comparison_of :: "string \<Rightarrow> operator option" where
  "comparison_of s =
     (if s = ''$ne'' then Some OpNotEq else if s = ''$lt'' then Some OpLt else if s = ''$lte'' then Some OpLtEq
      else if s = ''$gt'' then Some OpGt else if s = ''$gte'' then Some OpGtEq else None)"

definition matches_entry :: "compare_bson \<Rightarrow> document \<Rightarrow> string \<times> bson \<Rightarrow> bool" where
  "matches_entry cmp doc entry =
     (case entry of
        (k, BDocument [(s, v)]) \<Rightarrow>
          (case comparison_of s of Some opr \<Rightarrow> cmp opr (doc_get doc k) v | None \<Rightarrow> False)
      | (k, v) \<Rightarrow> cmp OpEq (doc_get doc k) v)"

definition matches_part :: "compare_bson \<Rightarrow> document \<Rightarrow> bson \<Rightarrow> bool" where
  "matches_part cmp doc p = (case p of BDocument es \<Rightarrow> list_all (matches_entry cmp doc) es | _ \<Rightarrow> False)"

definition mongo_matches :: "compare_bson \<Rightarrow> document \<Rightarrow> document \<Rightarrow> bool" where
  "mongo_matches cmp flt doc =
     list_all (\<lambda>(k, v). if k = ''$and'' then (case v of BArray ps \<Rightarrow> list_all (matches_part cmp doc) ps | _ \<Rightarrow> False)
                         else matches_entry cmp doc (k, v)) flt"

text \<open>What a comparison of a column with a literal means, in either order.\<close>

definition atom_holds :: "compare_bson \<Rightarrow> float_ops \<Rightarrow> string \<Rightarrow> document \<Rightarrow> expr \<Rightarrow> bool" where
  "atom_holds cmp F primary_key doc e =
     (case e of
        EBinary (EColumn c) opr (ELiteral v) \<Rightarrow>
          (case scalar_to_bson F v of Inr b \<Rightarrow> cmp opr (doc_get doc (mongo_field primary_key c)) b | Inl _ \<Rightarrow> False)
      | EBinary (ELiteral v) opr (EColumn c) \<Rightarrow>
          (case scalar_to_bson F v of Inr b \<Rightarrow> cmp (flip_op opr) (doc_get doc (mongo_field primary_key c)) b
           | Inl _ \<Rightarrow> False)
      | _ \<Rightarrow> False)"

text \<open>A comparison with its column on the left.\<close>

definition column_first :: "expr \<Rightarrow> bool" where
  "column_first e \<longleftrightarrow> (\<exists>c opr v. e = EBinary (EColumn c) opr (ELiteral v) \<and> is_comparison opr)"

lemma scalar_to_bson_plain: "scalar_to_bson F v = Inr b \<Longrightarrow> \<forall>d. b \<noteq> BDocument d"
  by (induction F v rule: scalar_to_bson.induct) auto

lemma comparison_of_simps [simp]:
  "comparison_of ''$ne'' = Some OpNotEq" "comparison_of ''$lt'' = Some OpLt" "comparison_of ''$lte'' = Some OpLtEq"
  "comparison_of ''$gt'' = Some OpGt" "comparison_of ''$gte'' = Some OpGtEq"
  by (simp_all add: comparison_of_def)

lemma matches_entry_plain: "(\<forall>d. b \<noteq> BDocument d) \<Longrightarrow> matches_entry cmp doc (k, b) = cmp OpEq (doc_get doc k) b"
  by (cases b) (simp_all add: matches_entry_def)

lemma matches_entry_compare: "matches_entry cmp doc (k, BDocument [(s, b)]) =
    (case comparison_of s of Some opr \<Rightarrow> cmp opr (doc_get doc k) b | None \<Rightarrow> False)"
  by (simp add: matches_entry_def)

lemma comparison_document:
  assumes "scalar_to_bson F v = Inr b" and "is_comparison opr"
    and "column_and_value F l opr r pk = Inr (k, b)"
  shows "\<exists>d. binary_expr_to_mongo F l opr r pk = Inr d \<and>
    (\<forall>cmp doc. matches_part cmp doc (BDocument d) = cmp opr (doc_get doc k) b)"
  using assms(2,3) scalar_to_bson_plain [OF assms(1)]
  by (cases opr) (auto simp: binary_expr_to_mongo_def matches_part_def matches_entry_plain matches_entry_compare)

lemma filter_part_column_first:
  assumes "column_first e" and "filter_part F pk e = Inr p"
  shows "matches_part cmp doc p = atom_holds cmp F pk doc e"
proof -
  from assms(1) obtain c opr v where e: "e = EBinary (EColumn c) opr (ELiteral v)" "is_comparison opr"
    by (auto simp: column_first_def)
  from assms(2) obtain b where b: "scalar_to_bson F v = Inr b"
    by (auto simp: e(1) filter_part_def binary_expr_to_mongo_def column_and_value_def expr_to_bson_value_def res_simps)
  then have "column_and_value F (EColumn c) opr (ELiteral v) pk = Inr (mongo_field pk c, b)"
    by (simp add: column_and_value_def expr_to_bson_value_def)
  from comparison_document [OF b e(2) this] assms(2) b show ?thesis
    by (auto simp: e(1) filter_part_def atom_holds_def)
qed

lemma filter_parts_match:
  "list_all column_first fs \<Longrightarrow> map (filter_part F pk) fs = map Inr ps \<Longrightarrow>
   list_all (matches_part cmp doc) ps = list_all (atom_holds cmp F pk doc) fs"
proof (induction fs arbitrary: ps)
  case Nil
  then show ?case by simp
next
  case (Cons e fs)
  from Cons.prems(2) obtain p ps' where p: "ps = p # ps'" "filter_part F pk e = Inr p"
    "map (filter_part F pk) fs = map Inr ps'" by (cases ps) auto
  have "column_first e" "list_all column_first fs" using Cons.prems(1) by simp_all
  with Cons.IH p show ?case by (simp add: filter_part_column_first)
qed

lemma filter_document_meaning:
  assumes "list_all column_first filters" and "exprs_to_mongo_filter F filters pk = Inr d"
  shows "mongo_matches cmp d doc \<longleftrightarrow> list_all (atom_holds cmp F pk doc) filters"
proof (cases "filters = []")
  case True
  with assms(2) show ?thesis by (simp add: exprs_to_mongo_filter_def mongo_matches_def)
next
  case False
  with assms(2) obtain ps where "map (filter_part F pk) filters = map Inr ps" "d = [(''$and'', BArray ps)]"
    by (auto simp: exprs_to_mongo_filter_def res_simps collect_res_Inr_iff)
  with filter_parts_match [OF assms(1)] show ?thesis by (simp add: mongo_matches_def)
qed

section \<open>The collection\<close>

definition apply_set :: "document \<Rightarrow> document \<Rightarrow> document" where
  "apply_set s d = foldl (\<lambda>d' (k, v). doc_insert k v d') d s"

text \<open>
  What the server documents. A filter document is in question when it is empty or the conjunction of
  documents of one entry each, whose field is a plain top-level name and whose value is a scalar or
  one of the five comparisons with a scalar.
\<close>

definition plain_field_name :: "string \<Rightarrow> bool" where
  "plain_field_name k \<longleftrightarrow> k \<noteq> [] \<and> CHR ''.'' \<notin> set k \<and> hd k \<noteq> CHR ''$''"

definition bson_scalar :: "bson \<Rightarrow> bool" where
  "bson_scalar b \<longleftrightarrow>
     (case b of BString _ \<Rightarrow> True | BInt32 _ \<Rightarrow> True | BInt64 _ \<Rightarrow> True | BDouble _ \<Rightarrow> True
      | BBoolean _ \<Rightarrow> True | BNull \<Rightarrow> True | _ \<Rightarrow> False)"

definition plain_part :: "bson \<Rightarrow> bool" where
  "plain_part p \<longleftrightarrow>
     (\<exists>k v. p = BDocument [(k, v)] \<and> plain_field_name k \<and>
        (bson_scalar v \<or> (\<exists>s b. v = BDocument [(s, b)] \<and> comparison_of s \<noteq> None \<and> bson_scalar b)))"

definition plain_filter :: "document \<Rightarrow> bool" where
  "plain_filter flt \<longleftrightarrow> flt = [] \<or> (\<exists>parts. flt = [(''$and'', BArray parts)] \<and> list_all plain_part parts)"

text \<open>
  How an integer or a text is compared with a field of the same kind (numerically whatever the
  width, and by the code points), and with a field that is absent or null: only \<open>$ne\<close> matches
  then. Other pairs are left to \<open>cmp\<close>.
\<close>

definition documented_compare :: "compare_bson \<Rightarrow> bool" where
  "documented_compare cmp \<longleftrightarrow>
     (\<forall>opr f b i j. is_comparison opr \<longrightarrow> bson_int f = Some i \<longrightarrow> bson_int b = Some j
        \<longrightarrow> cmp opr (Some f) b = compare_op opr i j)
   \<and> (\<forall>opr x y. is_comparison opr \<longrightarrow> cmp opr (Some (BString x)) (BString y) = compare_op opr x y)
   \<and> (\<forall>opr f b. is_comparison opr \<longrightarrow> f = None \<or> f = Some BNull \<longrightarrow> bson_int b \<noteq> None \<or> b \<in> range BString
        \<longrightarrow> cmp opr f b = (opr = OpNotEq))"

text \<open>The documented effect of the commands on the stored documents.\<close>

definition mongo_serves :: "'c mongo_collection \<Rightarrow> ('c \<Rightarrow> document list) \<Rightarrow> compare_bson \<Rightarrow> bool" where
  "mongo_serves M docs_of cmp \<longleftrightarrow> documented_compare cmp
   \<and> (\<forall>c flt items docs. plain_filter flt \<longrightarrow> mc_find M c flt None = Inr items \<longrightarrow> collect_res items = Inr docs
        \<longrightarrow> set docs = {d \<in> set (docs_of c). mongo_matches cmp flt d})
   \<and> (\<forall>c flt n c'. plain_filter flt \<longrightarrow> mc_delete_many M c flt = (Inr n, c')
        \<longrightarrow> docs_of c' = filter (\<lambda>d. \<not> mongo_matches cmp flt d) (docs_of c)
          \<and> n = length (filter (mongo_matches cmp flt) (docs_of c)))
   \<and> (\<forall>c flt s n c'. plain_filter flt \<longrightarrow> list_all (\<lambda>(k, v). plain_field_name k \<and> (bson_scalar v)) s
        \<longrightarrow> mc_update_many M c flt [(''$set'', BDocument s)] = (Inr n, c')
        \<longrightarrow> docs_of c' = map (\<lambda>d. if mongo_matches cmp flt d then apply_set s d else d) (docs_of c))"

lemma serves_compare: "mongo_serves M docs_of cmp \<Longrightarrow> documented_compare cmp"
  by (simp add: mongo_serves_def)

lemma serves_find:
  "mongo_serves M docs_of cmp \<Longrightarrow> plain_filter flt \<Longrightarrow> filtered_scan M c flt None = Inr docs
   \<Longrightarrow> set docs = {d \<in> set (docs_of c). mongo_matches cmp flt d}"
  unfolding mongo_serves_def filtered_scan_def by (auto simp: res_simps)

lemma serves_delete:
  "mongo_serves M docs_of cmp \<Longrightarrow> plain_filter flt \<Longrightarrow> mc_delete_many M c flt = (Inr n, c')
   \<Longrightarrow> docs_of c' = filter (\<lambda>d. \<not> mongo_matches cmp flt d) (docs_of c)
     \<and> n = length (filter (mongo_matches cmp flt) (docs_of c))"
  unfolding mongo_serves_def by blast

lemma serves_update:
  "mongo_serves M docs_of cmp \<Longrightarrow> plain_filter flt \<Longrightarrow> list_all (\<lambda>(k, v). plain_field_name k \<and> bson_scalar v) s
   \<Longrightarrow> mc_update_many M c flt [(''$set'', BDocument s)] = (Inr n, c')
   \<Longrightarrow> docs_of c' = map (\<lambda>d. if mongo_matches cmp flt d then apply_set s d else d) (docs_of c)"
  unfolding mongo_serves_def by blast

text \<open>The conditions whose columns are plain names generate plain filters.\<close>

definition plain_column :: "string \<Rightarrow> expr \<Rightarrow> bool" where
  "plain_column pk e \<longleftrightarrow> (\<exists>c opr v. e = EBinary (EColumn c) opr (ELiteral v) \<and> is_comparison opr
     \<and> plain_field_name (mongo_field pk c))"

lemma plain_column_first: "plain_column pk e \<Longrightarrow> column_first e"
  by (auto simp: plain_column_def column_first_def)

lemma scalar_to_bson_scalar: "scalar_to_bson F v = Inr b \<Longrightarrow> bson_scalar b"
  by (induction F v rule: scalar_to_bson.induct) (auto simp: bson_scalar_def)

lemma filter_part_plain:
  assumes "plain_column pk e" and "filter_part F pk e = Inr p"
  shows "plain_part p"
proof -
  from assms(1) obtain c opr v where e: "e = EBinary (EColumn c) opr (ELiteral v)" "is_comparison opr"
    "plain_field_name (mongo_field pk c)" by (auto simp: plain_column_def)
  with assms(2) obtain b where b: "scalar_to_bson F v = Inr b"
    by (auto simp: filter_part_def binary_expr_to_mongo_def column_and_value_def expr_to_bson_value_def res_simps)
  with assms(2) e scalar_to_bson_scalar [OF b] show ?thesis
    by (cases opr) (auto simp: filter_part_def binary_expr_to_mongo_def column_and_value_def
        expr_to_bson_value_def plain_part_def)
qed

lemma generated_filter_plain:
  assumes "list_all (plain_column pk) filters" and "exprs_to_mongo_filter F filters pk = Inr flt"
  shows "plain_filter flt"
proof (cases "filters = []")
  case True
  with assms(2) show ?thesis by (simp add: exprs_to_mongo_filter_def plain_filter_def)
next
  case False
  with assms(2) obtain ps where ps: "map (filter_part F pk) filters = map Inr ps" "flt = [(''$and'', BArray ps)]"
    by (auto simp: exprs_to_mongo_filter_def res_simps collect_res_Inr_iff)
  have "plain_part (ps ! i)" if i: "i < length ps" for i
  proof -
    have l: "length filters = length ps" using ps(1) by (metis length_map)
    have "filter_part F pk (filters ! i) = Inr (ps ! i)"
      using ps(1) i l by (metis nth_map)
    with assms(1) i l show ?thesis by (auto simp: list_all_length intro: filter_part_plain)
  qed
  with ps(2) show ?thesis by (simp add: plain_filter_def list_all_length)
qed

section \<open>What the conditions mean in SQL\<close>

text \<open>
  The value a field gives a column, and a literal: an integer, a text, or null for an absent field.
  A comparison is true only between two values that are not null.
\<close>

datatype sql_value = VNull | VInt int | VText string | VOther

definition sql_field :: "document \<Rightarrow> string \<Rightarrow> sql_value" where
  "sql_field doc k =
     (case doc_get doc k of
        None \<Rightarrow> VNull
      | Some b \<Rightarrow>
          (case b of BNull \<Rightarrow> VNull | BString s \<Rightarrow> VText s | BInt32 i \<Rightarrow> VInt (sint i)
           | BInt64 i \<Rightarrow> VInt (sint i) | _ \<Rightarrow> VOther))"

definition sql_literal :: "scalar \<Rightarrow> sql_value" where
  "sql_literal v =
     (case v of
        SvUtf8 (Some s) \<Rightarrow> VText s
      | SvLargeUtf8 (Some s) \<Rightarrow> VText s
      | _ \<Rightarrow> (case scalar_int v of Some i \<Rightarrow> VInt i | None \<Rightarrow> VOther))"

fun sql_compare :: "operator \<Rightarrow> sql_value \<Rightarrow> sql_value \<Rightarrow> bool" where
  "sql_compare opr (VInt i) (VInt j) = compare_op opr i j"
| "sql_compare opr (VText x) (VText y) = compare_op opr x y"
| "sql_compare opr _ _ = False"

definition sql_true :: "string \<Rightarrow> document \<Rightarrow> expr \<Rightarrow> bool" where
  "sql_true pk doc e \<longleftrightarrow>
     (case e of EBinary (EColumn c) opr (ELiteral v) \<Rightarrow>
        sql_compare opr (sql_field doc (mongo_field pk c)) (sql_literal v) | _ \<Rightarrow> False)"

text \<open>A condition with \<open><>\<close> on a column the document has no value for: null in SQL, not true.\<close>

definition unequal_to_nothing :: "string \<Rightarrow> document \<Rightarrow> expr \<Rightarrow> bool" where
  "unequal_to_nothing pk doc e \<longleftrightarrow>
     (case e of EBinary (EColumn c) OpNotEq (ELiteral v) \<Rightarrow> sql_field doc (mongo_field pk c) = VNull
      | _ \<Rightarrow> False)"

text \<open>
  The conditions in scope: an integer below \<open>2 ^ 63\<close> or a text, and a document whose field is
  absent, null or of the literal's kind.
\<close>

definition same_kind :: "string \<Rightarrow> document \<Rightarrow> expr \<Rightarrow> bool" where
  "same_kind pk doc e \<longleftrightarrow>
     (case e of EBinary (EColumn c) opr (ELiteral v) \<Rightarrow>
        (case (sql_field doc (mongo_field pk c), sql_literal v) of
           (VInt _, VInt j) \<Rightarrow> j < 2 ^ 63
         | (VNull, VInt j) \<Rightarrow> j < 2 ^ 63
         | (VText _, VText _) \<Rightarrow> True
         | (VNull, VText _) \<Rightarrow> True
         | _ \<Rightarrow> False)
      | _ \<Rightarrow> False)"

lemma sql_literal_bson:
  assumes "scalar_to_bson F v = Inr b"
  shows "sql_literal v = VText s \<Longrightarrow> b = BString s"
    and "sql_literal v = VInt j \<Longrightarrow> j < 2 ^ 63 \<Longrightarrow> bson_int b = Some j"
proof -
  show "sql_literal v = VText s \<Longrightarrow> b = BString s"
    using assms by (auto simp: sql_literal_def split: scalar.splits option.splits)
  assume "sql_literal v = VInt j" "j < 2 ^ 63"
  then have "scalar_int v = Some j" by (auto simp: sql_literal_def split: scalar.splits option.splits)
  with integer_literal_bson [OF this, of F] assms \<open>j < 2 ^ 63\<close> show "bson_int b = Some j" by auto
qed

lemma atom_holds_sql:
  assumes cmp: "documented_compare cmp" and e: "plain_column pk e" and k: "same_kind pk doc e"
    and p: "filter_part F pk e = Inr p"
  shows "atom_holds cmp F pk doc e \<longleftrightarrow> sql_true pk doc e \<or> unequal_to_nothing pk doc e"
proof -
  from e obtain c opr v where e: "e = EBinary (EColumn c) opr (ELiteral v)" "is_comparison opr"
    by (auto simp: plain_column_def)
  with p obtain b where b: "scalar_to_bson F v = Inr b"
    by (auto simp: filter_part_def binary_expr_to_mongo_def column_and_value_def expr_to_bson_value_def res_simps)
  let ?f = "doc_get doc (mongo_field pk c)"
  have atom: "atom_holds cmp F pk doc e = cmp opr ?f b" by (simp add: e atom_holds_def b)
  note ints = cmp [unfolded documented_compare_def, THEN conjunct1, rule_format, OF e(2)]
    and texts = cmp [unfolded documented_compare_def, THEN conjunct2, THEN conjunct1, rule_format, OF e(2)]
    and nulls = cmp [unfolded documented_compare_def, THEN conjunct2, THEN conjunct2, rule_format, OF e(2)]
  consider (null) "sql_field doc (mongo_field pk c) = VNull" "bson_int b \<noteq> None \<or> b \<in> range BString"
    | (ints) i j where "sql_field doc (mongo_field pk c) = VInt i" "sql_literal v = VInt j" "bson_int b = Some j"
    | (texts) x y where "sql_field doc (mongo_field pk c) = VText x" "sql_literal v = VText y" "b = BString y"
    using k sql_literal_bson [OF b]
    by (auto simp: same_kind_def e(1) split: sql_value.splits)
  then show ?thesis
  proof cases
    case null
    from null(1) have f: "?f = None \<or> ?f = Some BNull"
      by (auto simp: sql_field_def split: option.splits bson.splits)
    have "unequal_to_nothing pk doc e \<longleftrightarrow> opr = OpNotEq" "\<not> sql_true pk doc e"
      using null(1) by (cases opr; simp add: e(1) unequal_to_nothing_def sql_true_def)+
    with nulls [OF f null(2)] show ?thesis by (simp add: atom)
  next
    case (ints i j)
    then obtain f where f: "?f = Some f" "bson_int f = Some i"
      by (auto simp: sql_field_def bson_int_def split: option.splits bson.splits)
    have "\<not> unequal_to_nothing pk doc e" "sql_true pk doc e = compare_op opr i j"
      using ints by (cases opr; simp add: e(1) unequal_to_nothing_def sql_true_def)+
    with \<open>bson_int b = Some j\<close> f show ?thesis
      using cmp e(2) by (simp add: atom documented_compare_def)
  next
    case (texts x y)
    then have f: "?f = Some (BString x)"
      by (auto simp: sql_field_def split: option.splits bson.splits)
    have "\<not> unequal_to_nothing pk doc e" "sql_true pk doc e = compare_op opr x y"
      using texts by (cases opr; simp add: e(1) unequal_to_nothing_def sql_true_def)+
    with texts(3) f show ?thesis
      using cmp e(2) by (simp add: atom documented_compare_def)
  qed
qed

lemma filter_document_sql:
  assumes "documented_compare cmp" and "list_all (plain_column pk) filters"
    and "list_all (same_kind pk doc) filters" and "exprs_to_mongo_filter F filters pk = Inr flt"
  shows "mongo_matches cmp flt doc \<longleftrightarrow>
    list_all (\<lambda>e. sql_true pk doc e \<or> unequal_to_nothing pk doc e) filters"
proof -
  have "list_all column_first filters"
    using assms(2) plain_column_first by (auto simp: list_all_iff)
  then have m: "mongo_matches cmp flt doc \<longleftrightarrow> list_all (atom_holds cmp F pk doc) filters"
    by (rule filter_document_meaning) (rule assms(4))
  have "\<exists>p. filter_part F pk e = Inr p" if "e \<in> set filters" for e
  proof -
    have ne: "filters \<noteq> []" using that by auto
    with assms(4) obtain ps where "map (filter_part F pk) filters = map Inr ps"
      by (auto simp: exprs_to_mongo_filter_def res_simps collect_res_Inr_iff)
    then have "filter_part F pk e \<in> set (map Inr ps)" using that by (metis imageI list.set_map)
    then show ?thesis by auto
  qed
  then show ?thesis
    using assms(1-3) unfolding m list_all_iff by (blast dest: atom_holds_sql)
qed

text \<open>An instance: a list of documents whose integers and texts are ordered.\<close>

definition demo_compare :: compare_bson where
  "demo_compare opr field b =
     (case (Option.bind field bson_int, bson_int b) of
        (Some i, Some j) \<Rightarrow> compare_op opr i j
      | _ \<Rightarrow> (case (field, b) of
                (Some (BString x), BString y) \<Rightarrow> compare_op opr x y
              | _ \<Rightarrow> opr = OpNotEq))"

lemma demo_compare_documented: "documented_compare demo_compare"
  unfolding documented_compare_def
proof (intro conjI allI impI)
  show "demo_compare opr (Some f) b = compare_op opr i j"
    if "bson_int f = Some i" "bson_int b = Some j" for opr f b i j
    using that by (simp add: demo_compare_def)
  show "demo_compare opr (Some (BString x)) (BString y) = compare_op opr x y" for opr x y
    by (simp add: demo_compare_def bson_int_def)
  show "demo_compare opr f b = (opr = OpNotEq)" if "f = None \<or> f = Some BNull" for opr f b
    using that by (auto simp: demo_compare_def bson_int_def split: option.split)
qed

definition list_collection :: "document list mongo_collection" where
  "list_collection =
     \<lparr>mc_list_collections = (\<lambda>_. Inr []),
      mc_find_one = (\<lambda>c. Inr (case c of [] \<Rightarrow> None | d # _ \<Rightarrow> Some d)),
      mc_find = (\<lambda>c flt limit.
        let found = filter (mongo_matches demo_compare flt) c
        in Inr (map Inr (case limit of Some n \<Rightarrow> take n found | None \<Rightarrow> found))),
      mc_replace = (\<lambda>c flt d.
        (Inr (), if list_ex (mongo_matches demo_compare flt) c
                 then map (\<lambda>d'. if mongo_matches demo_compare flt d' then d else d') c else c @ [d])),
      mc_delete_many = (\<lambda>c flt.
        (Inr (length (filter (mongo_matches demo_compare flt) c)),
         filter (\<lambda>d. \<not> mongo_matches demo_compare flt d) c)),
      mc_update_many = (\<lambda>c flt u.
        (Inr (length (filter (mongo_matches demo_compare flt) c)),
         map (\<lambda>d. if mongo_matches demo_compare flt d
                  then (case u of [(_, BDocument s)] \<Rightarrow> apply_set s d | _ \<Rightarrow> d) else d) c))\<rparr>"

lemma list_collection_serves: "mongo_serves list_collection id demo_compare"
  using demo_compare_documented
  by (auto simp: mongo_serves_def list_collection_def collect_res_Inr_iff dest: map_injective [OF _ inj_Inr])

definition demo_floats :: float_ops where
  "demo_floats = \<lparr>fo_to_i32 = (\<lambda>_. 0), fo_to_i64 = (\<lambda>_. 0), fo_of_i32 = show_signed, fo_of_i64 = show_signed,
     fo_widen = id, fo_debug = (\<lambda>_. [])\<rparr>"

text \<open>
  C8. A DELETE whose conditions compare columns on the left with integer or text literals, in a
  collection whose fields are of the literals' kind, null or absent, removes exactly the documents
  for which every condition is true in SQL or is a \<open><>\<close> on a column without a value, and reports
  their number. So without \<open><>\<close> it removes exactly the rows SQL would; with it, it also removes
  documents SQL would keep.
\<close>

theorem mongo_delete_removes_matching:
  assumes "mongo_serves M docs_of cmp" and "list_all (plain_column pk) filters"
    and "list_all (\<lambda>d. list_all (same_kind pk d) filters) (docs_of c)"
    and "mongo_delete_from F pk filters = Inr dml" and "mongo_dml_execute M dml c = (Inr n, c')"
  defines "removed \<equiv> \<lambda>d. list_all (\<lambda>e. sql_true pk d e \<or> unequal_to_nothing pk d e) filters"
  shows "docs_of c' = filter (\<lambda>d. \<not> removed d) (docs_of c) \<and> n = length (filter removed (docs_of c))
    \<and> (list_all (\<lambda>e. \<forall>c v. e \<noteq> EBinary c OpNotEq v) filters \<longrightarrow>
         docs_of c' = filter (\<lambda>d. \<not> list_all (sql_true pk d) filters) (docs_of c))"
proof -
  from assms(4) obtain flt where flt: "exprs_to_mongo_filter F filters pk = Inr flt" "dml = MongoDelete flt"
    by (auto simp: mongo_delete_from_def res_simps)
  from assms(5) have del: "mc_delete_many M c flt = (Inr n, c')"
    by (auto simp: mongo_dml_execute_def flt(2) res_simps split: prod.splits)
  have m: "mongo_matches cmp flt d = removed d" if "d \<in> set (docs_of c)" for d
    unfolding removed_def using assms(3) that
    by (intro filter_document_sql [OF serves_compare [OF assms(1)] assms(2) _ flt(1)]) (simp add: list_all_iff)
  have 1: "docs_of c' = filter (\<lambda>d. \<not> removed d) (docs_of c)" "n = length (filter removed (docs_of c))"
    using serves_delete [OF assms(1) generated_filter_plain [OF assms(2) flt(1)] del] m
    by (auto cong: filter_cong)
  moreover have "removed = (\<lambda>d. list_all (sql_true pk d) filters)"
    if "list_all (\<lambda>e. \<forall>c v. e \<noteq> EBinary c OpNotEq v) filters"
  proof -
    have "\<not> unequal_to_nothing pk d e" if "\<forall>c v. e \<noteq> EBinary c OpNotEq v" for d e
      using that by (auto simp: unequal_to_nothing_def split: expr.splits operator.splits)
    with that show ?thesis by (auto simp: removed_def list_all_iff fun_eq_iff)
  qed
  ultimately show ?thesis by simp
qed

theorem mongo_delete_removes_matching_witness:
  "id [[(''_id'', BString ''b''), (''x'', BInt64 9)]] =
   filter (\<lambda>d. \<not> list_all (sql_true ''k'' d)
                    [EBinary (EColumn ''x'') OpLt (ELiteral (SvInt64 (Some 5))),
                     EBinary (EColumn ''k'') OpEq (ELiteral (SvUtf8 (Some ''a'')))])
     (id [[(''_id'', BString ''a''), (''x'', BInt64 3)], [(''_id'', BString ''b''), (''x'', BInt64 9)]])"
proof -
  let ?f = "[EBinary (EColumn ''x'') OpLt (ELiteral (SvInt64 (Some 5))),
             EBinary (EColumn ''k'') OpEq (ELiteral (SvUtf8 (Some ''a'')))]"
  let ?c = "[[(''_id'', BString ''a''), (''x'', BInt64 3)], [(''_id'', BString ''b''), (''x'', BInt64 9)]]"
  let ?d = "MongoDelete [(''$and'', BArray [BDocument [(''x'', BDocument [(''$lt'', BInt64 5)])],
                                           BDocument [(''_id'', BString ''a'')]])]"
  have f: "list_all (plain_column ''k'') ?f" by (simp add: plain_column_def plain_field_name_def mongo_field_def)
  have k: "list_all (\<lambda>d. list_all (same_kind ''k'' d) ?f) (id ?c)" by code_simp
  have d: "mongo_delete_from demo_floats ''k'' ?f = Inr ?d" by code_simp
  have x: "mongo_dml_execute list_collection ?d ?c = (Inr 1, [[(''_id'', BString ''b''), (''x'', BInt64 9)]])"
    by code_simp
  have ne: "list_all (\<lambda>e. \<forall>c v. e \<noteq> EBinary c OpNotEq v) ?f" by simp
  show ?thesis
    using mongo_delete_removes_matching [OF list_collection_serves f k d x] ne by (elim conjE) (rule mp)
qed

text \<open>
  In SQL \<open>x <> 5\<close> is not true of a row without \<open>x\<close>; the DELETE it is translated to removes such a
  document all the same.
\<close>

theorem unequal_deletes_absent_fields:
  "mongo_delete_from F ''k'' [EBinary (EColumn ''x'') OpNotEq (ELiteral (SvInt64 (Some 5)))] =
     Inr (MongoDelete [(''$and'', BArray [BDocument [(''x'', BDocument [(''$ne'', BInt64 5)])]])])
   \<and> \<not> sql_true ''k'' [(''_id'', BString ''a'')] (EBinary (EColumn ''x'') OpNotEq (ELiteral (SvInt64 (Some 5))))
   \<and> mongo_dml_execute list_collection
       (MongoDelete [(''$and'', BArray [BDocument [(''x'', BDocument [(''$ne'', BInt64 5)])]])])
       [[(''_id'', BString ''a'')]] = (Inr 1, [])"
proof (intro conjI)
  show "mongo_delete_from F ''k'' [EBinary (EColumn ''x'') OpNotEq (ELiteral (SvInt64 (Some 5)))] =
     Inr (MongoDelete [(''$and'', BArray [BDocument [(''x'', BDocument [(''$ne'', BInt64 5)])]])])"
    by (simp add: mongo_delete_from_def exprs_to_mongo_filter_def filter_part_def binary_expr_to_mongo_def
        column_and_value_def expr_to_bson_value_def mongo_field_def)
  show "\<not> sql_true ''k'' [(''_id'', BString ''a'')] (EBinary (EColumn ''x'') OpNotEq (ELiteral (SvInt64 (Some 5))))"
    by code_simp
  show "mongo_dml_execute list_collection
       (MongoDelete [(''$and'', BArray [BDocument [(''x'', BDocument [(''$ne'', BInt64 5)])]])])
       [[(''_id'', BString ''a'')]] = (Inr 1, [])" by code_simp
qed

lemma set_document_plain:
  "set_document F pk as d = Inr s \<Longrightarrow> list_all (\<lambda>(c, e). plain_field_name c \<and> (\<exists>v. e = ELiteral v)) as \<Longrightarrow>
   list_all (\<lambda>(k, v). plain_field_name k \<and> bson_scalar v) d \<Longrightarrow> list_all (\<lambda>(k, v). plain_field_name k \<and> bson_scalar v) s"
proof (induction F pk as d rule: set_document.induct)
  case (2 F pk col e rest d)
  from "2.prems" obtain v b where v: "e = ELiteral v" "scalar_to_bson F v = Inr b" "plain_field_name col" "col \<noteq> pk"
    "set_document F pk rest (doc_insert col b d) = Inr s"
    by (auto simp: expr_to_bson_value_def res_simps split: if_splits)
  have "list_all (\<lambda>(k, v). plain_field_name k \<and> bson_scalar v) (doc_insert col b d)"
    unfolding list_all_iff doc_insert_def
  proof
    fix x assume "x \<in> set (AList.update col b d)"
    then have "x = (col, b) \<or> x \<in> set d"
      by (induction d) (auto split: if_splits)
    with "2.prems"(3) v scalar_to_bson_scalar [OF v(2)]
    show "case x of (k, v) \<Rightarrow> plain_field_name k \<and> bson_scalar v" by (auto simp: list_all_iff)
  qed
  with "2.IH" [of b] v "2.prems"(2) show ?case by (simp add: expr_to_bson_value_def)
qed simp

text \<open>
  The same for UPDATE: exactly the matching documents get the assigned literals, no
  assignment touches the primary key, and all other documents stay as they were.
\<close>

theorem mongo_update_sets_matching:
  assumes "mongo_serves M docs_of cmp" and "list_all (plain_column pk) filters"
    and "list_all (\<lambda>d. list_all (same_kind pk d) filters) (docs_of c)"
    and "list_all (\<lambda>(c, e). plain_field_name c \<and> (\<exists>v. e = ELiteral v)) assignments"
    and "mongo_update F pk assignments filters = Inr dml" and "mongo_dml_execute M dml c = (Inr n, c')"
  shows "\<exists>s. set_document F pk assignments [] = Inr s \<and> pk \<notin> fst ` set assignments
    \<and> docs_of c' = map (\<lambda>d. if list_all (\<lambda>e. sql_true pk d e \<or> unequal_to_nothing pk d e) filters
                             then apply_set s d else d) (docs_of c)"
proof -
  from assms(5) obtain flt s where flt: "exprs_to_mongo_filter F filters pk = Inr flt"
    "set_document F pk assignments [] = Inr s" "dml = MongoUpdate flt [(''$set'', BDocument s)]"
    by (auto simp: mongo_update_def res_simps split: if_splits)
  from assms(6) have u: "mc_update_many M c flt [(''$set'', BDocument s)] = (Inr n, c')"
    by (auto simp: mongo_dml_execute_def flt(3) res_simps split: prod.splits)
  have pk: "set_document F pk as d = Inr x \<Longrightarrow> pk \<notin> fst ` set as" for as d x
    by (induction F pk as d rule: set_document.induct) (auto simp: res_simps split: if_splits)
  have m: "mongo_matches cmp flt d = list_all (\<lambda>e. sql_true pk d e \<or> unequal_to_nothing pk d e) filters"
    if "d \<in> set (docs_of c)" for d
    using assms(3) that
    by (intro filter_document_sql [OF serves_compare [OF assms(1)] assms(2) _ flt(1)]) (simp add: list_all_iff)
  have "docs_of c' = map (\<lambda>d. if mongo_matches cmp flt d then apply_set s d else d) (docs_of c)"
    using generated_filter_plain [OF assms(2) flt(1)] set_document_plain [OF flt(2) assms(4)] u
    by (intro serves_update [OF assms(1)]) simp_all
  with m have "docs_of c' = map (\<lambda>d. if list_all (\<lambda>e. sql_true pk d e \<or> unequal_to_nothing pk d e) filters
      then apply_set s d else d) (docs_of c)" by (simp cong: map_cong)
  with flt(2) pk [OF flt(2)] show ?thesis by blast
qed

theorem mongo_update_sets_matching_witness:
  "\<exists>s. set_document demo_floats ''k'' [(''y'', ELiteral (SvInt64 (Some 1)))] [] = Inr s
    \<and> ''k'' \<notin> fst ` set [(''y'', ELiteral (SvInt64 (Some 1)))]
    \<and> id [[(''x'', BInt64 3), (''y'', BInt64 1)], [(''x'', BInt64 9)]] =
      map (\<lambda>d. if list_all (\<lambda>e. sql_true ''k'' d e \<or> unequal_to_nothing ''k'' d e)
                       [EBinary (EColumn ''x'') OpLtEq (ELiteral (SvInt64 (Some 5)))]
               then apply_set s d else d) (id [[(''x'', BInt64 3)], [(''x'', BInt64 9)]])"
proof -
  let ?f = "[EBinary (EColumn ''x'') OpLtEq (ELiteral (SvInt64 (Some 5)))]"
  let ?d = "MongoUpdate [(''$and'', BArray [BDocument [(''x'', BDocument [(''$lte'', BInt64 5)])]])]
     [(''$set'', BDocument [(''y'', BInt64 1)])]"
  let ?c = "[[(''x'', BInt64 3)], [(''x'', BInt64 9)]]"
  have f: "list_all (plain_column ''k'') ?f" by (simp add: plain_column_def plain_field_name_def mongo_field_def)
  have k: "list_all (\<lambda>d. list_all (same_kind ''k'' d) ?f) (id ?c)" by code_simp
  have a: "list_all (\<lambda>(c, e). plain_field_name c \<and> (\<exists>v. e = ELiteral v)) [(''y'', ELiteral (SvInt64 (Some 1)))]"
    by (simp add: plain_field_name_def)
  have d: "mongo_update demo_floats ''k'' [(''y'', ELiteral (SvInt64 (Some 1)))] ?f = Inr ?d" by code_simp
  have x: "mongo_dml_execute list_collection ?d ?c =
      (Inr 1, [[(''x'', BInt64 3), (''y'', BInt64 1)], [(''x'', BInt64 9)]])"
    by code_simp
  show ?thesis by (rule mongo_update_sets_matching [OF list_collection_serves f k a d x])
qed

text \<open>
  A scan may leave filters to the engine but must not lose rows: every document that
  satisfies the pushed conditions in SQL is read, provided they have their column on the left and
  compare it with integers or texts of its kind.
\<close>

theorem mongo_scan_keeps_matching:
  assumes "mongo_serves M docs_of cmp"
    and "list_all (plain_column pk) (filter is_pushable_binary_filter filters)"
    and "list_all (\<lambda>d. list_all (same_kind pk d) (filter is_pushable_binary_filter filters)) (docs_of c)"
    and "filtered_scan M c (scan_filter F pk filters) None = Inr docs"
  shows "{d \<in> set (docs_of c). list_all (sql_true pk d) (filter is_pushable_binary_filter filters)} \<subseteq> set docs"
proof -
  let ?p = "filter is_pushable_binary_filter filters"
  have all: "mongo_matches cmp [] d" "plain_filter []" for d by (simp_all add: mongo_matches_def plain_filter_def)
  have plain: "plain_filter (scan_filter F pk filters)"
    using generated_filter_plain [OF assms(2)] all(2)
    by (cases "exprs_to_mongo_filter F ?p pk") (simp_all add: scan_filter_def Let_def)
  have "mongo_matches cmp (scan_filter F pk filters) d"
    if d: "d \<in> set (docs_of c)" "list_all (sql_true pk d) ?p" for d
  proof (cases "exprs_to_mongo_filter F ?p pk")
    case (Inl e)
    then show ?thesis using all by (simp add: scan_filter_def Let_def)
  next
    case (Inr flt)
    have "list_all (same_kind pk d) ?p" using assms(3) d(1) by (simp add: list_all_iff)
    from filter_document_sql [OF serves_compare [OF assms(1)] assms(2) this Inr] d(2)
    have "mongo_matches cmp flt d" by (auto simp: list_all_iff)
    with Inr all show ?thesis by (simp add: scan_filter_def Let_def)
  qed
  with serves_find [OF assms(1) plain assms(4)] show ?thesis by auto
qed

theorem mongo_scan_keeps_matching_witness:
  "{d \<in> set (id [[(''x'', BInt64 3)], [(''x'', BInt64 9)]]).
      list_all (sql_true ''k'' d)
        (filter is_pushable_binary_filter
          [EBinary (EColumn ''x'') OpGtEq (ELiteral (SvInt64 (Some 5))), EIsNull (EColumn ''x'')])}
   \<subseteq> set [[(''x'', BInt64 9)]]"
proof -
  let ?f = "[EBinary (EColumn ''x'') OpGtEq (ELiteral (SvInt64 (Some 5))), EIsNull (EColumn ''x'')]"
  let ?c = "[[(''x'', BInt64 3)], [(''x'', BInt64 9)]]"
  have f: "list_all (plain_column ''k'') (filter is_pushable_binary_filter ?f)"
    by (simp add: plain_column_def is_pushable_binary_filter_def plain_field_name_def mongo_field_def)
  have k: "list_all (\<lambda>d. list_all (same_kind ''k'' d) (filter is_pushable_binary_filter ?f)) (id ?c)" by code_simp
  have d: "filtered_scan list_collection ?c (scan_filter demo_floats ''k'' ?f) None = Inr [[(''x'', BInt64 9)]]"
    by code_simp
  show ?thesis by (rule mongo_scan_keeps_matching [OF list_collection_serves f k d])
qed

text \<open>
  A comparison with its literal on the left is declared pushable too, but keeps its operator
  when the sides are swapped: the document selects what the mirrored comparison means.
\<close>

theorem literal_first_is_not_mirrored:
  assumes "is_comparison opr"
    and "exprs_to_mongo_filter F [EBinary (ELiteral v) opr (EColumn c)] pk = Inr d"
  shows "is_pushable_binary_filter (EBinary (ELiteral v) opr (EColumn c))
    \<and> mongo_matches cmp d doc = atom_holds cmp F pk doc (EBinary (EColumn c) opr (ELiteral v))"
proof -
  from assms(2) obtain b where b: "scalar_to_bson F v = Inr b"
    by (auto simp: exprs_to_mongo_filter_def filter_part_def binary_expr_to_mongo_def column_and_value_def
        expr_to_bson_value_def res_simps)
  then have "column_and_value F (ELiteral v) opr (EColumn c) pk = Inr (mongo_field pk c, b)"
    by (simp add: column_and_value_def expr_to_bson_value_def)
  from comparison_document [OF b assms(1) this] assms b show ?thesis
    by (auto simp: is_pushable_binary_filter_def exprs_to_mongo_filter_def filter_part_def mongo_matches_def
        atom_holds_def)
qed

theorem literal_first_is_not_mirrored_witness:
  "mongo_matches demo_compare [(''$and'', BArray [BDocument [(''x'', BDocument [(''$lt'', BInt64 5)])]])]
     [(''x'', BInt64 3)] =
   atom_holds demo_compare demo_floats ''k'' [(''x'', BInt64 3)]
     (EBinary (EColumn ''x'') OpLt (ELiteral (SvInt64 (Some 5))))"
proof -
  have "exprs_to_mongo_filter demo_floats [EBinary (ELiteral (SvInt64 (Some 5))) OpLt (EColumn ''x'')] ''k'' =
      Inr [(''$and'', BArray [BDocument [(''x'', BDocument [(''$lt'', BInt64 5)])]])]"
    by code_simp
  from literal_first_is_not_mirrored [OF _ this] show ?thesis by simp
qed

text \<open>
  A condition that compares two columns is accepted by DELETE and UPDATE, with the right
  column's name as a text value: the rows deleted are those that hold that text.
\<close>

theorem column_on_the_right_is_its_name:
  "mongo_delete_from F ''id'' [EBinary (EColumn ''a'') OpEq (EColumn ''b'')] =
     Inr (MongoDelete [(''$and'', BArray [BDocument [(''a'', BString ''b'')]])])"
  by (simp add: mongo_delete_from_def exprs_to_mongo_filter_def filter_part_def binary_expr_to_mongo_def
      column_and_value_def expr_to_bson_value_def mongo_field_def)

section \<open>Numbers\<close>

text \<open>
  An integer literal reaches the server with its value, except an unsigned 64-bit one of at
  least \<open>2 ^ 63\<close>, which becomes the negative number of the same bits.
\<close>

theorem integer_literal_value:
  assumes "scalar_int v = Some i"
  shows "\<exists>b. scalar_to_bson F v = Inr b \<and> bson_int b = Some (if i < 2 ^ 63 then i else i - 2 ^ 64)"
  by (rule integer_literal_bson [OF assms])

theorem integer_literal_value_witness:
  "\<exists>b. scalar_to_bson demo_floats (SvUInt64 (Some (- 1))) = Inr b
     \<and> bson_int b = Some (if (2 ^ 64 - 1 :: int) < 2 ^ 63 then 2 ^ 64 - 1 else 2 ^ 64 - 1 - 2 ^ 64)"
proof -
  have "scalar_int (SvUInt64 (Some (- 1))) = Some (2 ^ 64 - 1)" by code_simp
  then show ?thesis by (rule integer_literal_value)
qed

section \<open>Rows and documents\<close>

text \<open>A cell of the array type that belongs to a column of a type with its own conversion.\<close>

definition cell_typed :: "arrow_type \<Rightarrow> scalar \<Rightarrow> bool" where
  "cell_typed ty cell \<longleftrightarrow>
     (case cell of
        SvUtf8 _ \<Rightarrow> ty = AtUtf8 | SvInt32 _ \<Rightarrow> ty = AtInt32 | SvInt64 _ \<Rightarrow> ty = AtInt64
      | SvFloat64 _ \<Rightarrow> ty = AtFloat64 | SvBoolean _ \<Rightarrow> ty = AtBoolean | _ \<Rightarrow> False)"

lemma typed_cell_read_back:
  assumes "cell_typed ty cell" and "arrow_value_to_bson cell ty = Inr v"
  shows "bson_values_to_arrow_array F [v] ty = [cell]"
  using assms
  by (cases cell; cases "is_null cell")
    (auto simp: cell_typed_def arrow_value_to_bson_def bson_values_to_arrow_array_def bson_to_string_def
      bson_to_i32_def bson_to_i64_def bson_to_f64_def bson_to_bool_def)

definition id_is_key :: "string \<Rightarrow> string \<Rightarrow> bool" where
  "id_is_key pk n \<longleftrightarrow> (n = ''_id'' \<longrightarrow> pk = ''_id'')"

lemma field_value_insert:
  assumes "id_is_key pk n" and "id_is_key pk m"
  shows "field_value pk (doc_insert m v (if m = pk then doc_insert ''_id'' v d else d)) n =
    (if n = m then Some v else field_value pk d n)"
proof (cases "n = m")
  case True
  then show ?thesis by (simp add: field_value_def)
next
  case False
  with assms show ?thesis
    by (cases "n = pk"; cases "m = pk") (auto simp: field_value_def id_is_key_def split: option.split)
qed

lemma row_to_document_values:
  "row_to_document pk ps d0 = Inr d \<Longrightarrow> distinct (map (af_name \<circ> fst) ps) \<Longrightarrow>
   (\<And>p. p \<in> set ps \<Longrightarrow> id_is_key pk (af_name (fst p))) \<Longrightarrow>
   (\<forall>n. n \<notin> (af_name \<circ> fst) ` set ps \<longrightarrow> id_is_key pk n \<longrightarrow> field_value pk d n = field_value pk d0 n)
   \<and> (\<forall>p \<in> set ps. \<exists>v. arrow_value_to_bson (snd p) (af_type (fst p)) = Inr v
        \<and> field_value pk d (af_name (fst p)) = (if v = None then field_value pk d0 (af_name (fst p)) else v))"
proof (induction ps arbitrary: d0)
  case Nil
  then show ?case by simp
next
  case (Cons p rest)
  obtain f cell where p: "p = (f, cell)" by (cases p)
  from Cons.prems(1) obtain v where v: "arrow_value_to_bson cell (af_type f) = Inr v" by (auto simp: p res_simps)
  define d1 where "d1 = (case v of None \<Rightarrow> d0
    | Some x \<Rightarrow> doc_insert (af_name f) x (if af_name f = pk then doc_insert ''_id'' x d0 else d0))"
  have r: "row_to_document pk rest d1 = Inr d"
    using Cons.prems(1) v by (cases v) (simp_all add: p d1_def Let_def)
  have keys: "id_is_key pk (af_name f)" "\<And>p. p \<in> set rest \<Longrightarrow> id_is_key pk (af_name (fst p))"
    using Cons.prems(3) [of p] Cons.prems(3) by (simp_all add: p)
  have d1: "field_value pk d1 n = (if n = af_name f \<and> v \<noteq> None then v else field_value pk d0 n)"
    if "id_is_key pk n" for n
    using field_value_insert [OF that keys(1)] by (cases v) (auto simp: d1_def)
  have ih: "(\<forall>n. n \<notin> (af_name \<circ> fst) ` set rest \<longrightarrow> id_is_key pk n \<longrightarrow> field_value pk d n = field_value pk d1 n)
     \<and> (\<forall>p \<in> set rest. \<exists>v. arrow_value_to_bson (snd p) (af_type (fst p)) = Inr v
        \<and> field_value pk d (af_name (fst p)) = (if v = None then field_value pk d1 (af_name (fst p)) else v))"
    by (rule Cons.IH [OF r]) (use Cons.prems(2) keys(2) in simp_all)
  have fresh: "af_name f \<notin> (af_name \<circ> fst) ` set rest" using Cons.prems(2) by (simp add: p)
  have f: "field_value pk d (af_name f) = (if v = None then field_value pk d0 (af_name f) else v)"
    using ih fresh keys(1) d1 [OF keys(1)] by auto
  have rest: "field_value pk d1 (af_name (fst q)) = field_value pk d0 (af_name (fst q))" if "q \<in> set rest" for q
    using that fresh d1 [OF keys(2) [OF that]] by (auto simp: image_iff)
  have "field_value pk d1 n = field_value pk d0 n" if "n \<noteq> af_name f" "id_is_key pk n" for n
    using that d1 by simp
  note old = this
  show ?case
  proof (intro conjI allI impI ballI)
    fix n
    assume n: "n \<notin> (af_name \<circ> fst) ` set (p # rest)" "id_is_key pk n"
    then have "n \<noteq> af_name f" "n \<notin> (af_name \<circ> fst) ` set rest" by (auto simp: p)
    with ih old n(2) show "field_value pk d n = field_value pk d0 n" by simp
  next
    fix q
    assume "q \<in> set (p # rest)"
    then consider "q = p" | "q \<in> set rest" by auto
    then show "\<exists>v. arrow_value_to_bson (snd q) (af_type (fst q)) = Inr v \<and>
        field_value pk d (af_name (fst q)) = (if v = None then field_value pk d0 (af_name (fst q)) else v)"
    proof cases
      case 1
      with v f show ?thesis by (simp add: p)
    next
      case 2
      with ih rest show ?thesis by metis
    qed
  qed
qed

lemma filter_one_name:
  assumes "j < length sch" and "distinct (map af_name sch)"
  shows "filter (\<lambda>f. af_name f = af_name (sch ! j)) sch = [sch ! j]"
  using assms
proof (induction sch arbitrary: j)
  case Nil
  then show ?case by simp
next
  case (Cons f sch)
  show ?case
  proof (cases j)
    case 0
    with Cons.prems(2) show ?thesis by (auto simp: filter_empty_conv) (metis image_eqI)
  next
    case (Suc i)
    with Cons.prems have "af_name f \<noteq> af_name (sch ! i)" by auto
    with Suc Cons show ?thesis by simp
  qed
qed

lemma concat_map_singleton: "concat (map (\<lambda>x. [f x]) xs) = map f xs"
  by (induction xs) auto

text \<open>
  C15. Rows written to documents and read back are the same cells, nulls and the primary key
  included, for columns of the types the conversion knows.
\<close>

theorem documents_read_back:
  assumes "record_batch_to_docs rows pk sch = Inr docs" and "distinct (map af_name sch)"
    and "list_all (\<lambda>f. id_is_key pk (af_name f)) sch"
    and "list_all (\<lambda>row. list_all2 (\<lambda>f cell. cell_typed (af_type f) cell) sch row) rows"
  shows "documents_to_columns F sch pk docs = map (\<lambda>j. map (\<lambda>row. row ! j) rows) [0..<length sch]"
proof (rule nth_equalityI)
  show "length (documents_to_columns F sch pk docs) = length (map (\<lambda>j. map (\<lambda>row. row ! j) rows) [0..<length sch])"
    by (simp add: documents_to_columns_def)
next
  fix j
  assume "j < length (documents_to_columns F sch pk docs)"
  then have j: "j < length sch" by (simp add: documents_to_columns_def)
  let ?f = "sch ! j"
  from assms(1) have docs: "map (\<lambda>row. row_to_document pk (zip sch row) []) rows = map Inr docs"
    by (simp add: record_batch_to_docs_def collect_res_Inr_iff)
  have one: "bson_values_to_arrow_array F [field_value pk d (af_name ?f)] (af_type ?f) = [row ! j]"
    if row: "row_to_document pk (zip sch row) [] = Inr d"
      "list_all2 (\<lambda>f cell. cell_typed (af_type f) cell) sch row" for row d
  proof -
    have len: "length row = length sch" using row(2) by (simp add: list_all2_lengthD)
    have p: "(?f, row ! j) \<in> set (zip sch row)" using j len by (auto simp: set_zip)
    have "distinct (map (af_name \<circ> fst) (zip sch row))"
      using assms(2) len by (simp flip: map_map)
    moreover have "\<And>p. p \<in> set (zip sch row) \<Longrightarrow> id_is_key pk (af_name (fst p))"
      using assms(3) by (auto simp: list_all_iff dest: set_zip_leftD)
    ultimately have "\<exists>v. arrow_value_to_bson (row ! j) (af_type ?f) = Inr v
        \<and> field_value pk d (af_name ?f) = (if v = None then field_value pk [] (af_name ?f) else v)"
      using bspec [OF conjunct2 [OF row_to_document_values [OF row(1)]] p] unfolding fst_conv snd_conv by blast
    then obtain v where v: "arrow_value_to_bson (row ! j) (af_type ?f) = Inr v"
      "field_value pk d (af_name ?f) = v"
      by (auto simp: field_value_def split: if_splits)
    have "cell_typed (af_type ?f) (row ! j)" using row(2) j by (rule list_all2_nthD)
    from typed_cell_read_back [OF this v(1)] show ?thesis by (simp only: v(2))
  qed
  have "filter (\<lambda>f. af_name f = af_name ?f) sch = [?f]"
    using j assms(2) by (rule filter_one_name)
  then have "column_values sch pk docs (af_name ?f) = map (\<lambda>d. field_value pk d (af_name ?f)) docs"
    by (simp add: column_values_def concat_map_singleton)
  moreover have "bson_values_to_arrow_array F (map (\<lambda>d. field_value pk d (af_name ?f)) ds) (af_type ?f) =
      map (\<lambda>row. row ! j) rs"
    if "map (\<lambda>row. row_to_document pk (zip sch row) []) rs = map Inr ds"
      "list_all (\<lambda>row. list_all2 (\<lambda>f cell. cell_typed (af_type f) cell) sch row) rs" for ds rs
    using that
  proof (induction rs arbitrary: ds)
    case Nil
    then show ?case by (simp add: bson_values_to_arrow_array_def)
  next
    case (Cons row rs)
    then obtain d ds' where d: "ds = d # ds'" "row_to_document pk (zip sch row) [] = Inr d"
      "map (\<lambda>row. row_to_document pk (zip sch row) []) rs = map Inr ds'" by (cases ds) auto
    from one [OF d(2)] Cons.prems(2) Cons.IH [OF d(3)] show ?case
      by (simp add: d(1) bson_values_to_arrow_array_def)
  qed
  ultimately show "documents_to_columns F sch pk docs ! j = map (\<lambda>j. map (\<lambda>row. row ! j) rows) [0..<length sch] ! j"
    using docs assms(4) j by (simp add: documents_to_columns_def)
qed

theorem documents_read_back_witness:
  "documents_to_columns demo_floats
     [\<lparr>af_name = ''k'', af_type = AtUtf8, af_nullable = False\<rparr>, \<lparr>af_name = ''n'', af_type = AtInt32, af_nullable = True\<rparr>]
     ''k'' [[(''_id'', BString ''a''), (''k'', BString ''a''), (''n'', BInt32 4)], [(''_id'', BString ''b''), (''k'', BString ''b'')]] =
   map (\<lambda>j. map (\<lambda>row. row ! j)
     [[SvUtf8 (Some ''a''), SvInt32 (Some 4)], [SvUtf8 (Some ''b''), SvInt32 None]]) [0..<2]"
proof -
  let ?sch = "[\<lparr>af_name = ''k'', af_type = AtUtf8, af_nullable = False\<rparr>,
    \<lparr>af_name = ''n'', af_type = AtInt32, af_nullable = True\<rparr>]"
  let ?rows = "[[SvUtf8 (Some ''a''), SvInt32 (Some 4)], [SvUtf8 (Some ''b''), SvInt32 None]]"
  let ?docs = "[[(''_id'', BString ''a''), (''k'', BString ''a''), (''n'', BInt32 4)],
    [(''_id'', BString ''b''), (''k'', BString ''b'')]]"
  have r: "record_batch_to_docs ?rows ''k'' ?sch = Inr ?docs" by code_simp
  have d: "distinct (map af_name ?sch)" by simp
  have i: "list_all (\<lambda>f. id_is_key ''k'' (af_name f)) ?sch" by (simp add: id_is_key_def)
  have t: "list_all (\<lambda>row. list_all2 (\<lambda>f cell. cell_typed (af_type f) cell) ?sch row) ?rows"
    by (simp add: cell_typed_def)
  have l: "length ?sch = 2" by simp
  show ?thesis using documents_read_back [OF r d i t] unfolding l .
qed

section \<open>Credentials\<close>

text \<open>
  The connection URI carries the user name and the password as opaque text: both are read
  back by percent decoding, and neither can contain a separator of the URI.
\<close>

theorem uri_credentials_are_opaque:
  assumes "build_connection_uri parse base (Some user) (Some pass) = Inr uri"
  shows "\<exists>url host u p host_port. parse base = Inr url \<and> pu_host url = Some host
    \<and> uri = pu_scheme url @ ''://'' @ u @ '':'' @ p @ ''@'' @ host_port \<and> starts_with host host_port
    \<and> percent_decode u = user \<and> percent_decode p = pass
    \<and> list_all (\<lambda>c. c = CHR 0x25 \<or> is_alphanumeric c) (u @ p)"
proof -
  from assms obtain url host where u: "parse base = Inr url" "pu_host url = Some host"
    by (auto simp: build_connection_uri_def res_simps)
  define hp where "hp = (case pu_port url of Some p \<Rightarrow> host @ '':'' @ show_nat p
    | None \<Rightarrow> if pu_scheme url = ''mongodb'' then host @ '':27017'' else host)"
  have "starts_with host hp" by (auto simp: hp_def starts_with_iff split: option.split)
  moreover have "uri = pu_scheme url @ ''://'' @ percent_encode user @ '':'' @ percent_encode pass @ ''@'' @ hp"
    using assms u by (simp add: build_connection_uri_def hp_def Let_def)
  moreover have "list_all (\<lambda>c. c = CHR 0x25 \<or> is_alphanumeric c) (percent_encode user @ percent_encode pass)"
    by (simp add: percent_encode_chars)
  ultimately show ?thesis
    using u percent_decode_encode [of user] percent_decode_encode [of pass] by blast
qed

theorem uri_credentials_are_opaque_witness:
  "build_connection_uri
     (\<lambda>_. Inr \<lparr>pu_scheme = ''mongodb'', pu_host = Some ''db'', pu_port = None, pu_rest = []\<rparr>)
     ''mongodb://db'' (Some ''u@x'') (Some ''p:1'') = Inr ''mongodb://u%40x:p%3A1@db:27017''
   \<and> percent_decode ''u%40x'' = ''u@x''"
proof -
  let ?parse = "\<lambda>_ :: string. Inr \<lparr>pu_scheme = ''mongodb'', pu_host = Some ''db'', pu_port = None, pu_rest = []\<rparr>
    :: string + parsed_url"
  have b: "build_connection_uri ?parse ''mongodb://db'' (Some ''u@x'') (Some ''p:1'')
      = Inr ''mongodb://u%40x:p%3A1@db:27017''" by code_simp
  from uri_credentials_are_opaque [OF b] have "\<exists>u. percent_decode u = ''u@x''" by blast
  moreover have "percent_decode ''u%40x'' = ''u@x''" by code_simp
  ultimately show ?thesis using b by blast
qed

text \<open>
  Everything of the configured connection string behind the host and port is dropped: two
  strings that differ only in their path and query give the same URI.
\<close>

theorem connection_options_are_dropped:
  assumes "parse base = Inr url" and "parse base' = Inr (url\<lparr>pu_rest := rest\<rparr>)" and "pu_host url \<noteq> None"
  shows "build_connection_uri parse base user pass = build_connection_uri parse base' user pass"
  using assms by (auto simp: build_connection_uri_def)

theorem connection_options_are_dropped_witness:
  "build_connection_uri (\<lambda>s. Inr \<lparr>pu_scheme = ''mongodb'', pu_host = Some ''db'', pu_port = None,
        pu_rest = drop 12 s\<rparr>) ''mongodb://db'' None None =
   build_connection_uri (\<lambda>s. Inr \<lparr>pu_scheme = ''mongodb'', pu_host = Some ''db'', pu_port = None,
        pu_rest = drop 12 s\<rparr>) ''mongodb://db/?tls=true'' None None"
  by (rule connection_options_are_dropped [where rest = "''/?tls=true''"
        and url = "\<lparr>pu_scheme = ''mongodb'', pu_host = Some ''db'', pu_port = None, pu_rest = []\<rparr>"])
    code_simp+

end
