(* ===== verification/Sql_Where.thy ===== *)
theory Sql_Where
  imports Filter_Expr Sql_Template
begin

text \<open>
  The text of WHERE clauses. Several providers render filter expressions into SQL and join the
  parts with \<open>AND\<close>; this theory reads such a text the way a SQL parser groups it: words
  separated by spaces outside quotes and parentheses, \<open>OR\<close> binding weaker than \<open>AND\<close>. It states
  when joining parts means their conjunction, and models the rendering of filters for Lance
  (\<^verbatim>\<open>sources/providers/lance/utils.rs\<close>).
\<close>

section \<open>Top-level words\<close>

text \<open>The reader's state: the depth of parentheses and the quote it is in.\<close>

type_synonym read_state = "nat \<times> char option"

definition read_char :: "char \<Rightarrow> read_state \<Rightarrow> read_state" where
  "read_char c st =
     (case st of
        (d, Some q) \<Rightarrow> (d, if c = q then None else Some q)
      | (d, None) \<Rightarrow>
          if c = squote \<or> c = dquote then (d, Some c)
          else if c = CHR ''('' then (Suc d, None)
          else if c = CHR '')'' then (d - 1, None)
          else (d, None))"

definition read_text :: "string \<Rightarrow> read_state \<Rightarrow> read_state" where
  "read_text s st = foldl (\<lambda>st c. read_char c st) st s"

definition top_state :: read_state where
  "top_state = (0, None)"

definition balanced :: "string \<Rightarrow> bool" where
  "balanced s \<longleftrightarrow> read_text s top_state = top_state"

fun split_words :: "read_state \<Rightarrow> string \<Rightarrow> string list" where
  "split_words st [] = [[]]"
| "split_words st (c # cs) =
     (if c = CHR '' '' \<and> st = top_state then [] # split_words st cs
      else case split_words (read_char c st) cs of
             [] \<Rightarrow> [[c]]
           | w # ws \<Rightarrow> (c # w) # ws)"

definition sql_words :: "string \<Rightarrow> string list" where
  "sql_words s = split_words top_state s"

lemma split_words_nonempty [simp]: "split_words st s \<noteq> []"
  by (induction st s rule: split_words.induct) (auto split: list.split)

lemma read_text_simps [simp]:
  "read_text [] st = st" "read_text (c # s) st = read_text s (read_char c st)"
  "read_text (s @ t) st = read_text t (read_text s st)"
  by (simp_all add: read_text_def)

lemma read_space [simp]: "read_char (CHR '' '') top_state = top_state"
  by (simp add: read_char_def top_state_def squote_def dquote_def)

lemma split_words_append:
  "read_text s st = top_state \<Longrightarrow>
   split_words st (s @ CHR '' '' # t) = split_words st s @ sql_words t"
proof (induction s arbitrary: st)
  case Nil
  then show ?case by (simp add: sql_words_def)
next
  case (Cons c s)
  show ?case
  proof (cases "c = CHR '' '' \<and> st = top_state")
    case True
    with Cons show ?thesis by simp
  next
    case False
    from Cons have ih: "split_words (read_char c st) (s @ CHR '' '' # t)
        = split_words (read_char c st) s @ sql_words t" by simp
    obtain w ws where "split_words (read_char c st) s = w # ws"
      by (cases "split_words (read_char c st) s") auto
    with False ih show ?thesis by auto
  qed
qed

lemma sql_words_append: "balanced s \<Longrightarrow> sql_words (s @ CHR '' '' # t) = sql_words s @ sql_words t"
  unfolding sql_words_def balanced_def by (simp add: split_words_append sql_words_def)

text \<open>A text without spaces, quotes and parentheses is one balanced word.\<close>

definition plain_char :: "char \<Rightarrow> bool" where
  "plain_char c \<longleftrightarrow> c \<notin> {CHR '' '', squote, dquote, CHR ''('', CHR '')''}"

lemma read_plain: "plain_char c \<Longrightarrow> read_char c top_state = top_state"
  by (simp add: plain_char_def read_char_def top_state_def)

lemma plain_word: "list_all plain_char s \<Longrightarrow> balanced s \<and> sql_words s = [s]"
proof (induction s)
  case Nil
  then show ?case by (simp add: balanced_def sql_words_def)
next
  case (Cons c s)
  then have "read_char c top_state = top_state" "c \<noteq> CHR '' ''"
    by (simp_all add: read_plain plain_char_def)
  with Cons show ?case by (simp add: balanced_def sql_words_def)
qed

text \<open>Inside quotes a doubled quote leaves and enters again, so no space is at top level.\<close>

lemma quoted_body:
  assumes "q \<in> {squote, dquote}"
  shows "split_words (0, Some q) (concat (map (\<lambda>c. if c = q then [q, q] else [c]) s) @ [q]) =
     [concat (map (\<lambda>c. if c = q then [q, q] else [c]) s) @ [q]]
   \<and> read_text (concat (map (\<lambda>c. if c = q then [q, q] else [c]) s) @ [q]) (0, Some q) = top_state"
proof (induction s)
  case Nil
  then show ?case by (simp add: read_char_def top_state_def)
next
  case (Cons c s)
  have q: "q \<noteq> CHR '' ''" using assms by (auto simp: squote_def dquote_def)
  show ?case
  proof (cases "c = q")
    case True
    have "read_char q (0, Some q) = (0, None)" "read_char q (0, None) = (0, Some q)"
      using assms by (auto simp: read_char_def)
    with True Cons q show ?thesis by simp
  next
    case False
    then have "read_char c (0, Some q) = (0, Some q)" by (simp add: read_char_def)
    with False Cons show ?thesis by (simp add: top_state_def)
  qed
qed

lemma quoted_word:
  assumes "q \<in> {squote, dquote}"
  shows "balanced ([q] @ str_replace [q] [q, q] s @ [q])
    \<and> sql_words ([q] @ str_replace [q] [q, q] s @ [q]) = [[q] @ str_replace [q] [q, q] s @ [q]]"
proof -
  have "read_char q top_state = (0, Some q)" using assms by (auto simp: read_char_def top_state_def)
  moreover have "q \<noteq> CHR '' ''" using assms by (auto simp: squote_def dquote_def)
  ultimately show ?thesis
    using quoted_body [OF assms, of s] by (simp add: balanced_def sql_words_def str_replace_char)
qed

lemma literal_word: "balanced (sql_string_literal s) \<and> sql_words (sql_string_literal s) = [sql_string_literal s]"
  using quoted_word [of squote s] by (simp add: sql_string_literal_def)

section \<open>Connectives\<close>

fun split_on :: "'a \<Rightarrow> 'a list \<Rightarrow> 'a list list" where
  "split_on x [] = [[]]"
| "split_on x (y # ys) =
     (if y = x then [] # split_on x ys
      else case split_on x ys of [] \<Rightarrow> [[y]] | g # gs \<Rightarrow> (y # g) # gs)"

lemma split_on_nonempty [simp]: "split_on x ys \<noteq> []"
  by (induction ys) (auto split: list.split)

lemma split_on_append: "split_on x (ys @ x # zs) = split_on x ys @ split_on x zs"
proof (induction ys)
  case Nil
  then show ?case by simp
next
  case (Cons y ys)
  then show ?case by (cases "split_on x ys") auto
qed

lemma split_on_absent: "x \<notin> set ys \<Longrightarrow> split_on x ys = [ys]"
  by (induction ys) auto

text \<open>
  The condition a text states, for a valuation of its atoms (the words between connectives):
  some alternative holds in all its terms.
\<close>

definition words_hold :: "(string list \<Rightarrow> bool) \<Rightarrow> string list \<Rightarrow> bool" where
  "words_hold v ws \<longleftrightarrow>
     list_ex (\<lambda>alt. list_all v (split_on ''AND'' alt)) (split_on ''OR'' ws)"

definition where_holds :: "(string list \<Rightarrow> bool) \<Rightarrow> string \<Rightarrow> bool" where
  "where_holds v s \<longleftrightarrow> words_hold v (sql_words s)"

lemma words_hold_or: "words_hold v (a @ ''OR'' # b) \<longleftrightarrow> words_hold v a \<or> words_hold v b"
  by (simp add: words_hold_def split_on_append)

lemma words_hold_and:
  "''OR'' \<notin> set a \<Longrightarrow> ''OR'' \<notin> set b \<Longrightarrow>
   words_hold v (a @ ''AND'' # b) \<longleftrightarrow> words_hold v a \<and> words_hold v b"
  by (simp add: words_hold_def split_on_append split_on_absent)

lemma words_hold_atom:
  "''OR'' \<notin> set a \<Longrightarrow> ''AND'' \<notin> set a \<Longrightarrow> words_hold v a \<longleftrightarrow> v a"
  by (simp add: words_hold_def split_on_absent)

text \<open>The parts of a joined filter: balanced and without an \<open>OR\<close> outside parentheses.\<close>

definition conjunct_text :: "string \<Rightarrow> bool" where
  "conjunct_text s \<longleftrightarrow> balanced s \<and> ''OR'' \<notin> set (sql_words s)"

lemma join_and_words:
  "parts \<noteq> [] \<Longrightarrow> list_all conjunct_text parts \<Longrightarrow>
   balanced (str_join '' AND '' parts) \<and> ''OR'' \<notin> set (sql_words (str_join '' AND '' parts))
   \<and> (where_holds v (str_join '' AND '' parts) \<longleftrightarrow> list_all (where_holds v) parts)"
proof (induction "'' AND ''" parts rule: str_join.induct)
  case (2 x)
  then show ?case by (simp add: conjunct_text_def)
next
  case (3 x y ys)
  let ?rest = "str_join '' AND '' (y # ys)"
  from 3 have ih: "balanced ?rest" "''OR'' \<notin> set (sql_words ?rest)"
    "where_holds v ?rest \<longleftrightarrow> list_all (where_holds v) (y # ys)" and x: "balanced x" "''OR'' \<notin> set (sql_words x)"
    by (simp_all add: conjunct_text_def)
  have and_word: "balanced ''AND''" "sql_words ''AND'' = [''AND'']" by code_simp+
  have e: "str_join '' AND '' (x # y # ys) = x @ CHR '' '' # ''AND'' @ CHR '' '' # ?rest" by simp
  have w: "sql_words (str_join '' AND '' (x # y # ys)) = sql_words x @ ''AND'' # sql_words ?rest"
    unfolding e sql_words_append [OF x(1)] sql_words_append [OF and_word(1)] and_word(2) by simp
  have "balanced (str_join '' AND '' (x # y # ys))"
    unfolding e using x(1) ih(1) and_word(1) by (simp add: balanced_def)
  then show ?case
    using x(2) ih(2,3) w words_hold_and [OF x(2) ih(2), of v] by (simp add: where_holds_def)
qed simp

lemma join_and_holds:
  "parts \<noteq> [] \<Longrightarrow> list_all conjunct_text parts \<Longrightarrow>
   where_holds v (str_join '' AND '' parts) \<longleftrightarrow> list_all (where_holds v) parts"
  using join_and_words by blast

section \<open>Filters for Lance\<close>

text \<open>\<open>display\<close> prints the literals without a case of their own.\<close>

fun lance_scalar_to_sql :: "(scalar \<Rightarrow> string) \<Rightarrow> scalar \<Rightarrow> string" where
  "lance_scalar_to_sql display (SvUtf8 (Some s)) = sql_string_literal s"
| "lance_scalar_to_sql display (SvLargeUtf8 (Some s)) = sql_string_literal s"
| "lance_scalar_to_sql display (SvBoolean (Some b)) = show_bool b"
| "lance_scalar_to_sql display (SvInt8 (Some n)) = show_signed n"
| "lance_scalar_to_sql display (SvInt16 (Some n)) = show_signed n"
| "lance_scalar_to_sql display (SvInt32 (Some n)) = show_signed n"
| "lance_scalar_to_sql display (SvInt64 (Some n)) = show_signed n"
| "lance_scalar_to_sql display (SvUInt8 (Some n)) = show_unsigned n"
| "lance_scalar_to_sql display (SvUInt16 (Some n)) = show_unsigned n"
| "lance_scalar_to_sql display (SvUInt32 (Some n)) = show_unsigned n"
| "lance_scalar_to_sql display (SvUInt64 (Some n)) = show_unsigned n"
| "lance_scalar_to_sql display (SvFloat32 (Some n)) = n"
| "lance_scalar_to_sql display (SvFloat64 (Some n)) = n"
| "lance_scalar_to_sql display SvNull = ''NULL''"
| "lance_scalar_to_sql display v = display v"

fun expr_to_lance_sql :: "(scalar \<Rightarrow> string) \<Rightarrow> expr \<Rightarrow> string" where
  "expr_to_lance_sql display (EColumn c) = c"
| "expr_to_lance_sql display (ELiteral v) = lance_scalar_to_sql display v"
| "expr_to_lance_sql display (EBinary l opr r) =
     expr_to_lance_sql display l @ '' '' @ op_symbol opr @ '' '' @ expr_to_lance_sql display r"
| "expr_to_lance_sql display (ENot e) = ''NOT ('' @ expr_to_lance_sql display e @ '')''"
| "expr_to_lance_sql display (EIsNull e) = expr_to_lance_sql display e @ '' IS NULL''"
| "expr_to_lance_sql display (EIsNotNull e) = expr_to_lance_sql display e @ '' IS NOT NULL''"
| "expr_to_lance_sql display (EBetween e negated low high) =
     expr_to_lance_sql display e @ (if negated then '' NOT BETWEEN '' else '' BETWEEN '')
     @ expr_to_lance_sql display low @ '' AND '' @ expr_to_lance_sql display high"
| "expr_to_lance_sql display (EInList e es negated) =
     expr_to_lance_sql display e @ (if negated then '' NOT IN ('' else '' IN ('')
     @ str_join '', '' (map (expr_to_lance_sql display) es) @ '')''"
| "expr_to_lance_sql display (EOther s) = s"

text \<open>The WHERE filters of a table function, joined.\<close>

definition lance_where :: "(scalar \<Rightarrow> string) \<Rightarrow> expr list \<Rightarrow> string" where
  "lance_where display filters = str_join '' AND '' (map (expr_to_lance_sql display) filters)"

text \<open>\<open>lance_knn\<close> puts the filter argument in front.\<close>

definition lance_knn_filter :: "(scalar \<Rightarrow> string) \<Rightarrow> string option \<Rightarrow> expr list \<Rightarrow> string option" where
  "lance_knn_filter display inline_filter filters =
     (let parts = (case inline_filter of Some f \<Rightarrow> [f] | None \<Rightarrow> [])
                  @ (if filters = [] then [] else [lance_where display filters])
      in if parts = [] then None else Some (str_join '' AND '' parts))"

section \<open>What a rendered filter means\<close>

text \<open>An expression's condition over the valuation of its atoms' texts.\<close>

fun expr_holds :: "(scalar \<Rightarrow> string) \<Rightarrow> (string list \<Rightarrow> bool) \<Rightarrow> expr \<Rightarrow> bool" where
  "expr_holds display v (EBinary l opr r) =
     (if opr = OpAnd then expr_holds display v l \<and> expr_holds display v r
      else if opr = OpOr then expr_holds display v l \<or> expr_holds display v r
      else v (sql_words (expr_to_lance_sql display (EBinary l opr r))))"
| "expr_holds display v e = v (sql_words (expr_to_lance_sql display e))"

text \<open>An atom: no connective of its own, and a text that shows none.\<close>

definition is_connective :: "expr \<Rightarrow> bool" where
  "is_connective e \<longleftrightarrow> (\<exists>l opr r. e = EBinary l opr r \<and> opr \<in> {OpAnd, OpOr})"

definition plain_atom :: "(scalar \<Rightarrow> string) \<Rightarrow> expr \<Rightarrow> bool" where
  "plain_atom display e \<longleftrightarrow> \<not> is_connective e \<and> balanced (expr_to_lance_sql display e)
     \<and> ''OR'' \<notin> set (sql_words (expr_to_lance_sql display e))
     \<and> ''AND'' \<notin> set (sql_words (expr_to_lance_sql display e))"

inductive and_only :: "(scalar \<Rightarrow> string) \<Rightarrow> expr \<Rightarrow> bool" for display where
  atom: "plain_atom display e \<Longrightarrow> and_only display e"
| conj: "and_only display l \<Longrightarrow> and_only display r \<Longrightarrow> and_only display (EBinary l OpAnd r)"

inductive or_of_ands :: "(scalar \<Rightarrow> string) \<Rightarrow> expr \<Rightarrow> bool" for display where
  ands: "and_only display e \<Longrightarrow> or_of_ands display e"
| disj: "or_of_ands display l \<Longrightarrow> or_of_ands display r \<Longrightarrow> or_of_ands display (EBinary l OpOr r)"

lemma atom_holds_words: "plain_atom display e \<Longrightarrow> expr_holds display v e = v (sql_words (expr_to_lance_sql display e))"
  by (cases e) (auto simp: plain_atom_def is_connective_def)

lemma connective_words:
  assumes "balanced a" and "balanced w" and "sql_words w = [w]"
  shows "sql_words (a @ '' '' @ w @ '' '' @ b) = sql_words a @ w # sql_words b"
    and "balanced b \<Longrightarrow> balanced (a @ '' '' @ w @ '' '' @ b)"
proof -
  have "a @ '' '' @ w @ '' '' @ b = a @ CHR '' '' # w @ CHR '' '' # b" by simp
  then show "sql_words (a @ '' '' @ w @ '' '' @ b) = sql_words a @ w # sql_words b"
    by (simp only: sql_words_append [OF assms(1)] sql_words_append [OF assms(2)] assms(3)) simp
  show "balanced b \<Longrightarrow> balanced (a @ '' '' @ w @ '' '' @ b)" using assms by (simp add: balanced_def)
qed

lemma op_words:
  "balanced (op_symbol OpAnd)" "sql_words (op_symbol OpAnd) = [op_symbol OpAnd]"
  "balanced (op_symbol OpOr)" "sql_words (op_symbol OpOr) = [op_symbol OpOr]"
  by code_simp+

lemma and_only_reads:
  "and_only display e \<Longrightarrow> conjunct_text (expr_to_lance_sql display e)
    \<and> (where_holds v (expr_to_lance_sql display e) \<longleftrightarrow> expr_holds display v e)"
proof (induction rule: and_only.induct)
  case (atom e)
  then show ?case
    by (simp add: atom_holds_words) (simp add: plain_atom_def conjunct_text_def where_holds_def words_hold_atom)
next
  case (conj l r)
  then have w: "sql_words (expr_to_lance_sql display (EBinary l OpAnd r)) =
      sql_words (expr_to_lance_sql display l) @ ''AND'' # sql_words (expr_to_lance_sql display r)"
    using connective_words(1) [OF _ op_words(1,2)] by (simp add: conjunct_text_def op_symbol_def)
  have "balanced (expr_to_lance_sql display (EBinary l OpAnd r))"
    using conj connective_words(2) [OF _ op_words(1,2)] by (simp add: conjunct_text_def)
  with conj w show ?case
    using words_hold_and [of "sql_words (expr_to_lance_sql display l)" "sql_words (expr_to_lance_sql display r)" v]
    by (simp add: conjunct_text_def where_holds_def)
qed

lemma or_of_ands_reads:
  "or_of_ands display e \<Longrightarrow> balanced (expr_to_lance_sql display e)
    \<and> (where_holds v (expr_to_lance_sql display e) \<longleftrightarrow> expr_holds display v e)"
proof (induction rule: or_of_ands.induct)
  case (ands e)
  from and_only_reads [OF this] show ?case by (simp add: conjunct_text_def)
next
  case (disj l r)
  have w: "sql_words (expr_to_lance_sql display (EBinary l OpOr r)) =
      sql_words (expr_to_lance_sql display l) @ ''OR'' # sql_words (expr_to_lance_sql display r)"
    using disj connective_words(1) [OF _ op_words(3,4)] by (simp add: op_symbol_def)
  have "balanced (expr_to_lance_sql display (EBinary l OpOr r))"
    using disj connective_words(2) [OF _ op_words(3,4)] by simp
  with disj w show ?case
    using words_hold_or [of v "sql_words (expr_to_lance_sql display l)" "sql_words (expr_to_lance_sql display r)"]
    by (simp add: where_holds_def)
qed

text \<open>Comparisons of plain columns with text literals are such atoms, whatever the text.\<close>

lemma op_symbol_word: "is_comparison opr \<Longrightarrow> balanced (op_symbol opr) \<and> sql_words (op_symbol opr) = [op_symbol opr]
    \<and> op_symbol opr \<noteq> ''OR'' \<and> op_symbol opr \<noteq> ''AND''"
proof -
  assume "is_comparison opr"
  then have "list_all plain_char (op_symbol opr) \<and> op_symbol opr \<noteq> ''OR'' \<and> op_symbol opr \<noteq> ''AND''"
    by (cases opr) (simp_all add: op_symbol_def plain_char_def squote_def dquote_def)
  with plain_word show ?thesis by blast
qed

lemma literal_not_connective: "sql_string_literal s \<noteq> ''OR''" "sql_string_literal s \<noteq> ''AND''"
  by (simp_all add: sql_string_literal_def squote_def)

lemma text_comparison_is_atom:
  assumes "list_all plain_char c" and "c \<noteq> ''OR''" and "c \<noteq> ''AND''" and "is_comparison opr"
  shows "plain_atom display (EBinary (EColumn c) opr (ELiteral (SvUtf8 (Some s))))"
proof -
  note c = plain_word [OF assms(1)] and w = op_symbol_word [OF assms(4)] and l = literal_word [of s]
  have "opr \<noteq> OpAnd" "opr \<noteq> OpOr" using assms(4) by auto
  then show ?thesis
    using c w l connective_words [of c "op_symbol opr" "sql_string_literal s"] assms(2,3) literal_not_connective [of s]
    by (auto simp: plain_atom_def is_connective_def)
qed

text \<open>
  A filter handed to Lance reads as the condition it renders when it is a disjunction of
  conjunctions of atoms; several filters read as their conjunction when none has an \<open>OR\<close>.
\<close>

theorem lance_where_reads:
  assumes "filters \<noteq> []" and "list_all (and_only display) filters \<or> (\<exists>e. filters = [e] \<and> or_of_ands display e)"
  shows "where_holds v (lance_where display filters) \<longleftrightarrow> list_all (expr_holds display v) filters"
  using assms(2)
proof
  assume a: "list_all (and_only display) filters"
  then have "list_all conjunct_text (map (expr_to_lance_sql display) filters)"
    using and_only_reads by (auto simp: list_all_iff)
  with join_and_holds [of "map (expr_to_lance_sql display) filters" v] assms(1)
  have "where_holds v (lance_where display filters) \<longleftrightarrow>
      list_all (\<lambda>e. where_holds v (expr_to_lance_sql display e)) filters"
    by (simp add: lance_where_def list_all_iff)
  with a and_only_reads show ?thesis by (auto simp: list_all_iff)
next
  assume "\<exists>e. filters = [e] \<and> or_of_ands display e"
  with or_of_ands_reads show ?thesis by (auto simp: lance_where_def)
qed

theorem lance_where_reads_witness:
  "where_holds (\<lambda>a. a = [''x'', ''='', sql_string_literal ''1 OR 2'']) (lance_where (\<lambda>_. [])
      [EBinary (EColumn ''x'') OpEq (ELiteral (SvUtf8 (Some ''1 OR 2'')))]) \<longleftrightarrow>
   list_all (expr_holds (\<lambda>_. []) (\<lambda>a. a = [''x'', ''='', sql_string_literal ''1 OR 2'']))
      [EBinary (EColumn ''x'') OpEq (ELiteral (SvUtf8 (Some ''1 OR 2'')))]"
proof (rule lance_where_reads)
  have "plain_atom (\<lambda>_. []) (EBinary (EColumn ''x'') OpEq (ELiteral (SvUtf8 (Some ''1 OR 2''))))"
    by (rule text_comparison_is_atom) (simp_all add: plain_char_def squote_def dquote_def)
  then show "list_all (and_only (\<lambda>_. [])) [EBinary (EColumn ''x'') OpEq (ELiteral (SvUtf8 (Some ''1 OR 2'')))] \<or>
      (\<exists>e. [EBinary (EColumn ''x'') OpEq (ELiteral (SvUtf8 (Some ''1 OR 2'')))] = [e] \<and> or_of_ands (\<lambda>_. []) e)"
    by (simp add: and_only.atom)
qed simp

text \<open>
  An \<open>OR\<close> below another filter is not parenthesised: the two filters \<open>x = 1 OR y = 2\<close> and
  \<open>z = 3\<close> become a text that holds for a row with \<open>x = 1\<close> whatever its \<open>z\<close>, and so does the
  filter argument of \<open>lance_knn\<close> in front of a WHERE clause.
\<close>

theorem lance_or_is_not_parenthesised:
  "(let row = (\<lambda>atom. atom = [''x'', ''='', ''1'']);
        filters = [EBinary (EBinary (EColumn ''x'') OpEq (ELiteral (SvInt64 (Some 1)))) OpOr
                           (EBinary (EColumn ''y'') OpEq (ELiteral (SvInt64 (Some 2)))),
                   EBinary (EColumn ''z'') OpEq (ELiteral (SvInt64 (Some 3)))]
    in where_holds row (lance_where (\<lambda>_. []) filters)
     \<and> \<not> list_all (expr_holds (\<lambda>_. []) row) filters
     \<and> where_holds row (the (lance_knn_filter (\<lambda>_. []) (Some ''x = 1 OR y = 2'') [filters ! 1]))
     \<and> \<not> expr_holds (\<lambda>_. []) row (filters ! 1))"
  by code_simp

end
