(* ===== verification/Vector_Search.thy ===== *)
theory Vector_Search
  imports Sql_Where
begin

text \<open>
  Vector and full-text search: the argument checks all providers share
  (\<^verbatim>\<open>sources/providers/knn_utils.rs\<close>), the packed vector format
  (\<^verbatim>\<open>sources/providers/sqlite/vec_to_binary.rs\<close>), and the Lance table functions with their
  execution plans (\<^verbatim>\<open>sources/providers/lance/knn_table_function.rs\<close>, \<^verbatim>\<open>knn_exec.rs\<close>,
  \<^verbatim>\<open>fts_table_function.rs\<close>, \<^verbatim>\<open>fts_exec.rs\<close>).

  A 32-bit float is its bit pattern; parsing one from text and narrowing a 64-bit one are
  parameters, and so is the Lance scanner.
\<close>

section \<open>Arguments\<close>

text \<open>The values of a list array, and the shapes a vector argument can have.\<close>

datatype vec_array = F32Array "32 word list" | F64Array "64 word list" | OtherArray

datatype udtf_arg =
  ArgExpr expr
| ArgList "vec_array list"
| ArgFixedSizeList "vec_array list"
| ArgSubquery

definition MAX_KNN_K :: nat where
  "MAX_KNN_K = 500"

text \<open>A planning error with the name of the function in front.\<close>

definition plan_err :: "string \<Rightarrow> string \<Rightarrow> string + 'a" where
  "plan_err fn_name msg = Inl (fn_name @ '': '' @ msg)"

definition positive_k :: "string \<Rightarrow> int \<Rightarrow> string + nat" where
  "positive_k fn_name v =
     (if 1 \<le> v then Inr (nat v)
      else plan_err fn_name (''k must be a positive integer, got '' @ show_int v))"

definition k_literal :: "udtf_arg \<Rightarrow> string \<Rightarrow> string + nat" where
  "k_literal e fn_name =
     (case e of
        ArgExpr (ELiteral (SvInt64 (Some v))) \<Rightarrow> positive_k fn_name (sint v)
      | ArgExpr (ELiteral (SvInt32 (Some v))) \<Rightarrow> positive_k fn_name (sint v)
      | ArgExpr (ELiteral (SvUInt64 (Some v))) \<Rightarrow>
          if v > 0 then Inr (unat v) else plan_err fn_name ''k must be a positive integer literal''
      | ArgExpr (ELiteral SvNull) \<Rightarrow> Inr 1
      | _ \<Rightarrow> plan_err fn_name ''k must be a positive integer literal'')"

definition extract_k :: "udtf_arg \<Rightarrow> string \<Rightarrow> string + nat" where
  "extract_k e fn_name =
     try_res (k_literal e fn_name) (\<lambda>k.
     if MAX_KNN_K < k
     then plan_err fn_name (''k must be between 1 and '' @ show_nat MAX_KNN_K @ '', got '' @ show_nat k)
     else Inr k)"

text \<open>\<open>narrow\<close> is the cast from 64 to 32 bits.\<close>

definition array_vector :: "(64 word \<Rightarrow> 32 word) \<Rightarrow> vec_array \<Rightarrow> 32 word list option" where
  "array_vector narrow a =
     (case a of F32Array xs \<Rightarrow> Some xs | F64Array xs \<Rightarrow> Some (map narrow xs) | OtherArray \<Rightarrow> None)"

definition array_empty :: "vec_array \<Rightarrow> bool" where
  "array_empty a = (case a of F32Array xs \<Rightarrow> xs = [] | F64Array xs \<Rightarrow> xs = [] | OtherArray \<Rightarrow> False)"

definition extract_literal_vector ::
  "(64 word \<Rightarrow> 32 word) \<Rightarrow> udtf_arg \<Rightarrow> string \<Rightarrow> string + 32 word list" where
  "extract_literal_vector narrow e fn_name =
     try_res
       (case e of
          ArgList rows \<Rightarrow>
            if rows = [] then plan_err fn_name ''query_vec must not be empty'' else Inr (hd rows)
        | ArgFixedSizeList rows \<Rightarrow>
            if rows = [] then plan_err fn_name ''query_vec must not be empty'' else Inr (hd rows)
        | _ \<Rightarrow> plan_err fn_name ''query_vec must be a literal array (e.g. [0.1, 0.2, ...])'')
       (\<lambda>values.
        if array_empty values then plan_err fn_name ''query_vec must not be empty''
        else case array_vector narrow values of
               Some v \<Rightarrow> Inr v
             | None \<Rightarrow> plan_err fn_name ''query_vec elements must be Float32 or Float64'')"

section \<open>Reading a query vector\<close>

definition parse_pgvector_text :: "(string \<Rightarrow> string + 32 word) \<Rightarrow> string \<Rightarrow> string + 32 word list" where
  "parse_pgvector_text parse_f32 s =
     try_res
       (ok_or (Option.bind (strip_prefix ''['' (str_trim s)) (strip_suffix '']''))
          (''expected pgvector text like '' @ [CHR 0x27] @ ''[x,y,...]'' @ [CHR 0x27] @ '', got: '' @ s))
       (\<lambda>inner.
        collect_res (map (\<lambda>v. map_err (\<lambda>e. ''failed to parse vector element '' @ [CHR 0x27] @ v @ [CHR 0x27] @ '': '' @ e)
                                (parse_f32 (str_trim v)))
                       (str_split (CHR '','') inner)))"

text \<open>Little-endian bytes of a 32-bit pattern.\<close>

definition to_le_bytes :: "32 word \<Rightarrow> 8 word list" where
  "to_le_bytes w = [ucast w, ucast (drop_bit 8 w), ucast (drop_bit 16 w), ucast (drop_bit 24 w)]"

definition from_le_bytes :: "8 word \<Rightarrow> 8 word \<Rightarrow> 8 word \<Rightarrow> 8 word \<Rightarrow> 32 word" where
  "from_le_bytes a b c d =
     or (ucast a) (or (push_bit 8 (ucast b)) (or (push_bit 16 (ucast c)) (push_bit 24 (ucast d))))"

fun chunks_of_4 :: "8 word list \<Rightarrow> 32 word list" where
  "chunks_of_4 (a # b # c # d # rest) = from_le_bytes a b c d # chunks_of_4 rest"
| "chunks_of_4 _ = []"

definition parse_f32_blob :: "8 word list \<Rightarrow> string + 32 word list" where
  "parse_f32_blob bytes =
     (if length bytes mod 4 \<noteq> 0
      then Inl (''expected packed f32 BLOB with length divisible by 4, got ''
                @ show_nat (length bytes) @ '' bytes'')
      else Inr (chunks_of_4 bytes))"

text \<open>The first column of the subquery's first batch, by the type of its array.\<close>

datatype query_column =
  QcFixedSizeList vec_array
| QcList vec_array
| QcFloat32 "32 word list"
| QcFloat64 "64 word list"
| QcBinary "8 word list option"
| QcString "string option"
| QcOther

definition query_column_vector ::
  "(64 word \<Rightarrow> 32 word) \<Rightarrow> (string \<Rightarrow> string + 32 word) \<Rightarrow> query_column \<Rightarrow> string + 32 word list option" where
  "query_column_vector narrow parse_f32 col =
     (let unsupported = Inl ''knn: subquery first column must be a vector'';
          list_vector = (\<lambda>a. case array_vector narrow a of Some v \<Rightarrow> Inr (Some v) | None \<Rightarrow> unsupported)
      in case col of
           QcFixedSizeList a \<Rightarrow> list_vector a
         | QcList a \<Rightarrow> list_vector a
         | QcFloat32 xs \<Rightarrow> Inr (Some xs)
         | QcFloat64 xs \<Rightarrow> Inr (Some (map narrow xs))
         | QcBinary None \<Rightarrow> Inr None
         | QcBinary (Some bytes) \<Rightarrow>
             try_res (map_err (\<lambda>e. ''knn: binary vector parse error: '' @ e) (parse_f32_blob bytes))
               (\<lambda>v. Inr (Some v))
         | QcString None \<Rightarrow> Inr None
         | QcString (Some s) \<Rightarrow>
             try_res (map_err (\<lambda>e. ''knn: pgvector parse error: '' @ e) (parse_pgvector_text parse_f32 s))
               (\<lambda>v. Inr (Some v))
         | QcOther \<Rightarrow> unsupported)"

text \<open>The stream's first item: none, an error, or a batch with its number of rows.\<close>

definition extract_query_vector ::
  "(64 word \<Rightarrow> 32 word) \<Rightarrow> (string \<Rightarrow> string + 32 word) \<Rightarrow> (string + nat \<times> query_column) option
   \<Rightarrow> string + 32 word list option" where
  "extract_query_vector narrow parse_f32 first =
     (case first of
        None \<Rightarrow> Inr None
      | Some res \<Rightarrow>
          try_res (map_err (\<lambda>e. ''knn subquery error: '' @ e) res) (\<lambda>(num_rows, col).
          if num_rows = 0 then Inr None else query_column_vector narrow parse_f32 col))"

section \<open>Packing vectors\<close>

datatype vec_input =
  ListF32Rows "32 word list option list"
| FixedListF32Rows "32 word list option list"
| BinaryRows "8 word list option list"
| OtherRows string

definition list_f32_to_binary :: "32 word list option list \<Rightarrow> 8 word list option list" where
  "list_f32_to_binary = map (map_option (\<lambda>v. concat (map to_le_bytes v)))"

definition vec_to_binary :: "vec_input list \<Rightarrow> string + 8 word list option list" where
  "vec_to_binary args =
     (case args of
        [a] \<Rightarrow>
          (case a of
             ListF32Rows rows \<Rightarrow> Inr (list_f32_to_binary rows)
           | FixedListF32Rows rows \<Rightarrow> Inr (list_f32_to_binary rows)
           | BinaryRows rows \<Rightarrow> Inr rows
           | OtherRows ty \<Rightarrow> Inl (''vec_to_binary: unsupported input type '' @ ty @ ''.''))
      | _ \<Rightarrow> Inl ''vec_to_binary expects exactly 1 argument'')"

section \<open>Properties\<close>

lemma bit_byte_high [simp]: "8 \<le> n \<Longrightarrow> \<not> bit (b :: 8 word) n"
  by (auto dest: bit_imp_le_length)

lemma from_to_le_bytes:
  "from_le_bytes (ucast w) (ucast (drop_bit 8 w)) (ucast (drop_bit 16 w)) (ucast (drop_bit 24 w)) = w"
proof (rule bit_word_eqI)
  fix n
  assume "n < LENGTH(32)"
  then consider "n < 8" | "8 \<le> n" "n < 16" | "16 \<le> n" "n < 24" | "24 \<le> n" "n < 32" by fastforce
  then show "bit (from_le_bytes (ucast w) (ucast (drop_bit 8 w)) (ucast (drop_bit 16 w))
      (ucast (drop_bit 24 w))) n = bit w n"
    unfolding from_le_bytes_def by cases (auto simp: bit_simps)
qed

lemma to_from_le_bytes: "to_le_bytes (from_le_bytes a b c d) = [a, b, c, d]"
  unfolding from_le_bytes_def to_le_bytes_def by (auto intro!: bit_word_eqI simp: bit_simps)

lemma chunks_of_packed: "chunks_of_4 (concat (map to_le_bytes v)) = v"
  by (induction v) (simp_all add: to_le_bytes_def from_to_le_bytes)

lemma length_packed: "length (concat (map to_le_bytes v)) = 4 * length v"
  by (induction v) (simp_all add: to_le_bytes_def)

lemma packed_chunks: "length bytes mod 4 = 0 \<Longrightarrow> concat (map to_le_bytes (chunks_of_4 bytes)) = bytes"
  by (induction bytes rule: chunks_of_4.induct) (simp_all add: to_from_le_bytes)

text \<open>
  Packing is lossless: the blob of a vector parses to the vector, and a blob that parses is
  the packing of the vector it parses to.
\<close>

theorem packed_vector_roundtrip:
  "parse_f32_blob (concat (map to_le_bytes v)) = Inr v
   \<and> (parse_f32_blob bytes = Inr u \<longleftrightarrow> bytes = concat (map to_le_bytes u))"
  using chunks_of_packed [of v] length_packed [of v] chunks_of_packed [of u] length_packed [of u] packed_chunks [of bytes]
  by (auto simp: parse_f32_blob_def)

lemma sint_eq_of_nat:
  assumes "k < 2 ^ (LENGTH('a) - 1)"
  shows "sint (v :: 'a::len word) = int k \<longleftrightarrow> v = of_nat k"
proof
  assume "sint v = int k"
  then have "word_of_int (sint v) = (word_of_int (int k) :: 'a word)" by simp
  then show "v = of_nat k" by simp
next
  have "sint (word_of_int (int k) :: 'a word) = signed_take_bit (LENGTH('a) - 1) (int k)"
    by (simp add: signed_of_int del: of_int_of_nat_eq)
  also have "\<dots> = int k"
    by (rule signed_take_bit_int_eq_self) (use assms in \<open>simp_all add: order_trans [OF _ of_nat_0_le_iff] flip: of_nat_power\<close>)
  finally show "v = of_nat k \<Longrightarrow> sint v = int k" by simp
qed

lemma positive_k_Inr: "positive_k fn_name i = Inr k \<longleftrightarrow> 1 \<le> k \<and> i = int k"
  by (auto simp: positive_k_def plan_err_def)

lemma unsigned_k: "k \<le> 500 \<Longrightarrow> (v :: 64 word) > 0 \<and> unat v = k \<longleftrightarrow> 1 \<le> k \<and> v = of_nat k"
proof -
  assume k: "k \<le> 500"
  then have u: "unat (of_nat k :: 64 word) = k" by (simp add: unsigned_of_nat take_bit_nat_eq_self)
  have "v > 0 \<longleftrightarrow> 1 \<le> unat v" by (simp add: word_gt_0 Suc_le_eq unat_gt_0)
  then show ?thesis using u by auto
qed

lemma k_literal_ok_iff:
  assumes k: "k \<le> 500"
  shows "k_literal e fn_name = Inr k \<longleftrightarrow> 1 \<le> k \<and>
   (e = ArgExpr (ELiteral (SvInt64 (Some (of_nat k)))) \<or> e = ArgExpr (ELiteral (SvInt32 (Some (of_nat k))))
    \<or> e = ArgExpr (ELiteral (SvUInt64 (Some (of_nat k)))) \<or> e = ArgExpr (ELiteral SvNull) \<and> k = 1)"
proof -
  have s64: "sint v = int k \<longleftrightarrow> v = of_nat k" for v :: "64 word" using k by (intro sint_eq_of_nat) simp
  have s32: "sint v = int k \<longleftrightarrow> v = of_nat k" for v :: "32 word" using k by (intro sint_eq_of_nat) simp
  show ?thesis
  proof (cases "\<exists>v. e = ArgExpr (ELiteral (SvUInt64 (Some v)))")
    case True
    then obtain v where v: "e = ArgExpr (ELiteral (SvUInt64 (Some v)))" by blast
    have "k_literal e fn_name = Inr k \<longleftrightarrow> v > 0 \<and> unat v = k" by (simp add: v k_literal_def plan_err_def)
    also have "\<dots> \<longleftrightarrow> 1 \<le> k \<and> v = of_nat k" by (rule unsigned_k [OF k])
    finally show ?thesis by (simp add: v)
  next
    case False
    then show ?thesis
      by (auto simp: k_literal_def positive_k_Inr s64 s32 plan_err_def
          split: udtf_arg.splits expr.splits scalar.splits option.splits)
  qed
qed

text \<open>
  C13. Every \<open>k\<close> the check lets through is between 1 and 500: the literal's own value, or 1 for
  the placeholder of a pipeline; everything else is refused.
\<close>

theorem extract_k_ok_iff:
  "extract_k e fn_name = Inr k \<longleftrightarrow>
   1 \<le> k \<and> k \<le> 500 \<and>
   (e = ArgExpr (ELiteral (SvInt64 (Some (of_nat k)))) \<or> e = ArgExpr (ELiteral (SvInt32 (Some (of_nat k))))
    \<or> e = ArgExpr (ELiteral (SvUInt64 (Some (of_nat k)))) \<or> e = ArgExpr (ELiteral SvNull) \<and> k = 1)"
proof -
  have "extract_k e fn_name = Inr k \<longleftrightarrow> k \<le> 500 \<and> k_literal e fn_name = Inr k"
    unfolding extract_k_def plan_err_def MAX_KNN_K_def
    by (cases "k_literal e fn_name") (simp_all, linarith?)
  then show ?thesis using k_literal_ok_iff [of k e fn_name] by (cases "k \<le> 500") simp_all
qed

lemma extract_k_bounds: "extract_k e fn_name = Inr k \<Longrightarrow> 1 \<le> k \<and> k \<le> 500"
  by (auto simp: extract_k_def MAX_KNN_K_def plan_err_def res_simps k_literal_ok_iff split: if_splits)

section \<open>lance\_knn\<close>

text \<open>The shared registry of datasets by name, and its Lance entries.\<close>

datatype 'd dataset_entry = LanceEntry 'd | OtherEntry

definition extract_string :: "string \<Rightarrow> udtf_arg \<Rightarrow> string \<Rightarrow> string + string" where
  "extract_string fn_name e name =
     (case e of
        ArgExpr (ELiteral (SvUtf8 (Some s))) \<Rightarrow> Inr s
      | ArgExpr (ELiteral (SvLargeUtf8 (Some s))) \<Rightarrow> Inr s
      | _ \<Rightarrow> plan_err fn_name (name @ '' must be a string literal''))"

definition find_lance :: "string \<Rightarrow> (string \<rightharpoonup> 'd dataset_entry) \<Rightarrow> string \<Rightarrow> string + 'd" where
  "find_lance fn_name registry table_name =
     (case registry table_name of
        None \<Rightarrow> plan_err fn_name (''table '' @ [CHR 0x27] @ table_name @ [CHR 0x27] @ '' not found in registry'')
      | Some (LanceEntry ds) \<Rightarrow> Inr ds
      | Some OtherEntry \<Rightarrow> plan_err fn_name (''table '' @ [CHR 0x27] @ table_name @ [CHR 0x27] @ '' is not a Lance dataset''))"

text \<open>A literal vector, or none when the argument may be a subquery.\<close>

definition try_extract_vector :: "(64 word \<Rightarrow> 32 word) \<Rightarrow> udtf_arg \<Rightarrow> string + 32 word list option" where
  "try_extract_vector narrow e =
     (let extract_float32_array = (\<lambda>values.
            case array_vector narrow values of
              Some v \<Rightarrow> Inr (Some v)
            | None \<Rightarrow> plan_err ''lance_knn'' ''query_vector must contain Float32 or Float64 values'');
          rows_vector = (\<lambda>rows.
            if rows = [] then plan_err ''lance_knn'' ''query_vector cannot be empty''
            else extract_float32_array (hd rows))
      in case e of
           ArgList rows \<Rightarrow> rows_vector rows
         | ArgFixedSizeList rows \<Rightarrow> rows_vector rows
         | _ \<Rightarrow> Inr None)"

record 'd lance_knn_provider =
  lk_dataset :: 'd
  lk_vector_column :: string
  lk_literal_vector :: "32 word list option"
  lk_query_vector :: udtf_arg
  lk_k :: nat
  lk_filter :: "string option"

definition lance_knn_call ::
  "(64 word \<Rightarrow> 32 word) \<Rightarrow> (string \<rightharpoonup> 'd dataset_entry) \<Rightarrow> udtf_arg list \<Rightarrow> string + 'd lance_knn_provider" where
  "lance_knn_call narrow registry exprs =
     (if length exprs < 4 \<or> 5 < length exprs
      then Inl (''lance_knn(table_name, vector_column, query_vector, k, [filter]) expects 4-5 arguments, got ''
                @ show_nat (length exprs))
      else
        try_res (extract_string ''lance_knn'' (exprs ! 0) ''table_name'') (\<lambda>table_name.
        try_res (extract_string ''lance_knn'' (exprs ! 1) ''vector_column'') (\<lambda>vector_column.
        try_res (extract_k (exprs ! 3) ''lance_knn'') (\<lambda>k.
        try_res (if length exprs = 5
                 then try_res (extract_string ''lance_knn'' (exprs ! 4) ''filter'') (\<lambda>f. Inr (Some f))
                 else Inr None) (\<lambda>flt.
        try_res (find_lance ''lance_knn'' registry table_name) (\<lambda>dataset.
        try_res (try_extract_vector narrow (exprs ! 2)) (\<lambda>literal_vector.
        Inr \<lparr>lk_dataset = dataset, lk_vector_column = vector_column, lk_literal_vector = literal_vector,
             lk_query_vector = exprs ! 2, lk_k = k, lk_filter = flt\<rparr>)))))))"

text \<open>The columns of the result: all fields but the vector, then the distance.\<close>

definition knn_schema :: "string list \<Rightarrow> string \<Rightarrow> string list" where
  "knn_schema lance_fields vector_column = filter (\<lambda>f. f \<noteq> vector_column) lance_fields @ [''_distance'']"

text \<open>The plan: the vector is known, or comes from a child plan with a column name.\<close>

record 'd lance_knn_exec =
  lx_dataset :: 'd
  lx_vector_column :: string
  lx_query_vector :: "32 word list option"
  lx_deferred :: bool
  lx_k :: nat
  lx_full_schema :: "string list"
  lx_schema :: "string list"
  lx_filter :: "string option"
  lx_scan_limit :: "nat option"

text \<open>The two constructors: with the vector, or with a plan that yields it.\<close>

definition knn_try_new ::
  "('d \<Rightarrow> string list) \<Rightarrow> 'd \<Rightarrow> string \<Rightarrow> 32 word list \<Rightarrow> nat \<Rightarrow> 'd lance_knn_exec" where
  "knn_try_new fields_of dataset vector_column query_vector k =
     (let schema = knn_schema (fields_of dataset) vector_column
      in \<lparr>lx_dataset = dataset, lx_vector_column = vector_column, lx_query_vector = Some query_vector,
          lx_deferred = False, lx_k = k, lx_full_schema = schema, lx_schema = schema, lx_filter = None,
          lx_scan_limit = None\<rparr>)"

definition knn_try_new_deferred ::
  "('d \<Rightarrow> string list) \<Rightarrow> 'd \<Rightarrow> string \<Rightarrow> nat \<Rightarrow> 'd lance_knn_exec" where
  "knn_try_new_deferred fields_of dataset vector_column k =
     (let schema = knn_schema (fields_of dataset) vector_column
      in \<lparr>lx_dataset = dataset, lx_vector_column = vector_column, lx_query_vector = None,
          lx_deferred = True, lx_k = k, lx_full_schema = schema, lx_schema = schema, lx_filter = None,
          lx_scan_limit = None\<rparr>)"

definition with_projection :: "nat list \<Rightarrow> 'd lance_knn_exec \<Rightarrow> 'd lance_knn_exec" where
  "with_projection projection x = x\<lparr>lx_schema := map ((!) (lx_full_schema x)) projection\<rparr>"

text \<open>\<open>plan_columns\<close> is the physical plan of the subquery: an error, or its column names.\<close>

definition lance_knn_scan ::
  "(scalar \<Rightarrow> string) \<Rightarrow> ('d \<Rightarrow> string list) \<Rightarrow> string + string list \<Rightarrow> 'd lance_knn_provider \<Rightarrow> nat list option \<Rightarrow> expr list \<Rightarrow> nat option
   \<Rightarrow> string + 'd lance_knn_exec" where
  "lance_knn_scan display fields_of plan_columns p projection filters limit =
     try_res
       (case lk_literal_vector p of
          Some v \<Rightarrow> Inr (knn_try_new fields_of (lk_dataset p) (lk_vector_column p) v (lk_k p))
        | None \<Rightarrow>
            if lk_query_vector p \<noteq> ArgSubquery
            then plan_err ''lance_knn'' ''query_vector must be literal array or scalar subquery''
            else try_res plan_columns (\<lambda>cols.
              if cols = [] then plan_err ''lance_knn'' ''subquery must return at least one column''
              else Inr (knn_try_new_deferred fields_of (lk_dataset p) (lk_vector_column p) (lk_k p)))) (\<lambda>base.
           let x1 = (case projection of Some proj \<Rightarrow> with_projection proj base | None \<Rightarrow> base);
               x2 = (case lance_knn_filter display (lk_filter p) filters of
                       Some f \<Rightarrow> x1\<lparr>lx_filter := Some f\<rparr> | None \<Rightarrow> x1)
           in Inr (case limit of Some n \<Rightarrow> x2\<lparr>lx_scan_limit := Some n\<rparr> | None \<Rightarrow> x2))"

text \<open>
  A batch is its column names and its rows. \<open>nearest\<close> runs the scanner: dataset, projected
  columns (none stands for no call of \<open>project\<close>), filter, vector column, query vector, \<open>k\<close>.
\<close>

record search_batch =
  sb_columns :: "string list"
  sb_rows :: "scalar list list"

type_synonym 'd nearest =
  "'d \<Rightarrow> string list \<Rightarrow> string option \<Rightarrow> string \<Rightarrow> 32 word list \<Rightarrow> nat \<Rightarrow> string + search_batch list"

fun column_index :: "string \<Rightarrow> string list \<Rightarrow> nat option" where
  "column_index c [] = None"
| "column_index c (x # xs) = (if x = c then Some 0 else map_option Suc (column_index c xs))"

text \<open>The columns of the declared schema, in its order.\<close>

definition project_batch :: "string \<Rightarrow> string list \<Rightarrow> search_batch \<Rightarrow> string + search_batch" where
  "project_batch what sch b =
     try_res
       (collect_res (map (\<lambda>c. ok_or (column_index c (sb_columns b))
          (''Expected column '' @ [CHR 0x27] @ c @ [CHR 0x27] @ '' not found in '' @ what @ '' result'')) sch)) (\<lambda>is.
     Inr \<lparr>sb_columns = sch, sb_rows = map (\<lambda>row. map ((!) row) is) (sb_rows b)\<rparr>)"

definition concat_batches :: "search_batch list \<Rightarrow> search_batch" where
  "concat_batches bs = \<lparr>sb_columns = sb_columns (hd bs), sb_rows = concat (map sb_rows bs)\<rparr>"

definition execute_knn ::
  "'d nearest \<Rightarrow> ('d \<Rightarrow> string list) \<Rightarrow> string + 32 word list option \<Rightarrow> 'd lance_knn_exec
   \<Rightarrow> string + search_batch" where
  "execute_knn nearest fields_of subquery x =
     try_res
       (case lx_query_vector x of
          Some v \<Rightarrow> Inr (Some v)
        | None \<Rightarrow> if lx_deferred x then subquery
                  else Inl ''LanceKnnExec has neither query_vector nor query_vector_plan'') (\<lambda>v.
     case v of
       None \<Rightarrow> Inr \<lparr>sb_columns = lx_schema x, sb_rows = []\<rparr>
     | Some query_vector \<Rightarrow>
         let project_columns = filter (\<lambda>f. f \<noteq> lx_vector_column x) (fields_of (lx_dataset x)) in
         try_res (nearest (lx_dataset x) project_columns (lx_filter x) (lx_vector_column x) query_vector (lx_k x))
           (\<lambda>batches.
            if batches = [] then Inr \<lparr>sb_columns = lx_schema x, sb_rows = []\<rparr>
            else
              let batch = concat_batches batches;
                  limited = (case lx_scan_limit x of
                               Some n \<Rightarrow> batch\<lparr>sb_rows := take n (sb_rows batch)\<rparr> | None \<Rightarrow> batch)
              in project_batch ''KNN'' (lx_schema x) limited))"

text \<open>\<open>statistics\<close>: the exact number of rows the plan declares.\<close>

definition knn_statistics :: "'d lance_knn_exec \<Rightarrow> nat" where
  "knn_statistics x = lx_k x"

lemma project_batch_rows: "project_batch what sch b = Inr b' \<Longrightarrow> sb_columns b' = sch \<and> length (sb_rows b') = length (sb_rows b)"
  by (auto simp: project_batch_def res_simps)

lemma length_concat_rows: "length (sb_rows (concat_batches bs)) = sum_list (map (length \<circ> sb_rows) bs)"
  by (simp add: concat_batches_def length_concat comp_def)

lemma knn_call_k: "lance_knn_call narrow registry exprs = Inr p \<Longrightarrow> 1 \<le> lk_k p \<and> lk_k p \<le> 500"
  by (auto simp: lance_knn_call_def res_simps split: if_splits dest!: extract_k_bounds)

lemma knn_scan_k:
  "lance_knn_scan display fields_of plan_columns p projection filters limit = Inr x \<Longrightarrow>
   lx_k x = lk_k p \<and> lx_scan_limit x = limit"
  by (auto simp: lance_knn_scan_def Let_def with_projection_def plan_err_def res_simps knn_try_new_def
      knn_try_new_deferred_def split: if_splits option.splits)

text \<open>
  A \<open>lance_knn\<close> search whose scanner returns at most the \<open>k\<close> rows it is asked for answers
  with at most 500 rows and at most the query's limit, in the declared columns.
\<close>

theorem knn_result_bounded:
  assumes "lance_knn_call narrow registry exprs = Inr p"
    and "lance_knn_scan display fields_of plan_columns p projection filters limit = Inr x"
    and "\<And>d cols f c v k bs. nearest d cols f c v k = Inr bs \<Longrightarrow> sum_list (map (length \<circ> sb_rows) bs) \<le> k"
    and "execute_knn nearest fields_of subquery x = Inr b"
  shows "sb_columns b = lx_schema x \<and> length (sb_rows b) \<le> 500
    \<and> (\<forall>n. limit = Some n \<longrightarrow> length (sb_rows b) \<le> n)"
proof -
  have k: "lx_k x \<le> 500" "lx_scan_limit x = limit"
    using knn_call_k [OF assms(1)] knn_scan_k [OF assms(2)] by simp_all
  from assms(4) consider "b = \<lparr>sb_columns = lx_schema x, sb_rows = []\<rparr>"
    | bs cols f v where "nearest (lx_dataset x) cols f (lx_vector_column x) v (lx_k x) = Inr bs"
      "project_batch ''KNN'' (lx_schema x) (case lx_scan_limit x of
         Some n \<Rightarrow> (concat_batches bs)\<lparr>sb_rows := take n (sb_rows (concat_batches bs))\<rparr>
       | None \<Rightarrow> concat_batches bs) = Inr b"
    by (auto simp: execute_knn_def Let_def res_simps split: option.splits if_splits)
  then show ?thesis
  proof cases
    case 1
    then show ?thesis by simp
  next
    case 2
    have "length (sb_rows (concat_batches bs)) \<le> lx_k x"
      using assms(3) [OF 2(1)] by (simp add: length_concat_rows)
    with project_batch_rows [OF 2(2)] k show ?thesis by (auto split: option.splits)
  qed
qed

definition demo_nearest :: "search_batch \<Rightarrow> string list \<Rightarrow> string option \<Rightarrow> string \<Rightarrow> 32 word list \<Rightarrow> nat
    \<Rightarrow> string + search_batch list" where
  "demo_nearest d cols f c v k = Inr [d\<lparr>sb_rows := take k (sb_rows d)\<rparr>]"

theorem knn_result_bounded_witness:
  "length (sb_rows \<lparr>sb_columns = [''_distance'', ''id''], sb_rows = [[SvFloat32 (Some ''0.5''), SvInt64 (Some 1)]]\<rparr>) \<le> 500"
proof -
  let ?d = "\<lparr>sb_columns = [''id'', ''_distance''],
    sb_rows = [[SvInt64 (Some 1), SvFloat32 (Some ''0.5'')], [SvInt64 (Some 2), SvFloat32 (Some ''0.7'')]]\<rparr>"
  let ?args = "[ArgExpr (ELiteral (SvUtf8 (Some ''t''))), ArgExpr (ELiteral (SvUtf8 (Some ''vec''))),
    ArgList [F32Array [0]], ArgExpr (ELiteral (SvInt64 (Some 2)))]"
  let ?p = "\<lparr>lk_dataset = ?d, lk_vector_column = ''vec'', lk_literal_vector = Some [0],
    lk_query_vector = ArgList [F32Array [0]], lk_k = 2, lk_filter = None\<rparr>"
  let ?x = "\<lparr>lx_dataset = ?d, lx_vector_column = ''vec'', lx_query_vector = Some [0], lx_deferred = False,
    lx_k = 2, lx_full_schema = [''id'', ''_distance''], lx_schema = [''_distance'', ''id''], lx_filter = None,
    lx_scan_limit = Some 1\<rparr>"
  have c: "lance_knn_call ucast [''t'' \<mapsto> LanceEntry ?d] ?args = Inr ?p" by code_simp
  have s: "lance_knn_scan (\<lambda>_. []) (\<lambda>_. [''id'', ''vec'']) (Inr []) ?p (Some [1, 0]) [] (Some 1) = Inr ?x" by code_simp
  have n: "\<And>d cols f c v k bs. demo_nearest d cols f c v k = Inr bs \<Longrightarrow> sum_list (map (length \<circ> sb_rows) bs) \<le> k"
    by (auto simp: demo_nearest_def)
  have e: "execute_knn demo_nearest (\<lambda>_. [''id'', ''vec'']) (Inr None) ?x =
      Inr \<lparr>sb_columns = [''_distance'', ''id''], sb_rows = [[SvFloat32 (Some ''0.5''), SvInt64 (Some 1)]]\<rparr>"
    by code_simp
  show ?thesis
    by (rule conjunct1 [OF conjunct2 [OF knn_result_bounded [OF c s _ e]]]) (rule n)
qed

text \<open>
  The plan declares exactly \<open>k\<close> rows, but a search may return fewer: with a subquery that
  yields no vector it returns none.
\<close>

theorem knn_statistics_overstate:
  assumes "lx_query_vector x = None" and "lx_deferred x"
  shows "\<exists>b. execute_knn nearest fields_of (Inr None) x = Inr b \<and> sb_rows b = [] \<and> knn_statistics x = lx_k x"
  using assms by (simp add: execute_knn_def knn_statistics_def)

theorem knn_statistics_overstate_witness:
  "\<exists>b. execute_knn demo_nearest (\<lambda>_. [''id'']) (Inr None)
      \<lparr>lx_dataset = \<lparr>sb_columns = [''id''], sb_rows = []\<rparr>, lx_vector_column = ''vec'', lx_query_vector = None,
        lx_deferred = True, lx_k = 5, lx_full_schema = [''id''], lx_schema = [''id''], lx_filter = None,
        lx_scan_limit = None\<rparr> = Inr b \<and> sb_rows b = []"
proof -
  let ?x = "\<lparr>lx_dataset = \<lparr>sb_columns = [''id''], sb_rows = []\<rparr>, lx_vector_column = ''vec'', lx_query_vector = None,
        lx_deferred = True, lx_k = 5, lx_full_schema = [''id''], lx_schema = [''id''], lx_filter = None,
        lx_scan_limit = None\<rparr>"
  show ?thesis
    using knn_statistics_overstate [of ?x demo_nearest "\<lambda>_. [''id'']"] by fastforce
qed

end
