(* ===== verification/Lance_Fts.thy ===== *)
theory Lance_Fts
  imports Vector_Search
begin

text \<open>
  Full-text search over Lance (\<^verbatim>\<open>sources/providers/lance/fts_table_function.rs\<close>,
  \<^verbatim>\<open>fts_exec.rs\<close>): the query language of \<open>lance_fts\<close>, the table function, its scan and its
  execution plan. Lance itself (naming the column of a query, running the scanner) is a parameter.
\<close>

section \<open>Words and numbers\<close>

text \<open>\<open>split_whitespace\<close>.\<close>

fun split_ws :: "string \<Rightarrow> string \<Rightarrow> string list" where
  "split_ws acc [] = (if acc = [] then [] else [rev acc])"
| "split_ws acc (c # cs) =
     (if is_ws c then (if acc = [] then split_ws [] cs else rev acc # split_ws [] cs)
      else split_ws (c # acc) cs)"

definition split_whitespace :: "string \<Rightarrow> string list" where
  "split_whitespace s = split_ws [] s"

text \<open>\<open>parse::<u32>\<close>.\<close>

definition parse_u32 :: "string \<Rightarrow> 32 word option" where
  "parse_u32 s = map_option of_nat (parse_unsigned (2 ^ 32) s)"

section \<open>The query language\<close>

datatype occur = Must | Should | MustNot

datatype fts_kind =
  FtsMatch string
| FtsFuzzy string "32 word option"
| FtsPhrase string
| FtsBoolean "(occur \<times> string) list"

text \<open>A query over one column; the limit is a signed 64-bit number.\<close>

record full_text_search =
  fq_kind :: fts_kind
  fq_column :: string
  fq_limit :: "64 word option"

definition is_operator_term :: "string \<Rightarrow> bool" where
  "is_operator_term t \<longleftrightarrow> (starts_with ''+'' t \<or> starts_with ''-'' t) \<and> 1 < length t"

definition has_boolean_operators :: "string \<Rightarrow> bool" where
  "has_boolean_operators query = list_ex is_operator_term (split_whitespace query)"

definition parse_fuzzy :: "string \<Rightarrow> string + string \<times> 32 word option" where
  "parse_fuzzy query =
     (case find_char (CHR ''~'') query of
        None \<Rightarrow> Inr (query, None)
      | Some i \<Rightarrow>
          let distance = drop (Suc i) query in
          if distance = [] then Inr (take i query, None)
          else case parse_u32 distance of
                 Some n \<Rightarrow> Inr (take i query, Some n)
               | None \<Rightarrow> plan_err ''lance_fts''
                   (''invalid fuzzy distance '' @ [CHR 0x27] @ distance @ [CHR 0x27] @ '', expected integer''))"

definition boolean_clause :: "string \<Rightarrow> (occur \<times> string) list" where
  "boolean_clause t =
     (case strip_prefix ''+'' t of
        Some r \<Rightarrow> if r \<noteq> [] then [(Must, r)] else []
      | None \<Rightarrow>
          (case strip_prefix ''-'' t of
             Some r \<Rightarrow> if r \<noteq> [] then [(MustNot, r)] else []
           | None \<Rightarrow> [(Should, t)]))"

definition parse_boolean_query :: "string \<Rightarrow> string + (occur \<times> string) list" where
  "parse_boolean_query query =
     (let clauses = concat (map boolean_clause (split_whitespace query))
      in if clauses = [] then plan_err ''lance_fts'' ''boolean query has no valid terms'' else Inr clauses)"

text \<open>The double quote.\<close>

definition dquote_text :: string where
  "dquote_text = [CHR 0x22]"

text \<open>\<open>with_column\<close> is Lance's check of the column name of a match or fuzzy query.\<close>

definition parse_fts_query ::
  "(string \<Rightarrow> string + unit) \<Rightarrow> string \<Rightarrow> string \<Rightarrow> 64 word \<Rightarrow> string + full_text_search" where
  "parse_fts_query with_column q0 column limit =
     (let query = str_trim q0;
          search = (\<lambda>k. Inr \<lparr>fq_kind = k, fq_column = column, fq_limit = Some limit\<rparr>);
          checked = (\<lambda>k. try_res (map_err (\<lambda>e. ''lance_fts: '' @ e) (with_column column)) (\<lambda>_. search k))
      in if query = [] then plan_err ''lance_fts'' ''query string cannot be empty''
         else if starts_with dquote_text query \<and> ends_with dquote_text query \<and> 2 < length query
         then search (FtsPhrase (take (length query - 2) (drop 1 query)))
         else if CHR ''~'' \<in> set query \<and> CHR '' '' \<notin> set query
         then try_res (parse_fuzzy query) (\<lambda>(t, distance). checked (FtsFuzzy t distance))
         else if has_boolean_operators query
         then try_res (parse_boolean_query query) (\<lambda>clauses. search (FtsBoolean clauses))
         else checked (FtsMatch query))"

section \<open>The table function\<close>

text \<open>A NULL literal is the placeholder of schema inference.\<close>

definition fts_string :: "udtf_arg \<Rightarrow> string \<Rightarrow> string + string" where
  "fts_string e name =
     (case e of
        ArgExpr (ELiteral (SvUtf8 (Some s))) \<Rightarrow> Inr s
      | ArgExpr (ELiteral (SvLargeUtf8 (Some s))) \<Rightarrow> Inr s
      | ArgExpr (ELiteral SvNull) \<Rightarrow> Inr []
      | _ \<Rightarrow> plan_err ''lance_fts'' (name @ '' must be a string literal''))"

definition fts_string_or_null :: "udtf_arg \<Rightarrow> string \<Rightarrow> string + string option" where
  "fts_string_or_null e name =
     (if e = ArgExpr (ELiteral SvNull) then Inr None else try_res (fts_string e name) (\<lambda>s. Inr (Some s)))"

text \<open>\<open>as usize\<close> reinterprets the bits.\<close>

definition fts_int :: "udtf_arg \<Rightarrow> string \<Rightarrow> string + 64 word" where
  "fts_int e name =
     (case e of
        ArgExpr (ELiteral (SvInt64 (Some n))) \<Rightarrow> Inr n
      | ArgExpr (ELiteral (SvInt32 (Some n))) \<Rightarrow> Inr (scast n)
      | ArgExpr (ELiteral (SvUInt64 (Some n))) \<Rightarrow> Inr n
      | ArgExpr (ELiteral SvNull) \<Rightarrow> Inr 0
      | _ \<Rightarrow> plan_err ''lance_fts'' (name @ '' must be an integer literal''))"

record 'd lance_fts_provider =
  lf_dataset :: 'd
  lf_query :: full_text_search

definition lance_fts_call ::
  "(string \<Rightarrow> string + unit) \<Rightarrow> (string \<rightharpoonup> 'd dataset_entry) \<Rightarrow> udtf_arg list \<Rightarrow> string + 'd lance_fts_provider" where
  "lance_fts_call with_column registry exprs =
     (if length exprs \<noteq> 4
      then Inl (''lance_fts(table_name, text_column, query, limit) expects exactly 4 arguments, got ''
                @ show_nat (length exprs))
      else
        try_res (fts_string (exprs ! 0) ''table_name'') (\<lambda>table_name.
        try_res (fts_string (exprs ! 1) ''text_column'') (\<lambda>text_column.
        try_res (fts_string_or_null (exprs ! 2) ''query'') (\<lambda>query.
        try_res (fts_int (exprs ! 3) ''limit'') (\<lambda>limit.
        try_res (find_lance ''lance_fts'' registry table_name) (\<lambda>dataset.
        try_res (case query of
                   Some q \<Rightarrow> parse_fts_query with_column q text_column limit
                 | None \<Rightarrow> parse_fts_query with_column ''__placeholder__'' text_column (max limit 1)) (\<lambda>fts_query.
        Inr \<lparr>lf_dataset = dataset, lf_query = fts_query\<rparr>)))))))"

section \<open>Scan and execution\<close>

record 'd lance_fts_exec =
  fx_dataset :: 'd
  fx_query :: full_text_search
  fx_full_schema :: "string list"
  fx_schema :: "string list"
  fx_filter :: "string option"
  fx_scan_limit :: "64 word option"

definition fts_try_new :: "('d \<Rightarrow> string list) \<Rightarrow> 'd \<Rightarrow> full_text_search \<Rightarrow> 'd lance_fts_exec" where
  "fts_try_new fields_of dataset query =
     (let full = fields_of dataset @ [''_score'']
      in \<lparr>fx_dataset = dataset, fx_query = query, fx_full_schema = full, fx_schema = full,
          fx_filter = None, fx_scan_limit = None\<rparr>)"

definition fts_with_projection :: "nat list \<Rightarrow> 'd lance_fts_exec \<Rightarrow> 'd lance_fts_exec" where
  "fts_with_projection projection x = x\<lparr>fx_schema := map ((!) (fx_full_schema x)) projection\<rparr>"

text \<open>With pushed filters the limit of the search itself is removed.\<close>

definition lance_fts_scan ::
  "(scalar \<Rightarrow> string) \<Rightarrow> ('d \<Rightarrow> string list) \<Rightarrow> 'd lance_fts_provider \<Rightarrow> nat list option \<Rightarrow> expr list
   \<Rightarrow> 64 word option \<Rightarrow> 'd lance_fts_exec" where
  "lance_fts_scan display fields_of p projection filters limit =
     (let query = (if filters \<noteq> [] then (lf_query p)\<lparr>fq_limit := None\<rparr> else lf_query p);
          x0 = fts_try_new fields_of (lf_dataset p) query;
          x1 = (case projection of Some proj \<Rightarrow> fts_with_projection proj x0 | None \<Rightarrow> x0);
          x2 = (if filters \<noteq> [] then x1\<lparr>fx_filter := Some (lance_where display filters)\<rparr> else x1)
      in case limit of Some n \<Rightarrow> x2\<lparr>fx_scan_limit := Some n\<rparr> | None \<Rightarrow> x2)"

text \<open>\<open>scanner\<close> runs the search: dataset, filter, query, and the row limit.\<close>

definition execute_fts ::
  "('d \<Rightarrow> string option \<Rightarrow> full_text_search \<Rightarrow> 64 word option \<Rightarrow> string + search_batch list)
   \<Rightarrow> 'd lance_fts_exec \<Rightarrow> string + search_batch" where
  "execute_fts scanner x =
     try_res (scanner (fx_dataset x) (fx_filter x) (fx_query x) (fx_scan_limit x)) (\<lambda>batches.
     if batches = [] then Inr \<lparr>sb_columns = fx_schema x, sb_rows = []\<rparr>
     else project_batch ''FTS'' (fx_schema x) (concat_batches batches))"

section \<open>Properties\<close>

lemma boolean_clause_Cons:
  "boolean_clause (c # r) =
     (if c = CHR ''+'' then (if r = [] then [] else [(Must, r)])
      else if c = CHR ''-'' then (if r = [] then [] else [(MustNot, r)])
      else [(Should, c # r)])"
  by (simp add: boolean_clause_def)

lemma operator_clause: "is_operator_term t \<Longrightarrow> boolean_clause t \<noteq> []"
proof -
  assume t: "is_operator_term t"
  then obtain c r where "t = c # r" "r \<noteq> []" by (cases t) (auto simp: is_operator_term_def)
  then show ?thesis by (simp add: boolean_clause_Cons)
qed

lemma boolean_operators_parse: "has_boolean_operators q \<Longrightarrow> \<exists>cs. parse_boolean_query q = Inr cs \<and> cs \<noteq> []"
proof -
  assume "has_boolean_operators q"
  then obtain t where "t \<in> set (split_whitespace q)" "is_operator_term t"
    by (auto simp: has_boolean_operators_def list_ex_iff)
  then have "concat (map boolean_clause (split_whitespace q)) \<noteq> []"
    using operator_clause by auto
  then show ?thesis by (auto simp: parse_boolean_query_def Let_def)
qed

text \<open>A fuzzy query is one word with a tilde; its distance, if written, must be a 32-bit number.\<close>

definition is_phrase :: "string \<Rightarrow> bool" where
  "is_phrase q \<longleftrightarrow> starts_with dquote_text q \<and> ends_with dquote_text q \<and> 2 < length q"

definition bad_distance :: "string \<Rightarrow> bool" where
  "bad_distance q \<longleftrightarrow> CHR '' '' \<notin> set q
     \<and> (\<exists>i. find_char (CHR ''~'') q = Some i \<and> drop (Suc i) q \<noteq> [] \<and> parse_u32 (drop (Suc i) q) = None)"

lemma parse_fuzzy_ok:
  "(\<exists>r. parse_fuzzy q = Inr r) \<longleftrightarrow>
   \<not> (\<exists>i. find_char (CHR ''~'') q = Some i \<and> drop (Suc i) q \<noteq> [] \<and> parse_u32 (drop (Suc i) q) = None)"
  by (auto simp: parse_fuzzy_def plan_err_def Let_def split: option.splits)

text \<open>
  Which query strings \<open>lance_fts\<close> accepts, for a column Lance accepts: all but a blank one and
  a one-word query whose fuzzy distance is not a 32-bit number. In particular a query with a
  plus or minus operator is never refused for having no terms.
\<close>

theorem parse_fts_query_ok_iff:
  "(\<exists>r. parse_fts_query (\<lambda>_. Inr ()) query column limit = Inr r) \<longleftrightarrow>
   str_trim query \<noteq> [] \<and> \<not> (bad_distance (str_trim query) \<and> \<not> is_phrase (str_trim query))"
proof -
  define q where "q = str_trim query"
  have no_tilde: "CHR ''~'' \<notin> set q \<Longrightarrow> \<not> bad_distance q"
    by (auto simp: bad_distance_def find_char_None_iff [symmetric])
  have blank: "CHR '' '' \<in> set q \<Longrightarrow> \<not> bad_distance q"
    by (simp add: bad_distance_def)
  consider "q = []" | "q \<noteq> []" "is_phrase q" | "q \<noteq> []" "\<not> is_phrase q" "CHR ''~'' \<in> set q" "CHR '' '' \<notin> set q"
    | "q \<noteq> []" "\<not> is_phrase q" "\<not> (CHR ''~'' \<in> set q \<and> CHR '' '' \<notin> set q)" "has_boolean_operators q"
    | "q \<noteq> []" "\<not> is_phrase q" "\<not> (CHR ''~'' \<in> set q \<and> CHR '' '' \<notin> set q)" "\<not> has_boolean_operators q"
    by blast
  then show ?thesis
  proof cases
    case 3
    then have "bad_distance q \<longleftrightarrow> \<not> (\<exists>r. parse_fuzzy q = Inr r)"
      unfolding bad_distance_def using parse_fuzzy_ok [of q] by blast
    then show ?thesis
      using 3 by (auto simp: parse_fts_query_def is_phrase_def Let_def res_simps simp flip: q_def)
  next
    case 4
    then obtain cs where "parse_boolean_query q = Inr cs" using boolean_operators_parse by blast
    then show ?thesis
      using 4 no_tilde blank by (auto simp: parse_fts_query_def is_phrase_def Let_def res_simps simp flip: q_def)
  next
    case 5
    then show ?thesis
      using no_tilde blank by (auto simp: parse_fts_query_def is_phrase_def Let_def res_simps simp flip: q_def)
  qed (auto simp: parse_fts_query_def is_phrase_def plan_err_def Let_def simp flip: q_def)
qed

text \<open>
  Against the table in the source, \<open>+foo bar\<close> is no match query that needs all terms: it is a
  Boolean query in which only the first term must match.
\<close>

theorem plus_is_not_all_terms:
  "parse_fts_query (\<lambda>_. Inr ()) ''+foo bar'' ''body'' 10 =
     Inr \<lparr>fq_kind = FtsBoolean [(Must, ''foo''), (Should, ''bar'')], fq_column = ''body'', fq_limit = Some 10\<rparr>"
  by code_simp

text \<open>
  A negative limit is not refused: it reaches Lance as a negative limit, as \<open>-1\<close> does here.
\<close>

theorem negative_limit_is_accepted:
  "map_option (\<lambda>l. sint l) (fq_limit (lf_query (projr
     (lance_fts_call (\<lambda>_. Inr ()) [''t'' \<mapsto> LanceEntry ()]
       [ArgExpr (ELiteral (SvUtf8 (Some ''t''))), ArgExpr (ELiteral (SvUtf8 (Some ''body''))),
        ArgExpr (ELiteral (SvUtf8 (Some ''foo''))), ArgExpr (ELiteral (SvInt32 (Some (- 1))))])))) = Some (- 1)"
  by code_simp

end
