(* ===== verification/Sqlite_Provider.thy ===== *)
theory Sqlite_Provider
  imports Sql_Where Vector_Search Data_Sources
begin

text \<open>
  The SQLite provider (\<^verbatim>\<open>sources/providers/sqlite/mod.rs\<close>): registration of a table or a whole
  database, the connection pool, types and values, and the statements it generates for scans,
  INSERT, UPDATE and DELETE. The driver, the rendering of expressions by the engine's unparser and
  the conversions of floating-point numbers are parameters; \<open>'d\<close> is the content of the database,
  \<open>'t\<close> a transaction in progress, which leaves the database as it was until it is committed.
\<close>

section \<open>Values and types\<close>

datatype sqlite_value =
  SqNull | SqInteger "64 word" | SqReal string | SqText string | SqBlob "8 word list"

text \<open>A cell of a batch; the lists of 32-bit floats have a conversion of their own.\<close>

datatype sq_cell = CellScalar scalar | CellF32List "32 word list option"

record sqlite_floats =
  sf_of_i64 :: "64 word \<Rightarrow> string"
  sf_widen :: "string \<Rightarrow> string"
  sf_debug :: "sq_cell list \<Rightarrow> string"

definition sqlite_type_to_arrow :: "string \<Rightarrow> bool \<Rightarrow> arrow_type" where
  "sqlite_type_to_arrow sqlite_type is_pk =
     (let upper = to_uppercase sqlite_type in
      if upper = [] then (if is_pk then AtInt64 else AtBinary)
      else if str_contains ''INT'' upper then AtInt64
      else if str_contains ''REAL'' upper \<or> str_contains ''FLOAT'' upper \<or> str_contains ''DOUBLE'' upper
      then AtFloat64
      else if str_contains ''BLOB'' upper then AtBinary
      else if str_contains ''BOOL'' upper then AtBoolean
      else AtUtf8)"

text \<open>One value of a column of the given type; a value of another storage class is read as null.\<close>

definition sqlite_value_to_arrow :: "sqlite_floats \<Rightarrow> arrow_type \<Rightarrow> sqlite_value \<Rightarrow> scalar" where
  "sqlite_value_to_arrow F ty v =
     (case ty of
        AtInt64 \<Rightarrow> SvInt64 (case v of SqInteger i \<Rightarrow> Some i | _ \<Rightarrow> None)
      | AtFloat64 \<Rightarrow> SvFloat64 (case v of SqReal f \<Rightarrow> Some f | SqInteger i \<Rightarrow> Some (sf_of_i64 F i) | _ \<Rightarrow> None)
      | AtBoolean \<Rightarrow> SvBoolean (case v of SqInteger i \<Rightarrow> Some (i \<noteq> 0) | _ \<Rightarrow> None)
      | AtBinary \<Rightarrow> SvBinary (case v of SqBlob b \<Rightarrow> Some b | _ \<Rightarrow> None)
      | _ \<Rightarrow> SvUtf8 (case v of SqText s \<Rightarrow> Some s | SqInteger i \<Rightarrow> Some (show_signed i)
                          | SqReal f \<Rightarrow> Some f | _ \<Rightarrow> None))"

definition sqlite_values_to_arrow :: "sqlite_floats \<Rightarrow> sqlite_value list \<Rightarrow> arrow_type \<Rightarrow> scalar list" where
  "sqlite_values_to_arrow F values ty = map (sqlite_value_to_arrow F ty) values"

fun cell_is_null :: "sq_cell \<Rightarrow> bool" where
  "cell_is_null (CellScalar v) = is_null v"
| "cell_is_null (CellF32List v) = (v = None)"

text \<open>The cell of a column in a row. A type without a case gets the text of the whole column.\<close>

definition arrow_value_to_sqlite :: "sqlite_floats \<Rightarrow> sq_cell list \<Rightarrow> nat \<Rightarrow> sqlite_value" where
  "arrow_value_to_sqlite F array row =
     (let cell = array ! row in
      if cell_is_null cell then SqNull
      else case cell of
        CellScalar (SvInt8 (Some v)) \<Rightarrow> SqInteger (scast v)
      | CellScalar (SvInt16 (Some v)) \<Rightarrow> SqInteger (scast v)
      | CellScalar (SvInt32 (Some v)) \<Rightarrow> SqInteger (scast v)
      | CellScalar (SvInt64 (Some v)) \<Rightarrow> SqInteger v
      | CellScalar (SvUInt8 (Some v)) \<Rightarrow> SqInteger (ucast v)
      | CellScalar (SvUInt16 (Some v)) \<Rightarrow> SqInteger (ucast v)
      | CellScalar (SvUInt32 (Some v)) \<Rightarrow> SqInteger (ucast v)
      | CellScalar (SvUInt64 (Some v)) \<Rightarrow> SqInteger v
      | CellScalar (SvFloat16 (Some v)) \<Rightarrow> SqReal (sf_widen F v)
      | CellScalar (SvFloat32 (Some v)) \<Rightarrow> SqReal (sf_widen F v)
      | CellScalar (SvFloat64 (Some v)) \<Rightarrow> SqReal v
      | CellScalar (SvBoolean (Some v)) \<Rightarrow> SqInteger (if v then 1 else 0)
      | CellScalar (SvUtf8 (Some v)) \<Rightarrow> SqText v
      | CellScalar (SvLargeUtf8 (Some v)) \<Rightarrow> SqText v
      | CellScalar (SvBinary (Some v)) \<Rightarrow> SqBlob v
      | CellScalar (SvLargeBinary (Some v)) \<Rightarrow> SqBlob v
      | CellF32List (Some v) \<Rightarrow> SqBlob (concat (map to_le_bytes v))
      | _ \<Rightarrow> SqText (sf_debug F array))"

section \<open>The driver\<close>

text \<open>
  \<open>sd_open\<close> opens the n-th connection to a file; \<open>sd_init\<close> sets its journal mode and busy timeout
  and loads extensions; \<open>sd_table_info\<close> runs a pragma (name, type, not null, primary key of each
  column); \<open>sd_table_sql\<close> is the statement that created a table, if it can be read.
\<close>

record ('c, 'd, 't) sqlite_driver =
  sd_open :: "string \<Rightarrow> nat \<Rightarrow> string + 'c"
  sd_init :: "'c \<Rightarrow> nat \<Rightarrow> string list \<Rightarrow> string + unit"
  sd_table_info :: "'c \<Rightarrow> string \<Rightarrow> string + (string \<times> string \<times> bool \<times> bool) list"
  sd_table_sql :: "'c \<Rightarrow> string \<Rightarrow> string option"
  sd_list_tables :: "'c \<Rightarrow> string + string list"
  sd_unparse :: "expr \<Rightarrow> string + string"
  sd_query :: "'d \<Rightarrow> string \<Rightarrow> string + sqlite_value list list"
  sd_execute :: "'d \<Rightarrow> string \<Rightarrow> (string + 64 word) \<times> 'd"
  sd_begin :: "'d \<Rightarrow> string + 't"
  sd_tx_execute :: "'t \<Rightarrow> string \<Rightarrow> sqlite_value list \<Rightarrow> string + 't"
  sd_commit :: "'t \<Rightarrow> string + 'd"

section \<open>Connections\<close>

definition DEFAULT_READ_POOL_SIZE :: nat where
  "DEFAULT_READ_POOL_SIZE = 4"

definition validate_extension_path :: "string \<Rightarrow> string + unit" where
  "validate_extension_path path =
     (if \<not> starts_with ''/'' path
      then Inl (''SQLite extension path must be absolute, got '' @ quote @ path @ quote
                @ ''. Use an absolute path to the extension shared library.'')
      else if ''..'' \<in> set (str_split (CHR ''/'') path)
      then Inl (''SQLite extension path must not contain '' @ quote @ ''..'' @ quote @ '' components, got ''
                @ quote @ path @ quote)
      else Inr ())"

definition init_connection ::
  "('c, 'd, 't) sqlite_driver \<Rightarrow> 'c \<Rightarrow> nat \<Rightarrow> string list \<Rightarrow> string + unit" where
  "init_connection D conn busy_timeout_ms extensions =
     try_res (collect_res (map validate_extension_path extensions)) (\<lambda>_.
     map_err (\<lambda>e. ''Failed to initialize SQLite connection: '' @ e)
       (sd_init D conn busy_timeout_ms extensions))"

definition open_connection ::
  "('c, 'd, 't) sqlite_driver \<Rightarrow> string \<Rightarrow> string \<Rightarrow> nat \<Rightarrow> string list \<Rightarrow> nat \<Rightarrow> string + 'c" where
  "open_connection D what db_path busy_timeout_ms extensions n =
     try_res (map_err (\<lambda>e. ''Failed to open SQLite '' @ what @ '' connection: '' @ db_path @ '': '' @ e)
       (sd_open D db_path n)) (\<lambda>conn.
     try_res (init_connection D conn busy_timeout_ms extensions) (\<lambda>_. Inr conn))"

definition open_sqlite_pool ::
  "('c, 'd, 't) sqlite_driver \<Rightarrow> string \<Rightarrow> nat \<Rightarrow> nat \<Rightarrow> bool \<Rightarrow> string list \<Rightarrow> string + 'c list \<times> 'c option" where
  "open_sqlite_pool D db_path busy_timeout_ms read_pool_size read_write extensions =
     (let pool_size = max read_pool_size 1 in
      try_res (collect_res (map (open_connection D ''read'' db_path busy_timeout_ms extensions) [0..<pool_size]))
        (\<lambda>read_pool.
      try_res (if read_write
               then try_res (open_connection D ''write'' db_path busy_timeout_ms extensions pool_size)
                      (\<lambda>conn. Inr (Some conn))
               else Inr None) (\<lambda>write_conn.
      Inr (read_pool, write_conn))))"

section \<open>The schema of a table\<close>

definition is_fts_table :: "('c, 'd, 't) sqlite_driver \<Rightarrow> 'c \<Rightarrow> string \<Rightarrow> bool" where
  "is_fts_table D conn table_name =
     (case sd_table_sql D conn table_name of
        None \<Rightarrow> False
      | Some sql \<Rightarrow>
          let upper = to_uppercase sql in
          str_contains ''FTS5'' upper \<or> str_contains ''FTS4'' upper \<or> str_contains ''FTS3'' upper)"

definition pragma_table_info :: "string \<Rightarrow> string" where
  "pragma_table_info tbl = ''PRAGMA table_info('' @ [dquote] @ tbl @ [dquote] @ '')''"

definition pragma_field :: "bool \<Rightarrow> string \<times> string \<times> bool \<times> bool \<Rightarrow> arrow_field" where
  "pragma_field is_fts row =
     (case row of (col_name, col_type, not_null, is_pk) \<Rightarrow>
        \<lparr>af_name = col_name,
         af_type = (if is_fts \<and> col_type = [] \<and> \<not> is_pk then AtUtf8 else sqlite_type_to_arrow col_type is_pk),
         af_nullable = (\<not> not_null)\<rparr>)"

definition read_schema_from_pragma ::
  "('c, 'd, 't) sqlite_driver \<Rightarrow> 'c \<Rightarrow> string \<Rightarrow> string + arrow_field list" where
  "read_schema_from_pragma D conn table_name =
     try_res (map_err (\<lambda>e. ''PRAGMA table_info failed: '' @ e)
       (sd_table_info D conn (pragma_table_info table_name))) (\<lambda>rows.
     Inr (map (pragma_field (is_fts_table D conn table_name)) rows))"

section \<open>The provider\<close>

record 'c sqlite_provider =
  sq_read_pool :: "'c list"
  sq_read_pool_idx :: "64 word"
  sq_write_conn :: "'c option"
  sq_table :: string
  sq_schema :: "arrow_field list"
  sq_read_write :: bool

definition from_shared_pool ::
  "('c, 'd, 't) sqlite_driver \<Rightarrow> 'c list \<Rightarrow> 'c option \<Rightarrow> string \<Rightarrow> bool \<Rightarrow> string + 'c sqlite_provider" where
  "from_shared_pool D read_pool write_conn table_name read_write =
     (case read_pool of
        [] \<Rightarrow> Inl ''SqliteTableProvider::from_shared_pool requires a non-empty read pool''
      | conn # _ \<Rightarrow>
          try_res (read_schema_from_pragma D conn table_name) (\<lambda>schema.
          Inr \<lparr>sq_read_pool = read_pool, sq_read_pool_idx = 0, sq_write_conn = write_conn,
               sq_table = table_name, sq_schema = schema, sq_read_write = read_write\<rparr>))"

definition sqlite_provider_new ::
  "('c, 'd, 't) sqlite_driver \<Rightarrow> string \<Rightarrow> string \<Rightarrow> nat \<Rightarrow> nat \<Rightarrow> bool \<Rightarrow> string list \<Rightarrow> string + 'c sqlite_provider" where
  "sqlite_provider_new D db_path table_name busy_timeout_ms read_pool_size read_write extensions =
     try_res (open_sqlite_pool D db_path busy_timeout_ms read_pool_size read_write extensions)
       (\<lambda>(read_pool, write_conn). from_shared_pool D read_pool write_conn table_name read_write)"

definition create_sqlite_table_provider ::
  "('c, 'd, 't) sqlite_driver \<Rightarrow> string \<Rightarrow> string \<Rightarrow> string + 'c sqlite_provider" where
  "create_sqlite_table_provider D db_path table_name =
     sqlite_provider_new D db_path table_name 5000 DEFAULT_READ_POOL_SIZE False []"

text \<open>\<open>fetch_add\<close> wraps around at 64 bits.\<close>

definition next_read_conn :: "'c sqlite_provider \<Rightarrow> 'c \<times> 'c sqlite_provider" where
  "next_read_conn p =
     (sq_read_pool p ! (unat (sq_read_pool_idx p) mod length (sq_read_pool p)),
      p\<lparr>sq_read_pool_idx := sq_read_pool_idx p + 1\<rparr>)"

definition write_conn :: "'c sqlite_provider \<Rightarrow> string + 'c" where
  "write_conn p =
     ok_or (sq_write_conn p) (''Table '' @ quote @ sq_table p @ quote @ '' is registered as read-only'')"

section \<open>Generated statements\<close>

text \<open>Double quotes around the name, those inside doubled.\<close>

definition quote_sqlite_ident :: "string \<Rightarrow> string" where
  "quote_sqlite_ident s = [dquote] @ str_replace [dquote] [dquote, dquote] s @ [dquote]"

definition quote_sqlite_table :: "string \<Rightarrow> string" where
  "quote_sqlite_table table = quote_sqlite_ident table"

definition build_sqlite_where_clause ::
  "(expr \<Rightarrow> string + string) \<Rightarrow> expr list \<Rightarrow> string + string" where
  "build_sqlite_where_clause unparse filters =
     (if filters = [] then Inr []
      else try_res
        (collect_res (map (\<lambda>e. map_err (\<lambda>m. ''Failed to unparse filter expression: '' @ m) (unparse e)) filters))
        (\<lambda>parts. Inr ('' WHERE '' @ str_join '' AND '' parts)))"

record 'c sqlite_scan =
  ss_conn :: 'c
  ss_table :: string
  ss_schema :: "arrow_field list"
  ss_output :: "arrow_field list"
  ss_projection :: "nat list option"
  ss_filters :: "expr list"
  ss_limit :: "nat option"

definition sqlite_scan_new ::
  "'c \<Rightarrow> string \<Rightarrow> arrow_field list \<Rightarrow> nat list option \<Rightarrow> expr list \<Rightarrow> nat option \<Rightarrow> 'c sqlite_scan" where
  "sqlite_scan_new conn table schema projection filters limit =
     \<lparr>ss_conn = conn, ss_table = table, ss_schema = schema,
      ss_output = (case projection of Some proj \<Rightarrow> map ((!) schema) proj | None \<Rightarrow> schema),
      ss_projection = projection, ss_filters = filters, ss_limit = limit\<rparr>"

definition sqlite_table_scan ::
  "'c sqlite_provider \<Rightarrow> nat list option \<Rightarrow> expr list \<Rightarrow> nat option \<Rightarrow> 'c sqlite_scan \<times> 'c sqlite_provider" where
  "sqlite_table_scan p projection filters limit =
     (let (conn, p') = next_read_conn p
      in (sqlite_scan_new conn (sq_table p) (sq_schema p) projection filters limit, p'))"

definition sqlite_build_sql :: "(expr \<Rightarrow> string + string) \<Rightarrow> 'c sqlite_scan \<Rightarrow> string + string" where
  "sqlite_build_sql unparse x =
     (let columns = (case ss_projection x of
            Some proj \<Rightarrow> map (\<lambda>i. quote_sqlite_ident (af_name (ss_schema x ! i))) proj
          | None \<Rightarrow> map (\<lambda>f. quote_sqlite_ident (af_name f)) (ss_schema x))
      in try_res (build_sqlite_where_clause unparse (ss_filters x)) (\<lambda>where_clause.
      Inr (''SELECT '' @ (if columns = [] then ''1'' else str_join '', '' columns)
           @ '' FROM '' @ quote_sqlite_table (ss_table x) @ where_clause
           @ (case ss_limit x of Some n \<Rightarrow> '' LIMIT '' @ show_nat n | None \<Rightarrow> []))))"

text \<open>A batch: its columns and its number of rows, which counts when there is no column.\<close>

record sqlite_batch =
  qb_columns :: "scalar list list"
  qb_rows :: nat

text \<open>\<open>row.get(i)\<close>.\<close>

definition row_get :: "sqlite_value list \<Rightarrow> nat \<Rightarrow> string + sqlite_value" where
  "row_get row i = (if i < length row then Inr (row ! i) else Inl (''Invalid column index: '' @ show_nat i))"

text \<open>Reads the first cells of every row into columns of the given types.\<close>

definition read_columns ::
  "sqlite_floats \<Rightarrow> arrow_field list \<Rightarrow> sqlite_value list list \<Rightarrow> string + scalar list list" where
  "read_columns F sch rows =
     try_res (collect_res (map (\<lambda>row. collect_res (map (row_get row) [0..<length sch])) rows)) (\<lambda>vals.
     Inr (map (\<lambda>i. sqlite_values_to_arrow F (map (\<lambda>r. r ! i) vals) (af_type (sch ! i))) [0..<length sch]))"

text \<open>A record batch refuses a null in a column declared not nullable.\<close>

definition check_nullability :: "arrow_field list \<Rightarrow> scalar list list \<Rightarrow> string + unit" where
  "check_nullability sch columns =
     (case List.find (\<lambda>(f, column). \<not> af_nullable f \<and> list_ex is_null column) (zip sch columns) of
        Some (f, _) \<Rightarrow> Inl (''Column '' @ [squote] @ af_name f @ [squote]
                          @ '' is declared as non-nullable but contains null values'')
      | None \<Rightarrow> Inr ())"

definition sqlite_scan_execute ::
  "('c, 'd, 't) sqlite_driver \<Rightarrow> sqlite_floats \<Rightarrow> 'd \<Rightarrow> 'c sqlite_scan \<Rightarrow> string + sqlite_batch" where
  "sqlite_scan_execute D F d x =
     try_res (sqlite_build_sql (sd_unparse D) x) (\<lambda>sql.
     try_res (map_err (\<lambda>e. ''SQLite scan error: '' @ e)
       (try_res (sd_query D d sql) (\<lambda>rows.
        try_res (read_columns F (ss_output x) rows) (\<lambda>columns. Inr (columns, length rows))))) (\<lambda>(columns, n).
     try_res (check_nullability (ss_output x) columns) (\<lambda>_.
     Inr \<lparr>qb_columns = columns, qb_rows = n\<rparr>)))"

section \<open>INSERT\<close>

text \<open>The columns of a batch, each a list of cells, and its number of rows.\<close>

record sq_input =
  si_columns :: "sq_cell list list"
  si_rows :: nat

text \<open>The plan: its connection, table and mode.\<close>

record 'c sqlite_insert =
  sn_conn :: 'c
  sn_table :: string
  sn_op :: insert_op

definition sqlite_insert_into :: "'c sqlite_provider \<Rightarrow> insert_op \<Rightarrow> string + 'c sqlite_insert" where
  "sqlite_insert_into p iop =
     try_res (write_conn p) (\<lambda>conn. Inr \<lparr>sn_conn = conn, sn_table = sq_table p, sn_op = iop\<rparr>)"

definition sqlite_insert_sql :: "string \<Rightarrow> string list \<Rightarrow> string" where
  "sqlite_insert_sql table cols =
     ''INSERT INTO '' @ quote_sqlite_table table @ '' ('' @ str_join '', '' (map quote_sqlite_ident cols)
     @ '') VALUES ('' @ str_join '', '' (replicate (length cols) ''?'') @ '')''"

definition input_row :: "sqlite_floats \<Rightarrow> sq_input \<Rightarrow> nat \<Rightarrow> sqlite_value list" where
  "input_row F b row = map (\<lambda>array. arrow_value_to_sqlite F array row) (si_columns b)"

text \<open>The rows of a batch, one statement each, counted in an unsigned 64-bit number.\<close>

definition insert_row ::
  "('c, 'd, 't) sqlite_driver \<Rightarrow> string \<Rightarrow> 't \<times> 64 word \<Rightarrow> sqlite_value list \<Rightarrow> string + 't \<times> 64 word" where
  "insert_row D insert_sql st params =
     (case st of (tx, total_rows) \<Rightarrow>
        try_res (sd_tx_execute D tx insert_sql params) (\<lambda>tx'. Inr (tx', total_rows + 1)))"

definition insert_batch ::
  "('c, 'd, 't) sqlite_driver \<Rightarrow> sqlite_floats \<Rightarrow> string \<Rightarrow> 't \<times> 64 word \<Rightarrow> sq_input \<Rightarrow> string + 't \<times> 64 word" where
  "insert_batch D F insert_sql st b =
     fold_res (insert_row D insert_sql) st (map (input_row F b) [0..<si_rows b])"

text \<open>The transaction: an error in it drops it, and the database stays as it was.\<close>

definition sqlite_insert_tx ::
  "('c, 'd, 't) sqlite_driver \<Rightarrow> sqlite_floats \<Rightarrow> string \<Rightarrow> insert_op \<Rightarrow> string list \<Rightarrow> sq_input list \<Rightarrow> 'd
   \<Rightarrow> string + 64 word \<times> 'd" where
  "sqlite_insert_tx D F table iop cols batches d =
     try_res (sd_begin D d) (\<lambda>tx0.
     try_res (if iop = InsertOverwrite
              then sd_tx_execute D tx0 (''DELETE FROM '' @ quote_sqlite_table table) []
              else Inr tx0) (\<lambda>tx1.
     try_res (fold_res (insert_batch D F (sqlite_insert_sql table cols)) (tx1, 0) batches) (\<lambda>(tx2, total_rows).
     try_res (sd_commit D tx2) (\<lambda>d'. Inr (total_rows, d')))))"

text \<open>The whole input is read first; batches without rows are dropped.\<close>

definition sqlite_insert_execute ::
  "('c, 'd, 't) sqlite_driver \<Rightarrow> sqlite_floats \<Rightarrow> 'c sqlite_insert \<Rightarrow> string list \<Rightarrow> (string + sq_input) list \<Rightarrow> 'd
   \<Rightarrow> (string + 64 word) \<times> 'd" where
  "sqlite_insert_execute D F x cols input d =
     (case collect_res input of
        Inl e \<Rightarrow> (Inl e, d)
      | Inr all \<Rightarrow>
          (case sqlite_insert_tx D F (sn_table x) (sn_op x) cols (filter (\<lambda>b. 0 < si_rows b) all) d of
             Inl e \<Rightarrow> (Inl (''SQLite INSERT error: '' @ e), d)
           | Inr (total_rows, d') \<Rightarrow> (Inr total_rows, d')))"

section \<open>DELETE and UPDATE\<close>

record 'c sqlite_dml =
  sm_conn :: 'c
  sm_sql :: string

definition sqlite_delete_from ::
  "('c, 'd, 't) sqlite_driver \<Rightarrow> 'c sqlite_provider \<Rightarrow> expr list \<Rightarrow> string + 'c sqlite_dml" where
  "sqlite_delete_from D p filters =
     try_res (write_conn p) (\<lambda>conn.
     try_res (build_sqlite_where_clause (sd_unparse D) filters) (\<lambda>where_clause.
     Inr \<lparr>sm_conn = conn, sm_sql = ''DELETE FROM '' @ quote_sqlite_table (sq_table p) @ where_clause\<rparr>))"

definition sqlite_assignment ::
  "('c, 'd, 't) sqlite_driver \<Rightarrow> string \<times> expr \<Rightarrow> string + string" where
  "sqlite_assignment D a =
     (case a of (col, e) \<Rightarrow>
        try_res (map_err (\<lambda>m. ''Failed to unparse assignment expression for column '' @ quote @ col @ quote
                                @ '': '' @ m) (sd_unparse D e))
          (\<lambda>val. Inr (quote_sqlite_ident col @ '' = '' @ val)))"

definition sqlite_update ::
  "('c, 'd, 't) sqlite_driver \<Rightarrow> 'c sqlite_provider \<Rightarrow> (string \<times> expr) list \<Rightarrow> expr list
   \<Rightarrow> string + 'c sqlite_dml" where
  "sqlite_update D p assignments filters =
     (if assignments = [] then Inl ''UPDATE requires at least one assignment''
      else
        try_res (collect_res (map (sqlite_assignment D) assignments)) (\<lambda>sets.
        try_res (write_conn p) (\<lambda>conn.
        try_res (build_sqlite_where_clause (sd_unparse D) filters) (\<lambda>where_clause.
        Inr \<lparr>sm_conn = conn,
             sm_sql = ''UPDATE '' @ quote_sqlite_table (sq_table p) @ '' SET '' @ str_join '', '' sets
                      @ where_clause\<rparr>))))"

definition sqlite_dml_execute ::
  "('c, 'd, 't) sqlite_driver \<Rightarrow> 'c sqlite_dml \<Rightarrow> 'd \<Rightarrow> (string + 64 word) \<times> 'd" where
  "sqlite_dml_execute D x d =
     (case sd_execute D d (sm_sql x) of
        (Inl e, d') \<Rightarrow> (Inl (''SQLite DML execute error: '' @ e), d')
      | (Inr n, d') \<Rightarrow> (Inr n, d'))"

section \<open>Registration\<close>

text \<open>Options that do not parse are replaced by their defaults.\<close>

definition busy_timeout_option :: "(string \<rightharpoonup> string) option \<Rightarrow> nat" where
  "busy_timeout_option options =
     (case Option.bind (Option.bind options (\<lambda>opts. opts ''busy_timeout_ms'')) parse_usize of
        Some n \<Rightarrow> n | None \<Rightarrow> 5000)"

definition read_pool_option :: "(string \<rightharpoonup> string) option \<Rightarrow> nat" where
  "read_pool_option options =
     (case Option.bind (Option.bind options (\<lambda>opts. opts ''read_pool_size'')) parse_usize of
        Some n \<Rightarrow> n | None \<Rightarrow> DEFAULT_READ_POOL_SIZE)"

text \<open>Paths from the option, then from environment variables; unset ones are skipped.\<close>

definition extensions_option ::
  "(string \<rightharpoonup> string) \<Rightarrow> (string \<rightharpoonup> string) option \<Rightarrow> string list" where
  "extensions_option env options =
     (case Option.bind options (\<lambda>opts. opts ''extensions'') of
        Some v \<Rightarrow> map str_trim (str_split (CHR '','') v) | None \<Rightarrow> [])
     @ (case Option.bind options (\<lambda>opts. opts ''extensions_env'') of
          Some keys \<Rightarrow> List.map_filter (\<lambda>key. env (str_trim key)) (str_split (CHR '','') keys)
        | None \<Rightarrow> [])"

record 'c sqlite_entry =
  sy_conn :: 'c
  sy_table :: string
  sy_columns :: "(string \<times> arrow_type) list"

definition sqlite_entry_of :: "'c sqlite_provider \<Rightarrow> string \<Rightarrow> 'c sqlite_entry" where
  "sqlite_entry_of p table_name =
     \<lparr>sy_conn = hd (sq_read_pool p), sy_table = table_name,
      sy_columns = map (\<lambda>f. (af_name f, af_type f)) (sq_schema p)\<rparr>"

text \<open>
  One table. \<open>reg\<close> is the registry of the search functions, if there is one; \<open>register\<close> is the
  session's \<open>register_table\<close>.
\<close>

definition register_single_sqlite_table ::
  "('c, 'd, 't) sqlite_driver \<Rightarrow> (string \<rightharpoonup> string) \<Rightarrow> ('s \<Rightarrow> string \<Rightarrow> 'c sqlite_provider \<Rightarrow> string + 's) \<Rightarrow> 's
   \<Rightarrow> string \<Rightarrow> string \<Rightarrow> (string \<rightharpoonup> string) option \<Rightarrow> bool \<Rightarrow> (string \<rightharpoonup> 'c sqlite_entry) option
   \<Rightarrow> (string + 's) \<times> (string \<rightharpoonup> 'c sqlite_entry) option" where
  "register_single_sqlite_table D env register session name db_path options read_write reg =
     (case Option.bind options (\<lambda>opts. opts ''table'') of
        None \<Rightarrow> (Inl (''SQLite data source '' @ quote @ name @ quote @ '' requires '' @ quote @ ''table'' @ quote
                       @ '' option''), reg)
      | Some table_name \<Rightarrow>
          (case sqlite_provider_new D db_path table_name (busy_timeout_option options) (read_pool_option options)
                  read_write (extensions_option env options) of
             Inl e \<Rightarrow> (Inl (''Failed to create SQLite table provider for '' @ quote @ table_name @ quote
                             @ '': '' @ e), reg)
           | Inr provider \<Rightarrow>
               (map_err (\<lambda>e. ''Failed to register SQLite table '' @ quote @ name @ quote @ '' with DataFusion: '' @ e)
                  (register session name provider),
                map_option (\<lambda>m. m(name \<mapsto> sqlite_entry_of provider table_name)) reg)))"

definition list_sqlite_tables_in_catalog ::
  "('c, 'd, 't) sqlite_driver \<Rightarrow> 'c \<Rightarrow> string + (string \<times> string) list" where
  "list_sqlite_tables_in_catalog D conn =
     try_res (map_err (\<lambda>e. ''Failed to list tables in SQLite catalog: '' @ e) (sd_list_tables D conn))
       (\<lambda>names. Inr (map (\<lambda>t. (''main'', t)) names))"

datatype sqlite_catalog_error =
  CatalogPoolFailed string string | CatalogListFailed retry_error | CatalogBuildFailed string build_error

text \<open>
  The registry entries made while the tables of a catalog are built: those of the tables that
  complete before the first failure, in the order of completion.
\<close>

fun catalog_entries ::
  "string \<Rightarrow> (string \<Rightarrow> string \<Rightarrow> string + 'c sqlite_provider) \<Rightarrow> (string \<times> string) list
   \<Rightarrow> (string \<rightharpoonup> 'c sqlite_entry) \<Rightarrow> (string \<rightharpoonup> 'c sqlite_entry)" where
  "catalog_entries catalog build [] m = m"
| "catalog_entries catalog build ((schema, table_name) # rest) m =
     (case build schema table_name of
        Inl _ \<Rightarrow> m
      | Inr p \<Rightarrow> catalog_entries catalog build rest
                   (m(catalog @ ''.'' @ schema @ ''.'' @ table_name \<mapsto> sqlite_entry_of p table_name)))"

text \<open>\<open>fires\<close> says in which attempts the listing times out; \<open>completion\<close> is the order of \<open>build_catalog\<close>.\<close>

definition register_sqlite_catalog ::
  "('c, 'd, 't) sqlite_driver \<Rightarrow> (string \<rightharpoonup> string) \<Rightarrow> (nat \<Rightarrow> bool) \<Rightarrow> ('m, 'c sqlite_provider) table_ops \<Rightarrow> 'm
   \<Rightarrow> nat list \<Rightarrow> (string \<rightharpoonup> 'm) \<Rightarrow> string \<Rightarrow> string \<Rightarrow> (string \<rightharpoonup> string) option \<Rightarrow> bool
   \<Rightarrow> (string \<rightharpoonup> 'c sqlite_entry) option
   \<Rightarrow> (sqlite_catalog_error + (string \<rightharpoonup> 'm)) \<times> (string \<rightharpoonup> 'c sqlite_entry) option" where
  "register_sqlite_catalog D env fires ops new completion session catalog_name db_path options read_write reg =
     (case open_sqlite_pool D db_path (busy_timeout_option options) (read_pool_option options) read_write
             (extensions_option env options) of
        Inl e \<Rightarrow> (Inl (CatalogPoolFailed catalog_name e), reg)
      | Inr (read_pool, wconn) \<Rightarrow>
          (case fst (retry_with_timeout
                  \<lparr>sl_kind = Sqlite, sl_hierarchy = CatalogLevel, sl_name = catalog_name\<rparr>
                  ''sqlite_master introspection''
                  (\<lambda>i. if fires i then TimedOut
                       else case list_sqlite_tables_in_catalog D (hd read_pool) of
                              Inl e \<Rightarrow> Failed e | Inr ts \<Rightarrow> Done ts)) of
             Inl e \<Rightarrow> (Inl (CatalogListFailed e), reg)
           | Inr listed \<Rightarrow>
               let schema_tables = (case parse_allowed_schemas options of
                     Some allowed \<Rightarrow> filter (\<lambda>(schema, _). schema \<in> set allowed) listed
                   | None \<Rightarrow> listed);
                   build = (\<lambda>schema table_name.
                     map_err (\<lambda>e. ''Failed to create SQLite table provider for '' @ quote @ schema @ ''.''
                                   @ table_name @ quote @ '': '' @ e)
                       (from_shared_pool D read_pool wconn table_name read_write))
               in (map_err (CatalogBuildFailed catalog_name)
                     (build_catalog ops new session catalog_name schema_tables build completion),
                   map_option (catalog_entries catalog_name build (map ((!) schema_tables) completion)) reg)))"

definition register_sqlite_tables ::
  "('c, 'd, 't) sqlite_driver \<Rightarrow> (string \<rightharpoonup> string) \<Rightarrow> (nat \<Rightarrow> bool) \<Rightarrow> ('m, 'c sqlite_provider) table_ops \<Rightarrow> 'm
   \<Rightarrow> nat list \<Rightarrow> (string \<rightharpoonup> 'm) \<Rightarrow> ('s \<Rightarrow> string \<Rightarrow> 'c sqlite_provider \<Rightarrow> string + 's) \<Rightarrow> 's
   \<Rightarrow> string \<Rightarrow> string \<Rightarrow> (string \<rightharpoonup> string) option \<Rightarrow> bool \<Rightarrow> (string \<rightharpoonup> 'c sqlite_entry) option
   \<Rightarrow> hierarchy_level
   \<Rightarrow> (sqlite_catalog_error + (string \<rightharpoonup> 'm)) \<times> (string \<rightharpoonup> 'c sqlite_entry) option
      + (string + 's) \<times> (string \<rightharpoonup> 'c sqlite_entry) option" where
  "register_sqlite_tables D env fires ops new completion catalogs register session name db_path options read_write reg level =
     (case level of
        CatalogLevel \<Rightarrow>
          Inl (register_sqlite_catalog D env fires ops new completion catalogs name db_path options read_write reg)
      | TableLevel \<Rightarrow> Inr (register_single_sqlite_table D env register session name db_path options read_write reg))"

section \<open>INSERT is all or nothing\<close>

text \<open>
  What the driver does with the statements of an INSERT into a table with the given columns:
  \<open>rows_of\<close> and \<open>rows_in\<close> are the rows of the table in the database and in a transaction.
\<close>

definition sqlite_tx_serves ::
  "('c, 'd, 't) sqlite_driver \<Rightarrow> ('d \<Rightarrow> sqlite_value list list) \<Rightarrow> ('t \<Rightarrow> sqlite_value list list)
   \<Rightarrow> string \<Rightarrow> string list \<Rightarrow> bool" where
  "sqlite_tx_serves D rows_of rows_in table cols \<longleftrightarrow>
     (\<forall>d t. sd_begin D d = Inr t \<longrightarrow> rows_in t = rows_of d)
   \<and> (\<forall>t t'. sd_tx_execute D t (''DELETE FROM '' @ quote_sqlite_table table) [] = Inr t' \<longrightarrow> rows_in t' = [])
   \<and> (\<forall>t vs t'. sd_tx_execute D t (sqlite_insert_sql table cols) vs = Inr t' \<longrightarrow> rows_in t' = rows_in t @ [vs])
   \<and> (\<forall>t d. sd_commit D t = Inr d \<longrightarrow> rows_of d = rows_in t)"

lemma insert_row_Pair:
  "insert_row D sql (tx, n) vs = try_res (sd_tx_execute D tx sql vs) (\<lambda>tx'. Inr (tx', n + 1))"
  by (simp add: insert_row_def)

lemma insert_rows:
  assumes "sqlite_tx_serves D rows_of rows_in table cols"
    and "fold_res (insert_row D (sqlite_insert_sql table cols)) (t, n) rows = Inr (t', n')"
  shows "rows_in t' = rows_in t @ rows \<and> n' = n + of_nat (length rows)"
  using assms(2)
proof (induction rows arbitrary: t n)
  case (Cons row rows)
  then obtain t1 where t1: "sd_tx_execute D t (sqlite_insert_sql table cols) row = Inr t1"
    "fold_res (insert_row D (sqlite_insert_sql table cols)) (t1, n + 1) rows = Inr (t', n')"
    by (auto simp: insert_row_Pair res_simps)
  from assms(1) t1(1) have "rows_in t1 = rows_in t @ [row]" unfolding sqlite_tx_serves_def by blast
  with Cons.IH [OF t1(2)] show ?case by simp
qed simp

definition batch_values :: "sqlite_floats \<Rightarrow> sq_input \<Rightarrow> sqlite_value list list" where
  "batch_values F b = map (input_row F b) [0..<si_rows b]"

lemma insert_batches:
  assumes "sqlite_tx_serves D rows_of rows_in table cols"
    and "fold_res (insert_batch D F (sqlite_insert_sql table cols)) (t, n) bs = Inr (t', n')"
  shows "rows_in t' = rows_in t @ concat (map (batch_values F) bs)
    \<and> n' = n + of_nat (sum_list (map si_rows bs))"
  using assms(2)
proof (induction bs arbitrary: t n)
  case (Cons b bs)
  then obtain t1 n1 where s: "insert_batch D F (sqlite_insert_sql table cols) (t, n) b = Inr (t1, n1)"
    "fold_res (insert_batch D F (sqlite_insert_sql table cols)) (t1, n1) bs = Inr (t', n')"
    by (auto simp: res_simps)
  from insert_rows [OF assms(1) s(1) [unfolded insert_batch_def]] Cons.IH [OF s(2)]
  show ?case by (simp add: batch_values_def)
qed simp

lemma concat_nonempty_batches:
  "concat (map (batch_values F) (filter (\<lambda>b. 0 < si_rows b) bs)) = concat (map (batch_values F) bs)
   \<and> sum_list (map si_rows (filter (\<lambda>b. 0 < si_rows b) bs)) = sum_list (map si_rows bs)"
  by (induction bs) (auto simp: batch_values_def)

lemma insert_tx_rows:
  assumes "sqlite_tx_serves D rows_of rows_in table cols"
    and "sqlite_insert_tx D F table iop cols bs d = Inr (n, d')"
  shows "rows_of d' = (if iop = InsertOverwrite then [] else rows_of d) @ concat (map (batch_values F) bs)
    \<and> n = of_nat (sum_list (map si_rows bs))"
proof -
  from assms(2) obtain t0 t1 t2 where t: "sd_begin D d = Inr t0"
    "(if iop = InsertOverwrite then sd_tx_execute D t0 (''DELETE FROM '' @ quote_sqlite_table table) []
      else Inr t0) = Inr t1"
    "fold_res (insert_batch D F (sqlite_insert_sql table cols)) (t1, 0) bs = Inr (t2, n)"
    "sd_commit D t2 = Inr d'"
    by (auto simp: sqlite_insert_tx_def res_simps)
  from assms(1) t(1,2) have "rows_in t1 = (if iop = InsertOverwrite then [] else rows_of d)"
    unfolding sqlite_tx_serves_def by (metis sum.inject(2))
  moreover from assms(1) t(4) have "rows_of d' = rows_in t2" unfolding sqlite_tx_serves_def by blast
  ultimately show ?thesis using insert_batches [OF assms(1) t(3)] by simp
qed

text \<open>
  C16. An INSERT is all or nothing: if it fails, in the input or in any statement, the database is
  what it was; if it succeeds, the table holds its old rows (none after an overwrite) and then
  every row of the input in order, and the count reported is their number.
\<close>

theorem sqlite_insert_all_or_nothing:
  assumes "sqlite_tx_serves D rows_of rows_in (sn_table x) cols"
    and "sqlite_insert_execute D F x cols input d = (r, d')"
  shows "case r of
      Inl _ \<Rightarrow> d' = d
    | Inr n \<Rightarrow> \<exists>bs. input = map Inr bs
        \<and> rows_of d' = (if sn_op x = InsertOverwrite then [] else rows_of d) @ concat (map (batch_values F) bs)
        \<and> n = of_nat (sum_list (map si_rows bs))"
proof (cases r)
  case (Inl e)
  then show ?thesis
    using assms(2) by (auto simp: sqlite_insert_execute_def split: sum.splits)
next
  case (Inr n)
  with assms(2) obtain bs where bs: "collect_res input = Inr bs"
    "sqlite_insert_tx D F (sn_table x) (sn_op x) cols (filter (\<lambda>b. 0 < si_rows b) bs) d = Inr (n, d')"
    by (auto simp: sqlite_insert_execute_def split: sum.splits)
  from insert_tx_rows [OF assms(1) bs(2)] bs(1) Inr show ?thesis
    by (auto simp: collect_res_Inr_iff concat_nonempty_batches)
qed

text \<open>A driver whose database is the rows of one table, with a limit on what a row may hold.\<close>

definition list_driver :: "(nat, sqlite_value list list, sqlite_value list list) sqlite_driver" where
  "list_driver =
     \<lparr>sd_open = (\<lambda>_ n. Inr n), sd_init = (\<lambda>_ _ _. Inr ()),
      sd_table_info = (\<lambda>_ _. Inr [(''id'', ''INTEGER'', True, True), (''name'', ''TEXT'', False, False)]),
      sd_table_sql = (\<lambda>_ _. None), sd_list_tables = (\<lambda>_. Inr [''t'']),
      sd_unparse = (\<lambda>e. case e of EOther s \<Rightarrow> Inr s | _ \<Rightarrow> Inl ''unsupported''),
      sd_query = (\<lambda>d _. Inr d), sd_execute = (\<lambda>d _. (Inr 0, [])),
      sd_begin = Inr,
      sd_tx_execute = (\<lambda>t sql vs. if starts_with ''DELETE'' sql then Inr []
         else if SqNull \<in> set vs then Inl ''NOT NULL constraint failed'' else Inr (t @ [vs])),
      sd_commit = Inr\<rparr>"

lemma list_driver_serves: "sqlite_tx_serves list_driver id id table cols"
  by (auto simp: sqlite_tx_serves_def list_driver_def sqlite_insert_sql_def starts_with_def split: if_splits)

definition demo_sq_floats :: sqlite_floats where
  "demo_sq_floats = \<lparr>sf_of_i64 = show_signed, sf_widen = id, sf_debug = (\<lambda>_. ''PrimitiveArray'')\<rparr>"

theorem sqlite_insert_all_or_nothing_witness:
  "(case Inl ''SQLite INSERT error: NOT NULL constraint failed'' of
      Inl _ \<Rightarrow> [[SqInteger 7]] = [[SqInteger 7]]
    | Inr n \<Rightarrow> \<exists>bs. [Inr \<lparr>si_columns = [[CellScalar (SvInt32 (Some 1)), CellScalar SvNull]], si_rows = 2\<rparr>] = map Inr bs
        \<and> id [[SqInteger 7]] = [] @ concat (map (batch_values demo_sq_floats) bs)
        \<and> n = (of_nat (sum_list (map si_rows bs)) :: 64 word))"
proof -
  let ?x = "\<lparr>sn_conn = 0, sn_table = ''t'', sn_op = InsertOverwrite\<rparr>"
  have s: "sqlite_tx_serves list_driver id id (sn_table ?x) [''id'']" by (rule list_driver_serves)
  have e: "sqlite_insert_execute list_driver demo_sq_floats ?x [''id'']
     [Inr \<lparr>si_columns = [[CellScalar (SvInt32 (Some 1)), CellScalar SvNull]], si_rows = 2\<rparr>] [[SqInteger 7]] =
     (Inl ''SQLite INSERT error: NOT NULL constraint failed'', [[SqInteger 7]])" by code_simp
  show ?thesis using sqlite_insert_all_or_nothing [OF s e] by simp
qed

section \<open>Filters\<close>

lemma where_clause_parts:
  assumes "build_sqlite_where_clause unparse filters = Inr w" and "filters \<noteq> []"
  shows "\<exists>parts. map unparse filters = map Inr parts \<and> w = '' WHERE '' @ str_join '' AND '' parts"
  using assms by (auto simp: build_sqlite_where_clause_def try_res_Inr_iff collect_map_err)

text \<open>The clause states the conjunction of the filters when each is rendered as one conjunct.\<close>

definition renders_conjuncts :: "(expr \<Rightarrow> string + string) \<Rightarrow> expr list \<Rightarrow> bool" where
  "renders_conjuncts unparse filters \<longleftrightarrow>
     list_all (\<lambda>e. case unparse e of Inr s \<Rightarrow> conjunct_text s | Inl _ \<Rightarrow> True) filters"

definition clause_states :: "(expr \<Rightarrow> string + string) \<Rightarrow> expr list \<Rightarrow> string \<Rightarrow> bool" where
  "clause_states unparse filters w \<longleftrightarrow>
     (if filters = [] then w = []
      else \<exists>body. w = '' WHERE '' @ body
        \<and> (\<forall>v. where_holds v body = list_all (\<lambda>e. where_holds v (projr (unparse e))) filters))"

lemma where_clause_states:
  assumes "build_sqlite_where_clause unparse filters = Inr w" and "renders_conjuncts unparse filters"
  shows "clause_states unparse filters w"
proof (cases "filters = []")
  case True
  with assms show ?thesis by (simp add: clause_states_def build_sqlite_where_clause_def)
next
  case False
  from where_clause_parts [OF assms(1) False] obtain parts where
    p: "map unparse filters = map Inr parts" "w = '' WHERE '' @ str_join '' AND '' parts" by blast
  then have parts: "parts = map (\<lambda>e. projr (unparse e)) filters"
    by (simp add: list_eq_iff_nth_eq)
  from p(1) assms(2) have c: "list_all conjunct_text parts"
    by (auto simp: renders_conjuncts_def list_all_length list_eq_iff_nth_eq)
  have "where_holds v (str_join '' AND '' parts) = list_all (\<lambda>e. where_holds v (projr (unparse e))) filters" for v
    unfolding join_and_holds [OF _ c, of v] using False join_and_holds [OF _ c, of v]
    by (simp add: parts list_all_iff)
  with p(2) False show ?thesis by (auto simp: clause_states_def)
qed

text \<open>
  C24. The WHERE clause of the three generated statements means the conjunction of the filters,
  whatever the engine's unparser renders them to, as long as it leaves no \<open>OR\<close> outside
  parentheses: a SELECT, DELETE or UPDATE that is generated addresses the rows of the quoted
  table that satisfy all filters, and has no clause when there is no filter.
\<close>

theorem sqlite_statements_state_filters:
  assumes "renders_conjuncts (sd_unparse D) filters"
  shows "(\<forall>dx. sqlite_delete_from D p filters = Inr dx \<longrightarrow>
      (\<exists>w. sm_sql dx = ''DELETE FROM '' @ quote_sqlite_table (sq_table p) @ w \<and> clause_states (sd_unparse D) filters w))
    \<and> (\<forall>ux. sqlite_update D p assignments filters = Inr ux \<longrightarrow>
      (\<exists>sets w. sm_sql ux = ''UPDATE '' @ quote_sqlite_table (sq_table p) @ '' SET '' @ sets @ w
        \<and> clause_states (sd_unparse D) filters w))
    \<and> (\<forall>x sql. ss_filters x = filters \<longrightarrow> sqlite_build_sql (sd_unparse D) x = Inr sql \<longrightarrow>
      (\<exists>cols w. sql = ''SELECT '' @ cols @ '' FROM '' @ quote_sqlite_table (ss_table x) @ w
          @ (case ss_limit x of Some n \<Rightarrow> '' LIMIT '' @ show_nat n | None \<Rightarrow> [])
        \<and> clause_states (sd_unparse D) filters w))"
proof (intro conjI allI impI)
  note st = where_clause_states [OF _ assms]
  fix dx assume "sqlite_delete_from D p filters = Inr dx"
  then show "\<exists>w. sm_sql dx = ''DELETE FROM '' @ quote_sqlite_table (sq_table p) @ w \<and> clause_states (sd_unparse D) filters w"
    by (auto simp: sqlite_delete_from_def res_simps intro: st)
next
  note st = where_clause_states [OF _ assms]
  fix ux assume "sqlite_update D p assignments filters = Inr ux"
  then obtain sets w where "sm_sql ux = ''UPDATE '' @ quote_sqlite_table (sq_table p) @ '' SET '' @ str_join '', '' sets @ w"
    "build_sqlite_where_clause (sd_unparse D) filters = Inr w"
    by (auto simp: sqlite_update_def res_simps split: if_splits)
  with st show "\<exists>sets w. sm_sql ux = ''UPDATE '' @ quote_sqlite_table (sq_table p) @ '' SET '' @ sets @ w
        \<and> clause_states (sd_unparse D) filters w"
    by blast
next
  note st = where_clause_states [OF _ assms]
  fix x :: "'f sqlite_scan" and sql
  assume "ss_filters x = filters" "sqlite_build_sql (sd_unparse D) x = Inr sql"
  then obtain cols w where "sql = ''SELECT '' @ cols @ '' FROM '' @ quote_sqlite_table (ss_table x) @ w
          @ (case ss_limit x of Some n \<Rightarrow> '' LIMIT '' @ show_nat n | None \<Rightarrow> [])"
    "build_sqlite_where_clause (sd_unparse D) filters = Inr w"
    by (fastforce simp: sqlite_build_sql_def Let_def try_res_Inr_iff)
  with st show "\<exists>cols w. sql = ''SELECT '' @ cols @ '' FROM '' @ quote_sqlite_table (ss_table x) @ w
          @ (case ss_limit x of Some n \<Rightarrow> '' LIMIT '' @ show_nat n | None \<Rightarrow> [])
        \<and> clause_states (sd_unparse D) filters w"
    by blast
qed

text \<open>Filters rendered as \<open>x = 1 OR y = 2\<close> in parentheses and \<open>z = 3\<close>.\<close>

theorem sqlite_statements_state_filters_witness:
  "clause_states (sd_unparse list_driver) [EOther ''(x = 1 OR y = 2)'', EOther ''z = 3'']
     '' WHERE (x = 1 OR y = 2) AND z = 3''"
proof -
  let ?f = "[EOther ''(x = 1 OR y = 2)'', EOther ''z = 3'']"
  let ?p = "\<lparr>sq_read_pool = [0], sq_read_pool_idx = 0, sq_write_conn = Some 1, sq_table = ''t'', sq_schema = [],
    sq_read_write = True\<rparr> :: nat sqlite_provider"
  have r: "renders_conjuncts (sd_unparse list_driver) ?f" by code_simp
  have d: "sqlite_delete_from list_driver ?p ?f =
      Inr \<lparr>sm_conn = 1, sm_sql = ''DELETE FROM '' @ quote_sqlite_table ''t'' @ '' WHERE (x = 1 OR y = 2) AND z = 3''\<rparr>"
    by code_simp
  show ?thesis using sqlite_statements_state_filters [OF r, of ?p] d by fastforce
qed

section \<open>Values\<close>

text \<open>A scalar of the array type that belongs to a column type.\<close>

definition scalar_of_type :: "arrow_type \<Rightarrow> scalar \<Rightarrow> bool" where
  "scalar_of_type ty v \<longleftrightarrow>
     (case v of
        SvInt64 _ \<Rightarrow> ty = AtInt64 | SvFloat64 _ \<Rightarrow> ty = AtFloat64 | SvBoolean _ \<Rightarrow> ty = AtBoolean
      | SvBinary _ \<Rightarrow> ty = AtBinary | SvUtf8 _ \<Rightarrow> ty = AtUtf8 | _ \<Rightarrow> False)"

lemma cell_roundtrip:
  assumes "scalar_of_type ty v" and "array ! i = CellScalar v"
  shows "sqlite_value_to_arrow F ty (arrow_value_to_sqlite F array i) = v"
  using assms
  by (cases v) (auto simp: scalar_of_type_def sqlite_value_to_arrow_def arrow_value_to_sqlite_def Let_def split: option.splits)

text \<open>
  What SQLite stores for a bound value, as its documentation on datatypes states it: the affinity of
  a column follows from its declared type; text of a numeric form is stored as the number in a
  column of numeric or integer affinity (\<open>number_text\<close> reads such a text), a number as text in one
  of text affinity, an integer as a real in one of real affinity, and a real that is an integer
  (\<open>real_int\<close>) as that integer in one of numeric or integer affinity. A NaN is stored as null.
\<close>

datatype affinity = IntegerAffinity | TextAffinity | BlobAffinity | RealAffinity | NumericAffinity

definition column_affinity :: "string \<Rightarrow> affinity" where
  "column_affinity decl =
     (let upper = to_uppercase decl in
      if str_contains ''INT'' upper then IntegerAffinity
      else if str_contains ''CHAR'' upper \<or> str_contains ''CLOB'' upper \<or> str_contains ''TEXT'' upper
      then TextAffinity
      else if upper = [] \<or> str_contains ''BLOB'' upper then BlobAffinity
      else if str_contains ''REAL'' upper \<or> str_contains ''FLOA'' upper \<or> str_contains ''DOUB'' upper
      then RealAffinity
      else NumericAffinity)"

record sqlite_storage =
  number_text :: "string \<Rightarrow> sqlite_value option"
  real_int :: "string \<Rightarrow> 64 word option"
  real_text :: "string \<Rightarrow> string"
  int_real :: "64 word \<Rightarrow> string"
  is_nan :: "string \<Rightarrow> bool"

fun sqlite_store :: "sqlite_storage \<Rightarrow> affinity \<Rightarrow> sqlite_value \<Rightarrow> sqlite_value" where
  "sqlite_store S aff SqNull = SqNull"
| "sqlite_store S aff (SqBlob b) = SqBlob b"
| "sqlite_store S aff (SqInteger i) =
     (case aff of TextAffinity \<Rightarrow> SqText (show_signed i) | RealAffinity \<Rightarrow> SqReal (int_real S i)
      | _ \<Rightarrow> SqInteger i)"
| "sqlite_store S aff (SqReal f) =
     (if is_nan S f then SqNull
      else case aff of
          TextAffinity \<Rightarrow> SqText (real_text S f)
        | RealAffinity \<Rightarrow> SqReal f
        | BlobAffinity \<Rightarrow> SqReal f
        | _ \<Rightarrow> (case real_int S f of Some i \<Rightarrow> SqInteger i | None \<Rightarrow> SqReal f))"
| "sqlite_store S aff (SqText s) =
     (case aff of
        TextAffinity \<Rightarrow> SqText s
      | BlobAffinity \<Rightarrow> SqText s
      | RealAffinity \<Rightarrow> (case number_text S s of Some (SqInteger i) \<Rightarrow> SqReal (int_real S i)
                         | Some n \<Rightarrow> n | None \<Rightarrow> SqText s)
      | _ \<Rightarrow> (case number_text S s of Some n \<Rightarrow> n | None \<Rightarrow> SqText s))"

text \<open>
  The columns and values that SQLite keeps as they are: a floating-point column has a declared type
  of real affinity, a boolean one of numeric affinity; no float is a NaN; and in a column that has
  neither text nor blob affinity no text reads as a number.
\<close>

definition affinity_fits :: "arrow_type \<Rightarrow> affinity \<Rightarrow> bool" where
  "affinity_fits ty aff \<longleftrightarrow>
     (ty = AtFloat64 \<longrightarrow> aff = RealAffinity) \<and> (ty = AtBoolean \<longrightarrow> aff = NumericAffinity)"

definition kept_exactly :: "sqlite_storage \<Rightarrow> affinity \<Rightarrow> scalar \<Rightarrow> bool" where
  "kept_exactly S aff v \<longleftrightarrow>
     (case v of
        SvFloat64 (Some f) \<Rightarrow> \<not> is_nan S f
      | SvUtf8 (Some s) \<Rightarrow> aff \<in> {TextAffinity, BlobAffinity} \<or> number_text S s = None
      | _ \<Rightarrow> True)"

lemma int64_affinity:
  "sqlite_type_to_arrow decl is_pk = AtInt64 \<Longrightarrow> column_affinity decl \<in> {IntegerAffinity, BlobAffinity}"
  by (auto simp: sqlite_type_to_arrow_def column_affinity_def Let_def split: if_splits)

lemma stored_value_kept:
  assumes "ty = sqlite_type_to_arrow decl is_pk" and "scalar_of_type ty v"
    and "affinity_fits ty (column_affinity decl)" and "kept_exactly S (column_affinity decl) v"
    and "array ! i = CellScalar v"
  shows "sqlite_store S (column_affinity decl) (arrow_value_to_sqlite F array i) = arrow_value_to_sqlite F array i"
proof -
  have "v \<in> range SvInt64 \<Longrightarrow> column_affinity decl \<in> {IntegerAffinity, BlobAffinity}"
    using assms(1,2) int64_affinity [of decl is_pk] by (auto simp: scalar_of_type_def)
  with assms(2-5) show ?thesis
    by (cases v)
      (auto simp: scalar_of_type_def arrow_value_to_sqlite_def Let_def affinity_fits_def kept_exactly_def
        split: option.splits affinity.splits)
qed

text \<open>
  C25. A column of one of the five types the schema of a SQLite table can have is stored and read
  back cell by cell, nulls included, through SQLite's own storage rules: for a column whose declared
  type has the affinity of its Arrow type, without NaN, and without text that reads as a number
  unless the column has text or blob affinity.
\<close>

theorem sqlite_cells_roundtrip:
  assumes "ty = sqlite_type_to_arrow decl is_pk" and "list_all (scalar_of_type ty) column"
    and "affinity_fits ty (column_affinity decl)"
    and "list_all (kept_exactly S (column_affinity decl)) column"
  shows "sqlite_values_to_arrow F (map (\<lambda>i. sqlite_store S (column_affinity decl)
      (arrow_value_to_sqlite F (map CellScalar column) i)) [0..<length column]) ty = column"
proof (rule nth_equalityI)
  fix i assume "i < length (sqlite_values_to_arrow F (map (\<lambda>i. sqlite_store S (column_affinity decl)
      (arrow_value_to_sqlite F (map CellScalar column) i)) [0..<length column]) ty)"
  then have i: "i < length column" by (simp add: sqlite_values_to_arrow_def)
  have at: "map CellScalar column ! i = CellScalar (column ! i)" using i by simp
  have v: "scalar_of_type ty (column ! i)" "kept_exactly S (column_affinity decl) (column ! i)"
    using assms(2,4) i by (simp_all add: list_all_length)
  show "sqlite_values_to_arrow F (map (\<lambda>i. sqlite_store S (column_affinity decl)
      (arrow_value_to_sqlite F (map CellScalar column) i)) [0..<length column]) ty ! i = column ! i"
    using i cell_roundtrip [OF v(1) at, of F] stored_value_kept [OF assms(1) v(1) assms(3) v(2) at, of F]
    by (simp add: sqlite_values_to_arrow_def)
qed (simp add: sqlite_values_to_arrow_def)

text \<open>An instance in which only \<open>007\<close> and \<open>7\<close> read as a number.\<close>

definition demo_storage :: sqlite_storage where
  "demo_storage = \<lparr>number_text = (\<lambda>s. if s = ''007'' \<or> s = ''7'' then Some (SqInteger 7) else None),
     real_int = (\<lambda>_. None), real_text = id, int_real = show_signed, is_nan = (\<lambda>f. f = ''NaN'')\<rparr>"

theorem sqlite_cells_roundtrip_witness:
  "sqlite_values_to_arrow demo_sq_floats
     (map (\<lambda>i. sqlite_store demo_storage (column_affinity ''varchar(9)'')
        (arrow_value_to_sqlite demo_sq_floats (map CellScalar [SvUtf8 (Some ''007''), SvUtf8 None]) i))
        [0..<length [SvUtf8 (Some ''007''), SvUtf8 None]]) AtUtf8 = [SvUtf8 (Some ''007''), SvUtf8 None]"
proof (rule sqlite_cells_roundtrip)
  show "AtUtf8 = sqlite_type_to_arrow ''varchar(9)'' False" by code_simp
  show "list_all (scalar_of_type AtUtf8) [SvUtf8 (Some ''007''), SvUtf8 None]" by (simp add: scalar_of_type_def)
  show "affinity_fits AtUtf8 (column_affinity ''varchar(9)'')" by (simp add: affinity_fits_def)
  have "column_affinity ''varchar(9)'' = TextAffinity" by code_simp
  then show "list_all (kept_exactly demo_storage (column_affinity ''varchar(9)'')) [SvUtf8 (Some ''007''), SvUtf8 None]"
    by (simp add: kept_exactly_def)
qed

text \<open>
  A column of another declared type is shown as text but may have numeric affinity, and then SQLite
  rewrites what is inserted: \<open>007\<close> in a \<open>DECIMAL\<close> column is read back as \<open>7\<close>, and a NaN as null.
\<close>

theorem numeric_columns_rewrite_text:
  "sqlite_type_to_arrow ''DECIMAL(4)'' False = AtUtf8
   \<and> sqlite_value_to_arrow F AtUtf8 (sqlite_store demo_storage (column_affinity ''DECIMAL(4)'')
       (arrow_value_to_sqlite F [CellScalar (SvUtf8 (Some ''007''))] 0)) = SvUtf8 (Some ''7'')
   \<and> sqlite_value_to_arrow F AtFloat64 (sqlite_store demo_storage RealAffinity
       (arrow_value_to_sqlite F [CellScalar (SvFloat64 (Some ''NaN''))] 0)) = SvFloat64 None"
proof -
  have "column_affinity ''DECIMAL(4)'' = NumericAffinity" "sqlite_type_to_arrow ''DECIMAL(4)'' False = AtUtf8"
    "show_signed (7 :: 64 word) = ''7''"
    by code_simp+
  then show ?thesis
    by (simp add: arrow_value_to_sqlite_def demo_storage_def sqlite_value_to_arrow_def Let_def)
qed

text \<open>
  A cell of a type without a conversion (a date, a timestamp, a decimal) is not stored as its
  own value: every row gets the text of the whole column.
\<close>

theorem other_types_store_the_column:
  assumes "array ! i = CellScalar (SvOther a)" and "array ! j = CellScalar (SvOther b)"
  shows "arrow_value_to_sqlite F array i = SqText (sf_debug F array)
    \<and> arrow_value_to_sqlite F array j = arrow_value_to_sqlite F array i"
  using assms by (simp add: arrow_value_to_sqlite_def)

theorem other_types_store_the_column_witness:
  "arrow_value_to_sqlite demo_sq_floats [CellScalar (SvOther ''2024-01-01''), CellScalar (SvOther ''2025-01-01'')] 1 =
   arrow_value_to_sqlite demo_sq_floats [CellScalar (SvOther ''2024-01-01''), CellScalar (SvOther ''2025-01-01'')] 0"
  using other_types_store_the_column [of "[CellScalar (SvOther ''2024-01-01''), CellScalar (SvOther ''2025-01-01'')]" 0
      "''2024-01-01''" 1 "''2025-01-01''" demo_sq_floats] by simp

section \<open>Connections\<close>

lemma open_pool_shape:
  assumes "open_sqlite_pool D db timeout sz rw exts = Inr (pool, w)"
  shows "length pool = max sz 1" and "w = None \<longleftrightarrow> \<not> rw"
proof -
  from assms have "map (open_connection D ''read'' db timeout exts) [0..<max sz 1] = map Inr pool"
    by (auto simp: open_sqlite_pool_def Let_def res_simps collect_res_Inr_iff)
  then show "length pool = max sz 1" by (metis length_map length_upt diff_zero)
  show "w = None \<longleftrightarrow> \<not> rw"
    using assms by (auto simp: open_sqlite_pool_def Let_def try_res_Inr_iff split: if_splits)
qed

lemma provider_new_shape:
  assumes "sqlite_provider_new D db t timeout sz rw exts = Inr p"
  shows "length (sq_read_pool p) = max sz 1" and "sq_write_conn p = None \<longleftrightarrow> \<not> rw"
    and "sq_read_pool_idx p = 0" and "sq_table p = t"
proof -
  from assms obtain pool w where "open_sqlite_pool D db timeout sz rw exts = Inr (pool, w)"
    "from_shared_pool D pool w t rw = Inr p"
    by (auto simp: sqlite_provider_new_def res_simps)
  with open_pool_shape show "length (sq_read_pool p) = max sz 1" "sq_write_conn p = None \<longleftrightarrow> \<not> rw"
    "sq_read_pool_idx p = 0" "sq_table p = t"
    by (fastforce simp: from_shared_pool_def try_res_Inr_iff split: list.splits)+
qed

text \<open>
  A provider opened read-only has no connection to write on and refuses INSERT, UPDATE and
  DELETE; one opened for writing accepts every INSERT. Its pool is never empty.
\<close>

theorem sqlite_read_only_refuses_writes:
  assumes "sqlite_provider_new D db t timeout sz rw exts = Inr p"
  shows "length (sq_read_pool p) = max sz 1 \<and> is_ok (sqlite_insert_into p iop) = rw
    \<and> (is_ok (sqlite_delete_from D p filters) \<longrightarrow> rw) \<and> (is_ok (sqlite_update D p assignments filters) \<longrightarrow> rw)"
proof -
  have "is_ok (write_conn p) = rw"
    using provider_new_shape [OF assms] by (cases "sq_write_conn p") (auto simp: write_conn_def ok_or_def is_ok_def)
  then show ?thesis
    using provider_new_shape(1) [OF assms]
    by (auto simp: sqlite_insert_into_def sqlite_delete_from_def sqlite_update_def is_ok_iff res_simps split: if_splits)
qed

theorem sqlite_read_only_refuses_writes_witness:
  "\<exists>p. sqlite_provider_new list_driver ''/a.db'' ''t'' 5000 0 False [] = Inr p \<and> length (sq_read_pool p) = 1
     \<and> \<not> is_ok (sqlite_delete_from list_driver p [])"
proof -
  have "sqlite_provider_new list_driver ''/a.db'' ''t'' 5000 0 False [] =
    Inr \<lparr>sq_read_pool = [0], sq_read_pool_idx = 0, sq_write_conn = None, sq_table = ''t'',
      sq_schema = [\<lparr>af_name = ''id'', af_type = AtInt64, af_nullable = False\<rparr>,
                   \<lparr>af_name = ''name'', af_type = AtUtf8, af_nullable = True\<rparr>], sq_read_write = False\<rparr>"
    (is "_ = Inr ?p")
    by code_simp
  from sqlite_read_only_refuses_writes [OF this, of InsertAppend "[]" "[]"] this show ?thesis by auto
qed

text \<open>The connections of the next scans.\<close>

fun read_conns :: "nat \<Rightarrow> 'c sqlite_provider \<Rightarrow> 'c list" where
  "read_conns 0 p = []"
| "read_conns (Suc n) p = fst (next_read_conn p) # read_conns n (snd (next_read_conn p))"

lemma read_conns_nth:
  assumes "unat (sq_read_pool_idx p) + n \<le> 2 ^ 64"
  shows "read_conns n p =
    map (\<lambda>i. sq_read_pool p ! ((unat (sq_read_pool_idx p) + i) mod length (sq_read_pool p))) [0..<n]"
  using assms
proof (induction n arbitrary: p)
  case (Suc n)
  show ?case
  proof (cases "n = 0")
    case False
    with Suc.prems have "unat (sq_read_pool_idx p + 1) = Suc (unat (sq_read_pool_idx p))"
      by (simp add: unat_word_ariths)
    with Suc.IH [of "snd (next_read_conn p)"] Suc.prems show ?thesis
      by (simp add: next_read_conn_def upt_conv_Cons map_Suc_upt [symmetric] comp_def del: upt_Suc)
  qed (simp add: next_read_conn_def)
qed simp

lemma mset_rotate_eq: "mset (rotate k xs) = mset xs"
proof (induction k)
  case (Suc k)
  have "mset (rotate1 ys) = mset ys" for ys :: "'a list" by (cases ys) auto
  with Suc show ?case by simp
qed simp

text \<open>
  Scans share the read connections evenly: as many scans in a row as there are connections
  use each connection of the pool exactly once, starting wherever the counter stands (until it
  wraps around at 64 bits).
\<close>

theorem read_connections_are_shared_evenly:
  assumes "unat (sq_read_pool_idx p) + length (sq_read_pool p) \<le> 2 ^ 64"
  shows "mset (read_conns (length (sq_read_pool p)) p) = mset (sq_read_pool p)"
proof -
  have "read_conns (length (sq_read_pool p)) p = rotate (unat (sq_read_pool_idx p)) (sq_read_pool p)"
    unfolding read_conns_nth [OF assms] by (rule nth_equalityI) (simp_all add: nth_rotate)
  then show ?thesis by (simp add: mset_rotate_eq)
qed

theorem read_connections_are_shared_evenly_witness:
  "mset (read_conns (length [10, 11, 12 :: nat])
     \<lparr>sq_read_pool = [10, 11, 12 :: nat], sq_read_pool_idx = 2, sq_write_conn = None, sq_table = ''t'', sq_schema = [],
      sq_read_write = False\<rparr>) = mset [10, 11, 12]"
  using read_connections_are_shared_evenly [of "\<lparr>sq_read_pool = [10, 11, 12 :: nat], sq_read_pool_idx = 2,
     sq_write_conn = None, sq_table = ''t'', sq_schema = [], sq_read_write = False\<rparr>"]
  unfolding sqlite_provider.simps by (simp del: mset.simps read_conns.simps)

section \<open>Quoting\<close>

lemma quote_sqlite_ident_reads: "read_quoted dquote (quote_sqlite_ident s) = Some (s, [])"
  using read_body_quoted [of "[]" dquote s] by (simp add: quote_sqlite_ident_def)

lemma read_body_plain:
  assumes "q \<notin> set a" and "b = [] \<or> hd b \<noteq> q"
  shows "read_body q (a @ q # b) = Some (a, b)"
  using assms(1)
proof (induction a)
  case Nil
  with assms(2) show ?case by (cases b) auto
qed auto

text \<open>
  The pragma that reads a table's columns does not double a quote of the table's name, as the
  other statements do: for a name with a double quote it reads the table named by the part
  before it.
\<close>

theorem pragma_reads_another_table:
  assumes "dquote \<notin> set a" and "b = [] \<or> hd b \<noteq> dquote" and "b \<noteq> []"
  shows "read_quoted dquote (drop (length ''PRAGMA table_info('') (pragma_table_info (a @ [dquote] @ b))) =
      Some (a, b @ [dquote] @ '')'')
    \<and> read_quoted dquote (quote_sqlite_table (a @ [dquote] @ b)) = Some (a @ [dquote] @ b, [])"
proof -
  have "hd (b @ [dquote] @ '')'') \<noteq> dquote" using assms(2,3) by (cases b) auto
  then have "read_body dquote (a @ dquote # b @ [dquote] @ '')'') = Some (a, b @ [dquote] @ '')'')"
    using assms(1) by (intro read_body_plain) auto
  then show ?thesis
    by (simp add: pragma_table_info_def quote_sqlite_table_def quote_sqlite_ident_reads)
qed

theorem pragma_reads_another_table_witness:
  "read_quoted dquote (drop (length ''PRAGMA table_info('') (pragma_table_info (''my'' @ [dquote] @ ''table''))) =
     Some (''my'', ''table'' @ [dquote] @ '')'')"
  using pragma_reads_another_table [of "''my''" "''table''"] by (simp add: dquote_def)

section \<open>Registration\<close>

text \<open>
  A table whose registration with the session fails is refused, but its entry for the search
  functions stays: the registry then answers for a table the session does not have.
\<close>

theorem failed_registration_keeps_entry:
  assumes "options = Some opts" and "opts ''table'' = Some t"
    and "sqlite_provider_new D db t (busy_timeout_option options) (read_pool_option options) rw
      (extensions_option env options) = Inr p"
    and "register session name p = Inl e"
  shows "\<exists>msg reg'. register_single_sqlite_table D env register session name db options rw (Some reg) = (Inl msg, Some reg')
    \<and> reg' name = Some (sqlite_entry_of p t)"
  using assms by (simp add: register_single_sqlite_table_def)

theorem failed_registration_keeps_entry_witness:
  "\<exists>msg reg'. register_single_sqlite_table list_driver Map.empty (\<lambda>_ _ _. Inl ''exists'') () ''s'' ''/a.db''
      (Some [''table'' \<mapsto> ''t'']) False (Some Map.empty) = (Inl msg, Some reg')
    \<and> reg' ''s'' = Some \<lparr>sy_conn = 0, sy_table = ''t'', sy_columns = [(''id'', AtInt64), (''name'', AtUtf8)]\<rparr>"
proof -
  let ?o = "[''table'' \<mapsto> ''t'']"
  let ?p = "\<lparr>sq_read_pool = [0, 1, 2, 3], sq_read_pool_idx = 0, sq_write_conn = None, sq_table = ''t'',
      sq_schema = [\<lparr>af_name = ''id'', af_type = AtInt64, af_nullable = False\<rparr>,
                   \<lparr>af_name = ''name'', af_type = AtUtf8, af_nullable = True\<rparr>], sq_read_write = False\<rparr>"
  have p: "sqlite_provider_new list_driver ''/a.db'' ''t'' (busy_timeout_option (Some ?o)) (read_pool_option (Some ?o)) False
      (extensions_option Map.empty (Some ?o)) = Inr ?p" by code_simp
  have e: "sqlite_entry_of ?p ''t'' = \<lparr>sy_conn = 0, sy_table = ''t'', sy_columns = [(''id'', AtInt64), (''name'', AtUtf8)]\<rparr>"
    by (simp add: sqlite_entry_of_def)
  have t: "?o ''table'' = Some ''t''" by simp
  show ?thesis
    using failed_registration_keeps_entry [OF refl t p, of "\<lambda>_ _ _. Inl ''exists''" "()" "''s''" "''exists''" Map.empty]
    unfolding e by simp
qed

end
