(* ===== verification/Pg_Provider.thy ===== *)
theory Pg_Provider
  imports Sqlite_Provider
begin

text \<open>
  The PostgreSQL provider (\<^verbatim>\<open>sources/providers/sqlx/pg/postgres.rs\<close>): the settings of its two
  connection pools, the columns of a table, registration of a table or a whole database, and the
  statements it runs for INSERT, UPDATE and DELETE. The drivers, the builder of INSERT statements
  and the engine's unparser are parameters; \<open>'d\<close> is the content of the database, \<open>'t\<close> a transaction.
\<close>

section \<open>Connection settings\<close>

text \<open>A parsed URL; \<open>pl_query_pairs\<close> are the decoded pairs of its query.\<close>

record pg_url =
  pl_host :: "string option"
  pl_port :: "nat option"
  pl_path :: string
  pl_query :: "string option"
  pl_query_pairs :: "(string \<times> string) list"

definition pg_env_option ::
  "(string \<rightharpoonup> string) \<Rightarrow> (string \<rightharpoonup> string) option \<Rightarrow> string \<Rightarrow> string \<Rightarrow> string + string option" where
  "pg_env_option env options key what =
     (case Option.bind options (\<lambda>opts. opts key) of
        None \<Rightarrow> Inr None
      | Some env_key \<Rightarrow>
          map_err (\<lambda>_. ''Environment variable '' @ quote @ env_key @ quote @ '' not found for PostgreSQL '' @ what)
            (try_res (ok_or (env env_key) ()) (\<lambda>v. Inr (Some v))))"

definition db_of_path :: "string \<Rightarrow> string" where
  "db_of_path path = dropWhile (\<lambda>c. c = CHR ''/'') path"

definition build_sqlx_connection_url ::
  "(string \<Rightarrow> string + pg_url) \<Rightarrow> (string \<rightharpoonup> string) \<Rightarrow> string \<Rightarrow> (string \<rightharpoonup> string) option \<Rightarrow> string + string" where
  "build_sqlx_connection_url parse env connection_string options =
     try_res (map_err (\<lambda>_. ''Invalid PostgreSQL connection string: '' @ connection_string) (parse connection_string)) (\<lambda>url.
     let host = (case pl_host url of Some h \<Rightarrow> h | None \<Rightarrow> ''localhost'');
         port = (case pl_port url of Some n \<Rightarrow> n | None \<Rightarrow> 5432);
         db = db_of_path (pl_path url) in
     try_res (pg_env_option env options ''user_env'' ''user'') (\<lambda>user.
     try_res (pg_env_option env options ''pass_env'' ''password'') (\<lambda>pass.
     Inr (''postgres://''
          @ (case user of
               Some u \<Rightarrow> percent_encode u @ (case pass of Some p \<Rightarrow> '':'' @ percent_encode p | None \<Rightarrow> []) @ ''@''
             | None \<Rightarrow> [])
          @ host @ '':'' @ show_nat port @ ''/'' @ db
          @ (case pl_query url of Some q \<Rightarrow> ''?'' @ q | None \<Rightarrow> [])))))"

definition insert_param :: "string \<Rightarrow> string option \<Rightarrow> (string \<rightharpoonup> string) \<Rightarrow> (string \<rightharpoonup> string)" where
  "insert_param key v m = (case v of Some x \<Rightarrow> m(key \<mapsto> x) | None \<Rightarrow> m)"

definition parse_connection_params ::
  "(string \<Rightarrow> string + pg_url) \<Rightarrow> (string \<rightharpoonup> string) \<Rightarrow> string \<Rightarrow> (string \<rightharpoonup> string) option
   \<Rightarrow> string + (string \<rightharpoonup> string)" where
  "parse_connection_params parse env connection_string options =
     try_res (map_err (\<lambda>_. ''Invalid PostgreSQL connection string: '' @ connection_string) (parse connection_string)) (\<lambda>url.
     try_res (pg_env_option env options ''user_env'' ''user'') (\<lambda>user.
     try_res (pg_env_option env options ''pass_env'' ''password'') (\<lambda>pass.
     let db_name = db_of_path (pl_path url);
         m1 = insert_param ''host'' (pl_host url) Map.empty;
         m2 = insert_param ''port'' (map_option show_nat (pl_port url)) m1;
         m3 = insert_param ''user'' user m2;
         m4 = insert_param ''pass'' pass m3;
         m5 = insert_param ''db'' (if db_name \<noteq> [] then Some db_name else None) m4
     in Inr (fold (\<lambda>(key, v) m. m(key \<mapsto> v)) (pl_query_pairs url) m5))))"

section \<open>Columns\<close>

text \<open>\<open>as u8\<close> and \<open>as i8\<close> keep the low byte.\<close>

definition pg_type_to_arrow ::
  "string \<Rightarrow> string \<Rightarrow> 32 word option \<Rightarrow> 32 word option \<Rightarrow> arrow_type" where
  "pg_type_to_arrow data_type udt_name numeric_precision numeric_scale =
     (if udt_name = ''vector'' \<or> udt_name = ''halfvec'' then AtUtf8
      else if data_type = ''smallint'' \<or> data_type = ''integer'' then AtInt32
      else if data_type = ''bigint'' then AtInt64
      else if data_type = ''real'' then AtFloat32
      else if data_type = ''double precision'' then AtFloat64
      else if data_type = ''numeric'' \<or> data_type = ''decimal''
      then AtDecimal128 (ucast (case numeric_precision of Some p \<Rightarrow> p | None \<Rightarrow> 38))
             (ucast (case numeric_scale of Some s \<Rightarrow> s | None \<Rightarrow> 10))
      else if data_type = ''boolean'' then AtBoolean
      else AtUtf8)"

text \<open>
  The database as the provider sees it: \<open>pw_columns\<close> and \<open>pw_auto\<close> are the two queries of the
  information schema about one table, \<open>pw_tables\<close> the one that lists the tables, limited to the
  allowed schemas if there are some; connecting and listing are retried.
\<close>

record ('r, 'p) pg_world =
  pw_parse_url :: "string \<Rightarrow> string + pg_url"
  pw_env :: "string \<rightharpoonup> string"
  pw_read_pool :: "(string \<rightharpoonup> string) \<Rightarrow> nat \<Rightarrow> 'r attempt"
  pw_sqlx_pool :: "string \<Rightarrow> nat \<Rightarrow> 'p attempt"
  pw_columns :: "'p \<Rightarrow> string \<Rightarrow> string
    \<Rightarrow> string + (string \<times> string \<times> string \<times> 32 word option \<times> 32 word option) list"
  pw_auto :: "'p \<Rightarrow> string \<Rightarrow> string \<Rightarrow> string + string list"
  pw_tables :: "'p \<Rightarrow> string list option \<Rightarrow> nat \<Rightarrow> (string \<times> string) list attempt"

definition fetch_table_columns ::
  "('r, 'p) pg_world \<Rightarrow> 'p \<Rightarrow> string \<Rightarrow> string \<Rightarrow> string + (string \<times> arrow_type) list" where
  "fetch_table_columns W pool schema_name table_name =
     try_res (pw_columns W pool schema_name table_name) (\<lambda>rows.
     Inr (map (\<lambda>(col_name, data_type, udt_name, precision, scale).
                 (col_name, pg_type_to_arrow data_type udt_name precision scale)) rows))"

definition detect_auto_generated_columns ::
  "('r, 'p) pg_world \<Rightarrow> 'p \<Rightarrow> string \<Rightarrow> string \<Rightarrow> string + string list" where
  "detect_auto_generated_columns W pool schema_name table_name =
     map_err (\<lambda>e. ''Failed to detect auto-generated columns for '' @ quote @ schema_name @ ''.'' @ table_name @ quote
                  @ '': '' @ e)
       (pw_auto W pool schema_name table_name)"

section \<open>The provider\<close>

text \<open>A table reference with its schema. The read-write wrapper carries the generated columns.\<close>

record ('r, 'p) pg_provider =
  pp_read_pool :: 'r
  pp_schema :: "arrow_field list"
  pp_table :: "string \<times> string"
  pp_write :: "('p \<times> string list) option"

definition build_postgres_table_provider ::
  "('r, 'p) pg_world \<Rightarrow> 'r \<Rightarrow> string \<times> string \<Rightarrow> bool \<Rightarrow> 'p \<Rightarrow> string + ('r, 'p) pg_provider" where
  "build_postgres_table_provider W read_pool table_reference read_write sqlx_pool =
     (let (schema_name, table_name) = table_reference in
      try_res (map_err (\<lambda>e. ''Failed to infer schema for '' @ quote @ schema_name @ ''.'' @ table_name @ quote
                            @ '' from information_schema: '' @ e)
        (fetch_table_columns W sqlx_pool schema_name table_name)) (\<lambda>columns.
      if columns = []
      then Inl (''No columns found for '' @ quote @ schema_name @ ''.'' @ table_name @ quote @ '' in information_schema'')
      else
        let schema = map (\<lambda>(col, dtype). \<lparr>af_name = col, af_type = dtype, af_nullable = True\<rparr>) columns;
            read_provider = \<lparr>pp_read_pool = read_pool, pp_schema = schema, pp_table = table_reference, pp_write = None\<rparr>
        in if \<not> read_write then Inr read_provider
           else try_res (detect_auto_generated_columns W sqlx_pool schema_name table_name) (\<lambda>auto.
             Inr (read_provider\<lparr>pp_write := Some (sqlx_pool, auto)\<rparr>))))"

record 'p pg_entry =
  pe_pool :: 'p
  pe_qualified_table :: string
  pe_columns :: "(string \<times> arrow_type) list"

definition quote_pg_ident :: "string \<Rightarrow> string" where
  "quote_pg_ident s = [dquote] @ str_replace [dquote] [dquote, dquote] s @ [dquote]"

definition register_table_in_knn_registry ::
  "('r, 'p) pg_world \<Rightarrow> 'p \<Rightarrow> string \<Rightarrow> string \<Rightarrow> string \<Rightarrow> (string \<rightharpoonup> 'p pg_entry)
   \<Rightarrow> string + (string \<rightharpoonup> 'p pg_entry)" where
  "register_table_in_knn_registry W pool entry_name schema_name table_name reg =
     try_res (map_err (\<lambda>e. ''Failed to fetch columns for pg_knn registry entry '' @ quote @ entry_name @ quote @ '': '' @ e)
       (fetch_table_columns W pool schema_name table_name)) (\<lambda>columns.
     Inr (reg(entry_name \<mapsto>
       \<lparr>pe_pool = pool,
        pe_qualified_table =
          [dquote] @ str_replace [dquote] [dquote, dquote] schema_name @ [dquote] @ ''.''
          @ [dquote] @ str_replace [dquote] [dquote, dquote] table_name @ [dquote],
        pe_columns = columns\<rparr>)))"

text \<open>The provider of a table and the registry afterwards, if there is one.\<close>

definition build_and_register_table ::
  "('r, 'p) pg_world \<Rightarrow> 'r \<Rightarrow> 'p \<Rightarrow> string \<Rightarrow> string \<Rightarrow> bool \<Rightarrow> string \<Rightarrow> (string \<rightharpoonup> 'p pg_entry) option
   \<Rightarrow> (string + ('r, 'p) pg_provider) \<times> (string \<rightharpoonup> 'p pg_entry) option" where
  "build_and_register_table W read_pool sqlx_pool schema table_name read_write knn_key reg =
     (case build_postgres_table_provider W read_pool (schema, table_name) read_write sqlx_pool of
        Inl e \<Rightarrow> (Inl e, reg)
      | Inr p \<Rightarrow>
          (case reg of
             None \<Rightarrow> (Inr p, None)
           | Some m \<Rightarrow>
               (case register_table_in_knn_registry W sqlx_pool knn_key schema table_name m of
                  Inl e \<Rightarrow> (Inl (''Failed to register '' @ quote @ knn_key @ quote @ '' in pg_knn registry: '' @ e), reg)
                | Inr m' \<Rightarrow> (Inr p, Some m'))))"

section \<open>Registration\<close>

text \<open>Errors keep the message of their context and the error below it.\<close>

datatype pg_register_error =
  PgSettings string
| PgPool string retry_error
| PgMissingTable
| PgBuild string
| PgSession string
| PgList string retry_error
| PgCatalog build_error

definition init_postgres_pools ::
  "('r, 'p) pg_world \<Rightarrow> string \<Rightarrow> (string \<rightharpoonup> string) option \<Rightarrow> source_label \<Rightarrow> pg_register_error + 'r \<times> 'p" where
  "init_postgres_pools W connection_string options label =
     try_res (map_err PgSettings (parse_connection_params (pw_parse_url W) (pw_env W) connection_string options))
       (\<lambda>pool_params.
     try_res (map_err (PgPool (''Failed to create PostgreSQL connection pool for '' @ quote @ sl_name label @ quote))
       (fst (retry_with_timeout label ''read pool creation'' (pw_read_pool W pool_params)))) (\<lambda>read_pool.
     try_res (map_err PgSettings (build_sqlx_connection_url (pw_parse_url W) (pw_env W) connection_string options))
       (\<lambda>sqlx_url.
     try_res (map_err (PgPool (''Failed to create sqlx PgPool for '' @ quote @ sl_name label @ quote))
       (fst (retry_with_timeout label ''sqlx pool creation'' (pw_sqlx_pool W sqlx_url)))) (\<lambda>sqlx_pool.
     Inr (read_pool, sqlx_pool)))))"

definition register_single_postgres_table ::
  "('r, 'p) pg_world \<Rightarrow> ('s \<Rightarrow> string \<Rightarrow> ('r, 'p) pg_provider \<Rightarrow> string + 's) \<Rightarrow> 's \<Rightarrow> string \<Rightarrow> string
   \<Rightarrow> (string \<rightharpoonup> string) option \<Rightarrow> bool \<Rightarrow> (string \<rightharpoonup> 'p pg_entry) option
   \<Rightarrow> (pg_register_error + 's) \<times> (string \<rightharpoonup> 'p pg_entry) option" where
  "register_single_postgres_table W register session name connection_string options read_write reg =
     (let schema_name = (case Option.bind options (\<lambda>opts. opts ''schema'') of Some s \<Rightarrow> s | None \<Rightarrow> ''public'') in
      case Option.bind options (\<lambda>opts. opts ''table'') of
        None \<Rightarrow> (Inl PgMissingTable, reg)
      | Some table_name \<Rightarrow>
          (case init_postgres_pools W connection_string options
                  \<lparr>sl_kind = Postgres, sl_hierarchy = TableLevel, sl_name = name\<rparr> of
             Inl e \<Rightarrow> (Inl e, reg)
           | Inr (read_pool, sqlx_pool) \<Rightarrow>
               (case build_and_register_table W read_pool sqlx_pool schema_name table_name read_write name reg of
                  (Inl e, reg') \<Rightarrow> (Inl (PgBuild e), reg')
                | (Inr p, reg') \<Rightarrow>
                    (map_err (\<lambda>e. PgSession (''Failed to register table '' @ quote @ name @ quote
                                             @ '' with DataFusion: '' @ e))
                       (register session name p), reg'))))"

text \<open>
  The registry after the tables of a catalog have been built in their order of completion, up to
  and including the first that fails.
\<close>

definition knn_key_of :: "string \<Rightarrow> string \<Rightarrow> string \<Rightarrow> string" where
  "knn_key_of catalog_name schema table_name = catalog_name @ ''.'' @ schema @ ''.'' @ table_name"

fun pg_catalog_entries ::
  "(string \<Rightarrow> string \<Rightarrow> (string \<rightharpoonup> 'p pg_entry) option
      \<Rightarrow> (string + ('r, 'p) pg_provider) \<times> (string \<rightharpoonup> 'p pg_entry) option)
   \<Rightarrow> (string \<times> string) list \<Rightarrow> (string \<rightharpoonup> 'p pg_entry) option \<Rightarrow> (string \<rightharpoonup> 'p pg_entry) option" where
  "pg_catalog_entries build [] reg = reg"
| "pg_catalog_entries build ((schema, table_name) # rest) reg =
     (case build schema table_name reg of
        (Inl _, reg') \<Rightarrow> reg'
      | (Inr _, reg') \<Rightarrow> pg_catalog_entries build rest reg')"

definition register_postgres_catalog ::
  "('r, 'p) pg_world \<Rightarrow> ('m, ('r, 'p) pg_provider) table_ops \<Rightarrow> 'm \<Rightarrow> nat list \<Rightarrow> (string \<rightharpoonup> 'm) \<Rightarrow> string
   \<Rightarrow> string \<Rightarrow> (string \<rightharpoonup> string) option \<Rightarrow> bool \<Rightarrow> (string \<rightharpoonup> 'p pg_entry) option
   \<Rightarrow> (pg_register_error + (string \<rightharpoonup> 'm)) \<times> (string \<rightharpoonup> 'p pg_entry) option" where
  "register_postgres_catalog W ops new completion session catalog_name connection_string options read_write reg =
     (let label = \<lparr>sl_kind = Postgres, sl_hierarchy = CatalogLevel, sl_name = catalog_name\<rparr> in
      case init_postgres_pools W connection_string options label of
        Inl e \<Rightarrow> (Inl e, reg)
      | Inr (read_pool, sqlx_pool) \<Rightarrow>
          (case fst (retry_with_timeout label ''information_schema introspection''
                  (pw_tables W sqlx_pool (parse_allowed_schemas options))) of
             Inl e \<Rightarrow>
               (Inl (PgList (''Failed to list PostgreSQL tables for catalog-wide registration in source ''
                             @ quote @ catalog_name @ quote) e), reg)
           | Inr schema_tables \<Rightarrow>
               let build = (\<lambda>schema table_name.
                     build_and_register_table W read_pool sqlx_pool schema table_name read_write
                       (knn_key_of catalog_name schema table_name))
               in (map_err PgCatalog
                     (build_catalog ops new session catalog_name schema_tables
                        (\<lambda>schema table_name. fst (build schema table_name reg)) completion),
                   pg_catalog_entries build (map ((!) schema_tables) completion) reg)))"

definition register_postgres_tables ::
  "('r, 'p) pg_world \<Rightarrow> ('m, ('r, 'p) pg_provider) table_ops \<Rightarrow> 'm \<Rightarrow> nat list \<Rightarrow> (string \<rightharpoonup> 'm)
   \<Rightarrow> ('s \<Rightarrow> string \<Rightarrow> ('r, 'p) pg_provider \<Rightarrow> string + 's) \<Rightarrow> 's \<Rightarrow> string \<Rightarrow> string
   \<Rightarrow> (string \<rightharpoonup> string) option \<Rightarrow> bool \<Rightarrow> (string \<rightharpoonup> 'p pg_entry) option \<Rightarrow> hierarchy_level
   \<Rightarrow> (pg_register_error + (string \<rightharpoonup> 'm)) \<times> (string \<rightharpoonup> 'p pg_entry) option
      + (pg_register_error + 's) \<times> (string \<rightharpoonup> 'p pg_entry) option" where
  "register_postgres_tables W ops new completion catalogs register session name connection_string options
     read_write reg level =
     (case level of
        CatalogLevel \<Rightarrow>
          Inl (register_postgres_catalog W ops new completion catalogs name connection_string options read_write reg)
      | TableLevel \<Rightarrow>
          Inr (register_single_postgres_table W register session name connection_string options read_write reg))"

section \<open>Generated statements\<close>

text \<open>
  A batch is its column names, columns and number of rows. \<open>pv_quoted\<close> is \<open>to_quoted_string\<close> of
  the table, \<open>pv_insert_sql\<close> the INSERT statement built for a batch.
\<close>

record pg_batch =
  pb_names :: "string list"
  pb_columns :: "scalar list list"
  pb_rows :: nat

record ('d, 't) pg_driver =
  pv_unparse :: "expr \<Rightarrow> string + string"
  pv_quoted :: "string \<times> string \<Rightarrow> string"
  pv_insert_sql :: "string \<times> string \<Rightarrow> pg_batch \<Rightarrow> string + string"
  pv_begin :: "'d \<Rightarrow> string + 't"
  pv_tx_execute :: "'t \<Rightarrow> string \<Rightarrow> string + 't"
  pv_commit :: "'t \<Rightarrow> string + 'd"
  pv_execute :: "'d \<Rightarrow> string \<Rightarrow> (string + 64 word) \<times> 'd"

definition build_where_clause :: "(expr \<Rightarrow> string + string) \<Rightarrow> expr list \<Rightarrow> string + string" where
  "build_where_clause unparse filters =
     (if filters = [] then Inr []
      else try_res
        (collect_res (map (\<lambda>e. map_err (\<lambda>m. ''Failed to unparse filter expression: '' @ m) (unparse e)) filters))
        (\<lambda>parts. Inr ('' WHERE '' @ str_join '' AND '' parts)))"

definition pg_delete_from :: "('d, 't) pg_driver \<Rightarrow> string \<times> string \<Rightarrow> expr list \<Rightarrow> string + string" where
  "pg_delete_from D table filters =
     try_res (build_where_clause (pv_unparse D) filters) (\<lambda>where_clause.
     Inr (''DELETE FROM '' @ pv_quoted D table @ where_clause))"

definition pg_assignment :: "('d, 't) pg_driver \<Rightarrow> string \<times> expr \<Rightarrow> string + string" where
  "pg_assignment D a =
     (case a of (col, e) \<Rightarrow>
        try_res (map_err (\<lambda>m. ''Failed to unparse assignment expression for column '' @ quote @ col @ quote
                                @ '': '' @ m) (pv_unparse D e))
          (\<lambda>val. Inr (quote_pg_ident col @ '' = '' @ val)))"

definition pg_update ::
  "('d, 't) pg_driver \<Rightarrow> string \<times> string \<Rightarrow> (string \<times> expr) list \<Rightarrow> expr list \<Rightarrow> string + string" where
  "pg_update D table assignments filters =
     (if assignments = [] then Inl ''UPDATE requires at least one assignment''
      else
        try_res (collect_res (map (pg_assignment D) assignments)) (\<lambda>sets.
        try_res (build_where_clause (pv_unparse D) filters) (\<lambda>where_clause.
        Inr (''UPDATE '' @ pv_quoted D table @ '' SET '' @ str_join '', '' sets @ where_clause))))"

definition pg_dml_execute :: "('d, 't) pg_driver \<Rightarrow> string \<Rightarrow> 'd \<Rightarrow> (string + 64 word) \<times> 'd" where
  "pg_dml_execute D sql d =
     (case pv_execute D d sql of
        (Inl e, d') \<Rightarrow> (Inl (''Postgres DML execute error: '' @ e), d')
      | (Inr n, d') \<Rightarrow> (Inr n, d'))"

section \<open>INSERT\<close>

definition filter_batch_columns :: "pg_batch \<Rightarrow> string list \<Rightarrow> pg_batch" where
  "filter_batch_columns batch auto_generated_columns =
     (if auto_generated_columns = [] then batch
      else let indices = filter (\<lambda>i. pb_names batch ! i \<notin> set auto_generated_columns) [0..<length (pb_names batch)]
           in batch\<lparr>pb_names := map ((!) (pb_names batch)) indices,
                    pb_columns := map ((!) (pb_columns batch)) indices\<rparr>)"

definition pg_insert_batch ::
  "('d, 't) pg_driver \<Rightarrow> string \<times> string \<Rightarrow> string list \<Rightarrow> 't \<times> 64 word \<Rightarrow> string + pg_batch
   \<Rightarrow> string + 't \<times> 64 word" where
  "pg_insert_batch D table auto_gen_cols st batch_result =
     (case st of (tx, total_rows) \<Rightarrow>
        try_res batch_result (\<lambda>batch.
        if pb_rows batch = 0 then Inr (tx, total_rows)
        else let filtered_batch = filter_batch_columns batch auto_gen_cols in
          try_res (map_err (\<lambda>e. ''Failed to build INSERT statement: '' @ e) (pv_insert_sql D table filtered_batch))
            (\<lambda>insert_sql.
          try_res (map_err (\<lambda>e. ''Failed to execute INSERT: '' @ e) (pv_tx_execute D tx insert_sql)) (\<lambda>tx'.
          Inr (tx', total_rows + of_nat (pb_rows filtered_batch))))))"

definition pg_insert_tx ::
  "('d, 't) pg_driver \<Rightarrow> string \<times> string \<Rightarrow> string list \<Rightarrow> insert_op \<Rightarrow> (string + pg_batch) list list \<Rightarrow> 'd
   \<Rightarrow> string + 64 word \<times> 'd" where
  "pg_insert_tx D table auto_gen_cols iop input_streams d =
     try_res (map_err (\<lambda>e. ''Failed to begin transaction: '' @ e) (pv_begin D d)) (\<lambda>tx0.
     try_res (if iop = InsertOverwrite
              then map_err (\<lambda>e. ''Failed to delete existing data for overwrite: '' @ e)
                     (pv_tx_execute D tx0 (''DELETE FROM '' @ pv_quoted D table))
              else Inr tx0) (\<lambda>tx1.
     try_res (fold_res (fold_res (pg_insert_batch D table auto_gen_cols)) (tx1, 0) input_streams) (\<lambda>(tx2, total_rows).
     try_res (map_err (\<lambda>e. ''Failed to commit transaction: '' @ e) (pv_commit D tx2)) (\<lambda>d'.
     Inr (total_rows, d')))))"

text \<open>
  Every partition of the input is started before the transaction is; an error after that drops
  the transaction, and the database stays as it was.
\<close>

definition pg_insert_execute ::
  "('d, 't) pg_driver \<Rightarrow> string \<times> string \<Rightarrow> string list \<Rightarrow> insert_op \<Rightarrow> (string + (string + pg_batch) list) list
   \<Rightarrow> 'd \<Rightarrow> (string + 64 word) \<times> 'd" where
  "pg_insert_execute D table auto_gen_cols iop partitions d =
     (case try_res (collect_res partitions) (\<lambda>streams. pg_insert_tx D table auto_gen_cols iop streams d) of
        Inl e \<Rightarrow> (Inl e, d)
      | Inr (total_rows, d') \<Rightarrow> (Inr total_rows, d'))"

section \<open>INSERT is all or nothing\<close>

text \<open>The rows of a batch, each cell with the name of its column.\<close>

definition named_rows :: "pg_batch \<Rightarrow> (string \<times> scalar) list list" where
  "named_rows b = map (\<lambda>i. zip (pb_names b) (map (\<lambda>column. column ! i) (pb_columns b))) [0..<pb_rows b]"

definition batch_ok :: "pg_batch \<Rightarrow> bool" where
  "batch_ok b \<longleftrightarrow> length (pb_columns b) = length (pb_names b)"

text \<open>
  What the driver does with the statements of an INSERT: a statement built for one of the batches
  \<open>Bs\<close> adds its rows. \<open>rows_of\<close> and \<open>rows_in\<close> are the rows of the table, as far as they were given.
\<close>

definition pg_tx_serves ::
  "('d, 't) pg_driver \<Rightarrow> ('d \<Rightarrow> (string \<times> scalar) list list) \<Rightarrow> ('t \<Rightarrow> (string \<times> scalar) list list)
   \<Rightarrow> string \<times> string \<Rightarrow> pg_batch set \<Rightarrow> bool" where
  "pg_tx_serves D rows_of rows_in table Bs \<longleftrightarrow>
     (\<forall>d t. pv_begin D d = Inr t \<longrightarrow> rows_in t = rows_of d)
   \<and> (\<forall>t t'. pv_tx_execute D t (''DELETE FROM '' @ pv_quoted D table) = Inr t' \<longrightarrow> rows_in t' = [])
   \<and> (\<forall>b \<in> Bs. \<forall>sql t t'. pv_insert_sql D table b = Inr sql \<longrightarrow> pv_tx_execute D t sql = Inr t'
        \<longrightarrow> rows_in t' = rows_in t @ named_rows b)
   \<and> (\<forall>t d. pv_commit D t = Inr d \<longrightarrow> rows_of d = rows_in t)"

lemma filtered_rows [simp]: "pb_rows (filter_batch_columns b auto) = pb_rows b"
  by (simp add: filter_batch_columns_def Let_def)

lemma filtered_names:
  "pb_names (filter_batch_columns b auto) = filter (\<lambda>n. n \<notin> set auto) (pb_names b)"
  by (simp add: filter_batch_columns_def Let_def nths_def filter_map comp_def
      flip: filter_map [of _ "(!) (pb_names b)", unfolded comp_def])
     (metis (no_types, lifting) comp_def filter_cong filter_map map_nth)

lemma named_rows_empty: "pb_rows b = 0 \<Longrightarrow> named_rows b = []"
  by (simp add: named_rows_def)

lemma insert_batch_step:
  assumes "pg_tx_serves D rows_of rows_in table ((\<lambda>b. filter_batch_columns b auto) ` Bs)"
    and "pg_insert_batch D table auto (t, n) item = Inr (t', n')" and "item \<in> Inr ` Bs \<union> Inl ` UNIV"
  shows "\<exists>b. item = Inr b \<and> rows_in t' = rows_in t @ named_rows (filter_batch_columns b auto)
    \<and> n' = n + of_nat (pb_rows b)"
  using assms(2,3)
proof -
  from assms(2) obtain b where b: "item = Inr b" by (auto simp: pg_insert_batch_def res_simps)
  with assms(3) have "b \<in> Bs" by auto
  moreover have "\<forall>b' sql t t'. b' \<in> (\<lambda>b. filter_batch_columns b auto) ` Bs \<longrightarrow> pv_insert_sql D table b' = Inr sql
      \<longrightarrow> pv_tx_execute D t sql = Inr t' \<longrightarrow> rows_in t' = rows_in t @ named_rows b'"
    using assms(1) by (auto simp: pg_tx_serves_def)
  ultimately show ?thesis using assms(2) b
    by (auto simp: pg_insert_batch_def Let_def res_simps named_rows_empty split: if_splits)
qed

lemma insert_stream_rows:
  assumes "pg_tx_serves D rows_of rows_in table ((\<lambda>b. filter_batch_columns b auto) ` Bs)"
    and "fold_res (pg_insert_batch D table auto) (t, n) items = Inr (t', n')"
    and "set items \<subseteq> Inr ` Bs \<union> Inl ` UNIV"
  shows "\<exists>bs. items = map Inr bs
    \<and> rows_in t' = rows_in t @ concat (map (\<lambda>b. named_rows (filter_batch_columns b auto)) bs)
    \<and> n' = n + of_nat (sum_list (map pb_rows bs))"
  using assms(2,3)
proof (induction items arbitrary: t n)
  case (Cons item items)
  then obtain t1 n1 where s: "pg_insert_batch D table auto (t, n) item = Inr (t1, n1)"
    "fold_res (pg_insert_batch D table auto) (t1, n1) items = Inr (t', n')"
    by (auto simp: res_simps)
  from insert_batch_step [OF assms(1) s(1)] Cons.prems(2) obtain b where
    b: "item = Inr b" "rows_in t1 = rows_in t @ named_rows (filter_batch_columns b auto)"
      "n1 = n + of_nat (pb_rows b)" by auto
  from Cons.IH [OF s(2)] Cons.prems(2) obtain bs where
    "items = map Inr bs" "rows_in t' = rows_in t1 @ concat (map (\<lambda>b. named_rows (filter_batch_columns b auto)) bs)"
    "n' = n1 + of_nat (sum_list (map pb_rows bs))" by auto
  with b show ?case by (intro exI [of _ "b # bs"]) simp
qed simp

lemma fold_res_concat: "fold_res (fold_res f) s xss = fold_res f s (concat xss)"
proof (induction xss arbitrary: s)
  case (Cons xs xss)
  then show ?case by (cases "fold_res f s xs") (simp_all add: fold_res_append)
qed simp

lemma pg_insert_tx_rows:
  assumes "pg_tx_serves D rows_of rows_in table ((\<lambda>b. filter_batch_columns b auto) ` Bs)"
    and "set (concat streams) \<subseteq> Inr ` Bs \<union> Inl ` UNIV"
    and "pg_insert_tx D table auto iop streams d = Inr (n, d')"
  shows "\<exists>bs. concat streams = map Inr bs
    \<and> rows_of d' = (if iop = InsertOverwrite then [] else rows_of d)
        @ concat (map (\<lambda>b. named_rows (filter_batch_columns b auto)) bs)
    \<and> n = of_nat (sum_list (map pb_rows bs))"
proof -
  from assms(3) obtain t0 t1 t2 where t: "pv_begin D d = Inr t0"
    "(if iop = InsertOverwrite
      then map_err (\<lambda>e. ''Failed to delete existing data for overwrite: '' @ e)
             (pv_tx_execute D t0 (''DELETE FROM '' @ pv_quoted D table))
      else Inr t0) = Inr t1"
    "fold_res (pg_insert_batch D table auto) (t1, 0) (concat streams) = Inr (t2, n)"
    "pv_commit D t2 = Inr d'"
    by (auto simp: pg_insert_tx_def fold_res_concat res_simps)
  from assms(1) t(1,2) have "rows_in t1 = (if iop = InsertOverwrite then [] else rows_of d)"
    by (auto simp: pg_tx_serves_def res_simps split: if_splits)
  moreover from assms(1) t(4) have "rows_of d' = rows_in t2" by (auto simp: pg_tx_serves_def)
  ultimately show ?thesis using insert_stream_rows [OF assms(1) t(3) assms(2)] by simp
qed

lemma named_rows_names:
  "row \<in> set (named_rows (filter_batch_columns b auto)) \<Longrightarrow> fst ` set row \<inter> set auto = {}"
  by (auto simp: named_rows_def filtered_names dest!: set_zip_leftD)

text \<open>
  C26. An INSERT over several partitions is all or nothing: if it fails, in the input or in any
  statement, the database is what it was; if it succeeds, the table got the rows of every batch of
  every partition in order (after its old ones, or instead of them), their number is reported, and
  no row names an auto-generated column.
\<close>

theorem pg_insert_all_or_nothing:
  assumes "pg_tx_serves D rows_of rows_in table ((\<lambda>b. filter_batch_columns b auto) ` Bs)"
    and "\<And>s. Inr s \<in> set partitions \<Longrightarrow> set s \<subseteq> Inr ` Bs \<union> Inl ` UNIV"
    and "pg_insert_execute D table auto iop partitions d = (r, d')"
  shows "case r of
      Inl _ \<Rightarrow> d' = d
    | Inr n \<Rightarrow> \<exists>bss new. partitions = map (\<lambda>bs. Inr (map Inr bs)) bss
        \<and> rows_of d' = (if iop = InsertOverwrite then [] else rows_of d) @ new
        \<and> new = concat (map (\<lambda>b. named_rows (filter_batch_columns b auto)) (concat bss))
        \<and> n = of_nat (sum_list (map pb_rows (concat bss)))
        \<and> fst ` set (concat new) \<inter> set auto = {}"
proof (cases r)
  case (Inl e)
  then show ?thesis using assms(3) by (auto simp: pg_insert_execute_def split: sum.splits)
next
  case (Inr n)
  with assms(3) obtain streams where s: "partitions = map Inr streams"
    "pg_insert_tx D table auto iop streams d = Inr (n, d')"
    by (auto simp: pg_insert_execute_def res_simps collect_res_Inr_iff split: sum.splits)
  have "set (concat streams) \<subseteq> Inr ` Bs \<union> Inl ` UNIV"
    using assms(2) s(1) by (simp add: UN_subset_iff)
  from pg_insert_tx_rows [OF assms(1) this s(2)] obtain bs where
    bs: "concat streams = map Inr bs"
      "rows_of d' = (if iop = InsertOverwrite then [] else rows_of d)
        @ concat (map (\<lambda>b. named_rows (filter_batch_columns b auto)) bs)"
      "n = of_nat (sum_list (map pb_rows bs))" by blast
  define bss where "bss = map (map projr) streams"
  have inr: "map Inr (map projr s) = s" if "s \<in> set streams" for s
    using that bs(1) by (intro map_Inr_projr) (metis (no_types, lifting) UN_I imageE is_ok_simps(1) list.set_map set_concat)
  then have "partitions = map (\<lambda>bs. Inr (map Inr bs)) bss" by (simp add: bss_def s(1))
  moreover have "concat bss = bs"
  proof -
    have "concat bss = map projr (concat streams)" by (simp add: bss_def map_concat)
    then show ?thesis by (simp add: bs(1) comp_def)
  qed
  moreover have "fst ` set (concat (concat (map (\<lambda>b. named_rows (filter_batch_columns b auto)) bs))) \<inter> set auto = {}"
    using named_rows_names [of _ _ auto] by fastforce
  ultimately show ?thesis using Inr bs(2,3) by (intro sum.case_eq_if [THEN iffD2]) auto
qed

text \<open>A database of one table for the witness; it knows the statement of one batch.\<close>

definition demo_pg :: "((string \<times> scalar) list list, (string \<times> scalar) list list) pg_driver" where
  "demo_pg =
     \<lparr>pv_unparse = (\<lambda>e. case e of EOther s \<Rightarrow> Inr s | _ \<Rightarrow> Inl ''unsupported''),
      pv_quoted = (\<lambda>(s, t). quote_pg_ident s @ ''.'' @ quote_pg_ident t),
      pv_insert_sql = (\<lambda>_ b. Inr ''INSERT INTO t (name) VALUES (1)''),
      pv_begin = Inr,
      pv_tx_execute = (\<lambda>t sql. if starts_with ''DELETE'' sql then Inr [] else Inr (t @ [[(''name'', SvInt32 (Some 1))]])),
      pv_commit = Inr, pv_execute = (\<lambda>d _. (Inr 0, d))\<rparr>"

definition demo_pg_batch :: pg_batch where
  "demo_pg_batch = \<lparr>pb_names = [''id'', ''name''], pb_columns = [[SvInt32 (Some 9)], [SvInt32 (Some 1)]], pb_rows = 1\<rparr>"

theorem pg_insert_all_or_nothing_witness:
  "case Inr (1 :: 64 word) of
      Inl _ \<Rightarrow> False
    | Inr n \<Rightarrow> \<exists>bss new. [Inr [Inr demo_pg_batch], Inr []] = map (\<lambda>bs. (Inr (map Inr bs) :: string + (string + pg_batch) list)) bss
        \<and> id [[(''name'', SvInt32 (Some 1))]] = [] @ new
        \<and> new = concat (map (\<lambda>b. named_rows (filter_batch_columns b [''id''])) (concat bss))
        \<and> n = of_nat (sum_list (map pb_rows (concat bss)))
        \<and> fst ` set (concat new) \<inter> set [''id''] = {}"
proof -
  let ?p = "[Inr [Inr demo_pg_batch], Inr []] :: (string + (string + pg_batch) list) list"
  have n: "named_rows (filter_batch_columns demo_pg_batch [''id'']) = [[(''name'', SvInt32 (Some 1))]]" by code_simp
  have s: "pg_tx_serves demo_pg id id (''public'', ''t'') ((\<lambda>b. filter_batch_columns b [''id'']) ` {demo_pg_batch})"
    by (auto simp: pg_tx_serves_def demo_pg_def n starts_with_def)
  have i: "\<And>s. Inr s \<in> set ?p \<Longrightarrow> set s \<subseteq> Inr ` {demo_pg_batch} \<union> Inl ` UNIV" by auto
  have e: "pg_insert_execute demo_pg (''public'', ''t'') [''id''] InsertOverwrite ?p [] =
      (Inr 1, [[(''name'', SvInt32 (Some 1))]])" by code_simp
  show ?thesis using pg_insert_all_or_nothing [OF s i e] by simp
qed

section \<open>UPDATE and DELETE\<close>

lemma build_where_clause_eq: "build_where_clause = build_sqlite_where_clause"
  by (intro ext) (simp add: build_where_clause_def build_sqlite_where_clause_def)

text \<open>
  The WHERE clause of a generated DELETE or UPDATE means the conjunction of the filters, as
  long as the unparser leaves no \<open>OR\<close> outside parentheses, and is left out when there is none; no
  statement is generated when a filter or an assigned expression cannot be rendered.
\<close>

theorem pg_statements_state_filters:
  assumes "renders_conjuncts (pv_unparse D) filters"
  shows "(\<forall>sql. pg_delete_from D table filters = Inr sql \<longrightarrow>
      (\<exists>w. sql = ''DELETE FROM '' @ pv_quoted D table @ w \<and> clause_states (pv_unparse D) filters w))
    \<and> (\<forall>sql. pg_update D table assignments filters = Inr sql \<longrightarrow>
      (\<exists>sets w. sql = ''UPDATE '' @ pv_quoted D table @ '' SET '' @ str_join '', '' sets @ w
        \<and> length sets = length assignments \<and> clause_states (pv_unparse D) filters w))
    \<and> (is_ok (pg_delete_from D table filters) = list_all (\<lambda>e. is_ok (pv_unparse D e)) filters)
    \<and> (is_ok (pg_update D table assignments filters) =
        (assignments \<noteq> [] \<and> list_all (\<lambda>e. is_ok (pv_unparse D e)) (map snd assignments @ filters)))"
proof -
  have st: "clause_states (pv_unparse D) filters w" if "build_where_clause (pv_unparse D) filters = Inr w" for w
    using that where_clause_states [OF _ assms] by (simp add: build_where_clause_eq)
  have ok: "is_ok (build_where_clause (pv_unparse D) filters) = list_all (\<lambda>e. is_ok (pv_unparse D e)) filters"
    by (auto simp: build_where_clause_def is_ok_iff try_res_Inr_iff collect_map_err list_all_iff map_eq_Inr_iff)
  have sets: "is_ok (collect_res (map (pg_assignment D) assignments))
      = list_all (\<lambda>e. is_ok (pv_unparse D e)) (map snd assignments)"
    by (auto simp: is_ok_iff collect_res_Inr_iff map_eq_Inr_iff list_all_iff pg_assignment_def res_simps
        split: prod.splits)
  have up: "\<exists>sets w. sql = ''UPDATE '' @ pv_quoted D table @ '' SET '' @ str_join '', '' sets @ w
      \<and> length sets = length assignments \<and> clause_states (pv_unparse D) filters w"
    if u: "pg_update D table assignments filters = Inr sql" for sql
  proof -
    from u obtain sets w where s: "map (pg_assignment D) assignments = map Inr sets"
      "build_where_clause (pv_unparse D) filters = Inr w"
      "sql = ''UPDATE '' @ pv_quoted D table @ '' SET '' @ str_join '', '' sets @ w"
      by (auto simp: pg_update_def res_simps collect_res_Inr_iff split: if_splits)
    from st [OF s(2)] s(1,3) map_eq_imp_length_eq [OF s(1)] show ?thesis by auto
  qed
  have "is_ok (pg_update D table assignments filters) =
      (assignments \<noteq> [] \<and> is_ok (collect_res (map (pg_assignment D) assignments))
       \<and> is_ok (build_where_clause (pv_unparse D) filters))"
    by (auto simp: pg_update_def is_ok_iff res_simps)
  moreover have "is_ok (pg_delete_from D table filters) = is_ok (build_where_clause (pv_unparse D) filters)"
    by (auto simp: pg_delete_from_def is_ok_iff res_simps)
  moreover have "clause_states (pv_unparse D) filters w" if "pg_delete_from D table filters = Inr (''DELETE FROM '' @ pv_quoted D table @ w)" for w
    using that st by (auto simp: pg_delete_from_def res_simps)
  ultimately show ?thesis using up ok sets by (auto simp: pg_delete_from_def res_simps)
qed

theorem pg_statements_state_filters_witness:
  "pg_delete_from demo_pg (''public'', ''t'') [EOther ''(x = 1 OR y = 2)'', EOther ''z = 3''] =
     Inr (''DELETE FROM '' @ pv_quoted demo_pg (''public'', ''t'') @ '' WHERE (x = 1 OR y = 2) AND z = 3'')
   \<and> clause_states (pv_unparse demo_pg) [EOther ''(x = 1 OR y = 2)'', EOther ''z = 3'']
     '' WHERE (x = 1 OR y = 2) AND z = 3''"
proof -
  let ?f = "[EOther ''(x = 1 OR y = 2)'', EOther ''z = 3'']"
  have r: "renders_conjuncts (pv_unparse demo_pg) ?f" by code_simp
  have d: "pg_delete_from demo_pg (''public'', ''t'') ?f =
     Inr (''DELETE FROM '' @ pv_quoted demo_pg (''public'', ''t'') @ '' WHERE (x = 1 OR y = 2) AND z = 3'')" by code_simp
  from conjunct1 [OF pg_statements_state_filters [OF r, of "(''public'', ''t'')" "[]"]] d
  have "clause_states (pv_unparse demo_pg) ?f '' WHERE (x = 1 OR y = 2) AND z = 3''" by fastforce
  with d show ?thesis by blast
qed

section \<open>The two pools\<close>

lemma insert_param_same: "insert_param key v m key = (case v of Some x \<Rightarrow> Some x | None \<Rightarrow> m key)"
  by (simp add: insert_param_def split: option.split)

lemma insert_param_other: "k \<noteq> key \<Longrightarrow> insert_param key v m k = m k"
  by (simp add: insert_param_def split: option.split)

lemma fold_params: "fold (\<lambda>(key, v) m. m(key \<mapsto> v)) pairs m k =
    (case map_of (rev pairs) k of Some v \<Rightarrow> Some v | None \<Rightarrow> m k)"
  by (induction pairs arbitrary: m) (auto simp: map_add_def split: option.splits)

lemma connection_params_apply:
  assumes "parse c = Inr url" and "pg_env_option env options ''user_env'' ''user'' = Inr user"
    and "pg_env_option env options ''pass_env'' ''password'' = Inr pass"
    and "parse_connection_params parse env c options = Inr m"
  shows "m k = (case map_of (rev (pl_query_pairs url)) k of Some v \<Rightarrow> Some v
    | None \<Rightarrow> insert_param ''db'' (if db_of_path (pl_path url) \<noteq> [] then Some (db_of_path (pl_path url)) else None)
        (insert_param ''pass'' pass (insert_param ''user'' user
        (insert_param ''port'' (map_option show_nat (pl_port url)) (insert_param ''host'' (pl_host url) Map.empty)))) k)"
proof -
  from assms(4) have "m = fold (\<lambda>(key, v) m. m(key \<mapsto> v)) (pl_query_pairs url)
      (insert_param ''db'' (if db_of_path (pl_path url) \<noteq> [] then Some (db_of_path (pl_path url)) else None)
        (insert_param ''pass'' pass (insert_param ''user'' user
        (insert_param ''port'' (map_option show_nat (pl_port url)) (insert_param ''host'' (pl_host url) Map.empty)))))"
    by (simp add: parse_connection_params_def assms(1-3) Let_def)
  then show ?thesis by (simp only: fold_params)
qed

lemma show_default_port: "show_nat 5432 = ''5432''"
  by (simp add: show_nat.simps) code_simp

text \<open>
  C27. Both pools are given the same settings when the connection string has a host and no query
  and the parameters name a user: the URL of the second pool carries the user and the password of the first one as opaque text,
  each read back by percent decoding, and names the same host, port and database, with the default
  port where the first has none.
\<close>

theorem pg_pools_share_settings:
  assumes "parse c = Inr url" and "pl_host url = Some host" and "pl_query url = None" and "pl_query_pairs url = []"
    and "parse_connection_params parse env c options = Inr m" and "m ''user'' = Some user"
    and "build_sqlx_connection_url parse env c options = Inr s"
  shows "\<exists>u p. s = ''postgres://'' @ u @ p @ ''@'' @ the (m ''host'') @ '':''
        @ (case m ''port'' of Some n \<Rightarrow> n | None \<Rightarrow> ''5432'') @ ''/'' @ (case m ''db'' of Some db \<Rightarrow> db | None \<Rightarrow> [])
    \<and> percent_decode u = user
    \<and> (case m ''pass'' of None \<Rightarrow> p = [] | Some pass \<Rightarrow> \<exists>q. p = '':'' @ q \<and> percent_decode q = pass)
    \<and> list_all (\<lambda>ch. ch = CHR 0x25 \<or> ch = CHR '':'' \<or> is_alphanumeric ch) (u @ p)"
proof -
  from assms(1,5) obtain user' pass' where env: "pg_env_option env options ''user_env'' ''user'' = Inr user'"
    "pg_env_option env options ''pass_env'' ''password'' = Inr pass'"
    by (auto simp: parse_connection_params_def res_simps)
  note m = connection_params_apply [OF assms(1) env assms(5)]
  have vals: "user' = Some user" "m ''pass'' = pass'" "m ''host'' = Some host"
    "m ''port'' = map_option show_nat (pl_port url)"
    "(case m ''db'' of Some db \<Rightarrow> db | None \<Rightarrow> []) = db_of_path (pl_path url)"
    using assms(6) by (simp_all add: m assms(2,4) insert_param_same insert_param_other split: option.splits if_splits)
  define p where "p = (case pass' of Some x \<Rightarrow> '':'' @ percent_encode x | None \<Rightarrow> [])"
  then have port: "(case map_option show_nat (pl_port url) of Some n \<Rightarrow> n | None \<Rightarrow> ''5432'') =
      show_nat (case pl_port url of Some n \<Rightarrow> n | None \<Rightarrow> 5432)"
    by (cases "pl_port url") (simp_all add: show_default_port)
  have "s = ''postgres://'' @ percent_encode user @ p @ ''@'' @ host @ '':''
      @ show_nat (case pl_port url of Some n \<Rightarrow> n | None \<Rightarrow> 5432) @ ''/'' @ db_of_path (pl_path url)"
    using assms(7) by (simp add: build_sqlx_connection_url_def assms(1-3) env vals(1) p_def Let_def split: option.splits)
  then have "s = ''postgres://'' @ percent_encode user @ p @ ''@'' @ the (m ''host'') @ '':''
      @ (case m ''port'' of Some n \<Rightarrow> n | None \<Rightarrow> ''5432'') @ ''/'' @ (case m ''db'' of Some db \<Rightarrow> db | None \<Rightarrow> [])"
    by (simp only: vals port option.sel)
  moreover have "case m ''pass'' of None \<Rightarrow> p = [] | Some pass \<Rightarrow> \<exists>q. p = '':'' @ q \<and> percent_decode q = pass"
    by (auto simp: vals p_def percent_decode_encode split: option.split)
  moreover have "list_all (\<lambda>ch. ch = CHR 0x25 \<or> ch = CHR '':'' \<or> is_alphanumeric ch) (percent_encode x)" for x
    using percent_encode_chars [of x] by (auto simp: list_all_iff)
  then have "list_all (\<lambda>ch. ch = CHR 0x25 \<or> ch = CHR '':'' \<or> is_alphanumeric ch) (percent_encode user @ p)"
    by (simp add: p_def split: option.split)
  ultimately show ?thesis using percent_decode_encode [of user] by blast
qed

definition demo_pg_url :: "string \<Rightarrow> string + pg_url" where
  "demo_pg_url s =
     Inr \<lparr>pl_host = Some ''db'', pl_port = None, pl_path = ''/shop'',
          pl_query = (if s = ''q'' then Some ''user=eve'' else None),
          pl_query_pairs = (if s = ''q'' then [(''user'', ''eve'')] else [])\<rparr>"

theorem pg_pools_share_settings_witness:
  "\<exists>u p. ''postgres://a%40b:x%3Ay@db:5432/shop'' = ''postgres://'' @ u @ p @ ''@db:5432/shop''
    \<and> percent_decode u = ''a@b''"
proof -
  let ?opts = "Some [''user_env'' \<mapsto> ''U'', ''pass_env'' \<mapsto> ''P'']"
  let ?env = "[''U'' \<mapsto> ''a@b'', ''P'' \<mapsto> ''x:y'']"
  have u: "demo_pg_url ''c'' = Inr \<lparr>pl_host = Some ''db'', pl_port = None, pl_path = ''/shop'', pl_query = None, pl_query_pairs = []\<rparr>"
    by (simp add: demo_pg_url_def)
  have e: "pg_env_option ?env ?opts ''user_env'' ''user'' = Inr (Some ''a@b'')"
    "pg_env_option ?env ?opts ''pass_env'' ''password'' = Inr (Some ''x:y'')"
    by (simp_all add: pg_env_option_def)
  obtain m where m: "parse_connection_params demo_pg_url ?env ''c'' ?opts = Inr m"
    by (simp add: parse_connection_params_def u e Let_def)
  note ap = connection_params_apply [OF u e m]
  have v: "m ''host'' = Some ''db''" "m ''port'' = None" "m ''user'' = Some ''a@b''" "m ''db'' = Some ''shop''"
    by (simp_all add: ap insert_param_same insert_param_other db_of_path_def)
  have s: "build_sqlx_connection_url demo_pg_url ?env ''c'' ?opts = Inr ''postgres://a%40b:x%3Ay@db:5432/shop''"
  proof -
    have "percent_encode ''a@b'' = ''a%40b''" "percent_encode ''x:y'' = ''x%3Ay''" by code_simp+
    then show ?thesis by (simp add: build_sqlx_connection_url_def u e Let_def db_of_path_def show_default_port)
  qed
  from pg_pools_share_settings [OF u _ _ _ m v(3) s] show ?thesis by (simp add: v) blast
qed

text \<open>
  Although credentials are documented to come from the environment only, a pair of the
  connection string's query replaces them for the first pool, whatever the environment says.
\<close>

theorem query_replaces_credentials:
  assumes "parse c = Inr url" and "pl_query_pairs url = pre @ (key, v) # post" and "key \<notin> fst ` set post"
    and "parse_connection_params parse env c options = Inr m"
  shows "m key = Some v"
proof -
  from assms(1,4) obtain user pass where env: "pg_env_option env options ''user_env'' ''user'' = Inr user"
    "pg_env_option env options ''pass_env'' ''password'' = Inr pass"
    by (auto simp: parse_connection_params_def res_simps)
  have "map_of (rev post) key = None" using assms(3) by (simp add: map_of_eq_None_iff)
  then show ?thesis using connection_params_apply [OF assms(1) env assms(4), of key] assms(2)
    by (simp add: map_add_def)
qed

theorem query_replaces_credentials_witness:
  "(case parse_connection_params demo_pg_url [''U'' \<mapsto> ''alice''] ''q'' (Some [''user_env'' \<mapsto> ''U'']) of
      Inr m \<Rightarrow> m ''user'' = Some ''eve'' | Inl _ \<Rightarrow> False)"
proof -
  obtain m where m: "parse_connection_params demo_pg_url [''U'' \<mapsto> ''alice''] ''q'' (Some [''user_env'' \<mapsto> ''U'']) = Inr m"
    by (simp add: parse_connection_params_def demo_pg_url_def pg_env_option_def Let_def)
  have u: "demo_pg_url ''q'' = Inr \<lparr>pl_host = Some ''db'', pl_port = None, pl_path = ''/shop'',
      pl_query = Some ''user=eve'', pl_query_pairs = [(''user'', ''eve'')]\<rparr>" by (simp add: demo_pg_url_def)
  show ?thesis using query_replaces_credentials [OF u _ _ m, of "[]" "''user''" "''eve''" "[]"] m by simp
qed

text \<open>
  A password without a user reaches the first pool but not the second: the URL does not
  depend on it, so reads are authenticated and writes are not.
\<close>

theorem password_without_user_is_dropped:
  assumes "opts ''user_env'' = None" and "opts ''pass_env'' = Some k"
    and "parse c = Inr url" and "map_of (rev (pl_query_pairs url)) ''pass'' = None"
  shows "build_sqlx_connection_url parse (env(k \<mapsto> p)) c (Some opts) =
      build_sqlx_connection_url parse (env(k \<mapsto> q)) c (Some opts)
    \<and> map_err (\<lambda>_. ()) (try_res (parse_connection_params parse (env(k \<mapsto> p)) c (Some opts)) (\<lambda>m. Inr (m ''pass''))) = Inr (Some p)"
proof -
  have e: "pg_env_option (env(k \<mapsto> x)) (Some opts) ''user_env'' ''user'' = Inr None"
    "pg_env_option (env(k \<mapsto> x)) (Some opts) ''pass_env'' ''password'' = Inr (Some x)" for x
    using assms(1,2) by (simp_all add: pg_env_option_def)
  obtain m where m: "parse_connection_params parse (env(k \<mapsto> p)) c (Some opts) = Inr m"
    by (simp add: parse_connection_params_def e assms(3) Let_def)
  have "m ''pass'' = Some p"
    by (simp add: connection_params_apply [OF assms(3) e m] assms(4) insert_param_same insert_param_other)
  then show ?thesis by (simp add: m build_sqlx_connection_url_def e assms(3) Let_def)
qed

theorem password_without_user_is_dropped_witness:
  "build_sqlx_connection_url demo_pg_url [''P'' \<mapsto> ''one''] ''c'' (Some [''pass_env'' \<mapsto> ''P'']) =
   build_sqlx_connection_url demo_pg_url [''P'' \<mapsto> ''two''] ''c'' (Some [''pass_env'' \<mapsto> ''P''])"
  using password_without_user_is_dropped [where opts = "[''pass_env'' \<mapsto> ''P'']" and k = "''P''" and env = Map.empty
      and parse = demo_pg_url and c = "''c''" and p = "''one''" and q = "''two''"]
  by (simp add: demo_pg_url_def)

section \<open>Registration\<close>

text \<open>The wrapper that can write is built in read-write mode only, for a table that has columns.\<close>

lemma postgres_provider_shape:
  assumes "build_postgres_table_provider W r table rw pool = Inr p"
  shows "pp_table p = table \<and> pp_schema p \<noteq> [] \<and> (pp_write p \<noteq> None \<longleftrightarrow> rw)
    \<and> (\<forall>q auto. pp_write p = Some (q, auto) \<longrightarrow> q = pool \<and> pw_auto W pool (fst table) (snd table) = Inr auto)"
  using assms by (auto simp: build_postgres_table_provider_def detect_auto_generated_columns_def Let_def res_simps
      split: prod.splits if_splits)

text \<open>
  A table that is built but refused by the session stays in the registry of the search
  functions: its entry is made before the table is registered and is not taken back.
\<close>

theorem refused_table_stays_searchable:
  assumes "options = Some opts" and "opts ''table'' = Some t" and "opts ''schema'' = None"
    and "init_postgres_pools W c options \<lparr>sl_kind = Postgres, sl_hierarchy = TableLevel, sl_name = name\<rparr> = Inr (rp, sp)"
    and "build_and_register_table W rp sp ''public'' t rw name (Some reg) = (Inr p, Some reg')"
    and "register session name p = Inl e"
  shows "\<exists>msg. register_single_postgres_table W register session name c options rw (Some reg) = (Inl msg, Some reg')
    \<and> map_option pe_qualified_table (reg' name) = Some (quote_pg_ident ''public'' @ ''.'' @ quote_pg_ident t)"
  using assms
  by (auto simp: register_single_postgres_table_def build_and_register_table_def register_table_in_knn_registry_def
      quote_pg_ident_def res_simps split: sum.splits)

definition demo_pg_world :: "(nat, nat) pg_world" where
  "demo_pg_world =
     \<lparr>pw_parse_url = demo_pg_url, pw_env = Map.empty, pw_read_pool = (\<lambda>_ i. if i < 3 then TimedOut else Done 1),
      pw_sqlx_pool = (\<lambda>_ _. Done 2),
      pw_columns = (\<lambda>_ _ _. Inr [(''id'', ''integer'', ''int4'', Some 32, Some 0), (''e'', ''USER-DEFINED'', ''vector'', None, None)]),
      pw_auto = (\<lambda>_ _ _. Inr [''id'']), pw_tables = (\<lambda>_ _ _. Done [(''public'', ''t'')])\<rparr>"

lemma built_entry_cases:
  "(case x of (Inr _, Some _) \<Rightarrow> True | _ \<Rightarrow> False) \<Longrightarrow> \<exists>p reg. x = (Inr p, Some reg)"
  by (cases x) (auto split: sum.splits option.splits)

theorem refused_table_stays_searchable_witness:
  "\<exists>msg reg'. register_single_postgres_table demo_pg_world (\<lambda>_ _ _. Inl ''exists'') () ''t'' ''c''
      (Some [''table'' \<mapsto> ''docs'']) True (Some Map.empty) = (Inl msg, Some reg')
    \<and> map_option pe_qualified_table (reg' ''t'') = Some (quote_pg_ident ''public'' @ ''.'' @ quote_pg_ident ''docs'')"
proof -
  let ?l = "\<lparr>sl_kind = Postgres, sl_hierarchy = TableLevel, sl_name = ''t''\<rparr>"
  let ?o = "Some [''table'' \<mapsto> ''docs'']"
  have i: "init_postgres_pools demo_pg_world ''c'' ?o ?l = Inr (1, 2)"
    by (simp add: init_postgres_pools_def demo_pg_world_def retry_with_timeout_spec attempt_ok_def
        parse_connection_params_def build_sqlx_connection_url_def demo_pg_url_def pg_env_option_def Let_def)
  have "(case build_and_register_table demo_pg_world 1 2 ''public'' ''docs'' True ''t'' (Some Map.empty) of
      (Inr _, Some _) \<Rightarrow> True | _ \<Rightarrow> False)" by code_simp
  then obtain p reg' where b: "build_and_register_table demo_pg_world 1 2 ''public'' ''docs'' True ''t'' (Some Map.empty) = (Inr p, Some reg')"
    using built_entry_cases by blast
  have t: "[''table'' \<mapsto> ''docs''] ''table'' = Some ''docs''" "[''table'' \<mapsto> ''docs''] ''schema'' = None" by simp_all
  from refused_table_stays_searchable [where register = "\<lambda>_ _ _. Inl ''exists''" and session = "()", OF refl t i b refl]
  show ?thesis by (elim exE) (intro exI, assumption)
qed

end
