(* ===== verification/Sqlite_Search.thy ===== *)
theory Sqlite_Search
  imports Sqlite_Provider
begin

text \<open>
  The search functions of SQLite (\<^verbatim>\<open>sources/providers/sqlite/fts_table_function.rs\<close>,
  \<^verbatim>\<open>fts_exec.rs\<close>, \<^verbatim>\<open>knn_table_function.rs\<close>, \<^verbatim>\<open>knn_exec.rs\<close>): their arguments, the SELECT they generate
  and how its rows become columns. \<open>search\<close> runs a statement with its one bound value;
  \<open>finite\<close> tells whether a 32-bit float is neither infinite nor a NaN.
\<close>

section \<open>Arguments\<close>

definition MAX_FTS_LIMIT :: nat where
  "MAX_FTS_LIMIT = 500"

definition sqlite_extract_string :: "udtf_arg \<Rightarrow> string \<Rightarrow> string + string" where
  "sqlite_extract_string e name =
     (case e of
        ArgExpr (ELiteral (SvUtf8 (Some s))) \<Rightarrow> Inr s
      | ArgExpr (ELiteral (SvLargeUtf8 (Some s))) \<Rightarrow> Inr s
      | ArgExpr (ELiteral SvNull) \<Rightarrow> Inr []
      | _ \<Rightarrow> Inl (''sqlite: '' @ quote @ name @ quote @ '' must be a string literal''))"

definition fts_positive :: "string \<Rightarrow> int \<Rightarrow> string + nat option" where
  "fts_positive name v =
     (if 1 \<le> v then Inr (Some (nat v))
      else plan_err ''sqlite_fts'' (quote @ name @ quote @ '' must be a positive integer, got '' @ show_int v))"

definition fts_extract_int :: "udtf_arg \<Rightarrow> string \<Rightarrow> string + nat option" where
  "fts_extract_int e name =
     (case e of
        ArgExpr (ELiteral (SvInt64 (Some v))) \<Rightarrow> fts_positive name (sint v)
      | ArgExpr (ELiteral (SvInt32 (Some v))) \<Rightarrow> fts_positive name (sint v)
      | ArgExpr (ELiteral (SvUInt64 (Some v))) \<Rightarrow> fts_positive name (uint v)
      | ArgExpr (ELiteral (SvUInt32 (Some v))) \<Rightarrow> fts_positive name (uint v)
      | ArgExpr (ELiteral SvNull) \<Rightarrow> Inr None
      | _ \<Rightarrow> plan_err ''sqlite_fts'' (quote @ name @ quote @ '' must be an integer literal''))"

definition fts_limit :: "udtf_arg \<Rightarrow> string + nat" where
  "fts_limit e =
     try_res (fts_extract_int e ''limit'') (\<lambda>l.
     case l of
       None \<Rightarrow> Inr 1
     | Some v \<Rightarrow> if MAX_FTS_LIMIT < v
                 then plan_err ''sqlite_fts'' (''limit must be between 1 and '' @ show_nat MAX_FTS_LIMIT
                        @ '', got '' @ show_nat v)
                 else Inr v)"

text \<open>The shared registry, of which these functions use the SQLite entries.\<close>

datatype 'c search_dataset = SqliteDataset "'c sqlite_entry" | OtherDataset

definition find_sqlite ::
  "string \<Rightarrow> string \<Rightarrow> (string \<rightharpoonup> 'c search_dataset) \<Rightarrow> string \<Rightarrow> string + 'c sqlite_entry" where
  "find_sqlite fn_name hint registry table_name =
     (case registry table_name of
        None \<Rightarrow> plan_err fn_name (''table '' @ quote @ table_name @ quote
                  @ '' not found in registry. Make sure the data source is declared with type ''
                  @ quote @ ''sqlite'' @ quote @ hint)
      | Some (SqliteDataset e) \<Rightarrow> Inr e
      | Some OtherDataset \<Rightarrow> plan_err fn_name (''table '' @ quote @ table_name @ quote @ '' is not a SQLite dataset''))"

definition score_field :: arrow_field where
  "score_field = \<lparr>af_name = ''_score'', af_type = AtFloat64, af_nullable = True\<rparr>"

definition entry_fields :: "(string \<times> arrow_type) list \<Rightarrow> arrow_field list" where
  "entry_fields cols = map (\<lambda>(name, ty). \<lparr>af_name = name, af_type = ty, af_nullable = True\<rparr>) cols @ [score_field]"

section \<open>Planning a text search\<close>

record 'c sqlite_fts_provider =
  fp_conn :: 'c
  fp_table :: string
  fp_text_col :: string
  fp_query :: string
  fp_limit :: nat
  fp_schema :: "arrow_field list"

definition sqlite_fts_call ::
  "(string \<rightharpoonup> 'c search_dataset) \<Rightarrow> udtf_arg list \<Rightarrow> string + 'c sqlite_fts_provider" where
  "sqlite_fts_call registry exprs =
     (if length exprs \<noteq> 4
      then Inl (''sqlite_fts(table, text_col, query, limit) expects 4 arguments, got '' @ show_nat (length exprs))
      else
        try_res (sqlite_extract_string (exprs ! 0) ''table'') (\<lambda>table_name.
        try_res (sqlite_extract_string (exprs ! 1) ''text_col'') (\<lambda>text_col.
        try_res (sqlite_extract_string (exprs ! 2) ''query'') (\<lambda>query.
        try_res (fts_limit (exprs ! 3)) (\<lambda>limit.
        try_res (find_sqlite ''sqlite_fts'' ''.'' registry table_name) (\<lambda>entry.
        Inr \<lparr>fp_conn = sy_conn entry, fp_table = sy_table entry, fp_text_col = text_col, fp_query = query,
             fp_limit = limit, fp_schema = entry_fields (sy_columns entry)\<rparr>))))))"

definition search_pushdown :: "(expr \<Rightarrow> string + string) \<Rightarrow> expr \<Rightarrow> bool" where
  "search_pushdown unparse e = is_ok (unparse e)"

text \<open>The filters that can be rendered, joined; the others are not pushed down.\<close>

definition search_filter :: "(expr \<Rightarrow> string + string) \<Rightarrow> expr list \<Rightarrow> string option" where
  "search_filter unparse filters =
     (let parts = List.map_filter (\<lambda>e. case unparse e of Inr s \<Rightarrow> Some s | Inl _ \<Rightarrow> None) filters
      in if parts = [] then None else Some (str_join '' AND '' parts))"

definition project_fields :: "arrow_field list \<Rightarrow> nat list option \<Rightarrow> arrow_field list" where
  "project_fields schema projection =
     (case projection of Some proj \<Rightarrow> map ((!) schema) proj | None \<Rightarrow> schema)"

record 'c sqlite_fts_exec =
  fe_conn :: 'c
  fe_table :: string
  fe_text_col :: string
  fe_query :: string
  fe_limit :: nat
  fe_filter :: "string option"
  fe_scan_limit :: "nat option"
  fe_schema :: "arrow_field list"

definition sqlite_fts_exec_new ::
  "'c \<Rightarrow> string \<Rightarrow> string \<Rightarrow> string \<Rightarrow> nat \<Rightarrow> string option \<Rightarrow> arrow_field list \<Rightarrow> 'c sqlite_fts_exec" where
  "sqlite_fts_exec_new conn table text_col query limit flt schema =
     \<lparr>fe_conn = conn, fe_table = table, fe_text_col = text_col, fe_query = query, fe_limit = limit,
      fe_filter = flt, fe_scan_limit = None, fe_schema = schema\<rparr>"

definition sqlite_fts_scan ::
  "(expr \<Rightarrow> string + string) \<Rightarrow> 'c sqlite_fts_provider \<Rightarrow> nat list option \<Rightarrow> expr list \<Rightarrow> nat option
   \<Rightarrow> 'c sqlite_fts_exec" where
  "sqlite_fts_scan unparse p projection filters limit =
     (let x = sqlite_fts_exec_new (fp_conn p) (fp_table p) (fp_text_col p) (fp_query p) (fp_limit p)
                (search_filter unparse filters) (project_fields (fp_schema p) projection)
      in case limit of Some n \<Rightarrow> x\<lparr>fe_scan_limit := Some n\<rparr> | None \<Rightarrow> x)"

section \<open>The statements\<close>

text \<open>The names of the select list: the columns of the schema without the score, then the score.\<close>

definition select_names :: "arrow_field list \<Rightarrow> string list" where
  "select_names schema = filter (\<lambda>n. n \<noteq> ''_score'') (map af_name schema)"

definition select_columns :: "arrow_field list \<Rightarrow> string" where
  "select_columns schema = str_join '', '' (map quote_sqlite_ident (select_names schema))"

definition search_limit :: "nat option \<Rightarrow> nat \<Rightarrow> nat" where
  "search_limit scan_limit k = (case scan_limit of Some sl \<Rightarrow> min sl k | None \<Rightarrow> k)"

definition select_list :: "string \<Rightarrow> string \<Rightarrow> string" where
  "select_list cols score_expr = (if cols = [] then score_expr else cols @ '', '' @ score_expr)"

definition fts_build_query :: "'c sqlite_fts_exec \<Rightarrow> string" where
  "fts_build_query x =
     (let table = quote_sqlite_ident (fe_table x);
          where_parts = [quote_sqlite_ident (fe_text_col x) @ '' MATCH ?1'']
            @ (case fe_filter x of Some f \<Rightarrow> [f] | None \<Rightarrow> [])
      in ''SELECT '' @ select_list (select_columns (fe_schema x)) (''-bm25('' @ table @ '') AS _score'')
         @ '' FROM '' @ table @ '' WHERE '' @ str_join '' AND '' where_parts
         @ '' ORDER BY rank LIMIT '' @ show_nat (search_limit (fe_scan_limit x) (fe_limit x)))"

text \<open>
  \<open>no_columns\<close> is what the constructor of a batch answers for an empty list of columns, which
  does not tell it how many rows there are.
\<close>

definition columns_batch :: "string + scalar list list \<Rightarrow> scalar list list \<Rightarrow> string + scalar list list" where
  "columns_batch no_columns columns = (if columns = [] then no_columns else Inr columns)"

definition sqlite_fts_run ::
  "('d \<Rightarrow> string \<Rightarrow> sqlite_value \<Rightarrow> string + sqlite_value list list) \<Rightarrow> sqlite_floats \<Rightarrow> string + scalar list list
   \<Rightarrow> 'd \<Rightarrow> 'c sqlite_fts_exec \<Rightarrow> string + scalar list list" where
  "sqlite_fts_run search F no_columns d x =
     try_res (map_err (\<lambda>e. ''sqlite_fts error: '' @ e)
       (try_res (search d (fts_build_query x) (SqText (fe_query x))) (read_columns F (fe_schema x))))
       (columns_batch no_columns)"

section \<open>Vector search\<close>

record 'c sqlite_knn_provider =
  np_conn :: 'c
  np_table :: string
  np_vector_col :: string
  np_literal :: "32 word list option"
  np_query_vector :: udtf_arg
  np_schema :: "arrow_field list"
  np_k :: nat

definition sqlite_knn_call ::
  "(64 word \<Rightarrow> 32 word) \<Rightarrow> (string \<rightharpoonup> 'c search_dataset) \<Rightarrow> udtf_arg list \<Rightarrow> string + 'c sqlite_knn_provider" where
  "sqlite_knn_call narrow registry exprs =
     (if length exprs \<noteq> 4
      then Inl (''sqlite_knn(table, vector_col, query_vec, k) expects 4 arguments, got '' @ show_nat (length exprs)
                @ ''. The distance metric is configured at vec0 table creation time.'')
      else
        try_res (sqlite_extract_string (exprs ! 0) ''table'') (\<lambda>table_name.
        try_res (sqlite_extract_string (exprs ! 1) ''vector_col'') (\<lambda>vector_col.
        try_res (extract_k (exprs ! 3) ''sqlite_knn'') (\<lambda>k.
        try_res (find_sqlite ''sqlite_knn''
          ('' and the sqlite-vec extension is loaded via the '' @ quote @ ''extensions'' @ quote @ '' option.'')
          registry table_name) (\<lambda>entry.
        Inr \<lparr>np_conn = sy_conn entry, np_table = sy_table entry, np_vector_col = vector_col,
             np_literal = (case extract_literal_vector narrow (exprs ! 2) ''sqlite_knn'' of
                             Inr v \<Rightarrow> Some v | Inl _ \<Rightarrow> None),
             np_query_vector = exprs ! 2,
             np_schema = entry_fields (filter (\<lambda>(name, _). name \<noteq> vector_col) (sy_columns entry)),
             np_k = k\<rparr>)))))"

text \<open>The vector, or the plan that yields it.\<close>

record 'c sqlite_knn_exec =
  ne_conn :: 'c
  ne_table :: string
  ne_vector_col :: string
  ne_query_vector :: "32 word list option"
  ne_deferred :: bool
  ne_k :: nat
  ne_filter :: "string option"
  ne_scan_limit :: "nat option"
  ne_schema :: "arrow_field list"

definition sqlite_knn_exec_new ::
  "'c \<Rightarrow> string \<Rightarrow> string \<Rightarrow> 32 word list \<Rightarrow> string option \<Rightarrow> arrow_field list \<Rightarrow> nat \<Rightarrow> 'c sqlite_knn_exec" where
  "sqlite_knn_exec_new conn table vector_col v flt schema k =
     \<lparr>ne_conn = conn, ne_table = table, ne_vector_col = vector_col, ne_query_vector = Some v, ne_deferred = False,
      ne_k = k, ne_filter = flt, ne_scan_limit = None, ne_schema = schema\<rparr>"

definition sqlite_knn_exec_subquery ::
  "'c \<Rightarrow> string \<Rightarrow> string \<Rightarrow> string option \<Rightarrow> arrow_field list \<Rightarrow> nat \<Rightarrow> 'c sqlite_knn_exec" where
  "sqlite_knn_exec_subquery conn table vector_col flt schema k =
     \<lparr>ne_conn = conn, ne_table = table, ne_vector_col = vector_col, ne_query_vector = None, ne_deferred = True,
      ne_k = k, ne_filter = flt, ne_scan_limit = None, ne_schema = schema\<rparr>"

text \<open>\<open>plan\<close> is the outcome of planning the subquery.\<close>

definition sqlite_knn_scan ::
  "(expr \<Rightarrow> string + string) \<Rightarrow> string + unit \<Rightarrow> 'c sqlite_knn_provider \<Rightarrow> nat list option \<Rightarrow> expr list
   \<Rightarrow> nat option \<Rightarrow> string + 'c sqlite_knn_exec" where
  "sqlite_knn_scan unparse plan p projection filters limit =
     (let flt = search_filter unparse filters;
          schema = project_fields (np_schema p) projection
      in try_res
        (case np_literal p of
           Some v \<Rightarrow> Inr (sqlite_knn_exec_new (np_conn p) (np_table p) (np_vector_col p) v flt schema (np_k p))
         | None \<Rightarrow>
             if np_query_vector p = ArgSubquery
             then try_res plan (\<lambda>_.
               Inr (sqlite_knn_exec_subquery (np_conn p) (np_table p) (np_vector_col p) flt schema (np_k p)))
             else plan_err ''sqlite_knn'' ''query_vec must be a literal array or a scalar subquery'') (\<lambda>x.
      Inr (case limit of Some n \<Rightarrow> x\<lparr>ne_scan_limit := Some n\<rparr> | None \<Rightarrow> x)))"

definition knn_build_query :: "'c sqlite_knn_exec \<Rightarrow> string" where
  "knn_build_query x =
     (let where_parts =
            [quote_sqlite_ident (ne_vector_col x) @ '' MATCH ?1'',
             ''k = '' @ show_nat (search_limit (ne_scan_limit x) (ne_k x))]
            @ (case ne_filter x of Some f \<Rightarrow> [f] | None \<Rightarrow> [])
      in ''SELECT '' @ select_list (select_columns (ne_schema x)) ''distance AS _score''
         @ '' FROM '' @ quote_sqlite_ident (ne_table x) @ '' WHERE '' @ str_join '' AND '' where_parts
         @ '' ORDER BY distance'')"

definition sqlite_knn_run ::
  "('d \<Rightarrow> string \<Rightarrow> sqlite_value \<Rightarrow> string + sqlite_value list list) \<Rightarrow> sqlite_floats \<Rightarrow> string + scalar list list
   \<Rightarrow> (32 word \<Rightarrow> bool) \<Rightarrow> string + 32 word list option \<Rightarrow> 'd \<Rightarrow> 'c sqlite_knn_exec \<Rightarrow> string + scalar list list" where
  "sqlite_knn_run search F no_columns is_finite subquery d x =
     try_res
       (case ne_query_vector x of
          Some v \<Rightarrow> Inr (Some v)
        | None \<Rightarrow> if ne_deferred x then subquery
                  else Inl ''SqliteKnnExec: both query_vector and query_vector_plan are absent'') (\<lambda>qv.
     case qv of
       None \<Rightarrow> Inr (map (\<lambda>_. []) (ne_schema x))
     | Some v \<Rightarrow>
         if \<not> list_all is_finite v
         then plan_err ''sqlite_knn'' ''query vector contains NaN or Inf; only finite f32 values are allowed''
         else
           try_res (map_err (\<lambda>e. ''sqlite_knn error: '' @ e)
             (try_res (search d (knn_build_query x) (SqBlob (concat (map to_le_bytes v))))
               (read_columns F (ne_schema x))))
             (columns_batch no_columns))"

section \<open>Columns line up\<close>

lemma take_eq_iff: "take (length ns) xs = ns \<longleftrightarrow> (\<forall>i < length ns. xs ! i = ns ! i \<and> i < length xs)"
proof
  assume eq: "take (length ns) xs = ns"
  then have "length ns \<le> length xs" by (metis length_take min.cobounded1)
  moreover have "xs ! i = ns ! i" if "i < length ns" for i using eq that by (metis nth_take)
  ultimately show "\<forall>i < length ns. xs ! i = ns ! i \<and> i < length xs" by simp
next
  assume r: "\<forall>i < length ns. xs ! i = ns ! i \<and> i < length xs"
  then have "length ns \<le> length xs" by (meson not_le_imp_less less_irrefl)
  with r show "take (length ns) xs = ns" by (intro nth_equalityI) simp_all
qed

lemma moved_last_lines_up:
  assumes "f = filter (\<lambda>n. n \<noteq> s) ns"
  shows "(\<forall>i < length ns. (f @ [s]) ! i = ns ! i \<and> i < length (f @ [s])) \<longleftrightarrow> s \<notin> set (butlast ns)"
proof
  assume l: "\<forall>i < length ns. (f @ [s]) ! i = ns ! i \<and> i < length (f @ [s])"
  show "s \<notin> set (butlast ns)"
  proof
    assume "s \<in> set (butlast ns)"
    then obtain a b where ab: "butlast ns = a @ s # b" "s \<notin> set a"
      by (meson split_list_first)
    then have "ns = a @ s # (b @ [last ns])"
      by (metis append.assoc append_Cons append_butlast_last_id butlast.simps(1) list.distinct(1) append_is_Nil_conv)
    then obtain t where ns: "ns = a @ s # t" "t \<noteq> []" by blast
    let ?g = "filter (\<lambda>n. n \<noteq> s) t"
    have fa: "f = a @ ?g" unfolding assms ns(1) using ab(2) by (auto simp: filter_id_conv)
    from l have sc: "(f @ [s]) ! length a = s" by (auto simp: ns(1) dest: spec [of _ "length a"])
    from l ns have "length ns - 1 < length f + 1" by (auto dest: spec [of _ "length ns - 1"])
    then have "?g \<noteq> []" using ns by (auto simp: fa)
    then obtain h r where g: "?g = h # r" by (cases ?g) auto
    then have "h \<in> set ?g" by simp
    then have "h \<noteq> s" by simp
    with sc show False by (simp add: fa g nth_append)
  qed
next
  assume r: "s \<notin> set (butlast ns)"
  show "\<forall>i < length ns. (f @ [s]) ! i = ns ! i \<and> i < length (f @ [s])"
  proof (cases "ns = []")
    case False
    then have ns: "ns = butlast ns @ [last ns]" by simp
    have "filter (\<lambda>n. n \<noteq> s) (butlast ns) = butlast ns"
      using r by (auto simp: filter_id_conv)
    then have "f @ [s] = ns @ (if last ns = s then [] else [s])"
      unfolding assms by (subst (1 2) ns) simp
    then show ?thesis by (auto simp: nth_append)
  qed simp
qed

text \<open>
  A row of the result is read by position, so the i-th column of the output must be the i-th
  item of the select list. It is, for all columns, exactly when the score is absent or the last
  column of the output.
\<close>

theorem search_columns_line_up:
  "take (length schema) (select_names schema @ [''_score'']) = map af_name schema \<longleftrightarrow>
   ''_score'' \<notin> set (butlast (map af_name schema))"
proof -
  let ?sel = "select_names schema @ [''_score'']" and ?ns = "map af_name schema"
  have "take (length schema) ?sel = ?ns \<longleftrightarrow> (\<forall>i < length ?ns. ?sel ! i = ?ns ! i \<and> i < length ?sel)"
    using take_eq_iff [of ?ns ?sel] by simp
  then show ?thesis
    using moved_last_lines_up [of "select_names schema" "''_score''" ?ns] by (simp add: select_names_def)
qed

section \<open>Filters\<close>

lemma ident_conjunct: "conjunct_text (quote_sqlite_ident c @ '' MATCH ?1'')"
proof -
  have q: "balanced (quote_sqlite_ident c)" "sql_words (quote_sqlite_ident c) = [quote_sqlite_ident c]"
    using quoted_word [of dquote c] by (simp_all add: quote_sqlite_ident_def)
  have m: "balanced ''MATCH ?1''" "sql_words ''MATCH ?1'' = [''MATCH'', ''?1'']" by code_simp+
  have "balanced (quote_sqlite_ident c @ '' MATCH ?1'')"
    using q(1) m(1) by (simp add: balanced_def)
  then show ?thesis
    unfolding conjunct_text_def sql_words_append [OF q(1)] q(2) m(2)
    by (simp add: quote_sqlite_ident_def dquote_def)
qed

definition rendered :: "(expr \<Rightarrow> string + string) \<Rightarrow> expr list \<Rightarrow> string list" where
  "rendered unparse filters = map (\<lambda>e. projr (unparse e)) (filter (search_pushdown unparse) filters)"

lemma search_filter_rendered:
  "search_filter unparse filters =
     (if rendered unparse filters = [] then None else Some (str_join '' AND '' (rendered unparse filters)))"
proof -
  have "List.map_filter (\<lambda>e. case unparse e of Inr s \<Rightarrow> Some s | Inl _ \<Rightarrow> None) filters = rendered unparse filters"
    by (induction filters)
      (auto simp: rendered_def search_pushdown_def is_ok_def List.map_filter_def split: sum.splits)
  then show ?thesis by (simp add: search_filter_def Let_def)
qed

lemma rendered_conjuncts: "renders_conjuncts unparse filters \<Longrightarrow> list_all conjunct_text (rendered unparse filters)"
  by (induction filters)
    (auto simp: rendered_def renders_conjuncts_def search_pushdown_def is_ok_def split: sum.splits)

lemma joined_filter:
  assumes "list_all conjunct_text (p # parts)" and "renders_conjuncts unparse filters"
  shows "where_holds v (str_join '' AND '' ((p # parts) @
      (case search_filter unparse filters of Some f \<Rightarrow> [f] | None \<Rightarrow> []))) \<longleftrightarrow>
    list_all (where_holds v) (p # parts) \<and> list_all (where_holds v) (rendered unparse filters)"
proof (cases "rendered unparse filters = []")
  case True
  with join_and_holds [OF _ assms(1), of v] show ?thesis by (simp add: search_filter_rendered del: str_join.simps)
next
  case False
  let ?j = "str_join '' AND '' (rendered unparse filters)"
  from join_and_words [OF False rendered_conjuncts [OF assms(2)], of v]
  have j: "conjunct_text ?j" "where_holds v ?j \<longleftrightarrow> list_all (where_holds v) (rendered unparse filters)"
    by (simp_all add: conjunct_text_def)
  have "list_all conjunct_text ((p # parts) @ [?j])" using assms(1) j(1) by simp
  from join_and_holds [OF _ this, of v] False j(2) show ?thesis
    by (simp add: search_filter_rendered del: str_join.simps)
qed

text \<open>
  The search functions declare a filter exact when it can be rendered: the WHERE clause of the
  text search then means the match and all filters declared exact, and no others, whatever the
  engine's unparser renders them to, as long as it leaves no \<open>OR\<close> outside parentheses.
\<close>

theorem exact_filters_are_in_the_search:
  assumes "renders_conjuncts unparse filters"
  shows "\<exists>sel body rest. fts_build_query (sqlite_fts_scan unparse p projection filters limit) =
      ''SELECT '' @ sel @ '' FROM '' @ quote_sqlite_ident (fp_table p) @ '' WHERE '' @ body @ '' ORDER BY rank'' @ rest
    \<and> (\<forall>v. where_holds v body = (where_holds v (quote_sqlite_ident (fp_text_col p) @ '' MATCH ?1'')
        \<and> list_all (\<lambda>e. where_holds v (projr (unparse e))) (filter (search_pushdown unparse) filters)))"
proof -
  let ?m = "quote_sqlite_ident (fp_text_col p) @ '' MATCH ?1''"
  let ?body = "str_join '' AND '' ([?m] @ (case search_filter unparse filters of Some f \<Rightarrow> [f] | None \<Rightarrow> []))"
  have "list_all conjunct_text [?m]" by (simp add: ident_conjunct del: append.simps)
  from joined_filter [OF this assms] have "where_holds v ?body = (where_holds v ?m
      \<and> list_all (\<lambda>e. where_holds v (projr (unparse e))) (filter (search_pushdown unparse) filters))" for v
    by (simp add: rendered_def list_all_iff del: str_join.simps append.simps)
  moreover have "fts_build_query (sqlite_fts_scan unparse p projection filters limit) =
      ''SELECT '' @ select_list (select_columns (project_fields (fp_schema p) projection))
        (''-bm25('' @ quote_sqlite_ident (fp_table p) @ '') AS _score'')
      @ '' FROM '' @ quote_sqlite_ident (fp_table p) @ '' WHERE '' @ ?body @ '' ORDER BY rank''
      @ '' LIMIT '' @ show_nat (search_limit limit (fp_limit p))"
    by (cases limit) (simp_all add: fts_build_query_def sqlite_fts_scan_def sqlite_fts_exec_new_def Let_def
        del: str_join.simps)
  ultimately show ?thesis by blast
qed

theorem exact_filters_are_in_the_search_witness:
  "\<exists>sel body rest. fts_build_query (sqlite_fts_scan (sd_unparse list_driver)
        \<lparr>fp_conn = 0 :: nat, fp_table = ''t'', fp_text_col = ''body'', fp_query = ''q'', fp_limit = 9, fp_schema = [score_field]\<rparr>
        None [EOther ''(x = 1 OR y = 2)'', EColumn ''c'', EOther ''z = 3''] (Some 5)) =
      ''SELECT '' @ sel @ '' FROM '' @ quote_sqlite_ident ''t'' @ '' WHERE '' @ body @ '' ORDER BY rank'' @ rest
    \<and> where_holds (\<lambda>_. True) body"
proof -
  let ?f = "[EOther ''(x = 1 OR y = 2)'', EColumn ''c'', EOther ''z = 3'']"
  let ?p = "\<lparr>fp_conn = 0 :: nat, fp_table = ''t'', fp_text_col = ''body'', fp_query = ''q'', fp_limit = 9,
    fp_schema = [score_field]\<rparr>"
  have r: "renders_conjuncts (sd_unparse list_driver) ?f" by code_simp
  have h: "where_holds (\<lambda>_. True) (quote_sqlite_ident (fp_text_col ?p) @ '' MATCH ?1'')
    \<and> list_all (\<lambda>e. where_holds (\<lambda>_. True) (projr (sd_unparse list_driver e)))
        (filter (search_pushdown (sd_unparse list_driver)) ?f)" by code_simp
  obtain sel body rest where b: "fts_build_query (sqlite_fts_scan (sd_unparse list_driver) ?p None ?f (Some 5)) =
      ''SELECT '' @ sel @ '' FROM '' @ quote_sqlite_ident (fp_table ?p) @ '' WHERE '' @ body @ '' ORDER BY rank'' @ rest"
    "\<forall>v. where_holds v body = (where_holds v (quote_sqlite_ident (fp_text_col ?p) @ '' MATCH ?1'')
        \<and> list_all (\<lambda>e. where_holds v (projr (sd_unparse list_driver e)))
            (filter (search_pushdown (sd_unparse list_driver)) ?f))"
    using exact_filters_are_in_the_search [OF r, of ?p None "Some 5"] by blast
  from spec [OF b(2), of "\<lambda>_. True"] h have "where_holds (\<lambda>_. True) body" by blast
  with b(1) show ?thesis unfolding sqlite_fts_provider.simps by blast
qed

section \<open>Bounds and errors\<close>

lemma fts_limit_ok: "fts_limit e = Inr n \<Longrightarrow> n \<le> 500"
  by (auto simp: fts_limit_def fts_extract_int_def fts_positive_def plan_err_def MAX_FTS_LIMIT_def res_simps
      split: if_splits udtf_arg.splits expr.splits scalar.splits option.splits)

text \<open>
  The LIMIT of a generated text search is at most 500, at most the limit asked for in the
  call and at most the LIMIT of the query around it; the same number is the \<open>k\<close> of a vector search.
\<close>

theorem sqlite_searches_are_bounded:
  assumes "sqlite_fts_call registry exprs = Inr p" and "sqlite_knn_call narrow registry exprs' = Inr p'"
    and "sqlite_knn_scan unparse plan p' projection filters limit = Inr x'"
  shows "fe_limit (sqlite_fts_scan unparse p projection filters limit) \<le> 500 \<and> ne_k x' \<le> 500
    \<and> (\<forall>n. limit = Some n \<longrightarrow>
        search_limit (fe_scan_limit (sqlite_fts_scan unparse p projection filters limit))
          (fe_limit (sqlite_fts_scan unparse p projection filters limit)) = min n (fp_limit p)
      \<and> search_limit (ne_scan_limit x') (ne_k x') = min n (np_k p'))"
proof -
  have "fp_limit p \<le> 500"
    using assms(1) by (auto simp: sqlite_fts_call_def res_simps split: if_splits dest!: fts_limit_ok)
  moreover have "np_k p' \<le> 500"
    using assms(2) by (auto simp: sqlite_knn_call_def res_simps split: if_splits dest!: extract_k_bounds)
  moreover have "ne_k x' = np_k p' \<and> (\<forall>n. limit = Some n \<longrightarrow> ne_scan_limit x' = Some n)"
    using assms(3) by (auto simp: sqlite_knn_scan_def sqlite_knn_exec_new_def sqlite_knn_exec_subquery_def plan_err_def
        res_simps Let_def split: option.splits if_splits)
  ultimately show ?thesis
    by (auto simp: sqlite_fts_scan_def sqlite_fts_exec_new_def search_limit_def Let_def split: option.splits)
qed

definition demo_dataset :: "nat search_dataset" where
  "demo_dataset = SqliteDataset \<lparr>sy_conn = 0, sy_table = ''t'', sy_columns = [(''id'', AtInt64), (''v'', AtBinary)]\<rparr>"

theorem sqlite_searches_are_bounded_witness:
  "min 5 (3 :: nat) = 3 \<and> search_limit (Some 5) 3 = (3 :: nat)"
proof -
  let ?str = "\<lambda>s. ArgExpr (ELiteral (SvUtf8 (Some s)))"
  let ?p = "\<lparr>fp_conn = 0 :: nat, fp_table = ''t'', fp_text_col = ''b'', fp_query = ''q'', fp_limit = 3,
    fp_schema = entry_fields [(''id'', AtInt64), (''v'', AtBinary)]\<rparr>"
  let ?p' = "\<lparr>np_conn = 0 :: nat, np_table = ''t'', np_vector_col = ''v'', np_literal = Some [0], np_query_vector =
    ArgList [F32Array [0]], np_schema = entry_fields [(''id'', AtInt64)], np_k = 3\<rparr>"
  let ?x = "\<lparr>ne_conn = 0 :: nat, ne_table = ''t'', ne_vector_col = ''v'', ne_query_vector = Some [0], ne_deferred = False,
      ne_k = 3, ne_filter = None, ne_scan_limit = Some 5, ne_schema = entry_fields [(''id'', AtInt64)]\<rparr>"
  have c: "sqlite_fts_call [''s'' \<mapsto> demo_dataset] [?str ''s'', ?str ''b'', ?str ''q'', ArgExpr (ELiteral (SvInt32 (Some 3)))] = Inr ?p"
    by code_simp
  have c': "sqlite_knn_call ucast [''s'' \<mapsto> demo_dataset]
      [?str ''s'', ?str ''v'', ArgList [F32Array [0]], ArgExpr (ELiteral (SvInt32 (Some 3)))] = Inr ?p'"
    by code_simp
  have s: "sqlite_knn_scan (sd_unparse list_driver) (Inr ()) ?p' None [] (Some 5) = Inr ?x" by code_simp
  show ?thesis
    using sqlite_searches_are_bounded [OF c c' s]
    by (simp add: sqlite_fts_scan_def sqlite_fts_exec_new_def search_limit_def)
qed

text \<open>
  When no column of a search is wanted, as in a count of its rows, the answer cannot depend
  on the rows: it is what the batch constructor makes of an empty list of columns.
\<close>

theorem search_count_ignores_rows:
  assumes "fe_schema x = []" and "search d (fts_build_query x) (SqText (fe_query x)) = Inr rows"
  shows "sqlite_fts_run search F no_columns d x = no_columns"
proof -
  have "collect_res (map (\<lambda>row. Inr [] :: string + sqlite_value list) rows) = Inr (map (\<lambda>_. []) rows)"
    by (simp add: collect_res_Inr_iff)
  then show ?thesis
    using assms by (simp add: sqlite_fts_run_def read_columns_def columns_batch_def)
qed

theorem search_count_ignores_rows_witness:
  "sqlite_fts_run (\<lambda>d _ _. Inr d) demo_sq_floats (Inl ''must either specify a row count or at least one column'')
     [[SqReal ''1.5''], [SqReal ''0.5'']]
     \<lparr>fe_conn = 0 :: nat, fe_table = ''t'', fe_text_col = ''b'', fe_query = ''q'', fe_limit = 3, fe_filter = None,
      fe_scan_limit = None, fe_schema = []\<rparr> = Inl ''must either specify a row count or at least one column''"
  by (rule search_count_ignores_rows [where rows = "[[SqReal ''1.5''], [SqReal ''0.5'']]"]) simp_all

end
