(* ===== verification/Pg_Search.thy ===== *)
theory Pg_Search
  imports Pg_Provider Sqlite_Search
begin

text \<open>
  The search functions of PostgreSQL (\<^verbatim>\<open>sources/providers/sqlx/pg/utils.rs\<close>,
  \<^verbatim>\<open>fts_table_function.rs\<close>, \<^verbatim>\<open>fts_exec.rs\<close>, \<^verbatim>\<open>knn_table_function.rs\<close>, \<^verbatim>\<open>knn_exec.rs\<close>): rows to
  columns, arguments, planning, the generated SELECT and its execution. The accessors of a row,
  the conversion of decimals, the unparser and the database are parameters.
\<close>

section \<open>Rows to columns\<close>

text \<open>\<open>try_get\<close> of a named column at each of the types the code asks for.\<close>

record 'row pg_getters =
  pg_i32 :: "'row \<Rightarrow> string \<Rightarrow> string + 32 word option"
  pg_i64 :: "'row \<Rightarrow> string \<Rightarrow> string + 64 word option"
  pg_f32 :: "'row \<Rightarrow> string \<Rightarrow> string + string option"
  pg_f64 :: "'row \<Rightarrow> string \<Rightarrow> string + string option"
  pg_bool :: "'row \<Rightarrow> string \<Rightarrow> string + bool option"
  pg_string :: "'row \<Rightarrow> string \<Rightarrow> string + string option"
  pg_scaled :: "8 word \<Rightarrow> string \<Rightarrow> string"   \<comment> \<open>\<open>(v * 10^scale).round()\<close> of a double\<close>

definition decode_err :: "string \<Rightarrow> string \<Rightarrow> string \<Rightarrow> string" where
  "decode_err col expected e =
     ''pg: type mismatch decoding column '' @ quote @ col @ quote @ '' as '' @ expected @ '': '' @ e"

definition decoded ::
  "('row \<Rightarrow> string \<Rightarrow> string + 'v option) \<Rightarrow> string \<Rightarrow> string \<Rightarrow> ('v option \<Rightarrow> scalar) \<Rightarrow> 'row list \<Rightarrow> string + scalar list" where
  "decoded get col expected mk rows =
     collect_res (map (\<lambda>row. try_res (map_err (decode_err col expected) (get row col)) (\<lambda>v. Inr (mk v))) rows)"

definition build_column :: "'row pg_getters \<Rightarrow> 'row list \<Rightarrow> string \<Rightarrow> arrow_type \<Rightarrow> string + scalar list" where
  "build_column G rows col dtype =
     (case dtype of
        AtInt32 \<Rightarrow> decoded (pg_i32 G) col ''Int32'' SvInt32 rows
      | AtInt64 \<Rightarrow> decoded (pg_i64 G) col ''Int64'' SvInt64 rows
      | AtFloat32 \<Rightarrow> decoded (pg_f32 G) col ''Float32'' SvFloat32 rows
      | AtFloat64 \<Rightarrow> decoded (pg_f64 G) col ''Float64'' SvFloat64 rows
      | AtBoolean \<Rightarrow> decoded (pg_bool G) col ''Boolean'' SvBoolean rows
      | AtDecimal128 _ scale \<Rightarrow>
          decoded (pg_f64 G) col ''Decimal128 (via float8)''
            (\<lambda>v. case v of Some x \<Rightarrow> SvOther (pg_scaled G scale x) | None \<Rightarrow> SvNull) rows
      | _ \<Rightarrow> Inr (map (\<lambda>row. SvUtf8 (case pg_string G row col of Inr v \<Rightarrow> v | Inl _ \<Rightarrow> None)) rows))"

text \<open>A batch of no columns is what the constructor makes of it, as in \<open>columns_batch\<close>.\<close>

definition rows_to_batch ::
  "'row pg_getters \<Rightarrow> string + scalar list list \<Rightarrow> 'row list \<Rightarrow> arrow_field list \<Rightarrow> string + scalar list list" where
  "rows_to_batch G no_columns rows schema =
     try_res (collect_res (map (\<lambda>f. build_column G rows (af_name f) (af_type f)) schema)) (columns_batch no_columns)"

definition expr_to_pg_sql :: "(expr \<Rightarrow> string + string) \<Rightarrow> expr \<Rightarrow> string option" where
  "expr_to_pg_sql unparse e = (case unparse e of Inr sql \<Rightarrow> Some sql | Inl _ \<Rightarrow> None)"

section \<open>Planning a text search\<close>

definition MAX_PG_FTS_LIMIT :: nat where
  "MAX_PG_FTS_LIMIT = 500"

definition pg_fts_extract_string :: "udtf_arg \<Rightarrow> string \<Rightarrow> string + string" where
  "pg_fts_extract_string e name =
     (case e of
        ArgExpr (ELiteral (SvUtf8 (Some s))) \<Rightarrow> Inr s
      | ArgExpr (ELiteral (SvLargeUtf8 (Some s))) \<Rightarrow> Inr s
      | ArgExpr (ELiteral SvNull) \<Rightarrow> Inr []
      | _ \<Rightarrow> plan_err ''pg_fts'' (quote @ name @ quote @ '' must be a string literal''))"

definition pg_fts_positive :: "string \<Rightarrow> int \<Rightarrow> string + nat" where
  "pg_fts_positive name v =
     (if 1 \<le> v then Inr (nat v)
      else plan_err ''pg_fts'' (quote @ name @ quote @ '' must be a positive integer, got '' @ show_int v))"

definition pg_fts_extract_int :: "udtf_arg \<Rightarrow> string \<Rightarrow> string + nat" where
  "pg_fts_extract_int e name =
     (case e of
        ArgExpr (ELiteral (SvInt64 (Some v))) \<Rightarrow> pg_fts_positive name (sint v)
      | ArgExpr (ELiteral (SvInt32 (Some v))) \<Rightarrow> pg_fts_positive name (sint v)
      | ArgExpr (ELiteral (SvUInt64 (Some v))) \<Rightarrow> Inr (unat v)
      | ArgExpr (ELiteral SvNull) \<Rightarrow> Inr 0
      | _ \<Rightarrow> plan_err ''pg_fts'' (quote @ name @ quote @ '' must be an integer literal''))"

definition validate_language :: "string \<Rightarrow> string + unit" where
  "validate_language lang =
     (if list_all (\<lambda>c. is_alphanumeric c \<or> c = CHR ''_'') lang then Inr ()
      else plan_err ''pg_fts'' (''language must contain only alphanumeric characters and underscores, got ''
             @ quote @ lang @ quote))"

text \<open>The shared registry, of which these functions use the PostgreSQL entries.\<close>

datatype 'p pg_dataset = PostgresDataset "'p pg_entry" | OtherPgDataset

definition find_postgres :: "string \<Rightarrow> (string \<rightharpoonup> 'p pg_dataset) \<Rightarrow> string \<Rightarrow> string + 'p pg_entry" where
  "find_postgres fn_name registry table_name =
     (case registry table_name of
        None \<Rightarrow> plan_err fn_name (''table '' @ quote @ table_name @ quote
                  @ '' not found in registry. Make sure the data source is declared with type ''
                  @ quote @ ''postgres'' @ quote @ ''.'')
      | Some (PostgresDataset e) \<Rightarrow> Inr e
      | Some OtherPgDataset \<Rightarrow> plan_err fn_name (''table '' @ quote @ table_name @ quote @ '' is not a Postgres dataset''))"

record 'p pg_fts_provider =
  gp_pool :: 'p
  gp_table :: string
  gp_text_col :: string
  gp_query :: string
  gp_limit :: nat
  gp_language :: string
  gp_schema :: "arrow_field list"

definition pg_fts_language :: "udtf_arg list \<Rightarrow> string + string" where
  "pg_fts_language exprs =
     (if length exprs = 5
      then try_res (pg_fts_extract_string (exprs ! 4) ''language'') (\<lambda>lang.
           if lang = [] then Inr ''english''
           else try_res (validate_language lang) (\<lambda>_. Inr lang))
      else Inr ''english'')"

definition pg_fts_call ::
  "(string \<rightharpoonup> 'p pg_dataset) \<Rightarrow> udtf_arg list \<Rightarrow> string + 'p pg_fts_provider" where
  "pg_fts_call registry exprs =
     (if length exprs < 4 \<or> 5 < length exprs
      then Inl (''pg_fts(table, text_col, query, limit [, language]) expects 4-5 arguments, got ''
                @ show_nat (length exprs))
      else
        try_res (pg_fts_extract_string (exprs ! 0) ''table'') (\<lambda>table_name.
        try_res (pg_fts_extract_string (exprs ! 1) ''text_col'') (\<lambda>text_col.
        try_res (pg_fts_extract_string (exprs ! 2) ''query'') (\<lambda>query.
        try_res (pg_fts_extract_int (exprs ! 3) ''limit'') (\<lambda>limit.
        try_res (pg_fts_language exprs) (\<lambda>language.
        if query \<noteq> [] \<and> MAX_PG_FTS_LIMIT < limit
        then plan_err ''pg_fts'' (''limit must be between 1 and '' @ show_nat MAX_PG_FTS_LIMIT @ '', got '' @ show_nat limit)
        else
          let limit' = (if limit = 0 then 1 else limit) in
          try_res (find_postgres ''pg_fts'' registry table_name) (\<lambda>entry.
          Inr \<lparr>gp_pool = pe_pool entry, gp_table = pe_qualified_table entry, gp_text_col = text_col,
               gp_query = query, gp_limit = limit', gp_language = language,
               gp_schema = entry_fields (pe_columns entry)\<rparr>)))))))"

text \<open>The filters that can be rendered, after the given part, joined.\<close>

definition pg_search_filter :: "(expr \<Rightarrow> string + string) \<Rightarrow> string option \<Rightarrow> expr list \<Rightarrow> string option" where
  "pg_search_filter unparse inline filters =
     (let parts = (case inline of Some f \<Rightarrow> [f] | None \<Rightarrow> []) @ List.map_filter (expr_to_pg_sql unparse) filters
      in if parts = [] then None else Some (str_join '' AND '' parts))"

record 'p pg_fts_exec =
  ge_pool :: 'p
  ge_table :: string
  ge_text_col :: string
  ge_query :: string
  ge_limit :: nat
  ge_language :: string
  ge_filter :: "string option"
  ge_scan_limit :: "nat option"
  ge_schema :: "arrow_field list"

definition pg_fts_exec_new ::
  "'p \<Rightarrow> string \<Rightarrow> string \<Rightarrow> string \<Rightarrow> nat \<Rightarrow> string \<Rightarrow> string option \<Rightarrow> arrow_field list \<Rightarrow> 'p pg_fts_exec" where
  "pg_fts_exec_new pool table text_col query limit language flt schema =
     \<lparr>ge_pool = pool, ge_table = table, ge_text_col = text_col, ge_query = query, ge_limit = limit,
      ge_language = language, ge_filter = flt, ge_scan_limit = None, ge_schema = schema\<rparr>"

definition pg_fts_scan ::
  "(expr \<Rightarrow> string + string) \<Rightarrow> 'p pg_fts_provider \<Rightarrow> nat list option \<Rightarrow> expr list \<Rightarrow> nat option
   \<Rightarrow> 'p pg_fts_exec" where
  "pg_fts_scan unparse p projection filters limit =
     (let x = pg_fts_exec_new (gp_pool p) (gp_table p) (gp_text_col p) (gp_query p) (gp_limit p) (gp_language p)
                (pg_search_filter unparse None filters) (project_fields (gp_schema p) projection)
      in case limit of Some n \<Rightarrow> x\<lparr>ge_scan_limit := Some n\<rparr> | None \<Rightarrow> x)"

section \<open>Running a text search\<close>

text \<open>Decimals are selected as doubles.\<close>

definition pg_select_column :: "arrow_field \<Rightarrow> string" where
  "pg_select_column f =
     (let name = [dquote] @ str_replace [dquote] [dquote, dquote] (af_name f) @ [dquote]
      in case af_type f of AtDecimal128 _ _ \<Rightarrow> name @ ''::float8 AS '' @ name | _ \<Rightarrow> name)"

definition pg_select_columns :: "arrow_field list \<Rightarrow> string" where
  "pg_select_columns schema =
     str_join '', '' (map pg_select_column (filter (\<lambda>f. af_name f \<noteq> ''_score'') schema))"

definition tsvector_text :: "string \<Rightarrow> string \<Rightarrow> string" where
  "tsvector_text lang text_col = ''to_tsvector('' @ [squote] @ lang @ [squote] @ '', '' @ text_col @ '')''"

definition tsquery_text :: "string \<Rightarrow> string" where
  "tsquery_text lang = ''websearch_to_tsquery('' @ [squote] @ lang @ [squote] @ '', $1)''"

definition pg_fts_build_query :: "'p pg_fts_exec \<Rightarrow> string" where
  "pg_fts_build_query x =
     (let tsvec = tsvector_text (ge_language x) (quote_pg_ident (ge_text_col x));
          tsquery = tsquery_text (ge_language x);
          match_expr = tsvec @ '' @@ '' @ tsquery;
          where_parts = [match_expr] @ (case ge_filter x of Some f \<Rightarrow> [f] | None \<Rightarrow> []);
          score_expr = ''ts_rank('' @ tsvec @ '', '' @ tsquery @ '')::float8 AS _score''
      in ''SELECT '' @ select_list (pg_select_columns (ge_schema x)) score_expr
         @ '' FROM '' @ ge_table x @ '' WHERE '' @ str_join '' AND '' where_parts
         @ '' ORDER BY _score DESC LIMIT '' @ show_nat (search_limit (ge_scan_limit x) (ge_limit x)))"

text \<open>\<open>search\<close> runs a statement with its one bound value and gives the rows.\<close>

definition pg_fts_run ::
  "('d \<Rightarrow> string \<Rightarrow> string \<Rightarrow> string + 'row list) \<Rightarrow> 'row pg_getters \<Rightarrow> string + scalar list list \<Rightarrow> 'd
   \<Rightarrow> 'p pg_fts_exec \<Rightarrow> string + scalar list list" where
  "pg_fts_run search G no_columns d x =
     try_res (search d (pg_fts_build_query x) (ge_query x)) (\<lambda>rows. rows_to_batch G no_columns rows (ge_schema x))"

section \<open>Vector search\<close>

datatype distance_metric = InnerProduct | L2 | Cosine

definition distance_metric_default :: distance_metric where
  "distance_metric_default = InnerProduct"

definition metric_operator :: "distance_metric \<Rightarrow> string" where
  "metric_operator m = (case m of InnerProduct \<Rightarrow> ''<#>'' | L2 \<Rightarrow> ''<->'' | Cosine \<Rightarrow> ''<=>'')"

definition metric_from_str :: "string \<Rightarrow> string + distance_metric" where
  "metric_from_str s =
     (if s = ''<#>'' then Inr InnerProduct
      else if s = ''<->'' then Inr L2
      else if s = ''<=>'' then Inr Cosine
      else Inl (''pg_knn: unknown metric '' @ quote @ s @ quote
                @ ''. Expected one of: <#> (inner product), <-> (L2), <=> (cosine)''))"

definition pg_knn_extract_string :: "udtf_arg \<Rightarrow> string \<Rightarrow> string + string" where
  "pg_knn_extract_string e name =
     (case e of
        ArgExpr (ELiteral (SvUtf8 (Some s))) \<Rightarrow> Inr s
      | ArgExpr (ELiteral (SvLargeUtf8 (Some s))) \<Rightarrow> Inr s
      | _ \<Rightarrow> plan_err ''pg_knn'' (quote @ name @ quote @ '' must be a string literal''))"

text \<open>\<open>subquery\<close> is the name of the subquery's first column and the outcome of unparsing it.\<close>

definition build_vector_fetch_sql :: "string \<times> (string + string) \<Rightarrow> udtf_arg \<Rightarrow> string + string" where
  "build_vector_fetch_sql subquery e =
     (if e \<noteq> ArgSubquery then Inl ''pg_knn: expected a scalar subquery for the vector argument''
      else
        try_res (map_err (\<lambda>m. ''pg_knn: failed to unparse vector subquery: '' @ m) (snd subquery)) (\<lambda>inner_sql.
        Inr (''SELECT '' @ [dquote] @ str_replace [dquote] [dquote, dquote] (fst subquery) @ [dquote]
             @ ''::text FROM ('' @ inner_sql @ '') AS _knn_subq LIMIT 1'')))"

definition res_option :: "'e + 'a \<Rightarrow> 'a option" where
  "res_option r = (case r of Inr x \<Rightarrow> Some x | Inl _ \<Rightarrow> None)"

record 'p pg_knn_provider =
  kp_pool :: 'p
  kp_table :: string
  kp_vector_col :: string
  kp_literal :: "32 word list option"
  kp_query_vector_sql :: "string option"
  kp_inline_filter :: "string option"
  kp_schema :: "arrow_field list"
  kp_metric :: distance_metric
  kp_k :: nat

definition pg_knn_call ::
  "(64 word \<Rightarrow> 32 word) \<Rightarrow> string \<times> (string + string) \<Rightarrow> (string \<rightharpoonup> 'p pg_dataset) \<Rightarrow> udtf_arg list
   \<Rightarrow> string + 'p pg_knn_provider" where
  "pg_knn_call narrow subquery registry exprs =
     (if length exprs < 5 \<or> 6 < length exprs
      then Inl (''pg_knn(table, vector_col, query_vec, metric, k [, filter]) expects 5-6 arguments, got ''
                @ show_nat (length exprs)
                @ ''. metric must be one of: <#> (inner product), <-> (L2), <=> (cosine)'')
      else
        try_res (pg_knn_extract_string (exprs ! 0) ''table'') (\<lambda>table_name.
        try_res (pg_knn_extract_string (exprs ! 1) ''vector_col'') (\<lambda>vector_col.
        try_res (try_res (pg_knn_extract_string (exprs ! 3) ''metric'') metric_from_str) (\<lambda>metric.
        try_res (extract_k (exprs ! 4) ''pg_knn'') (\<lambda>k.
        let inline_filter = (if length exprs = 6
              then res_option (pg_knn_extract_string (exprs ! 5) ''filter'') else None) in
        try_res (find_postgres ''pg_knn'' registry table_name) (\<lambda>entry.
        let literal_vector = res_option (extract_literal_vector narrow (exprs ! 2) ''pg_knn'') in
        Inr \<lparr>kp_pool = pe_pool entry, kp_table = pe_qualified_table entry, kp_vector_col = vector_col,
             kp_literal = literal_vector,
             kp_query_vector_sql =
               (if literal_vector = None then res_option (build_vector_fetch_sql subquery (exprs ! 2)) else None),
             kp_inline_filter = inline_filter,
             kp_schema = entry_fields (filter (\<lambda>(name, _). name \<noteq> vector_col) (pe_columns entry)),
             kp_metric = metric, kp_k = k\<rparr>))))))"

text \<open>The plan's vector is empty when a child plan fetches it with the given statement.\<close>

record 'p pg_knn_exec =
  ke_pool :: 'p
  ke_table :: string
  ke_vector_col :: string
  ke_metric :: distance_metric
  ke_k :: nat
  ke_query_vector :: "32 word list"
  ke_fetch_sql :: "string option"
  ke_filter :: "string option"
  ke_scan_limit :: "nat option"
  ke_schema :: "arrow_field list"

definition pg_knn_exec_new ::
  "'p \<Rightarrow> string \<Rightarrow> string \<Rightarrow> 32 word list \<Rightarrow> string option \<Rightarrow> arrow_field list \<Rightarrow> distance_metric \<Rightarrow> nat
   \<Rightarrow> 'p pg_knn_exec" where
  "pg_knn_exec_new pool table vector_col v flt schema metric k =
     \<lparr>ke_pool = pool, ke_table = table, ke_vector_col = vector_col, ke_metric = metric, ke_k = k,
      ke_query_vector = v, ke_fetch_sql = None, ke_filter = flt, ke_scan_limit = None, ke_schema = schema\<rparr>"

definition pg_knn_exec_with_subquery ::
  "'p \<Rightarrow> string \<Rightarrow> string \<Rightarrow> string \<Rightarrow> string option \<Rightarrow> arrow_field list \<Rightarrow> distance_metric \<Rightarrow> nat
   \<Rightarrow> 'p pg_knn_exec" where
  "pg_knn_exec_with_subquery pool table vector_col fetch_sql flt schema metric k =
     \<lparr>ke_pool = pool, ke_table = table, ke_vector_col = vector_col, ke_metric = metric, ke_k = k,
      ke_query_vector = [], ke_fetch_sql = Some fetch_sql, ke_filter = flt, ke_scan_limit = None, ke_schema = schema\<rparr>"

definition pg_knn_scan ::
  "(expr \<Rightarrow> string + string) \<Rightarrow> 'p pg_knn_provider \<Rightarrow> nat list option \<Rightarrow> expr list \<Rightarrow> nat option
   \<Rightarrow> string + 'p pg_knn_exec" where
  "pg_knn_scan unparse p projection filters limit =
     (let flt = pg_search_filter unparse (kp_inline_filter p) filters;
          schema = project_fields (kp_schema p) projection
      in try_res
        (case kp_literal p of
           Some v \<Rightarrow> Inr (pg_knn_exec_new (kp_pool p) (kp_table p) (kp_vector_col p) v flt schema (kp_metric p) (kp_k p))
         | None \<Rightarrow>
             (case kp_query_vector_sql p of
                Some sql \<Rightarrow> Inr (pg_knn_exec_with_subquery (kp_pool p) (kp_table p) (kp_vector_col p) sql flt schema
                                 (kp_metric p) (kp_k p))
              | None \<Rightarrow> plan_err ''pg_knn'' (''query_vec must be a literal array or a scalar subquery, ''
                          @ ''e.g. (SELECT embedding FROM t WHERE id = {id})''))) (\<lambda>x.
      Inr (case limit of Some n \<Rightarrow> x\<lparr>ke_scan_limit := Some n\<rparr> | None \<Rightarrow> x)))"

definition pg_knn_build_query :: "'p pg_knn_exec \<Rightarrow> string" where
  "pg_knn_build_query x =
     (let dist_expr = quote_pg_ident (ke_vector_col x) @ '' '' @ metric_operator (ke_metric x) @ '' $1''
      in ''SELECT '' @ select_list (pg_select_columns (ke_schema x)) (''('' @ dist_expr @ '')::float8 AS _score'')
         @ '' FROM '' @ ke_table x @ (case ke_filter x of Some f \<Rightarrow> '' WHERE '' @ f | None \<Rightarrow> [])
         @ '' ORDER BY '' @ dist_expr @ '' LIMIT '' @ show_nat (ke_k x))"

text \<open>
  The child plan: \<open>fetch\<close> gives no row, or a row with the outcome of reading its first value as a
  text, which is an error for a null. The batch is the one text.
\<close>

definition pg_vector_fetch ::
  "('d \<Rightarrow> string \<Rightarrow> string + (string + string) option) \<Rightarrow> 'd \<Rightarrow> string \<Rightarrow> string + nat \<times> query_column" where
  "pg_vector_fetch fetch d sql =
     try_res (map_err (\<lambda>e. ''pg_knn vector fetch error: '' @ e) (fetch d sql)) (\<lambda>row.
     case row of
       Some r \<Rightarrow> try_res (map_err (\<lambda>e. ''pg_knn: failed to read vector as text: '' @ e) r)
                   (\<lambda>t. Inr (1, QcString (Some t)))
     | None \<Rightarrow> Inr (1, QcString None))"

datatype pg_run_error = PgUnreachable | PgRunFailed string

definition pg_query_vector ::
  "(64 word \<Rightarrow> 32 word) \<Rightarrow> (string \<Rightarrow> string + 32 word) \<Rightarrow> ('d \<Rightarrow> string \<Rightarrow> string + (string + string) option)
   \<Rightarrow> 'd \<Rightarrow> 'p pg_knn_exec \<Rightarrow> pg_run_error + 32 word list option" where
  "pg_query_vector narrow parse_f32 fetch d x =
     (if ke_query_vector x \<noteq> [] then Inr (Some (ke_query_vector x))
      else case ke_fetch_sql x of
             Some sql \<Rightarrow>
               map_err PgRunFailed (extract_query_vector narrow parse_f32 (Some (pg_vector_fetch fetch d sql)))
           | None \<Rightarrow> Inl PgUnreachable)"

definition pg_knn_run ::
  "(64 word \<Rightarrow> 32 word) \<Rightarrow> (string \<Rightarrow> string + 32 word) \<Rightarrow> ('d \<Rightarrow> string \<Rightarrow> string + (string + string) option)
   \<Rightarrow> ('d \<Rightarrow> string \<Rightarrow> 32 word list \<Rightarrow> string + 'row list) \<Rightarrow> 'row pg_getters \<Rightarrow> string + scalar list list
   \<Rightarrow> 'd \<Rightarrow> 'p pg_knn_exec \<Rightarrow> pg_run_error + scalar list list" where
  "pg_knn_run narrow parse_f32 fetch search G no_columns d x =
     try_res (pg_query_vector narrow parse_f32 fetch d x) (\<lambda>qv.
     case qv of
       None \<Rightarrow> Inr (map (\<lambda>_. []) (ke_schema x))
     | Some v \<Rightarrow>
         try_res (map_err PgRunFailed (search d (pg_knn_build_query x) v)) (\<lambda>rows.
         try_res (map_err PgRunFailed (rows_to_batch G no_columns rows (ke_schema x))) (\<lambda>batch.
         Inr (case ke_scan_limit x of Some n \<Rightarrow> map (take n) batch | None \<Rightarrow> batch))))"

section \<open>Texts inside parentheses\<close>

text \<open>While the reader is in parentheses or quotes, no space separates words.\<close>

fun inside :: "read_state \<Rightarrow> string \<Rightarrow> bool" where
  "inside st [] = True"
| "inside st (c # cs) = (st \<noteq> top_state \<and> inside (read_char c st) cs)"

lemma inside_append: "inside st (s @ t) \<longleftrightarrow> inside st s \<and> inside (read_text s st) t"
  by (induction s arbitrary: st) auto

lemma inside_split: "inside st s \<Longrightarrow> split_words st (s @ t) =
    (case split_words (read_text s st) t of w # ws \<Rightarrow> (s @ w) # ws)"
proof (induction s arbitrary: st)
  case Nil
  then show ?case by (simp split: list.split)
next
  case (Cons c s)
  then show ?case by (cases "split_words (read_text (c # s) st) t") (simp_all split: list.split)
qed

lemma inside_word:
  assumes "list_all plain_char f" and "inside (1, None) s" and "read_text s (1, None) = (1, None)"
  shows "balanced (f @ CHR ''('' # s @ '')'') \<and> sql_words (f @ CHR ''('' # s @ '')'') = [f @ CHR ''('' # s @ '')'']"
proof -
  have r: "read_text f top_state = top_state" "split_words top_state (f @ t) =
      (case split_words top_state t of w # ws \<Rightarrow> (f @ w) # ws)" for t
    using assms(1)
    by (induction f) (auto simp: read_plain, auto simp: plain_char_def top_state_def split: list.split)
  have o: "read_char (CHR ''('') top_state = (1, None)" "read_char (CHR '')'') (1, None) = top_state"
    by (simp_all add: read_char_def top_state_def squote_def dquote_def)
  have "split_words (1, None) (s @ '')'') = [s @ '')'']"
    using inside_split [OF assms(2), of "'')''"] assms(3) o(2) by (simp add: top_state_def)
  then show ?thesis using r o assms(3) by (simp add: balanced_def sql_words_def)
qed

lemma inside_plain: "list_all (\<lambda>c. c \<notin> {squote, dquote, CHR ''('', CHR '')''}) s \<Longrightarrow>
    inside (1, None) s \<and> read_text s (1, None) = (1, None)"
  by (induction s) (auto simp: read_char_def top_state_def)

lemma inside_quoted:
  assumes "q \<in> {squote, dquote}"
  shows "inside (1, None) ([q] @ concat (map (\<lambda>c. if c = q then [q, q] else [c]) s) @ [q])
    \<and> read_text ([q] @ concat (map (\<lambda>c. if c = q then [q, q] else [c]) s) @ [q]) (1, None) = (1, None)"
proof -
  let ?e = "\<lambda>s. concat (map (\<lambda>c. if c = q then [q, q] else [c]) s)"
  have q: "read_char q (1, None) = (1, Some q)" "read_char q (1, Some q) = (1, None)"
    using assms by (auto simp: read_char_def)
  have "inside (1, Some q) (?e s) \<and> read_text (?e s) (1, Some q) = (1, Some q)"
  proof (induction s)
    case (Cons c s)
    have "c \<noteq> q \<Longrightarrow> read_char c (1, Some q) = (1, Some q)" by (simp add: read_char_def)
    with Cons q show ?case by (auto simp: inside_append top_state_def)
  qed simp
  with q show ?thesis by (simp add: inside_append top_state_def)
qed

section \<open>Text searches\<close>

definition language_name :: "string \<Rightarrow> bool" where
  "language_name lang \<longleftrightarrow> list_all (\<lambda>c. is_alphanumeric c \<or> c = CHR ''_'') lang"

lemma language_chars: "language_name lang \<Longrightarrow> c \<in> set lang \<Longrightarrow> c \<noteq> squote"
  by (auto simp: language_name_def list_all_iff is_alphanumeric_def is_digit_def is_alpha_def squote_def)

lemma undoubled: "q \<notin> set s \<Longrightarrow> concat (map (\<lambda>c. if c = q then [q, q] else [c]) s) = s"
  by (induction s) auto

lemma language_quoted:
  assumes "language_name lang"
  shows "inside (1, None) ([squote] @ lang @ [squote]) \<and> read_text ([squote] @ lang @ [squote]) (1, None) = (1, None)"
proof -
  have "squote \<notin> set lang" using language_chars [OF assms] by blast
  with inside_quoted [of squote lang] show ?thesis by (simp add: undoubled)
qed

lemma tsquery_word:
  assumes "language_name lang"
  shows "balanced (tsquery_text lang) \<and> sql_words (tsquery_text lang) = [tsquery_text lang]"
proof -
  have p: "inside (1, None) '', $1'' \<and> read_text '', $1'' (1, None) = (1, None)" by code_simp
  have "list_all plain_char ''websearch_to_tsquery''" by code_simp
  from inside_word [OF this, of "([squote] @ lang @ [squote]) @ '', $1''"] language_quoted [OF assms] p
  show ?thesis by (simp add: tsquery_text_def inside_append)
qed

lemma tsvector_word:
  assumes "language_name lang"
  shows "balanced (tsvector_text lang (quote_pg_ident c))
    \<and> sql_words (tsvector_text lang (quote_pg_ident c)) = [tsvector_text lang (quote_pg_ident c)]"
proof -
  have p: "inside (1, None) '', '' \<and> read_text '', '' (1, None) = (1, None)" by code_simp
  have q: "inside (1, None) (quote_pg_ident c) \<and> read_text (quote_pg_ident c) (1, None) = (1, None)"
    using inside_quoted [of dquote c] by (simp add: quote_pg_ident_def str_replace_char)
  have "list_all plain_char ''to_tsvector''" by code_simp
  from inside_word [OF this, of "([squote] @ lang @ [squote]) @ '', '' @ quote_pg_ident c"] language_quoted [OF assms] p q
  show ?thesis by (simp add: tsvector_text_def inside_append)
qed

definition match_text :: "string \<Rightarrow> string \<Rightarrow> string" where
  "match_text lang text_col = tsvector_text lang (quote_pg_ident text_col) @ '' @@ '' @ tsquery_text lang"

lemma match_conjunct:
  assumes "language_name lang"
  shows "conjunct_text (match_text lang c)"
proof -
  have a: "balanced ''@@''" "sql_words ''@@'' = [''@@'']" by code_simp+
  note v = tsvector_word [OF assms, of c] and q = tsquery_word [OF assms]
  have e: "match_text lang c = tsvector_text lang (quote_pg_ident c) @ CHR '' '' # ''@@'' @ CHR '' '' # tsquery_text lang"
    by (simp add: match_text_def)
  have w: "sql_words (match_text lang c) = [tsvector_text lang (quote_pg_ident c), ''@@'', tsquery_text lang]"
    unfolding e sql_words_append [OF conjunct1 [OF v]] sql_words_append [OF a(1)] using v q a by simp
  have "balanced (match_text lang c)" unfolding e using v q a by (simp add: balanced_def)
  then show ?thesis unfolding conjunct_text_def w by (simp add: tsvector_text_def tsquery_text_def)
qed

lemma pg_language:
  "pg_fts_language exprs = Inr lang \<Longrightarrow> language_name lang \<and> lang \<noteq> []"
proof -
  have e: "language_name ''english''" by code_simp
  assume "pg_fts_language exprs = Inr lang"
  with e show ?thesis
    by (auto simp: pg_fts_language_def validate_language_def language_name_def plan_err_def res_simps split: if_splits)
qed

lemma pg_search_filter_eq: "pg_search_filter unparse None filters = search_filter unparse filters"
proof -
  have "expr_to_pg_sql unparse = (\<lambda>e. case unparse e of Inr s \<Rightarrow> Some s | Inl _ \<Rightarrow> None)"
    by (rule ext) (simp add: expr_to_pg_sql_def split: sum.split)
  then show ?thesis by (simp add: pg_search_filter_def search_filter_def)
qed

text \<open>
  C28. The language of a text search is a name without quotes, so it stays inside its literal; the
  WHERE clause of the generated statement means the match and all filters declared exact, and no
  others, as long as the unparser leaves no \<open>OR\<close> outside parentheses.
\<close>

theorem pg_text_search_states_filters:
  assumes "pg_fts_call registry exprs = Inr p" and "renders_conjuncts unparse filters"
  shows "read_sql_string ([squote] @ gp_language p @ [squote]) = Some (gp_language p, [])
    \<and> (\<exists>sel body rest. pg_fts_build_query (pg_fts_scan unparse p projection filters limit) =
      ''SELECT '' @ sel @ '' FROM '' @ gp_table p @ '' WHERE '' @ body @ '' ORDER BY _score DESC'' @ rest
    \<and> (\<forall>v. where_holds v body = (where_holds v (match_text (gp_language p) (gp_text_col p))
        \<and> list_all (\<lambda>e. where_holds v (projr (unparse e))) (filter (\<lambda>e. is_ok (unparse e)) filters))))"
proof -
  have l: "language_name (gp_language p)"
    using assms(1) by (auto simp: pg_fts_call_def Let_def plan_err_def res_simps dest!: pg_language split: if_splits)
  have "squote \<notin> set (gp_language p)" using language_chars [OF l] by blast
  then have q: "read_sql_string ([squote] @ gp_language p @ [squote]) = Some (gp_language p, [])"
    using read_body_quoted [of "[]" squote "gp_language p"]
    by (simp add: read_sql_string_def str_replace_char undoubled)
  let ?m = "match_text (gp_language p) (gp_text_col p)"
  let ?body = "str_join '' AND '' ([?m] @ (case search_filter unparse filters of Some f \<Rightarrow> [f] | None \<Rightarrow> []))"
  have "list_all conjunct_text [?m]" using match_conjunct [OF l] by simp
  from joined_filter [OF this assms(2)] have "where_holds v ?body = (where_holds v ?m
      \<and> list_all (\<lambda>e. where_holds v (projr (unparse e))) (filter (\<lambda>e. is_ok (unparse e)) filters))" for v
    by (simp add: rendered_def search_pushdown_def list_all_iff del: str_join.simps append.simps)
  moreover have "pg_fts_build_query (pg_fts_scan unparse p projection filters limit) =
      ''SELECT '' @ select_list (pg_select_columns (project_fields (gp_schema p) projection))
        (''ts_rank('' @ tsvector_text (gp_language p) (quote_pg_ident (gp_text_col p)) @ '', ''
         @ tsquery_text (gp_language p) @ '')::float8 AS _score'')
      @ '' FROM '' @ gp_table p @ '' WHERE '' @ ?body @ '' ORDER BY _score DESC''
      @ '' LIMIT '' @ show_nat (search_limit limit (gp_limit p))"
    by (cases limit) (simp_all add: pg_fts_build_query_def pg_fts_scan_def pg_fts_exec_new_def Let_def
        pg_search_filter_eq match_text_def del: str_join.simps)
  ultimately show ?thesis using q by blast
qed

definition demo_pg_entry :: "nat pg_entry" where
  "demo_pg_entry = \<lparr>pe_pool = 0, pe_qualified_table = ''docs'', pe_columns = [(''id'', AtInt32), (''e'', AtUtf8)]\<rparr>"

definition text_arg :: "string \<Rightarrow> udtf_arg" where
  "text_arg s = ArgExpr (ELiteral (SvUtf8 (Some s)))"

theorem pg_text_search_states_filters_witness:
  "\<exists>sel body rest. ''SELECT '' @ sel @ '' FROM docs WHERE '' @ body @ '' ORDER BY _score DESC'' @ rest =
      pg_fts_build_query (pg_fts_scan (pv_unparse demo_pg)
        \<lparr>gp_pool = 0 :: nat, gp_table = ''docs'', gp_text_col = ''body'', gp_query = ''q'', gp_limit = 9,
          gp_language = ''simple'', gp_schema = entry_fields [(''id'', AtInt32), (''e'', AtUtf8)]\<rparr> None
        [EOther ''(x = 1 OR y = 2)'', EColumn ''c''] None)
    \<and> where_holds (\<lambda>_. True) body"
proof -
  let ?p = "\<lparr>gp_pool = 0 :: nat, gp_table = ''docs'', gp_text_col = ''body'', gp_query = ''q'', gp_limit = 9,
    gp_language = ''simple'', gp_schema = entry_fields [(''id'', AtInt32), (''e'', AtUtf8)]\<rparr>"
  let ?f = "[EOther ''(x = 1 OR y = 2)'', EColumn ''c'']"
  have c: "pg_fts_call [''t'' \<mapsto> PostgresDataset demo_pg_entry]
      [text_arg ''t'', text_arg ''body'', text_arg ''q'', ArgExpr (ELiteral (SvInt32 (Some 9))), text_arg ''simple''] = Inr ?p"
    by code_simp
  have r: "renders_conjuncts (pv_unparse demo_pg) ?f" by code_simp
  have h: "where_holds (\<lambda>_. True) (match_text (gp_language ?p) (gp_text_col ?p))
    \<and> list_all (\<lambda>e. where_holds (\<lambda>_. True) (projr (pv_unparse demo_pg e)))
        (filter (\<lambda>e. is_ok (pv_unparse demo_pg e)) ?f)" by code_simp
  obtain sel body rest where b: "pg_fts_build_query (pg_fts_scan (pv_unparse demo_pg) ?p None ?f None) =
      ''SELECT '' @ sel @ '' FROM '' @ gp_table ?p @ '' WHERE '' @ body @ '' ORDER BY _score DESC'' @ rest"
    "\<forall>v. where_holds v body = (where_holds v (match_text (gp_language ?p) (gp_text_col ?p))
        \<and> list_all (\<lambda>e. where_holds v (projr (pv_unparse demo_pg e))) (filter (\<lambda>e. is_ok (pv_unparse demo_pg e)) ?f))"
    using conjunct2 [OF pg_text_search_states_filters [OF c r, of None None]] by blast
  from spec [OF b(2), of "\<lambda>_. True"] h have "where_holds (\<lambda>_. True) body" by blast
  moreover have "''SELECT '' @ sel @ '' FROM docs WHERE '' @ body @ '' ORDER BY _score DESC'' @ rest =
      pg_fts_build_query (pg_fts_scan (pv_unparse demo_pg) ?p None ?f None)" by (simp add: b(1))
  ultimately show ?thesis by blast
qed

text \<open>
  The bound on the limit of a text search is checked only when the query is not empty: an
  empty query may ask for any number of rows.
\<close>

theorem empty_query_has_no_limit_bound:
  assumes "0 < n" and "n < 2 ^ 64" and "registry t = Some (PostgresDataset entry)"
  shows "\<exists>p. pg_fts_call registry [text_arg t, text_arg c, text_arg [], ArgExpr (ELiteral (SvUInt64 (Some (of_nat n))))] = Inr p
    \<and> gp_limit p = n"
  using assms
  by (simp add: pg_fts_call_def text_arg_def pg_fts_extract_string_def pg_fts_extract_int_def pg_fts_language_def
      find_postgres_def unat_of_nat)

theorem empty_query_has_no_limit_bound_witness:
  "\<exists>p. pg_fts_call [''t'' \<mapsto> PostgresDataset demo_pg_entry]
     [text_arg ''t'', text_arg ''c'', text_arg [], ArgExpr (ELiteral (SvUInt64 (Some (of_nat 100000))))] = Inr p
    \<and> gp_limit p = 100000"
  by (rule empty_query_has_no_limit_bound) simp_all

section \<open>Vector searches\<close>

text \<open>A metric's operator is parsed as that metric, and nothing else is.\<close>

theorem metric_roundtrip: "metric_from_str s = Inr m \<longleftrightarrow> s = metric_operator m"
  by (cases m) (auto simp: metric_from_str_def metric_operator_def)

lemma literal_vector_nonempty:
  assumes "extract_literal_vector narrow e fn_name = Inr v"
  shows "v \<noteq> []"
proof -
  from assms obtain a where "\<not> array_empty a" "array_vector narrow a = Some v"
    by (auto simp: extract_literal_vector_def plan_err_def res_simps split: if_splits option.splits)
  then show ?thesis by (cases a) (auto simp: array_vector_def array_empty_def)
qed

lemma pg_k_bounded: "extract_k e fn_name = Inr k \<Longrightarrow> 1 \<le> k \<and> k \<le> 500"
proof -
  assume a: "extract_k e fn_name = Inr k"
  then have "k_literal e fn_name = Inr k" by (auto simp: extract_k_def plan_err_def res_simps split: if_splits)
  then have "1 \<le> k"
    by (auto simp: k_literal_def positive_k_def plan_err_def unat_gt_0 word_neq_0_conv Suc_le_eq
        split: udtf_arg.splits expr.splits scalar.splits option.splits if_splits)
  with a show ?thesis by (auto simp: extract_k_def plan_err_def MAX_KNN_K_def res_simps split: if_splits)
qed

lemma scan_limit_fields [simp]:
  "ke_query_vector (x\<lparr>ke_scan_limit := l\<rparr>) = ke_query_vector x" "ke_fetch_sql (x\<lparr>ke_scan_limit := l\<rparr>) = ke_fetch_sql x"
  "ke_k (x\<lparr>ke_scan_limit := l\<rparr>) = ke_k x"
  by simp_all

lemma pg_knn_plan:
  assumes "pg_knn_call narrow subquery registry exprs = Inr p" and "pg_knn_scan unparse p projection filters limit = Inr x"
  shows "(ke_query_vector x \<noteq> [] \<or> ke_fetch_sql x \<noteq> None) \<and> ke_k x = kp_k p \<and> 1 \<le> kp_k p \<and> kp_k p \<le> 500
    \<and> ke_scan_limit x = limit"
proof -
  have "kp_literal p = Some v \<Longrightarrow> v \<noteq> []" for v
    using assms(1) literal_vector_nonempty
    by (auto simp: pg_knn_call_def Let_def plan_err_def res_option_def res_simps split: if_splits sum.splits)
  moreover have "1 \<le> kp_k p \<and> kp_k p \<le> 500"
    using assms(1) pg_k_bounded by (auto simp: pg_knn_call_def Let_def plan_err_def res_simps split: if_splits)
  ultimately show ?thesis
    using assms(2)
    by (auto simp: pg_knn_scan_def Let_def plan_err_def pg_knn_exec_new_def pg_knn_exec_with_subquery_def res_simps
        split: option.splits)
qed

text \<open>
  C29. A planned vector search never reaches the branch the code declares unreachable, asks for
  between 1 and 500 rows, and answers with at most the limit of the query.
\<close>

theorem pg_vector_search_is_total:
  assumes "pg_knn_call narrow subquery registry exprs = Inr p" and "pg_knn_scan unparse p projection filters limit = Inr x"
  shows "pg_knn_run narrow' parse_f32 fetch search G no_columns d x \<noteq> Inl PgUnreachable
    \<and> (\<exists>s. pg_knn_build_query x = s @ '' LIMIT '' @ show_nat (kp_k p)) \<and> 1 \<le> kp_k p \<and> kp_k p \<le> 500
    \<and> (\<forall>batch n. pg_knn_run narrow' parse_f32 fetch search G no_columns d x = Inr batch \<longrightarrow> limit = Some n
        \<longrightarrow> list_all (\<lambda>column. length column \<le> n) batch)"
proof -
  note p = pg_knn_plan [OF assms]
  have "pg_query_vector narrow' parse_f32 fetch d x \<noteq> Inl PgUnreachable"
    using p by (auto simp: pg_query_vector_def res_simps split: option.splits)
  then have "pg_knn_run narrow' parse_f32 fetch search G no_columns d x \<noteq> Inl PgUnreachable"
    by (auto simp: pg_knn_run_def res_simps split: option.splits)
  moreover have "\<exists>s. pg_knn_build_query x = s @ '' LIMIT '' @ show_nat (kp_k p)"
    using p by (simp add: pg_knn_build_query_def Let_def)
  moreover have "list_all (\<lambda>column. length column \<le> n) batch"
    if "pg_knn_run narrow' parse_f32 fetch search G no_columns d x = Inr batch" "limit = Some n" for batch n
    using that p by (auto simp: pg_knn_run_def list_all_iff res_simps split: option.splits)
  ultimately show ?thesis using p by blast
qed

definition demo_getters :: "(string \<times> string) list pg_getters" where
  "demo_getters =
     \<lparr>pg_i32 = (\<lambda>_ _. Inr (Some 1)), pg_i64 = (\<lambda>_ _. Inr None), pg_f32 = (\<lambda>_ _. Inr None),
      pg_f64 = (\<lambda>row c. Inr (map_of row c)), pg_bool = (\<lambda>_ _. Inr None), pg_string = (\<lambda>row c. Inr (map_of row c)),
      pg_scaled = (\<lambda>_ s. s)\<rparr>"

definition demo_knn_args :: "udtf_arg list" where
  "demo_knn_args = [text_arg ''t'', text_arg ''e'', ArgList [F32Array [7]], text_arg ''<->'', ArgExpr (ELiteral (SvInt32 (Some 5)))]"

definition demo_knn_provider :: "nat pg_knn_provider" where
  "demo_knn_provider =
     \<lparr>kp_pool = 0, kp_table = ''docs'', kp_vector_col = ''e'', kp_literal = Some [7], kp_query_vector_sql = None,
      kp_inline_filter = None, kp_schema = entry_fields [(''id'', AtInt32)], kp_metric = L2, kp_k = 5\<rparr>"

lemma demo_knn_call:
  "pg_knn_call (\<lambda>_. 0) (''v'', Inl ''no'') [''t'' \<mapsto> PostgresDataset demo_pg_entry] demo_knn_args = Inr demo_knn_provider"
  by code_simp

theorem pg_vector_search_is_total_witness:
  "pg_knn_run (\<lambda>_. 0) (\<lambda>_. Inl ''bad'') (\<lambda>_ _. Inr None) (\<lambda>_ _ _. Inr [[(''_score'', ''1'')], [(''_score'', ''2'')]])
     demo_getters (Inl ''none'') () (pg_knn_exec_new (0 :: nat) ''docs'' ''e'' [7] None (entry_fields [(''id'', AtInt32)]) L2 5) \<noteq> Inl PgUnreachable
   \<and> (\<exists>s. pg_knn_build_query (pg_knn_exec_new (0 :: nat) ''docs'' ''e'' [7] None (entry_fields [(''id'', AtInt32)]) L2 5) =
        s @ '' LIMIT '' @ show_nat 5)"
proof -
  have s: "pg_knn_scan (pv_unparse demo_pg) demo_knn_provider None [] None =
      Inr (pg_knn_exec_new (0 :: nat) ''docs'' ''e'' [7] None (entry_fields [(''id'', AtInt32)]) L2 5)" by code_simp
  have k: "kp_k demo_knn_provider = 5" by (simp add: demo_knn_provider_def)
  note t = pg_vector_search_is_total [OF demo_knn_call s, unfolded k]
  show ?thesis by (rule conjI [OF conjunct1 [OF t] conjunct1 [OF conjunct2 [OF t]]])
qed

text \<open>
  A sixth argument that is not a text literal is not reported: the search runs as if it had
  not been given, without its filter.
\<close>

theorem ill_typed_filter_is_dropped:
  assumes "length exprs = 5" and "\<not> is_ok (pg_knn_extract_string f ''filter'')"
  shows "pg_knn_call narrow subquery registry (exprs @ [f]) = pg_knn_call narrow subquery registry exprs"
proof -
  have "res_option (pg_knn_extract_string f ''filter'') = None"
    using assms(2) by (simp add: res_option_def is_ok_def split: sum.splits)
  with assms(1) show ?thesis by (simp add: pg_knn_call_def nth_append Let_def)
qed

theorem ill_typed_filter_is_dropped_witness:
  "pg_knn_call (\<lambda>_. 0) (''v'', Inl ''no'') [''t'' \<mapsto> PostgresDataset demo_pg_entry]
     (demo_knn_args @ [ArgExpr (EBinary (EColumn ''tenant'') OpEq (ELiteral (SvInt32 (Some 1))))]) = Inr demo_knn_provider"
proof -
  let ?f = "ArgExpr (EBinary (EColumn ''tenant'') OpEq (ELiteral (SvInt32 (Some 1))))"
  have "length demo_knn_args = 5" "\<not> is_ok (pg_knn_extract_string ?f ''filter'')"
    by (simp_all add: demo_knn_args_def pg_knn_extract_string_def plan_err_def)
  show ?thesis by (rule trans [OF ill_typed_filter_is_dropped [OF \<open>length demo_knn_args = 5\<close> \<open>\<not> is_ok (pg_knn_extract_string ?f ''filter'')\<close>] demo_knn_call])
qed

text \<open>
  The filter argument is joined with the query's filters by \<open>AND\<close> without parentheses, although
  they are declared exact: with an \<open>OR\<close> in it the statement also finds rows that only satisfy its
  first alternative.
\<close>

theorem inline_or_is_not_parenthesised:
  assumes "conjunct_text a" and "conjunct_text b" and "conjunct_text c" and "unparse e = Inr c"
    and "pg_search_filter unparse (Some (a @ '' OR '' @ b)) [e] = Some w"
  shows "where_holds v w \<longleftrightarrow> where_holds v a \<or> where_holds v b \<and> where_holds v c"
proof -
  have w: "w = a @ CHR '' '' # ''OR'' @ CHR '' '' # str_join '' AND '' [b, c]"
    using assms(4,5) by (simp add: pg_search_filter_def expr_to_pg_sql_def List.map_filter_def)
  have o: "balanced ''OR''" "sql_words ''OR'' = [''OR'']" by code_simp+
  have bc: "where_holds v (str_join '' AND '' [b, c]) \<longleftrightarrow> where_holds v b \<and> where_holds v c"
    using join_and_holds [of "[b, c]" v] assms(2,3) by simp
  have a: "balanced a" using assms(1) by (simp add: conjunct_text_def)
  have "sql_words w = sql_words a @ ''OR'' # sql_words (str_join '' AND '' [b, c])"
    unfolding w sql_words_append [OF a] sql_words_append [OF o(1)] o(2) by simp
  then show ?thesis using bc by (simp add: where_holds_def words_hold_or)
qed

theorem inline_or_is_not_parenthesised_witness:
  "where_holds (\<lambda>ws. ws = [''x'', ''='', ''1'']) ''x = 1 OR y = 2 AND z = 3''"
proof -
  have c: "conjunct_text ''x = 1''" "conjunct_text ''y = 2''" "conjunct_text ''z = 3''" by code_simp+
  have f: "pg_search_filter (pv_unparse demo_pg) (Some (''x = 1'' @ '' OR '' @ ''y = 2'')) [EOther ''z = 3''] =
      Some ''x = 1 OR y = 2 AND z = 3''" by code_simp
  have u: "pv_unparse demo_pg (EOther ''z = 3'') = Inr ''z = 3''" by (simp add: demo_pg_def)
  have "where_holds (\<lambda>ws. ws = [''x'', ''='', ''1'']) ''x = 1''" by code_simp
  with inline_or_is_not_parenthesised [OF c u f] show ?thesis by blast
qed

text \<open>
  When the subquery finds no row the search is empty, but when it finds a row whose vector is
  null the search fails, because a null cannot be read as a text.
\<close>

theorem null_vector_fails:
  assumes "ke_query_vector x = []" and "ke_fetch_sql x = Some sql"
  shows "(fetch d sql = Inr None \<longrightarrow>
      pg_knn_run narrow parse_f32 fetch search G no_columns d x = Inr (map (\<lambda>_. []) (ke_schema x)))
    \<and> (fetch d sql = Inr (Some (Inl e)) \<longrightarrow>
      pg_knn_run narrow parse_f32 fetch search G no_columns d x =
        Inl (PgRunFailed (''knn subquery error: pg_knn: failed to read vector as text: '' @ e)))"
  using assms
  by (simp add: pg_knn_run_def pg_query_vector_def pg_vector_fetch_def extract_query_vector_def query_column_vector_def)

theorem null_vector_fails_witness:
  "pg_knn_run (\<lambda>_. 0) (\<lambda>_. Inl ''bad'') (\<lambda>_ _. Inr (Some (Inl ''unexpected null''))) (\<lambda>_ _ _. Inr []) demo_getters
     (Inl ''none'') () (pg_knn_exec_with_subquery 0 ''docs'' ''e'' ''SELECT'' None [score_field] L2 5) =
   Inl (PgRunFailed (''knn subquery error: pg_knn: failed to read vector as text: '' @ ''unexpected null''))"
  using null_vector_fails
    [where x = "pg_knn_exec_with_subquery 0 ''docs'' ''e'' ''SELECT'' None [score_field] L2 5" and sql = "''SELECT''"
       and fetch = "\<lambda>_ _. Inr (Some (Inl ''unexpected null''))" and d = "()" and e = "''unexpected null''"]
  by (simp add: pg_knn_exec_with_subquery_def)

text \<open>
  A cell that cannot be decoded fails the whole search when its column is a number or a
  truth value, and is a null when the column is anything else.
\<close>

theorem undecodable_cells:
  assumes "row \<in> set rows" and "pg_i32 G row col = Inl e" and "pg_string G row col = Inl e'"
  shows "\<not> is_ok (build_column G rows col AtInt32)
    \<and> (\<exists>column. build_column G rows col AtUtf8 = Inr column \<and> SvUtf8 None \<in> set column)"
proof -
  have "\<not> is_ok (decoded (pg_i32 G) col ''Int32'' SvInt32 rows)"
  proof
    assume "is_ok (decoded (pg_i32 G) col ''Int32'' SvInt32 rows)"
    then have "\<forall>r \<in> set rows. is_ok (try_res (map_err (decode_err col ''Int32'') (pg_i32 G r col)) (\<lambda>v. Inr (SvInt32 v)))"
      by (simp add: decoded_def is_ok_iff [of "collect_res _"] collect_res_Inr_iff map_eq_Inr_iff)
    with assms(1,2) show False by fastforce
  qed
  moreover have "SvUtf8 None \<in> set (map (\<lambda>row. SvUtf8 (case pg_string G row col of Inr v \<Rightarrow> v | Inl _ \<Rightarrow> None)) rows)"
    using assms(1,3) by (force simp: image_iff)
  ultimately show ?thesis by (simp add: build_column_def)
qed

theorem undecodable_cells_witness:
  "\<not> is_ok (build_column (demo_getters\<lparr>pg_i32 := (\<lambda>_ _. Inl ''INT2 is not INT4''), pg_string := (\<lambda>_ _. Inl ''not text'')\<rparr>)
     [[]] ''small'' AtInt32)"
  using undecodable_cells [of "[]" "[[]]" "demo_getters\<lparr>pg_i32 := (\<lambda>_ _. Inl ''INT2 is not INT4''),
    pg_string := (\<lambda>_ _. Inl ''not text'')\<rparr>" "''small''"] by simp

end
