(* ===== verification/Cli_Pipeline.thy ===== *)
theory Cli_Pipeline
  imports Sql_Template Filter_Expr
begin

text \<open>
  The command line client's pipelines, aliases and job commands (\<^verbatim>\<open>cli/src/pipeline.rs\<close>,
  \<^verbatim>\<open>alias.rs\<close>, \<^verbatim>\<open>alias_store.rs\<close>, \<^verbatim>\<open>jobs_cli.rs\<close>): templates and their placeholders, typed
  parameters, the rendering of parameters into SQL, alias resolution, the aliases file and the
  requests to the server. JSON and YAML parsing, floating-point numbers and the file system are
  parameters.
\<close>

section \<open>Templates\<close>

datatype segment = SegLiteral string | SegPlaceholder string

text \<open>Texts are ASCII here; the code also takes letters and digits outside ASCII for a name.\<close>

definition is_ident :: "char \<Rightarrow> bool" where
  "is_ident c \<longleftrightarrow> is_alphanumeric c \<or> c = CHR ''_''"

definition literal_segment :: "string \<Rightarrow> segment list" where
  "literal_segment lit = (if lit = [] then [] else [SegLiteral lit])"

text \<open>The first argument is the literal text since the last placeholder.\<close>

function scan_from :: "string \<Rightarrow> string \<Rightarrow> segment list" where
  "scan_from lit [] = literal_segment lit"
| "scan_from lit (c # cs) =
     (if c = CHR ''{'' then
        let name = takeWhile is_ident cs; after = dropWhile is_ident cs in
        if name \<noteq> [] \<and> after \<noteq> [] \<and> hd after = CHR ''}''
        then literal_segment lit @ SegPlaceholder name # scan_from [] (tl after)
        else scan_from (lit @ [c]) cs
      else scan_from (lit @ [c]) cs)"
  by pat_completeness auto
termination
proof (relation "measure (length \<circ> snd)")
  fix lit :: string and c cs name after
  assume "name = takeWhile is_ident cs" "after = dropWhile is_ident cs"
  then have "length after \<le> length cs" by (simp add: length_dropWhile_le)
  then show "(([], tl after), (lit, c # cs)) \<in> measure (length \<circ> snd)" by simp
qed simp_all

definition scan_segments :: "string \<Rightarrow> segment list" where
  "scan_segments s = scan_from [] s"

definition extract_param_names :: "string \<Rightarrow> string list" where
  "extract_param_names sql =
     foldl (\<lambda>params seg. case seg of
         SegPlaceholder name \<Rightarrow> if name \<in> set params then params else params @ [name]
       | SegLiteral _ \<Rightarrow> params) [] (scan_segments sql)"

section \<open>Values\<close>

text \<open>
  What the client uses of its libraries: parsing of JSON texts, reading of a number as an integer
  or a double, parsing, tests and printing of doubles.
\<close>

record cli_lib =
  cl_json :: "string \<Rightarrow> json option"
  cl_as_i64 :: "string \<Rightarrow> 64 word option"
  cl_as_f64 :: "string \<Rightarrow> string option"
  cl_parse_f64 :: "string \<Rightarrow> string option"
  cl_finite :: "string \<Rightarrow> bool"
  cl_integral :: "string \<Rightarrow> bool"
  cl_one_decimal :: "string \<Rightarrow> string"
  cl_widen :: "string \<Rightarrow> string"
  cl_debug :: "scalar \<Rightarrow> string"
  cl_show :: "scalar \<Rightarrow> string"

definition string_to_scalar :: "cli_lib \<Rightarrow> string \<Rightarrow> scalar" where
  "string_to_scalar L value =
     (case cl_json L value of
        Some (JNumber n) \<Rightarrow>
          (case cl_as_i64 L n of
             Some i \<Rightarrow> SvInt64 (Some i)
           | None \<Rightarrow> (case cl_as_f64 L n of Some f \<Rightarrow> SvFloat64 (Some f) | None \<Rightarrow> SvUtf8 (Some value)))
      | Some (JBool b) \<Rightarrow> SvBoolean (Some b)
      | Some JNull \<Rightarrow> SvUtf8 None
      | Some (JString s) \<Rightarrow> SvUtf8 (Some s)
      | _ \<Rightarrow> SvUtf8 (Some value))"

text \<open>\<open>parse::<i64>\<close>.\<close>

definition parse_i64 :: "string \<Rightarrow> 64 word option" where
  "parse_i64 s =
     (case s of
        CHR ''-'' # ds \<Rightarrow>
          if ds = [] then None
          else Option.bind (digits_value 0 ds) (\<lambda>n. if n \<le> 2 ^ 63 then Some (- of_nat n) else None)
      | _ \<Rightarrow> map_option of_nat (parse_unsigned (2 ^ 63) s))"

definition typed_value :: "cli_lib \<Rightarrow> string \<Rightarrow> string \<Rightarrow> string option \<Rightarrow> string \<Rightarrow> string + scalar" where
  "typed_value L raw name ty value =
     (case ty of
        None \<Rightarrow> Inr (string_to_scalar L value)
      | Some t \<Rightarrow>
          if t = ''str'' \<or> t = ''string'' then Inr (SvUtf8 (Some value))
          else if t = ''int'' \<or> t = ''i64''
          then map_err (\<lambda>_. ''Expected integer for '' @ name @ '': '' @ value)
                 (try_res (ok_or (parse_i64 value) ()) (\<lambda>i. Inr (SvInt64 (Some i))))
          else if t = ''float'' \<or> t = ''f64''
          then map_err (\<lambda>_. ''Expected float for '' @ name @ '': '' @ value)
                 (try_res (ok_or (cl_parse_f64 L value) ()) (\<lambda>f. Inr (SvFloat64 (Some f))))
          else if t = ''bool''
          then map_err (\<lambda>_. ''Expected bool for '' @ name @ '': '' @ value)
                 (try_res (ok_or (parse_bool value) ()) (\<lambda>b. Inr (SvBoolean (Some b))))
          else Inl (''Unknown parameter type '' @ [squote] @ t @ [squote] @ '' in '' @ raw))"

definition parse_param_flag :: "cli_lib \<Rightarrow> string \<Rightarrow> string + string \<times> scalar" where
  "parse_param_flag L raw =
     try_res (ok_or (split_once (CHR ''='') raw) (''Parameter flag must be NAME=VALUE: '' @ raw)) (\<lambda>(name_part, value).
     let (name, ty) = (case split_once (CHR '':'') name_part of
            Some (n, t) \<Rightarrow> (n, Some t) | None \<Rightarrow> (name_part, None))
     in if name = [] then Inl (''Parameter name must not be empty: '' @ raw)
        else try_res (typed_value L raw name ty value) (\<lambda>v. Inr (name, v)))"

section \<open>Rendering\<close>

definition render_float :: "cli_lib \<Rightarrow> string \<Rightarrow> string + string" where
  "render_float L f =
     (if \<not> cl_finite L f then Inl (''Non-finite float ('' @ f @ '') cannot be rendered as a SQL literal'')
      else Inr (if cl_integral L f then cl_one_decimal L f else f))"

definition scalar_to_sql_literal :: "cli_lib \<Rightarrow> scalar \<Rightarrow> string + string" where
  "scalar_to_sql_literal L v =
     (case v of
        SvUtf8 (Some s) \<Rightarrow> Inr (sql_string_literal s)
      | SvLargeUtf8 (Some s) \<Rightarrow> Inr (sql_string_literal s)
      | SvUtf8 None \<Rightarrow> Inr ''NULL''
      | SvLargeUtf8 None \<Rightarrow> Inr ''NULL''
      | SvNull \<Rightarrow> Inr ''NULL''
      | SvInt64 (Some i) \<Rightarrow> Inr (show_signed i)
      | SvInt32 (Some i) \<Rightarrow> Inr (show_signed i)
      | SvFloat64 (Some f) \<Rightarrow> render_float L f
      | SvFloat32 (Some f) \<Rightarrow> render_float L (cl_widen L f)
      | SvBoolean (Some b) \<Rightarrow> Inr (if b then ''TRUE'' else ''FALSE'')
      | SvInt64 None \<Rightarrow> Inr ''NULL''
      | SvInt32 None \<Rightarrow> Inr ''NULL''
      | SvFloat64 None \<Rightarrow> Inr ''NULL''
      | SvFloat32 None \<Rightarrow> Inr ''NULL''
      | SvBoolean None \<Rightarrow> Inr ''NULL''
      | _ \<Rightarrow> Inl (''Unsupported parameter scalar for inline substitution: '' @ cl_debug L v))"

definition render_segment ::
  "cli_lib \<Rightarrow> (string \<rightharpoonup> scalar) \<Rightarrow> string \<Rightarrow> segment \<Rightarrow> string + string" where
  "render_segment L params out seg =
     (case seg of
        SegLiteral s \<Rightarrow> Inr (out @ s)
      | SegPlaceholder name \<Rightarrow>
          try_res (ok_or (params name) (''Missing value for parameter '' @ placeholder name)) (\<lambda>value.
          try_res (scalar_to_sql_literal L value) (\<lambda>lit. Inr (out @ lit))))"

definition render_sql_with_inline_params ::
  "cli_lib \<Rightarrow> string \<Rightarrow> (string \<rightharpoonup> scalar) \<Rightarrow> string + string" where
  "render_sql_with_inline_params L sql params = fold_res (render_segment L params) [] (scan_segments sql)"

section \<open>Aliases\<close>

record alias_def =
  ad_pipeline :: string
  ad_positional :: "string list"
  ad_defaults :: "(string \<times> string) list"   \<comment> \<open>in the order of its keys\<close>
  ad_description :: "string option"

record resolved_alias =
  ra_pipeline :: string
  ra_params :: "string \<rightharpoonup> scalar"

fun split_args ::
  "cli_lib \<Rightarrow> string list \<Rightarrow> (string \<times> scalar) list \<Rightarrow> string list
   \<Rightarrow> string + (string \<times> scalar) list \<times> string list" where
  "split_args L [] flags positional = Inr (flags, positional)"
| "split_args L (a # rest) flags positional =
     (case strip_prefix ''--'' a of
        Some body \<Rightarrow>
          if CHR ''='' \<in> set body
          then try_res (parse_param_flag L body) (\<lambda>f. split_args L rest (flags @ [f]) positional)
          else (case rest of
                  [] \<Rightarrow> Inl (''Flag --'' @ body @ '' is missing a value'')
                | next_arg # rest' \<Rightarrow>
                    try_res (parse_param_flag L (body @ ''='' @ next_arg)) (\<lambda>f.
                    split_args L rest' (flags @ [f]) positional))
      | None \<Rightarrow> split_args L rest flags (positional @ [a]))"

definition scalar_display :: "cli_lib \<Rightarrow> scalar \<Rightarrow> string" where
  "scalar_display L v =
     (case v of
        SvUtf8 (Some s) \<Rightarrow> s
      | SvLargeUtf8 (Some s) \<Rightarrow> s
      | SvInt64 (Some i) \<Rightarrow> show_signed i
      | SvFloat64 (Some f) \<Rightarrow> f
      | SvBoolean (Some b) \<Rightarrow> bool_to_string b
      | _ \<Rightarrow> cl_show L v)"

definition substitute_template ::
  "cli_lib \<Rightarrow> string \<Rightarrow> (string \<rightharpoonup> string) \<Rightarrow> (string \<rightharpoonup> scalar) \<Rightarrow> string" where
  "substitute_template L template string_params typed_params =
     concat (map (\<lambda>seg. case seg of
         SegLiteral s \<Rightarrow> s
       | SegPlaceholder name \<Rightarrow>
           (case string_params name of
              Some v \<Rightarrow> v
            | None \<Rightarrow> (case typed_params name of
                         Some sv \<Rightarrow> scalar_display L sv | None \<Rightarrow> placeholder name)))
       (scan_segments template))"

fun bind_positional ::
  "nat \<times> nat \<Rightarrow> string list \<Rightarrow> string list \<Rightarrow> (string \<rightharpoonup> string) \<Rightarrow> string + (string \<rightharpoonup> string)" where
  "bind_positional counts names [] m = Inr m"
| "bind_positional counts [] (v # vals) m =
     Inl (''Alias takes '' @ show_nat (fst counts) @ '' positional arg(s), got '' @ show_nat (snd counts))"
| "bind_positional counts (n # names) (v # vals) m = bind_positional counts names vals (m(n \<mapsto> v))"

definition apply_default ::
  "cli_lib \<Rightarrow> (string \<rightharpoonup> scalar) \<Rightarrow> (string \<rightharpoonup> string) \<Rightarrow> string \<times> string \<Rightarrow> (string \<rightharpoonup> string)" where
  "apply_default L typed_params string_params d =
     (case d of (name, template) \<Rightarrow>
        if typed_params name \<noteq> None \<or> string_params name \<noteq> None then string_params
        else string_params(name \<mapsto> substitute_template L template string_params typed_params))"

definition resolve_alias :: "cli_lib \<Rightarrow> alias_def \<Rightarrow> string list \<Rightarrow> string + resolved_alias" where
  "resolve_alias L alias raw_args =
     try_res (split_args L raw_args [] []) (\<lambda>(flag_params, positional_vals).
     try_res (bind_positional (length (ad_positional alias), length positional_vals) (ad_positional alias)
        positional_vals Map.empty) (\<lambda>positional_params.
     let typed_params = foldl (\<lambda>m (name, v). m(name \<mapsto> v)) Map.empty flag_params;
         string_params = foldl (apply_default L typed_params) positional_params (ad_defaults alias)
     in Inr \<lparr>ra_pipeline = ad_pipeline alias,
             ra_params = (map_option (string_to_scalar L) \<circ> string_params) ++ typed_params\<rparr>))"

section \<open>The aliases file\<close>

text \<open>A \<open>BTreeMap\<close> is its entries in the order of the keys; the insertion of an entry.\<close>

fun btree_insert :: "string \<Rightarrow> 'v \<Rightarrow> (string \<times> 'v) list \<Rightarrow> (string \<times> 'v) list" where
  "btree_insert k v [] = [(k, v)]"
| "btree_insert k v ((k', v') # xs) =
     (if k = k' then (k, v) # xs
      else if k < k' then (k, v) # (k', v') # xs
      else (k', v') # btree_insert k v xs)"

definition btree_remove :: "string \<Rightarrow> (string \<times> 'v) list \<Rightarrow> (string \<times> 'v) list" where
  "btree_remove k xs = filter (\<lambda>e. fst e \<noteq> k) xs"

lemma map_of_btree_insert [simp]: "map_of (btree_insert k v xs) = (map_of xs)(k \<mapsto> v)"
  by (induction k v xs rule: btree_insert.induct) (auto simp: fun_eq_iff)

lemma map_of_btree_remove [simp]: "map_of (btree_remove k xs) = (map_of xs)(k := None)"
  by (induction xs) (auto simp: btree_remove_def fun_eq_iff)

lemma btree_insert_keys: "set (map fst (btree_insert k v xs)) = insert k (set (map fst xs))"
  by (induction k v xs rule: btree_insert.induct) auto

lemma btree_insert_sorted: "sorted_wrt (<) (map fst xs) \<Longrightarrow> sorted_wrt (<) (map fst (btree_insert k v xs))"
  by (induction k v xs rule: btree_insert.induct)
    (auto simp: btree_insert_keys simp del: set_map intro: less_trans)

definition ALIASES_KIND :: string where
  "ALIASES_KIND = ''aliases''"

record alias_file =
  al_kind :: string
  al_name :: string
  al_version :: string
  al_description :: "string option"
  al_spec :: "(string \<times> alias_def) list"   \<comment> \<open>in the order of its names\<close>

definition alias_file_default :: alias_file where
  "alias_file_default =
     \<lparr>al_kind = ALIASES_KIND, al_name = ''aliases'', al_version = ''1.0.0'', al_description = None,
      al_spec = []\<rparr>"

text \<open>
  The environment: variables, the home directory, tests and operations on paths. \<open>po_exists\<close> of
  the aliases file itself is decided by the content of the file system, a map from paths to texts.
\<close>

record path_ops =
  po_env :: "string \<rightharpoonup> string"
  po_home :: "string option"
  po_is_dir :: "string \<Rightarrow> bool"
  po_parent :: "string \<Rightarrow> string option"
  po_join :: "string \<Rightarrow> string \<Rightarrow> string"
  po_exists :: "string \<Rightarrow> bool"
  po_is_relative :: "string \<Rightarrow> bool"
  po_cwd :: "string + string"
  po_file_stem :: "string \<Rightarrow> string option"

definition config_file :: "path_ops \<Rightarrow> string \<Rightarrow> string \<Rightarrow> string" where
  "config_file P home name = po_join P (po_join P (po_join P home ''.skardi'') ''config'') name"

definition resolve_aliases_path :: "path_ops \<Rightarrow> string option \<Rightarrow> string option \<Rightarrow> string option" where
  "resolve_aliases_path P override_path ctx_path =
     (case override_path of
        Some p \<Rightarrow> Some p
      | None \<Rightarrow>
          (case po_env P ''SKARDI_ALIASES'' of
             Some e \<Rightarrow> Some e
           | None \<Rightarrow>
               let source = (case ctx_path of Some p \<Rightarrow> Some p | None \<Rightarrow> po_env P ''SKARDICONFIG'');
                   home = Option.bind source (\<lambda>p. if po_is_dir P p then Some p else po_parent P p);
                   candidate = Option.bind home (\<lambda>h.
                     let c = po_join P h ''aliases.yaml'' in if po_exists P c then Some c else None)
               in case candidate of
                    Some c \<Rightarrow> Some c
                  | None \<Rightarrow> map_option (\<lambda>h. config_file P h ''aliases.yaml'') (po_home P)))"

text \<open>The YAML of an aliases file: its parse, the value of its \<open>kind\<close> key, if it has one, and its typed reading.\<close>

record 'v alias_yaml =
  ay_parse :: "string \<Rightarrow> string + 'v"
  ay_kind :: "'v \<Rightarrow> string option option"
  ay_file :: "'v \<Rightarrow> string + alias_file"
  ay_print :: "alias_file \<Rightarrow> string + string"

definition alias_load :: "'v alias_yaml \<Rightarrow> (string \<rightharpoonup> string) \<Rightarrow> string \<Rightarrow> string + alias_file" where
  "alias_load Y files path =
     (case files path of
        None \<Rightarrow> Inr alias_file_default
      | Some content \<Rightarrow>
          if str_trim content = [] then Inr alias_file_default
          else
            try_res (map_err (\<lambda>e. ''Failed to parse aliases YAML: '' @ path @ '': '' @ e) (ay_parse Y content)) (\<lambda>root.
            case ay_kind Y root of
              None \<Rightarrow> Inl (''Aliases file '' @ path @ '' is missing `kind: aliases` at the root. ''
                           @ ''The file format now requires a `kind`, `metadata`, and `spec` envelope.'')
            | Some kind \<Rightarrow>
                let kind_str = (case kind of Some k \<Rightarrow> k | None \<Rightarrow> []) in
                if kind_str \<noteq> ALIASES_KIND
                then Inl (''Expected `kind: aliases` in '' @ path @ '', got `kind: '' @ kind_str @ ''`'')
                else map_err (\<lambda>e. ''Failed to parse aliases YAML: '' @ path @ '': '' @ e) (ay_file Y root)))"

text \<open>\<open>write\<close> says whether a file can be written, its directory included.\<close>

definition alias_save ::
  "'v alias_yaml \<Rightarrow> (string \<Rightarrow> string + unit) \<Rightarrow> (string \<rightharpoonup> string) \<Rightarrow> string \<Rightarrow> alias_file
   \<Rightarrow> string + (string \<rightharpoonup> string)" where
  "alias_save Y write files path file =
     try_res (map_err (\<lambda>e. ''Failed to serialize aliases file to YAML: '' @ e) (ay_print Y file)) (\<lambda>yaml.
     try_res (map_err (\<lambda>e. ''Failed to write aliases file: '' @ path @ '': '' @ e) (write path)) (\<lambda>_.
     Inr (files(path \<mapsto> yaml))))"

section \<open>Discovery of pipelines\<close>

record pipeline_file =
  pf_name :: string
  pf_query :: string

text \<open>
  The file system and the YAML parser: the entries of a directory, whether one is a file, its
  extension, its text; the \<open>kind\<close> of a parsed document and its envelope (kind, name, query).
\<close>

record 'v pipeline_fs =
  qf_is_dir :: "string \<Rightarrow> bool"
  qf_read_dir :: "string \<Rightarrow> string + (string + string) list"
  qf_is_file :: "string \<Rightarrow> bool"
  qf_extension :: "string \<Rightarrow> string option"
  qf_read :: "string \<Rightarrow> string + string"
  qf_yaml :: "string \<Rightarrow> string + 'v"
  qf_kind :: "'v \<Rightarrow> string option"
  qf_envelope :: "'v \<Rightarrow> string + string \<times> string \<times> string"

definition pipeline_from_value :: "'v pipeline_fs \<Rightarrow> string \<Rightarrow> 'v \<Rightarrow> string + pipeline_file" where
  "pipeline_from_value Q path value =
     try_res (map_err (\<lambda>e. ''Failed to parse pipeline YAML: '' @ path @ '': '' @ e) (qf_envelope Q value))
       (\<lambda>(kind, name, query).
     if kind \<noteq> ''pipeline''
     then Inl (''Expected `kind: pipeline` in '' @ path @ '', got `kind: '' @ kind @ ''`'')
     else Inr \<lparr>pf_name = name, pf_query = query\<rparr>)"

definition discover_entry ::
  "'v pipeline_fs \<Rightarrow> (string \<rightharpoonup> string \<times> pipeline_file) \<Rightarrow> string + string
   \<Rightarrow> string + (string \<rightharpoonup> string \<times> pipeline_file)" where
  "discover_entry Q out entry =
     try_res entry (\<lambda>p.
     if \<not> qf_is_file Q p then Inr out
     else
       let ext = to_lowercase (case qf_extension Q p of Some e \<Rightarrow> e | None \<Rightarrow> []) in
       if ext \<noteq> ''yaml'' \<and> ext \<noteq> ''yml'' then Inr out
       else
         try_res (map_err (\<lambda>e. ''Failed to read pipeline file: '' @ p @ '': '' @ e) (qf_read Q p)) (\<lambda>raw.
         try_res (map_err (\<lambda>e. ''Failed to parse pipeline YAML: '' @ p @ '': '' @ e) (qf_yaml Q raw)) (\<lambda>value.
         if qf_kind Q value \<noteq> Some ''pipeline'' then Inr out
         else try_res (pipeline_from_value Q p value) (\<lambda>f. Inr (out(pf_name f \<mapsto> (p, f)))))))"

definition discover_dir ::
  "'v pipeline_fs \<Rightarrow> (string \<rightharpoonup> string \<times> pipeline_file) \<Rightarrow> string
   \<Rightarrow> string + (string \<rightharpoonup> string \<times> pipeline_file)" where
  "discover_dir Q out dir =
     (if \<not> qf_is_dir Q dir then Inr out
      else try_res (map_err (\<lambda>e. ''Failed to read pipeline dir: '' @ dir @ '': '' @ e) (qf_read_dir Q dir))
             (fold_res (discover_entry Q) out))"

definition discover_pipelines ::
  "'v pipeline_fs \<Rightarrow> string list \<Rightarrow> string + (string \<rightharpoonup> string \<times> pipeline_file)" where
  "discover_pipelines Q dirs = fold_res (discover_dir Q) Map.empty dirs"

section \<open>Job commands\<close>

definition DEFAULT_SERVER_URL :: string where
  "DEFAULT_SERVER_URL = ''http://127.0.0.1:8080''"

definition server_base_url :: "(string \<rightharpoonup> string) \<Rightarrow> string option \<Rightarrow> string" where
  "server_base_url env override_url =
     (case override_url of
        Some s \<Rightarrow> s
      | None \<Rightarrow> (case env ''SKARDI_SERVER_URL'' of Some s \<Rightarrow> s | None \<Rightarrow> DEFAULT_SERVER_URL))"

definition scalar_to_json :: "cli_lib \<Rightarrow> scalar \<Rightarrow> string + json" where
  "scalar_to_json L v =
     (let number = (\<lambda>f. if cl_finite L f then Inr (JNumber f)
                        else Inl (''Non-finite float cannot be sent as JSON: '' @ f))
      in case v of
           SvUtf8 (Some s) \<Rightarrow> Inr (JString s)
         | SvLargeUtf8 (Some s) \<Rightarrow> Inr (JString s)
         | SvUtf8 None \<Rightarrow> Inr JNull
         | SvLargeUtf8 None \<Rightarrow> Inr JNull
         | SvNull \<Rightarrow> Inr JNull
         | SvInt64 (Some i) \<Rightarrow> Inr (JNumber (show_signed i))
         | SvInt32 (Some i) \<Rightarrow> Inr (JNumber (show_signed i))
         | SvFloat64 (Some f) \<Rightarrow> number f
         | SvFloat32 (Some f) \<Rightarrow> number (cl_widen L f)
         | SvBoolean (Some b) \<Rightarrow> Inr (JBool b)
         | _ \<Rightarrow> Inl (''Unsupported parameter scalar: '' @ cl_debug L v))"

definition insert_json_param ::
  "cli_lib \<Rightarrow> (string \<rightharpoonup> json) \<Rightarrow> string \<Rightarrow> string + (string \<rightharpoonup> json)" where
  "insert_json_param L out s =
     try_res (parse_param_flag L s) (\<lambda>(name, value).
     try_res (scalar_to_json L value) (\<lambda>j. Inr (out(name \<mapsto> j))))"

definition params_to_json :: "cli_lib \<Rightarrow> string list \<Rightarrow> string + (string \<rightharpoonup> json)" where
  "params_to_json L raw = fold_res (insert_json_param L) Map.empty raw"

definition urlencode :: "string \<Rightarrow> string" where
  "urlencode s = str_replace ''/'' ''%2F'' (str_replace ''?'' ''%3F'' (str_replace ''&'' ''%26'' s))"

datatype job_cmd =
  JobRun string "string list" "string option"
| JobStatus string "string option"
| JobList "string option" nat "string option"
| JobCancel string "string option"
| JobShow "string option"

text \<open>The request a command sends: its URL and, for a POST, its body.\<close>

definition job_request ::
  "cli_lib \<Rightarrow> (string \<rightharpoonup> string) \<Rightarrow> job_cmd \<Rightarrow> string + string \<times> (string \<rightharpoonup> json) option" where
  "job_request L env cmd =
     (case cmd of
        JobRun job params server \<Rightarrow>
          try_res (params_to_json L params) (\<lambda>body.
          Inr (server_base_url env server @ ''/jobs/'' @ job @ ''/run'', Some body))
      | JobStatus run_id server \<Rightarrow> Inr (server_base_url env server @ ''/jobs/runs/'' @ run_id, None)
      | JobList job limit server \<Rightarrow>
          Inr (server_base_url env server @ ''/jobs/runs?limit='' @ show_nat limit
               @ (case job of Some j \<Rightarrow> ''&job='' @ urlencode j | None \<Rightarrow> []), None)
      | JobCancel run_id server \<Rightarrow>
          Inr (server_base_url env server @ ''/jobs/runs/'' @ run_id @ ''/cancel'', Some Map.empty)
      | JobShow server \<Rightarrow> Inr (server_base_url env server @ ''/jobs'', None))"

section \<open>Answers of the server\<close>

text \<open>
  The HTTP library: sending a request (a body makes it a POST) gives an error or the status and
  the text of the answer, which may fail to arrive; the text of a status; and the printing of JSON.
\<close>

record http_lib =
  hl_send :: "string \<Rightarrow> (string \<rightharpoonup> json) option \<Rightarrow> string + nat \<times> (string + string)"
  hl_status :: "nat \<Rightarrow> string"
  hl_pretty :: "json \<Rightarrow> string + string"
  hl_as_u64 :: "string \<Rightarrow> nat option"

definition call_json ::
  "cli_lib \<Rightarrow> http_lib \<Rightarrow> string \<Rightarrow> (string \<rightharpoonup> json) option \<Rightarrow> string + json" where
  "call_json L H url body =
     try_res (map_err (\<lambda>e. (if body = None then ''Failed to GET '' else ''Failed to POST '') @ url @ '': '' @ e) (hl_send H url body))
       (\<lambda>(status, resp).
     try_res (map_err (\<lambda>e. ''Failed to read response body from '' @ url @ '': '' @ e) resp) (\<lambda>text_body.
     if \<not> (200 \<le> status \<and> status < 300) then Inl (''Server returned '' @ hl_status H status @ '': '' @ text_body)
     else ok_or (cl_json L text_body) (''Failed to parse JSON from '' @ url @ '': '' @ text_body)))"

definition json_str_or :: "json \<Rightarrow> string \<Rightarrow> string" where
  "json_str_or v k = (case json_get k v of Some (JString s) \<Rightarrow> s | _ \<Rightarrow> ''?'')"

definition run_id_response :: "json \<Rightarrow> string + string \<times> string option" where
  "run_id_response v =
     (case json_get ''run_id'' v of
        Some (JString run_id) \<Rightarrow>
          (case json_get ''status'' v of
             None \<Rightarrow> Inr (run_id, None)
           | Some JNull \<Rightarrow> Inr (run_id, None)
           | Some (JString s) \<Rightarrow> Inr (run_id, Some s)
           | Some _ \<Rightarrow> Inl ''invalid type for status'')
      | Some _ \<Rightarrow> Inl ''invalid type for run_id''
      | None \<Rightarrow> Inl ''missing field `run_id`'')"

definition pad_right :: "nat \<Rightarrow> string \<Rightarrow> string" where
  "pad_right w s = s @ replicate (w - length s) (CHR '' '')"

definition print_run_list :: "http_lib \<Rightarrow> json \<Rightarrow> string list" where
  "print_run_list H resp =
     (case json_get ''runs'' resp of
        Some (JArray runs) \<Rightarrow>
          if runs = [] then [''(no runs)'']
          else map (\<lambda>run.
             let rows = (case json_get ''rows_written'' run of
                   Some (JNumber n) \<Rightarrow> (case hl_as_u64 H n of Some k \<Rightarrow> show_nat k | None \<Rightarrow> ''-'') | _ \<Rightarrow> ''-'')
             in json_str_or run ''run_id'' @ ''  '' @ pad_right 10 (json_str_or run ''status'') @ ''  ''
                @ pad_right 25 (json_str_or run ''job'') @ ''  rows='' @ pad_right 8 rows
                @ ''  created_at='' @ json_str_or run ''created_at'') runs
      | _ \<Rightarrow> [case hl_pretty H resp of Inr t \<Rightarrow> t | Inl _ \<Rightarrow> []])"

definition handle_job_cmd ::
  "cli_lib \<Rightarrow> http_lib \<Rightarrow> (string \<rightharpoonup> string) \<Rightarrow> job_cmd \<Rightarrow> string + string list" where
  "handle_job_cmd L H env cmd =
     try_res (job_request L env cmd) (\<lambda>(url, body).
     try_res (call_json L H url body) (\<lambda>resp.
     case cmd of
       JobRun _ _ _ \<Rightarrow>
         try_res (run_id_response resp) (\<lambda>(run_id, status).
         Inr [''submitted: '' @ run_id @ '' ('' @ (case status of Some s \<Rightarrow> s | None \<Rightarrow> ''pending'') @ '')''])
     | JobList _ _ _ \<Rightarrow> Inr (print_run_list H resp)
     | _ \<Rightarrow> try_res (hl_pretty H resp) (\<lambda>t. Inr [t])))"

section \<open>Scanning\<close>

fun segment_text :: "segment \<Rightarrow> string" where
  "segment_text (SegLiteral s) = s"
| "segment_text (SegPlaceholder n) = placeholder n"

definition param_ident :: "string \<Rightarrow> bool" where
  "param_ident n \<longleftrightarrow> n \<noteq> [] \<and> list_all is_ident n"

lemma literal_segment_text: "concat (map segment_text (literal_segment lit)) = lit"
  by (simp add: literal_segment_def)

definition hole_ahead :: "string \<Rightarrow> bool" where
  "hole_ahead cs \<longleftrightarrow> takeWhile is_ident cs \<noteq> [] \<and> dropWhile is_ident cs \<noteq> [] \<and> hd (dropWhile is_ident cs) = CHR ''}''"

lemma scan_from_Cons:
  "scan_from lit (c # cs) =
     (if c = CHR ''{'' \<and> hole_ahead cs
      then literal_segment lit @ SegPlaceholder (takeWhile is_ident cs) # scan_from [] (tl (dropWhile is_ident cs))
      else scan_from (lit @ [c]) cs)"
  by (simp add: hole_ahead_def Let_def)

declare scan_from.simps(2) [simp del]

lemma scan_induct [case_names Nil Hole Char]:
  assumes "\<And>lit. P lit []"
    and "\<And>lit cs. hole_ahead cs \<Longrightarrow> P [] (tl (dropWhile is_ident cs)) \<Longrightarrow> P lit (CHR ''{'' # cs)"
    and "\<And>lit c cs. \<not> (c = CHR ''{'' \<and> hole_ahead cs) \<Longrightarrow> P (lit @ [c]) cs \<Longrightarrow> P lit (c # cs)"
  shows "P lit s"
proof (induction s arbitrary: lit rule: length_induct)
  case (1 s)
  show ?case
  proof (cases s)
    case Nil
    then show ?thesis by (simp add: assms(1))
  next
    case (Cons c cs)
    have "length (tl (dropWhile is_ident cs)) < length s"
      using length_dropWhile_le [of is_ident cs] by (simp add: Cons)
    with 1 Cons assms(2,3) show ?thesis by (cases "c = CHR ''{'' \<and> hole_ahead cs") auto
  qed
qed

lemma hole_ahead_split: "hole_ahead cs \<Longrightarrow> cs = takeWhile is_ident cs @ CHR ''}'' # tl (dropWhile is_ident cs)"
  unfolding hole_ahead_def by (metis list.collapse takeWhile_dropWhile_id)

lemma scan_from_text: "concat (map segment_text (scan_from lit s)) = lit @ s"
proof (induction lit s rule: scan_induct)
  case (Hole lit cs)
  then show ?case
    using hole_ahead_split [OF Hole(1)] by (simp add: scan_from_Cons literal_segment_text placeholder_def)
qed (auto simp: literal_segment_text scan_from_Cons)

lemma scan_from_placeholders: "SegPlaceholder n \<in> set (scan_from lit s) \<Longrightarrow> param_ident n"
proof (induction lit s rule: scan_induct)
  case (Hole lit cs)
  have "list_all is_ident (takeWhile is_ident cs)" by (metis list_all_iff set_takeWhileD)
  with Hole show ?case
    by (auto simp: scan_from_Cons hole_ahead_def param_ident_def literal_segment_def split: if_splits)
qed (auto simp: literal_segment_def scan_from_Cons split: if_splits)

lemma scan_from_literals: "SegLiteral t \<in> set (scan_from lit s) \<Longrightarrow> t \<noteq> []"
  by (induction lit s rule: scan_induct) (auto simp: literal_segment_def scan_from_Cons split: if_splits)

text \<open>
  Scanning a template loses nothing: the segments spell the text, every placeholder is a
  non-empty name of letters, digits and underscores, and no literal is empty; the names it
  extracts are the placeholders, each once.
\<close>

theorem scan_segments_lossless:
  "concat (map segment_text (scan_segments s)) = s
   \<and> (\<forall>n. SegPlaceholder n \<in> set (scan_segments s) \<longrightarrow> param_ident n)
   \<and> SegLiteral [] \<notin> set (scan_segments s)
   \<and> distinct (extract_param_names s)
   \<and> set (extract_param_names s) = {n. SegPlaceholder n \<in> set (scan_segments s)}"
proof -
  have "distinct (foldl (\<lambda>params seg. case seg of
         SegPlaceholder name \<Rightarrow> if name \<in> set params then params else params @ [name]
       | SegLiteral _ \<Rightarrow> params) ps segs)
     \<and> set (foldl (\<lambda>params seg. case seg of
         SegPlaceholder name \<Rightarrow> if name \<in> set params then params else params @ [name]
       | SegLiteral _ \<Rightarrow> params) ps segs) = set ps \<union> {n. SegPlaceholder n \<in> set segs}"
    if "distinct ps" for ps segs
    using that by (induction segs arbitrary: ps) (auto split: segment.split)
  from this [of "[]" "scan_segments s"] show ?thesis
    using scan_from_text [of "[]" s] scan_from_placeholders scan_from_literals [of "[]" "[]" s]
    by (auto simp: scan_segments_def extract_param_names_def)
qed

theorem scan_segments_lossless_witness:
  "concat (map segment_text (scan_segments ''a{b}{ c}{d'')) = ''a{b}{ c}{d''
   \<and> set (extract_param_names ''a{b}{ c}{d'') = {''b''}"
proof -
  have "scan_segments ''a{b}{ c}{d'' = [SegLiteral ''a'', SegPlaceholder ''b'', SegLiteral ''{ c}{d'']" by code_simp
  with scan_segments_lossless [of "''a{b}{ c}{d''"] show ?thesis by auto
qed

section \<open>Rendering is simultaneous\<close>

lemma scan_text: "CHR ''{'' \<notin> set t \<Longrightarrow> scan_from lit (t @ s) = scan_from (lit @ t) s"
  by (induction t arbitrary: lit) (auto simp: scan_from_Cons)

lemma scan_hole:
  assumes "param_ident n"
  shows "scan_from lit (placeholder n @ s) = literal_segment lit @ SegPlaceholder n # scan_from [] s"
proof -
  have "\<not> is_ident (CHR ''}'')" by code_simp
  moreover have "\<And>c. c \<in> set n \<Longrightarrow> is_ident c" using assms by (simp add: param_ident_def list_all_iff)
  ultimately have "takeWhile is_ident (n @ CHR ''}'' # s) = n" "dropWhile is_ident (n @ CHR ''}'' # s) = CHR ''}'' # s"
    by (simp_all add: takeWhile_append2 dropWhile_append2)
  with assms show ?thesis by (simp add: placeholder_def param_ident_def scan_from_Cons hole_ahead_def)
qed

text \<open>What the renderer makes of a list of segments, for the literals of the parameters.\<close>

definition cli_literals :: "cli_lib \<Rightarrow> (string \<rightharpoonup> scalar) \<Rightarrow> string \<rightharpoonup> string" where
  "cli_literals L params n =
     Option.bind (params n) (\<lambda>v. case scalar_to_sql_literal L v of Inr l \<Rightarrow> Some l | Inl _ \<Rightarrow> None)"

definition fill_segment :: "(string \<rightharpoonup> string) \<Rightarrow> segment \<Rightarrow> string" where
  "fill_segment lits seg =
     (case seg of SegLiteral s \<Rightarrow> s
      | SegPlaceholder n \<Rightarrow> (case lits n of Some l \<Rightarrow> l | None \<Rightarrow> placeholder n))"

lemma fill_segment_simps [simp]:
  "fill_segment lits (SegLiteral s) = s"
  "fill_segment lits (SegPlaceholder n) = (case lits n of Some l \<Rightarrow> l | None \<Rightarrow> placeholder n)"
  by (simp_all add: fill_segment_def)

lemma render_literal [simp]: "render_segment L params out (SegLiteral s) = Inr (out @ s)"
  by (simp add: render_segment_def)

lemma fill_literal_segment [simp]: "concat (map (fill_segment lits) (literal_segment lit)) = lit"
  by (simp add: literal_segment_def)

lemma render_segments:
  "fold_res (render_segment L params) out segs = Inr r \<longleftrightarrow>
   (\<forall>n. SegPlaceholder n \<in> set segs \<longrightarrow> cli_literals L params n \<noteq> None)
   \<and> r = out @ concat (map (fill_segment (cli_literals L params)) segs)"
proof (induction segs arbitrary: out)
  case (Cons seg segs)
  show ?case
  proof (cases seg)
    case (SegLiteral s)
    with Cons show ?thesis by simp
  next
    case (SegPlaceholder n)
    show ?thesis
    proof (cases "cli_literals L params n")
      case None
      then have "\<not> is_ok (render_segment L params out seg)"
        by (auto simp: SegPlaceholder render_segment_def cli_literals_def is_ok_iff res_simps split: sum.splits)
      with None SegPlaceholder show ?thesis by (auto simp: is_ok_def try_res_def split: sum.splits)
    next
      case (Some l)
      then obtain v where "params n = Some v" "scalar_to_sql_literal L v = Inr l"
        by (cases "params n") (auto simp: cli_literals_def split: sum.splits)
      then have "render_segment L params out seg = Inr (out @ l)"
        by (simp add: SegPlaceholder render_segment_def ok_or_def)
      with Cons Some SegPlaceholder show ?thesis by auto
    qed
  qed
qed auto

lemma scan_template:
  assumes "list_all piece_wf ps" and "\<And>h. h \<in> template_holes ps \<Longrightarrow> param_ident h"
  shows "concat (map (fill_segment lits) (scan_from lit (template_text ps))) = lit @ render_template lits ps
    \<and> {n. SegPlaceholder n \<in> set (scan_from lit (template_text ps))} = template_holes ps"
  using assms
proof (induction ps arbitrary: lit)
  case Nil
  then show ?case by (simp add: template_text_def render_template_def template_holes_def literal_segment_def)
next
  case (Cons pc ps)
  have holes: "\<And>h. h \<in> template_holes ps \<Longrightarrow> param_ident h" using Cons.prems(2) by (simp add: template_holes_def)
  have wf: "list_all piece_wf ps" using Cons.prems(1) by simp
  show ?case
  proof (cases pc)
    case (Text t)
    with Cons.prems(1) have "CHR ''{'' \<notin> set t" by simp
    with Cons.IH [OF wf holes, of "lit @ t"] Text show ?thesis
      by (simp add: template_text_def scan_text render_template_def template_holes_def)
  next
    case (Hole n)
    with Cons.prems(2) have "param_ident n" by (simp add: template_holes_def)
    with Cons.IH [OF wf holes, of "[]"] Hole show ?thesis
      by (auto simp: template_text_def scan_hole render_template_def template_holes_def
          literal_segment_def split: option.split)
  qed
qed

text \<open>
  C30. Rendering is one simultaneous substitution, whatever the values are: a pipeline's text is
  rendered exactly when every placeholder has a value with a SQL literal, and the result replaces
  each placeholder by its own literal and nothing else, even when a value contains a placeholder.
\<close>

theorem cli_render_is_simultaneous:
  assumes "list_all piece_wf ps" and "\<And>h. h \<in> template_holes ps \<Longrightarrow> param_ident h"
  shows "render_sql_with_inline_params L (template_text ps) params = Inr out \<longleftrightarrow>
    (\<forall>h. h \<in> template_holes ps \<longrightarrow> cli_literals L params h \<noteq> None) \<and> out = render_template (cli_literals L params) ps"
  using scan_template [OF assms, of "cli_literals L params" "[]"]
  by (auto simp: render_sql_with_inline_params_def scan_segments_def render_segments)

text \<open>A library that reads no JSON and no number, for closed examples.\<close>

definition demo_cli_lib :: cli_lib where
  "demo_cli_lib =
     \<lparr>cl_json = (\<lambda>_. None), cl_as_i64 = (\<lambda>_. None), cl_as_f64 = (\<lambda>_. None), cl_parse_f64 = (\<lambda>_. None),
      cl_finite = (\<lambda>_. True), cl_integral = (\<lambda>_. False), cl_one_decimal = id, cl_widen = id,
      cl_debug = (\<lambda>_. []), cl_show = (\<lambda>_. [])\<rparr>"

theorem cli_render_is_simultaneous_witness:
  "render_sql_with_inline_params demo_cli_lib ''a={x} b={y}'' [''x'' \<mapsto> SvUtf8 (Some ''{y}''), ''y'' \<mapsto> SvBoolean (Some True)]
   = Inr (''a='' @ [squote] @ ''{y}'' @ [squote] @ '' b=TRUE'')"
proof -
  let ?ps = "[Text ''a='', Hole ''x'', Text '' b='', Hole ''y'']"
  let ?params = "[''x'' \<mapsto> SvUtf8 (Some ''{y}''), ''y'' \<mapsto> SvBoolean (Some True)]"
  have lits: "cli_literals demo_cli_lib ?params ''x'' = Some ([squote] @ ''{y}'' @ [squote])" "cli_literals demo_cli_lib ?params ''y'' = Some ''TRUE''"
    by (simp_all add: cli_literals_def scalar_to_sql_literal_def sql_string_literal_def squote_def)
  have ident: "\<And>h. h \<in> template_holes ?ps \<Longrightarrow> param_ident h"
    by (auto simp: template_holes_def param_ident_def is_ident_def is_alphanumeric_def is_alpha_def)
  have wf: "list_all piece_wf ?ps" by (simp add: brace_free_def)
  show ?thesis
    using cli_render_is_simultaneous [OF wf ident, of demo_cli_lib ?params "''a='' @ [squote] @ ''{y}'' @ [squote] @ '' b=TRUE''"] lits
    by (simp add: template_text_def template_holes_def render_template_def placeholder_def)
qed

section \<open>Parameter flags\<close>

lemma split_once_append: "d \<notin> set a \<Longrightarrow> split_once d (a @ d # b) = Some (a, b)"
  by (simp add: split_once_def find_char_append)

lemma split_once_absent: "d \<notin> set a \<Longrightarrow> split_once d a = None"
  by (simp add: split_once_def iffD2 [OF find_char_None_iff])

text \<open>
  A flag typed \<open>str\<close> carries any text unchanged, and its SQL literal is the quoted text; an
  untyped flag is read as JSON first, so that a JSON null gives the SQL null.
\<close>

theorem str_flag_is_exact:
  assumes "n \<noteq> []" and "CHR ''='' \<notin> set n" and "CHR '':'' \<notin> set n"
  shows "parse_param_flag L (n @ '':str='' @ v) = Inr (n, SvUtf8 (Some v))
    \<and> scalar_to_sql_literal L (SvUtf8 (Some v)) = Inr (sql_string_literal v)
    \<and> parse_param_flag L (n @ ''='' @ v) = Inr (n, string_to_scalar L v)
    \<and> (cl_json L v = Some JNull \<longrightarrow> scalar_to_sql_literal L (string_to_scalar L v) = Inr ''NULL'')"
proof -
  have "split_once (CHR ''='') ((n @ '':str'') @ CHR ''='' # v) = Some (n @ '':str'', v)"
    using assms by (intro split_once_append) simp
  moreover have "split_once (CHR ''='') (n @ CHR ''='' # v) = Some (n, v)"
    using assms by (intro split_once_append) simp
  moreover have "split_once (CHR '':'') (n @ CHR '':'' # ''str'') = Some (n, ''str'')"
    using assms by (intro split_once_append)
  moreover have "split_once (CHR '':'') n = None" using assms by (intro split_once_absent)
  ultimately show ?thesis
    using assms(1) by (simp add: parse_param_flag_def typed_value_def scalar_to_sql_literal_def string_to_scalar_def)
qed

theorem str_flag_is_exact_witness:
  "parse_param_flag demo_cli_lib ''id:str=null'' = Inr (''id'', SvUtf8 (Some ''null''))
   \<and> (cl_json demo_cli_lib ''null'' = Some JNull \<longrightarrow> scalar_to_sql_literal demo_cli_lib (string_to_scalar demo_cli_lib ''null'') = Inr ''NULL'')"
  using str_flag_is_exact [of "''id''" demo_cli_lib "''null''"] by simp

section \<open>Binding of alias arguments\<close>

lemma foldl_updates: "foldl (\<lambda>m (k, v). m(k \<mapsto> v)) m kvs = m ++ map_of (rev kvs)"
proof (induction kvs arbitrary: m)
  case (Cons kv kvs)
  then show ?case by (cases kv) (simp add: fun_eq_iff map_add_def split: option.split)
qed simp

lemma bind_positional_iff:
  "bind_positional c names vals m = Inr m' \<longleftrightarrow>
   length vals \<le> length names \<and> m' = m ++ map_of (rev (zip names vals))"
proof (induction c names vals m rule: bind_positional.induct)
  case (3 c n names v vals m)
  have "m ++ map_of (rev (zip (n # names) (v # vals))) = m(n \<mapsto> v) ++ map_of (rev (zip names vals))"
    by (simp add: fun_eq_iff map_add_def split: option.split)
  with 3 show ?case by (simp add: fun_upd_def)
qed auto

lemma apply_default_dom: "dom (apply_default L ty m d) = (if fst d \<in> dom ty then dom m else insert (fst d) (dom m))"
  by (cases d) (auto simp: apply_default_def)

lemma apply_default_keeps: "m n = Some v \<Longrightarrow> apply_default L ty m d n = Some v"
  by (cases d) (auto simp: apply_default_def)

lemma apply_defaults_keep: "m n = Some v \<Longrightarrow> foldl (apply_default L ty) m ds n = Some v"
  by (induction ds arbitrary: m) (auto dest: apply_default_keeps)

lemma apply_defaults_dom:
  "dom (foldl (apply_default L ty) m ds) = dom m \<union> (fst ` set ds - dom ty)"
  by (induction ds arbitrary: m) (auto simp: apply_default_dom)

text \<open>What a resolved alias binds, and where each value comes from.\<close>

definition alias_strings :: "cli_lib \<Rightarrow> alias_def \<Rightarrow> (string \<rightharpoonup> scalar) \<Rightarrow> string list \<Rightarrow> (string \<rightharpoonup> string)" where
  "alias_strings L alias typed pos = foldl (apply_default L typed) (map_of (rev (zip (ad_positional alias) pos))) (ad_defaults alias)"

lemma resolve_alias_iff:
  "resolve_alias L alias args = Inr r \<longleftrightarrow>
   (\<exists>flags pos. split_args L args [] [] = Inr (flags, pos) \<and> length pos \<le> length (ad_positional alias)
     \<and> r = \<lparr>ra_pipeline = ad_pipeline alias,
            ra_params = (map_option (string_to_scalar L) \<circ> alias_strings L alias (map_of (rev flags)) pos)
                        ++ map_of (rev flags)\<rparr>)"
  by (auto simp: resolve_alias_def res_simps bind_positional_iff alias_strings_def foldl_updates Let_def)

lemma dom_map_option_comp [simp]: "dom (map_option f \<circ> m) = dom m"
  by (auto simp: dom_def)

text \<open>
  An alias binds a parameter from its last flag, otherwise from the positional argument of its
  name, otherwise from its default, and binds nothing else; more positional arguments than the
  alias names are an error.
\<close>

theorem alias_binding_precedence:
  assumes "split_args L args [] [] = Inr (flags, pos)"
  shows "(length pos > length (ad_positional alias) \<longrightarrow> \<not> is_ok (resolve_alias L alias args))
    \<and> (\<forall>r. resolve_alias L alias args = Inr r \<longrightarrow>
        dom (ra_params r) = fst ` set flags \<union> set (take (length pos) (ad_positional alias)) \<union> fst ` set (ad_defaults alias)
        \<and> (\<forall>n v. map_of (rev flags) n = Some v \<longrightarrow> ra_params r n = Some v)
        \<and> (\<forall>i < length pos. distinct (ad_positional alias) \<longrightarrow> ad_positional alias ! i \<notin> fst ` set flags \<longrightarrow>
             ra_params r (ad_positional alias ! i) = Some (string_to_scalar L (pos ! i))))"
proof (intro conjI impI allI)
  assume "length pos > length (ad_positional alias)"
  then show "\<not> is_ok (resolve_alias L alias args)"
    using assms by (auto simp: is_ok_iff resolve_alias_iff)
next
  fix r
  assume "resolve_alias L alias args = Inr r"
  then have le: "length pos \<le> length (ad_positional alias)"
    and r: "ra_params r = (map_option (string_to_scalar L) \<circ> alias_strings L alias (map_of (rev flags)) pos) ++ map_of (rev flags)"
    using assms by (auto simp: resolve_alias_iff)
  let ?z = "zip (ad_positional alias) pos"
  have fst_zip: "fst ` set ?z = set (take (length pos) (ad_positional alias))"
    using le by (metis map_fst_zip_take min.absorb2 set_map)
  show "dom (ra_params r) = fst ` set flags \<union> set (take (length pos) (ad_positional alias)) \<union> fst ` set (ad_defaults alias)"
    by (auto simp: r alias_strings_def apply_defaults_dom dom_map_of_conv_image_fst fst_zip)
  show "ra_params r n = Some v" if "map_of (rev flags) n = Some v" for n v
    using that by (simp add: r)
  show "ra_params r (ad_positional alias ! i) = Some (string_to_scalar L (pos ! i))"
    if "i < length pos" "distinct (ad_positional alias)" "ad_positional alias ! i \<notin> fst ` set flags" for i
  proof -
    have "distinct (map fst (rev ?z))"
      using that(2) le by (simp add: rev_map [symmetric] map_fst_zip_take)
    moreover have "(ad_positional alias ! i, pos ! i) \<in> set (rev ?z)"
      using that(1) le by (auto simp: set_zip intro!: exI [of _ i])
    ultimately have "map_of (rev ?z) (ad_positional alias ! i) = Some (pos ! i)" by (rule map_of_is_SomeI)
    moreover have "map_of (rev flags) (ad_positional alias ! i) = None"
      using that(3) by (simp add: map_of_eq_None_iff)
    ultimately show ?thesis
      by (simp add: r map_add_def alias_strings_def apply_defaults_keep)
  qed
qed

theorem alias_binding_precedence_witness:
  "ra_params (projr (resolve_alias demo_cli_lib \<lparr>ad_pipeline = ''p'', ad_positional = [''q''], ad_defaults = [(''n'', ''1'')], ad_description = None\<rparr>
     [''hi'', ''--n:str=2''])) ''n'' = Some (SvUtf8 (Some ''2''))"
proof -
  let ?a = "\<lparr>ad_pipeline = ''p'', ad_positional = [''q''], ad_defaults = [(''n'', ''1'')], ad_description = None\<rparr>"
  let ?args = "[''hi'', ''--n:str=2'']"
  have split: "split_args demo_cli_lib ?args [] [] = Inr ([(''n'', SvUtf8 (Some ''2''))], [''hi''])"
    by (simp add: parse_param_flag_def split_once_def typed_value_def)
  then obtain r where "resolve_alias demo_cli_lib ?a ?args = Inr r" by (simp add: resolve_alias_def)
  with alias_binding_precedence [OF split, of ?a] show ?thesis by auto
qed

section \<open>Defaults\<close>

lemma substitute_one_placeholder:
  assumes "param_ident n"
  shows "substitute_template L (placeholder n) sp ty =
    (case sp n of Some v \<Rightarrow> v | None \<Rightarrow> (case ty n of Some sv \<Rightarrow> scalar_display L sv | None \<Rightarrow> placeholder n))"
  using scan_hole [OF assms, of "[]" "[]"]
  by (simp add: substitute_template_def scan_segments_def literal_segment_def)

lemma substitute_plain: "CHR ''{'' \<notin> set t \<Longrightarrow> substitute_template L t sp ty = t"
  using scan_text [of t "[]" "[]"] by (simp add: substitute_template_def scan_segments_def literal_segment_def)

text \<open>
  Defaults are resolved in the order of their names: one that refers to another gets its value
  when the other comes first, and keeps the placeholder as its text when it comes later.
\<close>

theorem defaults_resolve_in_key_order:
  assumes "param_ident n" and "param_ident m" and "n \<noteq> m" and "CHR ''{'' \<notin> set t"
  shows "resolve_alias L (alias\<lparr>ad_positional := [], ad_defaults := [(n, t), (m, placeholder n)]\<rparr>) [] =
      Inr \<lparr>ra_pipeline = ad_pipeline alias, ra_params = [n \<mapsto> string_to_scalar L t, m \<mapsto> string_to_scalar L t]\<rparr>
    \<and> resolve_alias L (alias\<lparr>ad_positional := [], ad_defaults := [(m, placeholder n), (n, t)]\<rparr>) [] =
      Inr \<lparr>ra_pipeline = ad_pipeline alias,
           ra_params = [m \<mapsto> string_to_scalar L (placeholder n), n \<mapsto> string_to_scalar L t]\<rparr>"
  using assms
  by (simp add: resolve_alias_iff alias_strings_def apply_default_def substitute_plain
      substitute_one_placeholder fun_eq_iff)

section \<open>The aliases file\<close>

text \<open>
  What is saved is what is read back, and no other file changes, when the YAML library reads
  the text of an aliases file back to that file; a file of another kind is refused when it is read.
\<close>

theorem alias_file_roundtrip:
  assumes "\<And>f text. ay_print Y f = Inr text \<Longrightarrow>
      \<exists>root. ay_parse Y text = Inr root \<and> ay_kind Y root = Some (Some (al_kind f)) \<and> ay_file Y root = Inr f"
    and "\<And>f text. ay_print Y f = Inr text \<Longrightarrow> str_trim text \<noteq> []"
    and "alias_save Y write files path f = Inr files'"
  shows "alias_load Y files' path =
      (if al_kind f = ALIASES_KIND then Inr f
       else Inl (''Expected `kind: aliases` in '' @ path @ '', got `kind: '' @ al_kind f @ ''`''))
    \<and> (\<forall>p. p \<noteq> path \<longrightarrow> files' p = files p)"
proof -
  from assms(3) obtain t where t: "ay_print Y f = Inr t" "files' = files(path \<mapsto> t)"
    by (auto simp: alias_save_def res_simps)
  from assms(1) [OF t(1)] obtain root where
    "ay_parse Y t = Inr root" "ay_kind Y root = Some (Some (al_kind f))" "ay_file Y root = Inr f" by blast
  with t assms(2) [OF t(1)] show ?thesis by (simp add: alias_load_def)
qed

text \<open>A YAML library that reads back what it prints.\<close>

definition plain_alias_yaml :: "alias_file alias_yaml" where
  "plain_alias_yaml =
     \<lparr>ay_parse = (\<lambda>t. if t = ''file'' then Inr alias_file_default else Inl ''not YAML''),
      ay_kind = (\<lambda>f. Some (Some (al_kind f))), ay_file = Inr,
      ay_print = (\<lambda>f. if f = alias_file_default then Inr ''file'' else Inl ''unprintable'')\<rparr>"

theorem alias_file_roundtrip_witness:
  "alias_load plain_alias_yaml [''a.yaml'' \<mapsto> ''file''] ''a.yaml'' = Inr alias_file_default"
proof -
  let ?Y = plain_alias_yaml
  have saved: "alias_save ?Y (\<lambda>_. Inr ()) Map.empty ''a.yaml'' alias_file_default = Inr [''a.yaml'' \<mapsto> ''file'']"
    by (simp add: alias_save_def plain_alias_yaml_def)
  have trim: "str_trim ''file'' \<noteq> []" by code_simp
  have printed: "t = ''file'' \<and> f = alias_file_default" if "ay_print ?Y f = Inr t" for f t
    using that by (simp add: plain_alias_yaml_def split: if_splits)
  have "al_kind alias_file_default = ALIASES_KIND" by (simp add: alias_file_default_def)
  moreover have "alias_load ?Y [''a.yaml'' \<mapsto> ''file''] ''a.yaml'' =
      (if al_kind alias_file_default = ALIASES_KIND then Inr alias_file_default
       else Inl (''Expected `kind: aliases` in '' @ ''a.yaml'' @ '', got `kind: '' @ al_kind alias_file_default @ ''`''))
      \<and> (\<forall>p. p \<noteq> ''a.yaml'' \<longrightarrow> [''a.yaml'' \<mapsto> ''file''] p = Map.empty p)"
  proof (rule alias_file_roundtrip [OF _ _ saved])
    show "\<exists>root. ay_parse ?Y t = Inr root \<and> ay_kind ?Y root = Some (Some (al_kind f)) \<and> ay_file ?Y root = Inr f"
      if "ay_print ?Y f = Inr t" for f t
      using printed [OF that] by (simp add: plain_alias_yaml_def)
    show "str_trim t \<noteq> []" if "ay_print ?Y f = Inr t" for f t
      using printed [OF that] trim by simp
  qed
  ultimately show ?thesis by simp
qed

theorem defaults_resolve_in_key_order_witness:
  "ra_params (projr (resolve_alias demo_cli_lib
      \<lparr>ad_pipeline = ''p'', ad_positional = [], ad_defaults = [(''a'', ''{b}''), (''b'', ''1'')], ad_description = None\<rparr> [])) ''a''
   = Some (string_to_scalar demo_cli_lib ''{b}'')"
proof -
  have "param_ident ''b''" "param_ident ''a''"
    by (simp_all add: param_ident_def is_ident_def is_alphanumeric_def is_alpha_def)
  from defaults_resolve_in_key_order [OF this, of "''1''" demo_cli_lib
      "\<lparr>ad_pipeline = ''p'', ad_positional = [], ad_defaults = [], ad_description = None\<rparr>"]
  show ?thesis by (simp add: placeholder_def)
qed

section \<open>Discovery\<close>

text \<open>Where a discovered pipeline comes from.\<close>

definition pipeline_found :: "'v pipeline_fs \<Rightarrow> string list \<Rightarrow> string \<Rightarrow> pipeline_file \<Rightarrow> bool" where
  "pipeline_found Q dirs p f \<longleftrightarrow>
     (\<exists>dir es raw v. dir \<in> set dirs \<and> qf_is_dir Q dir \<and> qf_read_dir Q dir = Inr es \<and> Inr p \<in> set es \<and> qf_is_file Q p
        \<and> map_option to_lowercase (qf_extension Q p) \<in> {Some ''yaml'', Some ''yml''}
        \<and> qf_read Q p = Inr raw \<and> qf_yaml Q raw = Inr v \<and> qf_kind Q v = Some ''pipeline''
        \<and> qf_envelope Q v = Inr (''pipeline'', pf_name f, pf_query f))"

lemma pipeline_extension:
  "y \<noteq> [] \<Longrightarrow> to_lowercase (case x of Some e \<Rightarrow> e | None \<Rightarrow> []) = y \<longleftrightarrow> map_option to_lowercase x = Some y"
  by (cases x) (auto simp: to_lowercase_Nil)

lemma discover_entry_cases:
  assumes "discover_entry Q out entry = Inr out'"
  shows "out' = out \<or> (\<exists>p n q raw v. entry = Inr p \<and> out' = out(n \<mapsto> (p, \<lparr>pf_name = n, pf_query = q\<rparr>)) \<and> qf_is_file Q p
        \<and> map_option to_lowercase (qf_extension Q p) \<in> {Some ''yaml'', Some ''yml''}
        \<and> qf_read Q p = Inr raw \<and> qf_yaml Q raw = Inr v \<and> qf_kind Q v = Some ''pipeline''
        \<and> qf_envelope Q v = Inr (''pipeline'', n, q))"
proof -
  from assms obtain p where p: "entry = Inr p" by (auto simp: discover_entry_def res_simps)
  show ?thesis
  proof (cases "out' = out")
    case False
    with assms p obtain raw v n q where "qf_is_file Q p"
      "map_option to_lowercase (qf_extension Q p) \<in> {Some ''yaml'', Some ''yml''}"
      "qf_read Q p = Inr raw" "qf_yaml Q raw = Inr v" "qf_kind Q v = Some ''pipeline''"
      "qf_envelope Q v = Inr (''pipeline'', n, q)" "out' = out(n \<mapsto> (p, \<lparr>pf_name = n, pf_query = q\<rparr>))"
      by (auto simp: discover_entry_def pipeline_from_value_def res_simps Let_def pipeline_extension
          simp del: map_option_eq_Some split: if_split_asm)
    with p show ?thesis by blast
  qed simp
qed

definition found_map :: "'v pipeline_fs \<Rightarrow> string list \<Rightarrow> (string \<rightharpoonup> string \<times> pipeline_file) \<Rightarrow> bool" where
  "found_map Q dirs m \<longleftrightarrow> (\<forall>n p f. m n = Some (p, f) \<longrightarrow> pf_name f = n \<and> pipeline_found Q dirs p f)"

lemma discover_dir_invariant:
  assumes "discover_dir Q out dir = Inr out'" and "found_map Q dirs out" and "dir \<in> set dirs"
  shows "found_map Q dirs out'"
proof (cases "qf_is_dir Q dir")
  case True
  with assms(1) obtain es where es: "qf_read_dir Q dir = Inr es" "fold_res (discover_entry Q) out es = Inr out'"
    by (auto simp: discover_dir_def res_simps)
  show ?thesis
  proof (rule fold_res_invariant [where I = "found_map Q dirs", OF es(2) assms(2)])
    fix m entry m'
    assume m: "found_map Q dirs m" and entry: "entry \<in> set es" and step: "discover_entry Q m entry = Inr m'"
    from discover_entry_cases [OF step] show "found_map Q dirs m'"
    proof (elim disjE exE conjE)
      assume "m' = m"
      with m show ?thesis by simp
    next
      fix p n q raw v
      assume *: "entry = Inr p" "m' = m(n \<mapsto> (p, \<lparr>pf_name = n, pf_query = q\<rparr>))" "qf_is_file Q p"
        "map_option to_lowercase (qf_extension Q p) \<in> {Some ''yaml'', Some ''yml''}"
        "qf_read Q p = Inr raw" "qf_yaml Q raw = Inr v" "qf_kind Q v = Some ''pipeline''"
        "qf_envelope Q v = Inr (''pipeline'', n, q)"
      have "pipeline_found Q dirs p \<lparr>pf_name = n, pf_query = q\<rparr>"
        unfolding pipeline_found_def
        by (intro exI [of _ dir] exI [of _ es] exI [of _ raw] exI [of _ v] conjI)
          (use * entry assms(3) True es(1) in simp_all)
      with m *(2) show ?thesis by (simp add: found_map_def)
    qed
  qed
next
  case False
  with assms show ?thesis by (simp add: discover_dir_def)
qed

text \<open>
  Every discovered pipeline is kept under its own name and comes from a YAML file of kind
  \<open>pipeline\<close> directly in one of the directories.
\<close>

theorem discovered_pipelines_are_found:
  assumes "discover_pipelines Q dirs = Inr m" and "m n = Some (p, f)"
  shows "pf_name f = n \<and> pipeline_found Q dirs p f"
proof -
  have "found_map Q dirs m"
    using assms(1) unfolding discover_pipelines_def
    by (rule fold_res_invariant) (auto simp: found_map_def [of _ _ Map.empty] intro: discover_dir_invariant)
  with assms(2) show ?thesis by (simp add: found_map_def)
qed

text \<open>A directory of two files: a pipeline and a file of another kind.\<close>

definition demo_pipeline_fs :: "string pipeline_fs" where
  "demo_pipeline_fs =
     \<lparr>qf_is_dir = (\<lambda>d. d = ''dir''), qf_read_dir = (\<lambda>_. Inr [Inr ''a.yml'', Inr ''b.yml'']),
      qf_is_file = (\<lambda>_. True), qf_extension = (\<lambda>_. Some ''YML''), qf_read = Inr, qf_yaml = Inr,
      qf_kind = (\<lambda>v. if v = ''a.yml'' then Some ''pipeline'' else None),
      qf_envelope = (\<lambda>v. Inr (''pipeline'', ''search'', ''SELECT 1''))\<rparr>"

theorem discovered_pipelines_are_found_witness:
  "pipeline_found demo_pipeline_fs [''dir'', ''none''] ''a.yml'' \<lparr>pf_name = ''search'', pf_query = ''SELECT 1''\<rparr>"
proof -
  have low: "to_lowercase ''YML'' = ''yml''" by code_simp
  have "discover_pipelines demo_pipeline_fs [''dir'', ''none''] =
      Inr [''search'' \<mapsto> (''a.yml'', \<lparr>pf_name = ''search'', pf_query = ''SELECT 1''\<rparr>)]"
    by (simp add: discover_pipelines_def discover_dir_def discover_entry_def demo_pipeline_fs_def pipeline_from_value_def low Let_def)
  from discovered_pipelines_are_found [OF this, of "''search''"] show ?thesis by auto
qed

section \<open>Requests\<close>

lemma urlencode_eq:
  "urlencode s = concat (map (\<lambda>c. if c = CHR ''/'' then ''%2F'' else if c = CHR ''?'' then ''%3F''
     else if c = CHR ''&'' then ''%26'' else [c]) s)"
  unfolding urlencode_def str_replace_char by (induction s) auto

lemma encoded_chars:
  "char_of (47 :: nat) = CHR ''/''" "char_of (63 :: nat) = CHR ''?''" "char_of (38 :: nat) = CHR ''&''"
  by code_simp+

lemma percent_decode_urlencode: "CHR ''%'' \<notin> set s \<Longrightarrow> percent_decode (urlencode s) = s"
  unfolding urlencode_eq
proof (induction s)
  case (Cons c s)
  then show ?case
    by (auto simp: percent_decode_other hex_value_def encoded_chars)
qed simp

text \<open>
  The job filter of a listing survives the URL when the name has no percent sign: decoding
  what is sent gives the name, and no character that would end it is sent bare. A name with a
  percent sign does not: it is sent as another name is.
\<close>

theorem job_filter_encoding:
  assumes "CHR ''%'' \<notin> set j"
  shows "job_request L env (JobList (Some j) n server) =
      Inr (server_base_url env server @ ''/jobs/runs?limit='' @ show_nat n @ ''&job='' @ urlencode j, None)
    \<and> percent_decode (urlencode j) = j
    \<and> set (urlencode j) \<inter> {CHR ''&'', CHR ''?'', CHR ''/''} = {}
    \<and> urlencode (j @ ''%26'') = urlencode (j @ ''&'')"
  using percent_decode_urlencode [OF assms] by (auto simp: job_request_def urlencode_eq)

theorem job_filter_encoding_witness:
  "percent_decode (urlencode ''nightly/a&b'') = ''nightly/a&b'' \<and> urlencode ''a%26b'' = urlencode ''a&b''"
  using job_filter_encoding [of "''nightly/a&b''"] by (simp add: urlencode_eq)

text \<open>
  The name of the job to run is put into the path as it is: a name with a slash and a question
  mark sends its parameters to another route, here the cancellation of a run.
\<close>

theorem job_name_is_not_encoded:
  "job_request L env (JobRun (''runs/'' @ r @ ''/cancel?'') [] server) =
     Inr (fst (projr (job_request L env (JobCancel r server))) @ ''?/run'', Some Map.empty)"
  by (simp add: job_request_def params_to_json_def)

lemma insert_json_params:
  assumes "fold_res (insert_json_param L) m raw = Inr out"
  shows "dom out = dom m \<union> {n. \<exists>s \<in> set raw. \<exists>v. parse_param_flag L s = Inr (n, v)}"
  using assms
proof (induction raw arbitrary: m)
  case (Cons s raw)
  then obtain m1 where first: "insert_json_param L m s = Inr m1" and rest: "fold_res (insert_json_param L) m1 raw = Inr out"
    by (auto simp: res_simps)
  from first obtain n v j where n: "parse_param_flag L s = Inr (n, v)" "m1 = m(n \<mapsto> j)"
    by (auto simp: res_simps insert_json_param_def)
  have "dom m1 = insert n (dom m)" by (simp add: n(2))
  with Cons.IH [OF rest] n(1) show ?case by auto
qed simp

text \<open>
  A run is submitted with an object of exactly the parameters its flags name, to the
  \<open>--server\<close> option, otherwise to \<open>SKARDI_SERVER_URL\<close>, otherwise to the default server; when
  one flag is malformed nothing is sent.
\<close>

theorem job_run_request:
  "job_request L env (JobRun job raw server) = Inr (url, body) \<longrightarrow>
     url = (case server of Some u \<Rightarrow> u
            | None \<Rightarrow> (case env ''SKARDI_SERVER_URL'' of Some u \<Rightarrow> u | None \<Rightarrow> ''http://127.0.0.1:8080''))
           @ ''/jobs/'' @ job @ ''/run''
     \<and> (\<forall>s \<in> set raw. is_ok (parse_param_flag L s))
     \<and> (\<exists>b. body = Some b \<and> dom b = {n. \<exists>s \<in> set raw. \<exists>v. parse_param_flag L s = Inr (n, v)})"
proof
  assume "job_request L env (JobRun job raw server) = Inr (url, body)"
  then obtain b where b: "fold_res (insert_json_param L) Map.empty raw = Inr b" "body = Some b"
    "url = server_base_url env server @ ''/jobs/'' @ job @ ''/run''"
    by (auto simp: job_request_def params_to_json_def res_simps)
  have flags: "is_ok (parse_param_flag L s)"
    if "s \<in> set raw" "fold_res (insert_json_param L) m raw = Inr b" for s m
    using that by (induction raw arbitrary: m) (auto simp: res_simps insert_json_param_def)
  show "url = (case server of Some u \<Rightarrow> u
            | None \<Rightarrow> (case env ''SKARDI_SERVER_URL'' of Some u \<Rightarrow> u | None \<Rightarrow> ''http://127.0.0.1:8080''))
           @ ''/jobs/'' @ job @ ''/run''
     \<and> (\<forall>s \<in> set raw. is_ok (parse_param_flag L s))
     \<and> (\<exists>b. body = Some b \<and> dom b = {n. \<exists>s \<in> set raw. \<exists>v. parse_param_flag L s = Inr (n, v)})"
    using flags [OF _ b(1)] insert_json_params [OF b(1)] b(2,3)
    by (simp add: server_base_url_def DEFAULT_SERVER_URL_def cong: option.case_cong)
qed

theorem job_run_request_witness:
  "\<exists>b. job_request demo_cli_lib Map.empty (JobRun ''nightly'' [''day:str=1''] None) =
       Inr (''http://127.0.0.1:8080/jobs/nightly/run'', Some b) \<and> dom b = {''day''}"
proof -
  have flag: "parse_param_flag demo_cli_lib ''day:str=1'' = Inr (''day'', SvUtf8 (Some ''1''))"
    by (simp add: parse_param_flag_def split_once_def typed_value_def)
  then obtain url body where r: "job_request demo_cli_lib Map.empty (JobRun ''nightly'' [''day:str=1''] None) = Inr (url, body)"
    by (simp add: job_request_def params_to_json_def insert_json_param_def scalar_to_json_def)
  show ?thesis using job_run_request [of demo_cli_lib Map.empty "''nightly''" "[''day:str=1'']" None url body] r flag by auto
qed

text \<open>
  A job command reports success only on a successful answer: when it prints anything, the
  request was answered with a status between 200 and 299 and a JSON text; so a refusal by the
  server, or an answer that is no JSON, is always an error.
\<close>

theorem job_output_needs_success:
  assumes "handle_job_cmd L H env cmd = Inr ls"
  shows "\<exists>url body status t j. job_request L env cmd = Inr (url, body) \<and> hl_send H url body = Inr (status, Inr t)
    \<and> 200 \<le> status \<and> status < 300 \<and> cl_json L t = Some j"
  using assms by (auto simp: handle_job_cmd_def call_json_def res_simps split: if_split_asm)

theorem job_output_needs_success_witness:
  "\<exists>url body status t j. job_request demo_cli_lib Map.empty (JobList None 5 None) = Inr (url, body)
    \<and> hl_send \<lparr>hl_send = (\<lambda>_ _. Inr (200, Inr ''[]'')), hl_status = show_nat, hl_pretty = (\<lambda>_. Inr []), hl_as_u64 = (\<lambda>_. None)\<rparr>
        url body = Inr (status, Inr t) \<and> 200 \<le> status \<and> status < 300
    \<and> cl_json (demo_cli_lib\<lparr>cl_json := (\<lambda>_. Some (JObject [(''runs'', JArray [])]))\<rparr>) t = Some j"
proof -
  let ?L = "demo_cli_lib\<lparr>cl_json := (\<lambda>_. Some (JObject [(''runs'', JArray [])]))\<rparr>"
  let ?H = "\<lparr>hl_send = (\<lambda>_ _. Inr (200, Inr ''[]'')), hl_status = show_nat, hl_pretty = (\<lambda>_. Inr []), hl_as_u64 = (\<lambda>_. None)\<rparr>"
  have "handle_job_cmd ?L ?H Map.empty (JobList None 5 None) = Inr [''(no runs)'']"
    by (simp add: handle_job_cmd_def job_request_def call_json_def print_run_list_def json_get_def)
  from job_output_needs_success [OF this] show ?thesis by (simp add: job_request_def)
qed

end
