(* ===== verification/Cli_Main.thy ===== *)
theory Cli_Main
  imports Cli_Pipeline Data_Sources Semantics "HOL-Library.Product_Lexorder" "HOL-Library.Sublist"
begin

text \<open>
  The command line client itself (\<^verbatim>\<open>cli/src/main.rs\<close>): the resolution of paths, the context
  file and the registration of its data sources, object stores for the URLs of a query, the
  schema listing, the execution of a query or of a pipeline, and the alias commands. The session,
  the drivers behind the registrations, YAML and the object store libraries are parameters; the
  definition of the command line itself is the library's.
\<close>

section \<open>Paths and flags\<close>

definition resolve_ctx_path :: "path_ops \<Rightarrow> string option \<Rightarrow> string option" where
  "resolve_ctx_path P override_path =
     (case (case override_path of Some p \<Rightarrow> Some p | None \<Rightarrow> po_env P ''SKARDICONFIG'') of
        Some p \<Rightarrow> Some (if po_is_dir P p then po_join P p ''ctx.yaml'' else p)
      | None \<Rightarrow> map_option (\<lambda>h. config_file P h ''ctx.yaml'') (po_home P))"

definition remote_prefixes :: "string list" where
  "remote_prefixes =
     [''s3://'', ''gs://'', ''gcs://'', ''az://'', ''azure://'', ''abfs://'', ''abfss://'', ''http://'',
      ''https://'', ''oss://'', ''cos://'']"

definition cli_is_remote_path :: "string \<Rightarrow> bool" where
  "cli_is_remote_path path \<longleftrightarrow> list_ex (\<lambda>p. starts_with p path) remote_prefixes"

definition resolve_path :: "path_ops \<Rightarrow> string \<Rightarrow> string + string" where
  "resolve_path P path =
     (if cli_is_remote_path path then Inr path
      else if po_is_relative P path
      then try_res (map_err (\<lambda>e. ''Failed to get current directory: '' @ e) (po_cwd P)) (\<lambda>cwd.
           Inr (po_join P cwd path))
      else Inr path)"

record control_flags =
  cf_ctx :: "string option"
  cf_pipeline_dir :: "string option"
  cf_aliases :: "string option"

text \<open>One flag at the head of the arguments: its value and what follows.\<close>

definition maybe_take :: "string \<Rightarrow> string list \<Rightarrow> (string \<times> string list) option" where
  "maybe_take name args =
     (case args of
        [] \<Rightarrow> None
      | a # rest \<Rightarrow>
          (case strip_prefix (''--'' @ name @ ''='') a of
             Some v \<Rightarrow> Some (v, rest)
           | None \<Rightarrow>
               if a = ''--'' @ name
               then (case rest of v # rest' \<Rightarrow> Some (v, rest') | [] \<Rightarrow> None)
               else None))"

lemma maybe_take_shorter: "maybe_take n args = Some (v, rest) \<Longrightarrow> length rest < length args"
  by (auto simp: maybe_take_def split: list.splits option.splits if_splits)

function split_control_flags :: "string list \<Rightarrow> control_flags \<Rightarrow> string list \<Rightarrow> control_flags \<times> string list" where
  "split_control_flags args cf out =
     (case maybe_take ''ctx'' args of
        Some (v, rest) \<Rightarrow> split_control_flags rest (cf\<lparr>cf_ctx := Some v\<rparr>) out
      | None \<Rightarrow>
          (case maybe_take ''pipeline-dir'' args of
             Some (v, rest) \<Rightarrow> split_control_flags rest (cf\<lparr>cf_pipeline_dir := Some v\<rparr>) out
           | None \<Rightarrow>
               (case maybe_take ''aliases'' args of
                  Some (v, rest) \<Rightarrow> split_control_flags rest (cf\<lparr>cf_aliases := Some v\<rparr>) out
                | None \<Rightarrow> (case args of [] \<Rightarrow> (cf, out) | a # rest \<Rightarrow> split_control_flags rest cf (out @ [a])))))"
  by pat_completeness auto
termination
  by (relation "measure (\<lambda>(args, _, _). length args)") (auto dest: maybe_take_shorter)

declare split_control_flags.simps [simp del]

definition no_control_flags :: control_flags where
  "no_control_flags = \<lparr>cf_ctx = None, cf_pipeline_dir = None, cf_aliases = None\<rparr>"

section \<open>Object stores\<close>

record url_parts =
  up_scheme :: string
  up_host :: "string option"
  up_port :: "nat option"

datatype store_builder =
  S3Store string "bool option"
| GcsStore string
| AzureStore string
| HttpStore string

text \<open>
  The URL and object store libraries: parsing of a URL, the check of a store's URL, and building a
  store. The session keeps the stores by URL.
\<close>

record 's store_lib =
  st_url :: "string \<Rightarrow> string + url_parts"
  st_check :: "string \<Rightarrow> string + unit"
  st_build :: "store_builder \<Rightarrow> string + 's"

definition store_url_of :: "string \<Rightarrow> url_parts \<Rightarrow> string + string option" where
  "store_url_of url_str u =
     (let scheme = up_scheme u;
          host = (\<lambda>what. ok_or (up_host u) (''Missing '' @ what @ '' in URL: '' @ url_str))
      in if scheme \<in> {''s3'', ''oss'', ''cos'', ''gs'', ''gcs''}
         then try_res (host ''bucket'') (\<lambda>h. Inr (Some (scheme @ ''://'' @ h)))
         else if scheme \<in> {''az'', ''azure'', ''abfs'', ''abfss''}
         then try_res (host ''container'') (\<lambda>h. Inr (Some (scheme @ ''://'' @ h)))
         else if scheme \<in> {''http'', ''https''}
         then try_res (host ''host'') (\<lambda>h.
              Inr (Some (scheme @ ''://'' @ h @ (case up_port u of Some p \<Rightarrow> '':'' @ show_nat p | None \<Rightarrow> []))))
         else Inr None)"

definition store_builder_of :: "url_parts \<Rightarrow> string \<Rightarrow> (store_builder \<times> string) option" where
  "store_builder_of u store_url =
     (let scheme = up_scheme u; host = (case up_host u of Some h \<Rightarrow> h | None \<Rightarrow> []) in
      if scheme \<in> {''s3'', ''oss'', ''cos''}
      then Some (S3Store host (if scheme = ''oss'' then Some True else if scheme = ''cos'' then Some False else None), ''S3'')
      else if scheme \<in> {''gs'', ''gcs''} then Some (GcsStore host, ''GCS'')
      else if scheme \<in> {''az'', ''azure'', ''abfs'', ''abfss''} then Some (AzureStore host, ''Azure'')
      else if scheme \<in> {''http'', ''https''} then Some (HttpStore store_url, ''HTTP'')
      else None)"

definition register_object_store_for_url ::
  "'s store_lib \<Rightarrow> (string \<rightharpoonup> 's) \<Rightarrow> string \<Rightarrow> string + (string \<rightharpoonup> 's)" where
  "register_object_store_for_url S stores url_str =
     try_res (map_err (\<lambda>e. ''Invalid URL: '' @ url_str @ '': '' @ e) (st_url S url_str)) (\<lambda>u.
     try_res (store_url_of url_str u) (\<lambda>store_url_opt.
     case store_url_opt of
       None \<Rightarrow> Inr stores
     | Some store_url \<Rightarrow>
         try_res (map_err (\<lambda>e. ''Invalid store URL: '' @ store_url @ '': '' @ e) (st_url S store_url)) (\<lambda>_.
         try_res (st_check S store_url) (\<lambda>_.
         if stores store_url \<noteq> None then Inr stores
         else
           (case store_builder_of u store_url of
              None \<Rightarrow> Inr stores
            | Some (builder, what) \<Rightarrow>
                try_res (map_err (\<lambda>e. ''Failed to build '' @ what @ '' store for '' @ store_url @ '': '' @ e)
                           (st_build S builder))
                  (\<lambda>store. Inr (stores(store_url \<mapsto> store))))))))"

text \<open>
  The scan of a query for URLs. The loop need not end for every prefix: its result is \<open>None\<close> when
  it does not.
\<close>

fun find_str :: "string \<Rightarrow> string \<Rightarrow> nat option" where
  "find_str p s =
     (if starts_with p s then Some 0
      else (case s of [] \<Rightarrow> None | _ # cs \<Rightarrow> map_option Suc (find_str p cs)))"

declare find_str.simps [simp del]

definition url_delimiter :: "char \<Rightarrow> bool" where
  "url_delimiter c \<longleftrightarrow> is_ws c \<or> c \<in> {squote, dquote, CHR '')'', CHR '';''}"

partial_function (option) urls_with_prefix :: "string \<Rightarrow> string \<Rightarrow> string list option" where
  "urls_with_prefix pat s =
     (case find_str pat s of
        None \<Rightarrow> Some []
      | Some start \<Rightarrow>
          let url_slice = drop start s; url = takeWhile (\<lambda>c. \<not> url_delimiter c) url_slice in
          Option.bind (urls_with_prefix pat (drop (length url) url_slice)) (\<lambda>us. Some (url # us)))"

fun urls_of_prefixes :: "string list \<Rightarrow> string \<Rightarrow> string list option" where
  "urls_of_prefixes [] sql = Some []"
| "urls_of_prefixes (p # ps) sql =
     Option.bind (urls_with_prefix p sql) (\<lambda>us. Option.bind (urls_of_prefixes ps sql) (\<lambda>vs. Some (us @ vs)))"

definition auto_register_object_stores_from_sql ::
  "'s store_lib \<Rightarrow> (string \<rightharpoonup> 's) \<Rightarrow> string \<Rightarrow> (string \<rightharpoonup> 's) option" where
  "auto_register_object_stores_from_sql S stores sql =
     map_option (foldl (\<lambda>st u. case register_object_store_for_url S st u of Inr st' \<Rightarrow> st' | Inl _ \<Rightarrow> st) stores)
       (urls_of_prefixes remote_prefixes sql)"

section \<open>Tables named by a path\<close>

datatype url_table = SqliteUrl string string | LanceUrl string string | OtherUrl string

text \<open>How a path in a query is opened; a Lance dataset is also registered under a name.\<close>

definition url_table_of :: "path_ops \<Rightarrow> string \<Rightarrow> url_table" where
  "url_table_of P url =
     (let sqlite = Option.bind (List.find (\<lambda>ext. str_contains ext url) [''.db.'', ''.sqlite.'', ''.sqlite3.''])
            (\<lambda>ext. Option.bind (find_str ext url) (\<lambda>pos.
               let table = drop (pos + length ext) url in
               if table \<noteq> [] then Some (SqliteUrl (take (pos + length ext - 1) url) table) else None))
      in case sqlite of
           Some t \<Rightarrow> t
         | None \<Rightarrow>
             if ends_with ''.lance'' url \<or> str_contains ''.lance/'' url
             then LanceUrl url (case po_file_stem P url of Some s \<Rightarrow> s | None \<Rightarrow> url)
             else OtherUrl url)"

section \<open>The context file\<close>

record local_source =
  ls_name :: string
  ls_type :: string
  ls_path :: "string option"
  ls_connection :: "string option"
  ls_options :: "(string \<rightharpoonup> string) option"
  ls_hierarchy :: hierarchy_level
  ls_access :: "string option"
  ls_description :: "string option"

record local_context =
  lc_sources :: "local_source list"
  lc_pipelines_dir :: "string option"

definition ls_is_read_write :: "local_source \<Rightarrow> bool" where
  "ls_is_read_write s \<longleftrightarrow> ls_access s \<in> {Some ''read_write'', Some ''readwrite'', Some ''rw''}"

text \<open>Reading a file, and parsing it as the \<open>kind\<close> and the body of a context.\<close>

record context_io =
  ci_read :: "string \<Rightarrow> string + string"
  ci_parse :: "string \<Rightarrow> string + string option \<times> local_context"

definition read_context_file :: "context_io \<Rightarrow> string \<Rightarrow> string + local_context" where
  "read_context_file C ctx_path =
     try_res (map_err (\<lambda>e. ''Failed to read context file: '' @ ctx_path @ '': '' @ e) (ci_read C ctx_path)) (\<lambda>content.
     try_res (map_err (\<lambda>e. ''Failed to parse context YAML: '' @ e) (ci_parse C content)) (\<lambda>(kind, spec).
     case kind of
       Some k \<Rightarrow>
         if k = ''context'' then Inr spec
         else Inl (''Expected `kind: context` in '' @ ctx_path @ '', got `kind: '' @ k @ ''`'')
     | None \<Rightarrow> Inl (''Missing `kind: context` at the root of '' @ ctx_path)))"

section \<open>Registration of the data sources\<close>

record cli_csv_options =
  cro_header :: bool
  cro_delimiter :: char
  cro_infer :: nat

text \<open>The call a source is registered with; the writable flag is an argument where it has one.\<close>

datatype registration =
  RegCsv string string cli_csv_options
| RegParquet string string
| RegJson string string
| RegPostgres string string "(string \<rightharpoonup> string) option" bool hierarchy_level
| RegMysql string string "(string \<rightharpoonup> string) option" bool hierarchy_level
| RegMongo string string "(string \<rightharpoonup> string) option"
| RegInflux string string "(string \<rightharpoonup> string) option"
| RegLance string string
| RegSqlite string string "(string \<rightharpoonup> string) option" bool hierarchy_level
| RegIceberg string string "(string \<rightharpoonup> string) option"

text \<open>
  Whether the registered provider writes: the access flag of the providers that take one; the
  MongoDB provider takes none and writes. The InfluxDB and Lance providers do not write; the CSV,
  Parquet, JSON and Iceberg tables are the engine's own and are not in question.
\<close>

fun registration_writable :: "registration \<Rightarrow> bool" where
  "registration_writable (RegPostgres _ _ _ rw _) = rw"
| "registration_writable (RegMysql _ _ _ rw _) = rw"
| "registration_writable (RegSqlite _ _ _ rw _) = rw"
| "registration_writable (RegMongo _ _ _) = True"
| "registration_writable _ = False"

text \<open>The session: its object stores and the state the registrations change.\<close>

record ('s, 't) session =
  se_stores :: "string \<rightharpoonup> 's"
  se_tables :: 't

record ('s, 't) session_ops =
  so_paths :: path_ops
  so_stores :: "'s store_lib"
  so_csv :: cli_csv_options
  so_perform :: "registration \<Rightarrow> 't \<Rightarrow> string + 't"

definition csv_options_of :: "cli_csv_options \<Rightarrow> (string \<rightharpoonup> string) option \<Rightarrow> cli_csv_options" where
  "csv_options_of defaults options =
     (case options of
        None \<Rightarrow> defaults
      | Some o' \<Rightarrow>
          let o1 = (case o' ''has_header'' of
                 Some h \<Rightarrow> defaults\<lparr>cro_header := (case parse_bool h of Some b \<Rightarrow> b | None \<Rightarrow> True)\<rparr>
               | None \<Rightarrow> defaults);
              o2 = (case o' ''delimiter'' of
                 Some (c # _) \<Rightarrow> o1\<lparr>cro_delimiter := c\<rparr> | _ \<Rightarrow> o1)
          in (case Option.bind (o' ''schema_infer_max_records'') parse_usize of
                Some n \<Rightarrow> o2\<lparr>cro_infer := n\<rparr> | None \<Rightarrow> o2))"

text \<open>A file source: its resolved path, which exists unless it is remote.\<close>

definition file_source ::
  "('s, 't) session_ops \<Rightarrow> ('s, 't) session \<Rightarrow> local_source \<Rightarrow> string \<Rightarrow> string + string \<times> ('s, 't) session" where
  "file_source Ops ses src label =
     try_res (ok_or (ls_path src) (label @ '' source '' @ [squote] @ ls_name src @ [squote] @ '': path required'')) (\<lambda>path.
     try_res (resolve_path (so_paths Ops) path) (\<lambda>resolved.
     if cli_is_remote_path resolved
     then try_res (register_object_store_for_url (so_stores Ops) (se_stores ses) resolved) (\<lambda>stores.
          Inr (resolved, ses\<lparr>se_stores := stores\<rparr>))
     else if \<not> po_exists (so_paths Ops) resolved
     then Inl (''Data source '' @ [squote] @ ls_name src @ [squote] @ '': path not found: '' @ resolved)
     else Inr (resolved, ses)))"

definition connection_of :: "local_source \<Rightarrow> string \<Rightarrow> string + string" where
  "connection_of src label =
     ok_or (ls_connection src) (label @ '' source '' @ [squote] @ ls_name src @ [squote] @ '': connection_string required'')"

definition source_path :: "local_source \<Rightarrow> string \<Rightarrow> string + string" where
  "source_path src label =
     ok_or (ls_path src) (label @ '' source '' @ [squote] @ ls_name src @ [squote] @ '': path required'')"

definition registration_of ::
  "('s, 't) session_ops \<Rightarrow> ('s, 't) session \<Rightarrow> local_source
   \<Rightarrow> string + (registration \<times> string) \<times> ('s, 't) session" where
  "registration_of Ops ses src =
     (let ty = to_lowercase (ls_type src); P = so_paths Ops in
      if ty = ''csv'' then
        try_res (file_source Ops ses src ''CSV'') (\<lambda>(path, ses').
        Inr ((RegCsv (ls_name src) path (csv_options_of (so_csv Ops) (ls_options src)), ''CSV''), ses'))
      else if ty = ''parquet'' then
        try_res (file_source Ops ses src ''Parquet'') (\<lambda>(path, ses').
        Inr ((RegParquet (ls_name src) path, ''Parquet''), ses'))
      else if ty = ''json'' \<or> ty = ''ndjson'' then
        try_res (file_source Ops ses src ''JSON'') (\<lambda>(path, ses').
        Inr ((RegJson (ls_name src) path, ''JSON''), ses'))
      else if ty = ''postgres'' then
        try_res (connection_of src ''Postgres'') (\<lambda>c.
        Inr ((RegPostgres (ls_name src) c (ls_options src) False (ls_hierarchy src), ''Postgres''), ses))
      else if ty = ''mysql'' then
        try_res (connection_of src ''MySQL'') (\<lambda>c.
        Inr ((RegMysql (ls_name src) c (ls_options src) False (ls_hierarchy src), ''MySQL''), ses))
      else if ty = ''mongo'' then
        try_res (connection_of src ''MongoDB'') (\<lambda>c. Inr ((RegMongo (ls_name src) c (ls_options src), ''MongoDB''), ses))
      else if ty = ''influxdb'' then
        try_res (connection_of src ''InfluxDB'') (\<lambda>c. Inr ((RegInflux (ls_name src) c (ls_options src), ''InfluxDB''), ses))
      else if ty = ''lance'' then
        try_res (source_path src ''Lance'') (\<lambda>path.
        try_res (resolve_path P path) (\<lambda>resolved.
        if \<not> po_exists P resolved
        then Inl (''Data source '' @ [squote] @ ls_name src @ [squote] @ '': path not found: '' @ resolved)
        else Inr ((RegLance (ls_name src) resolved, ''Lance''), ses)))
      else if ty = ''sqlite'' then
        try_res (source_path src ''SQLite'') (\<lambda>path.
        try_res (resolve_path P path) (\<lambda>resolved.
        Inr ((RegSqlite (ls_name src) resolved (ls_options src) (ls_is_read_write src) (ls_hierarchy src), ''SQLite''), ses)))
      else if ty = ''iceberg'' then
        try_res (ok_or (ls_path src) (''Iceberg source '' @ [squote] @ ls_name src @ [squote] @ '': path (warehouse) required'')) (\<lambda>path.
        Inr ((RegIceberg (ls_name src) path (ls_options src), ''Iceberg''), ses))
      else Inl (''Unsupported data source type '' @ [squote] @ ls_type src @ [squote] @ '' for source ''
                @ [squote] @ ls_name src @ [squote]))"

definition cli_register_source ::
  "('s, 't) session_ops \<Rightarrow> ('s, 't) session \<Rightarrow> local_source \<Rightarrow> string + ('s, 't) session" where
  "cli_register_source Ops ses src =
     try_res (registration_of Ops ses src) (\<lambda>((reg, label), ses').
     try_res (map_err (\<lambda>e. ''Failed to register '' @ label @ '' '' @ [squote] @ ls_name src @ [squote] @ '': '' @ e)
                (so_perform Ops reg (se_tables ses')))
       (\<lambda>tables. Inr (ses'\<lparr>se_tables := tables\<rparr>)))"

definition load_and_register_all ::
  "context_io \<Rightarrow> ('s, 't) session_ops \<Rightarrow> string \<Rightarrow> ('s, 't) session
   \<Rightarrow> string + local_context \<times> ('s, 't) session" where
  "load_and_register_all C Ops ctx_path ses =
     try_res (read_context_file C ctx_path) (\<lambda>config.
     try_res (fold_res (\<lambda>st src. map_err (\<lambda>e. ''Failed to register data source '' @ [squote] @ ls_name src @ [squote] @ '': '' @ e)
                 (cli_register_source Ops st src)) ses (lc_sources config)) (\<lambda>ses'.
     Inr (config, ses')))"

section \<open>The schema listing\<close>

record table_ref =
  tr_catalog :: string
  tr_schema :: string
  tr_table :: string

text \<open>What the session shows of its catalogs: their names, schemas, tables, and a table's columns.\<close>

record catalog_view =
  cv_names :: "string list"
  cv_catalog :: "string \<Rightarrow> string list option"
  cv_schema :: "string \<Rightarrow> string \<Rightarrow> string list option"
  cv_table :: "string \<Rightarrow> string \<Rightarrow> string \<Rightarrow> string + (string \<times> string) list option"
  cv_default_catalog :: string
  cv_default_schema :: string

definition qualified_name :: "table_ref \<Rightarrow> string" where
  "qualified_name e = tr_catalog e @ ''.'' @ tr_schema e @ ''.'' @ tr_table e"

definition in_defaults :: "catalog_view \<Rightarrow> table_ref \<Rightarrow> bool" where
  "in_defaults V e \<longleftrightarrow> tr_catalog e = cv_default_catalog V \<and> tr_schema e = cv_default_schema V"

definition display_name :: "catalog_view \<Rightarrow> table_ref \<Rightarrow> string" where
  "display_name V e = (if in_defaults V e then tr_table e else qualified_name e)"

definition SYSTEM_SCHEMAS :: "string list" where
  "SYSTEM_SCHEMAS = [''information_schema'', ''pg_catalog'']"

definition schema_tables :: "catalog_view \<Rightarrow> string \<Rightarrow> string \<Rightarrow> table_ref list" where
  "schema_tables V c s =
     (if s \<in> set SYSTEM_SCHEMAS then []
      else (case cv_schema V c s of
              None \<Rightarrow> []
            | Some ts \<Rightarrow> map (\<lambda>t. \<lparr>tr_catalog = c, tr_schema = s, tr_table = t\<rparr>) ts))"

definition enumerate_tables :: "catalog_view \<Rightarrow> table_ref list" where
  "enumerate_tables V =
     sort_key (\<lambda>e. (tr_catalog e, tr_schema e, tr_table e))
       (concat (map (\<lambda>c. case cv_catalog V c of
                           None \<Rightarrow> [] | Some ss \<Rightarrow> concat (map (schema_tables V c) ss))
          (cv_names V)))"

definition available_list :: "catalog_view \<Rightarrow> table_ref list \<Rightarrow> string" where
  "available_list V all_tables =
     (if all_tables = [] then ''(none)'' else str_join '', '' (map (display_name V) all_tables))"

text \<open>The dash and the arrow of the messages, as UTF-8.\<close>

definition em_dash :: string where
  "em_dash = [CHR 0xE2, CHR 0x80, CHR 0x94]"

definition arrow_sign :: string where
  "arrow_sign = [CHR 0xE2, CHR 0x86, CHR 0x92]"

definition table_not_found :: "catalog_view \<Rightarrow> table_ref list \<Rightarrow> string \<Rightarrow> string" where
  "table_not_found V all_tables filter_text =
     ''Table '' @ [squote] @ filter_text @ [squote] @ '' not found. Available tables: '' @ available_list V all_tables"

definition select_tables :: "catalog_view \<Rightarrow> table_ref list \<Rightarrow> string \<Rightarrow> string + table_ref list" where
  "select_tables V all_tables filter_text =
     (case str_split (CHR ''.'') filter_text of
        [c, s, t] \<Rightarrow>
          (case List.find (\<lambda>e. tr_catalog e = c \<and> tr_schema e = s \<and> tr_table e = t) all_tables of
             Some e \<Rightarrow> Inr [e]
           | None \<Rightarrow> Inl (table_not_found V all_tables filter_text))
      | [_] \<Rightarrow>
          (case filter (\<lambda>e. tr_table e = filter_text) all_tables of
             [] \<Rightarrow> Inl (table_not_found V all_tables filter_text)
           | [only] \<Rightarrow> Inr [only]
           | many \<Rightarrow> Inl (''Table name '' @ [squote] @ filter_text @ [squote] @ '' is ambiguous '' @ em_dash @ '' matches: ''
                          @ str_join '', '' (map qualified_name many)
                          @ ''. Re-run with the fully-qualified form (catalog.schema.table).''))
      | parts \<Rightarrow> Inl (''Table filter '' @ [squote] @ filter_text @ [squote]
                      @ '' must be either a bare name or fully-qualified `catalog.schema.table` (got ''
                      @ show_nat (length parts) @ '' parts).''))"

definition source_name_for :: "catalog_view \<Rightarrow> string set \<Rightarrow> table_ref \<Rightarrow> string option" where
  "source_name_for V source_names e =
     (if in_defaults V e \<and> tr_table e \<in> source_names then Some (tr_table e)
      else if tr_catalog e \<in> source_names then Some (tr_catalog e) else None)"

definition column_line :: "catalog_view \<Rightarrow> registry \<Rightarrow> string set \<Rightarrow> table_ref \<Rightarrow> string \<times> string \<Rightarrow> string" where
  "column_line V reg source_names e col =
     (case col of (name, type_text) \<Rightarrow>
        ''  '' @ name @ '': '' @ type_text
        @ (case resolve_column_description reg (tr_catalog e) (tr_schema e) (tr_table e) (source_name_for V source_names e) name of
             Some d \<Rightarrow> ''  -- '' @ d | None \<Rightarrow> []))"

definition table_lines :: "catalog_view \<Rightarrow> registry \<Rightarrow> string set \<Rightarrow> table_ref \<Rightarrow> string + string list" where
  "table_lines V reg source_names e =
     try_res (ok_or (cv_catalog V (tr_catalog e))
        (''Catalog '' @ [squote] @ tr_catalog e @ [squote] @ '' disappeared during enumeration'')) (\<lambda>_.
     try_res (ok_or (cv_schema V (tr_catalog e) (tr_schema e))
        (''Schema '' @ [squote] @ tr_catalog e @ ''.'' @ tr_schema e @ [squote] @ '' disappeared during enumeration'')) (\<lambda>_.
     try_res (map_err (\<lambda>m. ''Failed to load table '' @ [squote] @ qualified_name e @ [squote] @ '': '' @ m)
        (cv_table V (tr_catalog e) (tr_schema e) (tr_table e))) (\<lambda>table.
     try_res (ok_or table (''Table '' @ [squote] @ qualified_name e @ [squote] @ '' disappeared during enumeration'')) (\<lambda>cols.
     Inr ((''table: '' @ display_name V e
           @ (case resolve_table_description reg (tr_catalog e) (tr_schema e) (tr_table e) (source_name_for V source_names e) of
                Some d \<Rightarrow> ''  -- '' @ d | None \<Rightarrow> []))
          # map (column_line V reg source_names e) cols @ [[]])))))"

text \<open>The lines written before the first error, and the error if there is one.\<close>

fun render_entries ::
  "catalog_view \<Rightarrow> registry \<Rightarrow> string set \<Rightarrow> table_ref list \<Rightarrow> string list \<times> string option" where
  "render_entries V reg source_names [] = ([], None)"
| "render_entries V reg source_names (e # es) =
     (case table_lines V reg source_names e of
        Inl m \<Rightarrow> ([], Some m)
      | Inr ls \<Rightarrow> (let (rest, err) = render_entries V reg source_names es in (ls @ rest, err)))"

definition render_schema ::
  "catalog_view \<Rightarrow> registry \<Rightarrow> string set \<Rightarrow> string option \<Rightarrow> string list \<times> string option" where
  "render_schema V reg source_names table_filter =
     (case (case table_filter of Some t \<Rightarrow> select_tables V (enumerate_tables V) t | None \<Rightarrow> Inr (enumerate_tables V)) of
        Inl m \<Rightarrow> ([], Some m)
      | Inr selected \<Rightarrow>
          if selected = [] then ([''No tables registered.''], None)
          else render_entries V reg source_names selected)"

definition show_schema ::
  "context_io \<Rightarrow> ('s, 't) session_ops \<Rightarrow> yaml_semantics \<Rightarrow> fs \<Rightarrow> (('s, 't) session \<Rightarrow> catalog_view)
   \<Rightarrow> ('s, 't) session \<Rightarrow> string \<Rightarrow> string option \<Rightarrow> string option \<Rightarrow> string list \<times> string option" where
  "show_schema C Ops yaml fs view fresh ctx_path semantics_override table_filter =
     (case load_and_register_all C Ops ctx_path fresh of
        Inl m \<Rightarrow> ([], Some m)
      | Inr (config, ses) \<Rightarrow>
          (case resolve_semantics_source fs (po_parent (so_paths Ops) ctx_path) semantics_override of
             Inl _ \<Rightarrow> ([], Some ''Failed to resolve semantics source'')
           | Inr semantics_path \<Rightarrow>
               (case semantics_build yaml fs semantics_path
                       (map (\<lambda>ds. (ls_name ds, ls_description ds)) (lc_sources config)) of
                  Inl _ \<Rightarrow> ([], Some ''Failed to load semantics'')
                | Inr reg \<Rightarrow> render_schema (view ses) reg (set (map ls_name (lc_sources config))) table_filter)))"

section \<open>Execution\<close>

text \<open>The query engine: a new session, planning, collecting the batches, their rows, their table.\<close>

record ('s, 't, 'p, 'b) engine =
  en_session :: "('s, 't) session"
  en_plan :: "('s, 't) session \<Rightarrow> string \<Rightarrow> string + 'p"
  en_collect :: "'p \<Rightarrow> string + 'b list"
  en_rows :: "'b \<Rightarrow> nat"
  en_format :: "'b list \<Rightarrow> string + string"

definition execute_sql ::
  "('s, 't, 'p, 'b) engine \<Rightarrow> ('s, 't) session \<Rightarrow> string \<Rightarrow> string \<Rightarrow> string \<Rightarrow> string + string list" where
  "execute_sql E ses sql plan_error collect_error =
     try_res (map_err (\<lambda>e. plan_error @ '': '' @ e) (en_plan E ses sql)) (\<lambda>df.
     try_res (map_err (\<lambda>e. collect_error @ '': '' @ e) (en_collect E df)) (\<lambda>batches.
     let total_rows = sum_list (map (en_rows E) batches) in
     try_res (if total_rows > 0
              then try_res (map_err (\<lambda>e. ''Failed to format results: '' @ e) (en_format E batches)) (\<lambda>t. Inr [t])
              else Inr []) (\<lambda>ls.
     Inr (ls @ [[], show_nat total_rows @ '' row(s) returned'']))))"

text \<open>The context to load: one named explicitly has to exist.\<close>

definition ctx_to_load :: "path_ops \<Rightarrow> string option \<Rightarrow> string + string option" where
  "ctx_to_load P ctx_override =
     (case resolve_ctx_path P ctx_override of
        Some p \<Rightarrow>
          if po_exists P p then Inr (Some p)
          else if ctx_override \<noteq> None then Inl (''Context file not found: '' @ p)
          else Inr None
      | None \<Rightarrow> Inr None)"

definition load_session ::
  "context_io \<Rightarrow> ('s, 't) session_ops \<Rightarrow> string option \<Rightarrow> ('s, 't) session \<Rightarrow> string + ('s, 't) session" where
  "load_session C Ops ctx ses =
     (case ctx of
        Some p \<Rightarrow> map_sum id snd (load_and_register_all C Ops p ses)
      | None \<Rightarrow> Inr ses)"

text \<open>
  A command's outcome: \<open>None\<close> when it does not return, otherwise an error or the lines printed.
\<close>

definition query_session ::
  "('s, 't) session_ops \<Rightarrow> ('s, 't, 'p, 'b) engine \<Rightarrow> ('s, 't) session \<Rightarrow> string \<Rightarrow> string \<Rightarrow> string \<Rightarrow> string
   \<Rightarrow> (string + string list) option" where
  "query_session Ops E ses scanned sql plan_error collect_error =
     map_option (\<lambda>stores. execute_sql E (ses\<lparr>se_stores := stores\<rparr>) sql plan_error collect_error)
       (auto_register_object_stores_from_sql (so_stores Ops) (se_stores ses) scanned)"

definition cli_run_query ::
  "context_io \<Rightarrow> ('s, 't) session_ops \<Rightarrow> ('s, 't, 'p, 'b) engine \<Rightarrow> string option \<Rightarrow> string
   \<Rightarrow> (string + string list) option" where
  "cli_run_query C Ops E ctx_override sql =
     (case try_res (ctx_to_load (so_paths Ops) ctx_override) (\<lambda>ctx. load_session C Ops ctx (en_session E)) of
        Inl e \<Rightarrow> Some (Inl e)
      | Inr ses \<Rightarrow> query_session Ops E ses sql (str_trim sql) ''SQL execution failed'' ''Failed to collect results'')"

definition resolve_pipeline_dirs ::
  "path_ops \<Rightarrow> string option \<Rightarrow> local_context option \<Rightarrow> string option \<Rightarrow> string list" where
  "resolve_pipeline_dirs P override_dir ctx_cfg ctx_path =
     (case override_dir of
        Some d \<Rightarrow> [d]
      | None \<Rightarrow>
          let ctx_dir = Option.bind ctx_path (po_parent P) in
          (case Option.bind ctx_cfg lc_pipelines_dir of
             Some rel \<Rightarrow>
               [if \<not> po_is_relative P rel then rel
                else (case ctx_dir of Some d \<Rightarrow> po_join P d rel | None \<Rightarrow> rel)]
           | None \<Rightarrow>
               (case ctx_dir of
                  Some d \<Rightarrow> let conv = po_join P d ''pipelines'' in if po_is_dir P conv then [conv] else []
                | None \<Rightarrow> [])))"

definition read_ctx_cfg :: "context_io \<Rightarrow> string option \<Rightarrow> string + local_context option" where
  "read_ctx_cfg C ctx =
     (case ctx of
        Some p \<Rightarrow> try_res (read_context_file C p) (\<lambda>cfg. Inr (Some cfg))
      | None \<Rightarrow> Inr None)"

text \<open>Everything before a data source is registered: the context to load and the SQL to run.\<close>

definition prepare_pipeline ::
  "cli_lib \<Rightarrow> context_io \<Rightarrow> 'v pipeline_fs \<Rightarrow> (string list \<Rightarrow> string) \<Rightarrow> path_ops \<Rightarrow> string option \<Rightarrow> string option \<Rightarrow> string
   \<Rightarrow> (string \<rightharpoonup> scalar) \<Rightarrow> string + string option \<times> string" where
  "prepare_pipeline L C Q dbg P ctx_override pipeline_dir_override pipeline_name params =
     try_res (ctx_to_load P ctx_override) (\<lambda>ctx.
     try_res (read_ctx_cfg C ctx) (\<lambda>ctx_cfg.
     let dirs = resolve_pipeline_dirs P pipeline_dir_override ctx_cfg ctx in
     try_res (map_err (\<lambda>e. ''Failed to discover pipelines in '' @ dbg dirs @ '': '' @ e) (discover_pipelines Q dirs)) (\<lambda>pipelines.
     try_res (ok_or (pipelines pipeline_name)
        (''Pipeline '' @ [squote] @ pipeline_name @ [squote] @ '' not found. Searched: '' @ dbg dirs
         @ ''. Known pipelines: '' @ dbg (sorted_list_of_set (dom pipelines)))) (\<lambda>(path, file).
     let missing = filter (\<lambda>n. params n = None) (extract_param_names (pf_query file)) in
     if missing \<noteq> []
     then Inl (''Pipeline '' @ [squote] @ pipeline_name @ [squote] @ '' (from '' @ path
               @ '') is missing required parameter(s): '' @ str_join '', '' missing)
     else
       try_res (map_err (\<lambda>e. ''Failed to render SQL for pipeline '' @ [squote] @ pipeline_name @ [squote] @ '': '' @ e)
                  (render_sql_with_inline_params L (pf_query file) params)) (\<lambda>sql. Inr (ctx, sql))))))"

definition run_pipeline_with_params ::
  "cli_lib \<Rightarrow> context_io \<Rightarrow> 'v pipeline_fs \<Rightarrow> (string list \<Rightarrow> string) \<Rightarrow> ('s, 't) session_ops \<Rightarrow> ('s, 't, 'p, 'b) engine
   \<Rightarrow> string option \<Rightarrow> string option \<Rightarrow> string \<Rightarrow> (string \<rightharpoonup> scalar) \<Rightarrow> (string + string list) option" where
  "run_pipeline_with_params L C Q dbg Ops E ctx_override pipeline_dir_override pipeline_name params =
     (case prepare_pipeline L C Q dbg (so_paths Ops) ctx_override pipeline_dir_override pipeline_name params of
        Inl e \<Rightarrow> Some (Inl e)
      | Inr (ctx, sql) \<Rightarrow>
          (case load_session C Ops ctx (en_session E) of
             Inl e \<Rightarrow> Some (Inl e)
           | Inr ses \<Rightarrow>
               query_session Ops E ses sql sql (''Failed to plan pipeline '' @ [squote] @ pipeline_name @ [squote])
                 ''Failed to collect pipeline results''))"

definition parse_param_flags :: "cli_lib \<Rightarrow> string list \<Rightarrow> string + (string \<times> scalar) list" where
  "parse_param_flags L raw = collect_res (map (parse_param_flag L) raw)"

definition run_pipeline_by_name ::
  "cli_lib \<Rightarrow> context_io \<Rightarrow> 'v pipeline_fs \<Rightarrow> (string list \<Rightarrow> string) \<Rightarrow> ('s, 't) session_ops \<Rightarrow> ('s, 't, 'p, 'b) engine
   \<Rightarrow> string option \<Rightarrow> string option \<Rightarrow> string \<Rightarrow> string list \<Rightarrow> (string + string list) option" where
  "run_pipeline_by_name L C Q dbg Ops E ctx_override pipeline_dir_override pipeline_name raw =
     (case parse_param_flags L raw of
        Inl e \<Rightarrow> Some (Inl e)
      | Inr params \<Rightarrow>
          run_pipeline_with_params L C Q dbg Ops E ctx_override pipeline_dir_override pipeline_name
            (foldl (\<lambda>m (name, v). m(name \<mapsto> v)) Map.empty params))"

section \<open>Alias commands\<close>

text \<open>The environment of the alias commands.\<close>

record 'v alias_env =
  ae_paths :: path_ops
  ae_context :: context_io
  ae_pipelines :: "'v pipeline_fs"
  ae_yaml :: "'v alias_yaml"
  ae_write :: "string \<Rightarrow> string + unit"
  ae_print_one :: "string \<Rightarrow> alias_def \<Rightarrow> string + string"
  ae_debug :: "string \<Rightarrow> string"

definition try_load_pipeline_params ::
  "'v alias_env \<Rightarrow> string \<Rightarrow> string option \<Rightarrow> string + string list option" where
  "try_load_pipeline_params A pipeline ctx_override =
     (let P = ae_paths A;
          ctx_path = Option.bind (resolve_ctx_path P ctx_override) (\<lambda>p. if po_exists P p then Some p else None)
      in try_res (read_ctx_cfg (ae_context A) ctx_path) (\<lambda>ctx_cfg.
         let dirs = resolve_pipeline_dirs P None ctx_cfg ctx_path in
         if dirs = [] then Inr None
         else try_res (discover_pipelines (ae_pipelines A) dirs) (\<lambda>pipelines.
              Inr (map_option (\<lambda>(_, file). extract_param_names (pf_query file)) (pipelines pipeline)))))"

definition no_parameter :: "string \<Rightarrow> string list \<Rightarrow> string \<Rightarrow> string" where
  "no_parameter pipeline pipeline_params p =
     ''Pipeline '' @ [squote] @ pipeline @ [squote] @ '' has no parameter '' @ [squote] @ p @ [squote]
     @ ''. Known parameters: '' @ str_join '', '' pipeline_params"

definition validate_alias_against_pipeline ::
  "string \<Rightarrow> string list \<Rightarrow> string list \<Rightarrow> (string \<times> string) list \<Rightarrow> string + unit" where
  "validate_alias_against_pipeline pipeline pipeline_params positional defaults =
     (let check = (\<lambda>_ p. if p \<in> set pipeline_params then Inr () else Inl (no_parameter pipeline pipeline_params p))
      in try_res (fold_res check () positional) (\<lambda>_. fold_res check () (map fst defaults)))"

definition unbound_params :: "string list \<Rightarrow> string list \<Rightarrow> (string \<times> string) list \<Rightarrow> string list" where
  "unbound_params pipeline_params positional defaults =
     filter (\<lambda>p. p \<notin> set positional \<and> p \<notin> set (map fst defaults)) pipeline_params"

definition report_alias_coverage ::
  "string \<Rightarrow> string list \<Rightarrow> string list \<Rightarrow> (string \<times> string) list \<Rightarrow> string list" where
  "report_alias_coverage pipeline pipeline_params positional defaults =
     (let unbound = unbound_params pipeline_params positional defaults in
      [''Pipeline '' @ [squote] @ pipeline @ [squote] @ '' has '' @ show_nat (length pipeline_params)
       @ '' parameter(s): '' @ str_join '', '' pipeline_params]
      @ (if unbound \<noteq> []
         then [''  Unbound by this alias: '' @ str_join '', '' unbound
               @ '' (pass at call time with --name=value, or re-run `alias add --force` with --default/--positional)'']
         else []))"

definition positional_names :: "string option \<Rightarrow> string list" where
  "positional_names positional =
     (case positional of
        None \<Rightarrow> []
      | Some s \<Rightarrow> filter (\<lambda>p. p \<noteq> []) (map str_trim (str_split (CHR '','') s)))"

definition insert_default :: "(string \<times> string) list \<Rightarrow> string \<Rightarrow> string + (string \<times> string) list" where
  "insert_default m raw =
     try_res (ok_or (split_once (CHR ''='') raw) (''--default must be NAME=VALUE, got: '' @ raw)) (\<lambda>(k, v).
     if k = [] then Inl (''--default NAME must not be empty: '' @ raw) else Inr (btree_insert k v m))"

definition aliases_path_of :: "'v alias_env \<Rightarrow> string option \<Rightarrow> string option \<Rightarrow> string + string" where
  "aliases_path_of A aliases ctx =
     ok_or (resolve_aliases_path (ae_paths A) aliases ctx) ''Could not resolve aliases file path''"

text \<open>A command gives the files after it and the lines it prints; an error leaves the files.\<close>

definition alias_add ::
  "'v alias_env \<Rightarrow> string \<Rightarrow> string \<Rightarrow> string option \<Rightarrow> string list \<Rightarrow> string option \<Rightarrow> bool \<Rightarrow> string option \<Rightarrow> string option
   \<Rightarrow> (string \<rightharpoonup> string) \<Rightarrow> string + (string \<rightharpoonup> string) \<times> string list" where
  "alias_add A name pipeline positional defaults description force aliases ctx files =
     try_res (aliases_path_of A aliases ctx) (\<lambda>path.
     try_res (alias_load (ae_yaml A) files path) (\<lambda>file.
     case (if force then None else map_of (al_spec file) name) of
       Some existing \<Rightarrow>
         Inl (''Alias '' @ [squote] @ name @ [squote] @ '' already exists. Use --force to overwrite. Current target: ''
              @ ad_pipeline existing)
     | None \<Rightarrow>
         let positional_vec = positional_names positional in
         try_res (fold_res insert_default [] defaults) (\<lambda>defaults_map.
         try_res (try_load_pipeline_params A pipeline ctx) (\<lambda>params.
         try_res (case params of
                    Some ps \<Rightarrow>
                      try_res (validate_alias_against_pipeline pipeline ps positional_vec defaults_map) (\<lambda>_.
                      Inr (report_alias_coverage pipeline ps positional_vec defaults_map))
                  | None \<Rightarrow>
                      Inr [''note: pipeline '' @ [squote] @ pipeline @ [squote]
                           @ '' not found in `pipelines_dir` '' @ em_dash @ '' saving alias without param validation. ''
                           @ ''Once the pipeline is on disk, re-run `alias show '' @ name @ ''` to confirm bindings.'']) (\<lambda>notes.
         let new_def = \<lparr>ad_pipeline = pipeline, ad_positional = positional_vec, ad_defaults = defaults_map,
                        ad_description = description\<rparr>
         in try_res (alias_save (ae_yaml A) (ae_write A) files path (file\<lparr>al_spec := btree_insert name new_def (al_spec file)\<rparr>)) (\<lambda>files'.
            Inr (files', notes @ [''Alias '' @ [squote] @ name @ [squote] @ '' '' @ arrow_sign @ '' pipeline ''
                                  @ [squote] @ pipeline @ [squote] @ '' saved to '' @ path])))))))"

definition alias_list ::
  "'v alias_env \<Rightarrow> string option \<Rightarrow> string option \<Rightarrow> (string \<rightharpoonup> string) \<Rightarrow> string + string list" where
  "alias_list A aliases ctx files =
     try_res (aliases_path_of A aliases ctx) (\<lambda>path.
     try_res (alias_load (ae_yaml A) files path) (\<lambda>file.
     if al_spec file = [] then Inr [''No aliases defined (file: '' @ path @ '')'']
     else
       Inr ((''Aliases from '' @ path @ '':'')
            # map (\<lambda>(name, d).
                let desc = (case ad_description d of Some t \<Rightarrow> t | None \<Rightarrow> [])
                in ''  '' @ pad_right 12 name @ '' '' @ arrow_sign @ '' run '' @ ad_pipeline d
                   @ (if desc = [] then [] else ''  '' @ em_dash @ '' '') @ desc) (al_spec file))))"

fun position_of :: "string \<Rightarrow> string list \<Rightarrow> nat option" where
  "position_of x [] = None"
| "position_of x (y # ys) = (if x = y then Some 0 else map_option Suc (position_of x ys))"

definition annotate_alias_bindings :: "(string \<Rightarrow> string) \<Rightarrow> alias_def \<Rightarrow> string list \<Rightarrow> (string \<times> string) list" where
  "annotate_alias_bindings dbg alias pipeline_params =
     map (\<lambda>p. (p,
        case position_of p (ad_positional alias) of
          Some idx \<Rightarrow> ''positional['' @ show_nat idx @ '']''
        | None \<Rightarrow>
            (case map_of (ad_defaults alias) p of
               Some v \<Rightarrow> ''default: '' @ dbg v
             | None \<Rightarrow> ''flag-only (pass --'' @ p @ ''=VALUE at call time)''))) pipeline_params"

definition params_width :: "string list \<Rightarrow> nat" where
  "params_width ps = fold max (map length ps) 0"

definition alias_show ::
  "'v alias_env \<Rightarrow> string \<Rightarrow> string option \<Rightarrow> string option \<Rightarrow> (string \<rightharpoonup> string) \<Rightarrow> string + string list" where
  "alias_show A name aliases ctx files =
     try_res (aliases_path_of A aliases ctx) (\<lambda>path.
     try_res (alias_load (ae_yaml A) files path) (\<lambda>file.
     try_res (ok_or (map_of (al_spec file) name) (''Alias '' @ [squote] @ name @ [squote] @ '' not found in '' @ path)) (\<lambda>d.
     try_res (map_err (\<lambda>e. ''Failed to render alias to YAML: '' @ e) (ae_print_one A name d)) (\<lambda>yaml.
     try_res (try_load_pipeline_params A (ad_pipeline d) ctx) (\<lambda>params.
     Inr (yaml
          # (case params of
               None \<Rightarrow> []
             | Some ps \<Rightarrow>
                 [[], ''Pipeline '' @ [squote] @ ad_pipeline d @ [squote] @ '' has '' @ show_nat (length ps) @ '' parameter(s):'']
                 @ map (\<lambda>(param, note). ''  '' @ pad_right (params_width ps) param @ ''  '' @ note)
                     (annotate_alias_bindings (ae_debug A) d ps))))))))"

definition alias_remove ::
  "'v alias_env \<Rightarrow> string \<Rightarrow> string option \<Rightarrow> string option \<Rightarrow> (string \<rightharpoonup> string)
   \<Rightarrow> string + (string \<rightharpoonup> string) \<times> string list" where
  "alias_remove A name aliases ctx files =
     try_res (aliases_path_of A aliases ctx) (\<lambda>path.
     try_res (alias_load (ae_yaml A) files path) (\<lambda>file.
     if map_of (al_spec file) name = None
     then Inl (''Alias '' @ [squote] @ name @ [squote] @ '' not found in '' @ path)
     else try_res (alias_save (ae_yaml A) (ae_write A) files path (file\<lparr>al_spec := btree_remove name (al_spec file)\<rparr>)) (\<lambda>files'.
          Inr (files', [''Alias '' @ [squote] @ name @ [squote] @ '' removed from '' @ path]))))"

definition print_alias_help :: "(string \<Rightarrow> string) \<Rightarrow> string \<Rightarrow> alias_def \<Rightarrow> string list option \<Rightarrow> string list" where
  "print_alias_help dbg alias_name d pipeline_params =
     (''skardi '' @ alias_name @ '' '' @ em_dash @ '' runs pipeline `'' @ ad_pipeline d @ ''`'')
     # (case ad_description d of Some desc \<Rightarrow> [[], desc] | None \<Rightarrow> [])
     @ [[]]
     @ (if ad_positional d = [] then [''Positional args: (none)'']
        else ''Positional args:''
             # map (\<lambda>(i, p). ''  <'' @ p @ ''>   binds pipeline param `'' @ p @ ''` (positional['' @ show_nat i @ ''])'')
                 (zip [0..<length (ad_positional d)] (ad_positional d)))
     @ (case pipeline_params of
          None \<Rightarrow> []
        | Some params \<Rightarrow>
            [[], ''Pipeline params (override at call time with --name=VALUE):'']
            @ map (\<lambda>p. ''  --'' @ pad_right (params_width params) p @ ''  ''
                @ (case position_of p (ad_positional d) of
                     Some idx \<Rightarrow> ''bound positionally (positional['' @ show_nat idx @ ''])''
                   | None \<Rightarrow> (case map_of (ad_defaults d) p of
                                Some v \<Rightarrow> ''default: '' @ dbg v | None \<Rightarrow> ''required at call time''))) params)
     @ [[], ''Control flags:'',
        ''  --ctx <PATH>       Context YAML (SKARDICONFIG env / ~/.skardi/config/ctx.yaml)'',
        ''  --aliases <PATH>   Override aliases file'',
        ''  --pipeline-dir <DIR>  Override pipeline discovery directory'', [],
        ''Example: skardi '' @ alias_name @ concat (map (\<lambda>p. '' <'' @ p @ ''>'') (ad_positional d))
        @ concat (map (\<lambda>p. '' --'' @ p @ ''=...'')
            (unbound_params (case pipeline_params of Some ps \<Rightarrow> ps | None \<Rightarrow> []) (ad_positional d) (ad_defaults d)))]"

section \<open>The command of an alias\<close>

definition run_external ::
  "cli_lib \<Rightarrow> (string list \<Rightarrow> string) \<Rightarrow> ('s, 't) session_ops \<Rightarrow> ('s, 't, 'p, 'b) engine \<Rightarrow> 'v alias_env
   \<Rightarrow> (string \<rightharpoonup> string) \<Rightarrow> string list \<Rightarrow> (string + string list) option" where
  "run_external L dbg Ops E A files args =
     (case args of
        [] \<Rightarrow> Some (Inl ''No subcommand provided'')
      | alias_name # rest \<Rightarrow>
          let (cf, alias_args) = split_control_flags rest no_control_flags [];
              P = ae_paths A;
              aliases_path = resolve_aliases_path P (cf_aliases cf)
                (case cf_ctx cf of Some c \<Rightarrow> Some c | None \<Rightarrow> resolve_ctx_path P None)
          in
          (case (case aliases_path of
                   Some p \<Rightarrow> map_sum id al_spec (alias_load (ae_yaml A) files p) | None \<Rightarrow> Inr []) of
             Inl e \<Rightarrow> Some (Inl e)
           | Inr alias_map \<Rightarrow>
               (case map_of alias_map alias_name of
                  None \<Rightarrow> Some (Inl (''Unknown command or alias '' @ [squote] @ alias_name @ [squote]
                                    @ ''. Run `skardi alias list` to see available aliases.''))
                | Some d \<Rightarrow>
                    if ''--help'' \<in> set alias_args \<or> ''-h'' \<in> set alias_args
                    then Some (try_res (try_load_pipeline_params A (ad_pipeline d) (cf_ctx cf)) (\<lambda>ps.
                           Inr (print_alias_help (ae_debug A) alias_name d ps)))
                    else (case resolve_alias L d alias_args of
                            Inl e \<Rightarrow> Some (Inl e)
                          | Inr r \<Rightarrow>
                              run_pipeline_with_params L (ae_context A) (ae_pipelines A) dbg Ops E (cf_ctx cf)
                                (cf_pipeline_dir cf) (ra_pipeline r) (ra_params r)))))"

section \<open>The commands\<close>

datatype alias_cmd =
  AliasAdd string string "string option" "string list" "string option" bool "string option" "string option"
| AliasList "string option" "string option"
| AliasShow string "string option" "string option"
| AliasRemove string "string option" "string option"

datatype command =
  QueryCommand "string option" bool bool "string option" "string option" "string option" "string option"
| RunCommand string "string list" "string option" "string option"
| AliasCommand alias_cmd
| JobCommand job_cmd
| ExternalCommand "string list"

record ('s, 't, 'p, 'b, 'v) client =
  ct_lib :: cli_lib
  ct_http :: http_lib
  ct_session :: "('s, 't) session_ops"
  ct_engine :: "('s, 't, 'p, 'b) engine"
  ct_alias :: "'v alias_env"
  ct_view :: "('s, 't) session \<Rightarrow> catalog_view"
  ct_semantics :: yaml_semantics
  ct_fs :: fs
  ct_debug :: "string list \<Rightarrow> string"

text \<open>The files after a command, the lines it printed and its error, if it failed.\<close>

type_synonym outcome = "(string \<rightharpoonup> string) \<times> string list \<times> string option"

definition printed :: "(string \<rightharpoonup> string) \<Rightarrow> string + string list \<Rightarrow> outcome" where
  "printed files r = (case r of Inr ls \<Rightarrow> (files, ls, None) | Inl e \<Rightarrow> (files, [], Some e))"

definition handle_alias_cmd :: "'v alias_env \<Rightarrow> (string \<rightharpoonup> string) \<Rightarrow> alias_cmd \<Rightarrow> outcome" where
  "handle_alias_cmd A files cmd =
     (let changed = (\<lambda>r. case r of Inr (files', ls) \<Rightarrow> (files', ls, None) | Inl e \<Rightarrow> (files, [], Some e)) in
      case cmd of
        AliasAdd name pipeline positional defaults description force aliases ctx \<Rightarrow>
          changed (alias_add A name pipeline positional defaults description force aliases ctx files)
      | AliasList aliases ctx \<Rightarrow> printed files (alias_list A aliases ctx files)
      | AliasShow name aliases ctx \<Rightarrow> printed files (alias_show A name aliases ctx files)
      | AliasRemove name aliases ctx \<Rightarrow> changed (alias_remove A name aliases ctx files))"

definition query_text :: "context_io \<Rightarrow> string option \<Rightarrow> string option \<Rightarrow> string + string" where
  "query_text C file sql =
     (case file of
        Some path \<Rightarrow> map_err (\<lambda>e. ''Failed to read SQL file: '' @ path @ '': '' @ e) (ci_read C path)
      | None \<Rightarrow> ok_or sql ''Provide --sql or --file with the query to execute'')"

definition run_command ::
  "('s, 't, 'p, 'b, 'v) client \<Rightarrow> (string \<rightharpoonup> string) \<Rightarrow> command \<Rightarrow> outcome option" where
  "run_command K files cmd =
     (let C = ae_context (ct_alias K); Ops = ct_session K; fail = (\<lambda>m. Some (files, [], Some m)) in
      case cmd of
        QueryCommand ctx schema all_tables table sql file semantics \<Rightarrow>
          if schema then
            if all_tables \<and> table \<noteq> None then fail ''Use either --all or -t TABLE, not both''
            else if \<not> all_tables \<and> table = None then fail ''With --schema, provide --all or -t TABLE''
            else (case resolve_ctx_path (so_paths Ops) ctx of
                    None \<Rightarrow> fail ''Could not resolve a ctx path (no --ctx, no SKARDICONFIG, no home directory)''
                  | Some ctx_path \<Rightarrow>
                      Some (files, show_schema C Ops (ct_semantics K) (ct_fs K) (ct_view K) (en_session (ct_engine K)) ctx_path
                        semantics (if all_tables then None else table)))
          else
            (case query_text C file sql of
               Inl m \<Rightarrow> fail m
             | Inr q \<Rightarrow> map_option (printed files) (cli_run_query C Ops (ct_engine K) ctx q))
      | RunCommand pipeline params ctx pipeline_dir \<Rightarrow>
          map_option (printed files)
            (run_pipeline_by_name (ct_lib K) C (ae_pipelines (ct_alias K)) (ct_debug K) Ops (ct_engine K) ctx pipeline_dir
               pipeline params)
      | AliasCommand c \<Rightarrow> Some (handle_alias_cmd (ct_alias K) files c)
      | JobCommand c \<Rightarrow>
          Some (printed files (handle_job_cmd (ct_lib K) (ct_http K) (po_env (so_paths Ops)) c))
      | ExternalCommand args \<Rightarrow>
          map_option (printed files)
            (run_external (ct_lib K) (ct_debug K) Ops (ct_engine K) (ct_alias K) files args))"

text \<open>The functions a new session offers, for the features the client is built with.\<close>

definition new_session_functions :: "string set \<Rightarrow> string list" where
  "new_session_functions features =
     [''lance_knn'', ''lance_fts'', ''pg_knn'', ''pg_fts'', ''mongo_fts'', ''sqlite_knn'', ''sqlite_fts'', ''vec_to_binary'']
     @ (if ''onnx'' \<in> features then [''onnx_predict''] else [])
     @ (if ''remote-embed'' \<in> features then [''remote_embed''] else [])
     @ (if ''gguf'' \<in> features then [''gguf''] else [])
     @ (if ''candle'' \<in> features then [''candle''] else [])
     @ (if ''chunking'' \<in> features then [''chunk''] else [])"

section \<open>The scan of a query ends\<close>

text \<open>The words of a query: its parts between delimiters; and the URL of a word, if it has one.\<close>

fun url_words :: "string \<Rightarrow> string list" where
  "url_words [] = [[]]"
| "url_words (c # cs) =
     (if url_delimiter c then [] # url_words cs else (c # hd (url_words cs)) # tl (url_words cs))"

definition url_in_word :: "string \<Rightarrow> string \<Rightarrow> string list" where
  "url_in_word p w = (case find_str p w of None \<Rightarrow> [] | Some i \<Rightarrow> [drop i w])"

definition url_prefix :: "string \<Rightarrow> bool" where
  "url_prefix p \<longleftrightarrow> p \<noteq> [] \<and> list_all (\<lambda>c. \<not> url_delimiter c) p"

lemma url_words_word: "list_all (\<lambda>c. \<not> url_delimiter c) w \<Longrightarrow> url_words w = [w]"
  by (induction w) auto

lemma url_words_append:
  "list_all (\<lambda>c. \<not> url_delimiter c) w \<Longrightarrow> url_delimiter d \<Longrightarrow> url_words (w @ d # s) = w # url_words s"
  by (induction w) auto

lemma find_str_Nil: "p \<noteq> [] \<Longrightarrow> find_str p [] = None"
  by (subst find_str.simps) (auto simp: starts_with_iff)

lemma find_str_Cons: "find_str p (c # s) = (if starts_with p (c # s) then Some 0 else map_option Suc (find_str p s))"
  by (subst find_str.simps) simp

lemma find_str_Some: "p \<noteq> [] \<Longrightarrow> find_str p s = Some i \<Longrightarrow> starts_with p (drop i s)"
proof (induction s arbitrary: i)
  case (Cons c s)
  then show ?case by (auto simp: find_str_Cons split: if_splits)
qed (simp add: find_str_Nil)

lemma find_str_extend: "p \<noteq> [] \<Longrightarrow> find_str p w = Some i \<Longrightarrow> find_str p (w @ t) = Some i"
proof (induction w arbitrary: i)
  case (Cons c w)
  show ?case
  proof (cases "starts_with p (c # w)")
    case True
    with Cons.prems have "i = 0" by (simp add: find_str_Cons)
    moreover obtain r where "c # w = p @ r" using True by (auto simp: starts_with_iff)
    then have "c # w @ t = p @ r @ t" by (metis append_Cons append_assoc)
    then have "starts_with p (c # w @ t)" by (simp only: starts_with_iff) blast
    ultimately show ?thesis by (simp add: find_str_Cons)
  next
    case False
    with Cons.prems obtain j where j: "find_str p w = Some j" "i = Suc j" by (auto simp: find_str_Cons)
    from find_str_Some [OF Cons.prems(1) j(1)] obtain r where r: "drop j w = p @ r" by (auto simp: starts_with_iff)
    have "length p \<le> length w" using arg_cong [OF r, of length] by simp
    then have "starts_with p (c # w @ t) \<Longrightarrow> starts_with p (c # w)"
      by (auto simp: starts_with_iff append_eq_append_conv2 Cons_eq_append_conv)
    with False have "\<not> starts_with p (c # w @ t)" by blast
    with Cons.IH [OF Cons.prems(1) j(1)] j(2) show ?thesis by (simp add: find_str_Cons)
  qed
qed (simp add: find_str_Nil)

lemma starts_with_word: "list_all (\<lambda>c. \<not> url_delimiter c) p \<Longrightarrow> url_delimiter d \<Longrightarrow> starts_with p (w @ d # s) \<Longrightarrow> starts_with p w"
proof (induction p w rule: list_induct2')
  case (2 c p)
  then show ?case by (auto simp: starts_with_iff)
qed (auto simp: starts_with_iff)

lemma find_str_skip:
  assumes "url_prefix p" and "url_delimiter d" and "find_str p w = None"
  shows "find_str p (w @ d # s) = map_option ((+) (Suc (length w))) (find_str p s)"
  using assms(3)
proof (induction w)
  case Nil
  have "\<not> starts_with p (d # s)" using starts_with_word [of p d "[]" s] assms(1,2) by (auto simp: url_prefix_def starts_with_iff)
  then show ?case by (simp add: find_str_Cons option.map_comp comp_def cong: map_option_cong)
next
  case (Cons c w)
  then have "\<not> starts_with p (c # w)" "find_str p w = None" by (auto simp: find_str_Cons split: if_splits)
  moreover from this have "\<not> starts_with p (c # w @ d # s)"
    using starts_with_word [of p d "c # w" s] assms(1,2) by (auto simp: url_prefix_def)
  ultimately show ?case using Cons.IH by (simp add: find_str_Cons option.map_comp comp_def)
qed

lemma urls_none: "find_str p s = None \<Longrightarrow> urls_with_prefix p s = Some []"
  by (subst urls_with_prefix.simps) simp

lemma urls_skip:
  assumes "url_prefix p" and "url_delimiter d" and "find_str p w = None"
  shows "urls_with_prefix p (w @ d # s) = urls_with_prefix p s"
proof (cases "find_str p s")
  case None
  then show ?thesis using find_str_skip [OF assms, of s] by (simp add: urls_none)
next
  case (Some j)
  then have "find_str p (w @ d # s) = Some (Suc (length w + j))" using find_str_skip [OF assms, of s] by simp
  then show ?thesis using Some by (subst (1 2) urls_with_prefix.simps) simp
qed

lemma urls_found:
  assumes "p \<noteq> []" and "find_str p w = Some i" and "list_all (\<lambda>c. \<not> url_delimiter c) w"
    and "t = [] \<or> url_delimiter (hd t)"
  shows "urls_with_prefix p (w @ t) = Option.bind (urls_with_prefix p t) (\<lambda>us. Some (drop i w # us))"
proof -
  have "i \<le> length w" using find_str_Some [OF assms(1,2)] assms(1) by (auto simp: starts_with_iff intro: ccontr)
  then have "drop i (w @ t) = drop i w @ t" by simp
  moreover have "takeWhile (\<lambda>c. \<not> url_delimiter c) (drop i w @ t) = drop i w"
    using assms(3,4) by (cases t) (auto simp: takeWhile_append list_all_iff dest: in_set_dropD)
  ultimately show ?thesis
    using find_str_extend [OF assms(1,2), of t] by (subst urls_with_prefix.simps) simp
qed

lemma urls_of_words:
  assumes "url_prefix p"
  shows "urls_with_prefix p s = Some (concat (map (url_in_word p) (url_words s)))"
proof (induction s rule: length_induct)
  case (1 s)
  define w where "w = takeWhile (\<lambda>c. \<not> url_delimiter c) s"
  have w: "list_all (\<lambda>c. \<not> url_delimiter c) w" unfolding w_def by (metis list_all_iff set_takeWhileD)
  have ne: "p \<noteq> []" using assms by (simp add: url_prefix_def)
  show ?case
  proof (cases "dropWhile (\<lambda>c. \<not> url_delimiter c) s")
    case Nil
    then have "s = w" unfolding w_def by (metis append_Nil2 takeWhile_dropWhile_id)
    moreover have "urls_with_prefix p w = Some (url_in_word p w)"
      using urls_found [OF ne _ w, of _ "[]"] urls_none [OF find_str_Nil [OF ne]]
      by (cases "find_str p w") (auto simp: url_in_word_def urls_none)
    ultimately show ?thesis using w by (simp add: url_words_word)
  next
    case (Cons d rest)
    then have s: "s = w @ d # rest" using takeWhile_dropWhile_id [of "\<lambda>c. \<not> url_delimiter c" s] by (simp add: w_def)
    have d: "url_delimiter d" using Cons by (metis dropWhile_eq_Cons_conv)
    have IH: "urls_with_prefix p rest = Some (concat (map (url_in_word p) (url_words rest)))" using 1 s by simp
    have "urls_with_prefix p (w @ d # rest) = Some (url_in_word p w @ concat (map (url_in_word p) (url_words rest)))"
    proof (cases "find_str p w")
      case None
      then show ?thesis using urls_skip [OF assms d None] IH by (simp add: url_in_word_def)
    next
      case (Some i)
      then show ?thesis
        using urls_found [OF ne Some w, of "d # rest"] urls_skip [OF assms d, of "[]"] find_str_Nil [OF ne] d IH
        by (simp add: url_in_word_def)
    qed
    then show ?thesis using w d by (simp add: s url_words_append)
  qed
qed

lemma remote_prefixes_are_words: "p \<in> set remote_prefixes \<Longrightarrow> url_prefix p"
proof -
  have "list_all url_prefix remote_prefixes" by code_simp
  then show "p \<in> set remote_prefixes \<Longrightarrow> url_prefix p" by (simp add: list_all_iff)
qed

lemma urls_of_prefixes_words:
  "(\<And>p. p \<in> set ps \<Longrightarrow> url_prefix p) \<Longrightarrow>
   urls_of_prefixes ps s = Some (concat (map (\<lambda>p. concat (map (url_in_word p) (url_words s))) ps))"
  by (induction ps) (auto simp: urls_of_words)

lemma auto_register_returns: "auto_register_object_stores_from_sql S stores sql \<noteq> None"
  using urls_of_prefixes_words [OF remote_prefixes_are_words, where s = sql]
  by (simp add: auto_register_object_stores_from_sql_def)

lemma ex_eq_not_None: "(\<exists>r. x = Some r) \<longleftrightarrow> x \<noteq> None"
  by auto

text \<open>
  C31. The client always answers: the scan of a query for URLs ends and finds, for each prefix, the
  tail of every word that contains it; so every command ends with an error or with lines to print.
\<close>

theorem client_commands_return:
  "urls_of_prefixes remote_prefixes sql =
     Some (concat (map (\<lambda>p. concat (map (url_in_word p) (url_words sql))) remote_prefixes))
   \<and> run_command K files cmd \<noteq> None"
proof
  show "urls_of_prefixes remote_prefixes sql =
      Some (concat (map (\<lambda>p. concat (map (url_in_word p) (url_words sql))) remote_prefixes))"
    by (rule urls_of_prefixes_words [OF remote_prefixes_are_words])
  have q: "\<exists>r. query_session Ops E ses scanned q e1 e2 = Some r" for Ops and E :: "('a, 'b, 'c, 'd) engine" and ses scanned q e1 e2
    using auto_register_returns [of "so_stores Ops" "se_stores ses" scanned] by (auto simp: query_session_def)
  have query: "\<exists>r. cli_run_query C Ops E ctx q = Some r" for C Ops and E :: "('a, 'b, 'c, 'd) engine" and ctx q
    using q by (auto simp: cli_run_query_def split: sum.split)
  have run: "\<exists>r. run_pipeline_with_params L C Q dbg Ops E ctx dir n ps = Some r"
    for L C Q dbg Ops and E :: "('a, 'b, 'c, 'd) engine" and ctx dir n ps
    using q by (auto simp: run_pipeline_with_params_def split: sum.split)
  have by_name: "\<exists>r. run_pipeline_by_name L C Q dbg Ops E ctx dir n raw = Some r"
    for L C Q dbg Ops and E :: "('a, 'b, 'c, 'd) engine" and ctx dir n raw
    using run by (auto simp: run_pipeline_by_name_def split: sum.split)
  have external: "\<exists>r. run_external L dbg Ops E A files args = Some r"
    for L dbg Ops and E :: "('a, 'b, 'c, 'd) engine" and A files args
    using run by (auto simp: run_external_def Let_def split: list.split prod.split sum.split option.split)
  show "run_command K files cmd \<noteq> None"
    using query by_name external
    by (cases cmd) (simp_all add: run_command_def Let_def ex_eq_not_None split: option.split sum.split del: not_None_eq)
qed

section \<open>Write access\<close>

lemma fold_res_steps: "(\<And>s x. x \<in> set xs \<Longrightarrow> f s x = g s x) \<Longrightarrow> fold_res f s xs = fold_res g s xs"
  by (induction xs arbitrary: s) (auto simp: try_res_def split: sum.splits)

lemma writable_registration:
  assumes "registration_of Ops ses src = Inr ((reg, label), ses')" and "registration_writable reg"
  shows "to_lowercase (ls_type src) = ''sqlite'' \<and> ls_is_read_write src \<or> to_lowercase (ls_type src) = ''mongo''"
proof -
  from assms(1) have "(\<exists>n p o' h. reg = RegSqlite n p o' (ls_is_read_write src) h) \<and> to_lowercase (ls_type src) = ''sqlite''
      \<or> to_lowercase (ls_type src) = ''mongo'' \<or> \<not> registration_writable reg"
    unfolding registration_of_def Let_def by (auto simp: res_simps split: if_split_asm)
  with assms(2) show ?thesis by auto
qed

lemma registration_ignores_perform: "registration_of (Ops\<lparr>so_perform := f\<rparr>) st src = registration_of Ops st src"
proof -
  have parts: "so_paths (Ops\<lparr>so_perform := f\<rparr>) = so_paths Ops" "so_csv (Ops\<lparr>so_perform := f\<rparr>) = so_csv Ops"
    "so_stores (Ops\<lparr>so_perform := f\<rparr>) = so_stores Ops"
    by simp_all
  have files: "file_source (Ops\<lparr>so_perform := f\<rparr>) st src l = file_source Ops st src l" for l
    by (simp only: file_source_def parts)
  show ?thesis by (simp only: registration_of_def parts files)
qed

text \<open>
  C32. Which tables a context makes writable: a registration with one of the providers that write
  (Postgres, MySQL, SQLite and MongoDB) is made writable only for a SQLite source that asks for
  write access and for a MongoDB source. If the context has neither, loading it gives the same
  result with every writable registration refused; Postgres and MySQL sources are read-only in the
  client whatever they ask for.
\<close>

theorem only_sqlite_and_mongo_are_writable:
  assumes "\<And>src. src \<in> set (lc_sources config) \<Longrightarrow>
      \<not> (to_lowercase (ls_type src) = ''sqlite'' \<and> ls_is_read_write src) \<and> to_lowercase (ls_type src) \<noteq> ''mongo''"
    and "read_context_file C path = Inr config"
  shows "load_and_register_all C Ops path ses =
    load_and_register_all C (Ops\<lparr>so_perform := (\<lambda>reg t. if registration_writable reg then Inl ''refused'' else so_perform Ops reg t)\<rparr>) path ses"
proof -
  let ?Ops = "Ops\<lparr>so_perform := (\<lambda>reg t. if registration_writable reg then Inl ''refused'' else so_perform Ops reg t)\<rparr>"
  have same: "registration_of ?Ops st src = registration_of Ops st src" for st src
    by (rule registration_ignores_perform)
  have "cli_register_source ?Ops st src = cli_register_source Ops st src" if "src \<in> set (lc_sources config)" for st src
  proof (cases "registration_of Ops st src")
    case (Inr r)
    obtain reg label st' where r: "r = ((reg, label), st')" by (metis surj_pair)
    have "\<not> registration_writable reg"
      using writable_registration [of Ops st src reg label st'] assms(1) [OF that] Inr r by auto
    with Inr r same show ?thesis by (simp add: cli_register_source_def)
  qed (simp add: cli_register_source_def same)
  then have "fold_res (\<lambda>st src. map_err (e src) (cli_register_source ?Ops st src)) st (lc_sources config) =
      fold_res (\<lambda>st src. map_err (e src) (cli_register_source Ops st src)) st (lc_sources config)" for st and e :: "local_source \<Rightarrow> string \<Rightarrow> string"
    by (intro fold_res_steps) simp
  then show ?thesis using assms(2) by (simp add: load_and_register_all_def)
qed

text \<open>A MongoDB source is registered writable whatever access mode it declares.\<close>

theorem mongo_ignores_the_access_mode:
  assumes "to_lowercase (ls_type src) = ''mongo''" and "ls_connection src = Some c"
  shows "registration_of Ops ses (src\<lparr>ls_access := access\<rparr>) =
      Inr ((RegMongo (ls_name src) c (ls_options src), ''MongoDB''), ses)
    \<and> registration_writable (RegMongo (ls_name src) c (ls_options src))"
  using assms by (simp add: registration_of_def connection_of_def)

theorem mongo_ignores_the_access_mode_witness:
  "registration_writable (RegMongo ''m'' ''mongodb://h'' None)"
proof -
  let ?src = "\<lparr>ls_name = ''m'', ls_type = ''mongo'', ls_path = None, ls_connection = Some ''mongodb://h'',
    ls_options = None, ls_hierarchy = CatalogLevel, ls_access = None, ls_description = None\<rparr>"
  have "to_lowercase (ls_type ?src) = ''mongo''" by code_simp
  from mongo_ignores_the_access_mode [OF this, of "''mongodb://h''"] show ?thesis by simp
qed

text \<open>A session whose tables are the registrations performed.\<close>

definition demo_paths :: path_ops where
  "demo_paths =
     \<lparr>po_env = Map.empty, po_home = None, po_is_dir = (\<lambda>_. False), po_parent = (\<lambda>_. None),
      po_join = (\<lambda>d n. d @ ''/'' @ n), po_exists = (\<lambda>p. p = ''c.yaml''), po_is_relative = (\<lambda>_. False),
      po_cwd = Inr ''/'', po_file_stem = (\<lambda>_. None)\<rparr>"

definition demo_session_ops :: "(unit, registration list) session_ops" where
  "demo_session_ops =
     \<lparr>so_paths = demo_paths,
      so_stores = \<lparr>st_url = (\<lambda>u. Inl u), st_check = (\<lambda>_. Inr ()), st_build = (\<lambda>_. Inr ())\<rparr>,
      so_csv = \<lparr>cro_header = True, cro_delimiter = CHR '','', cro_infer = 1000\<rparr>,
      so_perform = (\<lambda>reg t. Inr (t @ [reg]))\<rparr>"

definition demo_local_source :: "string option \<Rightarrow> local_source" where
  "demo_local_source access =
     \<lparr>ls_name = ''wiki'', ls_type = ''SQLite'', ls_path = Some ''/w.db'', ls_connection = None, ls_options = None,
      ls_hierarchy = CatalogLevel, ls_access = access, ls_description = None\<rparr>"

definition demo_context_io :: "string option \<Rightarrow> context_io" where
  "demo_context_io access =
     \<lparr>ci_read = (\<lambda>p. if p = ''c.yaml'' then Inr [] else Inl ''none''),
      ci_parse = (\<lambda>_. Inr (Some ''context'', \<lparr>lc_sources = [demo_local_source access], lc_pipelines_dir = None\<rparr>))\<rparr>"

lemma demo_load:
  "load_and_register_all (demo_context_io access) (demo_session_ops\<lparr>so_perform := f\<rparr>) ''c.yaml'' ses =
   try_res (map_err (\<lambda>e. ''Failed to register data source '' @ [squote] @ ''wiki'' @ [squote] @ '': '' @
       ''Failed to register SQLite '' @ [squote] @ ''wiki'' @ [squote] @ '': '' @ e)
     (f (RegSqlite ''wiki'' ''/w.db'' None (ls_is_read_write (demo_local_source access)) CatalogLevel) (se_tables ses)))
   (\<lambda>t. Inr (\<lparr>lc_sources = [demo_local_source access], lc_pipelines_dir = None\<rparr>, ses\<lparr>se_tables := t\<rparr>))"
proof -
  let ?Ops = "demo_session_ops\<lparr>so_perform := f\<rparr>"
  have low: "to_lowercase ''SQLite'' = ''sqlite''" by code_simp
  have local_path: "resolve_path demo_paths ''/w.db'' = Inr ''/w.db''"
    by (simp add: resolve_path_def demo_paths_def cli_is_remote_path_def remote_prefixes_def starts_with_def)
  have reg: "registration_of demo_session_ops ses (demo_local_source access) =
      Inr ((RegSqlite ''wiki'' ''/w.db'' None (ls_is_read_write (demo_local_source access)) CatalogLevel, ''SQLite''), ses)"
    by (simp add: registration_of_def demo_local_source_def low source_path_def demo_session_ops_def local_path Let_def)
  have name: "ls_name (demo_local_source access) = ''wiki''" by (simp add: demo_local_source_def)
  have read: "read_context_file (demo_context_io access) ''c.yaml'' =
      Inr \<lparr>lc_sources = [demo_local_source access], lc_pipelines_dir = None\<rparr>"
    by (simp add: read_context_file_def demo_context_io_def)
  show ?thesis
    unfolding load_and_register_all_def read
    by (simp add: cli_register_source_def registration_ignores_perform reg name)
      (cases "f (RegSqlite ''wiki'' ''/w.db'' None (ls_is_read_write (demo_local_source access)) CatalogLevel) (se_tables ses)"; simp)
qed

theorem only_sqlite_and_mongo_are_writable_witness:
  "load_and_register_all (demo_context_io (Some ''rw_only'')) demo_session_ops ''c.yaml'' \<lparr>se_stores = Map.empty, se_tables = []\<rparr> =
   Inr (\<lparr>lc_sources = [demo_local_source (Some ''rw_only'')], lc_pipelines_dir = None\<rparr>,
        \<lparr>se_stores = Map.empty, se_tables = [RegSqlite ''wiki'' ''/w.db'' None False CatalogLevel]\<rparr>)"
proof -
  let ?C = "demo_context_io (Some ''rw_only'')"
  have ro: "\<not> ls_is_read_write (demo_local_source (Some ''rw_only''))"
    by (simp add: ls_is_read_write_def demo_local_source_def)
  have "to_lowercase ''SQLite'' = ''sqlite''" by code_simp
  then have not_mongo: "to_lowercase (ls_type (demo_local_source (Some ''rw_only''))) \<noteq> ''mongo''"
    by (simp add: demo_local_source_def)
  have read: "read_context_file ?C ''c.yaml'' = Inr \<lparr>lc_sources = [demo_local_source (Some ''rw_only'')], lc_pipelines_dir = None\<rparr>"
    by (simp add: read_context_file_def demo_context_io_def)
  have "load_and_register_all ?C demo_session_ops ''c.yaml'' \<lparr>se_stores = Map.empty, se_tables = []\<rparr> =
    load_and_register_all ?C (demo_session_ops\<lparr>so_perform := (\<lambda>reg t.
      if registration_writable reg then Inl ''refused'' else so_perform demo_session_ops reg t)\<rparr>) ''c.yaml''
      \<lparr>se_stores = Map.empty, se_tables = []\<rparr>"
    by (rule only_sqlite_and_mongo_are_writable [OF _ read]) (use ro not_mongo in simp)
  then show ?thesis using ro by (simp add: demo_load) (simp add: demo_session_ops_def)
qed

section \<open>Selecting a table\<close>

lemma qualified_name_split:
  assumes "CHR ''.'' \<notin> set (tr_catalog e)" "CHR ''.'' \<notin> set (tr_schema e)" "CHR ''.'' \<notin> set (tr_table e)"
  shows "str_split (CHR ''.'') (qualified_name e) = [tr_catalog e, tr_schema e, tr_table e]"
  using assms by (simp add: qualified_name_def str_split_append str_split_absent)

lemma find_only:
  "e \<in> set es \<Longrightarrow> List.find (\<lambda>x. tr_catalog x = tr_catalog e \<and> tr_schema x = tr_schema e \<and> tr_table x = tr_table e) es = Some (e :: table_ref)"
proof (induction es)
  case (Cons x es)
  have "x = e" if "tr_catalog x = tr_catalog e \<and> tr_schema x = tr_schema e \<and> tr_table x = tr_table e"
    using that by (intro table_ref.equality) simp_all
  with Cons show ?case by auto
qed simp

text \<open>
  The name \<open>--schema -t\<close> takes is decided by its dots: a qualified name selects exactly its
  table, a bare name selects the only table of that name and is refused when there are several,
  and a table whose own name has one dot, which the listing shows as it is, cannot be selected by it.
\<close>

theorem select_tables_spec:
  assumes "e \<in> set es"
  shows "(CHR ''.'' \<notin> set (tr_catalog e @ tr_schema e @ tr_table e) \<longrightarrow> select_tables V es (qualified_name e) = Inr [e])
    \<and> (CHR ''.'' \<notin> set (tr_table e) \<longrightarrow>
         (select_tables V es (tr_table e) = Inr [e] \<longleftrightarrow> filter (\<lambda>x. tr_table x = tr_table e) es = [e])
         \<and> (is_ok (select_tables V es (tr_table e)) \<longleftrightarrow> length (filter (\<lambda>x. tr_table x = tr_table e) es) = 1))
    \<and> (\<forall>a b. tr_table e = a @ ''.'' @ b \<longrightarrow> CHR ''.'' \<notin> set (a @ b) \<longrightarrow> \<not> is_ok (select_tables V es (tr_table e)))"
proof (intro conjI impI allI)
  show "select_tables V es (qualified_name e) = Inr [e]" if "CHR ''.'' \<notin> set (tr_catalog e @ tr_schema e @ tr_table e)"
    using that qualified_name_split [of e] find_only [OF assms] by (simp add: select_tables_def)
  have ne: "filter (\<lambda>x. tr_table x = tr_table e) es \<noteq> []" using assms by (auto simp: filter_empty_conv)
  show "select_tables V es (tr_table e) = Inr [e] \<longleftrightarrow> filter (\<lambda>x. tr_table x = tr_table e) es = [e]"
    if "CHR ''.'' \<notin> set (tr_table e)"
    using that ne by (simp add: select_tables_def str_split_absent split: list.split)
  show "is_ok (select_tables V es (tr_table e)) \<longleftrightarrow> length (filter (\<lambda>x. tr_table x = tr_table e) es) = 1"
    if "CHR ''.'' \<notin> set (tr_table e)"
    using that ne by (simp add: select_tables_def str_split_absent split: list.split)
  show "\<not> is_ok (select_tables V es (tr_table e))"
    if "tr_table e = a @ ''.'' @ b" "CHR ''.'' \<notin> set (a @ b)" for a b
    using that by (simp add: select_tables_def str_split_append str_split_absent)
qed

definition demo_view :: catalog_view where
  "demo_view =
     \<lparr>cv_names = [], cv_catalog = (\<lambda>_. None), cv_schema = (\<lambda>_ _. None), cv_table = (\<lambda>_ _ _. Inr None),
      cv_default_catalog = ''datafusion'', cv_default_schema = ''public''\<rparr>"

theorem select_tables_spec_witness:
  "select_tables demo_view [\<lparr>tr_catalog = ''wiki'', tr_schema = ''main'', tr_table = ''pages''\<rparr>] ''wiki.main.pages''
     = Inr [\<lparr>tr_catalog = ''wiki'', tr_schema = ''main'', tr_table = ''pages''\<rparr>]"
  using select_tables_spec [of "\<lparr>tr_catalog = ''wiki'', tr_schema = ''main'', tr_table = ''pages''\<rparr>"
      "[\<lparr>tr_catalog = ''wiki'', tr_schema = ''main'', tr_table = ''pages''\<rparr>]" demo_view]
  by (simp add: qualified_name_def)

section \<open>The aliases file through the commands\<close>

text \<open>What the YAML library promises: it reads back the aliases it prints.\<close>

definition alias_yaml_ok :: "'v alias_yaml \<Rightarrow> bool" where
  "alias_yaml_ok Y \<longleftrightarrow>
     (\<forall>f t. ay_print Y f = Inr t \<longrightarrow> str_trim t \<noteq> []
        \<and> (\<exists>root. ay_parse Y t = Inr root \<and> ay_kind Y root = Some (Some (al_kind f)) \<and> ay_file Y root = Inr f))
   \<and> (\<forall>root f k. ay_kind Y root = Some k \<longrightarrow> ay_file Y root = Inr f \<longrightarrow> k = Some (al_kind f))"

lemma alias_load_kind:
  assumes "alias_yaml_ok Y" and "alias_load Y files path = Inr f"
  shows "al_kind f = ALIASES_KIND"
proof (cases "files path")
  case None
  then show ?thesis using assms(2) by (auto simp: alias_load_def alias_file_default_def)
next
  case (Some content)
  show ?thesis
  proof (cases "str_trim content = []")
    case True
    with Some show ?thesis using assms(2) by (auto simp: alias_load_def alias_file_default_def)
  next
    case False
    with Some assms(2) obtain root where root: "ay_parse Y content = Inr root"
      by (auto simp: alias_load_def res_simps)
    with Some False assms(2) obtain k where k: "ay_kind Y root = Some k"
      by (cases "ay_kind Y root") (auto simp: alias_load_def)
    with Some False root assms(2) have "ay_file Y root = Inr f" "(case k of Some k' \<Rightarrow> k' | None \<Rightarrow> []) = ALIASES_KIND"
      by (simp_all add: alias_load_def Let_def res_simps split: if_split_asm)
    moreover from this k have "k = Some (al_kind f)"
      using assms(1) unfolding alias_yaml_ok_def by blast
    ultimately show ?thesis by simp
  qed
qed

lemma alias_save_load:
  assumes "alias_yaml_ok Y" and "alias_save Y write files path f = Inr files'" and "al_kind f = ALIASES_KIND"
  shows "alias_load Y files' path = Inr f \<and> (\<forall>p. p \<noteq> path \<longrightarrow> files' p = files p)"
proof -
  from assms(2) obtain t where t: "ay_print Y f = Inr t" "files' = files(path \<mapsto> t)"
    by (auto simp: alias_save_def res_simps)
  then obtain root where "str_trim t \<noteq> []" "ay_parse Y t = Inr root" "ay_kind Y root = Some (Some (al_kind f))" "ay_file Y root = Inr f"
    using assms(1) unfolding alias_yaml_ok_def by blast
  with t assms(3) show ?thesis by (simp add: alias_load_def)
qed

definition aliases_of :: "'v alias_env \<Rightarrow> (string \<rightharpoonup> string) \<Rightarrow> string \<Rightarrow> string \<rightharpoonup> alias_def" where
  "aliases_of A files path n =
     (case alias_load (ae_yaml A) files path of Inr f \<Rightarrow> map_of (al_spec f) n | Inl _ \<Rightarrow> None)"

text \<open>
  C33. The alias commands refine a map of aliases: an addition that succeeds maps the name, and
  only it, to the given pipeline, and replaces an existing alias only with \<open>--force\<close>; a removal
  that succeeds removes exactly an existing alias; both leave every other file alone.
\<close>

theorem alias_commands_refine_map:
  assumes "alias_yaml_ok (ae_yaml A)"
  shows "(\<forall>files' ls. alias_add A name pipeline positional defaults description force aliases ctx files = Inr (files', ls) \<longrightarrow>
      (\<exists>path d. aliases_path_of A aliases ctx = Inr path \<and> ad_pipeline d = pipeline
         \<and> ad_positional d = positional_names positional
         \<and> aliases_of A files' path = (aliases_of A files path)(name \<mapsto> d)
         \<and> (force \<or> aliases_of A files path name = None) \<and> (\<forall>p. p \<noteq> path \<longrightarrow> files' p = files p)))
    \<and> (\<forall>files' ls. alias_remove A name aliases ctx files = Inr (files', ls) \<longrightarrow>
      (\<exists>path. aliases_path_of A aliases ctx = Inr path
         \<and> aliases_of A files' path = (aliases_of A files path)(name := None)
         \<and> aliases_of A files path name \<noteq> None \<and> (\<forall>p. p \<noteq> path \<longrightarrow> files' p = files p)))"
proof (intro conjI allI impI)
  fix files' ls
  assume add: "alias_add A name pipeline positional defaults description force aliases ctx files = Inr (files', ls)"
  then obtain path f where path: "aliases_path_of A aliases ctx = Inr path" and f: "alias_load (ae_yaml A) files path = Inr f"
    by (auto simp: alias_add_def res_simps)
  have fresh: "force \<or> map_of (al_spec f) name = None"
    using add path f by (auto simp: alias_add_def split: if_split_asm option.split_asm)
  then have "(if force then None else map_of (al_spec f) name) = None" by auto
  with add path f obtain dm where dm: "alias_save (ae_yaml A) (ae_write A) files path
      (f\<lparr>al_spec := btree_insert name \<lparr>ad_pipeline = pipeline, ad_positional = positional_names positional,
         ad_defaults = dm, ad_description = description\<rparr> (al_spec f)\<rparr>) = Inr files'"
    by (auto simp: alias_add_def res_simps Let_def)
  define d where "d = \<lparr>ad_pipeline = pipeline, ad_positional = positional_names positional,
         ad_defaults = dm, ad_description = description\<rparr>"
  have d: "ad_pipeline d = pipeline" "ad_positional d = positional_names positional" by (simp_all add: d_def)
  note save = dm [folded d_def]
  have kind: "al_kind (f\<lparr>al_spec := btree_insert name d (al_spec f)\<rparr>) = ALIASES_KIND"
    using alias_load_kind [OF assms f] by simp
  from alias_save_load [OF assms save kind] path f d fresh
  show "\<exists>path d. aliases_path_of A aliases ctx = Inr path \<and> ad_pipeline d = pipeline
         \<and> ad_positional d = positional_names positional
         \<and> aliases_of A files' path = (aliases_of A files path)(name \<mapsto> d)
         \<and> (force \<or> aliases_of A files path name = None) \<and> (\<forall>p. p \<noteq> path \<longrightarrow> files' p = files p)"
    by (intro exI [of _ path] exI [of _ d]) (simp add: aliases_of_def fun_eq_iff)
next
  fix files' ls
  assume remove: "alias_remove A name aliases ctx files = Inr (files', ls)"
  then obtain path f where path: "aliases_path_of A aliases ctx = Inr path" and f: "alias_load (ae_yaml A) files path = Inr f"
    and known: "map_of (al_spec f) name \<noteq> None"
    and save: "alias_save (ae_yaml A) (ae_write A) files path (f\<lparr>al_spec := btree_remove name (al_spec f)\<rparr>) = Inr files'"
    by (auto simp: alias_remove_def res_simps split: if_split_asm)
  have kind: "al_kind (f\<lparr>al_spec := btree_remove name (al_spec f)\<rparr>) = ALIASES_KIND"
    using alias_load_kind [OF assms f] by simp
  from alias_save_load [OF assms save kind] path f known
  show "\<exists>path. aliases_path_of A aliases ctx = Inr path
         \<and> aliases_of A files' path = (aliases_of A files path)(name := None)
         \<and> aliases_of A files path name \<noteq> None \<and> (\<forall>p. p \<noteq> path \<longrightarrow> files' p = files p)"
    by (intro exI [of _ path]) (simp add: aliases_of_def fun_eq_iff)
qed

definition demo_alias :: alias_def where
  "demo_alias = \<lparr>ad_pipeline = ''list'', ad_positional = [''q'', ''n''], ad_defaults = [], ad_description = None\<rparr>"

definition demo_alias_env :: "alias_file alias_env" where
  "demo_alias_env =
     (let file = alias_file_default\<lparr>al_spec := [(''ls'', demo_alias)]\<rparr> in
      \<lparr>ae_paths = demo_paths, ae_context = demo_context_io None,
       ae_pipelines = \<lparr>qf_is_dir = (\<lambda>_. False), qf_read_dir = (\<lambda>_. Inr []), qf_is_file = (\<lambda>_. False),
         qf_extension = (\<lambda>_. None), qf_read = Inl, qf_yaml = Inl, qf_kind = (\<lambda>_. None), qf_envelope = (\<lambda>_. Inl [])\<rparr>,
       ae_yaml = \<lparr>ay_parse = (\<lambda>t. if t = ''file'' then Inr file else Inl ''not YAML''),
         ay_kind = (\<lambda>f. Some (Some (al_kind f))), ay_file = Inr,
         ay_print = (\<lambda>f. if f = file then Inr ''file'' else Inl ''unprintable'')\<rparr>,
       ae_write = (\<lambda>_. Inr ()), ae_print_one = (\<lambda>_ _. Inr []), ae_debug = id\<rparr>)"

lemma demo_alias_yaml: "alias_yaml_ok (ae_yaml demo_alias_env)"
proof -
  have "str_trim ''file'' \<noteq> []" by code_simp
  then show ?thesis by (auto simp: alias_yaml_ok_def demo_alias_env_def Let_def split: if_split_asm)
qed

theorem alias_commands_refine_map_witness:
  "\<exists>files' d. aliases_of demo_alias_env files' ''a.yaml'' = [''ls'' \<mapsto> d] \<and> ad_positional d = [''q'', ''n'']
     \<and> files' ''b.yaml'' = None"
proof -
  have names: "positional_names (Some ''q, ,n'') = [''q'', ''n'']" by code_simp
  have load: "alias_load Y Map.empty p = Inr alias_file_default" for Y and p by (simp add: alias_load_def)
  have params: "try_load_pipeline_params demo_alias_env ''list'' None = Inr None"
    by (simp add: try_load_pipeline_params_def demo_alias_env_def resolve_ctx_path_def demo_paths_def read_ctx_cfg_def
        resolve_pipeline_dirs_def Let_def)
  have path: "aliases_path_of demo_alias_env (Some ''a.yaml'') None = Inr ''a.yaml''"
    by (simp add: aliases_path_of_def resolve_aliases_path_def)
  have save: "alias_save (ae_yaml demo_alias_env) (ae_write demo_alias_env) Map.empty ''a.yaml''
      (alias_file_default\<lparr>al_spec := [(''ls'', demo_alias)]\<rparr>) = Inr [''a.yaml'' \<mapsto> ''file'']"
    by (simp add: alias_save_def demo_alias_env_def Let_def)
  obtain ls where add: "alias_add demo_alias_env ''ls'' ''list'' (Some ''q, ,n'') [] None False (Some ''a.yaml'') None Map.empty
      = Inr ([''a.yaml'' \<mapsto> ''file''], ls)"
    using save by (simp add: alias_add_def path load params names alias_file_default_def demo_alias_def Let_def)
  have none: "aliases_of demo_alias_env Map.empty p = Map.empty" for p
    by (simp add: aliases_of_def load alias_file_default_def fun_eq_iff)
  from alias_commands_refine_map [OF demo_alias_yaml, THEN conjunct1, rule_format, OF add]
  obtain p d where "aliases_path_of demo_alias_env (Some ''a.yaml'') None = Inr p"
    "ad_positional d = positional_names (Some ''q, ,n'')"
    "aliases_of demo_alias_env [''a.yaml'' \<mapsto> ''file''] p = (aliases_of demo_alias_env Map.empty p)(''ls'' \<mapsto> d)" by blast
  then show ?thesis
    by (intro exI [of _ "[''a.yaml'' \<mapsto> ''file'']"] exI [of _ d]) (auto simp: path none names)
qed

section \<open>The alias of a command\<close>

text \<open>
  Running an alias and managing aliases use the same file: without \<open>--ctx\<close>, the default
  context an alias is run with leads to the file the alias commands find, when the parent of a
  context file in a directory is that directory and no directory is called like a context file.
\<close>

theorem alias_run_uses_the_managed_file:
  assumes "\<And>d. po_parent P (po_join P d ''ctx.yaml'') = Some d" and "\<And>d. \<not> po_is_dir P (po_join P d ''ctx.yaml'')"
  shows "resolve_aliases_path P aliases (case ctx of Some c \<Rightarrow> Some c | None \<Rightarrow> resolve_ctx_path P None) =
    resolve_aliases_path P aliases ctx"
proof (cases ctx)
  case None
  show ?thesis
    using assms
    by (auto simp: None resolve_aliases_path_def resolve_ctx_path_def config_file_def Let_def
        split: option.split if_split_asm)
qed simp

theorem alias_run_uses_the_managed_file_witness:
  "resolve_aliases_path (demo_paths\<lparr>po_env := [''SKARDICONFIG'' \<mapsto> ''cli''], po_is_dir := (\<lambda>p. p = ''cli''),
        po_parent := (\<lambda>p. Some (take (length p - 9) p)), po_exists := (\<lambda>p. p = ''cli/aliases.yaml'')\<rparr>) None
     (resolve_ctx_path (demo_paths\<lparr>po_env := [''SKARDICONFIG'' \<mapsto> ''cli''], po_is_dir := (\<lambda>p. p = ''cli''),
        po_parent := (\<lambda>p. Some (take (length p - 9) p)), po_exists := (\<lambda>p. p = ''cli/aliases.yaml'')\<rparr>) None)
   = Some ''cli/aliases.yaml''"
proof -
  let ?P = "demo_paths\<lparr>po_env := [''SKARDICONFIG'' \<mapsto> ''cli''], po_is_dir := (\<lambda>p. p = ''cli''),
        po_parent := (\<lambda>p. Some (take (length p - 9) p)), po_exists := (\<lambda>p. p = ''cli/aliases.yaml'')\<rparr>"
  have "\<And>d. d @ ''/ctx.yaml'' \<noteq> ''cli''" by (auto dest: arg_cong [of _ _ length])
  then have "resolve_aliases_path ?P None (case None of Some c \<Rightarrow> Some c | None \<Rightarrow> resolve_ctx_path ?P None) =
      resolve_aliases_path ?P None None"
    by (intro alias_run_uses_the_managed_file) (simp_all add: demo_paths_def)
  then show ?thesis by (simp add: resolve_aliases_path_def demo_paths_def)
qed

text \<open>
  C34. An alias whose report names no unbound parameter needs no flag: given its positional
  arguments, the pipeline it names is never refused for a missing parameter, and what is left
  to prepare is the rendering of its query.
\<close>

theorem covered_alias_misses_no_parameter:
  assumes "ctx_to_load P ctx = Inr c" and "read_ctx_cfg C c = Inr cfg"
    and "discover_pipelines Q (resolve_pipeline_dirs P dir cfg c) = Inr pipelines"
    and "pipelines (ad_pipeline d) = Some (path, file)"
    and "unbound_params (extract_param_names (pf_query file)) (ad_positional d) (ad_defaults d) = []"
    and "split_args L args [] [] = Inr (flags, pos)" and "length pos = length (ad_positional d)"
  shows "\<exists>r. resolve_alias L d args = Inr r \<and> ra_pipeline r = ad_pipeline d
    \<and> prepare_pipeline L C Q dbg P ctx dir (ra_pipeline r) (ra_params r) =
        map_sum (\<lambda>e. ''Failed to render SQL for pipeline '' @ [squote] @ ad_pipeline d @ [squote] @ '': '' @ e) (Pair c)
          (render_sql_with_inline_params L (pf_query file) (ra_params r))"
proof -
  let ?r = "\<lparr>ra_pipeline = ad_pipeline d,
      ra_params = (map_option (string_to_scalar L) \<circ> alias_strings L d (map_of (rev flags)) pos) ++ map_of (rev flags)\<rparr>"
  have r: "resolve_alias L d args = Inr ?r" using assms(6,7) by (simp add: resolve_alias_iff)
  have "fst ` set (rev (zip (ad_positional d) pos)) = set (ad_positional d)"
    using assms(7) by (simp only: set_rev) (metis map_fst_zip set_map)
  then have bound_names: "dom (ra_params ?r) = fst ` set flags \<union> set (ad_positional d) \<union> fst ` set (ad_defaults d)"
    by (auto simp: alias_strings_def apply_defaults_dom dom_map_of_conv_image_fst image_image)
  have "n \<in> dom (ra_params ?r)" if "n \<in> set (extract_param_names (pf_query file))" for n
  proof -
    have "n \<in> set (ad_positional d) \<union> fst ` set (ad_defaults d)"
      using assms(5) that by (auto simp: unbound_params_def filter_empty_conv)
    then show ?thesis unfolding bound_names by blast
  qed
  then have bound: "filter (\<lambda>n. ra_params ?r n = None) (extract_param_names (pf_query file)) = []"
    unfolding filter_empty_conv domIff by blast
  have prep: "prepare_pipeline L C Q dbg P ctx dir (ad_pipeline d) params =
      map_sum (\<lambda>e. ''Failed to render SQL for pipeline '' @ [squote] @ ad_pipeline d @ [squote] @ '': '' @ e) (Pair c)
          (render_sql_with_inline_params L (pf_query file) params)"
    if "filter (\<lambda>n. params n = None) (extract_param_names (pf_query file)) = []" for params
    using assms(1-4) that
    by (cases "render_sql_with_inline_params L (pf_query file) params") (simp_all add: prepare_pipeline_def Let_def)
  show ?thesis using r prep [OF bound] by (intro exI [of _ ?r]) simp
qed

theorem covered_alias_misses_no_parameter_witness:
  "\<exists>r. resolve_alias demo_cli_lib \<lparr>ad_pipeline = ''search'', ad_positional = [''q''], ad_defaults = [], ad_description = None\<rparr> [''x''] = Inr r
     \<and> (is_ok (prepare_pipeline demo_cli_lib (demo_context_io None) (demo_pipeline_fs\<lparr>qf_envelope := (\<lambda>_. Inr (''pipeline'', ''search'', ''SELECT {q}''))\<rparr>) concat
           demo_paths None (Some ''dir'') ''search'' (ra_params r))
        \<longleftrightarrow> is_ok (render_sql_with_inline_params demo_cli_lib ''SELECT {q}'' (ra_params r)))"
proof -
  let ?d = "\<lparr>ad_pipeline = ''search'', ad_positional = [''q''], ad_defaults = [], ad_description = None\<rparr>"
  let ?Q = "demo_pipeline_fs\<lparr>qf_envelope := (\<lambda>_. Inr (''pipeline'', ''search'', ''SELECT {q}''))\<rparr>"
  let ?file = "\<lparr>pf_name = ''search'', pf_query = ''SELECT {q}''\<rparr>"
  have ctx: "ctx_to_load demo_paths None = Inr None" and cfg: "read_ctx_cfg (demo_context_io None) None = Inr None"
    by (simp_all add: ctx_to_load_def resolve_ctx_path_def demo_paths_def read_ctx_cfg_def)
  have low: "to_lowercase ''YML'' = ''yml''" by code_simp
  have found: "discover_pipelines ?Q (resolve_pipeline_dirs demo_paths (Some ''dir'') None None) = Inr [''search'' \<mapsto> (''a.yml'', ?file)]"
    by (simp add: resolve_pipeline_dirs_def discover_pipelines_def discover_dir_def discover_entry_def demo_pipeline_fs_def
        pipeline_from_value_def low Let_def)
  have "extract_param_names ''SELECT {q}'' = [''q'']" by code_simp
  then have covered: "unbound_params (extract_param_names (pf_query ?file)) (ad_positional ?d) (ad_defaults ?d) = []"
    by (simp add: unbound_params_def)
  have split: "split_args demo_cli_lib [''x''] [] [] = Inr ([], [''x''])" by simp
  have entry: "[''search'' \<mapsto> (''a.yml'', ?file)] (ad_pipeline ?d) = Some (''a.yml'', ?file)" by simp
  have len: "length [''x''] = length (ad_positional ?d)" by simp
  obtain r where
    r: "resolve_alias demo_cli_lib ?d [''x''] = Inr r" "ra_pipeline r = ad_pipeline ?d"
    "prepare_pipeline demo_cli_lib (demo_context_io None) ?Q concat demo_paths None (Some ''dir'') (ra_pipeline r) (ra_params r) =
        map_sum (\<lambda>e. ''Failed to render SQL for pipeline '' @ [squote] @ ad_pipeline ?d @ [squote] @ '': '' @ e) (Pair None)
          (render_sql_with_inline_params demo_cli_lib (pf_query ?file) (ra_params r))"
    using covered_alias_misses_no_parameter [OF ctx cfg found entry covered split len, of concat] by blast
  have "is_ok (map_sum f g x) \<longleftrightarrow> is_ok x" for f :: "string \<Rightarrow> string" and g :: "string \<Rightarrow> string option \<times> string" and x
    by (cases x) simp_all
  with r show ?thesis by (intro exI [of _ r]) simp
qed

section \<open>Control flags\<close>

lemma maybe_take_found: "maybe_take n args = Some (v, rest) \<Longrightarrow> \<exists>used. args = used @ rest \<and> hd used \<in> {''--'' @ n, ''--'' @ n @ ''='' @ v} \<and> used \<noteq> []"
  by (auto simp: maybe_take_def strip_prefix_Some_iff split: list.splits option.splits if_splits)

lemma maybe_take_next: "maybe_take n args = None \<Longrightarrow> args = a # rest \<Longrightarrow> \<not> starts_with (''--'' @ n @ ''='') a \<and> (a = ''--'' @ n \<longrightarrow> rest = [])"
  by (auto simp: maybe_take_def starts_with_def split: list.splits option.splits if_splits)

definition control_ok :: "string list \<Rightarrow> string \<Rightarrow> bool" where
  "control_ok args a \<longleftrightarrow>
     (\<forall>n \<in> {''ctx'', ''pipeline-dir'', ''aliases''}.
        \<not> starts_with (''--'' @ n @ ''='') a \<and> (a = ''--'' @ n \<longrightarrow> args \<noteq> [] \<and> last args = a))"

definition left_over :: "string list \<Rightarrow> string list \<Rightarrow> bool" where
  "left_over args kept \<longleftrightarrow> subseq kept args \<and> (\<forall>a \<in> set kept. control_ok args a)"

lemma left_over_append: "left_over rest kept \<Longrightarrow> left_over (used @ rest) kept"
  by (auto simp: left_over_def control_ok_def subseq_drop_many)

lemma left_over_Cons: "control_ok (a # rest) a \<Longrightarrow> left_over rest kept \<Longrightarrow> left_over (a # rest) (a # kept)"
  using left_over_append [of rest kept "[a]"] by (simp add: left_over_def)

text \<open>
  The control flags are taken out of an alias's arguments and nothing else changes: the
  arguments left are in their order, none of them sets a control flag, and one that is a bare
  control flag is the last argument, without a value.
\<close>

theorem control_flags_are_taken_out:
  "\<exists>cf' kept. split_control_flags args cf out = (cf', out @ kept) \<and> left_over args kept"
proof (induction args arbitrary: cf out rule: length_induct)
  case (1 args)
  have taken: ?case if "maybe_take n args = Some (v, rest)"
    "split_control_flags args cf out = split_control_flags rest cf1 out" for n v rest cf1
  proof -
    from maybe_take_found [OF that(1)] obtain used where args: "args = used @ rest" by blast
    from 1 maybe_take_shorter [OF that(1)]
    obtain cf' kept where "split_control_flags rest cf1 out = (cf', out @ kept)" "left_over rest kept" by blast
    with that(2) left_over_append [of rest kept used] show ?thesis by (simp add: args)
  qed
  show ?case
  proof (cases "maybe_take ''ctx'' args")
    case (Some x)
    then show ?thesis
      by (cases x) (rule taken, auto simp: split_control_flags.simps [of args])
  next
    case ctx: None
    show ?thesis
    proof (cases "maybe_take ''pipeline-dir'' args")
      case (Some x)
      with ctx show ?thesis
        by (cases x) (rule taken, auto simp: split_control_flags.simps [of args])
    next
      case dir: None
      show ?thesis
      proof (cases "maybe_take ''aliases'' args")
        case (Some x)
        with ctx dir show ?thesis
          by (cases x) (rule taken, auto simp: split_control_flags.simps [of args])
      next
        case aliases: None
        show ?thesis
        proof (cases args)
          case Nil
          then show ?thesis
            by (subst split_control_flags.simps) (simp add: maybe_take_def left_over_def)
        next
          case (Cons a rest)
          then obtain cf' kept where rest: "split_control_flags rest cf (out @ [a]) = (cf', (out @ [a]) @ kept)" "left_over rest kept"
            using 1 by (metis length_Cons lessI)
          have "control_ok args a"
            using maybe_take_next [OF ctx Cons] maybe_take_next [OF dir Cons] maybe_take_next [OF aliases Cons] Cons
            by (auto simp: control_ok_def)
          then have "left_over args (a # kept)" using left_over_Cons rest(2) Cons by simp
          moreover have "split_control_flags args cf out = (cf', out @ a # kept)"
            using rest(1) by (subst split_control_flags.simps) (simp add: ctx dir aliases, simp add: Cons)
          ultimately show ?thesis by blast
        qed
      qed
    qed
  qed
qed

section \<open>Paths opened as something else\<close>

text \<open>
  A path with \<open>.db.\<close> followed by anything is opened as a table of a SQLite database, whatever
  the path ends with: a CSV file \<open>data.db.csv\<close> is the table \<open>csv\<close> of \<open>data.db\<close>.
\<close>

theorem dotted_path_is_sqlite:
  assumes "find_str ''.db.'' url = Some i" and "drop (i + 4) url \<noteq> []"
  shows "url_table_of P url = SqliteUrl (take (i + 3) url) (drop (i + 4) url)"
proof -
  have "str_contains ''.db.'' url"
    using find_str_Some [OF _ assms(1)] by (auto simp: str_contains_iff starts_with_iff) (metis append_take_drop_id)
  moreover have "length ''.db.'' = 4" by simp
  ultimately show ?thesis using assms by (simp add: url_table_of_def Let_def add.commute del: list.size)
qed

theorem dotted_path_is_sqlite_witness: "url_table_of demo_paths ''data.db.csv'' = SqliteUrl ''data.db'' ''csv''"
proof -
  have "find_str ''.db.'' ''data.db.csv'' = Some 4" by code_simp
  then show ?thesis using dotted_path_is_sqlite [of "''data.db.csv''" 4 demo_paths] by simp
qed

text \<open>
  A Lance data source is looked for on the local disk even when its path is remote: it is
  refused unless the URL happens to exist as a path.
\<close>

theorem remote_lance_source_is_refused:
  assumes "to_lowercase (ls_type src) = ''lance''" and "ls_path src = Some path" and "cli_is_remote_path path"
    and "\<not> po_exists (so_paths Ops) path"
  shows "cli_register_source Ops ses src = Inl (''Data source '' @ [squote] @ ls_name src @ [squote] @ '': path not found: '' @ path)"
proof -
  have "registration_of Ops ses src = Inl (''Data source '' @ [squote] @ ls_name src @ [squote] @ '': path not found: '' @ path)"
    using assms unfolding registration_of_def Let_def by (simp add: source_path_def resolve_path_def)
  then show ?thesis by (simp only: cli_register_source_def try_res_simps)
qed

theorem remote_lance_source_is_refused_witness:
  "\<not> is_ok (cli_register_source demo_session_ops \<lparr>se_stores = Map.empty, se_tables = []\<rparr>
      ((demo_local_source None)\<lparr>ls_type := ''lance'', ls_path := Some ''s3://b/t.lance''\<rparr>))"
proof -
  let ?src = "(demo_local_source None)\<lparr>ls_type := ''lance'', ls_path := Some ''s3://b/t.lance''\<rparr>"
  have "to_lowercase (ls_type ?src) = ''lance''" by code_simp
  moreover have "cli_is_remote_path ''s3://b/t.lance''" by code_simp
  ultimately show ?thesis
    using remote_lance_source_is_refused [of ?src "''s3://b/t.lance''" demo_session_ops "\<lparr>se_stores = Map.empty, se_tables = []\<rparr>"]
    by (simp add: demo_session_ops_def demo_paths_def)
qed

end
