(* ===== verification/Arrow_Lists.thy ===== *)
theory Arrow_Lists
  imports Filter_Expr
begin

text \<open>
  What the scalar functions use of Arrow: the arguments of a call, and arrays of lists as they are
  stored, the elements of all rows in one array with the offsets of the rows and their validity.
  Offsets are natural numbers; the library's are 32-bit and it refuses larger arrays.
\<close>

section \<open>Arguments\<close>

text \<open>An argument: a scalar, a column of strings, or a column of another type and its length.\<close>

datatype columnar = CvScalar scalar | CvUtf8 "string option list" | CvOther nat

section \<open>Arrays of lists\<close>

record 'a list_array =
  la_values :: "'a list"
  la_offsets :: "nat list"
  la_valid :: "bool list"

text \<open>The builder: elements are appended to the last row until it is closed.\<close>

definition la_empty :: "'a list_array" where
  "la_empty = \<lparr>la_values = [], la_offsets = [0], la_valid = []\<rparr>"

definition la_append_value :: "'a \<Rightarrow> 'a list_array \<Rightarrow> 'a list_array" where
  "la_append_value x b = b\<lparr>la_values := la_values b @ [x]\<rparr>"

definition la_close :: "bool \<Rightarrow> 'a list_array \<Rightarrow> 'a list_array" where
  "la_close valid b = b\<lparr>la_offsets := la_offsets b @ [length (la_values b)], la_valid := la_valid b @ [valid]\<rparr>"

text \<open>The row of an array at an index.\<close>

definition la_row :: "'a list_array \<Rightarrow> nat \<Rightarrow> 'a list option" where
  "la_row a i =
     (if la_valid a ! i
      then Some (take (la_offsets a ! Suc i - la_offsets a ! i) (drop (la_offsets a ! i) (la_values a)))
      else None)"

definition la_rows :: "'a list_array \<Rightarrow> 'a list option list" where
  "la_rows a = map (la_row a) [0..<length (la_valid a)]"

text \<open>What the format asks of an array: offsets from 0 to the number of elements, not decreasing.\<close>

definition la_wf :: "'a list_array \<Rightarrow> bool" where
  "la_wf a \<longleftrightarrow> length (la_offsets a) = Suc (length (la_valid a)) \<and> hd (la_offsets a) = 0 \<and> sorted (la_offsets a)
     \<and> last (la_offsets a) = length (la_values a)"

lemma la_append_values: "foldl (\<lambda>b x. la_append_value x b) a xs = a\<lparr>la_values := la_values a @ xs\<rparr>"
  by (induction xs arbitrary: a) (simp_all add: la_append_value_def)

lemma la_wf_empty [simp]: "la_wf la_empty" "la_rows la_empty = []"
  by (simp_all add: la_wf_def la_empty_def la_rows_def)

lemma la_last_offset:
  assumes "la_wf a"
  shows "la_offsets a \<noteq> [] \<and> la_offsets a ! length (la_valid a) = length (la_values a)"
proof -
  have ne: "la_offsets a \<noteq> []" using assms by (auto simp: la_wf_def)
  have "length (la_offsets a) = Suc (length (la_valid a))" "last (la_offsets a) = length (la_values a)"
    using assms by (simp_all add: la_wf_def)
  with ne last_conv_nth [OF ne] show ?thesis by (metis diff_Suc_1)
qed

lemma offsets_below:
  assumes "la_wf a" and "i < length (la_offsets a)"
  shows "la_offsets a ! i \<le> length (la_values a)"
proof -
  have "la_offsets a ! i \<le> la_offsets a ! length (la_valid a)"
    using assms by (intro sorted_nth_mono) (auto simp: la_wf_def)
  with la_last_offset [OF assms(1)] show ?thesis by simp
qed

lemma la_append_row:
  assumes "la_wf a"
  shows "la_wf (la_close valid (a\<lparr>la_values := la_values a @ xs\<rparr>))
    \<and> la_rows (la_close valid (a\<lparr>la_values := la_values a @ xs\<rparr>)) = la_rows a @ [if valid then Some xs else None]"
proof -
  let ?b = "la_close valid (a\<lparr>la_values := la_values a @ xs\<rparr>)"
  have len: "length (la_offsets a) = Suc (length (la_valid a))" and ne: "la_offsets a \<noteq> []"
    and lst: "la_offsets a ! length (la_valid a) = length (la_values a)"
    using assms la_last_offset [OF assms] by (simp_all add: la_wf_def)
  have "sorted (la_offsets a @ [length (la_values a @ xs)])"
    using assms offsets_below [OF assms] unfolding la_wf_def sorted_append
    by (auto simp: in_set_conv_nth) (metis trans_le_add1)
  then have "la_wf ?b" using assms ne by (simp add: la_wf_def la_close_def)
  moreover have "la_row ?b i = la_row a i" if "i < length (la_valid a)" for i
    using that len offsets_below [OF assms, of "Suc i"] offsets_below [OF assms, of i]
    by (simp add: la_row_def la_close_def nth_append)
  moreover have "la_row ?b (length (la_valid a)) = (if valid then Some xs else None)"
    using len lst by (simp add: la_row_def la_close_def nth_append)
  ultimately show ?thesis by (simp add: la_rows_def la_close_def)
qed

text \<open>An array built row by row reads back as the rows it was built from.\<close>

definition la_of_rows :: "'a list option list \<Rightarrow> 'a list_array" where
  "la_of_rows rows =
     foldl (\<lambda>b r. case r of
         Some xs \<Rightarrow> la_close True (foldl (\<lambda>b x. la_append_value x b) b xs)
       | None \<Rightarrow> la_close False b) la_empty rows"

lemma la_of_rows_reads: "la_wf (la_of_rows rows) \<and> la_rows (la_of_rows rows) = rows"
proof (induction rows rule: rev_induct)
  case Nil
  then show ?case by (simp add: la_of_rows_def)
next
  case (snoc r rows)
  show ?case
  proof (cases r)
    case None
    with snoc la_append_row [of "la_of_rows rows" False "[]"] show ?thesis by (simp add: la_of_rows_def)
  next
    case (Some xs)
    with snoc la_append_row [of "la_of_rows rows" True xs] show ?thesis
      by (simp add: la_of_rows_def la_append_values)
  qed
qed

end
