(* ===== verification/Chunking.thy ===== *)
theory Chunking
  imports Arrow_Lists Sql_Template
begin

text \<open>
  The \<open>chunk\<close> function (\<^verbatim>\<open>model/chunking/mod.rs\<close>): its arguments, their checks and the array of
  lists it returns. The splitters and the check of their configuration are parameters.
\<close>

section \<open>The function\<close>

definition read_scalar_string :: "columnar \<Rightarrow> string \<Rightarrow> string + string" where
  "read_scalar_string arg name =
     (case arg of
        CvScalar (SvUtf8 (Some s)) \<Rightarrow> Inr s
      | CvScalar (SvLargeUtf8 (Some s)) \<Rightarrow> Inr s
      | CvScalar (SvUtf8 None) \<Rightarrow> Inl (''chunk: '' @ [squote] @ name @ [squote] @ '' argument must not be null'')
      | CvScalar (SvLargeUtf8 None) \<Rightarrow> Inl (''chunk: '' @ [squote] @ name @ [squote] @ '' argument must not be null'')
      | CvScalar _ \<Rightarrow> Inl (''chunk: '' @ [squote] @ name @ [squote] @ '' argument must be a Utf8 literal'')
      | _ \<Rightarrow> Inl (''chunk: '' @ [squote] @ name @ [squote] @ '' must be a literal, not a column''))"

text \<open>The literal as an \<open>i64\<close>.\<close>

definition read_scalar_i64 :: "columnar \<Rightarrow> string \<Rightarrow> string + 64 word" where
  "read_scalar_i64 arg name =
     (case arg of
        CvScalar (SvInt64 (Some n)) \<Rightarrow> Inr n
      | CvScalar (SvInt32 (Some n)) \<Rightarrow> Inr (scast n)
      | CvScalar (SvInt16 (Some n)) \<Rightarrow> Inr (scast n)
      | CvScalar (SvInt8 (Some n)) \<Rightarrow> Inr (scast n)
      | CvScalar (SvUInt64 (Some n)) \<Rightarrow>
          if uint n \<le> 2 ^ 63 - 1 then Inr n
          else Inl (''chunk: '' @ [squote] @ name @ [squote] @ '' value '' @ show_nat (unat n) @ '' overflows i64'')
      | CvScalar (SvUInt32 (Some n)) \<Rightarrow> Inr (ucast n)
      | CvScalar (SvUInt16 (Some n)) \<Rightarrow> Inr (ucast n)
      | CvScalar (SvUInt8 (Some n)) \<Rightarrow> Inr (ucast n)
      | _ \<Rightarrow> Inl (''chunk: '' @ [squote] @ name @ [squote] @ '' argument must be an integer literal''))"

definition read_scalar_usize :: "columnar \<Rightarrow> string \<Rightarrow> string + nat" where
  "read_scalar_usize arg name =
     try_res (read_scalar_i64 arg name) (\<lambda>n.
     if n <s 0
     then Inl (''chunk: '' @ [squote] @ name @ [squote] @ '' must be non-negative (got '' @ show_signed n @ '')'')
     else Inr (unat n))"

definition read_text_column :: "columnar \<Rightarrow> string \<Rightarrow> string + string option list" where
  "read_text_column arg name =
     (case arg of
        CvUtf8 texts \<Rightarrow> Inr texts
      | CvOther _ \<Rightarrow> Inl (''chunk: '' @ [squote] @ name @ [squote] @ '' must be a Utf8 column'')
      | CvScalar (SvUtf8 s) \<Rightarrow> Inr [s]
      | CvScalar (SvLargeUtf8 s) \<Rightarrow> Inr [s]
      | CvScalar _ \<Rightarrow> Inl (''chunk: '' @ [squote] @ name @ [squote] @ '' must be Utf8''))"

text \<open>
  The splitter library: whether it accepts a size and an overlap, and the chunks of a text in each
  of its modes.
\<close>

record splitters =
  sp_config :: "nat \<Rightarrow> nat \<Rightarrow> string + unit"
  sp_text :: "nat \<Rightarrow> nat \<Rightarrow> string \<Rightarrow> string list"
  sp_markdown :: "nat \<Rightarrow> nat \<Rightarrow> string \<Rightarrow> string list"

definition build_config :: "splitters \<Rightarrow> nat \<Rightarrow> nat \<Rightarrow> string + unit" where
  "build_config T sz overlap = map_err (\<lambda>e. ''chunk: invalid chunk config: '' @ e) (sp_config T sz overlap)"

definition build_list_array :: "string option list \<Rightarrow> (string \<Rightarrow> string list) \<Rightarrow> string list_array" where
  "build_list_array texts split =
     foldl (\<lambda>builder maybe_text. case maybe_text of
         Some t \<Rightarrow> la_close True (foldl (\<lambda>b c. la_append_value c b) builder (split t))
       | None \<Rightarrow> la_close False builder) la_empty texts"

definition chunk_invoke :: "splitters \<Rightarrow> columnar list \<Rightarrow> string + string list_array" where
  "chunk_invoke T args =
     (if length args < 3 \<or> 4 < length args
      then Inl (''chunk expects 3 or 4 arguments (mode, text, size [, overlap]); got '' @ show_nat (length args))
      else
        try_res (read_scalar_string (args ! 0) ''mode'') (\<lambda>mode.
        try_res (read_scalar_usize (args ! 2) ''size'') (\<lambda>sz.
        if sz = 0 then Inl (''chunk: '' @ [squote] @ ''size'' @ [squote] @ '' must be > 0'')
        else
          try_res (if length args = 4 then read_scalar_usize (args ! 3) ''overlap'' else Inr 0) (\<lambda>overlap.
          if sz \<le> overlap
          then Inl (''chunk: '' @ [squote] @ ''overlap'' @ [squote] @ '' ('' @ show_nat overlap
                    @ '') must be strictly less than '' @ [squote] @ ''size'' @ [squote] @ '' ('' @ show_nat sz @ '')'')
          else
            try_res (read_text_column (args ! 1) ''text'') (\<lambda>texts.
            if mode = ''character''
            then try_res (build_config T sz overlap) (\<lambda>_. Inr (build_list_array texts (sp_text T sz overlap)))
            else if mode = ''markdown''
            then try_res (build_config T sz overlap) (\<lambda>_. Inr (build_list_array texts (sp_markdown T sz overlap)))
            else Inl (''chunk: unsupported mode '' @ [squote] @ mode @ [squote] @ ''; supported modes: ''
                      @ [squote] @ ''character'' @ [squote] @ '', '' @ [squote] @ ''markdown'' @ [squote]))))))"

section \<open>Its result\<close>

lemma build_list_array_rows: "build_list_array texts split = la_of_rows (map (map_option split) texts)"
proof -
  have "foldl (\<lambda>b r. case r of Some t \<Rightarrow> la_close True (foldl (\<lambda>b c. la_append_value c b) b (split t)) | None \<Rightarrow> la_close False b) a texts
      = foldl (\<lambda>b r. case r of Some xs \<Rightarrow> la_close True (foldl (\<lambda>b x. la_append_value x b) b xs) | None \<Rightarrow> la_close False b) a
          (map (map_option split) texts)" for a
    by (induction texts arbitrary: a) (auto split: option.split)
  then show ?thesis by (simp add: build_list_array_def la_of_rows_def)
qed

section \<open>When it is accepted, and what it returns\<close>

definition usize_literal :: "columnar \<Rightarrow> nat \<Rightarrow> bool" where
  "usize_literal arg n \<longleftrightarrow> (\<exists>v i. arg = CvScalar v \<and> scalar_int v = Some i \<and> 0 \<le> i \<and> i < 2 ^ 63 \<and> n = nat i)"

lemma i64_below: "sint (w :: 64 word) < 2 ^ 63"
  by (rule sint_below) simp

lemma sint_small: "uint (w :: 64 word) \<le> 2 ^ 63 - 1 \<Longrightarrow> sint w = uint w"
  by (simp add: sint_of_uint64)

lemma nat_sint:
  assumes "0 \<le> sint (w :: 64 word)"
  shows "unat w = nat (sint w)"
proof -
  have "sint w = uint w" using assms uint_lt2p [of w] by (simp add: sint_of_uint64 split: if_split_asm)
  then show ?thesis by (simp add: nat_uint_eq)
qed

lemma read_scalar_i64_iff:
  "read_scalar_i64 arg name = Inr w \<longleftrightarrow> (\<exists>v. arg = CvScalar v \<and> scalar_int v = Some (sint w))"
proof
  assume "read_scalar_i64 arg name = Inr w"
  then show "\<exists>v. arg = CvScalar v \<and> scalar_int v = Some (sint w)"
    by (auto simp: read_scalar_i64_def sint_scast_up sint_ucast_up sint_small
        split: columnar.split_asm scalar.split_asm option.split_asm if_split_asm)
next
  assume "\<exists>v. arg = CvScalar v \<and> scalar_int v = Some (sint w)"
  then obtain v where v: "arg = CvScalar v" "scalar_int v = Some (sint w)" by blast
  have same: "sint x = sint w \<Longrightarrow> x = w" for x :: "64 word" by (rule signed_word_eqI)
  from v show "read_scalar_i64 arg name = Inr w"
    using i64_below [of w]
    by (induction v rule: scalar_int.induct)
      (auto simp: read_scalar_i64_def sint_scast_up sint_ucast_up sint_small intro!: same)
qed

lemma read_scalar_usize_iff: "read_scalar_usize arg name = Inr n \<longleftrightarrow> usize_literal arg n"
proof
  assume "read_scalar_usize arg name = Inr n"
  then obtain w where w: "read_scalar_i64 arg name = Inr w" "\<not> w <s 0" "n = unat w"
    by (auto simp: read_scalar_usize_def res_simps split: if_split_asm)
  then have "0 \<le> sint w" by (simp add: word_sless_alt)
  with w nat_sint [of w] i64_below [of w] show "usize_literal arg n"
    unfolding usize_literal_def read_scalar_i64_iff by auto
next
  assume "usize_literal arg n"
  then obtain v i where v: "arg = CvScalar v" "scalar_int v = Some i" "0 \<le> i" "i < 2 ^ 63" "n = nat i"
    by (auto simp: usize_literal_def)
  have i: "sint (word_of_int i :: 64 word) = i" using v(3,4) by (simp add: signed_take_bit_int_eq_self sint_sbintrunc')
  then have "read_scalar_i64 arg name = Inr (word_of_int i)" using v(1,2) by (simp only: read_scalar_i64_iff) auto
  moreover have "\<not> (word_of_int i :: 64 word) <s 0" using i v(3) by (simp add: word_sless_alt)
  moreover have "unat (word_of_int i :: 64 word) = n" using nat_sint [of "word_of_int i"] i v(3,5) by simp
  ultimately show "read_scalar_usize arg name = Inr n" by (simp add: read_scalar_usize_def)
qed

text \<open>The meaning of a call: its mode, size, overlap and texts, when the arguments are well formed.\<close>

definition chunk_call :: "columnar list \<Rightarrow> string \<Rightarrow> nat \<Rightarrow> nat \<Rightarrow> string option list \<Rightarrow> bool" where
  "chunk_call args mode sz overlap texts \<longleftrightarrow>
     (length args = 3 \<and> overlap = 0 \<or> length args = 4 \<and> usize_literal (args ! 3) overlap)
     \<and> (args ! 0 = CvScalar (SvUtf8 (Some mode)) \<or> args ! 0 = CvScalar (SvLargeUtf8 (Some mode)))
     \<and> usize_literal (args ! 2) sz \<and> overlap < sz
     \<and> (args ! 1 = CvUtf8 texts \<or> (\<exists>t. texts = [t] \<and> args ! 1 \<in> {CvScalar (SvUtf8 t), CvScalar (SvLargeUtf8 t)}))"

definition splitter_of :: "splitters \<Rightarrow> string \<Rightarrow> nat \<Rightarrow> nat \<Rightarrow> (string \<Rightarrow> string list) option" where
  "splitter_of T mode sz overlap =
     (if mode = ''character'' then Some (sp_text T sz overlap)
      else if mode = ''markdown'' then Some (sp_markdown T sz overlap) else None)"

lemma splitter_of_known: "(\<exists>f. splitter_of T mode sz overlap = Some f) \<longleftrightarrow> mode \<in> {''character'', ''markdown''}"
  by (simp add: splitter_of_def)

lemma read_scalar_string_iff:
  "read_scalar_string arg name = Inr s \<longleftrightarrow> arg = CvScalar (SvUtf8 (Some s)) \<or> arg = CvScalar (SvLargeUtf8 (Some s))"
  by (auto simp: read_scalar_string_def split: columnar.split scalar.split option.split)

lemma read_text_column_iff:
  "read_text_column arg name = Inr texts \<longleftrightarrow>
   arg = CvUtf8 texts \<or> (\<exists>t. texts = [t] \<and> arg \<in> {CvScalar (SvUtf8 t), CvScalar (SvLargeUtf8 t)})"
  by (auto simp: read_text_column_def split: columnar.split scalar.split)

lemma chunk_invoke_iff:
  "chunk_invoke T args = Inr a \<longleftrightarrow>
   (\<exists>mode sz overlap texts split. chunk_call args mode sz overlap texts \<and> splitter_of T mode sz overlap = Some split
      \<and> is_ok (sp_config T sz overlap) \<and> a = build_list_array texts split)"
  (is "?l \<longleftrightarrow> ?r")
proof
  assume L: ?l
  then have len: "\<not> (length args < 3 \<or> 4 < length args)" by (auto simp: chunk_invoke_def split: if_split_asm)
  from L len obtain mode where m: "read_scalar_string (args ! 0) ''mode'' = Inr mode"
    by (cases "read_scalar_string (args ! 0) ''mode''") (simp_all add: chunk_invoke_def)
  from L len m obtain sz where z: "read_scalar_usize (args ! 2) ''size'' = Inr sz"
    by (cases "read_scalar_usize (args ! 2) ''size''") (simp_all add: chunk_invoke_def)
  from L have pos: "sz \<noteq> 0"
    unfolding chunk_invoke_def if_not_P [OF len] m try_res_simps z by (auto split: if_split_asm)
  from L len m z pos obtain overlap where
    ov: "(if length args = 4 then read_scalar_usize (args ! 3) ''overlap'' else Inr 0) = Inr overlap"
    by (cases "if length args = 4 then read_scalar_usize (args ! 3) ''overlap'' else Inr 0") (simp_all add: chunk_invoke_def)
  from L len m z pos have below: "\<not> sz \<le> overlap"
    unfolding chunk_invoke_def if_not_P [OF len] m try_res_simps z if_not_P [OF pos] ov by (auto split: if_split_asm)
  from L len m z pos below obtain texts where t: "read_text_column (args ! 1) ''text'' = Inr texts"
    unfolding chunk_invoke_def if_not_P [OF len] m try_res_simps z if_not_P [OF pos] ov
    by (cases "read_text_column (args ! 1) ''text''") simp_all
  from L have "\<exists>split. splitter_of T mode sz overlap = Some split \<and> is_ok (sp_config T sz overlap) \<and> a = build_list_array texts split"
    unfolding chunk_invoke_def if_not_P [OF len] m try_res_simps z if_not_P [OF pos] ov if_not_P [OF below] t
    by (auto simp: splitter_of_def build_config_def is_ok_iff res_simps split: if_split_asm)
  with len m z pos ov below t show ?r
    by (intro exI [of _ mode] exI [of _ sz] exI [of _ overlap] exI [of _ texts])
      (auto simp: chunk_call_def read_scalar_string_iff read_scalar_usize_iff read_text_column_iff split: if_split_asm)
next
  assume ?r
  then obtain mode sz overlap texts split where c: "chunk_call args mode sz overlap texts"
    and s: "splitter_of T mode sz overlap = Some split" "is_ok (sp_config T sz overlap)" "a = build_list_array texts split" by blast
  have "read_scalar_string (args ! 0) ''mode'' = Inr mode" "read_scalar_usize (args ! 2) ''size'' = Inr sz"
    "read_text_column (args ! 1) ''text'' = Inr texts" "sz \<noteq> 0" "\<not> sz \<le> overlap"
    "(if length args = 4 then read_scalar_usize (args ! 3) ''overlap'' else Inr 0) = Inr overlap"
    "\<not> (length args < 3 \<or> 4 < length args)"
    using c by (auto simp: chunk_call_def read_scalar_string_iff read_scalar_usize_iff read_text_column_iff)
  moreover obtain u where "sp_config T sz overlap = Inr u" using s(2) by (auto simp: is_ok_iff)
  ultimately show ?l
    using s(1,3) by (auto simp: chunk_invoke_def splitter_of_def build_config_def split: if_split_asm)
qed

lemma chunk_call_reads:
  assumes "chunk_call args mode sz overlap texts"
  shows "read_scalar_string (args ! 0) name = Inr mode" "read_scalar_usize (args ! 2) name = Inr sz"
    "read_text_column (args ! 1) name = Inr texts"
    "(if length args = 4 then read_scalar_usize (args ! 3) name else Inr 0) = Inr overlap"
  using assms by (simp_all add: chunk_call_def read_scalar_string_iff read_scalar_usize_iff read_text_column_iff) auto

lemma chunk_call_unique:
  assumes "chunk_call args m z ov ts" and "chunk_call args mode sz overlap texts"
  shows "m = mode" "z = sz" "ov = overlap" "ts = texts"
  using chunk_call_reads [OF assms(1), of "[]"] chunk_call_reads [OF assms(2), of "[]"] by simp_all

text \<open>
  C35. A call of \<open>chunk\<close> either fails or returns a well-formed array with one row for each text: a
  null for a null, and otherwise the chunks of exactly that text. It is accepted exactly for three
  or four arguments with a mode literal, a text, and integer literals of any width for a size and a
  smaller overlap, when the mode is known and the library accepts the configuration.
\<close>

theorem chunk_result_is_typed:
  "(is_ok (chunk_invoke T args) \<longleftrightarrow>
      (\<exists>mode sz overlap texts. chunk_call args mode sz overlap texts
         \<and> mode \<in> {''character'', ''markdown''} \<and> is_ok (sp_config T sz overlap)))
   \<and> (\<forall>a mode sz overlap texts. chunk_invoke T args = Inr a \<longrightarrow> chunk_call args mode sz overlap texts \<longrightarrow>
      la_wf a \<and> la_rows a = map (map_option (the (splitter_of T mode sz overlap))) texts)"
proof (intro conjI allI impI)
  show "is_ok (chunk_invoke T args) \<longleftrightarrow> (\<exists>mode sz overlap texts. chunk_call args mode sz overlap texts
         \<and> mode \<in> {''character'', ''markdown''} \<and> is_ok (sp_config T sz overlap))" (is "?l \<longleftrightarrow> ?r")
  proof
    assume ?l
    then obtain a where "chunk_invoke T args = Inr a" by (auto simp: is_ok_iff)
    then obtain mode sz overlap texts split where c: "chunk_call args mode sz overlap texts"
      and s: "splitter_of T mode sz overlap = Some split" and k: "is_ok (sp_config T sz overlap)"
      unfolding chunk_invoke_iff by blast
    from s have "\<exists>f. splitter_of T mode sz overlap = Some f" by blast
    then have "mode \<in> {''character'', ''markdown''}" by (simp only: splitter_of_known)
    with c k show ?r by blast
  next
    assume ?r
    then obtain mode sz overlap texts where c: "chunk_call args mode sz overlap texts"
      and m: "mode \<in> {''character'', ''markdown''}" and k: "is_ok (sp_config T sz overlap)" by blast
    from m have "\<exists>f. splitter_of T mode sz overlap = Some f" by (simp only: splitter_of_known)
    then obtain split where "splitter_of T mode sz overlap = Some split" ..
    with c k have "chunk_invoke T args = Inr (build_list_array texts split)" unfolding chunk_invoke_iff by blast
    then show ?l by (simp add: is_ok_iff)
  qed
next
  fix a mode sz overlap texts
  assume "chunk_invoke T args = Inr a" and c: "chunk_call args mode sz overlap texts"
  then obtain m z ov ts split where c': "chunk_call args m z ov ts" and a: "splitter_of T m z ov = Some split" "a = build_list_array ts split"
    unfolding chunk_invoke_iff by blast
  have "m = mode" "z = sz" "ov = overlap" "ts = texts" by (rule chunk_call_unique [OF c' c])+
  with a la_of_rows_reads [of "map (map_option split) texts"]
  show "la_wf a" "la_rows a = map (map_option (the (splitter_of T mode sz overlap))) texts"
    by (simp_all add: build_list_array_rows)
qed

text \<open>A library that cuts a text into single characters, or keeps it whole.\<close>

definition demo_splitters :: splitters where
  "demo_splitters =
     \<lparr> sp_config = (\<lambda>_ _. Inr ()), sp_text = (\<lambda>_ _ t. map (\<lambda>c. [c]) t), sp_markdown = (\<lambda>_ _ t. [t]) \<rparr>"

definition demo_chunk_args :: "columnar list" where
  "demo_chunk_args =
     [CvScalar (SvUtf8 (Some ''character'')), CvUtf8 [Some ''ab'', None], CvScalar (SvInt32 (Some 1))]"

lemma demo_chunk_call: "chunk_call demo_chunk_args ''character'' 1 0 [Some ''ab'', None]"
  by (simp add: chunk_call_def demo_chunk_args_def usize_literal_def)

theorem chunk_result_is_typed_witness:
  "\<exists>a. chunk_invoke demo_splitters demo_chunk_args = Inr a \<and> la_wf a \<and> la_rows a = [Some [''a'', ''b''], None]"
proof -
  have "is_ok (chunk_invoke demo_splitters demo_chunk_args)"
    using demo_chunk_call by (subst chunk_result_is_typed [THEN conjunct1]) (auto simp: demo_splitters_def is_ok_iff)
  then obtain a where a: "chunk_invoke demo_splitters demo_chunk_args = Inr a" by (auto simp: is_ok_iff)
  from chunk_result_is_typed [THEN conjunct2, rule_format, OF a demo_chunk_call] a
  show ?thesis by (auto simp: splitter_of_def demo_splitters_def)
qed

end
