(* ===== verification/Llm_Types.thy ===== *)
theory Llm_Types
  imports Arrow_Lists Sql_Template
begin

text \<open>
  The typed result of \<open>llm_extract\<close> (\<^verbatim>\<open>model/llm_extract/mod.rs\<close>): the column types of a JSON
  Schema, the builders of the columns, and the row each extracted entity becomes. The JSON parser
  and printer and the number conversions are parameters, collected in \<open>json_lib\<close>; a floating-point
  value is represented by a text.
\<close>

section \<open>JSON values\<close>

record json_lib =
  jl_from_str :: "string \<Rightarrow> string + json"
  jl_to_string :: "json \<Rightarrow> string"
  jl_as_f64 :: "string \<Rightarrow> string option"
  jl_as_i64 :: "string \<Rightarrow> 64 word option"
  jl_less :: "string \<Rightarrow> string \<Rightarrow> bool"
  jl_parse_f64 :: "string \<Rightarrow> string option"

definition json_str :: "json \<Rightarrow> string option" where
  "json_str v = (case v of JString s \<Rightarrow> Some s | _ \<Rightarrow> None)"

definition json_array :: "json \<Rightarrow> json list option" where
  "json_array v = (case v of JArray xs \<Rightarrow> Some xs | _ \<Rightarrow> None)"

definition json_bool :: "json \<Rightarrow> bool option" where
  "json_bool v = (case v of JBool b \<Rightarrow> Some b | _ \<Rightarrow> None)"

definition json_f64 :: "json_lib \<Rightarrow> json \<Rightarrow> string option" where
  "json_f64 L v = (case v of JNumber n \<Rightarrow> jl_as_f64 L n | _ \<Rightarrow> None)"

definition json_i64 :: "json_lib \<Rightarrow> json \<Rightarrow> 64 word option" where
  "json_i64 L v = (case v of JNumber n \<Rightarrow> jl_as_i64 L n | _ \<Rightarrow> None)"

definition is_object :: "json \<Rightarrow> bool" where
  "is_object v = (case v of JObject _ \<Rightarrow> True | _ \<Rightarrow> False)"

text \<open>\<open>insert\<close> on the entries of an object, kept in the order of the keys.\<close>

fun obj_insert :: "string \<Rightarrow> json \<Rightarrow> (string \<times> json) list \<Rightarrow> (string \<times> json) list" where
  "obj_insert k v [] = [(k, v)]"
| "obj_insert k v ((k', v') # kvs) =
     (if k = k' then (k, v) # kvs else if k < k' then (k, v) # (k', v') # kvs else (k', v') # obj_insert k v kvs)"

lemma map_of_obj_insert [simp]: "map_of (obj_insert k v kvs) = (map_of kvs)(k \<mapsto> v)"
  by (induction k v kvs rule: obj_insert.induct) (auto simp: fun_eq_iff)

section \<open>The types of a schema\<close>

text \<open>The data types the fields of an entity have; every field may be null.\<close>

datatype field_type =
  DtUtf8 | DtFloat64 | DtInt64 | DtBoolean | DtList field_type | DtStruct "(string \<times> field_type) list"

lemma json_get_size: "json_get k v = Some w \<Longrightarrow> size w < size v"
  by (cases v)
    (auto simp: json_get_def less_Suc_eq_le dest!: map_of_SomeD elim!: size_list_estimation')

lemma object_entry_size: "(k, w) \<in> set kvs \<Longrightarrow> size w < size (JObject kvs)"
  by (auto simp: less_Suc_eq_le elim!: size_list_estimation')

lemma properties_smaller:
  assumes "json_get k v = Some (JObject kvs)" and "(n, w) \<in> set kvs"
  shows "size w < size v"
  using json_get_size [OF assms(1)] object_entry_size [OF assms(2)] by simp

function json_schema_properties_to_fields :: "json \<Rightarrow> (string \<times> field_type) list"
  and json_schema_property_to_type :: "json \<Rightarrow> field_type" where
  "json_schema_properties_to_fields schema =
     (case json_get ''properties'' schema of
        Some (JObject props) \<Rightarrow> map (\<lambda>(name, pr). (name, json_schema_property_to_type pr)) props
      | _ \<Rightarrow> [])"
| "json_schema_property_to_type pr =
     (let ty = (case Option.bind (json_get ''type'' pr) json_str of Some t \<Rightarrow> t | None \<Rightarrow> ''string'') in
      if ty = ''number'' then DtFloat64
      else if ty = ''integer'' then DtInt64
      else if ty = ''boolean'' then DtBoolean
      else if ty = ''array'' then
        (if Option.bind (Option.bind (json_get ''items'' pr) (json_get ''type'')) json_str = Some ''string''
         then DtList DtUtf8 else DtUtf8)
      else if ty = ''object'' then DtStruct (json_schema_properties_to_fields pr)
      else DtUtf8)"
  by pat_completeness auto

termination
  by (relation "measure (\<lambda>x. case x of Inl v \<Rightarrow> 2 * size v | Inr v \<Rightarrow> Suc (2 * size v))")
    (auto dest: properties_smaller)

declare json_schema_properties_to_fields.simps [simp del] json_schema_property_to_type.simps [simp del]

definition reserved_fields :: "(string \<times> field_type) list" where
  "reserved_fields = [(''_confidence'', DtFloat64), (''_status'', DtUtf8), (''_error'', DtUtf8)]"

definition entity_list_type :: "(string \<times> field_type) list \<Rightarrow> field_type" where
  "entity_list_type fs = DtList (DtStruct fs)"

datatype df_error = DfPlan string | DfExecution string

definition entity_struct_fields :: "json_lib \<Rightarrow> string \<Rightarrow> df_error + (string \<times> field_type) list" where
  "entity_struct_fields L json_schema =
     try_res (map_err (\<lambda>e. DfPlan (''llm_extract: json_schema is not valid JSON: '' @ e)) (jl_from_str L json_schema)) (\<lambda>schema_val.
     Inr (json_schema_properties_to_fields schema_val @ reserved_fields))"

text \<open>The types the function can declare: lists are lists of strings.\<close>

fun llm_type :: "field_type \<Rightarrow> bool" where
  "llm_type (DtList t) \<longleftrightarrow> t = DtUtf8"
| "llm_type (DtStruct fs) \<longleftrightarrow> (\<forall>f \<in> set fs. llm_type (snd f))"
| "llm_type _ \<longleftrightarrow> True"

lemma schema_types:
  "\<forall>f \<in> set (json_schema_properties_to_fields schema). llm_type (snd f)"
  "llm_type (json_schema_property_to_type pr)"
proof (induction schema and pr rule: json_schema_properties_to_fields_json_schema_property_to_type.induct)
  case (1 schema)
  show ?case
  proof (cases "json_get ''properties'' schema")
    case None
    then show ?thesis by (simp add: json_schema_properties_to_fields.simps)
  next
    case (Some p)
    with 1 show ?thesis by (cases p) (auto simp: json_schema_properties_to_fields.simps)
  qed
next
  case (2 pr)
  then show ?case by (subst json_schema_property_to_type.simps) (simp add: Let_def)
qed

lemma entity_fields_types: "entity_struct_fields L s = Inr fs \<Longrightarrow> llm_type (DtStruct fs)"
  using schema_types(1) by (fastforce simp: entity_struct_fields_def res_simps reserved_fields_def)

section \<open>Column builders\<close>

datatype builder =
  BUtf8 "string option list" | BFloat64 "string option list" | BInt64 "64 word option list"
| BBoolean "bool option list" | BList "string option list_array" | BStruct "builder list" "bool list"

text \<open>The empty builder of a type: \<open>StructBuilder::from_fields\<close> and what it makes of each field.\<close>

fun builder_of :: "field_type \<Rightarrow> builder" where
  "builder_of DtUtf8 = BUtf8 []"
| "builder_of DtFloat64 = BFloat64 []"
| "builder_of DtInt64 = BInt64 []"
| "builder_of DtBoolean = BBoolean []"
| "builder_of (DtList t) = BList la_empty"
| "builder_of (DtStruct fs) = BStruct (map (\<lambda>f. builder_of (snd f)) fs) []"

text \<open>The value of a string field: a string, or the text of any other value but null.\<close>

definition utf8_value :: "json_lib \<Rightarrow> json option \<Rightarrow> string option" where
  "utf8_value L val =
     (case val of
        Some (JString s) \<Rightarrow> Some s
      | Some v \<Rightarrow> if v \<noteq> JNull then Some (jl_to_string L v) else None
      | None \<Rightarrow> None)"

definition struct_value :: "json option \<Rightarrow> json option" where
  "struct_value val = (case val of Some v \<Rightarrow> if is_object v then Some v else None | None \<Rightarrow> None)"

text \<open>
  One value into the builder of its field, and the fields of one object into the builders of a
  struct. \<open>None\<close> is the panic of a builder of another type than its field's.
\<close>

fun append_field_value :: "json_lib \<Rightarrow> field_type \<Rightarrow> json option \<Rightarrow> builder \<Rightarrow> builder option"
  and append_fields :: "json_lib \<Rightarrow> (string \<times> field_type) list \<Rightarrow> json option \<Rightarrow> builder list \<Rightarrow> builder list option" where
  "append_field_value L DtUtf8 val (BUtf8 xs) = Some (BUtf8 (xs @ [utf8_value L val]))"
| "append_field_value L DtFloat64 val (BFloat64 xs) = Some (BFloat64 (xs @ [Option.bind val (json_f64 L)]))"
| "append_field_value L DtInt64 val (BInt64 xs) = Some (BInt64 (xs @ [Option.bind val (json_i64 L)]))"
| "append_field_value L DtBoolean val (BBoolean xs) = Some (BBoolean (xs @ [Option.bind val json_bool]))"
| "append_field_value L (DtList DtUtf8) val (BList a) =
     (case Option.bind val json_array of
        Some xs \<Rightarrow> Some (BList (la_close True (foldl (\<lambda>b x. la_append_value (json_str x) b) a xs)))
      | None \<Rightarrow> Some (BList (la_close False a)))"
| "append_field_value L (DtStruct nested) val (BStruct bs valid) =
     map_option (\<lambda>bs'. BStruct bs' (valid @ [struct_value val \<noteq> None])) (append_fields L nested (struct_value val) bs)"
| "append_field_value L _ val _ = None"
| "append_fields L [] obj bs = Some bs"
| "append_fields L ((n, t) # fs) obj (b # bs) =
     Option.bind (append_field_value L t (Option.bind obj (json_get n)) b) (\<lambda>b'.
     map_option (\<lambda>bs'. b' # bs') (append_fields L fs obj bs))"
| "append_fields L (f # fs) obj [] = None"

definition append_entity :: "json_lib \<Rightarrow> (string \<times> field_type) list \<Rightarrow> json \<Rightarrow> builder \<Rightarrow> builder option" where
  "append_entity L fs entity b =
     (case b of
        BStruct bs valid \<Rightarrow> map_option (\<lambda>bs'. BStruct bs' (valid @ [True])) (append_fields L fs (Some entity) bs)
      | _ \<Rightarrow> None)"

section \<open>What the columns hold\<close>

datatype cell =
  ClUtf8 "string option" | ClFloat64 "string option" | ClInt64 "64 word option" | ClBoolean "bool option"
| ClList "string option list option" | ClStruct bool "cell list"

text \<open>The cell a value becomes in a column of a type.\<close>

fun cell_of :: "json_lib \<Rightarrow> field_type \<Rightarrow> json option \<Rightarrow> cell" where
  "cell_of L DtUtf8 val = ClUtf8 (utf8_value L val)"
| "cell_of L DtFloat64 val = ClFloat64 (Option.bind val (json_f64 L))"
| "cell_of L DtInt64 val = ClInt64 (Option.bind val (json_i64 L))"
| "cell_of L DtBoolean val = ClBoolean (Option.bind val json_bool)"
| "cell_of L (DtList t) val = ClList (map_option (map json_str) (Option.bind val json_array))"
| "cell_of L (DtStruct fs) val =
     ClStruct (struct_value val \<noteq> None)
       (map (\<lambda>f. cell_of L (snd f) (Option.bind (struct_value val) (json_get (fst f)))) fs)"

definition entity_cells :: "json_lib \<Rightarrow> (string \<times> field_type) list \<Rightarrow> json \<Rightarrow> cell list" where
  "entity_cells L fs entity = map (\<lambda>f. cell_of L (snd f) (json_get (fst f) entity)) fs"

text \<open>A builder of a type with a number of rows, and its row at an index.\<close>

fun builder_ok :: "nat \<Rightarrow> field_type \<Rightarrow> builder \<Rightarrow> bool"
  and builders_ok :: "nat \<Rightarrow> (string \<times> field_type) list \<Rightarrow> builder list \<Rightarrow> bool" where
  "builder_ok n DtUtf8 (BUtf8 xs) \<longleftrightarrow> length xs = n"
| "builder_ok n DtFloat64 (BFloat64 xs) \<longleftrightarrow> length xs = n"
| "builder_ok n DtInt64 (BInt64 xs) \<longleftrightarrow> length xs = n"
| "builder_ok n DtBoolean (BBoolean xs) \<longleftrightarrow> length xs = n"
| "builder_ok n (DtList t) (BList a) \<longleftrightarrow> t = DtUtf8 \<and> la_wf a \<and> length (la_valid a) = n"
| "builder_ok n (DtStruct fs) (BStruct bs valid) \<longleftrightarrow> length valid = n \<and> builders_ok n fs bs"
| "builder_ok n _ _ \<longleftrightarrow> False"
| "builders_ok n [] [] \<longleftrightarrow> True"
| "builders_ok n ((k, t) # fs) (b # bs) \<longleftrightarrow> builder_ok n t b \<and> builders_ok n fs bs"
| "builders_ok n _ _ \<longleftrightarrow> False"

fun read_cell :: "builder \<Rightarrow> nat \<Rightarrow> cell" where
  "read_cell (BUtf8 xs) i = ClUtf8 (xs ! i)"
| "read_cell (BFloat64 xs) i = ClFloat64 (xs ! i)"
| "read_cell (BInt64 xs) i = ClInt64 (xs ! i)"
| "read_cell (BBoolean xs) i = ClBoolean (xs ! i)"
| "read_cell (BList a) i = ClList (la_row a i)"
| "read_cell (BStruct bs valid) i = ClStruct (valid ! i) (map (\<lambda>b. read_cell b i) bs)"

text \<open>A cell of a type.\<close>

fun entity_typed :: "field_type \<Rightarrow> cell \<Rightarrow> bool"
  and entities_typed :: "(string \<times> field_type) list \<Rightarrow> cell list \<Rightarrow> bool" where
  "entity_typed DtUtf8 (ClUtf8 _) \<longleftrightarrow> True"
| "entity_typed DtFloat64 (ClFloat64 _) \<longleftrightarrow> True"
| "entity_typed DtInt64 (ClInt64 _) \<longleftrightarrow> True"
| "entity_typed DtBoolean (ClBoolean _) \<longleftrightarrow> True"
| "entity_typed (DtList t) (ClList _) \<longleftrightarrow> t = DtUtf8"
| "entity_typed (DtStruct fs) (ClStruct _ cs) \<longleftrightarrow> entities_typed fs cs"
| "entity_typed _ _ \<longleftrightarrow> False"
| "entities_typed [] [] \<longleftrightarrow> True"
| "entities_typed ((k, t) # fs) (c # cs) \<longleftrightarrow> entity_typed t c \<and> entities_typed fs cs"
| "entities_typed _ _ \<longleftrightarrow> False"

lemma cells_induct:
  "\<lbrakk>P [] []; \<And>k t fs c cs. P fs cs \<Longrightarrow> P ((k, t) # fs) (c # cs); \<And>f fs. P (f # fs) []; \<And>c cs. P [] (c # cs)\<rbrakk>
   \<Longrightarrow> P (fs :: (string \<times> field_type) list) cs"
  by (rule list_induct2') auto

lemma cells_typed_iff: "entities_typed fs cs \<longleftrightarrow> list_all2 (\<lambda>f c. entity_typed (snd f) c) fs cs"
  by (induction fs cs rule: cells_induct) auto

lemma builders_ok_iff: "builders_ok n fs bs \<longleftrightarrow> list_all2 (\<lambda>f b. builder_ok n (snd f) b) fs bs"
  by (induction fs bs rule: cells_induct) auto

lemma builders_ok_Nil [simp]: "builders_ok n [] bs \<longleftrightarrow> bs = []"
  by (cases bs) simp_all

lemma cell_of_typed: "llm_type t \<Longrightarrow> entity_typed t (cell_of L t val)"
  by (induction L t val rule: cell_of.induct)
    (auto simp: cells_typed_iff list_all2_conv_all_nth)

lemma builder_of_ok: "llm_type t \<Longrightarrow> builder_ok 0 t (builder_of t)"
  by (induction t rule: builder_of.induct)
    (auto simp: builders_ok_iff list_all2_conv_all_nth la_empty_def la_wf_def)

lemma la_append_rows: "la_wf a \<Longrightarrow> length (la_valid a) = n \<Longrightarrow>
  la_wf (la_close v (a\<lparr>la_values := la_values a @ xs\<rparr>))
  \<and> (\<forall>i < n. la_row (la_close v (a\<lparr>la_values := la_values a @ xs\<rparr>)) i = la_row a i)
  \<and> la_row (la_close v (a\<lparr>la_values := la_values a @ xs\<rparr>)) n = (if v then Some xs else None)"
proof -
  assume a: "la_wf a" "length (la_valid a) = n"
  let ?b = "la_close v (a\<lparr>la_values := la_values a @ xs\<rparr>)"
  from la_append_row [OF a(1), of v xs] have wf: "la_wf ?b"
    and rows: "la_rows ?b = la_rows a @ [if v then Some xs else None]" by blast+
  have len: "length (la_valid ?b) = Suc n" using a(2) by (simp add: la_close_def)
  have nth: "la_row ?b i = la_rows ?b ! i" if "i < Suc n" for i
    unfolding la_rows_def using that len by (simp del: upt_Suc)
  have "la_row ?b i = la_row a i" if "i < n" for i
    using that a(2) nth [of i] by (simp add: rows nth_append) (simp add: la_rows_def)
  moreover have "la_row ?b n = (if v then Some xs else None)"
    using a(2) nth [of n] by (simp add: rows nth_append) (simp add: la_rows_def)
  ultimately show ?thesis using wf by blast
qed

lemma la_append_values_map: "foldl (\<lambda>b x. la_append_value (g x) b) a xs = a\<lparr>la_values := la_values a @ map g xs\<rparr>"
  by (induction xs arbitrary: a) (simp_all add: la_append_value_def)

text \<open>A value appended to a builder is the builder's last row, and the rows before it stay.\<close>

definition appended :: "nat \<Rightarrow> field_type \<Rightarrow> builder \<Rightarrow> cell \<Rightarrow> builder option \<Rightarrow> bool" where
  "appended n t b c r \<longleftrightarrow>
     (\<exists>b'. r = Some b' \<and> builder_ok (Suc n) t b' \<and> (\<forall>i < n. read_cell b' i = read_cell b i) \<and> read_cell b' n = c)"

lemma append_refines:
  "llm_type t \<Longrightarrow> builder_ok n t b \<Longrightarrow> appended n t b (cell_of L t val) (append_field_value L t val b)"
  "\<forall>f \<in> set fs. llm_type (snd f) \<Longrightarrow> builders_ok n fs bs \<Longrightarrow>
   \<exists>bs'. append_fields L fs obj bs = Some bs' \<and> builders_ok (Suc n) fs bs'
     \<and> (\<forall>i < n. map (\<lambda>b. read_cell b i) bs' = map (\<lambda>b. read_cell b i) bs)
     \<and> map (\<lambda>b. read_cell b n) bs' = map (\<lambda>f. cell_of L (snd f) (Option.bind obj (json_get (fst f)))) fs"
proof (induction L t val b and L fs obj bs rule: append_field_value_append_fields.induct)
  case (5 L val a)
  then have a: "la_wf a" "length (la_valid a) = n" by simp_all
  have len: "length (la_valid (la_close v c)) = Suc (length (la_valid c))" for v and c :: "string option list_array"
    by (simp add: la_close_def)
  show ?case
  proof (cases "Option.bind val json_array")
    case None
    with la_append_rows [OF a, of False "[]"] a len show ?thesis by (simp add: appended_def)
  next
    case (Some xs)
    with la_append_rows [OF a, of True "map json_str xs"] a len show ?thesis
      by (simp add: appended_def la_append_values_map)
  qed
next
  case (6 L nested val bs valid)
  then obtain bs' where "append_fields L nested (struct_value val) bs = Some bs'" "builders_ok (Suc n) nested bs'"
    "\<forall>i < n. map (\<lambda>b. read_cell b i) bs' = map (\<lambda>b. read_cell b i) bs"
    "map (\<lambda>b. read_cell b n) bs' = map (\<lambda>f. cell_of L (snd f) (Option.bind (struct_value val) (json_get (fst f)))) nested"
    by auto
  with 6 show ?case by (auto simp: appended_def nth_append)
next
  case (9 L k t fs obj b bs)
  then have "appended n t b (cell_of L t (Option.bind obj (json_get k))) (append_field_value L t (Option.bind obj (json_get k)) b)"
    by simp
  with 9 show ?case by (fastforce simp: appended_def)
qed (auto simp: appended_def nth_append)

lemma append_entity_refines:
  assumes "llm_type (DtStruct fs)" and "builder_ok n (DtStruct fs) b"
  shows "appended n (DtStruct fs) b (ClStruct True (entity_cells L fs entity)) (append_entity L fs entity b)"
proof -
  obtain bs valid where b: "b = BStruct bs valid" "length valid = n" "builders_ok n fs bs"
    using assms(2) by (cases b) auto
  from append_refines(2) [of fs n bs L "Some entity"] assms(1) b(3) obtain bs' where
    "append_fields L fs (Some entity) bs = Some bs'" "builders_ok (Suc n) fs bs'"
    "\<forall>i < n. map (\<lambda>b. read_cell b i) bs' = map (\<lambda>b. read_cell b i) bs"
    "map (\<lambda>b. read_cell b n) bs' = entity_cells L fs entity"
    by (auto simp: entity_cells_def)
  with b show ?thesis by (simp add: appended_def append_entity_def nth_append)
qed

lemma entity_cells_typed: "llm_type (DtStruct fs) \<Longrightarrow> entities_typed fs (entity_cells L fs entity)"
  by (auto simp: cells_typed_iff entity_cells_def list_all2_conv_all_nth cell_of_typed)

end
