(* ===== verification/Llm_Extract.thy ===== *)
theory Llm_Extract
  imports Llm_Types
begin

text \<open>
  The \<open>llm_extract\<close> function (\<^verbatim>\<open>model/llm_extract/mod.rs\<close>): the rows of a batch, each with a text
  request, the confidence gate, the escalation with an image and the statuses of its entities; the
  policy of fetching images; the array of structs that is returned.

  A model's answer may depend on everything it was asked before: a provider is a function of the
  requests made so far and of the new one, and the operations thread the list of requests.
\<close>

section \<open>Requests\<close>

record image_input =
  im_base64 :: string
  im_mime :: string

record completion_request =
  cq_schema :: string
  cq_text :: string
  cq_image :: "image_input option"

record llm_registry =
  lr_complete :: "completion_request list \<Rightarrow> completion_request \<Rightarrow> string + json list"
  lr_threshold :: string
  lr_max_calls :: "32 word option"
  lr_vision :: bool

section \<open>Images\<close>

text \<open>
  The world of the fetches: the bytes and the content type of a URL, the bytes of a file, and the
  base64 encoder.
\<close>

record image_io =
  io_http_get :: "string \<Rightarrow> string + (string \<times> string option)"
  io_read_file :: "string \<Rightarrow> string + string"
  io_base64 :: "string \<Rightarrow> string"

definition env_flag :: "(string \<Rightarrow> string option) \<Rightarrow> string \<Rightarrow> string option" where
  "env_flag env name = map_option (to_lowercase \<circ> str_trim) (env name)"

definition image_fetch_allowed :: "(string \<Rightarrow> string option) \<Rightarrow> bool" where
  "image_fetch_allowed env \<longleftrightarrow> env_flag env ''LLM_EXTRACT_IMAGE_FETCH'' \<in> {Some ''1'', Some ''true'', Some ''yes''}"

definition mime_from_path :: "string \<Rightarrow> string" where
  "mime_from_path path =
     (let ext = to_lowercase (last (str_split (CHR ''.'') path)) in
      if ext \<in> {''jpg'', ''jpeg''} then ''image/jpeg''
      else if ext = ''gif'' then ''image/gif''
      else if ext = ''webp'' then ''image/webp''
      else ''image/png'')"

definition fetch_image_with_policy :: "image_io \<Rightarrow> string \<Rightarrow> bool \<Rightarrow> string + image_input" where
  "fetch_image_with_policy io image_ref allow_fetch =
     (case strip_prefix ''data:'' image_ref of
        Some rest \<Rightarrow>
          (case split_once (CHR '','') rest of
             None \<Rightarrow> Inl ''malformed data URI''
           | Some (meta, payload) \<Rightarrow>
               let mime = (case strip_suffix '';base64'' meta of Some m \<Rightarrow> m | None \<Rightarrow> meta);
                   mime = (if mime = [] then ''image/png'' else mime) in
               Inr \<lparr>im_base64 = payload, im_mime = mime\<rparr>)
      | None \<Rightarrow>
          if \<not> allow_fetch
          then Inl (''refusing to fetch image_ref '' @ [squote] @ image_ref @ [squote]
                    @ '': only data: URIs are allowed by default (SSRF / path-traversal guard). ''
                    @ ''Set LLM_EXTRACT_IMAGE_FETCH=1 to enable http(s)/file fetching'')
          else if starts_with ''http://'' image_ref \<or> starts_with ''https://'' image_ref
          then
            try_res (io_http_get io image_ref) (\<lambda>(bytes, content_type).
            Inr \<lparr>im_base64 = io_base64 io bytes,
                 im_mime = (case content_type of Some m \<Rightarrow> m | None \<Rightarrow> ''image/png'')\<rparr>)
          else
            (let path = (case strip_prefix ''file://'' image_ref of Some p \<Rightarrow> p | None \<Rightarrow> image_ref) in
             try_res (map_err (\<lambda>_. ''reading image file '' @ [squote] @ path @ [squote]) (io_read_file io path)) (\<lambda>bytes.
             Inr \<lparr>im_base64 = io_base64 io bytes, im_mime = mime_from_path path\<rparr>)))"

definition fetch_image :: "(string \<Rightarrow> string option) \<Rightarrow> image_io \<Rightarrow> string \<Rightarrow> string + image_input" where
  "fetch_image env io image_ref = fetch_image_with_policy io image_ref (image_fetch_allowed env)"

section \<open>Entities\<close>

definition is_error_entity :: "json \<Rightarrow> bool" where
  "is_error_entity entity \<longleftrightarrow> Option.bind (json_get ''_status'' entity) json_str = Some ''error''"

definition is_weak :: "json_lib \<Rightarrow> json \<Rightarrow> string \<Rightarrow> string list \<Rightarrow> bool" where
  "is_weak L entity threshold required \<longleftrightarrow>
     is_error_entity entity
     \<or> (case Option.bind (json_get ''_confidence'' entity) (json_f64 L) of
          Some c \<Rightarrow> jl_less L c threshold | None \<Rightarrow> False)
     \<or> list_ex (\<lambda>field. case json_get field entity of Some v \<Rightarrow> v = JNull | None \<Rightarrow> True) required"

definition stamp_status :: "json_lib \<Rightarrow> string \<Rightarrow> string list \<Rightarrow> json \<Rightarrow> json" where
  "stamp_status L threshold required entity =
     (case entity of
        JObject obj \<Rightarrow>
          if is_error_entity entity then entity
          else JObject (obj_insert ''_status''
                 (JString (if is_weak L (JObject obj) threshold required then ''low_confidence'' else ''ok'')) obj)
      | _ \<Rightarrow> entity)"

definition parse_required :: "json_lib \<Rightarrow> string \<Rightarrow> string list" where
  "parse_required L json_schema =
     (case jl_from_str L json_schema of
        Inl _ \<Rightarrow> []
      | Inr v \<Rightarrow>
          (case Option.bind (json_get ''required'' v) json_array of
             Some arr \<Rightarrow> List.map_filter json_str arr
           | None \<Rightarrow> []))"

definition error_entity :: "string \<Rightarrow> json" where
  "error_entity e = JObject [(''_error'', JString e), (''_status'', JString ''error'')]"

section \<open>One row\<close>

text \<open>The escalation budget and the requests made so far.\<close>

record llm_run =
  lu_budget :: "32 word option"
  lu_asked :: "completion_request list"

definition complete_blocking :: "llm_registry \<Rightarrow> completion_request \<Rightarrow> llm_run \<Rightarrow> (string + json list) \<times> llm_run" where
  "complete_blocking reg req st = (lr_complete reg (lu_asked st) req, st\<lparr>lu_asked := lu_asked st @ [req]\<rparr>)"

definition spend_call :: "llm_run \<Rightarrow> llm_run" where
  "spend_call st = st\<lparr>lu_budget := map_option (\<lambda>n. if n = 0 then 0 else n - 1) (lu_budget st)\<rparr>"

definition extract_row ::
  "json_lib \<Rightarrow> llm_registry \<Rightarrow> (string \<Rightarrow> string + image_input) \<Rightarrow> string \<Rightarrow> string list \<Rightarrow> string
    \<Rightarrow> string option \<Rightarrow> llm_run \<Rightarrow> json list \<times> llm_run" where
  "extract_row L reg fetch json_schema required text image_ref st =
     (let (answer, st) = complete_blocking reg \<lparr>cq_schema = json_schema, cq_text = text, cq_image = None\<rparr> st in
      case answer of
        Inl e \<Rightarrow> ([error_entity e], st)
      | Inr entities \<Rightarrow>
          let stamped = map (stamp_status L (lr_threshold reg) required);
              any_weak = list_ex (\<lambda>e. is_weak L e (lr_threshold reg) required) entities;
              budget_ok = (lu_budget st \<noteq> Some 0) in
          if any_weak \<and> lr_vision reg \<and> budget_ok then
            (case image_ref of
               None \<Rightarrow> (stamped entities, st)
             | Some reference \<Rightarrow>
                 (case fetch reference of
                    Inl _ \<Rightarrow> (stamped entities, st)
                  | Inr img \<Rightarrow>
                      let (answer, st) =
                            complete_blocking reg \<lparr>cq_schema = json_schema, cq_text = text, cq_image = Some img\<rparr>
                              (spend_call st) in
                      (case answer of
                         Inr escalated \<Rightarrow> (stamped escalated, st)
                       | Inl e \<Rightarrow> ([error_entity (''multimodal escalation failed: '' @ e)], st))))
          else (stamped entities, st))"

section \<open>A batch\<close>

definition to_string_array :: "columnar \<Rightarrow> nat \<Rightarrow> string \<Rightarrow> df_error + string option list" where
  "to_string_array arg num_rows label =
     (case arg of
        CvUtf8 arr \<Rightarrow> Inr arr
      | CvScalar (SvUtf8 v) \<Rightarrow> Inr (replicate (max num_rows 1) v)
      | CvScalar SvNull \<Rightarrow> Inr (replicate (max num_rows 1) None)
      | _ \<Rightarrow> Inl (DfExecution (''llm_extract '' @ label @ '' must be a Utf8 column'')))"

definition extract_string_literal :: "columnar \<Rightarrow> string \<Rightarrow> df_error + string" where
  "extract_string_literal arg label =
     (case arg of
        CvScalar (SvUtf8 (Some s)) \<Rightarrow> Inr s
      | _ \<Rightarrow> Inl (DfExecution (''llm_extract '' @ label @ '' must be a non-null string literal'')))"

definition llm_return_fields :: "json_lib \<Rightarrow> scalar option list \<Rightarrow> df_error + (string \<times> field_type) list" where
  "llm_return_fields L scalar_arguments =
     (case (if 2 < length scalar_arguments then scalar_arguments ! 2 else None) of
        Some (SvUtf8 (Some s)) \<Rightarrow> entity_struct_fields L s
      | _ \<Rightarrow> Inl (DfPlan ''llm_extract third argument (json_schema) must be a non-null string literal''))"

definition llm_return_field :: "json_lib \<Rightarrow> scalar option list \<Rightarrow> df_error + (string \<times> field_type)" where
  "llm_return_field L scalar_arguments =
     try_res (llm_return_fields L scalar_arguments) (\<lambda>fs. Inr (''llm_extract'', entity_list_type fs))"

text \<open>
  The loop over the rows: the builder of the entities, the offsets of the lists, and the run. \<open>None\<close>
  is a panic, of a builder or of an image column shorter than the text column.
\<close>

record llm_batch =
  lb_builder :: builder
  lb_offsets :: "nat list"
  lb_total :: nat
  lb_run :: llm_run

fun append_entities :: "json_lib \<Rightarrow> (string \<times> field_type) list \<Rightarrow> json list \<Rightarrow> llm_batch \<Rightarrow> llm_batch option" where
  "append_entities L fs [] b = Some b"
| "append_entities L fs (e # es) b =
     Option.bind (append_entity L fs e (lb_builder b)) (\<lambda>sb.
     append_entities L fs es (b\<lparr>lb_builder := sb, lb_total := lb_total b + 1\<rparr>))"

definition push_offset :: "llm_batch \<Rightarrow> llm_batch" where
  "push_offset b = b\<lparr>lb_offsets := lb_offsets b @ [lb_total b]\<rparr>"

definition llm_row ::
  "json_lib \<Rightarrow> llm_registry \<Rightarrow> (string \<Rightarrow> string + image_input) \<Rightarrow> string \<Rightarrow> string list \<Rightarrow> (string \<times> field_type) list
    \<Rightarrow> string option list \<Rightarrow> string option list \<Rightarrow> nat \<Rightarrow> llm_batch \<Rightarrow> llm_batch option" where
  "llm_row L reg fetch json_schema required fs texts images i b =
     (case texts ! i of
        None \<Rightarrow> Some (push_offset b)
      | Some t \<Rightarrow>
          if t = [] then Some (push_offset b)
          else if length images \<le> i then None
          else
            let (entities, st) = extract_row L reg fetch json_schema required t (images ! i) (lb_run b) in
            map_option push_offset (append_entities L fs entities (b\<lparr>lb_run := st\<rparr>)))"

fun llm_rows ::
  "json_lib \<Rightarrow> llm_registry \<Rightarrow> (string \<Rightarrow> string + image_input) \<Rightarrow> string \<Rightarrow> string list \<Rightarrow> (string \<times> field_type) list
    \<Rightarrow> string option list \<Rightarrow> string option list \<Rightarrow> nat list \<Rightarrow> llm_batch \<Rightarrow> llm_batch option" where
  "llm_rows L reg fetch json_schema required fs texts images [] b = Some b"
| "llm_rows L reg fetch json_schema required fs texts images (i # is) b =
     Option.bind (llm_row L reg fetch json_schema required fs texts images i b)
       (llm_rows L reg fetch json_schema required fs texts images is)"

text \<open>The array that is returned: the entities of all rows and the offsets of each row's list.\<close>

record llm_array =
  ll_values :: builder
  ll_offsets :: "nat list"

definition llm_invoke ::
  "json_lib \<Rightarrow> llm_registry \<Rightarrow> (string \<Rightarrow> string option) \<Rightarrow> image_io \<Rightarrow> nat \<Rightarrow> columnar list
    \<Rightarrow> completion_request list \<Rightarrow> (df_error + llm_array \<times> llm_run) option" where
  "llm_invoke L reg env io num_rows args asked =
     (if length args \<noteq> 3
      then Some (Inl (DfExecution ''llm_extract requires 3 arguments: text, image_ref, json_schema''))
      else
        case to_string_array (args ! 0) num_rows ''first argument (text)'' of Inl e \<Rightarrow> Some (Inl e) | Inr texts \<Rightarrow>
        case to_string_array (args ! 1) num_rows ''second argument (image_ref)'' of Inl e \<Rightarrow> Some (Inl e) | Inr images \<Rightarrow>
        case extract_string_literal (args ! 2) ''third argument (json_schema)'' of Inl e \<Rightarrow> Some (Inl e) | Inr json_schema \<Rightarrow>
        let required = parse_required L json_schema in
        case entity_struct_fields L json_schema of Inl e \<Rightarrow> Some (Inl e) | Inr fs \<Rightarrow>
        let start = \<lparr>lb_builder = builder_of (DtStruct fs), lb_offsets = [0], lb_total = 0,
                     lb_run = \<lparr>lu_budget = lr_max_calls reg, lu_asked = asked\<rparr>\<rparr> in
        map_option (\<lambda>b. Inr (\<lparr>ll_values = lb_builder b, ll_offsets = lb_offsets b\<rparr>, lb_run b))
          (llm_rows L reg (fetch_image env io) json_schema required fs texts images [0..<length texts] start))"

section \<open>What a batch returns\<close>

text \<open>The entities of the rows of a batch: none for a missing or empty text, else those of the row.\<close>

fun batch_entities ::
  "json_lib \<Rightarrow> llm_registry \<Rightarrow> (string \<Rightarrow> string + image_input) \<Rightarrow> string \<Rightarrow> string list
    \<Rightarrow> (string option \<times> string option) list \<Rightarrow> llm_run \<Rightarrow> json list list \<times> llm_run" where
  "batch_entities L reg fetch json_schema required [] st = ([], st)"
| "batch_entities L reg fetch json_schema required ((t, img) # rows) st =
     (let (es, st) = (case t of
                        None \<Rightarrow> ([], st)
                      | Some t \<Rightarrow> if t = [] then ([], st) else extract_row L reg fetch json_schema required t img st);
          (rest, st) = batch_entities L reg fetch json_schema required rows st in
      (es # rest, st))"

lemma batch_entities_length: "length (fst (batch_entities L reg fetch js required rows st)) = length rows"
  by (induction L reg fetch js required rows st rule: batch_entities.induct)
    (auto simp: Let_def split: prod.splits option.split)

text \<open>The state of the loop as an array of lists of entity cells.\<close>

definition batch_lists :: "llm_batch \<Rightarrow> cell list_array" where
  "batch_lists b =
     \<lparr>la_values = map (read_cell (lb_builder b)) [0..<lb_total b], la_offsets = lb_offsets b,
      la_valid = replicate (length (lb_offsets b) - 1) True\<rparr>"

definition entity_cell :: "json_lib \<Rightarrow> (string \<times> field_type) list \<Rightarrow> json \<Rightarrow> cell" where
  "entity_cell L fs e = ClStruct True (entity_cells L fs e)"

lemma append_entities_refines:
  assumes "llm_type (DtStruct fs)" and "builder_ok (lb_total b) (DtStruct fs) (lb_builder b)"
  shows "\<exists>b'. append_entities L fs es b = Some b' \<and> builder_ok (lb_total b') (DtStruct fs) (lb_builder b')
    \<and> lb_offsets b' = lb_offsets b \<and> lb_run b' = lb_run b
    \<and> map (read_cell (lb_builder b')) [0..<lb_total b']
        = map (read_cell (lb_builder b)) [0..<lb_total b] @ map (entity_cell L fs) es"
  using assms(2)
proof (induction es arbitrary: b)
  case Nil
  then show ?case by simp
next
  case (Cons e es)
  from append_entity_refines [OF assms(1) Cons.prems, of L e]
  obtain sb where sb: "append_entity L fs e (lb_builder b) = Some sb" "builder_ok (Suc (lb_total b)) (DtStruct fs) sb"
    "\<forall>i < lb_total b. read_cell sb i = read_cell (lb_builder b) i" "read_cell sb (lb_total b) = entity_cell L fs e"
    by (auto simp: appended_def entity_cell_def)
  have "builder_ok (lb_total (b\<lparr>lb_builder := sb, lb_total := lb_total b + 1\<rparr>)) (DtStruct fs)
          (lb_builder (b\<lparr>lb_builder := sb, lb_total := lb_total b + 1\<rparr>))"
    using sb(2) by simp
  from Cons.IH [OF this] sb show ?case by auto
qed

definition llm_batch_ok :: "json_lib \<Rightarrow> (string \<times> field_type) list \<Rightarrow> json list list \<Rightarrow> llm_batch \<Rightarrow> bool" where
  "llm_batch_ok L fs ess b \<longleftrightarrow>
     builder_ok (lb_total b) (DtStruct fs) (lb_builder b) \<and> la_wf (batch_lists b)
     \<and> la_rows (batch_lists b) = map (\<lambda>es. Some (map (entity_cell L fs) es)) ess"

lemma push_offset_refines:
  assumes "llm_batch_ok L fs ess b" and "builder_ok (lb_total b') (DtStruct fs) (lb_builder b')"
    and "lb_offsets b' = lb_offsets b"
    and "map (read_cell (lb_builder b')) [0..<lb_total b']
        = map (read_cell (lb_builder b)) [0..<lb_total b] @ map (entity_cell L fs) es"
  shows "llm_batch_ok L fs (ess @ [es]) (push_offset b')"
proof -
  have wf: "la_wf (batch_lists b)" using assms(1) by (simp add: llm_batch_ok_def)
  then have ne: "lb_offsets b \<noteq> []" using la_last_offset [OF wf] by (simp add: batch_lists_def)
  have "length (map (read_cell (lb_builder b')) [0..<lb_total b']) = lb_total b'" by simp
  then have "lb_total b' = length (map (read_cell (lb_builder b)) [0..<lb_total b] @ map (entity_cell L fs) es)"
    unfolding assms(4) by simp
  then have "batch_lists (push_offset b')
      = la_close True (batch_lists b\<lparr>la_values := la_values (batch_lists b) @ map (entity_cell L fs) es\<rparr>)"
    using ne assms(3,4) by (cases "lb_offsets b") (simp_all add: batch_lists_def push_offset_def la_close_def replicate_append_same [symmetric])
  with la_append_row [OF wf, of True "map (entity_cell L fs) es"] assms(1,2)
  show ?thesis by (simp add: llm_batch_ok_def push_offset_def)
qed

lemma llm_rows_refines:
  assumes "llm_type (DtStruct fs)" and "llm_batch_ok L fs ess b" and "\<forall>i \<in> set is. i < length images"
  shows "\<exists>b'. llm_rows L reg fetch js required fs texts images is b = Some b'
    \<and> llm_batch_ok L fs (ess @ fst (batch_entities L reg fetch js required (map (\<lambda>i. (texts ! i, images ! i)) is) (lb_run b))) b'
    \<and> lb_run b' = snd (batch_entities L reg fetch js required (map (\<lambda>i. (texts ! i, images ! i)) is) (lb_run b))"
  using assms(2,3)
proof (induction "is" arbitrary: b ess)
  case Nil
  then show ?case by simp
next
  case (Cons i "is")
  show ?case
  proof (cases "texts ! i \<in> {None, Some []}")
    case True
    have "llm_batch_ok L fs (ess @ [[]]) (push_offset b)"
      by (rule push_offset_refines [OF Cons.prems(1)]) (use Cons.prems(1) in \<open>auto simp: llm_batch_ok_def\<close>)
    from Cons.IH [OF this] Cons.prems(2) True show ?thesis
      by (auto simp: llm_row_def push_offset_def Let_def split: prod.splits)
  next
    case False
    then obtain t where t: "texts ! i = Some t" "t \<noteq> []" by auto
    obtain es st where es: "extract_row L reg fetch js required t (images ! i) (lb_run b) = (es, st)" by fastforce
    from append_entities_refines [OF assms(1), of "b\<lparr>lb_run := st\<rparr>" L es] Cons.prems(1)
    obtain b' where b': "append_entities L fs es (b\<lparr>lb_run := st\<rparr>) = Some b'" "builder_ok (lb_total b') (DtStruct fs) (lb_builder b')"
      "lb_offsets b' = lb_offsets b" "lb_run b' = st"
      "map (read_cell (lb_builder b')) [0..<lb_total b']
        = map (read_cell (lb_builder b)) [0..<lb_total b] @ map (entity_cell L fs) es"
      by (auto simp: llm_batch_ok_def)
    have ok: "llm_batch_ok L fs (ess @ [es]) (push_offset b')"
      by (rule push_offset_refines [OF Cons.prems(1) b'(2,3,5)])
    have run: "lb_run (push_offset b') = st" using b'(4) by (simp add: push_offset_def)
    have row: "llm_row L reg fetch js required fs texts images i b = Some (push_offset b')"
      using Cons.prems(2) t es b'(1) by (simp add: llm_row_def)
    from Cons.IH [OF ok] Cons.prems(2) run row t es show ?thesis
      by (auto simp: Let_def split: prod.splits)
  qed
qed

text \<open>A column of strings with a number of rows: an array of that length, or one value repeated.\<close>

definition text_column :: "nat \<Rightarrow> columnar \<Rightarrow> string option list \<Rightarrow> bool" where
  "text_column n arg vs \<longleftrightarrow>
     length vs = n \<and> (arg = CvUtf8 vs \<or> (\<exists>v. arg = CvScalar (SvUtf8 v) \<and> vs = replicate n v)
                      \<or> arg = CvScalar SvNull \<and> vs = replicate n None)"

lemma text_column_array: "text_column n arg vs \<Longrightarrow> 0 < n \<Longrightarrow> to_string_array arg n label = Inr vs"
  by (cases n) (auto simp: text_column_def to_string_array_def)

text \<open>The array as lists of entity cells.\<close>

definition llm_lists :: "llm_array \<Rightarrow> cell list_array" where
  "llm_lists a =
     \<lparr>la_values = map (read_cell (ll_values a)) [0..<last (ll_offsets a)], la_offsets = ll_offsets a,
      la_valid = replicate (length (ll_offsets a) - 1) True\<rparr>"

lemma llm_lists_batch:
  assumes "la_wf (batch_lists b)"
  shows "llm_lists \<lparr>ll_values = lb_builder b, ll_offsets = lb_offsets b\<rparr> = batch_lists b"
proof -
  have "last (lb_offsets b) = lb_total b" using assms by (simp add: la_wf_def batch_lists_def)
  then show ?thesis by (simp add: llm_lists_def batch_lists_def)
qed

lemma llm_invoke_batch:
  assumes args: "length args = 3" "args ! 2 = CvScalar (SvUtf8 (Some js))"
    and plan: "entity_struct_fields L js = Inr fs"
    and cols: "text_column n (args ! 0) texts" "text_column n (args ! 1) images" "0 < n"
    and out_def: "out = batch_entities L reg (fetch_image env io) js (parse_required L js) (zip texts images)
                   \<lparr>lu_budget = lr_max_calls reg, lu_asked = asked\<rparr>"
  shows "\<exists>b. llm_batch_ok L fs (fst out) b
    \<and> llm_invoke L reg env io n args asked
        = Some (Inr (\<lparr>ll_values = lb_builder b, ll_offsets = lb_offsets b\<rparr>, snd out))"
proof -
  have len: "length texts = n" "length images = n" using cols by (auto simp: text_column_def)
  let ?run = "\<lparr>lu_budget = lr_max_calls reg, lu_asked = asked\<rparr>"
  let ?b = "\<lparr>lb_builder = builder_of (DtStruct fs), lb_offsets = [0], lb_total = 0, lb_run = ?run\<rparr>"
  have t: "llm_type (DtStruct fs)" by (rule entity_fields_types [OF plan])
  have ok: "llm_batch_ok L fs [] ?b"
    using builder_of_ok [OF t] by (simp add: llm_batch_ok_def batch_lists_def la_wf_def la_rows_def)
  have idx: "map (\<lambda>i. (texts ! i, images ! i)) [0..<length texts] = zip texts images"
    using len by (intro nth_equalityI) simp_all
  from llm_rows_refines [OF t ok, of "[0..<length texts]" images reg "fetch_image env io" js "parse_required L js" texts] len
  obtain b where b: "llm_rows L reg (fetch_image env io) js (parse_required L js) fs texts images [0..<length texts] ?b = Some b"
    "llm_batch_ok L fs (fst out) b" "lb_run b = snd out"
    by (auto simp: idx out_def)
  have "llm_invoke L reg env io n args asked
      = Some (Inr (\<lparr>ll_values = lb_builder b, ll_offsets = lb_offsets b\<rparr>, snd out))"
    using args plan cols b(1,3) by (simp add: llm_invoke_def text_column_array [of n] extract_string_literal_def Let_def)
  with b(2) show ?thesis by blast
qed

text \<open>
  C36. When planning accepts the schema literal, every call with it succeeds, whatever the model
  answers: it returns, without a panic, a column of the planned type with one list per row, and the
  list of a row holds exactly that row's entities, field by field in the planned order.
\<close>

theorem llm_result_refines_entities:
  assumes "llm_return_fields L sargs = Inr fs" and "sargs ! 2 = Some s"
    and "length args = 3" and "args ! 2 = CvScalar s"
    and "text_column n (args ! 0) texts" and "text_column n (args ! 1) images" and "0 < n"
  shows "\<exists>a st js. s = SvUtf8 (Some js) \<and> llm_invoke L reg env io n args asked = Some (Inr (a, st))
    \<and> builder_ok (last (ll_offsets a)) (DtStruct fs) (ll_values a) \<and> la_wf (llm_lists a)
    \<and> la_rows (llm_lists a)
        = map (\<lambda>es. Some (map (entity_cell L fs) es))
            (fst (batch_entities L reg (fetch_image env io) js (parse_required L js) (zip texts images)
                    \<lparr>lu_budget = lr_max_calls reg, lu_asked = asked\<rparr>))
    \<and> length (la_rows (llm_lists a)) = n"
proof -
  obtain js where js: "s = SvUtf8 (Some js)" "entity_struct_fields L js = Inr fs"
    using assms(1,2) by (auto simp: llm_return_fields_def split: if_splits scalar.splits option.splits)
  from llm_invoke_batch [OF assms(3) _ js(2) assms(5,6,7) refl, of reg env io asked] assms(4) js(1)
  obtain b where b: "llm_batch_ok L fs (fst (batch_entities L reg (fetch_image env io) js (parse_required L js) (zip texts images)
                    \<lparr>lu_budget = lr_max_calls reg, lu_asked = asked\<rparr>)) b"
    "llm_invoke L reg env io n args asked = Some (Inr (\<lparr>ll_values = lb_builder b, ll_offsets = lb_offsets b\<rparr>,
       snd (batch_entities L reg (fetch_image env io) js (parse_required L js) (zip texts images)
                    \<lparr>lu_budget = lr_max_calls reg, lu_asked = asked\<rparr>)))" by auto
  have wf: "la_wf (batch_lists b)" using b(1) by (simp add: llm_batch_ok_def)
  then have "last (lb_offsets b) = lb_total b" by (simp add: la_wf_def batch_lists_def)
  moreover have "length texts = n" "length images = n" using assms(5,6) by (auto simp: text_column_def)
  ultimately show ?thesis
    using b js(1) wf llm_lists_batch [OF wf] by (auto simp: llm_batch_ok_def batch_entities_length)
qed

section \<open>Costs\<close>

definition escalations :: "completion_request list \<Rightarrow> nat" where
  "escalations reqs = length (filter (\<lambda>r. cq_image r \<noteq> None) reqs)"

definition text_calls :: "completion_request list \<Rightarrow> nat" where
  "text_calls reqs = length (filter (\<lambda>r. cq_image r = None) reqs)"

text \<open>Requests that leave one run and lead to another, and what they spend.\<close>

definition asks :: "llm_run \<Rightarrow> completion_request list \<Rightarrow> llm_run \<Rightarrow> bool" where
  "asks st reqs st' \<longleftrightarrow>
     lu_asked st' = lu_asked st @ reqs
     \<and> (case lu_budget st of
          None \<Rightarrow> lu_budget st' = None
        | Some n \<Rightarrow> (\<exists>n'. lu_budget st' = Some n' \<and> unat n = unat n' + escalations reqs))"

lemma asks_refl [simp]: "asks st [] st"
  by (auto simp: asks_def escalations_def split: option.split)

lemma asks_trans: "asks st r1 st1 \<Longrightarrow> asks st1 r2 st2 \<Longrightarrow> asks st (r1 @ r2) st2"
  by (auto simp: asks_def escalations_def split: option.splits)

lemma asks_text:
  "lu_asked st' = lu_asked st @ [r] \<Longrightarrow> lu_budget st' = lu_budget st \<Longrightarrow> cq_image r = None \<Longrightarrow> asks st [r] st'"
  by (auto simp: asks_def escalations_def split: option.split)

lemma asks_image:
  assumes "cq_image r \<noteq> None" and "lu_budget st \<noteq> Some 0"
  shows "asks st [r] ((spend_call st)\<lparr>lu_asked := lu_asked (spend_call st) @ [r]\<rparr>)"
proof (cases "lu_budget st")
  case (Some n)
  with assms have "n \<noteq> 0" by simp
  then have "unat n = Suc (unat (n - 1))" by (simp add: unat_minus_one unat_gt_0)
  with Some assms show ?thesis by (simp add: asks_def spend_call_def escalations_def)
qed (use assms in \<open>simp add: asks_def spend_call_def escalations_def\<close>)

lemma extract_row_asks:
  assumes "extract_row L reg fetch js required t img st = (es, st')"
  shows "\<exists>reqs. asks st reqs st' \<and> text_calls reqs = 1 \<and> escalations reqs \<le> 1
    \<and> (\<not> lr_vision reg \<longrightarrow> escalations reqs = 0)"
proof -
  let ?r = "\<lparr>cq_schema = js, cq_text = t, cq_image = None\<rparr>"
  define st1 where "st1 = st\<lparr>lu_asked := lu_asked st @ [?r]\<rparr>"
  have one: "asks st [?r] st1" by (rule asks_text) (simp_all add: st1_def)
  show ?thesis
  proof (cases "st' = st1")
    case True
    with one show ?thesis by (intro exI [of _ "[?r]"]) (simp add: text_calls_def escalations_def)
  next
    case False
    with assms obtain im where st': "lr_vision reg" "lu_budget st1 \<noteq> Some 0"
      "st' = (spend_call st1)\<lparr>lu_asked := lu_asked (spend_call st1) @ [\<lparr>cq_schema = js, cq_text = t, cq_image = Some im\<rparr>]\<rparr>"
      unfolding extract_row_def complete_blocking_def st1_def [symmetric]
      by (auto simp: Let_def split: sum.splits if_splits option.splits)
    have "asks st1 [\<lparr>cq_schema = js, cq_text = t, cq_image = Some im\<rparr>] st'"
      unfolding st'(3) by (rule asks_image) (simp_all add: st'(2))
    from asks_trans [OF one this] show ?thesis
      by (intro exI [of _ "[?r] @ [\<lparr>cq_schema = js, cq_text = t, cq_image = Some im\<rparr>]"])
        (simp add: text_calls_def escalations_def st'(1))
  qed
qed

definition nonempty_texts :: "string option list \<Rightarrow> nat" where
  "nonempty_texts texts = length (filter (\<lambda>t. t \<noteq> None \<and> t \<noteq> Some []) texts)"

lemma batch_asks:
  "\<exists>reqs. asks st reqs (snd (batch_entities L reg fetch js required rows st))
    \<and> text_calls reqs = nonempty_texts (map fst rows) \<and> escalations reqs \<le> nonempty_texts (map fst rows)
    \<and> (\<not> lr_vision reg \<longrightarrow> escalations reqs = 0)"
proof (induction rows arbitrary: st)
  case Nil
  then show ?case by (intro exI [of _ "[]"]) (simp add: text_calls_def escalations_def nonempty_texts_def)
next
  case (Cons row rows)
  obtain t img where row: "row = (t, img)" by fastforce
  show ?case
  proof (cases "t \<in> {None, Some []}")
    case True
    with row have "snd (batch_entities L reg fetch js required (row # rows) st)
        = snd (batch_entities L reg fetch js required rows st)"
      by (auto split: prod.split)
    with Cons.IH [of st] row True show ?thesis by (auto simp: nonempty_texts_def)
  next
    case False
    then obtain x where x: "t = Some x" "x \<noteq> []" by auto
    obtain es st1 where es: "extract_row L reg fetch js required x img st = (es, st1)" by fastforce
    from extract_row_asks [OF es] obtain r1 where r1: "asks st r1 st1" "text_calls r1 = 1" "escalations r1 \<le> 1"
      "\<not> lr_vision reg \<longrightarrow> escalations r1 = 0" by blast
    from Cons.IH [of st1] obtain r2 where r2: "asks st1 r2 (snd (batch_entities L reg fetch js required rows st1))"
      "text_calls r2 = nonempty_texts (map fst rows)" "escalations r2 \<le> nonempty_texts (map fst rows)"
      "\<not> lr_vision reg \<longrightarrow> escalations r2 = 0" by blast
    have "snd (batch_entities L reg fetch js required (row # rows) st)
        = snd (batch_entities L reg fetch js required rows st1)"
      using row x es by (simp split: prod.split)
    with asks_trans [OF r1(1) r2(1)] r1 r2 row x show ?thesis
      by (intro exI [of _ "r1 @ r2"]) (simp add: text_calls_def escalations_def nonempty_texts_def)
  qed
qed

lemma llm_invoke_asks:
  assumes "llm_return_fields L sargs = Inr fs" and "sargs ! 2 = Some s"
    and "length args = 3" and "args ! 2 = CvScalar s"
    and "text_column n (args ! 0) texts" and "text_column n (args ! 1) images" and "0 < n"
    and "llm_invoke L reg env io n args asked = Some (Inr (a, st))"
  shows "\<exists>reqs. asks \<lparr>lu_budget = lr_max_calls reg, lu_asked = asked\<rparr> reqs st
    \<and> text_calls reqs = nonempty_texts texts \<and> escalations reqs \<le> nonempty_texts texts
    \<and> (\<not> lr_vision reg \<longrightarrow> escalations reqs = 0)"
proof -
  obtain js where js: "s = SvUtf8 (Some js)" "entity_struct_fields L js = Inr fs"
    using assms(1,2) by (auto simp: llm_return_fields_def split: if_splits scalar.splits option.splits)
  let ?run = "\<lparr>lu_budget = lr_max_calls reg, lu_asked = asked\<rparr>"
  from llm_invoke_batch [OF assms(3) _ js(2) assms(5,6,7) refl, of reg env io asked] assms(4,8) js(1)
  have st: "st = snd (batch_entities L reg (fetch_image env io) js (parse_required L js) (zip texts images) ?run)" by auto
  have "map fst (zip texts images) = texts" using assms(5,6) by (auto simp: text_column_def)
  with batch_asks [of ?run L reg "fetch_image env io" js "parse_required L js" "zip texts images"] st
  show ?thesis by metis
qed

lemma asks_capped: "asks st reqs st' \<Longrightarrow> lu_budget st = Some cap \<Longrightarrow> escalations reqs \<le> unat cap"
  by (auto simp: asks_def)

text \<open>
  C37. A batch makes one text request for each row whose text is neither missing nor empty, and none
  for the others; it escalates at most once per row, no more often than the registry's cap, and not
  at all when the model is not vision-capable.
\<close>

theorem llm_calls_are_bounded:
  assumes "llm_return_fields L sargs = Inr fs" and "sargs ! 2 = Some s"
    and "length args = 3" and "args ! 2 = CvScalar s"
    and "text_column n (args ! 0) texts" and "text_column n (args ! 1) images" and "0 < n"
    and "llm_invoke L reg env io n args asked = Some (Inr (a, st))"
  shows "\<exists>reqs. lu_asked st = asked @ reqs \<and> text_calls reqs = nonempty_texts texts
    \<and> escalations reqs \<le> nonempty_texts texts
    \<and> (\<forall>cap. lr_max_calls reg = Some cap \<longrightarrow> escalations reqs \<le> unat cap)
    \<and> (\<not> lr_vision reg \<longrightarrow> escalations reqs = 0)"
proof -
  from llm_invoke_asks [OF assms] obtain reqs where
    r: "asks \<lparr>lu_budget = lr_max_calls reg, lu_asked = asked\<rparr> reqs st"
    "text_calls reqs = nonempty_texts texts" "escalations reqs \<le> nonempty_texts texts"
    "\<not> lr_vision reg \<longrightarrow> escalations reqs = 0" by blast
  from r(1) have "lu_asked st = asked @ reqs" by (simp add: asks_def)
  with r asks_capped [OF r(1)] show ?thesis by auto
qed

section \<open>The image policy\<close>

text \<open>
  C38. Unless fetching is opted in, no call reads a URL or a file: its result and its requests are the
  same whatever they hold, and only an inline \<open>data:\<close> reference yields an image.
\<close>

theorem llm_default_deny:
  assumes "\<not> image_fetch_allowed env"
  shows "llm_invoke L reg env io n args asked = llm_invoke L reg env io' n args asked
    \<and> (\<forall>ref img. fetch_image env io ref = Inr img \<longrightarrow> starts_with ''data:'' ref)"
proof -
  have "fetch_image env io = fetch_image env io'"
    using assms by (simp add: fun_eq_iff fetch_image_def fetch_image_with_policy_def split: option.split)
  then have "llm_invoke L reg env io n args asked = llm_invoke L reg env io' n args asked"
    unfolding llm_invoke_def by (simp only:)
  moreover have "\<not> is_ok (fetch_image env io ref)" if "\<not> starts_with ''data:'' ref" for ref
    using that assms by (simp add: fetch_image_def fetch_image_with_policy_def starts_with_def)
  ultimately show ?thesis by (auto simp: is_ok_iff)
qed

section \<open>Statuses\<close>

text \<open>
  The entities of a row are the model's, or one error entity. Every object among them has a
  status: one that came with the status of an error keeps it, and any other is \<open>ok\<close> exactly when
  its confidence is not below the threshold and no required field is missing or null.
\<close>

theorem llm_status_reflects_weakness:
  "((\<exists>e. fst (extract_row L reg fetch js required t img st) = [error_entity e])
    \<or> (\<exists>st' req es. lr_complete reg st' req = Inr es
         \<and> fst (extract_row L reg fetch js required t img st) = map (stamp_status L (lr_threshold reg) required) es))
   \<and> json_get k (stamp_status L threshold required e)
      = (if k = ''_status'' \<and> is_object e \<and> \<not> is_error_entity e
         then Some (JString (if is_weak L e threshold required then ''low_confidence'' else ''ok''))
         else json_get k e)"
proof
  show "(\<exists>e. fst (extract_row L reg fetch js required t img st) = [error_entity e])
   \<or> (\<exists>st' req es. lr_complete reg st' req = Inr es
        \<and> fst (extract_row L reg fetch js required t img st) = map (stamp_status L (lr_threshold reg) required) es)"
    by (auto simp: extract_row_def complete_blocking_def Let_def split: sum.split option.split)
next
  show "json_get k (stamp_status L threshold required e)
      = (if k = ''_status'' \<and> is_object e \<and> \<not> is_error_entity e
         then Some (JString (if is_weak L e threshold required then ''low_confidence'' else ''ok''))
         else json_get k e)"
    by (cases e) (simp_all add: stamp_status_def json_get_def is_object_def)
qed

section \<open>A run\<close>

definition demo_schema :: json where
  "demo_schema =
     JObject [(''properties'', JObject [(''name'', JObject [(''type'', JString ''string'')])]),
              (''required'', JArray [JString ''name''])]"

definition demo_json_lib :: json_lib where
  "demo_json_lib =
     \<lparr> jl_from_str = (\<lambda>_. Inr demo_schema), jl_to_string = (\<lambda>_. []), jl_as_f64 = Some, jl_as_i64 = (\<lambda>_. None),
       jl_less = (\<lambda>x y. x < y), jl_parse_f64 = Some \<rparr>"

text \<open>A model that finds one entity without a name, in a registry that allows one escalation.\<close>

definition demo_llm :: llm_registry where
  "demo_llm = \<lparr> lr_complete = (\<lambda>_ _. Inr [JObject []]), lr_threshold = ''0.75'', lr_max_calls = Some 1, lr_vision = True \<rparr>"

definition demo_image_io :: image_io where
  "demo_image_io = \<lparr> io_http_get = (\<lambda>_. Inl []), io_read_file = (\<lambda>_. Inl []), io_base64 = (\<lambda>s. s) \<rparr>"

definition demo_llm_args :: "columnar list" where
  "demo_llm_args =
     [CvUtf8 [Some ''a'', None], CvScalar (SvUtf8 (Some ''data:,x'')), CvScalar (SvUtf8 (Some ''{}''))]"

definition demo_fields :: "(string \<times> field_type) list" where
  "demo_fields = [(''name'', DtUtf8), (''_confidence'', DtFloat64), (''_status'', DtUtf8), (''_error'', DtUtf8)]"

lemma demo_plan: "entity_struct_fields demo_json_lib ''{}'' = Inr demo_fields"
  by (simp add: entity_struct_fields_def demo_json_lib_def demo_schema_def demo_fields_def reserved_fields_def
      json_schema_properties_to_fields.simps json_schema_property_to_type.simps json_get_def json_str_def)

lemma demo_planned: "llm_return_fields demo_json_lib [None, None, Some (SvUtf8 (Some ''{}''))] = Inr demo_fields"
  by (simp add: llm_return_fields_def demo_plan)

lemma demo_columns:
  "text_column 2 (demo_llm_args ! 0) [Some ''a'', None]"
  "text_column 2 (demo_llm_args ! 1) [Some ''data:,x'', Some ''data:,x'']"
  "length demo_llm_args = 3" "demo_llm_args ! 2 = CvScalar (SvUtf8 (Some ''{}''))"
  by (simp_all add: text_column_def demo_llm_args_def numeral_2_eq_2)

theorem llm_result_refines_entities_witness:
  "\<exists>a st. llm_invoke demo_json_lib demo_llm (\<lambda>_. None) demo_image_io 2 demo_llm_args [] = Some (Inr (a, st))
     \<and> la_wf (llm_lists a) \<and> length (la_rows (llm_lists a)) = 2"
  using llm_result_refines_entities
    [OF demo_planned _ demo_columns(3) demo_columns(4) demo_columns(1,2), of demo_llm "\<lambda>_. None" demo_image_io "[]"]
  by auto

lemma demo_batch:
  "\<exists>a. llm_invoke demo_json_lib demo_llm (\<lambda>_. None) demo_image_io 2 demo_llm_args asked
     = Some (Inr (a, \<lparr>lu_budget = Some 0,
         lu_asked = asked @ [\<lparr>cq_schema = ''{}'', cq_text = ''a'', cq_image = None\<rparr>,
                             \<lparr>cq_schema = ''{}'', cq_text = ''a'',
                              cq_image = Some \<lparr>im_base64 = ''x'', im_mime = ''image/png''\<rparr>\<rparr>]\<rparr>))"
proof -
  have req: "parse_required demo_json_lib ''{}'' = [''name'']"
    by (simp add: parse_required_def demo_json_lib_def demo_schema_def json_get_def json_array_def json_str_def List.map_filter_def)
  have weak: "is_weak demo_json_lib (JObject []) ''0.75'' [''name'']"
    by (simp add: is_weak_def json_get_def)
  have img: "fetch_image (\<lambda>_. None) demo_image_io ''data:,x'' = Inr \<lparr>im_base64 = ''x'', im_mime = ''image/png''\<rparr>"
    by (simp add: fetch_image_def fetch_image_with_policy_def split_once_def strip_suffix_def)
  from llm_invoke_batch [OF demo_columns(3,4) demo_plan demo_columns(1,2) _ refl, of demo_llm "\<lambda>_. None" demo_image_io asked]
  show ?thesis
    by (auto simp: req weak img extract_row_def complete_blocking_def demo_llm_def spend_call_def Let_def)
qed

theorem llm_calls_are_bounded_witness:
  "\<exists>reqs a st. llm_invoke demo_json_lib demo_llm (\<lambda>_. None) demo_image_io 2 demo_llm_args [] = Some (Inr (a, st))
     \<and> lu_asked st = reqs \<and> text_calls reqs = 1 \<and> escalations reqs \<le> 1"
proof -
  obtain a st where a: "llm_invoke demo_json_lib demo_llm (\<lambda>_. None) demo_image_io 2 demo_llm_args [] = Some (Inr (a, st))"
    using demo_batch [of "[]"] by blast
  from llm_calls_are_bounded [OF demo_planned _ demo_columns(3) demo_columns(4) demo_columns(1,2) _ a] a
  show ?thesis by (auto simp: nonempty_texts_def)
qed

theorem llm_default_deny_witness:
  "\<not> image_fetch_allowed (\<lambda>_. None) \<and> \<not> is_ok (fetch_image (\<lambda>_. None) demo_image_io ''http://x'')"
proof -
  have deny: "\<not> image_fetch_allowed (\<lambda>_. None)" by (simp add: image_fetch_allowed_def env_flag_def)
  from llm_default_deny [OF deny, THEN conjunct2] have
    "fetch_image (\<lambda>_. None) demo_image_io ''http://x'' = Inr img \<longrightarrow> starts_with ''data:'' ''http://x''" for img by blast
  then show ?thesis using deny by (auto simp: is_ok_iff starts_with_def)
qed

text \<open>
  The cap is that of one call, which the engine makes for every batch of a query: with a cap of one
  escalation, two batches of one query make two.
\<close>

lemma llm_cap_is_per_batch:
  "\<exists>a st b st'. llm_invoke demo_json_lib demo_llm (\<lambda>_. None) demo_image_io 2 demo_llm_args [] = Some (Inr (a, st))
     \<and> llm_invoke demo_json_lib demo_llm (\<lambda>_. None) demo_image_io 2 demo_llm_args (lu_asked st) = Some (Inr (b, st'))
     \<and> escalations (lu_asked st') = 2 \<and> lr_max_calls demo_llm = Some 1"
proof -
  from demo_batch [of "[]"] obtain a where a: "llm_invoke demo_json_lib demo_llm (\<lambda>_. None) demo_image_io 2 demo_llm_args []
     = Some (Inr (a, \<lparr>lu_budget = Some 0,
         lu_asked = [\<lparr>cq_schema = ''{}'', cq_text = ''a'', cq_image = None\<rparr>,
                             \<lparr>cq_schema = ''{}'', cq_text = ''a'',
                              cq_image = Some \<lparr>im_base64 = ''x'', im_mime = ''image/png''\<rparr>\<rparr>]\<rparr>))" by auto
  from a demo_batch [of "[\<lparr>cq_schema = ''{}'', cq_text = ''a'', cq_image = None\<rparr>,
     \<lparr>cq_schema = ''{}'', cq_text = ''a'', cq_image = Some \<lparr>im_base64 = ''x'', im_mime = ''image/png''\<rparr>\<rparr>]"]
  show ?thesis by (auto simp: escalations_def demo_llm_def)
qed

end
