(* ===== verification/Llm_Provider.thy ===== *)
theory Llm_Provider
  imports Llm_Extract Auth
begin

text \<open>
  The providers of \<open>llm_extract\<close>: the registry built from the environment (\<^verbatim>\<open>model/llm_extract/mod.rs\<close>),
  the OpenAI-compatible chat client (\<^verbatim>\<open>openai_compat.rs\<close>) and the Anthropic client
  (\<^verbatim>\<open>anthropic.rs\<close>): their request bodies, their retries, the fallback from a response format to a
  tool call, and the reading of the answers. The HTTP transport is a parameter whose answer may
  depend on everything sent before; the operations thread the list of what was sent and slept.
  The typed decoding of a response body belongs to serde's derived code and is a parameter too.
\<close>

section \<open>Configuration\<close>

definition default_provider :: string where
  "default_provider = ''deepseek''"

definition openai_compat_providers :: "(string \<times> string \<times> string \<times> string) list" where
  "openai_compat_providers =
     [(''deepseek'', ''https://api.deepseek.com/v1'', ''DEEPSEEK_API_KEY'', ''deepseek-chat''),
      (''glm'', ''https://open.bigmodel.cn/api/paas/v4'', ''GLM_API_KEY'', ''glm-4-flash''),
      (''gemini'', ''https://generativelanguage.googleapis.com/v1beta/openai'', ''GEMINI_API_KEY'', ''gemini-2.0-flash''),
      (''openai'', ''https://api.openai.com/v1'', ''OPENAI_API_KEY'', ''gpt-4o-mini'')]"

definition anthropic_default_model :: string where
  "anthropic_default_model = ''claude-opus-4-8''"

record openai_provider =
  op_name :: string
  op_base_url :: string
  op_api_key_env :: string
  op_model :: string

definition trim_end_char :: "char \<Rightarrow> string \<Rightarrow> string" where
  "trim_end_char c s = rev (dropWhile (\<lambda>d. d = c) (rev s))"

definition openai_new :: "string \<Rightarrow> string \<Rightarrow> string \<Rightarrow> string \<Rightarrow> openai_provider" where
  "openai_new name base_url api_key_env model =
     \<lparr> op_name = name, op_base_url = trim_end_char (CHR ''/'') base_url, op_api_key_env = api_key_env, op_model = model \<rparr>"

definition active_provider_name :: "environment \<Rightarrow> string" where
  "active_provider_name env =
     (case env_flag env ''LLM_EXTRACT_PROVIDER'' of
        Some s \<Rightarrow> if s \<noteq> [] then s else default_provider
      | None \<Rightarrow> default_provider)"

definition build_openai_compat :: "string \<Rightarrow> string option \<Rightarrow> openai_provider option" where
  "build_openai_compat name model_override =
     map_option (\<lambda>(name, base_url, api_key_env, default_model).
         openai_new name base_url api_key_env (case model_override of Some m \<Rightarrow> m | None \<Rightarrow> default_model))
       (List.find (\<lambda>(n, _). n = name) openai_compat_providers)"

definition model_is_vision_capable :: "string \<Rightarrow> bool" where
  "model_is_vision_capable model_id =
     (let m = to_lowercase model_id in
      str_contains ''4o'' m \<or> str_contains ''-vl'' m \<or> str_contains ''vl-'' m \<or> str_contains ''glm-4v'' m
      \<or> str_contains ''vision'' m \<or> str_contains ''gemini-'' m \<or> str_contains ''claude'' m)"

definition resolve_vision :: "environment \<Rightarrow> string \<Rightarrow> bool" where
  "resolve_vision env model_id =
     (let v = env_flag env ''LLM_EXTRACT_VISION'' in
      if v \<in> {Some ''true'', Some ''1'', Some ''yes''} then True
      else if v \<in> {Some ''false'', Some ''0'', Some ''no''} then False
      else model_is_vision_capable model_id)"

datatype llm_provider = AnthropicProvider string | OpenAiProvider openai_provider

definition anthropic_from_env :: "environment \<Rightarrow> llm_provider" where
  "anthropic_from_env env =
     AnthropicProvider (case env ''LLM_EXTRACT_MODEL'' of Some m \<Rightarrow> m | None \<Rightarrow> ''claude-opus-4-8'')"

text \<open>\<open>None\<close> is the panic of a resolved name that is not in the table.\<close>

definition build_provider_from_env :: "environment \<Rightarrow> (llm_provider \<times> string) option" where
  "build_provider_from_env env =
     (let selected = active_provider_name env;
          model_override = env ''LLM_EXTRACT_MODEL'' in
      if selected = ''anthropic''
      then Some (anthropic_from_env env, case model_override of Some m \<Rightarrow> m | None \<Rightarrow> anthropic_default_model)
      else
        let resolved_name =
              (if list_ex (\<lambda>(n, _). n = selected) openai_compat_providers then selected else default_provider) in
        Option.bind (List.find (\<lambda>(n, _). n = resolved_name) openai_compat_providers) (\<lambda>(_, _, _, default_model).
        let model = (case model_override of Some m \<Rightarrow> m | None \<Rightarrow> default_model) in
        map_option (\<lambda>p. (OpenAiProvider p, model)) (build_openai_compat resolved_name (Some model))))"

section \<open>Request bodies\<close>

definition entities_object_schema :: "json_lib \<Rightarrow> string \<Rightarrow> json" where
  "entities_object_schema L json_schema =
     (let entity_schema = (case jl_from_str L json_schema of
                             Inr v \<Rightarrow> v | Inl _ \<Rightarrow> JObject [(''type'', JString ''object'')]) in
      JObject
       [(''type'', JString ''object''),
        (''properties'', JObject
          [(''entities'', JObject
             [(''type'', JString ''array''),
              (''description'', JString ''All structured entities extracted from the input.''),
              (''items'', entity_schema)])]),
        (''required'', JArray [JString ''entities''])])"

definition newline2 :: string where
  "newline2 = [CHR 0x0A, CHR 0x0A]"

definition user_content :: "completion_request \<Rightarrow> json" where
  "user_content req =
     JArray
      ((case cq_image req of
          Some img \<Rightarrow>
            [JObject [(''type'', JString ''image_url''),
                      (''image_url'', JObject
                        [(''url'', JString (''data:'' @ im_mime img @ '';base64,'' @ im_base64 img))])]]
        | None \<Rightarrow> [])
       @ [JObject [(''type'', JString ''text''),
                   (''text'', JString
                     (''Extract every structured entity from the following content. For each entity include a ''
                      @ [CHR 0x60] @ ''_confidence'' @ [CHR 0x60] @ '' number between 0 and 1 reflecting your certainty. ''
                      @ ''If no entities are present, return an empty list.'' @ newline2 @ ''Content:'' @ [CHR 0x0A]
                      @ cq_text req))]])"

definition max_tokens :: json where
  "max_tokens = JNumber ''4096''"

definition build_body_response_format :: "json_lib \<Rightarrow> openai_provider \<Rightarrow> completion_request \<Rightarrow> json" where
  "build_body_response_format L p req =
     JObject
      [(''model'', JString (op_model p)),
       (''max_tokens'', max_tokens),
       (''messages'', JArray [JObject [(''role'', JString ''user''), (''content'', user_content req)]]),
       (''response_format'', JObject
         [(''type'', JString ''json_schema''),
          (''json_schema'', JObject
            [(''name'', JString ''entities_extraction''),
             (''strict'', JBool True),
             (''schema'', entities_object_schema L (cq_schema req))])])]"

definition build_body_tool :: "json_lib \<Rightarrow> openai_provider \<Rightarrow> completion_request \<Rightarrow> json" where
  "build_body_tool L p req =
     JObject
      [(''model'', JString (op_model p)),
       (''max_tokens'', max_tokens),
       (''messages'', JArray [JObject [(''role'', JString ''user''), (''content'', user_content req)]]),
       (''tools'', JArray
         [JObject
           [(''type'', JString ''function''),
            (''function'', JObject
              [(''name'', JString ''record_entities''),
               (''description'', JString ''Record the structured entities extracted from the content.''),
               (''parameters'', entities_object_schema L (cq_schema req))])]]),
       (''tool_choice'', JObject
         [(''type'', JString ''function''), (''function'', JObject [(''name'', JString ''record_entities'')])])]"

definition anthropic_content :: "completion_request \<Rightarrow> json" where
  "anthropic_content req =
     JArray
      ((case cq_image req of
          Some img \<Rightarrow>
            [JObject [(''type'', JString ''image''),
                      (''source'', JObject
                        [(''type'', JString ''base64''), (''media_type'', JString (im_mime img)),
                         (''data'', JString (im_base64 img))])]]
        | None \<Rightarrow> [])
       @ [JObject [(''type'', JString ''text''),
                   (''text'', JString
                     (''Extract every structured entity from the following content using the ''
                      @ [CHR 0x60] @ ''record_entities'' @ [CHR 0x60] @ '' tool. For each entity include a ''
                      @ [CHR 0x60] @ ''_confidence'' @ [CHR 0x60] @ '' number between 0 and 1 reflecting your certainty. ''
                      @ ''If no entities are present, return an empty list.'' @ newline2 @ ''Content:'' @ [CHR 0x0A]
                      @ cq_text req))]])"

definition anthropic_build_body :: "json_lib \<Rightarrow> string \<Rightarrow> completion_request \<Rightarrow> json" where
  "anthropic_build_body L model req =
     JObject
      [(''model'', JString model),
       (''max_tokens'', max_tokens),
       (''tools'', JArray
         [JObject
           [(''name'', JString ''record_entities''),
            (''description'', JString ''Record the structured entities extracted from the content.''),
            (''input_schema'', entities_object_schema L (cq_schema req))]]),
       (''tool_choice'', JObject [(''type'', JString ''tool''), (''name'', JString ''record_entities'')]),
       (''messages'', JArray [JObject [(''role'', JString ''user''), (''content'', anthropic_content req)]])]"

section \<open>Sending\<close>

record http_post =
  hq_url :: string
  hq_headers :: "(string \<times> string) list"
  hq_body :: json

datatype http_event = Posted http_post | Slept nat

record http_reply =
  hp_status :: nat
  hp_retry_after :: "string option"
  hp_text :: "string + string"

record http_transport =
  ht_send :: "http_event list \<Rightarrow> http_post \<Rightarrow> string + http_reply"
  ht_show_status :: "nat \<Rightarrow> string"

text \<open>
  One \<open>send\<close> of the client. A redirect that the client follows is inside the transport, so the log
  counts sends and not the requests a redirect adds.
\<close>

definition post :: "http_transport \<Rightarrow> http_post \<Rightarrow> http_event list \<Rightarrow> (string + http_reply) \<times> http_event list" where
  "post T req log = (ht_send T log req, log @ [Posted req])"

definition http_success :: "nat \<Rightarrow> bool" where
  "http_success s \<longleftrightarrow> 200 \<le> s \<and> s < 300"

definition parse_retry_after :: "http_reply \<Rightarrow> nat" where
  "parse_retry_after resp = (case Option.bind (hp_retry_after resp) parse_usize of Some n \<Rightarrow> n | None \<Rightarrow> 2)"

datatype http_attempt = AttemptOk string | BadRequest string | AttemptErr string

definition status_error :: "http_transport \<Rightarrow> string \<Rightarrow> http_reply \<Rightarrow> string" where
  "status_error T label resp =
     label @ '' API error (status '' @ ht_show_status T (hp_status resp) @ ''): ''
     @ (case hp_text resp of Inr t \<Rightarrow> t | Inl _ \<Rightarrow> [])"

definition classify :: "http_transport \<Rightarrow> http_reply \<Rightarrow> string \<Rightarrow> http_attempt" where
  "classify T resp label =
     (if http_success (hp_status resp) then
        (case hp_text resp of
           Inr t \<Rightarrow> AttemptOk t
         | Inl e \<Rightarrow> AttemptErr (''Failed to read '' @ label @ '' response body: '' @ e))
      else if 400 \<le> hp_status resp \<and> hp_status resp < 500 then BadRequest (status_error T label resp)
      else AttemptErr (status_error T label resp))"

definition send_once_with_retry ::
  "http_transport \<Rightarrow> http_post \<Rightarrow> string \<Rightarrow> http_event list \<Rightarrow> http_attempt \<times> http_event list" where
  "send_once_with_retry T req label log =
     (let (r, log) = post T req log in
      case r of
        Inl e \<Rightarrow> (AttemptErr (''HTTP request to '' @ label @ '' failed: '' @ e), log)
      | Inr resp \<Rightarrow>
          if hp_status resp = 429 then
            let (r, log) = post T req (log @ [Slept (parse_retry_after resp)]) in
            (case r of
               Inl e \<Rightarrow> (AttemptErr (''Retry HTTP request to '' @ label @ '' failed: '' @ e), log)
             | Inr resp \<Rightarrow> (classify T resp label, log))
          else (classify T resp label, log))"

section \<open>The OpenAI-compatible client\<close>

text \<open>A message of a decoded response: its content and the arguments of its tool calls.\<close>

record chat_message =
  cm_content :: "string option"
  cm_tool_calls :: "string list"

definition entities_from_object :: "json \<Rightarrow> string + json list" where
  "entities_from_object obj =
     ok_or (Option.bind (json_get ''entities'' obj) json_array) ''structured output missing 'entities' array''"

definition openai_parse_entities ::
  "json_lib \<Rightarrow> (string \<Rightarrow> chat_message list option) \<Rightarrow> string \<Rightarrow> string + json list" where
  "openai_parse_entities L decode body =
     (case decode body of
        None \<Rightarrow> Inl ''Failed to parse chat completions response''
      | Some [] \<Rightarrow> Inl ''chat completions response had no choices''
      | Some (msg # _) \<Rightarrow>
          (case cm_tool_calls msg of
             tc # _ \<Rightarrow>
               try_res (map_err (\<lambda>_. ''Failed to parse tool_call arguments as JSON'') (jl_from_str L tc)) entities_from_object
           | [] \<Rightarrow>
               (case cm_content msg of
                  None \<Rightarrow> Inl ''chat completions message had neither content nor tool_calls''
                | Some content \<Rightarrow>
                    try_res (map_err (\<lambda>_. ''Failed to parse message content as JSON'') (jl_from_str L content))
                      entities_from_object)))"

definition openai_api_key :: "environment \<Rightarrow> openai_provider \<Rightarrow> string + string" where
  "openai_api_key env p =
     ok_or (env (op_api_key_env p))
       (''Missing API key: set the '' @ op_api_key_env p @ '' environment variable for the '' @ [squote] @ op_name p
        @ [squote] @ '' llm_extract provider'')"

definition openai_request :: "openai_provider \<Rightarrow> string \<Rightarrow> json \<Rightarrow> http_post" where
  "openai_request p api_key body =
     \<lparr> hq_url = op_base_url p @ ''/chat/completions'', hq_headers = [(''authorization'', ''Bearer '' @ api_key)],
       hq_body = body \<rparr>"

definition openai_complete ::
  "json_lib \<Rightarrow> http_transport \<Rightarrow> (string \<Rightarrow> chat_message list option) \<Rightarrow> environment \<Rightarrow> openai_provider
    \<Rightarrow> completion_request \<Rightarrow> http_event list \<Rightarrow> (string + json list) \<times> http_event list" where
  "openai_complete L T decode env p req log =
     (case openai_api_key env p of
        Inl e \<Rightarrow> (Inl e, log)
      | Inr api_key \<Rightarrow>
          let (a, log) = send_once_with_retry T (openai_request p api_key (build_body_response_format L p req)) (op_name p) log in
          (case a of
             AttemptOk t \<Rightarrow> (openai_parse_entities L decode t, log)
           | AttemptErr e \<Rightarrow> (Inl e, log)
           | BadRequest _ \<Rightarrow>
               let (a, log) = send_once_with_retry T (openai_request p api_key (build_body_tool L p req)) (op_name p) log in
               (case a of
                  AttemptOk t \<Rightarrow> (openai_parse_entities L decode t, log)
                | BadRequest msg \<Rightarrow> (Inl msg, log)
                | AttemptErr e \<Rightarrow> (Inl e, log))))"

section \<open>The Anthropic client\<close>

datatype content_block = ToolUse json | OtherBlock

fun anthropic_entities :: "content_block list \<Rightarrow> string + json list" where
  "anthropic_entities [] = Inl ''Anthropic response contained no tool_use block''"
| "anthropic_entities (ToolUse inp # blocks) =
     ok_or (Option.bind (json_get ''entities'' inp) json_array) ''tool_use input missing 'entities' array''"
| "anthropic_entities (OtherBlock # blocks) = anthropic_entities blocks"

definition anthropic_parse_entities :: "(string \<Rightarrow> content_block list option) \<Rightarrow> string \<Rightarrow> string + json list" where
  "anthropic_parse_entities decode body =
     (case decode body of
        None \<Rightarrow> Inl ''Failed to parse Anthropic response''
      | Some blocks \<Rightarrow> anthropic_entities blocks)"

definition check_success :: "http_transport \<Rightarrow> http_reply \<Rightarrow> string + http_reply" where
  "check_success T resp =
     (if \<not> http_success (hp_status resp) then Inl (status_error T ''Anthropic'' resp) else Inr resp)"

definition send_with_rate_limit_retry ::
  "http_transport \<Rightarrow> http_post \<Rightarrow> http_event list \<Rightarrow> (string + http_reply) \<times> http_event list" where
  "send_with_rate_limit_retry T req log =
     (let (r, log) = post T req log in
      case r of
        Inl _ \<Rightarrow> (Inl ''HTTP request to Anthropic API failed'', log)
      | Inr resp \<Rightarrow>
          if hp_status resp = 429 then
            let (r, log) = post T req (log @ [Slept (parse_retry_after resp)]) in
            (case r of
               Inl _ \<Rightarrow> (Inl ''Retry HTTP request to Anthropic API failed'', log)
             | Inr resp \<Rightarrow> (check_success T resp, log))
          else (check_success T resp, log))"

definition anthropic_api_key :: "environment \<Rightarrow> string + string" where
  "anthropic_api_key env =
     ok_or (env ''ANTHROPIC_API_KEY'')
       ''Missing API key: set the ANTHROPIC_API_KEY environment variable for llm_extract''"

definition anthropic_request :: "string \<Rightarrow> json \<Rightarrow> http_post" where
  "anthropic_request api_key body =
     \<lparr> hq_url = ''https://api.anthropic.com/v1/messages'',
       hq_headers = [(''x-api-key'', api_key), (''anthropic-version'', ''2023-06-01'')], hq_body = body \<rparr>"

definition anthropic_complete ::
  "json_lib \<Rightarrow> http_transport \<Rightarrow> (string \<Rightarrow> content_block list option) \<Rightarrow> environment \<Rightarrow> string
    \<Rightarrow> completion_request \<Rightarrow> http_event list \<Rightarrow> (string + json list) \<times> http_event list" where
  "anthropic_complete L T decode env model req log =
     (case anthropic_api_key env of
        Inl e \<Rightarrow> (Inl e, log)
      | Inr api_key \<Rightarrow>
          let (r, log) = send_with_rate_limit_retry T (anthropic_request api_key (anthropic_build_body L model req)) log in
          (case r of
             Inl e \<Rightarrow> (Inl e, log)
           | Inr resp \<Rightarrow>
               (case hp_text resp of
                  Inl _ \<Rightarrow> (Inl ''Failed to read response body'', log)
                | Inr t \<Rightarrow> (anthropic_parse_entities decode t, log))))"

section \<open>The registry\<close>

text \<open>The libraries and the environment the providers use.\<close>

record llm_stack =
  ls_json :: json_lib
  ls_http :: http_transport
  ls_chat :: "string \<Rightarrow> chat_message list option"
  ls_blocks :: "string \<Rightarrow> content_block list option"
  ls_env :: environment

definition provider_complete ::
  "llm_stack \<Rightarrow> llm_provider \<Rightarrow> completion_request \<Rightarrow> http_event list \<Rightarrow> (string + json list) \<times> http_event list" where
  "provider_complete S p req log =
     (case p of
        OpenAiProvider q \<Rightarrow> openai_complete (ls_json S) (ls_http S) (ls_chat S) (ls_env S) q req log
      | AnthropicProvider model \<Rightarrow> anthropic_complete (ls_json S) (ls_http S) (ls_blocks S) (ls_env S) model req log)"

text \<open>What was sent for a sequence of requests, and the registry whose answers the provider gives.\<close>

definition http_log :: "llm_stack \<Rightarrow> llm_provider \<Rightarrow> completion_request list \<Rightarrow> http_event list" where
  "http_log S p asked = foldl (\<lambda>log req. snd (provider_complete S p req log)) [] asked"

definition registry_from_env :: "llm_stack \<Rightarrow> (llm_registry \<times> llm_provider) option" where
  "registry_from_env S =
     (let threshold = (case Option.bind (ls_env S ''LLM_EXTRACT_THRESHOLD'') (jl_parse_f64 (ls_json S)) of
                         Some t \<Rightarrow> t | None \<Rightarrow> ''0.75'');
          max_calls = map_option of_nat (Option.bind (ls_env S ''LLM_EXTRACT_MAX_CALLS'') (parse_unsigned (2 ^ 32))) in
      map_option (\<lambda>(p, model).
          (\<lparr> lr_complete = (\<lambda>asked req. fst (provider_complete S p req (http_log S p asked))),
             lr_threshold = threshold, lr_max_calls = max_calls, lr_vision = resolve_vision (ls_env S) model \<rparr>, p))
        (build_provider_from_env (ls_env S)))"

section \<open>Which provider is chosen\<close>

lemma find_provider:
  "list_ex (\<lambda>(n, _). n = name) openai_compat_providers
   \<Longrightarrow> \<exists>u k m. List.find (\<lambda>(n, _). n = name) openai_compat_providers = Some (name, u, k, m)"
  by (auto simp: openai_compat_providers_def)

lemma default_provider_listed: "list_ex (\<lambda>(n, _). n = default_provider) openai_compat_providers"
  by (simp add: openai_compat_providers_def default_provider_def)

text \<open>
  The registry is always built: an unknown provider name selects the default provider, and the
  model is the configured one or the default of the provider that was selected.
\<close>

theorem llm_provider_always_resolves:
  "\<exists>p. build_provider_from_env env = Some p
   \<and> fst p = (if active_provider_name env = ''anthropic'' then AnthropicProvider (snd p)
              else OpenAiProvider (the (build_openai_compat
                     (if list_ex (\<lambda>(n, _). n = active_provider_name env) openai_compat_providers
                      then active_provider_name env else default_provider) (Some (snd p)))))
   \<and> (env ''LLM_EXTRACT_MODEL'' = None \<or> Some (snd p) = env ''LLM_EXTRACT_MODEL'')"
proof (cases "active_provider_name env = ''anthropic''")
  case True
  then show ?thesis
    by (cases "env ''LLM_EXTRACT_MODEL''")
      (simp_all add: build_provider_from_env_def anthropic_from_env_def anthropic_default_model_def)
next
  case False
  define name where "name = (if list_ex (\<lambda>(n, _). n = active_provider_name env) openai_compat_providers
                      then active_provider_name env else default_provider)"
  have "list_ex (\<lambda>(n, _). n = name) openai_compat_providers"
    using default_provider_listed by (simp add: name_def)
  from find_provider [OF this] obtain u k m
    where f: "List.find (\<lambda>(n, _). n = name) openai_compat_providers = Some (name, u, k, m)" by blast
  define model where "model = (case env ''LLM_EXTRACT_MODEL'' of Some x \<Rightarrow> x | None \<Rightarrow> m)"
  have b: "build_openai_compat name (Some model) = Some (openai_new name u k model)"
    by (simp add: build_openai_compat_def f)
  have "build_provider_from_env env = Some (OpenAiProvider (openai_new name u k model), model)"
    unfolding build_provider_from_env_def Let_def name_def [symmetric] if_not_P [OF False] f model_def [symmetric]
    by (simp add: b model_def [symmetric])
  moreover have "env ''LLM_EXTRACT_MODEL'' = None \<or> Some model = env ''LLM_EXTRACT_MODEL''"
    by (auto simp: model_def split: option.split)
  ultimately show ?thesis
    unfolding name_def [symmetric] if_not_P [OF False] by (simp add: b)
qed

section \<open>What is sent\<close>

definition posts :: "http_event list \<Rightarrow> http_post list" where
  "posts evs = List.map_filter (\<lambda>e. case e of Posted r \<Rightarrow> Some r | Slept _ \<Rightarrow> None) evs"

definition sleeps :: "http_event list \<Rightarrow> nat" where
  "sleeps evs = length (filter (\<lambda>e. case e of Slept _ \<Rightarrow> True | Posted _ \<Rightarrow> False) evs)"

lemma posts_simps [simp]:
  "posts [] = []" "posts (Posted r # evs) = r # posts evs" "posts (Slept n # evs) = posts evs"
  "posts (evs @ evs') = posts evs @ posts evs'"
  by (simp_all add: posts_def List.map_filter_def)

lemma sleeps_simps [simp]:
  "sleeps [] = 0" "sleeps (Posted r # evs) = sleeps evs" "sleeps (Slept n # evs) = Suc (sleeps evs)"
  "sleeps (evs @ evs') = sleeps evs + sleeps evs'"
  by (simp_all add: sleeps_def)

text \<open>Events that send only the given bodies, and how many of them at most.\<close>

definition sends :: "json set \<Rightarrow> nat \<Rightarrow> http_event list \<Rightarrow> bool" where
  "sends bodies n evs \<longleftrightarrow> hq_body ` set (posts evs) \<subseteq> bodies \<and> length (posts evs) \<le> 2 * n \<and> sleeps evs \<le> n"

lemma sends_Nil [simp]: "sends bodies n []"
  by (simp add: sends_def)

lemma sends_append: "sends A n evs \<Longrightarrow> sends B m evs' \<Longrightarrow> sends (A \<union> B) (n + m) (evs @ evs')"
  by (auto simp: sends_def)

lemma sends_mono: "sends A n evs \<Longrightarrow> A \<subseteq> B \<Longrightarrow> n \<le> m \<Longrightarrow> sends B m evs"
  by (auto simp: sends_def)

lemma send_once_sends: "\<exists>evs. snd (send_once_with_retry T req label log) = log @ evs \<and> sends {hq_body req} 1 evs"
proof (cases "ht_send T log req")
  case (Inl e)
  then show ?thesis by (intro exI [of _ "[Posted req]"]) (simp add: send_once_with_retry_def post_def sends_def)
next
  case (Inr resp)
  then show ?thesis
    by (cases "hp_status resp = 429")
      (auto simp: send_once_with_retry_def post_def sends_def Let_def split: sum.split
        intro!: exI [of _ "[Posted req]"] exI [of _ "[Posted req, Slept (parse_retry_after resp), Posted req]"])
qed

lemma rate_limit_sends: "\<exists>evs. snd (send_with_rate_limit_retry T req log) = log @ evs \<and> sends {hq_body req} 1 evs"
proof (cases "ht_send T log req")
  case (Inl e)
  then show ?thesis by (intro exI [of _ "[Posted req]"]) (simp add: send_with_rate_limit_retry_def post_def sends_def)
next
  case (Inr resp)
  then show ?thesis
    by (cases "hp_status resp = 429")
      (auto simp: send_with_rate_limit_retry_def post_def sends_def Let_def split: sum.split
        intro!: exI [of _ "[Posted req]"] exI [of _ "[Posted req, Slept (parse_retry_after resp), Posted req]"])
qed

definition request_bodies :: "llm_stack \<Rightarrow> llm_provider \<Rightarrow> completion_request \<Rightarrow> json set" where
  "request_bodies S p req =
     (case p of
        OpenAiProvider q \<Rightarrow> {build_body_response_format (ls_json S) q req, build_body_tool (ls_json S) q req}
      | AnthropicProvider model \<Rightarrow> {anthropic_build_body (ls_json S) model req})"

lemma openai_sends:
  "\<exists>evs. snd (openai_complete L T decode env p req log) = log @ evs
     \<and> sends {build_body_response_format L p req, build_body_tool L p req} 2 evs"
proof (cases "openai_api_key env p")
  case (Inl e)
  then show ?thesis by (simp add: openai_complete_def)
next
  case (Inr key)
  let ?r1 = "openai_request p key (build_body_response_format L p req)"
  let ?r2 = "openai_request p key (build_body_tool L p req)"
  obtain a log1 where s1: "send_once_with_retry T ?r1 (op_name p) log = (a, log1)" by fastforce
  with send_once_sends [of T ?r1 "op_name p" log] obtain e1
    where e1: "log1 = log @ e1" "sends {build_body_response_format L p req} 1 e1" by (auto simp: openai_request_def)
  obtain b log2 where s2: "send_once_with_retry T ?r2 (op_name p) log1 = (b, log2)" by fastforce
  with send_once_sends [of T ?r2 "op_name p" log1] obtain e2
    where e2: "log2 = log1 @ e2" "sends {build_body_tool L p req} 1 e2" by (auto simp: openai_request_def)
  have one: "sends {build_body_response_format L p req, build_body_tool L p req} 2 e1"
    by (rule sends_mono [OF e1(2)]) auto
  have two: "sends {build_body_response_format L p req, build_body_tool L p req} 2 (e1 @ e2)"
    by (rule sends_mono [OF sends_append [OF e1(2) e2(2)]]) auto
  show ?thesis
  proof (cases a)
    case (BadRequest m)
    with Inr s1 s2 e1(1) e2(1) two show ?thesis
      by (intro exI [of _ "e1 @ e2"]) (simp add: openai_complete_def split: http_attempt.split)
  qed (use Inr s1 e1(1) one in \<open>auto simp: openai_complete_def\<close>)
qed

lemma anthropic_sends:
  "\<exists>evs. snd (anthropic_complete L T decode env model req log) = log @ evs \<and> sends {anthropic_build_body L model req} 1 evs"
proof (cases "anthropic_api_key env")
  case (Inl e)
  then show ?thesis by (simp add: anthropic_complete_def)
next
  case (Inr key)
  let ?r = "anthropic_request key (anthropic_build_body L model req)"
  obtain a log1 where s: "send_with_rate_limit_retry T ?r log = (a, log1)" by fastforce
  with rate_limit_sends [of T ?r log] obtain e
    where "log1 = log @ e" "sends {anthropic_build_body L model req} 1 e" by (auto simp: anthropic_request_def)
  with Inr s show ?thesis
    by (auto simp: anthropic_complete_def split: sum.split)
qed

text \<open>
  Whatever the server answers, one completion sends only the bodies built from its request, at
  most four requests and two waits with an OpenAI-compatible provider, and two and one with Anthropic.
\<close>

theorem llm_completion_posts_bounded:
  "\<exists>evs. snd (provider_complete S p req log) = log @ evs
     \<and> hq_body ` set (posts evs) \<subseteq> request_bodies S p req
     \<and> length (posts evs) \<le> (case p of OpenAiProvider _ \<Rightarrow> 4 | AnthropicProvider _ \<Rightarrow> 2)
     \<and> sleeps evs \<le> (case p of OpenAiProvider _ \<Rightarrow> 2 | AnthropicProvider _ \<Rightarrow> 1)"
proof (cases p)
  case (OpenAiProvider q)
  with openai_sends [of "ls_json S" "ls_http S" "ls_chat S" "ls_env S" q req log] show ?thesis
    by (auto simp: provider_complete_def request_bodies_def sends_def)
next
  case (AnthropicProvider m)
  with anthropic_sends [of "ls_json S" "ls_http S" "ls_blocks S" "ls_env S" m req log] show ?thesis
    by (auto simp: provider_complete_def request_bodies_def sends_def)
qed

section \<open>The whole stack\<close>

lemma complete_sends:
  "\<exists>evs. snd (provider_complete S p req log) = log @ evs \<and> sends (request_bodies S p req) 2 evs"
proof (cases p)
  case (OpenAiProvider q)
  with openai_sends [of "ls_json S" "ls_http S" "ls_chat S" "ls_env S" q req log] show ?thesis
    by (simp add: provider_complete_def request_bodies_def)
next
  case (AnthropicProvider m)
  with anthropic_sends [of "ls_json S" "ls_http S" "ls_blocks S" "ls_env S" m req log]
  obtain e where "snd (provider_complete S p req log) = log @ e" "sends (request_bodies S p req) 1 e"
    by (auto simp: provider_complete_def request_bodies_def)
  then show ?thesis by (intro exI [of _ e]) (simp add: sends_mono [of _ 1])
qed

lemma http_log_sends: "sends (\<Union> (request_bodies S p ` set asked)) (2 * length asked) (http_log S p asked)"
proof (induction asked rule: rev_induct)
  case Nil
  then show ?case by (simp add: http_log_def)
next
  case (snoc req asked)
  obtain evs where "snd (provider_complete S p req (http_log S p asked)) = http_log S p asked @ evs"
    "sends (request_bodies S p req) 2 evs" using complete_sends by blast
  with sends_append [OF snoc, of "request_bodies S p req" 2 evs] show ?case
    by (simp add: http_log_def Un_commute)
qed

text \<open>Whether the message of a body carries an image.\<close>

definition message_blocks :: "json \<Rightarrow> json list" where
  "message_blocks body =
     (case json_get ''messages'' body of
        Some (JArray (m # _)) \<Rightarrow> (case json_get ''content'' m of Some (JArray bs) \<Rightarrow> bs | _ \<Rightarrow> [])
      | _ \<Rightarrow> [])"

definition has_image :: "json \<Rightarrow> bool" where
  "has_image body \<longleftrightarrow>
     list_ex (\<lambda>b. json_get ''type'' b = Some (JString ''image_url'') \<or> json_get ''type'' b = Some (JString ''image''))
       (message_blocks body)"

lemma has_image_body: "body \<in> request_bodies S p req \<Longrightarrow> has_image body \<longleftrightarrow> cq_image req \<noteq> None"
proof (cases p)
  case (OpenAiProvider q)
  moreover have "has_image (build_body_response_format (ls_json S) q req) \<longleftrightarrow> cq_image req \<noteq> None"
    by (simp add: has_image_def message_blocks_def build_body_response_format_def user_content_def json_get_def split: option.split)
  moreover have "has_image (build_body_tool (ls_json S) q req) \<longleftrightarrow> cq_image req \<noteq> None"
    by (simp add: has_image_def message_blocks_def build_body_tool_def user_content_def json_get_def split: option.split)
  ultimately show "body \<in> request_bodies S p req \<Longrightarrow> has_image body \<longleftrightarrow> cq_image req \<noteq> None"
    by (auto simp: request_bodies_def)
next
  case (AnthropicProvider model)
  moreover have "has_image (anthropic_build_body (ls_json S) model req) \<longleftrightarrow> cq_image req \<noteq> None"
    by (simp add: has_image_def message_blocks_def anthropic_build_body_def anthropic_content_def json_get_def split: option.split)
  ultimately show "body \<in> request_bodies S p req \<Longrightarrow> has_image body \<longleftrightarrow> cq_image req \<noteq> None"
    by (auto simp: request_bodies_def)
qed

lemma calls_length: "length reqs = text_calls reqs + escalations reqs"
  by (induction reqs) (auto simp: text_calls_def escalations_def)

text \<open>
  C39. Through all layers: with a registry built from the environment, a first batch sends at most four
  HTTP requests for each text and each escalation its cap allows (redirects inside the client not
  counted), and when the model is not vision-capable no request carries an image.
\<close>

theorem llm_stack_cost_and_vision_gate:
  assumes "registry_from_env S = Some (reg, p)"
    and "llm_return_fields (ls_json S) sargs = Inr fs" and "sargs ! 2 = Some s"
    and "length args = 3" and "args ! 2 = CvScalar s"
    and "text_column n (args ! 0) texts" and "text_column n (args ! 1) images" and "0 < n"
    and "llm_invoke (ls_json S) reg (ls_env S) io n args [] = Some (Inr (a, st))"
  shows "(\<forall>cap. lr_max_calls reg = Some cap \<longrightarrow>
            length (posts (http_log S p (lu_asked st))) \<le> 4 * (nonempty_texts texts + unat cap))
    \<and> length (posts (http_log S p (lu_asked st))) \<le> 8 * nonempty_texts texts
    \<and> (\<not> lr_vision reg \<longrightarrow>
         length (posts (http_log S p (lu_asked st))) \<le> 4 * nonempty_texts texts
         \<and> (\<forall>r \<in> set (posts (http_log S p (lu_asked st))). \<not> has_image (hq_body r)))"
proof -
  from llm_invoke_asks [OF assms(2-9)] obtain reqs where
    r: "asks \<lparr>lu_budget = lr_max_calls reg, lu_asked = []\<rparr> reqs st"
    "text_calls reqs = nonempty_texts texts" "escalations reqs \<le> nonempty_texts texts"
    "\<not> lr_vision reg \<longrightarrow> escalations reqs = 0" by blast
  from r(1) have asked: "lu_asked st = reqs" by (simp add: asks_def)
  have sent: "sends (\<Union> (request_bodies S p ` set reqs)) (2 * length reqs) (http_log S p reqs)" by (rule http_log_sends)
  then have len: "length (posts (http_log S p reqs)) \<le> 4 * (nonempty_texts texts + escalations reqs)"
    using r(2) calls_length [of reqs] by (simp add: sends_def)
  have "\<not> has_image (hq_body q)" if "\<not> lr_vision reg" "q \<in> set (posts (http_log S p reqs))" for q
  proof -
    from sent that(2) obtain x where "x \<in> set reqs" "hq_body q \<in> request_bodies S p x" by (auto simp: sends_def)
    moreover have "cq_image x = None"
      using r(4) that(1) calculation(1) by (auto simp: escalations_def filter_empty_conv)
    ultimately show ?thesis using has_image_body by blast
  qed
  moreover have "length (posts (http_log S p reqs)) \<le> 4 * (nonempty_texts texts + unat cap)" if "lr_max_calls reg = Some cap" for cap
    using len asks_capped [OF r(1), of cap] that by simp
  ultimately show ?thesis using len r(3,4) by (auto simp: asked)
qed

text \<open>A stack with an empty environment and a server that refuses every request.\<close>

definition demo_stack :: llm_stack where
  "demo_stack =
     \<lparr> ls_json = demo_json_lib,
       ls_http = \<lparr>ht_send = (\<lambda>_ _. Inl []), ht_show_status = (\<lambda>_. [])\<rparr>,
       ls_chat = (\<lambda>_. None), ls_blocks = (\<lambda>_. None), ls_env = (\<lambda>_. None) \<rparr>"

lemma demo_stack_registry:
  "\<exists>reg p. registry_from_env demo_stack = Some (reg, p) \<and> \<not> lr_vision reg \<and> lr_max_calls reg = None"
  by (simp add: registry_from_env_def build_provider_from_env_def active_provider_name_def env_flag_def
      openai_compat_providers_def default_provider_def build_openai_compat_def demo_stack_def Let_def
      resolve_vision_def model_is_vision_capable_def to_lowercase_def to_lower_char_def starts_with_def)

theorem llm_stack_cost_and_vision_gate_witness:
  "\<exists>reg p a st. registry_from_env demo_stack = Some (reg, p)
     \<and> llm_invoke (ls_json demo_stack) reg (ls_env demo_stack) demo_image_io 2 demo_llm_args [] = Some (Inr (a, st))
     \<and> length (posts (http_log demo_stack p (lu_asked st))) \<le> 4"
proof -
  obtain reg p where rp: "registry_from_env demo_stack = Some (reg, p)" "\<not> lr_vision reg" using demo_stack_registry by blast
  have js: "ls_json demo_stack = demo_json_lib" by (simp add: demo_stack_def)
  from llm_invoke_batch [OF demo_columns(3,4) demo_plan demo_columns(1,2) _ refl, of reg "ls_env demo_stack" demo_image_io "[]"]
  obtain a st where a: "llm_invoke demo_json_lib reg (ls_env demo_stack) demo_image_io 2 demo_llm_args [] = Some (Inr (a, st))" by auto
  from llm_stack_cost_and_vision_gate [OF rp(1), unfolded js, OF demo_planned _ demo_columns(3) demo_columns(4) demo_columns(1,2) _ a] rp(2)
  have "length (posts (http_log demo_stack p (lu_asked st))) \<le> 4" by (auto simp: nonempty_texts_def)
  with rp(1) a js show ?thesis by auto
qed

end
