(* ===== verification/Mysql_Provider.thy ===== *)
theory Mysql_Provider
  imports Pg_Provider
begin

text \<open>
  The MySQL provider (\<^verbatim>\<open>sources/providers/mysql.rs\<close>) and the connection settings it shares with
  SeekDB (\<^verbatim>\<open>sources/providers/mysql_wire.rs\<close>): the parameters of the pool, the listing of a
  database's tables, registration, and the statements of DELETE and UPDATE. The connection pool, the
  factory of table providers and the engine's unparser are parameters. A parsed URL is the record
  of the PostgreSQL theory.
\<close>

section \<open>Connection settings\<close>

definition wire_env_param ::
  "(string \<rightharpoonup> string) \<Rightarrow> string \<Rightarrow> (string \<rightharpoonup> string) \<Rightarrow> string \<Rightarrow> string \<Rightarrow> string \<Rightarrow> (string \<rightharpoonup> string)
   \<Rightarrow> string + (string \<rightharpoonup> string)" where
  "wire_env_param env label opts option_key key what m =
     (case opts option_key of
        None \<Rightarrow> Inr m
      | Some var \<Rightarrow>
          try_res (ok_or (env var)
              (''Environment variable '' @ quote @ var @ quote @ '' not found for '' @ label @ '' '' @ what)) (\<lambda>v.
          Inr (m(key \<mapsto> v))))"

definition first_path_segment :: "string \<Rightarrow> string" where
  "first_path_segment path = hd (str_split (CHR ''/'') (dropWhile (\<lambda>c. c = CHR ''/'') path))"

definition parse_mysql_wire_connection_params ::
  "(string \<Rightarrow> string + pg_url) \<Rightarrow> (string \<rightharpoonup> string) \<Rightarrow> string \<Rightarrow> (string \<rightharpoonup> string) option \<Rightarrow> nat \<Rightarrow> string
   \<Rightarrow> string + (string \<rightharpoonup> string)" where
  "parse_mysql_wire_connection_params parse env connection_string options default_port label =
     try_res (map_err (\<lambda>_. ''Invalid '' @ label @ '' connection string: '' @ connection_string) (parse connection_string)) (\<lambda>url.
     let port = (case pl_port url of Some n \<Rightarrow> n | None \<Rightarrow> default_port);
         db_name = first_path_segment (pl_path url);
         m1 = insert_param ''host'' (pl_host url) Map.empty;
         m2 = m1(''tcp_port'' \<mapsto> show_nat port);
         m3 = insert_param ''db'' (if db_name \<noteq> [] then Some db_name else None) m2 in
     try_res
       (case options of
          None \<Rightarrow> Inr m3
        | Some opts \<Rightarrow>
            try_res (wire_env_param env label opts ''user_env'' ''user'' ''user'' m3)
              (wire_env_param env label opts ''pass_env'' ''pass'' ''password'')) (\<lambda>m4.
     Inr (m4(''sslmode'' \<mapsto> (case Option.bind options (\<lambda>opts. opts ''ssl_mode'') of
                               Some s \<Rightarrow> to_lowercase s | None \<Rightarrow> ''disabled'')))))"

definition mysql_connection_params ::
  "(string \<Rightarrow> string + pg_url) \<Rightarrow> (string \<rightharpoonup> string) \<Rightarrow> string \<Rightarrow> (string \<rightharpoonup> string) option \<Rightarrow> string + (string \<rightharpoonup> string)" where
  "mysql_connection_params parse env connection_string options =
     parse_mysql_wire_connection_params parse env connection_string options 3306 ''MySQL''"

section \<open>Names\<close>

datatype table_name_ref = BareTable string | PartialTable string string | FullTable string string string

definition backtick :: char where
  "backtick = CHR 0x60"

definition quote_mysql_ident :: "string \<Rightarrow> string" where
  "quote_mysql_ident s = [backtick] @ str_replace [backtick] [backtick, backtick] s @ [backtick]"

definition table_parts :: "table_name_ref \<Rightarrow> string list" where
  "table_parts t = (case t of BareTable t \<Rightarrow> [t] | PartialTable s t \<Rightarrow> [s, t] | FullTable c s t \<Rightarrow> [c, s, t])"

definition quote_mysql_table :: "table_name_ref \<Rightarrow> string" where
  "quote_mysql_table t = str_join ''.'' (map quote_mysql_ident (table_parts t))"

section \<open>Listing the tables\<close>

text \<open>The statement and its bound values.\<close>

definition base_query :: "string list \<Rightarrow> string" where
  "base_query system_schemas =
     ''SELECT table_schema, table_name'' @ [CHR 0x0A]
     @ ''         FROM information_schema.tables'' @ [CHR 0x0A]
     @ ''         WHERE table_type IN ('' @ [squote] @ ''BASE TABLE'' @ [squote] @ '', '' @ [squote] @ ''VIEW'' @ [squote] @ '')''
     @ [CHR 0x0A] @ ''           AND table_schema NOT IN (''
     @ str_join '', '' (map (\<lambda>s. [squote] @ s @ [squote]) system_schemas) @ '')''"

definition list_tables_query :: "string list \<Rightarrow> string list option \<Rightarrow> string \<times> string list" where
  "list_tables_query system_schemas allowed_schemas =
     (case allowed_schemas of
        Some (a # rest) \<Rightarrow>
          (base_query system_schemas @ '' AND table_schema IN (''
           @ str_join '','' (replicate (length (a # rest)) ''?'') @ '') ORDER BY table_schema, table_name'', a # rest)
      | _ \<Rightarrow> (base_query system_schemas @ '' ORDER BY table_schema, table_name'', []))"

definition mysql_system_schemas :: "string list" where
  "mysql_system_schemas = [''mysql'', ''information_schema'', ''performance_schema'', ''sys'']"

section \<open>Providers and registration\<close>

text \<open>
  A table provider: the one of the factory, or the wrapper that adds DELETE and UPDATE to a
  read-write one.
\<close>

datatype ('i, 'p) mysql_table = MysqlInner 'i | MySQLDmlProvider 'i 'p table_name_ref

text \<open>
  The outside: the pools, the read-only and the read-write provider the factory makes of a table,
  and the rows of a statement over the pool's connection.
\<close>

record ('i, 'p) mysql_world =
  mw_parse_url :: "string \<Rightarrow> string + pg_url"
  mw_env :: "string \<rightharpoonup> string"
  mw_pool :: "(string \<rightharpoonup> string) \<Rightarrow> nat \<Rightarrow> 'p attempt"
  mw_provider :: "'p \<Rightarrow> table_name_ref \<Rightarrow> string + 'i"
  mw_read_write_provider :: "'p \<Rightarrow> table_name_ref \<Rightarrow> string + 'i"
  mw_debug :: "table_name_ref \<Rightarrow> string"
  mw_tables :: "'p \<Rightarrow> string \<times> string list \<Rightarrow> nat \<Rightarrow> (string \<times> string) list attempt"

definition build_mysql_table_provider ::
  "('i, 'p) mysql_world \<Rightarrow> 'p \<Rightarrow> table_name_ref \<Rightarrow> bool \<Rightarrow> string + ('i, 'p) mysql_table" where
  "build_mysql_table_provider W pool table_reference read_write =
     try_res
       (if read_write
        then map_err (\<lambda>e. ''Failed to create read-write table provider for '' @ quote @ mw_debug W table_reference @ quote @ '': '' @ e) (mw_read_write_provider W pool table_reference)
        else map_err (\<lambda>e. ''Failed to create read-only table provider for '' @ quote @ mw_debug W table_reference @ quote @ '': '' @ e) (mw_provider W pool table_reference)) (\<lambda>inner.
     Inr (if read_write then MySQLDmlProvider inner pool table_reference else MysqlInner inner))"

datatype mysql_register_error =
  MysqlSettings string
| MysqlPool string retry_error
| MysqlMissingTable string
| MysqlBuild string
| MysqlSession string
| MysqlList string retry_error
| MysqlCatalog string build_error

definition register_single_mysql_table ::
  "('i, 'p) mysql_world \<Rightarrow> ('s \<Rightarrow> string \<Rightarrow> ('i, 'p) mysql_table \<Rightarrow> string + 's) \<Rightarrow> 's \<Rightarrow> string \<Rightarrow> string
   \<Rightarrow> (string \<rightharpoonup> string) option \<Rightarrow> bool \<Rightarrow> mysql_register_error + 's" where
  "register_single_mysql_table W register session name connection_string options read_write =
     try_res (ok_or (Option.bind options (\<lambda>opts. opts ''table''))
       (MysqlMissingTable (''MySQL data source '' @ quote @ name @ quote @ '' requires '' @ quote @ ''table'' @ quote @ '' option'')))
       (\<lambda>table_name.
     let schema_name = Option.bind options (\<lambda>opts. opts ''schema'') in
     try_res (map_err MysqlSettings (mysql_connection_params (mw_parse_url W) (mw_env W) connection_string options)) (\<lambda>params.
     let label = \<lparr>sl_kind = Mysql, sl_hierarchy = TableLevel, sl_name = name\<rparr> in
     try_res (map_err (MysqlPool (''Failed to create MySQL connection pool for '' @ quote @ name @ quote))
       (fst (retry_with_timeout label ''pool creation'' (mw_pool W params)))) (\<lambda>pool.
     let table_reference = (case schema_name of Some s \<Rightarrow> PartialTable s table_name | None \<Rightarrow> BareTable table_name) in
     try_res (map_err MysqlBuild (build_mysql_table_provider W pool table_reference read_write)) (\<lambda>table_provider.
     map_err (\<lambda>e. MysqlSession (''Failed to register MySQL table '' @ quote @ name @ quote @ '' with DataFusion: '' @ e))
       (register session name table_provider)))))"

definition register_mysql_catalog ::
  "('i, 'p) mysql_world \<Rightarrow> ('m, ('i, 'p) mysql_table) table_ops \<Rightarrow> 'm \<Rightarrow> nat list \<Rightarrow> (string \<rightharpoonup> 'm) \<Rightarrow> string
   \<Rightarrow> string \<Rightarrow> (string \<rightharpoonup> string) option \<Rightarrow> bool \<Rightarrow> mysql_register_error + (string \<rightharpoonup> 'm)" where
  "register_mysql_catalog W ops new completion session catalog_name connection_string options read_write =
     try_res (map_err MysqlSettings (mysql_connection_params (mw_parse_url W) (mw_env W) connection_string options)) (\<lambda>params.
     let label = \<lparr>sl_kind = Mysql, sl_hierarchy = CatalogLevel, sl_name = catalog_name\<rparr> in
     try_res (map_err (MysqlPool (''Failed to create MySQL connection pool for catalog '' @ quote @ catalog_name @ quote))
       (fst (retry_with_timeout label ''pool creation'' (mw_pool W params)))) (\<lambda>pool.
     try_res (map_err (MysqlList (''Failed to list MySQL tables for catalog-wide registration in source ''
                                  @ quote @ catalog_name @ quote))
       (fst (retry_with_timeout label ''information_schema introspection''
          (mw_tables W pool (list_tables_query mysql_system_schemas (parse_allowed_schemas options)))))) (\<lambda>schema_tables.
     map_err (MysqlCatalog (''Failed to build MySQL catalog '' @ quote @ catalog_name @ quote))
       (build_catalog ops new session catalog_name schema_tables
          (\<lambda>_ table_name. build_mysql_table_provider W pool (BareTable table_name) read_write) completion))))"

definition register_mysql_tables ::
  "('i, 'p) mysql_world \<Rightarrow> ('m, ('i, 'p) mysql_table) table_ops \<Rightarrow> 'm \<Rightarrow> nat list \<Rightarrow> (string \<rightharpoonup> 'm)
   \<Rightarrow> ('s \<Rightarrow> string \<Rightarrow> ('i, 'p) mysql_table \<Rightarrow> string + 's) \<Rightarrow> 's \<Rightarrow> string \<Rightarrow> string
   \<Rightarrow> (string \<rightharpoonup> string) option \<Rightarrow> bool \<Rightarrow> hierarchy_level
   \<Rightarrow> (mysql_register_error + (string \<rightharpoonup> 'm)) + (mysql_register_error + 's)" where
  "register_mysql_tables W ops new completion catalogs register session name connection_string options read_write level =
     (case level of
        CatalogLevel \<Rightarrow>
          Inl (register_mysql_catalog W ops new completion catalogs name connection_string options read_write)
      | TableLevel \<Rightarrow>
          Inr (register_single_mysql_table W register session name connection_string options read_write))"

section \<open>DELETE and UPDATE\<close>

definition mysql_delete_from :: "(expr \<Rightarrow> string + string) \<Rightarrow> table_name_ref \<Rightarrow> expr list \<Rightarrow> string + string" where
  "mysql_delete_from unparse table_reference filters =
     try_res (build_where_clause unparse filters) (\<lambda>where_clause.
     Inr (''DELETE FROM '' @ quote_mysql_table table_reference @ where_clause))"

definition mysql_assignment :: "(expr \<Rightarrow> string + string) \<Rightarrow> string \<times> expr \<Rightarrow> string + string" where
  "mysql_assignment unparse a =
     (case a of (col, e) \<Rightarrow>
        try_res (map_err (\<lambda>m. ''Failed to unparse assignment expression for column '' @ quote @ col @ quote
                                @ '': '' @ m) (unparse e))
          (\<lambda>val. Inr (quote_mysql_ident col @ '' = '' @ val)))"

definition mysql_update ::
  "(expr \<Rightarrow> string + string) \<Rightarrow> table_name_ref \<Rightarrow> (string \<times> expr) list \<Rightarrow> expr list \<Rightarrow> string + string" where
  "mysql_update unparse table_reference assignments filters =
     (if assignments = [] then Inl ''UPDATE requires at least one assignment''
      else
        try_res (collect_res (map (mysql_assignment unparse) assignments)) (\<lambda>sets.
        try_res (build_where_clause unparse filters) (\<lambda>where_clause.
        Inr (''UPDATE '' @ quote_mysql_table table_reference @ '' SET '' @ str_join '', '' sets @ where_clause))))"

text \<open>Running a statement: the connection, which may fail, and the number of rows it affected.\<close>

definition mysql_dml_execute ::
  "('d \<Rightarrow> string + unit) \<Rightarrow> ('d \<Rightarrow> string \<Rightarrow> (string + 64 word) \<times> 'd) \<Rightarrow> string \<Rightarrow> 'd \<Rightarrow> (string + 64 word) \<times> 'd" where
  "mysql_dml_execute connect exec sql d =
     (case connect d of
        Inl e \<Rightarrow> (Inl (''MySQL DML connect error: '' @ e), d)
      | Inr _ \<Rightarrow>
          (case exec d sql of
             (Inl e, d') \<Rightarrow> (Inl (''MySQL DML execute error: '' @ e), d')
           | (Inr n, d') \<Rightarrow> (Inr n, d')))"

section \<open>Statements name their table\<close>

text \<open>How the server reads identifiers in backticks joined by dots, and the text after them.\<close>

lemma read_mysql_ident:
  "rest = [] \<or> hd rest \<noteq> backtick \<Longrightarrow> read_quoted backtick (quote_mysql_ident s @ rest) = Some (s, rest)"
  using read_body_quoted by (simp add: quote_mysql_ident_def)

lemma read_mysql_table:
  "rest = [] \<or> hd rest \<noteq> backtick \<and> hd rest \<noteq> CHR ''.'' \<Longrightarrow>
   read_dotted backtick (quote_mysql_table t @ rest) = Some (table_parts t, rest)"
  unfolding quote_mysql_table_def
  by (rule read_dotted_segments) (simp_all add: table_parts_def backtick_def [symmetric] read_mysql_ident split: table_name_ref.split, simp add: backtick_def)

lemma where_clause_follows:
  "clause_states unparse filters w \<Longrightarrow> w = [] \<or> hd w \<noteq> backtick \<and> hd w \<noteq> CHR ''.''"
  by (auto simp: clause_states_def backtick_def split: if_splits)

lemma mysql_assignment_reads:
  "mysql_assignment unparse (col, e) = Inr s \<longleftrightarrow> (\<exists>val. unparse e = Inr val \<and> s = quote_mysql_ident col @ '' = '' @ val)"
  by (auto simp: mysql_assignment_def res_simps)

text \<open>What an assignment of the SET clause is read as: its column, and the rendered expression.\<close>

definition assigns :: "(expr \<Rightarrow> string + string) \<Rightarrow> string \<times> expr \<Rightarrow> string \<Rightarrow> bool" where
  "assigns unparse a s \<longleftrightarrow> (\<exists>val. unparse (snd a) = Inr val \<and> read_quoted backtick s = Some (fst a, '' = '' @ val))"

lemma mysql_sets:
  assumes "map (mysql_assignment unparse) assignments = map Inr sets"
  shows "list_all2 (assigns unparse) assignments sets"
proof (rule list_all2_all_nthI)
  show len: "length assignments = length sets" using assms by (metis length_map)
  fix i assume i: "i < length assignments"
  obtain col e where a: "assignments ! i = (col, e)" by fastforce
  have "mysql_assignment unparse (assignments ! i) = Inr (sets ! i)"
    using assms i len by (metis nth_map)
  then obtain val where v: "unparse e = Inr val" "sets ! i = quote_mysql_ident col @ '' = '' @ val"
    unfolding a mysql_assignment_reads by blast
  have "read_quoted backtick (sets ! i) = Some (col, '' = '' @ val)"
    unfolding v(2) by (rule read_mysql_ident) (simp add: backtick_def)
  with v(1) a show "assigns unparse (assignments ! i) (sets ! i)" by (simp add: assigns_def)
qed


definition demo_unparse :: "expr \<Rightarrow> string + string" where
  "demo_unparse e = (case e of EOther s \<Rightarrow> Inr s | _ \<Rightarrow> Inl ''unsupported'')"


section \<open>Connection parameters\<close>

text \<open>
  The pool is given the URL's host and the first segment of its path as the database, the URL's
  port or the default one, and an SSL mode in lower case; its user and password come only from
  environment variables named in the options, never from the URL, and there are no other settings.
\<close>

theorem wire_params_spec:
  assumes "parse_mysql_wire_connection_params parse env c options default_port label = Inr m"
  shows "\<exists>url. parse c = Inr url
    \<and> m ''host'' = pl_host url
    \<and> m ''tcp_port'' = Some (show_nat (case pl_port url of Some n \<Rightarrow> n | None \<Rightarrow> default_port))
    \<and> m ''db'' = (if first_path_segment (pl_path url) = [] then None else Some (first_path_segment (pl_path url)))
    \<and> m ''user'' = Option.bind (Option.bind options (\<lambda>opts. opts ''user_env'')) env
    \<and> m ''pass'' = Option.bind (Option.bind options (\<lambda>opts. opts ''pass_env'')) env
    \<and> m ''sslmode'' = Some (case Option.bind options (\<lambda>opts. opts ''ssl_mode'') of Some s \<Rightarrow> to_lowercase s | None \<Rightarrow> ''disabled'')
    \<and> dom m \<subseteq> {''host'', ''tcp_port'', ''db'', ''user'', ''pass'', ''sslmode''}"
proof -
  from assms obtain url where u: "parse c = Inr url" by (auto simp: parse_mysql_wire_connection_params_def res_simps)
  define base where "base = insert_param ''db'' (if first_path_segment (pl_path url) \<noteq> [] then Some (first_path_segment (pl_path url)) else None)
      ((insert_param ''host'' (pl_host url) Map.empty)
        (''tcp_port'' \<mapsto> show_nat (case pl_port url of Some n \<Rightarrow> n | None \<Rightarrow> default_port)))"
  define ssl where "ssl = (case Option.bind options (\<lambda>opts. opts ''ssl_mode'') of Some s \<Rightarrow> to_lowercase s | None \<Rightarrow> ''disabled'')"
  have b: "base ''host'' = pl_host url" "base ''tcp_port'' = Some (show_nat (case pl_port url of Some n \<Rightarrow> n | None \<Rightarrow> default_port))"
    "base ''db'' = (if first_path_segment (pl_path url) = [] then None else Some (first_path_segment (pl_path url)))"
    "base ''user'' = None" "base ''pass'' = None" "dom base \<subseteq> {''host'', ''tcp_port'', ''db''}"
    by (auto simp: base_def insert_param_def split: option.splits if_splits)
  have "try_res (case options of
          None \<Rightarrow> Inr base
        | Some opts \<Rightarrow>
            try_res (wire_env_param env label opts ''user_env'' ''user'' ''user'' base)
              (wire_env_param env label opts ''pass_env'' ''pass'' ''password''))
        (\<lambda>m4. Inr (m4(''sslmode'' \<mapsto> ssl))) = Inr m"
    using assms unfolding parse_mysql_wire_connection_params_def u map_err_simps try_res_simps Let_def base_def ssl_def .
  then obtain m4 where m4:
    "(case options of
          None \<Rightarrow> Inr base
        | Some opts \<Rightarrow>
            try_res (wire_env_param env label opts ''user_env'' ''user'' ''user'' base)
              (wire_env_param env label opts ''pass_env'' ''pass'' ''password'')) = Inr m4"
    "m = m4(''sslmode'' \<mapsto> ssl)"
    unfolding try_res_Inr_iff by blast
  have w: "wire_env_param env label opts k key what x = Inr y \<longleftrightarrow>
      (case opts k of None \<Rightarrow> y = x | Some var \<Rightarrow> \<exists>v. env var = Some v \<and> y = x(key \<mapsto> v))" for opts k key what x y
    by (auto simp: wire_env_param_def res_simps split: option.split)
  have m4': "m4 ''user'' = Option.bind (Option.bind options (\<lambda>opts. opts ''user_env'')) env
      \<and> m4 ''pass'' = Option.bind (Option.bind options (\<lambda>opts. opts ''pass_env'')) env
      \<and> (\<forall>k. k \<noteq> ''user'' \<longrightarrow> k \<noteq> ''pass'' \<longrightarrow> m4 k = base k)"
  proof (cases options)
    case None
    with m4(1) b(4,5) show ?thesis by simp
  next
    case (Some a)
    with m4(1) b(4,5) show ?thesis
      by (cases "a ''user_env''"; cases "a ''pass_env''") (auto simp: w res_simps)
  qed
  have "dom m \<subseteq> {''host'', ''tcp_port'', ''db'', ''user'', ''pass'', ''sslmode''}"
  proof
    fix k assume k: "k \<in> dom m"
    show "k \<in> {''host'', ''tcp_port'', ''db'', ''user'', ''pass'', ''sslmode''}"
    proof (cases "k = ''sslmode'' \<or> k = ''user'' \<or> k = ''pass''")
      case False
      then have "m k = base k" using m4' m4(2) by simp
      then have "k \<in> dom base" using k by (simp add: dom_def)
      with b(6) show ?thesis by blast
    qed blast
  qed
  moreover have "m ''host'' = base ''host''" "m ''tcp_port'' = base ''tcp_port''" "m ''db'' = base ''db''"
    "m ''user'' = m4 ''user''" "m ''pass'' = m4 ''pass''" "m ''sslmode'' = Some ssl"
    using m4' m4(2) by simp_all
  ultimately show ?thesis using b(1-3) m4' u unfolding ssl_def by metis
qed

theorem wire_params_spec_witness:
  "\<exists>m. parse_mysql_wire_connection_params demo_pg_url Map.empty ''c'' None 3306 ''MySQL'' = Inr m
     \<and> m ''db'' = Some ''shop'' \<and> m ''user'' = None \<and> m ''sslmode'' = Some ''disabled''"
proof -
  obtain m where m: "parse_mysql_wire_connection_params demo_pg_url Map.empty ''c'' None 3306 ''MySQL'' = Inr m"
    by (simp add: parse_mysql_wire_connection_params_def demo_pg_url_def Let_def)
  from wire_params_spec [OF m] m show ?thesis
    by (auto simp: demo_pg_url_def first_path_segment_def)
qed

section \<open>Tables of other schemas\<close>

text \<open>
  A catalog lists the tables of every schema, but every one of its providers is made for the bare
  table name: a table of a schema that is not the connection's own is served from the table of that
  name in the connection's schema, when there is one.
\<close>

definition list_table_ops :: "((string \<times> (string \<times> 'a) list) list, 'a) table_ops" where
  "list_table_ops =
     \<lparr>has_schema = (\<lambda>c s. map_of c s \<noteq> None),
      register_schema = (\<lambda>c s. Inr (c @ [(s, [])])),
      register_table = (\<lambda>c s t p. Inr (map (\<lambda>(s', ts). if s' = s then (s', ts @ [(t, p)]) else (s', ts)) c))\<rparr>"

lemma retry_done: "(\<And>n. op n = Done v) \<Longrightarrow> fst (retry_with_timeout l what op) = Inr v"
  unfolding retry_with_timeout_def retry_attempts by simp

theorem mysql_catalog_serves_the_default_schema:
  assumes "mysql_connection_params (mw_parse_url W) (mw_env W) c options = Inr params"
    and "\<And>n. mw_pool W params n = Done pool"
    and "\<And>q n. mw_tables W pool q n = Done [(''a'', t), (''b'', t)]"
    and "build_mysql_table_provider W pool (BareTable t) rw = Inr p"
  shows "register_mysql_catalog W list_table_ops [] [0, 1] session name c options rw
    = Inr (session(name \<mapsto> [(''a'', [(t, p)]), (''b'', [(t, p)])]))"
proof -
  have pool: "fst (retry_with_timeout l what (mw_pool W params)) = Inr pool" for l what
    by (rule retry_done) (rule assms(2))
  have tabs: "fst (retry_with_timeout l what (mw_tables W pool q)) = Inr [(''a'', t), (''b'', t)]" for l what q
    by (rule retry_done) (rule assms(3))
  have cat: "build_catalog list_table_ops [] session name [(''a'', t), (''b'', t)]
      (\<lambda>_ table_name. build_mysql_table_provider W pool (BareTable table_name) rw) [0, 1]
      = Inr (session(name \<mapsto> [(''a'', [(t, p)]), (''b'', [(t, p)])]))"
    using assms(4) by (simp add: build_catalog_def build_provider_def register_prepared_def list_table_ops_def sort_key_def)
  show ?thesis
    unfolding register_mysql_catalog_def assms(1) map_err_simps try_res_simps Let_def pool tabs cat ..
qed

text \<open>A server without settings to check, whose providers are the references they were made for.\<close>

definition demo_mysql :: "(table_name_ref, nat) mysql_world" where
  "demo_mysql =
     \<lparr>mw_parse_url = demo_pg_url, mw_env = Map.empty, mw_pool = (\<lambda>_ _. Done 0),
      mw_provider = (\<lambda>_. Inr), mw_read_write_provider = (\<lambda>_. Inr), mw_debug = (\<lambda>_. []),
      mw_tables = (\<lambda>_ _ _. Done [(''a'', ''t''), (''b'', ''t'')])\<rparr>"

theorem mysql_catalog_serves_the_default_schema_witness:
  "register_mysql_catalog demo_mysql list_table_ops [] [0, 1] Map.empty ''m'' ''c'' None False
    = Inr [''m'' \<mapsto> [(''a'', [(''t'', MysqlInner (BareTable ''t''))]), (''b'', [(''t'', MysqlInner (BareTable ''t''))])]]"
proof -
  have "is_ok (mysql_connection_params (mw_parse_url demo_mysql) (mw_env demo_mysql) ''c'' None)"
    by (simp add: mysql_connection_params_def parse_mysql_wire_connection_params_def demo_mysql_def demo_pg_url_def Let_def)
  then obtain params where p: "mysql_connection_params (mw_parse_url demo_mysql) (mw_env demo_mysql) ''c'' None = Inr params"
    by (auto simp: is_ok_iff)
  show ?thesis
    by (rule mysql_catalog_serves_the_default_schema [OF p])
      (simp_all add: demo_mysql_def build_mysql_table_provider_def)
qed

end
