(* ===== verification/Seekdb_Provider.thy ===== *)
theory Seekdb_Provider
  imports Mysql_Provider
begin

text \<open>
  The SeekDB provider (\<^verbatim>\<open>sources/providers/seekdb/mod.rs\<close>): the types of a table's columns,
  registration of a table or a whole database with entries for the search functions, and the
  statements of DELETE and UPDATE. The connection pool, the table provider of the SQL library and the
  unparser are parameters.
\<close>

section \<open>Column types\<close>

definition first_word :: "string \<Rightarrow> string option" where
  "first_word s = (case takeWhile (\<lambda>c. \<not> is_ws c) (dropWhile is_ws s) of [] \<Rightarrow> None | w \<Rightarrow> Some w)"

text \<open>\<open>as u8\<close>, \<open>as i8\<close> and the clamping of the two arguments of a decimal type.\<close>

definition clamp_precision :: "nat \<Rightarrow> 8 word" where
  "clamp_precision p = of_nat (min 38 (max 1 p))"

definition clamp_scale :: "8 word \<Rightarrow> nat \<Rightarrow> 8 word" where
  "clamp_scale p s =
     (let i = (of_nat s :: 8 word) in if i <s 0 then 0 else if p <s i then p else i)"

definition parse_decimal_args :: "string \<Rightarrow> (8 word \<times> 8 word) option" where
  "parse_decimal_args type_lc =
     Option.bind (split_once (CHR ''('') type_lc) (\<lambda>(_, after_open).
     Option.bind (split_once (CHR '')'') after_open) (\<lambda>(args, _).
     let it = map (\<lambda>s. parse_unsigned (2 ^ 32) (str_trim s)) (str_split (CHR '','') args) in
     Option.bind (hd it) (\<lambda>p.
     Option.bind (if 1 < length it then it ! 1 else Some 0) (\<lambda>s.
     let p = clamp_precision p in Some (p, clamp_scale p s)))))"

definition mysql_type_to_arrow :: "string \<Rightarrow> arrow_type option" where
  "mysql_type_to_arrow type_lc =
     (let unsigned = str_contains ''unsigned'' type_lc in
      Option.bind (first_word (case split_once (CHR ''('') type_lc of Some (h, _) \<Rightarrow> h | None \<Rightarrow> type_lc)) (\<lambda>head.
      if head \<in> {''bool'', ''boolean''} then Some AtBoolean
      else if head = ''bit'' then
        Some (if starts_with ''bit(1)'' type_lc \<or> type_lc = ''bit'' then AtBoolean else AtBinary)
      else if head = ''tinyint'' \<and> starts_with ''tinyint(1)'' type_lc then Some AtBoolean
      else if head = ''tinyint'' then Some (if unsigned then AtUInt8 else AtInt8)
      else if head = ''smallint'' then Some (if unsigned then AtUInt16 else AtInt16)
      else if head \<in> {''mediumint'', ''int'', ''integer''} then Some (if unsigned then AtUInt32 else AtInt32)
      else if head = ''bigint'' then Some (if unsigned then AtUInt64 else AtInt64)
      else if head = ''float'' then Some AtFloat32
      else if head \<in> {''double'', ''real''} then Some AtFloat64
      else if head \<in> {''decimal'', ''numeric'', ''newdecimal''} then
        (let (p, s) = (case parse_decimal_args type_lc of Some a \<Rightarrow> a | None \<Rightarrow> (10, 0)) in Some (AtDecimal128 p s))
      else if head \<in> {''varchar'', ''char'', ''text'', ''tinytext'', ''mediumtext'', ''longtext'', ''enum'', ''set'', ''json''}
      then Some AtUtf8
      else if head \<in> {''binary'', ''varbinary'', ''blob'', ''tinyblob'', ''mediumblob'', ''longblob''} then Some AtBinary
      else if head \<in> {''date'', ''newdate''} then Some AtDate32
      else if head \<in> {''datetime'', ''timestamp''} then Some AtTimestamp
      else if head = ''time'' then Some (AtOther ''Time64(Microsecond)'')
      else if head = ''year'' then Some AtInt16
      else None))"

text \<open>A column's field, or none when its type is not covered.\<close>

definition seekdb_field :: "string \<times> string \<Rightarrow> arrow_field option" where
  "seekdb_field col =
     (case col of (name, ty) \<Rightarrow>
        let ty_lc = to_lowercase ty in
        map_option (\<lambda>t. \<lparr>af_name = name, af_type = t, af_nullable = True\<rparr>)
          (if starts_with ''vector'' ty_lc then Some AtUtf8 else mysql_type_to_arrow ty_lc))"

definition nonempty_text :: "string option \<Rightarrow> string option" where
  "nonempty_text v = (case v of Some s \<Rightarrow> if s \<noteq> [] then Some s else None | None \<Rightarrow> None)"

definition seekdb_column ::
  "string \<Rightarrow> arrow_field list \<Rightarrow> string option \<times> string option \<Rightarrow> string + arrow_field list" where
  "seekdb_column table fs row =
     (case row of (name, ty) \<Rightarrow>
        try_res (ok_or (nonempty_text name)
          (''SeekDB SHOW COLUMNS returned a row with empty '' @ quote @ ''Field'' @ quote @ '' for table '' @ quote @ table @ quote))
          (\<lambda>name.
        try_res (ok_or (nonempty_text ty)
          (''SeekDB SHOW COLUMNS returned a row with empty '' @ quote @ ''Type'' @ quote @ '' for column '' @ quote @ name
           @ quote @ '' in table '' @ quote @ table @ quote)) (\<lambda>ty.
        Inr (case seekdb_field (name, ty) of Some f \<Rightarrow> fs @ [f] | None \<Rightarrow> fs))))"

definition build_schema_from_columns ::
  "string \<Rightarrow> (string option \<times> string option) list \<Rightarrow> string + arrow_field list" where
  "build_schema_from_columns table rows =
     try_res (fold_res (seekdb_column table) [] rows) (\<lambda>fs.
     if fs = []
     then Inl (''SeekDB table '' @ quote @ table @ quote
               @ '' has no Arrow-mappable columns (VECTOR and unsupported types excluded)'')
     else Inr fs)"

section \<open>Names and connection\<close>

definition seekdb_connection_params ::
  "(string \<Rightarrow> string + pg_url) \<Rightarrow> (string \<rightharpoonup> string) \<Rightarrow> string \<Rightarrow> (string \<rightharpoonup> string) option \<Rightarrow> string + (string \<rightharpoonup> string)" where
  "seekdb_connection_params parse env connection_string options =
     parse_mysql_wire_connection_params parse env connection_string options 2881 ''SeekDB''"

definition quote_seekdb_ident :: "string \<Rightarrow> string" where
  "quote_seekdb_ident s = [backtick] @ str_replace [backtick] [backtick, backtick] s @ [backtick]"

definition quote_seekdb_table :: "table_name_ref \<Rightarrow> string" where
  "quote_seekdb_table t = str_join ''.'' (map quote_seekdb_ident (table_parts t))"

definition seekdb_system_schemas :: "string list" where
  "seekdb_system_schemas =
     [''mysql'', ''information_schema'', ''performance_schema'', ''sys'', ''oceanbase'', ''LBACSYS'', ''ORAAUDITOR'']"

section \<open>Providers and registration\<close>

text \<open>
  A provider: its pool, schema and table, and whether it is the wrapper that writes.
  \<open>kw_show_columns\<close> are the rows of a statement that shows columns, \<open>kw_display\<close> the name of a
  reference in messages.
\<close>

record 'p seekdb_provider =
  sb_pool :: 'p
  sb_schema :: "arrow_field list"
  sb_table :: table_name_ref
  sb_read_write :: bool

record 'p seekdb_world =
  kw_parse_url :: "string \<Rightarrow> string + pg_url"
  kw_env :: "string \<rightharpoonup> string"
  kw_pool :: "(string \<rightharpoonup> string) \<Rightarrow> nat \<Rightarrow> 'p attempt"
  kw_show_columns :: "'p \<Rightarrow> string \<Rightarrow> string + (string option \<times> string option) list"
  kw_display :: "table_name_ref \<Rightarrow> string"
  kw_tables :: "'p \<Rightarrow> string \<times> string list \<Rightarrow> nat \<Rightarrow> (string \<times> string) list attempt"

definition resolve_seekdb_schema :: "'p seekdb_world \<Rightarrow> 'p \<Rightarrow> table_name_ref \<Rightarrow> string + arrow_field list" where
  "resolve_seekdb_schema W pool table_reference =
     try_res (map_err (\<lambda>_. ''Failed to introspect SeekDB columns for '' @ quote @ kw_display W table_reference @ quote)
       (kw_show_columns W pool (''SHOW COLUMNS FROM '' @ quote_seekdb_table table_reference)))
       (build_schema_from_columns (kw_display W table_reference))"

definition build_seekdb_table_provider ::
  "'p seekdb_world \<Rightarrow> 'p \<Rightarrow> table_name_ref \<Rightarrow> bool \<Rightarrow> string + 'p seekdb_provider" where
  "build_seekdb_table_provider W pool table_reference read_write =
     try_res (map_err (\<lambda>_. ''Failed to resolve SeekDB schema for '' @ quote @ kw_display W table_reference @ quote)
       (resolve_seekdb_schema W pool table_reference)) (\<lambda>filtered_schema.
     Inr \<lparr>sb_pool = pool, sb_schema = filtered_schema, sb_table = table_reference, sb_read_write = read_write\<rparr>)"

record 'p seekdb_entry =
  se_pool :: 'p
  se_qualified_table :: string
  se_columns :: "(string \<times> arrow_type) list"

definition seekdb_entry_of :: "'p \<Rightarrow> table_name_ref \<Rightarrow> arrow_field list \<Rightarrow> 'p seekdb_entry" where
  "seekdb_entry_of pool table_reference schema =
     \<lparr>se_pool = pool, se_qualified_table = quote_seekdb_table table_reference,
      se_columns = map (\<lambda>f. (af_name f, af_type f)) schema\<rparr>"

datatype seekdb_register_error =
  SeekdbSettings string
| SeekdbPool string retry_error
| SeekdbMissingTable string
| SeekdbBuild string
| SeekdbSession string
| SeekdbList string retry_error
| SeekdbCatalog string build_error

text \<open>A table is entered into the registry, if there is one, before the session is asked.\<close>

definition register_single_seekdb_table ::
  "'p seekdb_world \<Rightarrow> ('s \<Rightarrow> string \<Rightarrow> 'p seekdb_provider \<Rightarrow> string + 's) \<Rightarrow> 's \<Rightarrow> string \<Rightarrow> string
   \<Rightarrow> (string \<rightharpoonup> string) option \<Rightarrow> bool \<Rightarrow> (string \<rightharpoonup> 'p seekdb_entry) option
   \<Rightarrow> (seekdb_register_error + 's) \<times> (string \<rightharpoonup> 'p seekdb_entry) option" where
  "register_single_seekdb_table W register session name connection_string options read_write reg =
     (case Option.bind options (\<lambda>opts. opts ''table'') of
        None \<Rightarrow>
          (Inl (SeekdbMissingTable (''SeekDB data source '' @ quote @ name @ quote @ '' requires '' @ quote @ ''table''
                                    @ quote @ '' option'')), reg)
      | Some table_name \<Rightarrow>
          let table_reference = (case Option.bind options (\<lambda>opts. opts ''schema'') of
                                   Some s \<Rightarrow> PartialTable s table_name | None \<Rightarrow> BareTable table_name);
              label = \<lparr>sl_kind = Seekdb, sl_hierarchy = TableLevel, sl_name = name\<rparr> in
          (case try_res (map_err SeekdbSettings
                  (seekdb_connection_params (kw_parse_url W) (kw_env W) connection_string options)) (\<lambda>params.
                try_res (map_err (SeekdbPool (''Failed to create SeekDB connection pool for '' @ quote @ name @ quote))
                  (fst (retry_with_timeout label ''pool creation'' (kw_pool W params)))) (\<lambda>pool.
                map_err SeekdbBuild (build_seekdb_table_provider W pool table_reference read_write))) of
             Inl e \<Rightarrow> (Inl e, reg)
           | Inr p \<Rightarrow>
               (map_err (\<lambda>e. SeekdbSession (''Failed to register SeekDB table '' @ quote @ name @ quote
                                          @ '' with DataFusion: '' @ e))
                  (register session name p),
                map_option (\<lambda>m. m(name \<mapsto> seekdb_entry_of (sb_pool p) table_reference (sb_schema p))) reg)))"

definition seekdb_catalog_table ::
  "'p seekdb_world \<Rightarrow> 'p \<Rightarrow> bool \<Rightarrow> string \<Rightarrow> string \<Rightarrow> string + 'p seekdb_provider" where
  "seekdb_catalog_table W pool read_write schema table_name =
     build_seekdb_table_provider W pool (PartialTable schema table_name) read_write"

definition seekdb_key :: "string \<Rightarrow> string \<Rightarrow> string \<Rightarrow> string" where
  "seekdb_key catalog_name schema table_name = catalog_name @ ''.'' @ schema @ ''.'' @ table_name"

text \<open>The registry after the tables of a catalog were built in their order of completion, up to the first failure.\<close>

fun seekdb_catalog_entries ::
  "'p seekdb_world \<Rightarrow> 'p \<Rightarrow> bool \<Rightarrow> string \<Rightarrow> (string \<times> string) list \<Rightarrow> (string \<rightharpoonup> 'p seekdb_entry)
   \<Rightarrow> (string \<rightharpoonup> 'p seekdb_entry)" where
  "seekdb_catalog_entries W pool read_write catalog_name [] reg = reg"
| "seekdb_catalog_entries W pool read_write catalog_name ((schema, table_name) # rest) reg =
     (case seekdb_catalog_table W pool read_write schema table_name of
        Inl _ \<Rightarrow> reg
      | Inr p \<Rightarrow>
          seekdb_catalog_entries W pool read_write catalog_name rest
            (reg(seekdb_key catalog_name schema table_name \<mapsto>
                   seekdb_entry_of pool (PartialTable schema table_name) (sb_schema p))))"

definition register_seekdb_catalog ::
  "'p seekdb_world \<Rightarrow> ('m, 'p seekdb_provider) table_ops \<Rightarrow> 'm \<Rightarrow> nat list \<Rightarrow> (string \<rightharpoonup> 'm) \<Rightarrow> string
   \<Rightarrow> string \<Rightarrow> (string \<rightharpoonup> string) option \<Rightarrow> bool \<Rightarrow> (string \<rightharpoonup> 'p seekdb_entry) option
   \<Rightarrow> (seekdb_register_error + (string \<rightharpoonup> 'm)) \<times> (string \<rightharpoonup> 'p seekdb_entry) option" where
  "register_seekdb_catalog W ops new completion session catalog_name connection_string options read_write reg =
     (let label = \<lparr>sl_kind = Seekdb, sl_hierarchy = CatalogLevel, sl_name = catalog_name\<rparr> in
      case try_res (map_err SeekdbSettings
             (seekdb_connection_params (kw_parse_url W) (kw_env W) connection_string options)) (\<lambda>params.
           try_res (map_err (SeekdbPool (''Failed to create SeekDB connection pool for catalog '' @ quote @ catalog_name @ quote))
             (fst (retry_with_timeout label ''pool creation'' (kw_pool W params)))) (\<lambda>pool.
           try_res (map_err (SeekdbList (''Failed to list SeekDB tables for catalog-wide registration in source ''
                                         @ quote @ catalog_name @ quote))
             (fst (retry_with_timeout label ''information_schema introspection''
                (kw_tables W pool (list_tables_query seekdb_system_schemas (parse_allowed_schemas options)))))) (\<lambda>schema_tables.
           Inr (pool, schema_tables)))) of
        Inl e \<Rightarrow> (Inl e, reg)
      | Inr (pool, schema_tables) \<Rightarrow>
          (map_err (SeekdbCatalog (''Failed to build SeekDB catalog '' @ quote @ catalog_name @ quote))
             (build_catalog ops new session catalog_name schema_tables (seekdb_catalog_table W pool read_write) completion),
           map_option (seekdb_catalog_entries W pool read_write catalog_name (map ((!) schema_tables) completion)) reg))"

definition register_seekdb_tables ::
  "'p seekdb_world \<Rightarrow> ('m, 'p seekdb_provider) table_ops \<Rightarrow> 'm \<Rightarrow> nat list \<Rightarrow> (string \<rightharpoonup> 'm)
   \<Rightarrow> ('s \<Rightarrow> string \<Rightarrow> 'p seekdb_provider \<Rightarrow> string + 's) \<Rightarrow> 's \<Rightarrow> string \<Rightarrow> string
   \<Rightarrow> (string \<rightharpoonup> string) option \<Rightarrow> bool \<Rightarrow> (string \<rightharpoonup> 'p seekdb_entry) option \<Rightarrow> hierarchy_level
   \<Rightarrow> (seekdb_register_error + (string \<rightharpoonup> 'm)) \<times> (string \<rightharpoonup> 'p seekdb_entry) option
      + (seekdb_register_error + 's) \<times> (string \<rightharpoonup> 'p seekdb_entry) option" where
  "register_seekdb_tables W ops new completion catalogs register session name connection_string options read_write reg level =
     (case level of
        CatalogLevel \<Rightarrow>
          Inl (register_seekdb_catalog W ops new completion catalogs name connection_string options read_write reg)
      | TableLevel \<Rightarrow>
          Inr (register_single_seekdb_table W register session name connection_string options read_write reg))"

section \<open>DELETE and UPDATE\<close>

definition seekdb_delete_from :: "(expr \<Rightarrow> string + string) \<Rightarrow> table_name_ref \<Rightarrow> expr list \<Rightarrow> string + string" where
  "seekdb_delete_from unparse table_reference filters =
     try_res (build_where_clause unparse filters) (\<lambda>where_clause.
     Inr (''DELETE FROM '' @ quote_seekdb_table table_reference @ where_clause))"

definition seekdb_assignment :: "(expr \<Rightarrow> string + string) \<Rightarrow> string \<times> expr \<Rightarrow> string + string" where
  "seekdb_assignment unparse a =
     (case a of (col, e) \<Rightarrow>
        try_res (map_err (\<lambda>m. ''Failed to unparse assignment expression for column '' @ quote @ col @ quote
                                @ '': '' @ m) (unparse e))
          (\<lambda>val. Inr (quote_seekdb_ident col @ '' = '' @ val)))"

definition seekdb_update ::
  "(expr \<Rightarrow> string + string) \<Rightarrow> table_name_ref \<Rightarrow> (string \<times> expr) list \<Rightarrow> expr list \<Rightarrow> string + string" where
  "seekdb_update unparse table_reference assignments filters =
     (if assignments = [] then Inl ''UPDATE requires at least one assignment''
      else
        try_res (collect_res (map (seekdb_assignment unparse) assignments)) (\<lambda>sets.
        try_res (build_where_clause unparse filters) (\<lambda>where_clause.
        Inr (''UPDATE '' @ quote_seekdb_table table_reference @ '' SET '' @ str_join '', '' sets @ where_clause))))"

definition seekdb_dml_execute ::
  "('d \<Rightarrow> string + unit) \<Rightarrow> ('d \<Rightarrow> string \<Rightarrow> (string + 64 word) \<times> 'd) \<Rightarrow> string \<Rightarrow> 'd \<Rightarrow> (string + 64 word) \<times> 'd" where
  "seekdb_dml_execute connect exec sql d =
     (case connect d of
        Inl e \<Rightarrow> (Inl (''SeekDB DML connect error: '' @ e), d)
      | Inr _ \<Rightarrow>
          (case exec d sql of
             (Inl e, d') \<Rightarrow> (Inl (''SeekDB DML execute error: '' @ e), d')
           | (Inr n, d') \<Rightarrow> (Inr n, d')))"

definition expr_to_seekdb_sql :: "(expr \<Rightarrow> string + string) \<Rightarrow> expr \<Rightarrow> string option" where
  "expr_to_seekdb_sql unparse e = (case unparse e of Inr sql \<Rightarrow> Some sql | Inl _ \<Rightarrow> None)"

section \<open>Statements\<close>

lemma seekdb_quotes: "quote_seekdb_ident = quote_mysql_ident" "quote_seekdb_table = quote_mysql_table"
proof -
  show i: "quote_seekdb_ident = quote_mysql_ident"
    by (simp add: fun_eq_iff quote_seekdb_ident_def quote_mysql_ident_def)
  show "quote_seekdb_table = quote_mysql_table"
    by (simp add: fun_eq_iff quote_seekdb_table_def quote_mysql_table_def i)
qed

text \<open>The statements are those of the MySQL provider.\<close>

theorem seekdb_statements_are_mysql:
  "seekdb_delete_from unparse t filters = mysql_delete_from unparse t filters
   \<and> seekdb_update unparse t assignments filters = mysql_update unparse t assignments filters"
proof -
  have "seekdb_assignment unparse = mysql_assignment unparse"
    by (simp add: fun_eq_iff seekdb_assignment_def mysql_assignment_def seekdb_quotes)
  then show ?thesis
    by (simp add: seekdb_delete_from_def mysql_delete_from_def seekdb_update_def mysql_update_def seekdb_quotes)
qed

section \<open>Schemas\<close>

lemma clamp_precision_bounds: "1 \<le> unat (clamp_precision p) \<and> unat (clamp_precision p) \<le> 38"
  by (simp add: clamp_precision_def unat_of_nat min_def max_def)

lemma sint_of_uint8: "sint (v :: 8 word) = (if uint v < 2 ^ 7 then uint v else uint v - 2 ^ 8)"
proof -
  have "sint v = (uint v + 2 ^ 7) mod 2 ^ 8 - 2 ^ 7"
    by (simp add: sint_uint signed_take_bit_eq_take_bit_shift take_bit_eq_mod)
  moreover have "0 \<le> uint v" "uint v < 2 ^ 8" using uint_lt2p [of v] by simp_all
  ultimately show ?thesis by (cases "uint v < 2 ^ 7") (simp_all add: mod_pos_pos_trivial mod_pos_geq)
qed

lemma uint_le_sint8:
  assumes "0 \<le> sint (v :: 8 word)" and "sint v \<le> sint (p :: 8 word)"
  shows "unat v \<le> unat p"
proof -
  have "uint v < 2 ^ 8" using uint_lt2p [of v] by simp
  then have "uint v = sint v" using assms(1) unfolding sint_of_uint8 [of v] by (simp split: if_split_asm)
  moreover have "sint p \<le> uint p" unfolding sint_of_uint8 [of p] by simp
  ultimately have "uint v \<le> uint p" using assms(2) by linarith
  then show ?thesis by (simp only: word_le_def [symmetric] word_le_nat_alt)
qed

lemma clamp_scale_bounds: "unat (clamp_scale p s) \<le> unat p"
proof (cases "(of_nat s :: 8 word) <s 0 \<or> p <s of_nat s")
  case True
  then show ?thesis by (auto simp: clamp_scale_def Let_def)
next
  case False
  then have "unat (of_nat s :: 8 word) \<le> unat p"
    by (intro uint_le_sint8) (simp_all add: word_sless_alt not_less)
  with False show ?thesis by (simp add: clamp_scale_def Let_def)
qed

lemma decimal_args_bounds:
  "parse_decimal_args ty = Some (p, s) \<Longrightarrow> 1 \<le> unat p \<and> unat p \<le> 38 \<and> unat s \<le> unat p"
  using clamp_precision_bounds clamp_scale_bounds
  by (auto simp: parse_decimal_args_def Let_def split: Option.bind_splits prod.splits)

definition column_rows :: "(string option \<times> string option) list \<Rightarrow> (string \<times> string) list" where
  "column_rows rows = map (\<lambda>(name, ty). (the name, the ty)) rows"

definition complete_row :: "string option \<times> string option \<Rightarrow> bool" where
  "complete_row row = (nonempty_text (fst row) \<noteq> None \<and> nonempty_text (snd row) \<noteq> None)"

lemma seekdb_column_ok:
  "seekdb_column table fs row = Inr fs' \<longleftrightarrow>
     complete_row row \<and> fs' = fs @ List.map_filter seekdb_field [(the (fst row), the (snd row))]"
  by (auto simp: seekdb_column_def complete_row_def nonempty_text_def ok_or_def List.map_filter_def res_simps
      split: prod.splits option.splits if_splits)

lemma seekdb_columns_ok:
  "fold_res (seekdb_column table) fs rows = Inr fs' \<longleftrightarrow>
     list_all complete_row rows \<and> fs' = fs @ List.map_filter seekdb_field (column_rows rows)"
proof (induction rows arbitrary: fs)
  case Nil
  then show ?case by (auto simp: column_rows_def List.map_filter_def)
next
  case (Cons row rows)
  have "List.map_filter seekdb_field (column_rows (row # rows)) =
      List.map_filter seekdb_field [(the (fst row), the (snd row))] @ List.map_filter seekdb_field (column_rows rows)"
    by (simp add: column_rows_def List.map_filter_def case_prod_beta)
  moreover have "fold_res (seekdb_column table) fs (row # rows) = Inr fs' \<longleftrightarrow>
      (\<exists>gs. seekdb_column table fs row = Inr gs \<and> fold_res (seekdb_column table) gs rows = Inr fs')"
    by (auto simp: res_simps)
  ultimately show ?case by (auto simp: seekdb_column_ok Cons.IH)
qed

text \<open>
  A table's schema is its columns, in their order, less those whose types are not
  covered; it exists exactly when each row names its column and type and a column is covered. Every
  field may be null, and the decimals among them have a precision between 1 and 38 and a
  scale of at most the precision.
\<close>

theorem seekdb_schema_spec:
  "build_schema_from_columns table rows = Inr fs \<longleftrightarrow>
     list_all complete_row rows \<and> fs \<noteq> [] \<and> fs = List.map_filter seekdb_field (column_rows rows)"
  by (auto simp: build_schema_from_columns_def seekdb_columns_ok res_simps split: if_splits)

lemma mysql_decimal:
  "mysql_type_to_arrow ty = Some (AtDecimal128 p s) \<Longrightarrow> 1 \<le> unat p \<and> unat p \<le> 38 \<and> unat s \<le> unat p"
  using decimal_args_bounds [of ty p s]
  by (auto simp: mysql_type_to_arrow_def Let_def split: Option.bind_splits if_splits option.splits prod.splits)

theorem seekdb_decimals_in_range:
  assumes "build_schema_from_columns table rows = Inr fs" and "f \<in> set fs"
  shows "af_nullable f \<and> (\<forall>p s. af_type f = AtDecimal128 p s \<longrightarrow> 1 \<le> unat p \<and> unat p \<le> 38 \<and> unat s \<le> unat p)"
proof -
  from assms(1) have "fs = List.map_filter seekdb_field (column_rows rows)" by (simp add: seekdb_schema_spec)
  with assms(2) obtain c where "seekdb_field c = Some f" by (auto simp: List.map_filter_def)
  then show ?thesis using mysql_decimal
    by (cases c) (auto simp: seekdb_field_def Let_def split: if_splits)
qed

lemma demo_decimal: "mysql_type_to_arrow ''decimal(65, 50)'' = Some (AtDecimal128 38 38)"
proof -
  have args: "split_once (CHR ''('') ''decimal(65, 50)'' = Some (''decimal'', ''65, 50)'')"
    "split_once (CHR '')'') ''65, 50)'' = Some (''65, 50'', [])"
    "map str_trim (str_split (CHR '','') ''65, 50'') = [''65'', ''50'']" "first_word ''decimal'' = Some ''decimal''" by code_simp+
  have n: "parse_unsigned (2 ^ 32) ''65'' = Some 65" "parse_unsigned (2 ^ 32) ''50'' = Some 50"
    by (simp_all add: parse_unsigned_def is_digit_def)
  have "map (\<lambda>s. parse_unsigned (2 ^ 32) (str_trim s)) (str_split (CHR '','') ''65, 50'')
      = map (parse_unsigned (2 ^ 32)) (map str_trim (str_split (CHR '','') ''65, 50''))" by simp
  then have m: "map (\<lambda>s. parse_unsigned (2 ^ 32) (str_trim s)) (str_split (CHR '','') ''65, 50'') = [Some 65, Some 50]"
    unfolding args by (simp only: list.map n)
  have "clamp_precision 65 = 38" "clamp_scale 38 50 = 38"
    by (simp_all add: clamp_precision_def clamp_scale_def word_sless_alt)
  then have "parse_decimal_args ''decimal(65, 50)'' = Some (38, 38)"
    unfolding parse_decimal_args_def args Let_def bind.simps prod.case m by simp
  then show ?thesis unfolding mysql_type_to_arrow_def args option.case prod.case Let_def bind.simps by simp
qed

theorem seekdb_decimals_in_range_witness:
  "1 \<le> unat (38 :: 8 word) \<and> unat (38 :: 8 word) \<le> 38 \<and> unat (38 :: 8 word) \<le> unat (38 :: 8 word)"
proof -
  let ?fs = "[\<lparr>af_name = ''x'', af_type = AtDecimal128 38 38, af_nullable = True\<rparr>]"
  have l: "to_lowercase ''DECIMAL(65, 50)'' = ''decimal(65, 50)''" "\<not> starts_with ''vector'' ''decimal(65, 50)''" by code_simp+
  have "seekdb_field (''x'', ''DECIMAL(65, 50)'') = Some (hd ?fs)"
    unfolding seekdb_field_def prod.case Let_def l(1) demo_decimal using l(2) by simp
  then have "build_schema_from_columns ''t'' [(Some ''x'', Some ''DECIMAL(65, 50)'')] = Inr ?fs"
    by (simp add: build_schema_from_columns_def seekdb_column_def nonempty_text_def ok_or_def)
  from seekdb_decimals_in_range [OF this] show ?thesis by simp
qed

section \<open>The registry of a catalog\<close>

definition faithful_entry ::
  "'p seekdb_world \<Rightarrow> 'p \<Rightarrow> string \<Rightarrow> (string \<times> string) list \<Rightarrow> string \<Rightarrow> 'p seekdb_entry \<Rightarrow> bool" where
  "faithful_entry W pool catalog_name tables k e =
     list_ex (\<lambda>(schema, t). k = seekdb_key catalog_name schema t \<and> se_pool e = pool
        \<and> read_dotted backtick (se_qualified_table e) = Some ([schema, t], [])
        \<and> (case resolve_seekdb_schema W pool (PartialTable schema t) of
             Inr fs \<Rightarrow> se_columns e = map (\<lambda>f. (af_name f, af_type f)) fs | Inl _ \<Rightarrow> False)) tables"

lemma seekdb_provider_ok:
  "build_seekdb_table_provider W pool t rw = Inr p \<longleftrightarrow>
     (\<exists>fs. resolve_seekdb_schema W pool t = Inr fs \<and> p = \<lparr>sb_pool = pool, sb_schema = fs, sb_table = t, sb_read_write = rw\<rparr>)"
  by (auto simp: build_seekdb_table_provider_def res_simps)

lemma faithful_mono: "faithful_entry W pool c ts k e \<Longrightarrow> set ts \<subseteq> set us \<Longrightarrow> faithful_entry W pool c us k e"
  by (auto simp: faithful_entry_def list_ex_iff)

lemma new_entry_faithful:
  assumes "seekdb_catalog_table W pool rw schema t = Inr p"
  shows "faithful_entry W pool c ((schema, t) # ts) (seekdb_key c schema t)
      (seekdb_entry_of pool (PartialTable schema t) (sb_schema p))"
proof -
  from assms obtain fs where "resolve_seekdb_schema W pool (PartialTable schema t) = Inr fs" "sb_schema p = fs"
    by (auto simp: seekdb_catalog_table_def seekdb_provider_ok)
  moreover have "read_dotted backtick (quote_seekdb_table (PartialTable schema t)) = Some ([schema, t], [])"
    using read_mysql_table [of "[]" "PartialTable schema t"] by (simp add: seekdb_quotes table_parts_def)
  ultimately show ?thesis by (simp add: faithful_entry_def seekdb_entry_of_def)
qed

text \<open>
  The entries a catalog adds: each is for a table of the catalog, under that table's name in
  three parts, its quoted reference is read as its schema and its name whatever characters they
  contain, and its columns are those of the table; the entries that were there stay unless they
  have one of these names.
\<close>

theorem catalog_entries_are_faithful:
  assumes "seekdb_catalog_entries W pool rw catalog_name tables reg k = Some e"
  shows "faithful_entry W pool catalog_name tables k e \<or> reg k = Some e"
  using assms
proof (induction tables arbitrary: reg)
  case (Cons st tables)
  obtain schema t where st: "st = (schema, t)" by (cases st)
  show ?case
  proof (cases "seekdb_catalog_table W pool rw schema t")
    case (Inl _)
    with Cons.prems show ?thesis by (simp add: st)
  next
    case (Inr p)
    note new = new_entry_faithful [OF Inr, of catalog_name tables]
    from Cons.prems have "seekdb_catalog_entries W pool rw catalog_name tables
        (reg(seekdb_key catalog_name schema t \<mapsto> seekdb_entry_of pool (PartialTable schema t) (sb_schema p))) k = Some e"
      by (simp add: st Inr)
    from Cons.IH [OF this] consider "faithful_entry W pool catalog_name tables k e"
      | "k = seekdb_key catalog_name schema t" "e = seekdb_entry_of pool (PartialTable schema t) (sb_schema p)"
      | "reg k = Some e" by (auto split: if_splits)
    then show ?thesis
    proof cases
      case 1
      then show ?thesis by (auto intro: faithful_mono)
    next
      case 2
      with new show ?thesis by (simp add: st)
    qed simp
  qed
qed simp

definition demo_seekdb :: "nat seekdb_world" where
  "demo_seekdb =
     \<lparr>kw_parse_url = demo_pg_url, kw_env = Map.empty, kw_pool = (\<lambda>_ _. Done 0),
      kw_show_columns = (\<lambda>_ _. Inr [(Some ''id'', Some ''bigint unsigned'')]), kw_display = (\<lambda>_. ''t''),
      kw_tables = (\<lambda>_ _ _. Done [(''a'', ''t''), (''b'', ''t'')])\<rparr>"

theorem catalog_entries_are_faithful_witness:
  "\<exists>e. faithful_entry demo_seekdb 0 ''c'' [(''a'', ''t`u''), (''b'', ''t'')] ''c.a.t`u'' e"
proof -
  let ?e = "\<lparr>se_pool = 0, se_qualified_table = quote_seekdb_table (PartialTable ''a'' ''t`u''), se_columns = [(''id'', AtUInt64)]\<rparr>"
  have "seekdb_catalog_entries demo_seekdb 0 False ''c'' [(''a'', ''t`u''), (''b'', ''t'')] Map.empty ''c.a.t`u'' = Some ?e"
    by code_simp
  from catalog_entries_are_faithful [OF this] show ?thesis by auto
qed

text \<open>
  A table whose schema resolves is entered into the registry even when the session refuses to
  register it: the search functions find a data source that failed to load.
\<close>

theorem refused_seekdb_stays_searchable:
  assumes "options ''table'' = Some t" and "options ''schema'' = None"
    and "seekdb_connection_params (kw_parse_url W) (kw_env W) c (Some options) = Inr params"
    and "\<And>n. kw_pool W params n = Done pool"
    and "build_seekdb_table_provider W pool (BareTable t) rw = Inr p"
    and "register session name p = Inl why"
  shows "\<not> is_ok (fst (register_single_seekdb_table W register session name c (Some options) rw (Some reg)))
    \<and> the (snd (register_single_seekdb_table W register session name c (Some options) rw (Some reg))) name \<noteq> None"
proof -
  have pool: "fst (retry_with_timeout l what (kw_pool W params)) = Inr pool" for l what
    by (rule retry_done) (rule assms(4))
  show ?thesis
    unfolding register_single_seekdb_table_def Option.bind.simps assms(1-3) Let_def option.case map_err_simps
      try_res_simps pool assms(5) sum.case assms(6)
    by simp
qed

theorem refused_seekdb_stays_searchable_witness:
  "the (snd (register_single_seekdb_table demo_seekdb (\<lambda>_ _ _. Inl ''already registered'') () ''docs'' ''c''
     (Some [''table'' \<mapsto> ''t'']) False (Some Map.empty))) ''docs'' \<noteq> None"
proof -
  have "is_ok (seekdb_connection_params (kw_parse_url demo_seekdb) (kw_env demo_seekdb) ''c'' (Some [''table'' \<mapsto> ''t'']))"
    by (simp add: seekdb_connection_params_def parse_mysql_wire_connection_params_def wire_env_param_def demo_seekdb_def
        demo_pg_url_def Let_def)
  then obtain params where p:
    "seekdb_connection_params (kw_parse_url demo_seekdb) (kw_env demo_seekdb) ''c'' (Some [''table'' \<mapsto> ''t'']) = Inr params"
    by (auto simp: is_ok_iff)
  have b: "build_seekdb_table_provider demo_seekdb 0 (BareTable ''t'') False =
      Inr \<lparr>sb_pool = 0, sb_schema = [\<lparr>af_name = ''id'', af_type = AtUInt64, af_nullable = True\<rparr>],
           sb_table = BareTable ''t'', sb_read_write = False\<rparr>" by code_simp
  have o: "[''table'' \<mapsto> ''t''] ''table'' = Some ''t''" "[''table'' \<mapsto> ''t''] ''schema'' = None" by simp_all
  have "kw_pool demo_seekdb params n = Done 0" for n by (simp add: demo_seekdb_def)
  from conjunct2 [OF refused_seekdb_stays_searchable [where session = "()" and name = "''docs''"
    and register = "\<lambda>_ _ _. Inl ''already registered''", OF o p this b refl]]
  show ?thesis .
qed

end
