(* ===== verification/Seekdb_Search.thy ===== *)
theory Seekdb_Search
  imports Seekdb_Provider Pg_Search
begin

text \<open>
  The search functions of SeekDB (\<^verbatim>\<open>sources/providers/seekdb/fts_table_function.rs\<close>,
  \<^verbatim>\<open>fts_exec.rs\<close>, \<^verbatim>\<open>knn_table_function.rs\<close>, \<^verbatim>\<open>knn_exec.rs\<close>): arguments, planning, the generated
  SELECT, its execution and the conversion of the rows. The accessors of a row, floating point
  numbers, the planner, the unparser and the database are parameters.
\<close>

section \<open>Rows to columns\<close>

text \<open>
  \<open>Row::get\<close> of a column: none when the row has no such column, a panic when its value does not
  convert, otherwise a value or null.
\<close>

datatype 'v got = GotNone | GotPanic | Got "'v option"

datatype seekdb_run_error = SeekdbRunPanic | SeekdbRunInternal string | SeekdbRunFailed string

record 'row seekdb_getters =
  sg_i32 :: "'row \<Rightarrow> string \<Rightarrow> 32 word got"
  sg_i64 :: "'row \<Rightarrow> string \<Rightarrow> 64 word got"
  sg_f32 :: "'row \<Rightarrow> string \<Rightarrow> string got"
  sg_f64 :: "'row \<Rightarrow> string \<Rightarrow> string got"
  sg_bool :: "'row \<Rightarrow> string \<Rightarrow> bool got"
  sg_string :: "'row \<Rightarrow> string \<Rightarrow> string got"
  sg_scaled :: "8 word \<Rightarrow> string \<Rightarrow> string + string"   \<comment> \<open>a text parsed as a double, times \<open>10^scale\<close>, rounded\<close>

definition seekdb_decode_err :: "string \<Rightarrow> string \<Rightarrow> string \<Rightarrow> seekdb_run_error" where
  "seekdb_decode_err col expected detail =
     SeekdbRunFailed (''seekdb: type mismatch decoding column '' @ quote @ col @ quote @ '' as '' @ expected
       @ '': '' @ detail)"

definition got_value :: "string \<Rightarrow> string \<Rightarrow> string \<Rightarrow> 'v got \<Rightarrow> seekdb_run_error + 'v option" where
  "got_value col expected detail g =
     (case g of
        GotNone \<Rightarrow> Inl (seekdb_decode_err col expected detail)
      | GotPanic \<Rightarrow> Inl SeekdbRunPanic
      | Got v \<Rightarrow> Inr v)"

definition got_column ::
  "('row \<Rightarrow> string \<Rightarrow> 'v got) \<Rightarrow> string \<Rightarrow> string \<Rightarrow> ('v option \<Rightarrow> scalar) \<Rightarrow> 'row list \<Rightarrow> seekdb_run_error + scalar list" where
  "got_column get col expected mk rows =
     collect_res (map (\<lambda>row. try_res
       (got_value col expected ''column not present or null encoding invalid'' (get row col)) (\<lambda>v. Inr (mk v))) rows)"

definition decimal_cell ::
  "'row seekdb_getters \<Rightarrow> string \<Rightarrow> 8 word \<Rightarrow> 'row \<Rightarrow> seekdb_run_error + scalar" where
  "decimal_cell G col scale row =
     try_res (got_value col ''Decimal128 (via string)'' ''column not present'' (sg_string G row col)) (\<lambda>v.
     case v of
       Some s \<Rightarrow>
         try_res (map_err (seekdb_decode_err col ''Decimal128 (via string)'') (sg_scaled G scale s)) (\<lambda>d. Inr (SvOther d))
     | None \<Rightarrow> Inr SvNull)"

text \<open>A column with the type of the array that was built.\<close>

definition seekdb_build_column ::
  "'row seekdb_getters \<Rightarrow> 'row list \<Rightarrow> string \<Rightarrow> arrow_type \<Rightarrow> seekdb_run_error + arrow_type \<times> scalar list" where
  "seekdb_build_column G rows col dtype =
     (case dtype of
        AtInt32 \<Rightarrow> try_res (got_column (sg_i32 G) col ''Int32'' SvInt32 rows) (\<lambda>c. Inr (AtInt32, c))
      | AtInt64 \<Rightarrow> try_res (got_column (sg_i64 G) col ''Int64'' SvInt64 rows) (\<lambda>c. Inr (AtInt64, c))
      | AtFloat32 \<Rightarrow> try_res (got_column (sg_f32 G) col ''Float32'' SvFloat32 rows) (\<lambda>c. Inr (AtFloat32, c))
      | AtFloat64 \<Rightarrow> try_res (got_column (sg_f64 G) col ''Float64'' SvFloat64 rows) (\<lambda>c. Inr (AtFloat64, c))
      | AtBoolean \<Rightarrow> try_res (got_column (sg_bool G) col ''Boolean'' SvBoolean rows) (\<lambda>c. Inr (AtBoolean, c))
      | AtDecimal128 p scale \<Rightarrow>
          try_res (collect_res (map (decimal_cell G col scale) rows)) (\<lambda>c. Inr (AtDecimal128 p scale, c))
      | _ \<Rightarrow> try_res (got_column (sg_string G) col ''Utf8'' SvUtf8 rows) (\<lambda>c. Inr (AtUtf8, c)))"

text \<open>
  \<open>RecordBatch::try_new\<close> needs a column, and each array to have its field's type; the messages are
  parameters.
\<close>

record batch_errors =
  be_no_columns :: string
  be_types :: "arrow_type list \<Rightarrow> arrow_type list \<Rightarrow> string"

definition seekdb_rows_to_batch ::
  "'row seekdb_getters \<Rightarrow> batch_errors \<Rightarrow> 'row list \<Rightarrow> arrow_field list \<Rightarrow> seekdb_run_error + scalar list list" where
  "seekdb_rows_to_batch G B rows schema =
     try_res (collect_res (map (\<lambda>f. seekdb_build_column G rows (af_name f) (af_type f)) schema)) (\<lambda>columns.
     if columns = [] then Inl (SeekdbRunFailed (be_no_columns B))
     else if map fst columns \<noteq> map af_type schema
     then Inl (SeekdbRunFailed (be_types B (map af_type schema) (map fst columns)))
     else Inr (map snd columns))"

section \<open>Arguments\<close>

definition seekdb_extract_string :: "udtf_arg \<Rightarrow> string \<Rightarrow> string \<Rightarrow> string + string" where
  "seekdb_extract_string e fn_name arg =
     (case e of
        ArgExpr (ELiteral (SvUtf8 (Some s))) \<Rightarrow> Inr s
      | ArgExpr (ELiteral (SvLargeUtf8 (Some s))) \<Rightarrow> Inr s
      | ArgExpr (ELiteral SvNull) \<Rightarrow> Inr []
      | _ \<Rightarrow> plan_err fn_name (quote @ arg @ quote @ '' must be a string literal''))"

definition MAX_SEEKDB_FTS_LIMIT :: nat where
  "MAX_SEEKDB_FTS_LIMIT = 500"

definition seekdb_positive :: "string \<Rightarrow> int \<Rightarrow> string + nat option" where
  "seekdb_positive name v =
     (if 1 \<le> v then Inr (Some (nat v))
      else plan_err ''seekdb_fts'' (quote @ name @ quote @ '' must be a positive integer, got '' @ show_int v))"

definition seekdb_extract_int :: "udtf_arg \<Rightarrow> string \<Rightarrow> string + nat option" where
  "seekdb_extract_int e name =
     (case e of
        ArgExpr (ELiteral (SvInt64 (Some v))) \<Rightarrow> seekdb_positive name (sint v)
      | ArgExpr (ELiteral (SvInt32 (Some v))) \<Rightarrow> seekdb_positive name (sint v)
      | ArgExpr (ELiteral (SvUInt64 (Some v))) \<Rightarrow> seekdb_positive name (uint v)
      | ArgExpr (ELiteral (SvUInt32 (Some v))) \<Rightarrow> seekdb_positive name (uint v)
      | ArgExpr (ELiteral SvNull) \<Rightarrow> Inr None
      | _ \<Rightarrow> plan_err ''seekdb_fts'' (quote @ name @ quote @ '' must be an integer literal''))"

definition seekdb_fts_limit :: "udtf_arg \<Rightarrow> string + nat" where
  "seekdb_fts_limit e =
     try_res (seekdb_extract_int e ''limit'') (\<lambda>l.
     case l of
       None \<Rightarrow> Inr 1
     | Some v \<Rightarrow>
         if MAX_SEEKDB_FTS_LIMIT < v
         then plan_err ''seekdb_fts'' (''limit must be between 1 and '' @ show_nat MAX_SEEKDB_FTS_LIMIT
                @ '', got '' @ show_nat v)
         else Inr v)"

text \<open>The shared registry, of which these functions use the SeekDB entries.\<close>

datatype 'p seekdb_dataset = SeekdbDataset "'p seekdb_entry" | OtherSeekdbDataset

definition find_seekdb :: "string \<Rightarrow> (string \<rightharpoonup> 'p seekdb_dataset) \<Rightarrow> string \<Rightarrow> string + 'p seekdb_entry" where
  "find_seekdb fn_name registry table_name =
     (case registry table_name of
        None \<Rightarrow> plan_err fn_name (''table '' @ quote @ table_name @ quote
                  @ '' not found in registry. Make sure the data source is declared with type ''
                  @ quote @ ''seekdb'' @ quote @ ''.'')
      | Some (SeekdbDataset e) \<Rightarrow> Inr e
      | Some OtherSeekdbDataset \<Rightarrow>
          plan_err fn_name (''table '' @ quote @ table_name @ quote @ '' is not a SeekDB dataset''))"

section \<open>Text search\<close>

record 'p seekdb_fts_provider =
  sf_pool :: 'p
  sf_table :: string
  sf_text_col :: string
  sf_query :: string
  sf_limit :: nat
  sf_schema :: "arrow_field list"

definition seekdb_fts_call ::
  "(string \<rightharpoonup> 'p seekdb_dataset) \<Rightarrow> udtf_arg list \<Rightarrow> string + 'p seekdb_fts_provider" where
  "seekdb_fts_call registry exprs =
     (if length exprs \<noteq> 4
      then Inl (''seekdb_fts(table, text_col, query, limit) expects 4 arguments, got '' @ show_nat (length exprs))
      else
        try_res (seekdb_extract_string (exprs ! 0) ''seekdb_fts'' ''table'') (\<lambda>table_name.
        try_res (seekdb_extract_string (exprs ! 1) ''seekdb_fts'' ''text_col'') (\<lambda>text_col.
        try_res (seekdb_extract_string (exprs ! 2) ''seekdb_fts'' ''query'') (\<lambda>query.
        try_res (seekdb_fts_limit (exprs ! 3)) (\<lambda>limit.
        try_res (find_seekdb ''seekdb_fts'' registry table_name) (\<lambda>entry.
        Inr \<lparr>sf_pool = se_pool entry, sf_table = se_qualified_table entry, sf_text_col = text_col,
             sf_query = query, sf_limit = limit, sf_schema = entry_fields (se_columns entry)\<rparr>))))))"

definition seekdb_pushdown :: "(expr \<Rightarrow> string + string) \<Rightarrow> expr \<Rightarrow> bool" where
  "seekdb_pushdown unparse e = (expr_to_seekdb_sql unparse e \<noteq> None)"

definition seekdb_filter :: "(expr \<Rightarrow> string + string) \<Rightarrow> expr list \<Rightarrow> string option" where
  "seekdb_filter unparse filters =
     (let parts = List.map_filter (expr_to_seekdb_sql unparse) filters
      in if parts = [] then None else Some (str_join '' AND '' parts))"

record 'p seekdb_fts_exec =
  sx_pool :: 'p
  sx_table :: string
  sx_text_col :: string
  sx_query :: string
  sx_limit :: nat
  sx_filter :: "string option"
  sx_scan_limit :: "nat option"
  sx_schema :: "arrow_field list"

definition seekdb_fts_exec_new ::
  "'p \<Rightarrow> string \<Rightarrow> string \<Rightarrow> string \<Rightarrow> nat \<Rightarrow> string option \<Rightarrow> arrow_field list \<Rightarrow> 'p seekdb_fts_exec" where
  "seekdb_fts_exec_new pool table text_col query limit flt schema =
     \<lparr>sx_pool = pool, sx_table = table, sx_text_col = text_col, sx_query = query, sx_limit = limit,
      sx_filter = flt, sx_scan_limit = None, sx_schema = schema\<rparr>"

definition seekdb_fts_scan ::
  "(expr \<Rightarrow> string + string) \<Rightarrow> 'p seekdb_fts_provider \<Rightarrow> nat list option \<Rightarrow> expr list \<Rightarrow> nat option
   \<Rightarrow> 'p seekdb_fts_exec" where
  "seekdb_fts_scan unparse p projection filters limit =
     (let x = seekdb_fts_exec_new (sf_pool p) (sf_table p) (sf_text_col p) (sf_query p) (sf_limit p)
                (seekdb_filter unparse filters) (project_fields (sf_schema p) projection)
      in case limit of Some n \<Rightarrow> x\<lparr>sx_scan_limit := Some n\<rparr> | None \<Rightarrow> x)"

definition seekdb_select_columns :: "arrow_field list \<Rightarrow> string" where
  "seekdb_select_columns schema =
     str_join '', '' (map (\<lambda>f. quote_seekdb_ident (af_name f)) (filter (\<lambda>f. af_name f \<noteq> ''_score'') schema))"

definition seekdb_match :: "string \<Rightarrow> string" where
  "seekdb_match text_col = ''MATCH('' @ quote_seekdb_ident text_col @ '') AGAINST (? IN NATURAL LANGUAGE MODE)''"

definition score_ident :: string where
  "score_ident = [backtick] @ ''_score'' @ [backtick]"

definition seekdb_fts_build_query :: "'p seekdb_fts_exec \<Rightarrow> string" where
  "seekdb_fts_build_query x =
     (let match_expr = seekdb_match (sx_text_col x);
          where_parts = [match_expr] @ (case sx_filter x of Some f \<Rightarrow> [f] | None \<Rightarrow> [])
      in ''SELECT '' @ select_list (seekdb_select_columns (sx_schema x)) (match_expr @ '' AS '' @ score_ident)
         @ '' FROM '' @ sx_table x @ '' WHERE '' @ str_join '' AND '' where_parts
         @ '' ORDER BY '' @ score_ident @ '' DESC LIMIT '' @ show_nat (search_limit (sx_scan_limit x) (sx_limit x)))"

text \<open>
  The connection and the statement with its two bound texts; a connection of another kind than
  MySQL's is \<open>Inr False\<close>.
\<close>

record ('d, 'row) seekdb_driver =
  sv_connect :: "'d \<Rightarrow> string + bool"
  sv_exec :: "'d \<Rightarrow> string \<Rightarrow> string list \<Rightarrow> string + 'row list"

definition seekdb_search ::
  "('d, 'row) seekdb_driver \<Rightarrow> string \<Rightarrow> 'd \<Rightarrow> string \<Rightarrow> string list \<Rightarrow> seekdb_run_error + 'row list" where
  "seekdb_search D fn_name d sql params =
     try_res (map_err (\<lambda>e. SeekdbRunFailed (fn_name @ '' connect error: '' @ e)) (sv_connect D d)) (\<lambda>is_mysql.
     if \<not> is_mysql then Inl (SeekdbRunFailed (fn_name @ '': unexpected connection type from pool''))
     else map_err (\<lambda>e. SeekdbRunFailed (fn_name @ '' execute error: '' @ e)) (sv_exec D d sql params))"

definition seekdb_fts_run ::
  "('d, 'row) seekdb_driver \<Rightarrow> 'row seekdb_getters \<Rightarrow> batch_errors \<Rightarrow> 'd \<Rightarrow> 'p seekdb_fts_exec
   \<Rightarrow> seekdb_run_error + scalar list list" where
  "seekdb_fts_run D G B d x =
     try_res (seekdb_search D ''seekdb_fts'' d (seekdb_fts_build_query x) [sx_query x, sx_query x]) (\<lambda>rows.
     seekdb_rows_to_batch G B rows (sx_schema x))"

section \<open>Vector search\<close>

datatype seekdb_metric = SeekdbL2 | SeekdbCosine | SeekdbInnerProduct

definition seekdb_metric_default :: seekdb_metric where
  "seekdb_metric_default = SeekdbL2"

definition seekdb_metric_function :: "seekdb_metric \<Rightarrow> string" where
  "seekdb_metric_function m =
     (case m of
        SeekdbL2 \<Rightarrow> ''L2_DISTANCE'' | SeekdbCosine \<Rightarrow> ''COSINE_DISTANCE''
      | SeekdbInnerProduct \<Rightarrow> ''NEGATIVE_INNER_PRODUCT'')"

definition seekdb_metric_from_str :: "string \<Rightarrow> string + seekdb_metric" where
  "seekdb_metric_from_str s =
     (let other = to_lowercase s in
      if other \<in> {''l2'', ''l2_distance'', ''<->''} then Inr SeekdbL2
      else if other \<in> {''cosine'', ''cosine_distance'', ''<=>''} then Inr SeekdbCosine
      else if other \<in> {''inner_product'', ''ip'', ''<#>''} then Inr SeekdbInnerProduct
      else Inl (''seekdb_knn: unknown metric '' @ quote @ other @ quote
                @ ''. Expected one of: l2, cosine, inner_product''))"

definition format_vector_literal :: "(32 word \<Rightarrow> string) \<Rightarrow> 32 word list \<Rightarrow> string" where
  "format_vector_literal show_f32 v = ''['' @ str_join '','' (map show_f32 v) @ '']''"

record 'p seekdb_knn_provider =
  sk_pool :: 'p
  sk_table :: string
  sk_vector_col :: string
  sk_literal :: "32 word list option"
  sk_query_vector :: udtf_arg
  sk_schema :: "arrow_field list"
  sk_metric :: seekdb_metric
  sk_k :: nat

definition seekdb_knn_call ::
  "(64 word \<Rightarrow> 32 word) \<Rightarrow> (string \<rightharpoonup> 'p seekdb_dataset) \<Rightarrow> udtf_arg list \<Rightarrow> string + 'p seekdb_knn_provider" where
  "seekdb_knn_call narrow registry exprs =
     (if length exprs \<noteq> 5
      then Inl (''seekdb_knn(table, vector_col, query_vec, metric, k) expects 5 arguments, got ''
                @ show_nat (length exprs) @ ''. metric must be one of: l2, cosine, inner_product'')
      else
        try_res (seekdb_extract_string (exprs ! 0) ''seekdb_knn'' ''table'') (\<lambda>table_name.
        try_res (seekdb_extract_string (exprs ! 1) ''seekdb_knn'' ''vector_col'') (\<lambda>vector_col.
        try_res (seekdb_extract_string (exprs ! 3) ''seekdb_knn'' ''metric'') (\<lambda>metric_str.
        try_res (if metric_str = [] then Inr seekdb_metric_default else seekdb_metric_from_str metric_str) (\<lambda>metric.
        try_res (extract_k (exprs ! 4) ''seekdb_knn'') (\<lambda>k.
        let literal_vector = res_option (extract_literal_vector narrow (exprs ! 2) ''seekdb_knn'') in
        try_res (find_seekdb ''seekdb_knn'' registry table_name) (\<lambda>entry.
        Inr \<lparr>sk_pool = se_pool entry, sk_table = se_qualified_table entry, sk_vector_col = vector_col,
             sk_literal = literal_vector, sk_query_vector = exprs ! 2,
             sk_schema = entry_fields (filter (\<lambda>(name, _). name \<noteq> vector_col) (se_columns entry)),
             sk_metric = metric, sk_k = k\<rparr>)))))))"

text \<open>
  The session's planner: which expressions are calls of scalar functions, the plan of a subquery,
  and the plan of a function call over one empty row.
\<close>

record 'pl seekdb_planner =
  sp_is_function :: "expr \<Rightarrow> bool"
  sp_subquery :: "string + 'pl"
  sp_function :: "expr \<Rightarrow> string + 'pl"

definition resolve_query_vector_plan :: "'pl seekdb_planner \<Rightarrow> udtf_arg \<Rightarrow> string + 'pl option" where
  "resolve_query_vector_plan P e =
     (case e of
        ArgSubquery \<Rightarrow> try_res (sp_subquery P) (\<lambda>plan. Inr (Some plan))
      | ArgExpr f \<Rightarrow> if sp_is_function P f then try_res (sp_function P f) (\<lambda>plan. Inr (Some plan)) else Inr None
      | _ \<Rightarrow> Inr None)"

record ('p, 'pl) seekdb_knn_exec =
  sn_pool :: 'p
  sn_table :: string
  sn_vector_col :: string
  sn_metric :: seekdb_metric
  sn_k :: nat
  sn_query_vector :: "32 word list"
  sn_plan :: "'pl option"
  sn_filter :: "string option"
  sn_scan_limit :: "nat option"
  sn_schema :: "arrow_field list"

definition seekdb_knn_exec_new ::
  "'p \<Rightarrow> string \<Rightarrow> string \<Rightarrow> 32 word list \<Rightarrow> string option \<Rightarrow> arrow_field list \<Rightarrow> seekdb_metric \<Rightarrow> nat
   \<Rightarrow> ('p, 'pl) seekdb_knn_exec" where
  "seekdb_knn_exec_new pool table vector_col v flt schema metric k =
     \<lparr>sn_pool = pool, sn_table = table, sn_vector_col = vector_col, sn_metric = metric, sn_k = k,
      sn_query_vector = v, sn_plan = None, sn_filter = flt, sn_scan_limit = None, sn_schema = schema\<rparr>"

definition seekdb_knn_exec_with_subquery ::
  "'p \<Rightarrow> string \<Rightarrow> string \<Rightarrow> 'pl \<Rightarrow> string option \<Rightarrow> arrow_field list \<Rightarrow> seekdb_metric \<Rightarrow> nat
   \<Rightarrow> ('p, 'pl) seekdb_knn_exec" where
  "seekdb_knn_exec_with_subquery pool table vector_col child flt schema metric k =
     \<lparr>sn_pool = pool, sn_table = table, sn_vector_col = vector_col, sn_metric = metric, sn_k = k,
      sn_query_vector = [], sn_plan = Some child, sn_filter = flt, sn_scan_limit = None, sn_schema = schema\<rparr>"

definition seekdb_knn_scan ::
  "(expr \<Rightarrow> string + string) \<Rightarrow> 'pl seekdb_planner \<Rightarrow> 'p seekdb_knn_provider \<Rightarrow> nat list option \<Rightarrow> expr list
   \<Rightarrow> nat option \<Rightarrow> string + ('p, 'pl) seekdb_knn_exec" where
  "seekdb_knn_scan unparse P p projection filters limit =
     (let flt = seekdb_filter unparse filters;
          schema = project_fields (sk_schema p) projection
      in try_res
        (case sk_literal p of
           Some v \<Rightarrow> Inr (seekdb_knn_exec_new (sk_pool p) (sk_table p) (sk_vector_col p) v flt schema (sk_metric p) (sk_k p))
         | None \<Rightarrow>
             try_res (resolve_query_vector_plan P (sk_query_vector p)) (\<lambda>r.
             case r of
               Some plan \<Rightarrow> Inr (seekdb_knn_exec_with_subquery (sk_pool p) (sk_table p) (sk_vector_col p) plan flt schema
                                  (sk_metric p) (sk_k p))
             | None \<Rightarrow> plan_err ''seekdb_knn'' (''query_vec must be a literal array, a scalar subquery, ''
                         @ ''or a scalar function call''))) (\<lambda>x.
      Inr (case limit of Some n \<Rightarrow> x\<lparr>sn_scan_limit := Some n\<rparr> | None \<Rightarrow> x)))"

definition seekdb_knn_build_query :: "('p, 'pl) seekdb_knn_exec \<Rightarrow> string" where
  "seekdb_knn_build_query x =
     (let where_clause = (case sn_filter x of Some f \<Rightarrow> '' WHERE '' @ f | None \<Rightarrow> []);
          dist_expr = seekdb_metric_function (sn_metric x) @ ''('' @ quote_seekdb_ident (sn_vector_col x) @ '', ?)''
      in ''SELECT '' @ select_list (seekdb_select_columns (sn_schema x)) (dist_expr @ '' AS '' @ score_ident)
         @ '' FROM '' @ sn_table x @ where_clause
         @ '' ORDER BY '' @ dist_expr @ '' APPROXIMATE LIMIT '' @ show_nat (sn_k x))"

text \<open>\<open>run_plan\<close> is the first item of the stream of a child plan.\<close>

definition seekdb_query_vector ::
  "(64 word \<Rightarrow> 32 word) \<Rightarrow> (string \<Rightarrow> string + 32 word) \<Rightarrow> ('pl \<Rightarrow> (string + nat \<times> query_column) option)
   \<Rightarrow> ('p, 'pl) seekdb_knn_exec \<Rightarrow> seekdb_run_error + 32 word list option" where
  "seekdb_query_vector narrow parse_f32 run_plan x =
     (if sn_query_vector x \<noteq> [] then Inr (Some (sn_query_vector x))
      else case sn_plan x of
             Some plan \<Rightarrow> map_err SeekdbRunFailed (extract_query_vector narrow parse_f32 (run_plan plan))
           | None \<Rightarrow> Inl (SeekdbRunInternal ''SeekDbKnnExec: both query_vector and query_vector_plan are absent''))"

definition seekdb_knn_run ::
  "(64 word \<Rightarrow> 32 word) \<Rightarrow> (string \<Rightarrow> string + 32 word) \<Rightarrow> (32 word \<Rightarrow> string)
   \<Rightarrow> ('pl \<Rightarrow> (string + nat \<times> query_column) option) \<Rightarrow> ('d, 'row) seekdb_driver \<Rightarrow> 'row seekdb_getters
   \<Rightarrow> batch_errors \<Rightarrow> 'd \<Rightarrow> ('p, 'pl) seekdb_knn_exec \<Rightarrow> seekdb_run_error + scalar list list" where
  "seekdb_knn_run narrow parse_f32 show_f32 run_plan D G B d x =
     try_res (seekdb_query_vector narrow parse_f32 run_plan x) (\<lambda>qv.
     case qv of
       None \<Rightarrow> Inr (map (\<lambda>_. []) (sn_schema x))
     | Some v \<Rightarrow>
         let lit = format_vector_literal show_f32 v in
         try_res (seekdb_search D ''seekdb_knn'' d (seekdb_knn_build_query x) [lit, lit]) (\<lambda>rows.
         try_res (seekdb_rows_to_batch G B rows (sn_schema x)) (\<lambda>batch.
         Inr (case sn_scan_limit x of Some n \<Rightarrow> map (take n) batch | None \<Rightarrow> batch))))"

definition seekdb_with_new_children ::
  "('p, 'pl) seekdb_knn_exec \<Rightarrow> 'pl list \<Rightarrow> string + ('p, 'pl) seekdb_knn_exec" where
  "seekdb_with_new_children x children =
     (if sn_plan x \<noteq> None \<and> length children = 1 then Inr (x\<lparr>sn_plan := Some (hd children)\<rparr>)
      else if sn_plan x = None \<and> children = [] then Inr x
      else Inl (''SeekDbKnnExec expected '' @ show_nat (if sn_plan x \<noteq> None then 1 else 0) @ '' children, got ''
                @ show_nat (length children)))"

section \<open>Types of the answers\<close>

definition searchable :: "arrow_type \<Rightarrow> bool" where
  "searchable ty =
     (case ty of
        AtInt32 \<Rightarrow> True | AtInt64 \<Rightarrow> True | AtFloat32 \<Rightarrow> True | AtFloat64 \<Rightarrow> True | AtBoolean \<Rightarrow> True
      | AtUtf8 \<Rightarrow> True | AtDecimal128 _ _ \<Rightarrow> True | _ \<Rightarrow> False)"

definition answers :: "arrow_type \<Rightarrow> scalar \<Rightarrow> bool" where
  "answers ty cell =
     (case cell of
        SvInt32 _ \<Rightarrow> ty = AtInt32 | SvInt64 _ \<Rightarrow> ty = AtInt64 | SvFloat32 _ \<Rightarrow> ty = AtFloat32
      | SvFloat64 _ \<Rightarrow> ty = AtFloat64 | SvBoolean _ \<Rightarrow> ty = AtBoolean | SvUtf8 _ \<Rightarrow> ty = AtUtf8
      | SvOther _ \<Rightarrow> (\<exists>p s. ty = AtDecimal128 p s) | SvNull \<Rightarrow> (\<exists>p s. ty = AtDecimal128 p s)
      | _ \<Rightarrow> False)"

lemma collected_all:
  assumes "collect_res (map f xs) = Inr ys" and "\<And>x y. f x = Inr y \<Longrightarrow> P y"
  shows "length ys = length xs \<and> list_all P ys"
  using assms(1)
proof (induction xs arbitrary: ys)
  case (Cons x xs)
  then show ?case using assms(2) by (auto simp: res_simps)
qed simp

lemma got_column_answers:
  assumes "got_column get col expected mk rows = Inr cells" and "\<And>v. answers ty (mk v)"
  shows "length cells = length rows \<and> list_all (answers ty) cells"
  using assms(1) unfolding got_column_def
  by (rule collected_all) (auto simp: res_simps assms(2))

lemma decimal_answers:
  assumes "collect_res (map (decimal_cell G col s) rows) = Inr cells"
  shows "length cells = length rows \<and> list_all (answers (AtDecimal128 p s)) cells"
  using assms by (rule collected_all) (auto simp: decimal_cell_def answers_def res_simps split: option.splits)

lemma built_column:
  assumes "seekdb_build_column G rows col ty = Inr (t, cells)"
  shows "(t = ty \<longleftrightarrow> searchable ty) \<and> length cells = length rows \<and> list_all (answers t) cells"
proof -
  have a: "answers AtInt32 (SvInt32 v1)" "answers AtInt64 (SvInt64 v2)" "answers AtFloat32 (SvFloat32 v3)"
    "answers AtFloat64 (SvFloat64 v3)" "answers AtBoolean (SvBoolean v4)" "answers AtUtf8 (SvUtf8 v3)" for v1 v2 v3 v4
    by (simp_all add: answers_def)
  show ?thesis
    using assms unfolding seekdb_build_column_def
    by (cases ty)
      (auto simp: searchable_def res_simps dest: got_column_answers [OF _ a(1)] got_column_answers [OF _ a(2)]
        got_column_answers [OF _ a(3)] got_column_answers [OF _ a(4)] got_column_answers [OF _ a(5)]
        got_column_answers [OF _ a(6)] decimal_answers)
qed

lemma built_batch:
  assumes "seekdb_rows_to_batch G B rows schema = Inr batch"
  shows "schema \<noteq> [] \<and> length batch = length schema \<and> list_all (\<lambda>f. searchable (af_type f)) schema
    \<and> (\<forall>i < length schema. length (batch ! i) = length rows \<and> list_all (answers (af_type (schema ! i))) (batch ! i))"
proof -
  from assms obtain columns where c:
    "collect_res (map (\<lambda>f. seekdb_build_column G rows (af_name f) (af_type f)) schema) = Inr columns"
    "columns \<noteq> []" "map fst columns = map af_type schema" "batch = map snd columns"
    by (auto simp: seekdb_rows_to_batch_def res_simps split: if_splits)
  have l: "length columns = length schema" using arg_cong [OF c(3), of length] by simp
  have b: "seekdb_build_column G rows (af_name (schema ! i)) (af_type (schema ! i)) = Inr (columns ! i)"
    if "i < length schema" for i
  proof -
    from c(1) have "map (\<lambda>f. seekdb_build_column G rows (af_name f) (af_type f)) schema = map Inr columns"
      by (simp add: collect_res_Inr_iff)
    from arg_cong [OF this, of "\<lambda>xs. xs ! i"] that l show ?thesis by simp
  qed
  have t: "fst (columns ! i) = af_type (schema ! i)" if "i < length schema" for i
    using arg_cong [OF c(3), of "\<lambda>xs. xs ! i"] that l by simp
  have "searchable (af_type (schema ! i)) \<and> length (batch ! i) = length rows
      \<and> list_all (answers (af_type (schema ! i))) (batch ! i)" if "i < length schema" for i
  proof -
    have "seekdb_build_column G rows (af_name (schema ! i)) (af_type (schema ! i)) =
        Inr (fst (columns ! i), snd (columns ! i))" using b [OF that] by simp
    from built_column [OF this] t [OF that] that l c(4) show ?thesis by simp
  qed
  with l c(2,4) show ?thesis by (auto simp: list_all_length)
qed

text \<open>
  An answer has a column for each field, a cell for each row, and the cells of a
  column are of its field's type.
\<close>

theorem seekdb_batches_are_typed:
  assumes "seekdb_rows_to_batch G B rows schema = Inr batch"
  shows "schema \<noteq> [] \<and> length batch = length schema \<and> list_all (\<lambda>f. searchable (af_type f)) schema
    \<and> (\<forall>i < length schema. length (batch ! i) = length rows \<and> list_all (answers (af_type (schema ! i))) (batch ! i))"
  by (rule built_batch [OF assms])

definition demo_seekdb_getters :: "unit seekdb_getters" where
  "demo_seekdb_getters =
     \<lparr>sg_i32 = (\<lambda>_ _. Got (Some 7)), sg_i64 = (\<lambda>_ _. GotPanic), sg_f32 = (\<lambda>_ _. GotPanic), sg_f64 = (\<lambda>_ _. Got (Some ''0.5'')),
      sg_bool = (\<lambda>_ _. GotPanic), sg_string = (\<lambda>_ _. Got (Some ''9.50'')), sg_scaled = (\<lambda>_ s. Inr s)\<rparr>"

definition demo_batch_errors :: batch_errors where
  "demo_batch_errors =
     \<lparr>be_no_columns = ''must either specify a row count or at least one column'',
      be_types = (\<lambda>_ _. ''column types must match schema types'')\<rparr>"

theorem seekdb_batches_are_typed_witness:
  "list_all (answers (AtDecimal128 10 2)) [SvOther ''9.50''] \<and> list_all (answers AtFloat64) [SvFloat64 (Some ''0.5'')]"
proof -
  let ?s = "entry_fields [(''price'', AtDecimal128 10 2)]"
  have "seekdb_rows_to_batch demo_seekdb_getters demo_batch_errors [()] ?s = Inr [[SvOther ''9.50''], [SvFloat64 (Some ''0.5'')]]"
    by code_simp
  from seekdb_batches_are_typed [OF this] show ?thesis
    by (auto simp: entry_fields_def score_field_def dest: spec [of _ 0] spec [of _ 1])
qed

text \<open>
  A text search of all columns of a table fails whenever one of them is of a type that
  no array is built for, although the schema of the provider knows it: dates, times, bytes, small and
  unsigned integers.
\<close>

theorem unbuilt_types_fail_every_search:
  assumes "seekdb_fts_call registry exprs = Inr p" and "registry t = Some (SeekdbDataset entry)"
    and "seekdb_extract_string (exprs ! 0) ''seekdb_fts'' ''table'' = Inr t"
    and "(name, ty) \<in> set (se_columns entry)" and "\<not> searchable ty"
  shows "\<not> is_ok (seekdb_fts_run D G B d (seekdb_fts_scan unparse p None filters limit))"
proof
  let ?x = "seekdb_fts_scan unparse p None filters limit"
  assume "is_ok (seekdb_fts_run D G B d ?x)"
  then obtain rows batch where "seekdb_rows_to_batch G B rows (sx_schema ?x) = Inr batch"
    by (auto simp: seekdb_fts_run_def is_ok_iff res_simps)
  then have "list_all (\<lambda>f. searchable (af_type f)) (sx_schema ?x)" by (simp add: built_batch)
  moreover have "sx_schema ?x = sf_schema p"
    by (cases limit) (simp_all add: seekdb_fts_scan_def seekdb_fts_exec_new_def project_fields_def Let_def)
  moreover have "sf_schema p = entry_fields (se_columns entry)"
    using assms(1-3) by (auto simp: seekdb_fts_call_def find_seekdb_def res_simps split: if_splits)
  moreover from assms(4) have "\<lparr>af_name = name, af_type = ty, af_nullable = True\<rparr> \<in> set (entry_fields (se_columns entry))"
    by (force simp: entry_fields_def)
  ultimately show False using assms(5) by (auto simp: list_all_iff)
qed

definition demo_seekdb_entry :: "nat seekdb_entry" where
  "demo_seekdb_entry =
     \<lparr>se_pool = 0, se_qualified_table = quote_seekdb_table (PartialTable ''shop'' ''orders''),
      se_columns = map (\<lambda>f. (af_name f, af_type f))
        (projr (build_schema_from_columns ''orders''
          [(Some ''id'', Some ''int(11)''), (Some ''body'', Some ''TEXT''), (Some ''made'', Some ''datetime'')]))\<rparr>"

theorem unbuilt_types_fail_every_search_witness:
  "\<not> is_ok (seekdb_fts_run \<lparr>sv_connect = (\<lambda>_. Inr True), sv_exec = (\<lambda>_ _ _. Inr [()])\<rparr> demo_seekdb_getters
     demo_batch_errors () (seekdb_fts_scan demo_unparse
       \<lparr>sf_pool = 0 :: nat, sf_table = se_qualified_table demo_seekdb_entry, sf_text_col = ''body'', sf_query = ''q'', sf_limit = 9,
         sf_schema = entry_fields (se_columns demo_seekdb_entry)\<rparr> None [] None))"
proof (rule unbuilt_types_fail_every_search)
  let ?a = "[text_arg ''orders'', text_arg ''body'', text_arg ''q'', ArgExpr (ELiteral (SvInt32 (Some 9)))]"
  show "seekdb_fts_call [''orders'' \<mapsto> SeekdbDataset demo_seekdb_entry] ?a = Inr
      \<lparr>sf_pool = 0 :: nat, sf_table = se_qualified_table demo_seekdb_entry, sf_text_col = ''body'', sf_query = ''q'', sf_limit = 9,
         sf_schema = entry_fields (se_columns demo_seekdb_entry)\<rparr>"
    by code_simp
  show "[''orders'' \<mapsto> SeekdbDataset demo_seekdb_entry] ''orders'' = Some (SeekdbDataset demo_seekdb_entry)" by simp
  show "seekdb_extract_string (?a ! 0) ''seekdb_fts'' ''table'' = Inr ''orders''"
    by (simp add: text_arg_def seekdb_extract_string_def)
  have "se_columns demo_seekdb_entry = [(''id'', AtInt32), (''body'', AtUtf8), (''made'', AtTimestamp)]" by code_simp
  then show "(''made'', AtTimestamp) \<in> set (se_columns demo_seekdb_entry)" by simp
  show "\<not> searchable AtTimestamp" by (simp add: searchable_def)
qed

section \<open>Statements\<close>

definition plain_name :: "string \<Rightarrow> bool" where
  "plain_name c \<longleftrightarrow> list_all (\<lambda>c. c \<notin> {squote, dquote, CHR ''('', CHR '')''}) c"

lemma backticks_inside:
  assumes "plain_name c"
  shows "inside (1, None) (quote_seekdb_ident c) \<and> read_text (quote_seekdb_ident c) (1, None) = (1, None)"
proof -
  have b: "backtick \<notin> {squote, dquote, CHR ''('', CHR '')''}" by (simp add: backtick_def squote_def dquote_def)
  have "list_all (\<lambda>c. c \<notin> {squote, dquote, CHR ''('', CHR '')''})
      (concat (map (\<lambda>c. if c = backtick then [backtick, backtick] else [c]) c))"
    using assms b by (auto simp: plain_name_def list_all_iff)
  with b show ?thesis
    unfolding quote_seekdb_ident_def str_replace_char by (intro inside_plain) simp
qed

lemma seekdb_match_conjunct:
  assumes "plain_name c"
  shows "conjunct_text (seekdb_match c)"
proof -
  have "list_all plain_char ''MATCH''" by code_simp
  from inside_word [OF this, of "quote_seekdb_ident c"] backticks_inside [OF assms]
  have m: "balanced (''MATCH('' @ quote_seekdb_ident c @ '')'')"
    "sql_words (''MATCH('' @ quote_seekdb_ident c @ '')'') = [''MATCH('' @ quote_seekdb_ident c @ '')'']" by simp_all
  let ?q = "''(? IN NATURAL LANGUAGE MODE)''"
  have a: "balanced ''AGAINST''" "sql_words ''AGAINST'' = [''AGAINST'']" "balanced ?q" "sql_words ?q = [?q]" by code_simp+
  have e: "seekdb_match c = (''MATCH('' @ quote_seekdb_ident c @ '')'') @ CHR '' '' # ''AGAINST'' @ CHR '' '' # ?q"
    by (simp add: seekdb_match_def)
  have w: "sql_words (seekdb_match c) = [''MATCH('' @ quote_seekdb_ident c @ '')'', ''AGAINST'', ?q]"
    unfolding e sql_words_append [OF m(1)] sql_words_append [OF a(1)] m(2) a(2) a(4) by simp
  have "balanced (seekdb_match c)" unfolding e using m a by (simp add: balanced_def)
  then show ?thesis unfolding conjunct_text_def w by simp
qed

lemma seekdb_filter_eq: "seekdb_filter unparse filters = search_filter unparse filters"
proof -
  have "expr_to_seekdb_sql unparse = (\<lambda>e. case unparse e of Inr s \<Rightarrow> Some s | Inl _ \<Rightarrow> None)"
    by (rule ext) (simp add: expr_to_seekdb_sql_def split: sum.split)
  then show ?thesis by (simp add: seekdb_filter_def search_filter_def)
qed

lemma seekdb_positive_pos: "seekdb_positive name i = Inr (Some v) \<Longrightarrow> 1 \<le> v"
  by (auto simp: seekdb_positive_def plan_err_def split: if_splits)

lemma seekdb_int_pos: "seekdb_extract_int e name = Inr (Some v) \<Longrightarrow> 1 \<le> v"
  by (auto simp: seekdb_extract_int_def plan_err_def dest!: seekdb_positive_pos simp del: One_nat_def
      split: udtf_arg.splits expr.splits scalar.splits option.splits)

lemma seekdb_fts_limit_bounds:
  assumes "seekdb_fts_limit e = Inr n"
  shows "1 \<le> n \<and> n \<le> 500"
proof -
  from assms obtain l where l: "seekdb_extract_int e ''limit'' = Inr l"
    "(case l of None \<Rightarrow> Inr 1
      | Some v \<Rightarrow> if 500 < v then plan_err ''seekdb_fts'' (''limit must be between 1 and '' @ show_nat 500
                @ '', got '' @ show_nat v) else Inr v) = Inr n"
    unfolding seekdb_fts_limit_def try_res_Inr_iff MAX_SEEKDB_FTS_LIMIT_def by blast
  show ?thesis
  proof (cases l)
    case None
    with l(2) show ?thesis by simp
  next
    case (Some v)
    with l(2) have "n = v" "v \<le> 500" by (simp_all add: plan_err_def split: if_splits)
    with seekdb_int_pos [OF l(1) [unfolded Some]] show ?thesis by simp
  qed
qed

lemma seekdb_fts_call_limit: "seekdb_fts_call registry exprs = Inr p \<Longrightarrow> 1 \<le> sf_limit p \<and> sf_limit p \<le> 500"
  using seekdb_fts_limit_bounds by (auto simp: seekdb_fts_call_def res_simps split: if_splits)

lemma seekdb_fts_query_text:
  "seekdb_fts_build_query (seekdb_fts_scan unparse p projection filters limit) =
     ''SELECT '' @ select_list (seekdb_select_columns (project_fields (sf_schema p) projection))
        (seekdb_match (sf_text_col p) @ '' AS '' @ score_ident)
     @ '' FROM '' @ sf_table p @ '' WHERE ''
     @ str_join '' AND '' ([seekdb_match (sf_text_col p)] @ (case search_filter unparse filters of Some f \<Rightarrow> [f] | None \<Rightarrow> []))
     @ '' ORDER BY '' @ score_ident @ '' DESC LIMIT '' @ show_nat (search_limit limit (sf_limit p))"
  by (cases limit) (simp_all add: seekdb_fts_build_query_def seekdb_fts_scan_def seekdb_fts_exec_new_def Let_def
      seekdb_filter_eq del: str_join.simps)

text \<open>
  The WHERE clause of the generated statement means the match and all filters declared exact, and
  no others, as long as the unparser leaves no \<open>OR\<close> outside parentheses; it asks for between 1 and 500
  rows, and the searched text is not in the statement.
\<close>

theorem seekdb_text_search_states_filters:
  assumes "seekdb_fts_call registry exprs = Inr p" and "renders_conjuncts unparse filters"
    and "plain_name (sf_text_col p)"
  shows "\<exists>sel body n. seekdb_fts_build_query (seekdb_fts_scan unparse p projection filters limit) =
      ''SELECT '' @ sel @ '' FROM '' @ sf_table p @ '' WHERE '' @ body
        @ '' ORDER BY '' @ score_ident @ '' DESC LIMIT '' @ show_nat n
    \<and> n = search_limit limit (sf_limit p) \<and> n \<le> 500
    \<and> (\<forall>v. where_holds v body = (where_holds v (seekdb_match (sf_text_col p))
        \<and> list_all (\<lambda>e. where_holds v (projr (unparse e))) (filter (\<lambda>e. is_ok (unparse e)) filters)))
    \<and> seekdb_fts_build_query (seekdb_fts_scan unparse p projection filters limit) =
        seekdb_fts_build_query (seekdb_fts_scan unparse (p\<lparr>sf_query := other\<rparr>) projection filters limit)"
proof -
  let ?m = "seekdb_match (sf_text_col p)"
  let ?body = "str_join '' AND '' ([?m] @ (case search_filter unparse filters of Some f \<Rightarrow> [f] | None \<Rightarrow> []))"
  have "list_all conjunct_text [?m]" using seekdb_match_conjunct [OF assms(3)] by simp
  from joined_filter [OF this assms(2)] have h: "\<forall>v. where_holds v ?body = (where_holds v ?m
      \<and> list_all (\<lambda>e. where_holds v (projr (unparse e))) (filter (\<lambda>e. is_ok (unparse e)) filters))"
    by (simp add: rendered_def search_pushdown_def list_all_iff del: str_join.simps append.simps)
  have "search_limit limit (sf_limit p) \<le> 500"
    using seekdb_fts_call_limit [OF assms(1)] by (auto simp: search_limit_def min_def split: option.split)
  then show ?thesis unfolding seekdb_fts_query_text using h by auto
qed

theorem seekdb_text_search_states_filters_witness:
  "\<exists>sel body. seekdb_fts_build_query (seekdb_fts_scan demo_unparse
        \<lparr>sf_pool = 0 :: nat, sf_table = se_qualified_table demo_seekdb_entry, sf_text_col = ''body'', sf_query = ''q'',
          sf_limit = 9, sf_schema = entry_fields (se_columns demo_seekdb_entry)\<rparr> None
        [EOther ''(x = 1 OR y = 2)'', EColumn ''c''] (Some 3)) =
      ''SELECT '' @ sel @ '' FROM '' @ se_qualified_table demo_seekdb_entry @ '' WHERE '' @ body
        @ '' ORDER BY '' @ score_ident @ '' DESC LIMIT '' @ show_nat 3
    \<and> \<not> where_holds (\<lambda>w. w \<noteq> [''(x = 1 OR y = 2)'']) body"
proof -
  let ?p = "\<lparr>sf_pool = 0 :: nat, sf_table = se_qualified_table demo_seekdb_entry, sf_text_col = ''body'', sf_query = ''q'',
    sf_limit = 9, sf_schema = entry_fields (se_columns demo_seekdb_entry)\<rparr>"
  let ?f = "[EOther ''(x = 1 OR y = 2)'', EColumn ''c'']"
  let ?v = "\<lambda>w. w \<noteq> [''(x = 1 OR y = 2)'']"
  have c: "seekdb_fts_call [''orders'' \<mapsto> SeekdbDataset demo_seekdb_entry]
      [text_arg ''orders'', text_arg ''body'', text_arg ''q'', ArgExpr (ELiteral (SvInt32 (Some 9)))] = Inr ?p" by code_simp
  have r: "renders_conjuncts demo_unparse ?f" by code_simp
  have n: "plain_name (sf_text_col ?p)" by code_simp
  have h: "\<not> list_all (\<lambda>e. where_holds ?v (projr (demo_unparse e))) (filter (\<lambda>e. is_ok (demo_unparse e)) ?f)" by code_simp
  have l: "search_limit (Some 3) (sf_limit ?p) = 3" by (simp add: search_limit_def)
  from seekdb_text_search_states_filters [OF c r n, of None "Some 3" "''other''"] h show ?thesis
    unfolding l by (metis seekdb_fts_provider.select_convs(2))
qed

section \<open>Vector searches\<close>

text \<open>The two spellings of each metric, in any case; a null metric is the Euclidean distance.\<close>

theorem seekdb_metrics:
  "(seekdb_metric_from_str s = Inr m \<longleftrightarrow>
     to_lowercase s \<in> (case m of SeekdbL2 \<Rightarrow> {''l2'', ''l2_distance'', ''<->''}
                        | SeekdbCosine \<Rightarrow> {''cosine'', ''cosine_distance'', ''<=>''}
                        | SeekdbInnerProduct \<Rightarrow> {''inner_product'', ''ip'', ''<#>''}))
   \<and> (seekdb_metric_from_str s = seekdb_metric_from_str (to_lowercase s))"
  by (cases m) (auto simp: seekdb_metric_from_str_def Let_def)

lemma seekdb_knn_fields [simp]:
  "sn_query_vector (x\<lparr>sn_scan_limit := l\<rparr>) = sn_query_vector x" "sn_plan (x\<lparr>sn_scan_limit := l\<rparr>) = sn_plan x"
  "sn_k (x\<lparr>sn_scan_limit := l\<rparr>) = sn_k x"
  by simp_all

lemma seekdb_literal_nonempty:
  "seekdb_knn_call narrow registry exprs = Inr p \<Longrightarrow> sk_literal p = Some v \<Longrightarrow> v \<noteq> []"
  using literal_vector_nonempty
  by (auto simp: seekdb_knn_call_def Let_def res_option_def res_simps split: if_splits sum.splits)

lemma seekdb_k_bounded: "seekdb_knn_call narrow registry exprs = Inr p \<Longrightarrow> 1 \<le> sk_k p \<and> sk_k p \<le> 500"
  using pg_k_bounded by (auto simp: seekdb_knn_call_def Let_def res_simps split: if_splits)

lemma seekdb_knn_plan:
  assumes "seekdb_knn_call narrow registry exprs = Inr p" and "seekdb_knn_scan unparse P p projection filters limit = Inr x"
  shows "(sn_query_vector x \<noteq> [] \<longleftrightarrow> sn_plan x = None) \<and> sn_k x = sk_k p \<and> sn_scan_limit x = limit"
  using assms(2) seekdb_literal_nonempty [OF assms(1)]
  by (auto simp: seekdb_knn_scan_def Let_def plan_err_def seekdb_knn_exec_new_def seekdb_knn_exec_with_subquery_def res_simps
      split: option.splits)

text \<open>Every outcome but the internal error of a plan that has no vector and no plan for one.\<close>

definition has_vector :: "seekdb_run_error + 'a \<Rightarrow> bool" where
  "has_vector r = (case r of Inl (SeekdbRunInternal _) \<Rightarrow> False | _ \<Rightarrow> True)"

lemma has_vector_simps [simp]:
  "has_vector (Inr x)" "has_vector (Inl SeekdbRunPanic)" "has_vector (Inl (SeekdbRunFailed m))"
  by (simp_all add: has_vector_def)

lemma hv_map_err: "(\<And>e. has_vector (Inl (f e) :: seekdb_run_error + 'a)) \<Longrightarrow> has_vector (map_err f r :: seekdb_run_error + 'a)"
  by (cases r) simp_all

lemma hv_map_failed [simp]: "has_vector (map_err SeekdbRunFailed r)"
  by (rule hv_map_err) simp

lemma hv_try: "has_vector r \<Longrightarrow> (\<And>x. r = Inr x \<Longrightarrow> has_vector (f x)) \<Longrightarrow> has_vector (try_res r f)"
  by (cases r) (simp_all add: has_vector_def)

lemma hv_collect: "(\<And>x. x \<in> set xs \<Longrightarrow> has_vector (f x)) \<Longrightarrow> has_vector (collect_res (map f xs))"
  by (induction xs) (auto intro!: hv_try)

lemma hv_got: "has_vector (got_value c e t v)"
  by (simp add: got_value_def seekdb_decode_err_def split: got.split)

lemma hv_column: "has_vector (got_column get col expected mk rows)"
  unfolding got_column_def by (intro hv_collect hv_try hv_got) simp

lemma hv_decimal: "has_vector (decimal_cell G col scale row)"
  unfolding decimal_cell_def
  by (intro hv_try hv_got) (auto simp: seekdb_decode_err_def split: option.split intro!: hv_try hv_map_err)

lemma hv_built: "has_vector (seekdb_build_column G rows col ty)"
  by (cases ty) (auto simp: seekdb_build_column_def intro!: hv_try hv_column hv_collect hv_decimal)

lemma hv_batch: "has_vector (seekdb_rows_to_batch G B rows schema)"
  unfolding seekdb_rows_to_batch_def by (intro hv_try hv_collect hv_built) simp

lemma hv_search: "has_vector (seekdb_search D f d sql ps)"
  unfolding seekdb_search_def by (intro hv_try hv_map_err) (auto intro: hv_map_err)

text \<open>
  A planned vector search has a vector or a plan for one, never both, so it does not reach the
  branch for neither; it asks for between 1 and 500 rows and answers with at most the limit of
  the query; a subquery without rows gives an answer without rows and no statement is run.
\<close>

theorem seekdb_vector_search_is_total:
  assumes "seekdb_knn_call narrow registry exprs = Inr p"
    and "seekdb_knn_scan unparse P p projection filters limit = Inr x"
  shows "has_vector (seekdb_knn_run narrow' parse_f32 show_f32 run_plan D G B d x)
    \<and> (\<exists>s. seekdb_knn_build_query x = s @ '' APPROXIMATE LIMIT '' @ show_nat (sk_k p)) \<and> 1 \<le> sk_k p \<and> sk_k p \<le> 500
    \<and> (\<forall>batch n. seekdb_knn_run narrow' parse_f32 show_f32 run_plan D G B d x = Inr batch \<longrightarrow> limit = Some n
        \<longrightarrow> list_all (\<lambda>column. length column \<le> n) batch)
    \<and> (\<forall>plan. sn_plan x = Some plan \<longrightarrow> run_plan plan = None
        \<longrightarrow> seekdb_knn_run narrow' parse_f32 show_f32 run_plan D G B d x = Inr (map (\<lambda>_. []) (sn_schema x)))"
proof -
  note p = seekdb_knn_plan [OF assms]
  let ?run = "seekdb_knn_run narrow' parse_f32 show_f32 run_plan D G B d x"
  have "has_vector (seekdb_query_vector narrow' parse_f32 run_plan x)"
    using p by (auto simp: seekdb_query_vector_def split: option.split)
  then have "has_vector ?run"
    unfolding seekdb_knn_run_def Let_def
    by (intro hv_try) (auto split: option.split intro!: hv_try hv_search hv_batch)
  moreover have "\<exists>s. seekdb_knn_build_query x = s @ '' APPROXIMATE LIMIT '' @ show_nat (sk_k p)"
    using p by (simp add: seekdb_knn_build_query_def Let_def)
  moreover have "list_all (\<lambda>column. length column \<le> n) batch" if "?run = Inr batch" "limit = Some n" for batch n
    using that p by (auto simp: seekdb_knn_run_def Let_def list_all_iff res_simps split: option.splits)
  moreover have "?run = Inr (map (\<lambda>_. []) (sn_schema x))" if "sn_plan x = Some plan" "run_plan plan = None" for plan
    using that p by (simp add: seekdb_knn_run_def seekdb_query_vector_def extract_query_vector_def)
  ultimately show ?thesis using seekdb_k_bounded [OF assms(1)] by blast
qed

theorem seekdb_vector_search_is_total_witness:
  "seekdb_knn_run (\<lambda>_. 0) (\<lambda>_. Inl ''bad'') (\<lambda>_. ''0'') (\<lambda>_. None)
     \<lparr>sv_connect = (\<lambda>_. Inr True), sv_exec = (\<lambda>_ _ _. Inr [()])\<rparr> demo_seekdb_getters demo_batch_errors ()
     (seekdb_knn_exec_with_subquery (0 :: nat) ''t'' ''e'' ''plan'' None [score_field] SeekdbCosine 5) = Inr [[]]"
proof -
  let ?p = "\<lparr>sk_pool = 0 :: nat, sk_table = ''t'', sk_vector_col = ''e'', sk_literal = None, sk_query_vector = ArgSubquery,
    sk_schema = [score_field], sk_metric = SeekdbCosine, sk_k = 5\<rparr>"
  let ?e = "\<lparr>se_pool = 0 :: nat, se_qualified_table = ''t'', se_columns = [(''e'', AtUtf8)]\<rparr>"
  let ?x = "seekdb_knn_exec_with_subquery (0 :: nat) ''t'' ''e'' ''plan'' None [score_field] SeekdbCosine 5"
  have c: "seekdb_knn_call (\<lambda>_. 0) [''d'' \<mapsto> SeekdbDataset ?e]
      [text_arg ''d'', text_arg ''e'', ArgSubquery, text_arg ''COSINE'', ArgExpr (ELiteral (SvInt32 (Some 5)))] = Inr ?p"
    by code_simp
  have s: "seekdb_knn_scan demo_unparse \<lparr>sp_is_function = (\<lambda>_. False), sp_subquery = Inr ''plan'', sp_function = (\<lambda>_. Inl [])\<rparr>
      ?p None [] None = Inr ?x" by code_simp
  have "sn_plan ?x = Some ''plan''" "map (\<lambda>_. []) (sn_schema ?x) = ([[]] :: scalar list list)"
    by (simp_all add: seekdb_knn_exec_with_subquery_def)
  with seekdb_vector_search_is_total [OF c s, of "\<lambda>_. 0" "\<lambda>_. Inl ''bad''" "\<lambda>_. ''0''" "\<lambda>_. None"
    "\<lparr>sv_connect = (\<lambda>_. Inr True), sv_exec = (\<lambda>_ _ _. Inr [()])\<rparr>" demo_seekdb_getters demo_batch_errors "()"] show ?thesis by simp
qed

end
