(* ===== verification/Spec2Isabelle.thy ===== *)
theory Spec2Isabelle
  imports Http_Handlers Pipeline_Inference Redis_Provider Mongo_Provider Lance_Fts Pg_Search Cli_Main
    Chunking Llm_Provider Seekdb_Search
begin

text \<open>
  A verification development for Skardi, a server that exposes SQL pipelines and jobs over
  heterogeneous data sources (\<^verbatim>\<open>crates/skardi\<close>: the library, \<^verbatim>\<open>crates/server\<close>: the HTTP
  server, \<^verbatim>\<open>crates/cli\<close>: the command line client).

  \<^bold>\<open>Parts and their interaction.\<close> At start the server reads a context file of data sources,
  validates and registers them, checks the SQL of its pipelines against their access modes, loads
  pipelines and jobs and merges the semantics overlays. At run time a request to a pipeline is
  checked for a session, its parameters are rendered into the SQL text, and the engine runs it.
  A job is submitted through the executor: its parameters are rendered, its destination resolved
  and its schema compared, a pending row is written to the ledger and a task spawned which
  streams the query into a Lance dataset or a SQL table and records the outcome. The client runs
  queries and pipelines in its own process over a context file, keeps a file of aliases for them,
  and sends job requests to a server.

  \<^bold>\<open>Theories.\<close>
  \<^item> \<open>Prelude\<close>, \<open>Rust_Strings\<close>: results and the \<open>?\<close> operator, folds with errors, the string
    functions of the Rust library that the code uses, with their lemmas.
  \<^item> \<open>Data_Sources\<close>: \<^verbatim>\<open>sources/access_mode.rs\<close>, \<^verbatim>\<open>sources/data_source_type.rs\<close>,
    \<^verbatim>\<open>sources/hierarchy/mod.rs\<close>: enums and labels, the retry loop, the concurrent catalog build.
  \<^item> \<open>Sql_Validator\<close>: \<^verbatim>\<open>sources/sql_validator.rs\<close>: placeholder pass and statement policy.
  \<^item> \<open>Semantics\<close>: \<^verbatim>\<open>semantics.rs\<close>: keys, discovery of overlay files, the registry and its lookups.
  \<^item> \<open>Sql_Template\<close>: JSON values, SQL literals and how a SQL lexer reads them, templates with
    holes, and the locale \<open>literal_renderer\<close> that relates sequential to simultaneous substitution.
  \<^item> \<open>Job_Store\<close>: \<^verbatim>\<open>jobs/store.rs\<close>: the ledger's rows and SQL statements; the locale
    \<open>run_ledger\<close> is its contract, interpreted on the SQLite statements.
  \<^item> \<open>Streams\<close>, \<open>Lance_Store\<close>, \<open>Job_Destination\<close>: the stream adapters, the two Lance writers,
    the SQL destination and the job files (\<^verbatim>\<open>jobs/destination\<close>, \<^verbatim>\<open>jobs/definition.rs\<close>,
    \<^verbatim>\<open>sources/providers/lance/registration.rs\<close>).
  \<^item> \<open>Job_Executor\<close>: \<^verbatim>\<open>jobs/executor.rs\<close>: the operations as functions on the shared state and
    their interleavings as the step relation \<open>exec_step\<close>, in which a task marks its row, executes,
    reads its cancel flag and decides, writes the ledger and cleans up in separate steps; the timeout
    drops the body at one of its awaits (\<open>run_body\<close>).
  \<^item> \<open>Auth\<close>: \<^verbatim>\<open>server/src/auth\<close>: mode, layer, session check, virtual tables.
  \<^item> \<open>Server_Config\<close>, \<open>Server_Startup\<close>: \<^verbatim>\<open>server/src/config.rs\<close>,
    \<^verbatim>\<open>server/src/remote_storage.rs\<close>, \<^verbatim>\<open>server/src/optimizer_registry.rs\<close>.
  \<^item> \<open>Http_Handlers\<close>: \<^verbatim>\<open>server/src/pipeline_handlers.rs\<close>, \<^verbatim>\<open>server/src/jobs_handlers.rs\<close>,
    \<^verbatim>\<open>server/src/metrics.rs\<close> and the routes of \<^verbatim>\<open>server/src/server.rs\<close>.
  \<^item> \<open>Pipeline_Inference\<close>: \<^verbatim>\<open>pipeline/inferencer.rs\<close>, \<^verbatim>\<open>pipeline/pipeline.rs\<close>: how parameters
    get columns and types, request and response schemas, loading of a pipeline file.
  \<^item> \<open>Filter_Expr\<close>: the engine's filter expressions and scalars, shared by the providers.
  \<^item> \<open>Redis_Provider\<close>: \<^verbatim>\<open>sources/providers/redis\<close>: rows as hashes of a key space; scans,
    INSERT, UPDATE and DELETE over a server with a contract (\<open>redis_serves\<close>).
  \<^item> \<open>Mongo_Provider\<close>: \<^verbatim>\<open>sources/providers/mongo/mod.rs\<close>: types, documents, filter documents and
    their meaning, the operations over a collection (\<open>mongo_serves\<close>), the connection URI.
  \<^item> \<open>Sql_Where\<close>, \<open>Vector_Search\<close>, \<open>Lance_Fts\<close>: a word reader for generated conditions, the
    rendering of filters (\<^verbatim>\<open>sources/providers/lance/utils.rs\<close>), arguments of the search functions
    (\<^verbatim>\<open>sources/providers/knn_utils.rs\<close>) and \<open>lance_knn\<close>, \<open>lance_fts\<close> with scan and execution.
  \<^item> \<open>Sqlite_Provider\<close>, \<open>Sqlite_Search\<close>: \<^verbatim>\<open>sources/providers/sqlite\<close>: the generated SQL, cells and
    arrays, the connections, insert, update and delete in transactions, registration; \<open>sqlite_knn\<close>
    and \<open>sqlite_fts\<close>.
  \<^item> \<open>Pg_Provider\<close>, \<open>Pg_Search\<close>: \<^verbatim>\<open>sources/providers/sqlx/pg\<close>: the settings of the two pools,
    registration, the INSERT transaction over several partitions, generated statements; \<open>pg_fts\<close>
    and \<open>pg_knn\<close>.
  \<^item> \<open>Mysql_Provider\<close>, \<open>Seekdb_Provider\<close>, \<open>Seekdb_Search\<close>: \<^verbatim>\<open>sources/providers/mysql.rs\<close>,
    \<^verbatim>\<open>sources/providers/mysql_wire.rs\<close> and \<^verbatim>\<open>sources/providers/seekdb\<close>: connection settings,
    column types, registration, DELETE and UPDATE; \<open>seekdb_fts\<close> and \<open>seekdb_knn\<close>.
  \<^item> \<open>Cli_Pipeline\<close>, \<open>Cli_Main\<close>: \<^verbatim>\<open>cli/src\<close>: templates, typed parameters, aliases and their file,
    pipeline discovery, job requests; contexts, registration of sources, object stores, the schema
    listing, execution and the alias commands.
  \<^item> \<open>Arrow_Lists\<close>, \<open>Chunking\<close>: arrays of lists as they are stored, and the \<open>chunk\<close> function
    (\<^verbatim>\<open>model/chunking/mod.rs\<close>).
  \<^item> \<open>Llm_Types\<close>, \<open>Llm_Extract\<close>, \<open>Llm_Provider\<close>: \<^verbatim>\<open>model/llm_extract\<close>: column types of a schema and
    their builders, the rows of a batch with escalation and statuses, the providers with their
    requests and retries.

  \<^bold>\<open>Conventions.\<close> A definition keeps the name of the function it models; structs are records,
  enums datatypes, \<open>Result\<close> a sum with the error on the left, \<open>u64\<close> and \<open>usize\<close> counters words
  where they may wrap. Everything outside the repository (the SQL engine and parser, YAML, the
  Lance and better-auth libraries, the object store, the file system and the clock) is a parameter;
  what a property relies on of it is a named predicate (\<open>transactional\<close>, \<open>commits_at_end\<close>,
  \<open>redis_serves\<close>, \<open>mongo_serves\<close>, \<open>sqlite_tx_serves\<close>) that states its documented behaviour on what
  the code sends it, with an instance in the property's witness. Texts are ASCII: what the code does
  with letters outside it (a placeholder name, a case mapping) is not modelled. Logging is left out.

  \<^bold>\<open>What the lemmas show.\<close> The validator, the configuration checks, the session check and the
  pre-flight are characterised by the conditions under which they accept. The ledger satisfies
  its contract; over the executor's step relation terminal runs are final, a run cancelled before its
  task has decided never succeeds (one cancelled later may), and records stay consistent. Writes are
  all or nothing: the generated INSERT is read back as the statement it should be, and its
  atomicity is the backend's. Rendering of parameters equals simultaneous substitution when no value
  contains an opening brace, and closed theorems show what goes wrong otherwise. In the Redis
  provider a DELETE removes exactly the rows whose stored texts satisfy the filters; in MongoDB the
  conditions are compared with their meaning in SQL, from which \<open><>\<close> differs on absent fields.
  Rows written are read back, for SQLite through its storage rules. Searches are bounded by their arguments. In the client every
  command returns, rendering is one simultaneous substitution, and the alias commands refine a map.

  \<^bold>\<open>Bounds.\<close> Loops are structural recursions over the lists they traverse; the placeholder pass
  has a measure on the unread text; the retry loop runs over its explicit list of attempts. The
  client's scan of a query for URLs is a partial function, and a property shows that it returns. No
  definition uses fuel.

  \<^bold>\<open>Not modelled.\<close> The engines and drivers themselves, the embedding functions (local inference
  and HTTP services), the InfluxDB, Iceberg and document sources, which mostly call third-party
  readers, the text search of MongoDB, process start and telemetry.
\<close>

section \<open>From the pipeline file to the executed text\<close>

text \<open>
  C21. A pipeline that loads and is given a renderable value for every field of its request schema
  is rendered to exactly the text in which every placeholder is its own value's literal, when no
  value contains an opening brace and the template has none outside its placeholders, whose names
  are parameter names: the fields the loader infers cover every hole of the template, so no
  placeholder is left and none is reported as missing. This is about the substitution; running the
  text is the engine's.
\<close>

theorem loaded_pipeline_renders_completely:
  assumes "pipeline_load_from_file lib yl read path = Inr p"
    and "qd_sql (sp_query_definition p) = template_text ps" and "list_all piece_wf ps"
    and "\<And>h. h \<in> template_holes ps \<Longrightarrow> is_param_name h"
    and "set field_names = dom (sp_request_schema p)"
    and "\<And>n v. params n = Some v \<Longrightarrow> http_value_ok v"
    and "list_all (\<lambda>n. \<exists>v. params n = Some v \<and> http_lit to_text v \<noteq> None) field_names"
  shows "substitute_http_params to_text debug (qd_sql (sp_query_definition p), [], [])
       (longest_first field_names) params =
     (render_template (\<lambda>n. Option.bind (params n) (http_lit to_text)) ps, [], [])"
proof -
  have "set field_names = set (filter is_param_name (holes_of ps))"
    using request_schema_dom [of lib "template_text ps"] loaded_request_schema [OF assms(1)] assms(2,5)
    by (simp add: param_names_template [OF assms(3)])
  then have names: "set field_names = template_holes ps" using assms(4) by (auto simp: set_holes_of)
  then have "list_all brace_free field_names"
    using assms(4) by (auto simp: list_all_iff param_name_brace_free)
  with substitute_http_template [OF _ assms(6,3) _ assms(7)] names show ?thesis
    by (simp add: assms(2))
qed

theorem loaded_pipeline_renders_completely_witness:
  "substitute_http_params (\<lambda>_. []) (\<lambda>_. []) (''DELETE FROM t WHERE x = {x}'', [], []) (longest_first [''x''])
     [''x'' \<mapsto> JNumber ''7''] = (''DELETE FROM t WHERE x = 7'', [], [])"
proof -
  let ?lib = "demo_infer ''DELETE FROM t WHERE x = ?'' [DeleteStmt (Some (column_test ''x''))]"
  let ?yl = "demo_yaml_pipeline ''DELETE FROM t WHERE x = {x}''"
  let ?ps = "[Text ''DELETE FROM t WHERE x = '', Hole ''x'']"
  let ?r = "pipeline_load_from_file ?lib ?yl Inr ''p.yaml''"
  have "(case ?r of Inr p \<Rightarrow> qd_sql (sp_query_definition p) = ''DELETE FROM t WHERE x = {x}'' | Inl _ \<Rightarrow> False)"
    by code_simp
  then obtain p where p: "?r = Inr p" "qd_sql (sp_query_definition p) = ''DELETE FROM t WHERE x = {x}''"
    by (cases ?r) auto
  have t: "template_text ?ps = ''DELETE FROM t WHERE x = {x}''" by code_simp
  have "set [''x''] = set (param_names ''DELETE FROM t WHERE x = {x}'')" by code_simp
  then have d: "set [''x''] = dom (sp_request_schema p)"
    using request_schema_dom [OF conjunct1 [OF loaded_request_schema [OF p(1)]]] p(2) by metis
  have holes: "\<And>h. h \<in> template_holes ?ps \<Longrightarrow> is_param_name h"
    by (auto simp: template_holes_def) code_simp
  have ok: "\<And>n v. [''x'' \<mapsto> JNumber ''7''] n = Some v \<Longrightarrow> http_value_ok v" by (auto split: if_splits)
  have q: "qd_sql (sp_query_definition p) = template_text ?ps" by (simp only: p(2) t)
  have wf: "list_all piece_wf ?ps" by code_simp
  have lits: "list_all (\<lambda>n. \<exists>v. [''x'' \<mapsto> JNumber ''7''] n = Some v \<and> http_lit (\<lambda>_. []) v \<noteq> None) [''x'']"
    by (simp add: http_lit_def)
  have r: "render_template (\<lambda>n. Option.bind ([''x'' \<mapsto> JNumber ''7''] n) (http_lit (\<lambda>_. []))) ?ps
      = ''DELETE FROM t WHERE x = 7''"
    by (simp add: render_template_def http_lit_def)
  show ?thesis
    using loaded_pipeline_renders_completely
      [where params = "[''x'' \<mapsto> JNumber ''7'']" and to_text = "\<lambda>_. []" and debug = "\<lambda>_. []",
       OF p(1) q wf holes d _ lits] ok
    unfolding p(2) r by blast
qed

end
